(* ===== verification/Prelude.thy ===== *)
theory Prelude
  imports Complex_Main "HOL-Library.Sublist" "HOL-Library.Char_ord"
    "HOL-Library.List_Lexorder" "HOL-Library.AList"
begin

text \<open>
  Shared vocabulary of the development: how Python values are represented (strings, datetimes,
  insertion-ordered dicts, raised exceptions), the operations of the Python standard library that
  the sources call, and the generic facts on them that every component uses.
  Strings are lists of code points below 256; floats are idealised as real numbers; a datetime
  is its number of microseconds since the epoch, in UTC.
\<close>

named_theorems py_simps \<open>unfolding rules of the modelled Python library\<close>
named_theorems result_simps \<open>facts on computations that may raise\<close>

section \<open>Time\<close>

type_synonym datetime = int

definition total_seconds :: "int \<Rightarrow> real" where
  "total_seconds d = real_of_int d / 1000000"

definition micros_of_minutes :: "int \<Rightarrow> int" where
  "micros_of_minutes m = m * 60 * 1000000"

definition micros_of_days :: "int \<Rightarrow> int" where
  "micros_of_days d = d * 24 * 60 * 60 * 1000000"

lemma total_seconds_pos_iff [simp]: "0 < total_seconds d \<longleftrightarrow> 0 < d"
  by (simp add: total_seconds_def)

lemma total_seconds_zero [simp]: "total_seconds 0 = 0"
  by (simp add: total_seconds_def)

lemma total_seconds_add: "total_seconds (a + b) = total_seconds a + total_seconds b"
  by (simp add: total_seconds_def add_divide_distrib)

lemma total_seconds_nonneg [intro]: "0 \<le> d \<Longrightarrow> 0 \<le> total_seconds d"
  by (simp add: total_seconds_def)

section \<open>Computations that may raise\<close>

text \<open>\<open>Inl e\<close> is a raised exception, \<open>Inr x\<close> a returned value.\<close>

fun rbind :: "'e + 'a \<Rightarrow> ('a \<Rightarrow> 'e + 'b) \<Rightarrow> 'e + 'b" where
  "rbind (Inl e) f = Inl e"
| "rbind (Inr x) f = f x"

lemma rbind_Inr_iff [result_simps]:
  "rbind m f = Inr y \<longleftrightarrow> (\<exists>x. m = Inr x \<and> f x = Inr y)"
  by (cases m) auto

lemma rbind_Inl_iff [result_simps]:
  "rbind m f = Inl e \<longleftrightarrow> m = Inl e \<or> (\<exists>x. m = Inr x \<and> f x = Inl e)"
  by (cases m) auto

lemma rbind_assoc: "rbind (rbind m f) g = rbind m (\<lambda>x. rbind (f x) g)"
  by (cases m) auto

text \<open>
  Stateful operations that may raise: what was written before the exception stays written, so the
  state is returned on both outcomes.
\<close>

type_synonym ('w, 'e, 'a) op = "'w \<Rightarrow> ('e + 'a) \<times> 'w"

definition sreturn :: "'a \<Rightarrow> ('w, 'e, 'a) op" where
  "sreturn x = (\<lambda>w. (Inr x, w))"

definition sraise :: "'e \<Rightarrow> ('w, 'e, 'a) op" where
  "sraise e = (\<lambda>w. (Inl e, w))"

definition sbind :: "('w, 'e, 'a) op \<Rightarrow> ('a \<Rightarrow> ('w, 'e, 'b) op) \<Rightarrow> ('w, 'e, 'b) op" where
  "sbind m f = (\<lambda>w. case m w of (Inl e, w') \<Rightarrow> (Inl e, w') | (Inr x, w') \<Rightarrow> f x w')"

definition slift :: "('w \<Rightarrow> 'e + 'a) \<Rightarrow> ('w, 'e, 'a) op" where
  "slift f = (\<lambda>w. (f w, w))"

lemma sreturn_apply [simp]: "sreturn x w = (Inr x, w)"
  by (simp add: sreturn_def)

lemma sraise_apply [simp]: "sraise e w = (Inl e, w)"
  by (simp add: sraise_def)

lemma slift_apply [simp]: "slift f w = (f w, w)"
  by (simp add: slift_def)

lemma sbind_apply: "sbind m f w = (case m w of (Inl e, w') \<Rightarrow> (Inl e, w') | (Inr x, w') \<Rightarrow> f x w')"
  by (simp add: sbind_def)

lemma sbind_Inr [result_simps]:
  "sbind m f w = (Inr y, w'') \<longleftrightarrow> (\<exists>x w'. m w = (Inr x, w') \<and> f x w' = (Inr y, w''))"
  by (auto simp: sbind_def split: prod.splits sum.splits)

lemma sbind_Inl [result_simps]:
  "sbind m f w = (Inl e, w'') \<longleftrightarrow>
     m w = (Inl e, w'') \<or> (\<exists>x w'. m w = (Inr x, w') \<and> f x w' = (Inl e, w''))"
  by (auto simp: sbind_def split: prod.splits sum.splits)

text \<open>A relation between the states before and after that every step keeps is kept by a sequence.\<close>

lemma sbind_state:
  assumes "R w (snd (m w))" "\<And>x w'. m w = (Inr x, w') \<Longrightarrow> R w w' \<Longrightarrow> R w (snd (f x w'))"
  shows "R w (snd (sbind m f w))"
  using assms by (auto simp: sbind_def split: prod.splits sum.splits)

section \<open>Strings\<close>

text \<open>\<open>str.isspace\<close> on the code points below 256; the same class as \<open>\<backslash>s\<close> in a \<open>str\<close> pattern.\<close>

definition is_space :: "char \<Rightarrow> bool" where
  "is_space c = (let n = of_char c :: nat in
     (9 \<le> n \<and> n \<le> 13) \<or> (28 \<le> n \<and> n \<le> 32) \<or> n = 133 \<or> n = 160)"

definition lstrip :: "string \<Rightarrow> string" where
  "lstrip s = dropWhile is_space s"

definition rstrip :: "string \<Rightarrow> string" where
  "rstrip s = rev (dropWhile is_space (rev s))"

definition strip :: "string \<Rightarrow> string" where
  "strip s = rstrip (lstrip s)"

definition lower_char :: "char \<Rightarrow> char" where
  "lower_char c = (let n = of_char c :: nat in
     if (65 \<le> n \<and> n \<le> 90) \<or> (192 \<le> n \<and> n \<le> 222 \<and> n \<noteq> 215) then char_of (n + 32) else c)"

definition lower :: "string \<Rightarrow> string" where
  "lower s = map lower_char s"

definition upper_char :: "char \<Rightarrow> char" where
  "upper_char c = (let n = of_char c :: nat in
     if (97 \<le> n \<and> n \<le> 122) \<or> (224 \<le> n \<and> n \<le> 254 \<and> n \<noteq> 247) then char_of (n - 32) else c)"

definition upper :: "string \<Rightarrow> string" where
  "upper s = map upper_char s"

definition startswith :: "string \<Rightarrow> string \<Rightarrow> bool" where
  "startswith s p = (take (length p) s = p)"

fun join :: "string \<Rightarrow> string list \<Rightarrow> string" where
  "join sep [] = []"
| "join sep [x] = x"
| "join sep (x # y # xs) = x @ sep @ join sep (y # xs)"

text \<open>The part before the first occurrence of a character: \<open>s.split(c, 1)[0]\<close>.\<close>

definition split_first :: "char \<Rightarrow> string \<Rightarrow> string" where
  "split_first c s = takeWhile (\<lambda>x. x \<noteq> c) s"

text \<open>\<open>s.split(c)\<close> for a one-character separator.\<close>

fun split_on :: "char \<Rightarrow> string \<Rightarrow> string list" where
  "split_on c [] = [[]]"
| "split_on c (x # xs) =
     (if x = c then [] # split_on c xs
      else case split_on c xs of [] \<Rightarrow> [[x]] | y # ys \<Rightarrow> (x # y) # ys)"

lemma split_on_nonempty [simp]: "split_on c s \<noteq> []"
  by (cases s) (auto split: list.splits)

lemma hd_split_on: "hd (split_on c s) = split_first c s"
  by (induction s) (auto simp: split_first_def split: list.splits)

text \<open>\<open>s.split()\<close>: the maximal runs without white space.\<close>

fun split_words :: "string \<Rightarrow> string \<Rightarrow> string list" where
  "split_words [] acc = (if acc = [] then [] else [rev acc])"
| "split_words (c # s) acc =
     (if is_space c then (if acc = [] then split_words s [] else rev acc # split_words s [])
      else split_words s (c # acc))"

text \<open>A code point outside ASCII that the prompt texts use; one character, as Python counts it.\<close>

definition em_dash :: string where
  "em_dash = [CHR 0x97]"

definition newline :: string where
  "newline = [CHR 0x0A]"

fun digits_rev :: "nat \<Rightarrow> string" where
  "digits_rev n = (if n < 10 then [char_of (48 + n)]
     else char_of (48 + n mod 10) # digits_rev (n div 10))"

declare digits_rev.simps [simp del]

text \<open>\<open>str(n)\<close> of an integer.\<close>

definition str_nat :: "nat \<Rightarrow> string" where
  "str_nat n = rev (digits_rev n)"

definition str_int :: "int \<Rightarrow> string" where
  "str_int i = (if i < 0 then CHR ''-'' # str_nat (nat (- i)) else str_nat (nat i))"

text \<open>\<open>str.isalnum\<close> on the code points below 256, and the class \<open>\<backslash>w\<close> of a pattern.\<close>

definition is_alnum :: "char \<Rightarrow> bool" where
  "is_alnum c = (let n = of_char c :: nat in
     (48 \<le> n \<and> n \<le> 57) \<or> (65 \<le> n \<and> n \<le> 90) \<or> (97 \<le> n \<and> n \<le> 122)
     \<or> n \<in> {170, 178, 179, 181, 185, 186, 188, 189, 190}
     \<or> (192 \<le> n \<and> n \<noteq> 215 \<and> n \<noteq> 247))"

definition is_word :: "char \<Rightarrow> bool" where
  "is_word c = (is_alnum c \<or> c = CHR ''_'')"

text \<open>
  \<open>repr(s)\<close>: single quotes unless the text has one and no double quote; the backslash, the
  quote and what is not printable are escaped.
\<close>

definition hex_digit :: "nat \<Rightarrow> char" where
  "hex_digit n = char_of (if n < 10 then 48 + n else 87 + n)"

definition repr_char :: "char \<Rightarrow> char \<Rightarrow> string" where
  "repr_char q c = (let n = of_char c :: nat in
     if c = q \<or> c = CHR 0x5C then [CHR 0x5C, c]
     else if n = 9 then [CHR 0x5C, CHR ''t'']
     else if n = 10 then [CHR 0x5C, CHR ''n'']
     else if n = 13 then [CHR 0x5C, CHR ''r'']
     else if n < 32 \<or> (127 \<le> n \<and> n \<le> 160) \<or> n = 173 then [CHR 0x5C, CHR ''x'', hex_digit (n div 16), hex_digit (n mod 16)]
     else [c])"

definition py_repr :: "string \<Rightarrow> string" where
  "py_repr s = (let q = (if CHR 0x27 \<in> set s \<and> CHR 0x22 \<notin> set s then CHR 0x22 else CHR 0x27)
     in [q] @ concat (map (repr_char q) s) @ [q])"

lemma length_rstrip_le: "length (rstrip s) \<le> length s"
  by (metis length_dropWhile_le length_rev rstrip_def)

lemma length_lstrip_le: "length (lstrip s) \<le> length s"
  by (simp add: lstrip_def length_dropWhile_le)

lemma length_strip_le: "length (strip s) \<le> length s"
  unfolding strip_def using length_rstrip_le length_lstrip_le le_trans by blast

lemma rstrip_idem [simp]: "rstrip (rstrip s) = rstrip s"
  by (simp add: rstrip_def)

lemma rstrip_Nil_iff: "rstrip s = [] \<longleftrightarrow> (\<forall>c\<in>set s. is_space c)"
  by (simp add: rstrip_def dropWhile_eq_Nil_conv)

lemma lstrip_Nil_iff: "lstrip s = [] \<longleftrightarrow> (\<forall>c\<in>set s. is_space c)"
  by (simp add: lstrip_def dropWhile_eq_Nil_conv)

lemma rstrip_append_nonspace: "\<not> is_space c \<Longrightarrow> rstrip (s @ [c]) = s @ [c]"
  by (simp add: rstrip_def)

lemma rstrip_prefix: "prefix (rstrip s) s"
proof -
  have "suffix (dropWhile is_space (rev s)) (rev s)" by (rule suffix_dropWhile)
  then show ?thesis by (simp add: rstrip_def suffix_to_prefix)
qed

lemma lstrip_rstrip_fixed: "lstrip s = s \<Longrightarrow> lstrip (rstrip s) = rstrip s"
proof (cases "rstrip s")
  case Nil
  then show ?thesis by (simp add: lstrip_def)
next
  case (Cons c t)
  assume fixed: "lstrip s = s"
  from Cons rstrip_prefix [of s] obtain u where s: "s = c # u"
    by (auto simp: prefix_def)
  with fixed have "\<not> is_space c"
    by (metis hd_dropWhile list.sel(1) list.distinct(1) lstrip_def)
  with Cons show ?thesis by (simp add: lstrip_def)
qed

lemma lstrip_idem [simp]: "lstrip (lstrip s) = lstrip s"
  by (simp add: lstrip_def)

lemma strip_idem [simp]: "strip (strip s) = strip s"
  by (simp add: strip_def lstrip_rstrip_fixed)

lemma strip_Nil_iff: "strip s = [] \<longleftrightarrow> (\<forall>c\<in>set s. is_space c)"
proof -
  have "(\<forall>c\<in>set (lstrip s). is_space c) \<longleftrightarrow> lstrip (lstrip s) = []"
    by (rule lstrip_Nil_iff [symmetric])
  then show ?thesis by (simp add: strip_def rstrip_Nil_iff lstrip_Nil_iff)
qed

text \<open>
  \<open>int(s)\<close>: surrounding white space, an optional sign, decimal digits with single underscores
  between digits; \<open>None\<close> is \<open>ValueError\<close>.
\<close>

definition is_digit :: "char \<Rightarrow> bool" where
  "is_digit c = (let n = of_char c :: nat in 48 \<le> n \<and> n \<le> 57)"

definition digits_value :: "string \<Rightarrow> nat" where
  "digits_value ds = foldl (\<lambda>a c. 10 * a + (of_char c - 48)) 0 ds"

fun single_underscores :: "string \<Rightarrow> bool" where
  "single_underscores [] = True"
| "single_underscores [c] = is_digit c"
| "single_underscores (c # d # cs) =
     ((is_digit c \<or> c = CHR ''_'' \<and> is_digit d) \<and> single_underscores (d # cs))"

definition py_int :: "string \<Rightarrow> int option" where
  "py_int s = (let t = strip s;
       neg = startswith t ''-'';
       ds = (if neg \<or> startswith t ''+'' then tl t else t)
     in if ds = [] \<or> hd ds = CHR ''_'' \<or> \<not> single_underscores ds then None
        else let n = int (digits_value (filter is_digit ds)) in Some (if neg then - n else n))"

lemma of_char_digit: "n < 10 \<Longrightarrow> of_char (char_of (48 + n) :: char) = (48 + n :: nat)"
  by (simp add: of_char_of)

lemma is_digit_digit [simp]: "(n::nat) < 10 \<Longrightarrow> is_digit (char_of (48 + n))"
  by (simp add: is_digit_def of_char_digit Let_def)

lemma digits_rev_digits: "\<forall>c\<in>set (digits_rev n). is_digit c"
proof (induction n rule: digits_rev.induct)
  case (1 n)
  then show ?case by (subst digits_rev.simps) auto
qed

lemma digits_rev_nonempty [simp]: "digits_rev n \<noteq> []"
  by (subst digits_rev.simps) simp

lemma digits_rev_value: "digits_value (rev (digits_rev n)) = n"
proof (induction n rule: digits_rev.induct)
  case (1 n)
  show ?case
  proof (cases "n < 10")
    case True
    then show ?thesis by (subst digits_rev.simps) (simp add: digits_value_def of_char_digit)
  next
    case False
    with 1 have "digits_value (rev (digits_rev (n div 10))) = n div 10" by simp
    with False show ?thesis
      by (subst digits_rev.simps) (simp add: digits_value_def of_char_digit)
  qed
qed

lemma str_nat_digits: "c \<in> set (str_nat n) \<Longrightarrow> is_digit c" "str_nat n \<noteq> []"
  using digits_rev_digits by (auto simp: str_nat_def)

lemma single_underscores_digits: "\<forall>c\<in>set s. is_digit c \<Longrightarrow> single_underscores s"
  by (induction s rule: single_underscores.induct) auto

lemma digit_not_special: "is_digit c \<Longrightarrow> \<not> is_space c \<and> c \<noteq> CHR ''-'' \<and> c \<noteq> CHR ''+'' \<and> c \<noteq> CHR ''_''"
  by (auto simp: is_digit_def is_space_def Let_def)

lemma strip_no_space: "\<forall>c\<in>set s. \<not> is_space c \<Longrightarrow> strip s = s"
proof -
  assume a: "\<forall>c\<in>set s. \<not> is_space c"
  then have "dropWhile is_space s = s" by (cases s) auto
  moreover from a have "dropWhile is_space (rev s) = rev s" by (cases "rev s") (auto simp: dropWhile_eq_self_iff)
  ultimately show ?thesis by (simp add: strip_def lstrip_def rstrip_def)
qed

lemma startswith_single: "startswith s [c] \<longleftrightarrow> s \<noteq> [] \<and> hd s = c"
  by (cases s) (auto simp: startswith_def)

lemma py_int_digits:
  assumes "\<forall>c\<in>set ds. is_digit c" "ds \<noteq> []"
  shows "py_int ds = Some (int (digits_value ds))"
proof -
  have st: "strip ds = ds" using assms(1) by (auto intro!: strip_no_space simp: digit_not_special)
  have fl: "filter is_digit ds = ds" using assms(1) by (simp add: filter_id_conv)
  have "is_digit (hd ds)" using assms by simp
  then have "hd ds \<noteq> CHR ''-''" "hd ds \<noteq> CHR ''+''" "hd ds \<noteq> CHR ''_''"
    using digit_not_special by blast+
  then show ?thesis
    using assms by (simp add: py_int_def st fl Let_def startswith_single single_underscores_digits)
qed

lemma py_int_str_nat: "py_int (str_nat n) = Some (int n)"
proof -
  have "\<forall>c\<in>set (str_nat n). is_digit c" using str_nat_digits(1) by blast
  then have "py_int (str_nat n) = Some (int (digits_value (str_nat n)))"
    by (rule py_int_digits) (rule str_nat_digits(2))
  then show ?thesis by (simp add: str_nat_def digits_rev_value)
qed

lemma py_int_minus:
  assumes "\<forall>c\<in>set ds. is_digit c" "ds \<noteq> []"
  shows "py_int (CHR ''-'' # ds) = Some (- int (digits_value ds))"
proof -
  have "strip (CHR ''-'' # ds) = CHR ''-'' # ds"
  proof (intro strip_no_space ballI)
    fix c assume "c \<in> set (CHR ''-'' # ds)"
    moreover have "\<not> is_space (CHR ''-'')" by (simp add: is_space_def)
    ultimately show "\<not> is_space c" using assms(1) digit_not_special by auto
  qed
  moreover have "filter is_digit ds = ds" using assms(1) by (simp add: filter_id_conv)
  moreover have "hd ds \<noteq> CHR ''_''" using assms digit_not_special [of "hd ds"] by auto
  ultimately show ?thesis
    using assms by (simp add: py_int_def Let_def startswith_single single_underscores_digits)
qed

lemma py_int_str_int: "py_int (str_int i) = Some i"
proof (cases "i < 0")
  case True
  have "\<forall>c\<in>set (str_nat (nat (- i))). is_digit c" using str_nat_digits(1) by blast
  then have "py_int (str_int i) = Some (- int (digits_value (str_nat (nat (- i)))))"
    using True str_nat_digits(2) by (simp add: str_int_def py_int_minus)
  with True show ?thesis by (simp add: str_nat_def digits_rev_value)
next
  case False
  then show ?thesis by (simp add: str_int_def py_int_str_nat)
qed

section \<open>Rounding\<close>

text \<open>\<open>round(x, 4)\<close>, to the nearest multiple of 0.0001.\<close>

definition round4 :: "real \<Rightarrow> real" where
  "round4 x = real_of_int (round (x * 10000)) / 10000"

lemma round4_bounds:
  assumes "real_of_int a / 10000 \<le> x" "x \<le> real_of_int b / 10000"
  shows "real_of_int a / 10000 \<le> round4 x \<and> round4 x \<le> real_of_int b / 10000"
proof -
  have "round (real_of_int a) \<le> round (x * 10000)" "round (x * 10000) \<le> round (real_of_int b)"
    using assms by (intro round_mono; simp)+
  then show ?thesis by (simp add: round4_def divide_right_mono)
qed

section \<open>Insertion-ordered dicts\<close>

text \<open>
  A Python dict is an association list with distinct keys: assignment replaces in place or appends
  (\<^const>\<open>AList.update\<close>), lookup is \<^const>\<open>map_of\<close>, iteration is list order.
\<close>

type_synonym ('k, 'v) dict = "('k \<times> 'v) list"

text \<open>\<open>counts[k] = counts.get(k, 0) + 1\<close> over a sequence of keys.\<close>

fun count_keys :: "'k list \<Rightarrow> ('k, nat) dict \<Rightarrow> ('k, nat) dict" where
  "count_keys [] d = d"
| "count_keys (k # ks) d =
     count_keys ks (AList.update k (case map_of d k of None \<Rightarrow> 1 | Some n \<Rightarrow> Suc n) d)"

lemma count_keys_distinct: "distinct (map fst d) \<Longrightarrow> distinct (map fst (count_keys ks d))"
  by (induction ks arbitrary: d) (auto simp: distinct_update)

lemma count_keys_lookup:
  "map_of (count_keys ks d) k =
     (if k \<in> set ks then Some (count_list ks k + (case map_of d k of None \<Rightarrow> 0 | Some n \<Rightarrow> n))
      else map_of d k)"
proof (induction ks arbitrary: d)
  case Nil
  then show ?case by simp
next
  case (Cons x ks)
  show ?case
    by (auto simp: Cons.IH update_conv count_list_0_iff split: option.splits)
qed

lemma count_keys_mem:
  "(k, n) \<in> set (count_keys ks []) \<longleftrightarrow> k \<in> set ks \<and> n = count_list ks k"
proof -
  have "distinct (map fst (count_keys ks []))" by (rule count_keys_distinct) simp
  then have "(k, n) \<in> set (count_keys ks []) \<longleftrightarrow> map_of (count_keys ks []) k = Some n"
    by simp
  then show ?thesis by (auto simp: count_keys_lookup)
qed

text \<open>Items of a sequence in order, each key once: the \<open>seen\<close>-set loops of the sources.\<close>

fun dedup_by :: "('a \<Rightarrow> 'k) \<Rightarrow> 'k set \<Rightarrow> 'a list \<Rightarrow> 'a list" where
  "dedup_by f seen [] = []"
| "dedup_by f seen (x # xs) =
     (if f x \<in> seen then dedup_by f seen xs else x # dedup_by f (insert (f x) seen) xs)"

lemma dedup_by_keys: "f ` set (dedup_by f seen xs) = f ` set xs - seen"
  by (induction xs arbitrary: seen) auto

lemma dedup_by_distinct: "distinct (map f (dedup_by f seen xs))"
proof (induction xs arbitrary: seen)
  case Nil
  then show ?case by simp
next
  case (Cons x xs)
  have "f x \<notin> f ` set (dedup_by f (insert (f x) seen) xs)"
    by (simp add: dedup_by_keys)
  with Cons show ?case by auto
qed

lemma dedup_by_subset: "set (dedup_by f seen xs) \<subseteq> set xs"
  by (induction xs arbitrary: seen) auto

section \<open>Enumerations\<close>

text \<open>The first element of a list satisfying a test, as \<open>next((x for x in xs if p x), None)\<close>.\<close>

definition next_where :: "('a \<Rightarrow> bool) \<Rightarrow> 'a list \<Rightarrow> 'a option" where
  "next_where p xs = List.find p xs"

lemma next_where_None [simp]: "next_where p xs = None \<longleftrightarrow> (\<forall>x\<in>set xs. \<not> p x)"
  by (auto simp: next_where_def find_None_iff)

lemma next_where_Some: "next_where p xs = Some x \<Longrightarrow> x \<in> set xs \<and> p x"
  by (auto simp: next_where_def find_Some_iff)

end
