(* ===== verification/Rate_Limiter.thy ===== *)
theory Rate_Limiter
  imports Prelude
begin

text \<open>
  The keyed rate limiter of \<open>security/rate_limiter.py\<close>: the \<open>RateLimiter\<close> protocol as the locale
  \<open>rate_limiter\<close>, its token-bucket implementation and its no-op implementation as interpretations.
  Every \<open>check\<close> runs under one \<open>asyncio.Lock\<close>, so concurrent callers are an arbitrary sequence of
  atomic checks; a sequence of requests is run by \<open>run_checks\<close>. The facts shown are the bound on the
  number of admitted requests per key, independence of keys, the token invariant and that waiting
  the announced delay is enough.
\<close>

section \<open>Decisions and buckets\<close>

text \<open>\<open>float("inf")\<close> is the value \<open>Infinite\<close>.\<close>

datatype delay = Seconds real | Infinite

record rate_limit_decision =
  allowed :: bool
  retry_after_seconds :: delay

record bucket =
  tokens :: real
  last_refill :: datetime

type_synonym buckets = "string \<rightharpoonup> bucket"

section \<open>The in-memory token bucket\<close>

definition refill :: "datetime \<Rightarrow> int \<Rightarrow> real \<Rightarrow> bucket option \<Rightarrow> bucket" where
  "refill now capacity refill_per_second b =
     (case b of
        None \<Rightarrow> \<lparr>tokens = real_of_int capacity, last_refill = now\<rparr>
      | Some bk \<Rightarrow>
          let elapsed = total_seconds (now - last_refill bk) in
          if elapsed > 0
          then bk\<lparr>tokens := min (real_of_int capacity) (tokens bk + elapsed * refill_per_second),
                  last_refill := now\<rparr>
          else bk)"

definition take_token :: "real \<Rightarrow> bucket \<Rightarrow> rate_limit_decision \<times> bucket" where
  "take_token refill_per_second bk =
     (if tokens bk \<ge> 1
      then (\<lparr>allowed = True, retry_after_seconds = Seconds 0\<rparr>, bk\<lparr>tokens := tokens bk - 1\<rparr>)
      else let missing = 1 - tokens bk;
               retry_after = (if refill_per_second > 0 then Seconds (missing / refill_per_second)
                              else Infinite)
           in (\<lparr>allowed = False, retry_after_seconds = retry_after\<rparr>, bk))"

definition check_bucket ::
  "datetime \<Rightarrow> buckets \<Rightarrow> string \<Rightarrow> int \<Rightarrow> real \<Rightarrow> rate_limit_decision \<times> buckets" where
  "check_bucket now s key capacity refill_per_second =
     (let bk = refill now capacity refill_per_second (s key);
          (d, bk') = take_token refill_per_second bk
      in (d, s(key \<mapsto> bk')))"

text \<open>The no-op limiter keeps no state and admits everything.\<close>

definition check_noop ::
  "datetime \<Rightarrow> unit \<Rightarrow> string \<Rightarrow> int \<Rightarrow> real \<Rightarrow> rate_limit_decision \<times> unit" where
  "check_noop now s key capacity refill_per_second =
     (\<lparr>allowed = True, retry_after_seconds = Seconds 0\<rparr>, ())"

section \<open>Sequences of requests\<close>

record rl_request =
  rq_time :: datetime
  rq_key :: string
  rq_capacity :: int
  rq_refill :: real

fun run_checks ::
  "(datetime \<Rightarrow> 's \<Rightarrow> string \<Rightarrow> int \<Rightarrow> real \<Rightarrow> rate_limit_decision \<times> 's) \<Rightarrow>
   's \<Rightarrow> rl_request list \<Rightarrow> (rl_request \<times> rate_limit_decision) list" where
  "run_checks check s [] = []"
| "run_checks check s (q # qs) =
     (let (d, s') = check (rq_time q) s (rq_key q) (rq_capacity q) (rq_refill q)
      in (q, d) # run_checks check s' qs)"

definition admitted :: "string \<Rightarrow> (rl_request \<times> rate_limit_decision) list \<Rightarrow> nat" where
  "admitted key ds = length (filter (\<lambda>(q, d). rq_key q = key \<and> allowed d) ds)"

lemma admitted_Nil [simp]: "admitted key [] = 0"
  by (simp add: admitted_def)

lemma admitted_Cons [simp]:
  "admitted key ((q, d) # ds) = (if rq_key q = key \<and> allowed d then 1 else 0) + admitted key ds"
  by (simp add: admitted_def)

section \<open>The protocol\<close>

text \<open>
  What every implementation of the \<open>RateLimiter\<close> protocol promises: one key's decisions depend on and
  change that key's own state only (\<open>view\<close>), an admitted caller is told to wait zero seconds and a
  refused one a positive time.
\<close>

locale rate_limiter =
  fixes check :: "datetime \<Rightarrow> 's \<Rightarrow> string \<Rightarrow> int \<Rightarrow> real \<Rightarrow> rate_limit_decision \<times> 's"
    and view :: "'s \<Rightarrow> string \<Rightarrow> 'b"
  assumes check_frame: "k' \<noteq> k \<Longrightarrow> view (snd (check now s k c r)) k' = view s k'"
    and check_local: "view s k = view t k \<Longrightarrow>
      fst (check now s k c r) = fst (check now t k c r) \<and>
      view (snd (check now s k c r)) k = view (snd (check now t k c r)) k"
    and check_admitted: "allowed (fst (check now s k c r)) \<Longrightarrow>
      retry_after_seconds (fst (check now s k c r)) = Seconds 0"
    and check_refused: "\<not> allowed (fst (check now s k c r)) \<Longrightarrow>
      retry_after_seconds (fst (check now s k c r)) \<noteq> Seconds 0"
begin

lemma run_same_key:
  "view s key = view t key \<Longrightarrow>
   filter (\<lambda>(q, d). rq_key q = key) (run_checks check s qs) =
   run_checks check t (filter (\<lambda>q. rq_key q = key) qs)"
proof (induction qs arbitrary: s t)
  case Nil
  then show ?case by simp
next
  case (Cons q qs)
  let ?c = "\<lambda>x. check (rq_time q) x (rq_key q) (rq_capacity q) (rq_refill q)"
  show ?case
  proof (cases "rq_key q = key")
    case True
    with Cons.prems have same: "fst (?c s) = fst (?c t)" "view (snd (?c s)) key = view (snd (?c t)) key"
      using check_local [of s key t] by auto
    with True show ?thesis using Cons.IH [of "snd (?c s)" "snd (?c t)"]
      by (simp add: case_prod_beta)
  next
    case False
    then have "view (snd (?c s)) key = view t key"
      using check_frame [of key "rq_key q"] Cons.prems by auto
    with False show ?thesis using Cons.IH [of "snd (?c s)" t]
      by (simp add: case_prod_beta)
  qed
qed

lemma admitted_restrict:
  "admitted key (run_checks check s qs) =
   admitted key (run_checks check s (filter (\<lambda>q. rq_key q = key) qs))"
proof -
  have own: "admitted key ds = admitted key (filter (\<lambda>(q, d). rq_key q = key) ds)" for ds
    by (induction ds) (auto simp: admitted_def)
  show ?thesis by (subst own) (simp add: run_same_key)
qed

lemma wait_iff_refused:
  "retry_after_seconds (fst (check now s k c r)) = Seconds 0 \<longleftrightarrow> allowed (fst (check now s k c r))"
  using check_admitted check_refused by blast

end

section \<open>Both implementations satisfy the protocol\<close>

lemmas bucket_defs = check_bucket_def refill_def take_token_def

interpretation bucket_rl: rate_limiter check_bucket "\<lambda>s k. s k"
proof
  fix now :: datetime and s :: buckets and k c r
  assume "\<not> allowed (fst (check_bucket now s k c r))"
  then show "retry_after_seconds (fst (check_bucket now s k c r)) \<noteq> Seconds 0"
    by (auto simp: check_bucket_def take_token_def Let_def split: if_splits)
qed (auto simp: check_bucket_def take_token_def Let_def case_prod_beta split: if_splits)

interpretation noop_rl: rate_limiter check_noop "\<lambda>s k. ()"
  by unfold_locales (auto simp: check_noop_def)

section \<open>Token accounting\<close>

definition bucket_ok :: "int \<Rightarrow> bucket \<Rightarrow> bool" where
  "bucket_ok capacity bk \<longleftrightarrow> 0 \<le> tokens bk \<and> tokens bk \<le> real_of_int capacity"

lemma refill_ok:
  assumes "0 \<le> c" "0 \<le> r" "\<And>bk. b = Some bk \<Longrightarrow> bucket_ok c bk"
  shows "bucket_ok c (refill now c r b)"
proof (cases b)
  case None
  with assms show ?thesis by (simp add: refill_def bucket_ok_def)
next
  case (Some bk)
  then have "bucket_ok c bk" by (rule assms(3))
  with Some assms(1,2) show ?thesis
    by (auto simp: refill_def bucket_ok_def Let_def
        intro!: add_nonneg_nonneg mult_nonneg_nonneg total_seconds_nonneg)
qed

lemma take_token_ok: "bucket_ok c bk \<Longrightarrow> bucket_ok c (snd (take_token r bk))"
  by (auto simp: take_token_def bucket_ok_def Let_def)

lemma refill_gain:
  assumes "last_refill bk \<le> now" "0 \<le> r"
  shows "tokens (refill now c r (Some bk)) \<le> tokens bk + r * total_seconds (now - last_refill bk)"
    and "last_refill (refill now c r (Some bk)) = now"
  using assms by (auto simp: refill_def Let_def mult.commute)

lemma refill_new: "tokens (refill now c r None) = real_of_int c" "last_refill (refill now c r None) = now"
  by (simp_all add: refill_def)

lemma take_token_spends:
  "tokens (snd (take_token r bk)) + (if allowed (fst (take_token r bk)) then 1 else 0) = tokens bk"
  "last_refill (snd (take_token r bk)) = last_refill bk"
  by (auto simp: take_token_def Let_def)

lemma check_bucket_simps [simp]:
  "fst (check_bucket now s k c r) = fst (take_token r (refill now c r (s k)))"
  "snd (check_bucket now s k c r) k = Some (snd (take_token r (refill now c r (s k))))"
  by (simp_all add: check_bucket_def Let_def case_prod_beta)

text \<open>Requests of one key, at one capacity and refill rate, at times that never go back.\<close>

definition one_key :: "string \<Rightarrow> int \<Rightarrow> real \<Rightarrow> rl_request list \<Rightarrow> bool" where
  "one_key key c r qs \<longleftrightarrow>
     (\<forall>q\<in>set qs. rq_key q = key \<and> rq_capacity q = c \<and> rq_refill q = r)"

lemma one_key_Cons [simp]:
  "one_key key c r (q # qs) \<longleftrightarrow>
     rq_key q = key \<and> rq_capacity q = c \<and> rq_refill q = r \<and> one_key key c r qs"
  by (auto simp: one_key_def)

lemma admitted_from_bucket:
  assumes "s key = Some bk" "bucket_ok c bk" "one_key key c r qs" "0 \<le> c" "0 \<le> r"
    and "sorted (last_refill bk # map rq_time qs)" "\<forall>q\<in>set qs. rq_time q \<le> T" "last_refill bk \<le> T"
  shows "real (admitted key (run_checks check_bucket s qs)) \<le>
           tokens bk + r * total_seconds (T - last_refill bk)"
  using assms
proof (induction qs arbitrary: s bk)
  case Nil
  then show ?case by (auto simp: bucket_ok_def intro!: add_nonneg_nonneg mult_nonneg_nonneg)
next
  case (Cons q qs)
  let ?now = "rq_time q"
  define b1 where "b1 = refill ?now c r (Some bk)"
  define b2 where "b2 = snd (take_token r b1)"
  define s' where "s' = snd (check_bucket ?now s key c r)"
  have last: "last_refill bk \<le> ?now" using Cons.prems(6) by simp
  have l2: "last_refill b2 = ?now"
    by (simp add: b2_def b1_def take_token_spends refill_gain(2) [OF last Cons.prems(5)])
  have ok: "bucket_ok c b2"
    unfolding b2_def b1_def using Cons.prems(2,4,5) by (intro take_token_ok refill_ok) auto
  have s': "s' key = Some b2" using Cons.prems(1) by (simp add: s'_def b1_def b2_def)
  have IH: "real (admitted key (run_checks check_bucket s' qs)) \<le> tokens b2 + r * total_seconds (T - ?now)"
    using Cons.IH [of s' b2] s' ok Cons.prems l2 by simp
  have gain: "tokens b1 \<le> tokens bk + r * total_seconds (?now - last_refill bk)"
    unfolding b1_def by (rule refill_gain(1) [OF last Cons.prems(5)])
  have split: "total_seconds (T - last_refill bk) =
      total_seconds (T - ?now) + total_seconds (?now - last_refill bk)"
    by (simp flip: total_seconds_add)
  have "real (admitted key (run_checks check_bucket s (q # qs))) =
      (if allowed (fst (take_token r b1)) then 1 else 0) + real (admitted key (run_checks check_bucket s' qs))"
    using Cons.prems(1,3) by (simp add: b1_def s'_def case_prod_beta)
  also have "\<dots> \<le> tokens b1 + r * total_seconds (T - ?now)"
    using IH take_token_spends(1) [of r b1] by (simp add: b2_def)
  also have "\<dots> \<le> tokens bk + r * total_seconds (T - last_refill bk)"
    using gain by (simp add: split algebra_simps)
  finally show ?case .
qed

lemma admitted_fresh:
  assumes "s key = None" "one_key key c r qs" "0 \<le> c" "0 \<le> r"
    and "sorted (t0 # map rq_time qs)" "\<forall>q\<in>set qs. rq_time q \<le> T" "t0 \<le> T"
  shows "real (admitted key (run_checks check_bucket s qs)) \<le> real_of_int c + r * total_seconds (T - t0)"
proof (cases qs)
  case Nil
  with assms(3,4,7) show ?thesis by (auto intro!: add_nonneg_nonneg mult_nonneg_nonneg)
next
  case (Cons q qs')
  let ?full = "\<lparr>tokens = real_of_int c, last_refill = rq_time q\<rparr>"
  define s0 where "s0 = s(key \<mapsto> ?full)"
  have "refill (rq_time q) c r (s key) = refill (rq_time q) c r (s0 key)"
    using assms(1) by (simp add: refill_def s0_def)
  then have same: "run_checks check_bucket s qs = run_checks check_bucket s0 qs"
    using Cons assms(2) by (simp add: check_bucket_def s0_def)
  have "real (admitted key (run_checks check_bucket s0 qs)) \<le>
      tokens ?full + r * total_seconds (T - last_refill ?full)"
    using assms Cons by (intro admitted_from_bucket) (auto simp: s0_def bucket_ok_def)
  also have "\<dots> \<le> real_of_int c + r * total_seconds (T - t0)"
    using assms(4,5) Cons by (auto intro!: mult_left_mono simp: total_seconds_def divide_right_mono)
  finally show ?thesis using same by simp
qed

section \<open>Properties\<close>

text \<open>
  C1. Rate bound: whatever other keys are checked in between, the requests admitted for one key
  between \<open>t0\<close> and \<open>T\<close> number at most its capacity plus what the refill rate pays for in that time,
  provided the clock never goes back and every request for that key states the same limit.
\<close>

theorem rate_bound:
  assumes "s key = None" "0 \<le> c" "0 \<le> r" "t0 \<le> T"
    and "one_key key c r (filter (\<lambda>q. rq_key q = key) qs)"
    and "sorted (map rq_time qs)" "\<forall>q\<in>set qs. t0 \<le> rq_time q \<and> rq_time q \<le> T"
  shows "real (admitted key (run_checks check_bucket s qs)) \<le> real_of_int c + r * total_seconds (T - t0)"
proof -
  have "sorted (map rq_time (filter (\<lambda>q. rq_key q = key) qs))"
    using assms(6) by (simp add: sorted_filter)
  then have "real (admitted key (run_checks check_bucket s (filter (\<lambda>q. rq_key q = key) qs)))
      \<le> real_of_int c + r * total_seconds (T - t0)"
    using assms by (intro admitted_fresh) auto
  then show ?thesis by (simp flip: bucket_rl.admitted_restrict)
qed

definition burst_requests :: "rl_request list" where
  "burst_requests =
     [\<lparr>rq_time = 0, rq_key = ''a'', rq_capacity = 1, rq_refill = 1 / 2\<rparr>,
      \<lparr>rq_time = 0, rq_key = ''b'', rq_capacity = 9, rq_refill = 1\<rparr>,
      \<lparr>rq_time = 1000000, rq_key = ''a'', rq_capacity = 1, rq_refill = 1 / 2\<rparr>,
      \<lparr>rq_time = 2000000, rq_key = ''a'', rq_capacity = 1, rq_refill = 1 / 2\<rparr>]"

lemma burst_admitted: "admitted ''a'' (run_checks check_bucket Map.empty burst_requests) = 2"
  by (simp add: burst_requests_def bucket_defs total_seconds_def Let_def)

theorem rate_bound_witness:
  "admitted ''a'' (run_checks check_bucket Map.empty burst_requests) = 2 \<and>
   real (admitted ''a'' (run_checks check_bucket Map.empty burst_requests)) \<le> 1 + 1 / 2 * total_seconds 2000000"
  using rate_bound [of Map.empty "''a''" 1 "1 / 2" 0 2000000 burst_requests]
  by (simp add: burst_admitted) (simp add: burst_requests_def one_key_def)

text \<open>
  Keys are independent: the decisions for one key in any interleaving with other keys are the
  decisions of its own requests run alone.
\<close>

theorem key_isolation:
  "filter (\<lambda>(q, d). rq_key q = key) (run_checks check_bucket s qs) =
   run_checks check_bucket s (filter (\<lambda>q. rq_key q = key) qs)"
  by (rule bucket_rl.run_same_key) simp

text \<open>
  A check keeps the token count of the checked key between zero and its capacity, and it admits
  exactly when a whole token is there, which it then takes.
\<close>

theorem check_keeps_bucket_ok:
  assumes "0 \<le> c" "0 \<le> r" "\<And>bk. s key = Some bk \<Longrightarrow> bucket_ok c bk"
  shows "\<exists>bk. snd (check_bucket now s key c r) key = Some bk \<and> bucket_ok c bk \<and>
           (allowed (fst (check_bucket now s key c r)) \<longleftrightarrow> 1 \<le> tokens (refill now c r (s key))) \<and>
           tokens bk = tokens (refill now c r (s key)) -
             (if allowed (fst (check_bucket now s key c r)) then 1 else 0)"
  using take_token_ok [OF refill_ok [OF assms(1,2), of "s key" now]] assms(3)
  by (auto simp: take_token_def Let_def)

theorem check_keeps_bucket_ok_witness:
  "\<exists>bk. snd (check_bucket 5 Map.empty ''k'' 3 1) ''k'' = Some bk \<and> bucket_ok 3 bk \<and> tokens bk = 2"
  using check_keeps_bucket_ok [of 3 1 Map.empty "''k''" 5]
  by (simp add: refill_def take_token_def)

text \<open>
  The announced delay is enough: a refused caller who asks again no sooner than the delay it was
  given, with no other request for its key in between, is admitted.
\<close>

theorem retry_after_suffices:
  assumes "check_bucket now s key c r = (d, s')" "\<not> allowed d" "retry_after_seconds d = Seconds w"
    and "1 \<le> c" "\<And>bk. s key = Some bk \<Longrightarrow> last_refill bk \<le> now"
    and "w \<le> total_seconds (now' - now)"
  shows "allowed (fst (check_bucket now' s' key c r))"
proof -
  define b where "b = refill now c r (s key)"
  have d: "d = fst (take_token r b)" and s': "s' key = Some (snd (take_token r b))"
    using assms(1) by (auto simp: check_bucket_def b_def Let_def case_prod_beta)
  have low: "tokens b < 1" and r: "0 < r" and w: "w = (1 - tokens b) / r" and "snd (take_token r b) = b"
    using assms(2,3) by (auto simp: d take_token_def Let_def split: if_splits)
  have "s key \<noteq> None"
    using low assms(4) refill_new(1) [of now c r] by (cases "s key") (auto simp: b_def)
  then have l: "last_refill b = now"
    using assms(5) r by (auto simp: b_def refill_gain(2))
  have wait: "1 - tokens b \<le> total_seconds (now' - now) * r"
    using assms(6) r by (simp add: w pos_divide_le_eq)
  then have "0 < total_seconds (now' - now)"
    using low r by (metis diff_gt_0_iff_gt less_le_trans zero_less_mult_pos2)
  then have "tokens (refill now' c r (Some b)) \<ge> 1"
    using wait assms(4) by (simp add: refill_def l)
  then show ?thesis using s' \<open>snd (take_token r b) = b\<close> by (simp add: take_token_def)
qed

definition drained :: buckets where
  "drained = Map.empty(''k'' \<mapsto> \<lparr>tokens = 0, last_refill = 0\<rparr>)"

theorem retry_after_suffices_witness:
  "\<not> allowed (fst (check_bucket 0 drained ''k'' 1 2)) \<and>
   allowed (fst (check_bucket 500000 (snd (check_bucket 0 drained ''k'' 1 2)) ''k'' 1 2))"
proof -
  let ?r = "check_bucket 0 drained ''k'' 1 2"
  have "retry_after_seconds (fst ?r) = Seconds (1 / 2)" "\<not> allowed (fst ?r)"
    by (simp_all add: drained_def refill_def take_token_def)
  then show ?thesis
    using retry_after_suffices [OF surjective_pairing, of 0 drained "''k''" 1 2 "1 / 2" 500000]
    by (simp add: drained_def total_seconds_def)
qed

end
