(* ===== verification/Auth_Model.thy ===== *)
theory Auth_Model
  imports Prelude
begin

text \<open>
  The persistent side of \<open>auth/\<close>: the rows of \<open>auth/models.py\<close>, the exceptions of
  \<open>auth/exceptions.py\<close>, and the operations of \<open>auth/repository.py\<close> on a database value. Each
  repository method is one transaction (\<open>db/session.py\<close>): on an exception it is rolled back, so the
  state it returns is the state it was given. The invariant \<open>db_ok\<close> states the constraints of the
  tables; every operation keeps it, and it rules \<open>MultipleResultsFound\<close> out.
\<close>

section \<open>Rows and errors\<close>

datatype user_role = ADMIN | ANALYST | VIEWER

fun role_rank :: "user_role \<Rightarrow> nat" where
  "role_rank VIEWER = 1"
| "role_rank ANALYST = 2"
| "role_rank ADMIN = 3"

instantiation user_role :: linorder
begin

definition less_eq_user_role :: "user_role \<Rightarrow> user_role \<Rightarrow> bool" where
  "less_eq_user_role a b \<longleftrightarrow> role_rank a \<le> role_rank b"

definition less_user_role :: "user_role \<Rightarrow> user_role \<Rightarrow> bool" where
  "less_user_role a b \<longleftrightarrow> role_rank a < role_rank b"

instance
proof
  fix x y z :: user_role
  show "x < y \<longleftrightarrow> x \<le> y \<and> \<not> y \<le> x" by (auto simp: less_eq_user_role_def less_user_role_def)
  show "x \<le> x" by (simp add: less_eq_user_role_def)
  show "x \<le> y \<Longrightarrow> y \<le> z \<Longrightarrow> x \<le> z" by (simp add: less_eq_user_role_def)
  show "x \<le> y \<Longrightarrow> y \<le> x \<Longrightarrow> x = y"
    by (cases x; cases y; simp add: less_eq_user_role_def)
  show "x \<le> y \<or> y \<le> x" by (auto simp: less_eq_user_role_def)
qed

end

datatype auth_error =
    InvalidCredentialsError | InactiveUserError | DuplicateUserError
  | InvalidTokenError | TokenExpiredError | RefreshTokenRevokedError
  | InvalidApiKeyError | ApiKeyExpiredError | ApiKeyRevokedError | ApiKeyNotFoundError
  | ForbiddenRoleError | InsufficientPermissionsError
  | IntegrityError | MultipleResultsFound | PyValueError

record user =
  u_id :: int
  u_username :: string
  u_email :: string
  u_password_hash :: string
  u_is_active :: bool
  u_is_superuser :: bool
  u_role :: user_role
  u_created_at :: datetime
  u_updated_at :: datetime

record refresh_token =
  rt_id :: int
  rt_user_id :: int
  rt_jti :: string
  rt_expires_at :: datetime
  rt_revoked :: bool

record api_key =
  ak_id :: int
  ak_user_id :: int
  ak_key_prefix :: string
  ak_key_hash :: string
  ak_name :: string
  ak_created_at :: datetime
  ak_expires_at :: "datetime option"
  ak_last_used_at :: "datetime option"
  ak_revoked_at :: "datetime option"

record auth_db =
  db_users :: "user list"
  db_refresh_tokens :: "refresh_token list"
  db_api_keys :: "api_key list"

text \<open>The clock and the entropy source belong to the world beside the database.\<close>

record world =
  w_db :: auth_db
  w_now :: datetime
  w_seed :: nat

type_synonym 'a auth_op = "(world, auth_error, 'a) op"

section \<open>Queries\<close>

fun scalar_one_or_none :: "'a list \<Rightarrow> auth_error + 'a option" where
  "scalar_one_or_none [] = Inr None"
| "scalar_one_or_none [x] = Inr (Some x)"
| "scalar_one_or_none (x # y # xs) = Inl MultipleResultsFound"

text \<open>An identity column: the next unused positive number.\<close>

definition next_id :: "int list \<Rightarrow> int" where
  "next_id ids = foldr max ids 0 + 1"

definition get_by_username :: "string \<Rightarrow> user option auth_op" where
  "get_by_username name = slift (\<lambda>w.
     scalar_one_or_none (filter (\<lambda>u. u_username u = name) (db_users (w_db w))))"

definition get_by_email :: "string \<Rightarrow> user option auth_op" where
  "get_by_email mail = slift (\<lambda>w.
     scalar_one_or_none (filter (\<lambda>u. u_email u = mail) (db_users (w_db w))))"

definition get_by_id :: "int \<Rightarrow> user option auth_op" where
  "get_by_id i = slift (\<lambda>w. Inr (List.find (\<lambda>u. u_id u = i) (db_users (w_db w))))"

definition create_user :: "string \<Rightarrow> string \<Rightarrow> string \<Rightarrow> bool \<Rightarrow> user auth_op" where
  "create_user name mail pw_hash superuser = (\<lambda>w.
     let us = db_users (w_db w) in
     if name \<in> u_username ` set us \<or> mail \<in> u_email ` set us then (Inl IntegrityError, w)
     else let u = \<lparr>u_id = next_id (map u_id us), u_username = name, u_email = mail,
                   u_password_hash = pw_hash, u_is_active = True, u_is_superuser = superuser,
                   u_role = ANALYST, u_created_at = w_now w, u_updated_at = w_now w\<rparr>
          in (Inr u, w\<lparr>w_db := (w_db w)\<lparr>db_users := us @ [u]\<rparr>\<rparr>))"

definition store_refresh_token :: "int \<Rightarrow> string \<Rightarrow> datetime \<Rightarrow> refresh_token auth_op" where
  "store_refresh_token user_id jti expires_at = (\<lambda>w.
     let ts = db_refresh_tokens (w_db w) in
     if jti \<in> rt_jti ` set ts \<or> user_id \<notin> u_id ` set (db_users (w_db w)) then (Inl IntegrityError, w)
     else let t = \<lparr>rt_id = next_id (map rt_id ts), rt_user_id = user_id, rt_jti = jti,
                   rt_expires_at = expires_at, rt_revoked = False\<rparr>
          in (Inr t, w\<lparr>w_db := (w_db w)\<lparr>db_refresh_tokens := ts @ [t]\<rparr>\<rparr>))"

definition get_refresh_token :: "string \<Rightarrow> refresh_token option auth_op" where
  "get_refresh_token jti = slift (\<lambda>w.
     scalar_one_or_none (filter (\<lambda>t. rt_jti t = jti) (db_refresh_tokens (w_db w))))"

definition revoke_refresh_token :: "string \<Rightarrow> unit auth_op" where
  "revoke_refresh_token jti = sbind (get_refresh_token jti) (\<lambda>found. case found of
       None \<Rightarrow> sreturn ()
     | Some t \<Rightarrow> (\<lambda>w. (Inr (), w\<lparr>w_db := (w_db w)\<lparr>db_refresh_tokens :=
           map (\<lambda>x. if rt_id x = rt_id t then x\<lparr>rt_revoked := True\<rparr> else x)
             (db_refresh_tokens (w_db w))\<rparr>\<rparr>)))"

definition create_api_key_row ::
  "int \<Rightarrow> string \<Rightarrow> string \<Rightarrow> string \<Rightarrow> datetime option \<Rightarrow> api_key auth_op" where
  "create_api_key_row user_id key_prefix key_hash name expires_at = (\<lambda>w.
     let ks = db_api_keys (w_db w) in
     if key_hash \<in> ak_key_hash ` set ks \<or> user_id \<notin> u_id ` set (db_users (w_db w))
     then (Inl IntegrityError, w)
     else let k = \<lparr>ak_id = next_id (map ak_id ks), ak_user_id = user_id, ak_key_prefix = key_prefix,
                   ak_key_hash = key_hash, ak_name = name, ak_created_at = w_now w,
                   ak_expires_at = expires_at, ak_last_used_at = None, ak_revoked_at = None\<rparr>
          in (Inr k, w\<lparr>w_db := (w_db w)\<lparr>db_api_keys := ks @ [k]\<rparr>\<rparr>))"

definition get_api_key_by_hash :: "string \<Rightarrow> api_key option auth_op" where
  "get_api_key_by_hash h = slift (\<lambda>w.
     scalar_one_or_none (filter (\<lambda>k. ak_key_hash k = h) (db_api_keys (w_db w))))"

definition get_api_key_by_id :: "int \<Rightarrow> api_key option auth_op" where
  "get_api_key_by_id i = slift (\<lambda>w. Inr (List.find (\<lambda>k. ak_id k = i) (db_api_keys (w_db w))))"

text \<open>\<open>order_by(created_at.desc())\<close>; rows with equal times keep their order.\<close>

definition list_api_keys_for_user :: "int \<Rightarrow> api_key list auth_op" where
  "list_api_keys_for_user user_id = slift (\<lambda>w. Inr (sort_key (\<lambda>k. - ak_created_at k)
     (filter (\<lambda>k. ak_user_id k = user_id) (db_api_keys (w_db w)))))"

definition update_api_key :: "int \<Rightarrow> (api_key \<Rightarrow> api_key) \<Rightarrow> world \<Rightarrow> world" where
  "update_api_key key_id f w = w\<lparr>w_db := (w_db w)\<lparr>db_api_keys :=
     map (\<lambda>k. if ak_id k = key_id then f k else k) (db_api_keys (w_db w))\<rparr>\<rparr>"

definition revoke_api_key_row :: "int \<Rightarrow> unit auth_op" where
  "revoke_api_key_row key_id = (\<lambda>w. (Inr (), update_api_key key_id
     (\<lambda>k. if ak_revoked_at k = None then k\<lparr>ak_revoked_at := Some (w_now w)\<rparr> else k) w))"

definition touch_api_key_last_used :: "int \<Rightarrow> unit auth_op" where
  "touch_api_key_last_used key_id =
     (\<lambda>w. (Inr (), update_api_key key_id (\<lambda>k. k\<lparr>ak_last_used_at := Some (w_now w)\<rparr>) w))"

lemmas query_defs = get_by_username_def get_by_email_def get_by_id_def get_refresh_token_def
  get_api_key_by_hash_def get_api_key_by_id_def list_api_keys_for_user_def

section \<open>The table constraints\<close>

definition db_ok :: "auth_db \<Rightarrow> bool" where
  "db_ok d \<longleftrightarrow>
     distinct (map u_id (db_users d)) \<and> distinct (map u_username (db_users d)) \<and>
     distinct (map u_email (db_users d)) \<and>
     distinct (map rt_id (db_refresh_tokens d)) \<and> distinct (map rt_jti (db_refresh_tokens d)) \<and>
     distinct (map ak_id (db_api_keys d)) \<and> distinct (map ak_key_hash (db_api_keys d)) \<and>
     rt_user_id ` set (db_refresh_tokens d) \<subseteq> u_id ` set (db_users d) \<and>
     ak_user_id ` set (db_api_keys d) \<subseteq> u_id ` set (db_users d)"

lemma foldr_max_ge: "x \<in> set xs \<Longrightarrow> x \<le> foldr max xs (0::int)"
  by (induction xs) auto

lemma next_id_fresh [simp]: "next_id ids \<notin> set ids"
  using foldr_max_ge [of "next_id ids" ids] by (auto simp: next_id_def)

lemma next_id_fresh_map [simp]: "next_id (map f xs) \<notin> f ` set xs"
  using next_id_fresh [of "map f xs"] by (metis set_map)

lemma scalar_unique:
  assumes "distinct (map f xs)"
  shows "scalar_one_or_none (filter (\<lambda>x. f x = k) xs) = Inr (List.find (\<lambda>x. f x = k) xs)"
  using assms
proof (induction xs)
  case Nil
  then show ?case by simp
next
  case (Cons x xs)
  show ?case
  proof (cases "f x = k")
    case True
    with Cons.prems have "filter (\<lambda>y. f y = k) xs = []"
      by (auto simp: filter_empty_conv image_iff)
    with True show ?thesis by simp
  next
    case False
    with Cons show ?thesis by simp
  qed
qed

lemma find_map_same:
  assumes "\<And>x. P (g x) = P x"
  shows "List.find P (map g xs) = map_option g (List.find P xs)"
  using assms by (induction xs) auto

lemma query_frame [simp]:
  "snd (get_by_username n w) = w" "snd (get_by_email n w) = w" "snd (get_by_id i w) = w"
  "snd (get_refresh_token j w) = w" "snd (get_api_key_by_hash h w) = w"
  "snd (get_api_key_by_id i w) = w" "snd (list_api_keys_for_user i w) = w"
  by (simp_all add: query_defs)

lemma db_ok_queries:
  assumes "db_ok (w_db w)"
  shows "get_by_username n w = (Inr (List.find (\<lambda>u. u_username u = n) (db_users (w_db w))), w)"
    and "get_by_email m w = (Inr (List.find (\<lambda>u. u_email u = m) (db_users (w_db w))), w)"
    and "get_refresh_token j w = (Inr (List.find (\<lambda>t. rt_jti t = j) (db_refresh_tokens (w_db w))), w)"
    and "get_api_key_by_hash h w = (Inr (List.find (\<lambda>k. ak_key_hash k = h) (db_api_keys (w_db w))), w)"
  using assms by (simp_all add: db_ok_def query_defs scalar_unique)

section \<open>Every repository operation keeps the constraints\<close>

lemma create_user_ok: "db_ok (w_db w) \<Longrightarrow> db_ok (w_db (snd (create_user n m h s w)))"
  by (auto simp: create_user_def Let_def db_ok_def)

lemma store_refresh_token_ok:
  "db_ok (w_db w) \<Longrightarrow> db_ok (w_db (snd (store_refresh_token u j e w)))"
  by (auto simp: store_refresh_token_def Let_def db_ok_def)

lemma map_keep:
  assumes "\<And>x. f (g x) = f x"
  shows "map (f \<circ> g) xs = map f xs" "f ` g ` set xs = f ` set xs"
  using assms by (auto simp: image_image)

lemma revoke_refresh_token_ok:
  "db_ok (w_db w) \<Longrightarrow> db_ok (w_db (snd (revoke_refresh_token j w)))"
  by (auto simp: revoke_refresh_token_def sbind_def get_refresh_token_def db_ok_def map_keep image_subset_iff
      cong: if_cong split: sum.splits option.splits)

lemma create_api_key_row_ok:
  "db_ok (w_db w) \<Longrightarrow> db_ok (w_db (snd (create_api_key_row u p h n e w)))"
  by (auto simp: create_api_key_row_def Let_def db_ok_def)

lemma update_api_key_ok:
  assumes "db_ok (w_db w)" "\<And>k. ak_id (f k) = ak_id k" "\<And>k. ak_key_hash (f k) = ak_key_hash k"
    "\<And>k. ak_user_id (f k) = ak_user_id k"
  shows "db_ok (w_db (update_api_key i f w))"
  using assms by (auto simp: update_api_key_def db_ok_def map_keep image_subset_iff)

lemma revoke_api_key_row_ok: "db_ok (w_db w) \<Longrightarrow> db_ok (w_db (snd (revoke_api_key_row i w)))"
  by (simp add: revoke_api_key_row_def update_api_key_ok)

lemma touch_api_key_last_used_ok:
  "db_ok (w_db w) \<Longrightarrow> db_ok (w_db (snd (touch_api_key_last_used i w)))"
  by (simp add: touch_api_key_last_used_def update_api_key_ok)

lemmas repository_ok = create_user_ok store_refresh_token_ok revoke_refresh_token_ok
  create_api_key_row_ok revoke_api_key_row_ok touch_api_key_last_used_ok

end
