(* ===== verification/Auth_Service.thy ===== *)
theory Auth_Service
  imports Auth_Model
begin

text \<open>
  The rules of \<open>auth/\<close>: JSON web tokens (\<open>auth/jwt.py\<close>), password and API-key hashing
  (\<open>auth/passwords.py\<close>, \<open>auth/api_keys.py\<close>) and every operation of
  \<open>AuthenticationService\<close> (\<open>auth/service.py\<close>). PyJWT, argon2, bcrypt, SHA-256, \<open>uuid4\<close> and
  \<open>secrets\<close> are third-party or operating-system code: they are the fields of the parameter
  \<open>crypto\<close>, and what the proofs rely on of them is stated by \<open>jwt_law\<close> and \<open>hash_law\<close>. Each random draw
  reads and advances the seed of the world. Time passes between operations, not within one.
\<close>

section \<open>The cryptographic parameter\<close>

datatype jwt_error = ExpiredSignatureError | JwtInvalidTokenError

record token_claims =
  tc_sub :: string
  tc_jti :: string
  tc_iat :: datetime
  tc_exp :: datetime
  tc_type :: string

text \<open>A decoded payload: any claim may be missing; times are whole seconds since the epoch.\<close>

record jwt_payload =
  pl_sub :: "string option"
  pl_jti :: "string option"
  pl_iat :: "int option"
  pl_exp :: "int option"
  pl_type :: "string option"

text \<open>
  What the hashing libraries do: argon2 raises \<open>InvalidHashError\<close>, a \<open>ValueError\<close>, for a text it does not
  take for a hash; bcrypt raises \<open>ValueError\<close> for one, which is \<open>None\<close> here.
\<close>

datatype verify_outcome = Verified bool | VerificationError | InvalidHashError

record crypto =
  jwt_encode :: "token_claims \<Rightarrow> string \<Rightarrow> string \<Rightarrow> string"
  jwt_decode :: "datetime \<Rightarrow> string \<Rightarrow> string \<Rightarrow> string \<Rightarrow> jwt_error + jwt_payload"
  argon2_hash :: "nat \<Rightarrow> string \<Rightarrow> string"
  argon2_verify :: "string \<Rightarrow> string \<Rightarrow> verify_outcome"
  bcrypt_checkpw :: "string \<Rightarrow> string \<Rightarrow> bool option"
  sha256_hex :: "string \<Rightarrow> string"
  uuid4_str :: "nat \<Rightarrow> string"
  token_urlsafe :: "nat \<Rightarrow> nat \<Rightarrow> string"

record auth_config =
  jwt_secret_key :: string
  jwt_algorithm :: string
  access_token_expire_minutes :: int
  refresh_token_expire_days :: int

definition draw :: "(nat \<Rightarrow> 'a) \<Rightarrow> 'a auth_op" where
  "draw f = (\<lambda>w. (Inr (f (w_seed w)), w\<lparr>w_seed := Suc (w_seed w)\<rparr>))"

section \<open>Tokens\<close>

definition encode_token :: "crypto \<Rightarrow> string \<Rightarrow> string \<Rightarrow> string \<Rightarrow> string \<Rightarrow> int \<Rightarrow> string auth_op" where
  "encode_token cr subject token_type secret alg expires_delta =
     sbind (draw (uuid4_str cr)) (\<lambda>jti w.
       (Inr (jwt_encode cr \<lparr>tc_sub = subject, tc_jti = jti, tc_iat = w_now w,
                            tc_exp = w_now w + expires_delta, tc_type = token_type\<rparr> secret alg), w))"

definition from_timestamp :: "int \<Rightarrow> datetime" where
  "from_timestamp secs = secs * 1000000"

definition decode_token :: "crypto \<Rightarrow> string \<Rightarrow> string \<Rightarrow> string \<Rightarrow> token_claims auth_op" where
  "decode_token cr token secret alg = slift (\<lambda>w.
     case jwt_decode cr (w_now w) token secret alg of
       Inl ExpiredSignatureError \<Rightarrow> Inl TokenExpiredError
     | Inl JwtInvalidTokenError \<Rightarrow> Inl InvalidTokenError
     | Inr p \<Rightarrow>
        (case (pl_sub p, pl_jti p, pl_iat p, pl_exp p, pl_type p) of
           (Some sub, Some jti, Some iat, Some ex, Some ty) \<Rightarrow>
             Inr \<lparr>tc_sub = sub, tc_jti = jti, tc_iat = from_timestamp iat,
                  tc_exp = from_timestamp ex, tc_type = ty\<rparr>
         | _ \<Rightarrow> Inl InvalidTokenError))"

definition validate_token :: "crypto \<Rightarrow> string \<Rightarrow> string \<Rightarrow> string \<Rightarrow> string \<Rightarrow> token_claims auth_op" where
  "validate_token cr token secret alg expected_type =
     sbind (decode_token cr token secret alg) (\<lambda>claims.
       if tc_type claims \<noteq> expected_type then sraise InvalidTokenError else sreturn claims)"

definition create_access_token :: "crypto \<Rightarrow> string \<Rightarrow> string \<Rightarrow> string \<Rightarrow> int \<Rightarrow> string auth_op" where
  "create_access_token cr subject secret alg expire_minutes =
     encode_token cr subject ''access'' secret alg (micros_of_minutes expire_minutes)"

definition create_refresh_token ::
  "crypto \<Rightarrow> string \<Rightarrow> string \<Rightarrow> string \<Rightarrow> int \<Rightarrow> (string \<times> token_claims) auth_op" where
  "create_refresh_token cr subject secret alg expire_days =
     sbind (encode_token cr subject ''refresh'' secret alg (micros_of_days expire_days)) (\<lambda>token.
     sbind (decode_token cr token secret alg) (\<lambda>claims. sreturn (token, claims)))"

section \<open>Passwords and API keys\<close>

definition hash_password :: "crypto \<Rightarrow> string \<Rightarrow> string auth_op" where
  "hash_password cr password = draw (\<lambda>salt. argon2_hash cr salt password)"

definition verify_password :: "crypto \<Rightarrow> string \<Rightarrow> string \<Rightarrow> auth_error + bool" where
  "verify_password cr password password_hash =
     (if startswith password_hash ''$argon2'' then
        (case argon2_verify cr password_hash password of
           Verified b \<Rightarrow> Inr b | VerificationError \<Rightarrow> Inr False | InvalidHashError \<Rightarrow> Inl PyValueError)
      else if \<exists>p\<in>{''$2a$'', ''$2b$'', ''$2y$''}. startswith password_hash p
      then (case bcrypt_checkpw cr password password_hash of Some b \<Rightarrow> Inr b | None \<Rightarrow> Inl PyValueError)
      else Inl PyValueError)"

definition API_KEY_PREFIX :: string where
  "API_KEY_PREFIX = ''qm_''"

definition generate_raw_api_key :: "crypto \<Rightarrow> string auth_op" where
  "generate_raw_api_key cr = draw (\<lambda>seed. API_KEY_PREFIX @ token_urlsafe cr 32 seed)"

definition hash_api_key :: "crypto \<Rightarrow> string \<Rightarrow> string" where
  "hash_api_key cr raw_key = sha256_hex cr raw_key"

definition api_key_prefix :: "string \<Rightarrow> string" where
  "api_key_prefix raw_key = take (length API_KEY_PREFIX + 8) raw_key"

section \<open>What the service returns\<close>

record user_read =
  ur_id :: int
  ur_username :: string
  ur_email :: string
  ur_is_active :: bool
  ur_is_superuser :: bool
  ur_role :: user_role
  ur_created_at :: datetime
  ur_updated_at :: datetime

definition read_user :: "user \<Rightarrow> user_read" where
  "read_user u = \<lparr>ur_id = u_id u, ur_username = u_username u, ur_email = u_email u,
     ur_is_active = u_is_active u, ur_is_superuser = u_is_superuser u, ur_role = u_role u,
     ur_created_at = u_created_at u, ur_updated_at = u_updated_at u\<rparr>"

record token_pair =
  access_token :: string
  refresh_token_str :: string
  token_type :: string

record api_key_read =
  kr_id :: int
  kr_key_prefix :: string
  kr_name :: string
  kr_created_at :: datetime
  kr_expires_at :: "datetime option"
  kr_last_used_at :: "datetime option"
  kr_revoked_at :: "datetime option"

definition read_api_key :: "api_key \<Rightarrow> api_key_read" where
  "read_api_key k = \<lparr>kr_id = ak_id k, kr_key_prefix = ak_key_prefix k, kr_name = ak_name k,
     kr_created_at = ak_created_at k, kr_expires_at = ak_expires_at k,
     kr_last_used_at = ak_last_used_at k, kr_revoked_at = ak_revoked_at k\<rparr>"

record api_key_created =
  raw_key :: string
  created_key :: api_key_read

section \<open>AuthenticationService\<close>

text \<open>\<open>a or b\<close> on optional rows: the second query runs only when the first finds nothing.\<close>

definition or_else :: "'a option auth_op \<Rightarrow> 'a option auth_op \<Rightarrow> 'a option auth_op" where
  "or_else m n = sbind m (\<lambda>r. case r of None \<Rightarrow> n | Some x \<Rightarrow> sreturn (Some x))"

text \<open>
  \<open>register_user\<close> is two transactions with other callers possibly in between: the check, and the
  insertion that turns an \<open>IntegrityError\<close> into \<open>DuplicateUserError\<close>.
\<close>

definition register_precheck :: "string \<Rightarrow> string \<Rightarrow> unit auth_op" where
  "register_precheck username email =
     sbind (or_else (get_by_username username) (get_by_email email)) (\<lambda>existing.
       if existing \<noteq> None then sraise DuplicateUserError else sreturn ())"

definition register_insert :: "crypto \<Rightarrow> string \<Rightarrow> string \<Rightarrow> string \<Rightarrow> user_read auth_op" where
  "register_insert cr username email password =
     sbind (hash_password cr password) (\<lambda>password_hash w.
       case create_user username email password_hash False w of
         (Inl IntegrityError, w') \<Rightarrow> (Inl DuplicateUserError, w')
       | (Inl e, w') \<Rightarrow> (Inl e, w')
       | (Inr user, w') \<Rightarrow> (Inr (read_user user), w'))"

definition register_user :: "crypto \<Rightarrow> string \<Rightarrow> string \<Rightarrow> string \<Rightarrow> user_read auth_op" where
  "register_user cr username email password =
     sbind (register_precheck username email) (\<lambda>_. register_insert cr username email password)"

definition authenticate :: "crypto \<Rightarrow> string \<Rightarrow> string \<Rightarrow> user_read auth_op" where
  "authenticate cr username password =
     sbind (or_else (get_by_username username) (get_by_email username)) (\<lambda>found.
       case found of
         None \<Rightarrow> sraise InvalidCredentialsError
       | Some u \<Rightarrow>
           sbind (slift (\<lambda>w. verify_password cr password (u_password_hash u))) (\<lambda>ok.
             if \<not> ok then sraise InvalidCredentialsError
             else if \<not> u_is_active u then sraise InactiveUserError
             else sreturn (read_user u)))"

definition create_token_pair :: "crypto \<Rightarrow> auth_config \<Rightarrow> int \<Rightarrow> token_pair auth_op" where
  "create_token_pair cr cfg user_id =
     sbind (create_access_token cr (str_int user_id) (jwt_secret_key cfg) (jwt_algorithm cfg)
              (access_token_expire_minutes cfg)) (\<lambda>acc.
     sbind (create_refresh_token cr (str_int user_id) (jwt_secret_key cfg) (jwt_algorithm cfg)
              (refresh_token_expire_days cfg)) (\<lambda>(ref, claims).
     sbind (store_refresh_token user_id (tc_jti claims) (tc_exp claims)) (\<lambda>_.
     sreturn \<lparr>access_token = acc, refresh_token_str = ref, token_type = ''bearer''\<rparr>)))"

definition validate_refresh_token :: "crypto \<Rightarrow> auth_config \<Rightarrow> string \<Rightarrow> refresh_token auth_op" where
  "validate_refresh_token cr cfg token =
     sbind (validate_token cr token (jwt_secret_key cfg) (jwt_algorithm cfg) ''refresh'') (\<lambda>claims.
     sbind (get_refresh_token (tc_jti claims)) (\<lambda>found.
       case found of
         None \<Rightarrow> sraise InvalidTokenError
       | Some row \<Rightarrow>
           if rt_revoked row then sraise RefreshTokenRevokedError
           else (\<lambda>w. if rt_expires_at row < w_now w then (Inl TokenExpiredError, w) else (Inr row, w))))"

text \<open>
  \<open>refresh_tokens\<close> reads in one transaction each (the checks) and then writes in others (the
  rotation); another caller may run in between.
\<close>

definition refresh_check :: "crypto \<Rightarrow> auth_config \<Rightarrow> string \<Rightarrow> (refresh_token \<times> user) auth_op" where
  "refresh_check cr cfg token =
     sbind (validate_refresh_token cr cfg token) (\<lambda>row.
     sbind (get_by_id (rt_user_id row)) (\<lambda>found.
       case found of
         None \<Rightarrow> sraise InactiveUserError
       | Some u \<Rightarrow> if \<not> u_is_active u then sraise InactiveUserError else sreturn (row, u)))"

definition refresh_rotate :: "crypto \<Rightarrow> auth_config \<Rightarrow> refresh_token \<times> user \<Rightarrow> token_pair auth_op" where
  "refresh_rotate cr cfg ru =
     sbind (revoke_refresh_token (rt_jti (fst ru))) (\<lambda>_. create_token_pair cr cfg (u_id (snd ru)))"

definition refresh_tokens :: "crypto \<Rightarrow> auth_config \<Rightarrow> string \<Rightarrow> token_pair auth_op" where
  "refresh_tokens cr cfg token = sbind (refresh_check cr cfg token) (refresh_rotate cr cfg)"

definition logout :: "crypto \<Rightarrow> auth_config \<Rightarrow> string \<Rightarrow> unit auth_op" where
  "logout cr cfg token =
     sbind (validate_refresh_token cr cfg token) (\<lambda>row. revoke_refresh_token (rt_jti row))"

definition get_current_user :: "crypto \<Rightarrow> auth_config \<Rightarrow> string \<Rightarrow> user_read auth_op" where
  "get_current_user cr cfg token =
     sbind (validate_token cr token (jwt_secret_key cfg) (jwt_algorithm cfg) ''access'') (\<lambda>claims.
       case py_int (tc_sub claims) of
         None \<Rightarrow> sraise PyValueError
       | Some i \<Rightarrow> sbind (get_by_id i) (\<lambda>found.
           case found of
             None \<Rightarrow> sraise InvalidTokenError
           | Some u \<Rightarrow> if \<not> u_is_active u then sraise InactiveUserError else sreturn (read_user u)))"

definition has_role :: "user_read \<Rightarrow> user_role \<Rightarrow> bool" where
  "has_role user r \<longleftrightarrow> ur_role user = r"

definition is_admin :: "user_read \<Rightarrow> bool" where
  "is_admin user = has_role user ADMIN"

definition require_role :: "user_read \<Rightarrow> user_role \<Rightarrow> auth_error + unit" where
  "require_role user minimum_role =
     (if role_rank (ur_role user) < role_rank minimum_role then Inl ForbiddenRoleError else Inr ())"

definition require_any_role :: "user_read \<Rightarrow> user_role list \<Rightarrow> auth_error + unit" where
  "require_any_role user roles =
     (if ur_role user \<notin> set roles then Inl InsufficientPermissionsError else Inr ())"

definition create_api_key ::
  "crypto \<Rightarrow> int \<Rightarrow> string \<Rightarrow> datetime option \<Rightarrow> api_key_created auth_op" where
  "create_api_key cr user_id name expires_at =
     sbind (generate_raw_api_key cr) (\<lambda>raw.
     sbind (create_api_key_row user_id (api_key_prefix raw) (hash_api_key cr raw) name expires_at) (\<lambda>row.
     sreturn \<lparr>raw_key = raw, created_key = read_api_key row\<rparr>))"

definition list_api_keys :: "int \<Rightarrow> api_key_read list auth_op" where
  "list_api_keys user_id =
     sbind (list_api_keys_for_user user_id) (\<lambda>rows. sreturn (map read_api_key rows))"

definition revoke_api_key :: "user_read \<Rightarrow> int \<Rightarrow> unit auth_op" where
  "revoke_api_key requesting_user key_id =
     sbind (get_api_key_by_id key_id) (\<lambda>found.
       case found of
         None \<Rightarrow> sraise ApiKeyNotFoundError
       | Some row \<Rightarrow>
           if ak_user_id row \<noteq> ur_id requesting_user \<and> \<not> is_admin requesting_user
           then sraise ApiKeyNotFoundError
           else revoke_api_key_row key_id)"

definition LAST_USED_TOUCH_THRESHOLD :: int where
  "LAST_USED_TOUCH_THRESHOLD = micros_of_minutes 5"

definition authenticate_api_key :: "crypto \<Rightarrow> string \<Rightarrow> user_read auth_op" where
  "authenticate_api_key cr raw =
     (if \<not> startswith raw API_KEY_PREFIX then sraise InvalidApiKeyError
      else sbind (get_api_key_by_hash (hash_api_key cr raw)) (\<lambda>found.
       case found of
         None \<Rightarrow> sraise InvalidApiKeyError
       | Some row \<Rightarrow>
           if ak_revoked_at row \<noteq> None then sraise ApiKeyRevokedError
           else (\<lambda>w. if (case ak_expires_at row of None \<Rightarrow> False | Some e \<Rightarrow> e < w_now w)
             then (Inl ApiKeyExpiredError, w)
             else sbind (get_by_id (ak_user_id row)) (\<lambda>owner.
               case owner of
                 None \<Rightarrow> sraise InvalidApiKeyError
               | Some u \<Rightarrow>
                   if \<not> u_is_active u then sraise InactiveUserError
                   else (\<lambda>w'. if (case ak_last_used_at row of None \<Rightarrow> True
                                 | Some t \<Rightarrow> w_now w' - t > LAST_USED_TOUCH_THRESHOLD)
                       then sbind (touch_api_key_last_used (ak_id row)) (\<lambda>_. sreturn (read_user u)) w'
                       else (Inr (read_user u), w'))) w)))"

end
