(* ===== verification/Auth_Sessions.thy ===== *)
theory Auth_Sessions
  imports Auth_Service
begin

text \<open>
  Runs of the authentication service: every public operation and the passing of time as one step
  (\<open>service_step\<close>), the invariant and the irrevocability of revocation for all runs, and the
  properties of the single operations on every branch.
\<close>

section \<open>What the third-party code promises\<close>

definition payload_of :: "token_claims \<Rightarrow> jwt_payload" where
  "payload_of c = \<lparr>pl_sub = Some (tc_sub c), pl_jti = Some (tc_jti c),
     pl_iat = Some (tc_iat c div 1000000), pl_exp = Some (tc_exp c div 1000000),
     pl_type = Some (tc_type c)\<rparr>"

text \<open>
  PyJWT: what was encoded is decoded under the same key and algorithm, with times cut to whole
  seconds, unless the expiry has been reached.
\<close>

definition jwt_law :: "crypto \<Rightarrow> bool" where
  "jwt_law cr \<longleftrightarrow> (\<forall>c key alg now. tc_iat c \<le> now \<longrightarrow>
     jwt_decode cr now (jwt_encode cr c key alg) key alg =
       (if from_timestamp (tc_exp c div 1000000) \<le> now then Inl ExpiredSignatureError
        else Inr (payload_of c)))"

text \<open>PyJWT: the claims of a token do not depend on when it is decoded.\<close>

definition jwt_stable :: "crypto \<Rightarrow> bool" where
  "jwt_stable cr \<longleftrightarrow> (\<forall>t key alg now now' p p'.
     jwt_decode cr now t key alg = Inr p \<longrightarrow> jwt_decode cr now' t key alg = Inr p' \<longrightarrow> p = p')"

text \<open>argon2: a hash is recognisable as such and verifies the password it was made from.\<close>

definition hash_law :: "crypto \<Rightarrow> bool" where
  "hash_law cr \<longleftrightarrow> (\<forall>salt p. startswith (argon2_hash cr salt p) ''$argon2'' \<and>
     argon2_verify cr (argon2_hash cr salt p) p = Verified True)"

section \<open>A concrete instance of the parameter\<close>

text \<open>
  Used by the witnesses only: tokens spell their claims out, a hash is the password behind the
  scheme's prefix, draws are the decimal seed.
\<close>

definition demo_field :: "string \<Rightarrow> string" where
  "demo_field s = concat (map (\<lambda>c. [CHR ''x'', c]) s) @ ''.''"

fun demo_unfield :: "string \<Rightarrow> string \<times> string" where
  "demo_unfield (m # c # s) =
     (if m = CHR ''x'' then let (f, r) = demo_unfield s in (c # f, r) else ([], c # s))"
| "demo_unfield s = ([], [])"

definition demo_encode :: "token_claims \<Rightarrow> string \<Rightarrow> string \<Rightarrow> string" where
  "demo_encode c key alg = demo_field key @ demo_field (tc_sub c) @ demo_field (tc_jti c) @
     demo_field (str_int (tc_iat c div 1000000)) @ demo_field (str_int (tc_exp c div 1000000)) @
     demo_field (tc_type c)"

definition demo_decode :: "datetime \<Rightarrow> string \<Rightarrow> string \<Rightarrow> string \<Rightarrow> jwt_error + jwt_payload" where
  "demo_decode now t key alg =
     (let (k, r0) = demo_unfield t; (sub, r1) = demo_unfield r0; (jti, r2) = demo_unfield r1;
          (iat, r3) = demo_unfield r2; (ex, r4) = demo_unfield r3; (ty, r5) = demo_unfield r4
      in if k \<noteq> key then Inl JwtInvalidTokenError
         else case py_int ex of None \<Rightarrow> Inl JwtInvalidTokenError
           | Some e \<Rightarrow> if from_timestamp e \<le> now then Inl ExpiredSignatureError
               else Inr \<lparr>pl_sub = Some sub, pl_jti = Some jti, pl_iat = py_int iat,
                         pl_exp = Some e, pl_type = Some ty\<rparr>)"

definition demo_crypto :: crypto where
  "demo_crypto = \<lparr>jwt_encode = demo_encode, jwt_decode = demo_decode,
     argon2_hash = (\<lambda>salt p. ''$argon2'' @ p),
     argon2_verify = (\<lambda>h p. Verified (h = ''$argon2'' @ p)),
     bcrypt_checkpw = (\<lambda>p h. Some False), sha256_hex = (\<lambda>s. ''h'' @ s),
     uuid4_str = str_nat, token_urlsafe = (\<lambda>n seed. str_nat seed)\<rparr>"

definition demo_config :: auth_config where
  "demo_config = \<lparr>jwt_secret_key = ''k'', jwt_algorithm = ''HS256'',
     access_token_expire_minutes = 30, refresh_token_expire_days = 14\<rparr>"

definition demo_user :: user where
  "demo_user = \<lparr>u_id = 1, u_username = ''ann'', u_email = ''a@x'', u_password_hash = ''$argon2pw'',
     u_is_active = True, u_is_superuser = False, u_role = ANALYST, u_created_at = 0, u_updated_at = 0\<rparr>"

definition demo_world :: world where
  "demo_world = \<lparr>w_db = \<lparr>db_users = [demo_user], db_refresh_tokens = [], db_api_keys = []\<rparr>,
     w_now = 0, w_seed = 0\<rparr>"

lemma demo_unfield_field: "r \<noteq> [] \<Longrightarrow> demo_unfield (demo_field s @ r) = (s, r)"
proof (induction s)
  case Nil
  then show ?case by (cases r) (auto simp: demo_field_def)
next
  case (Cons c s)
  then show ?case by (simp add: demo_field_def)
qed

lemma demo_unfield_last: "demo_unfield (demo_field s) = (s, [])"
  by (induction s) (auto simp: demo_field_def)

lemma demo_field_nonempty [simp]: "demo_field s \<noteq> []"
  by (simp add: demo_field_def)

lemma demo_jwt_law: "jwt_law demo_crypto"
  by (simp add: jwt_law_def demo_crypto_def demo_encode_def demo_decode_def demo_unfield_field
      demo_unfield_last py_int_str_int payload_of_def)

lemma demo_jwt_stable: "jwt_stable demo_crypto"
  by (auto simp: jwt_stable_def demo_crypto_def demo_decode_def Let_def
      split: prod.splits option.splits if_splits)

lemma demo_hash_law: "hash_law demo_crypto"
  by (simp add: hash_law_def demo_crypto_def startswith_def)

lemma demo_world_ok: "db_ok (w_db demo_world)"
  by (simp add: db_ok_def demo_world_def)

section \<open>Orders of the states\<close>

text \<open>
  An operation moves along a relation between states when it does so from every state, whatever its
  outcome.
\<close>

definition moves :: "(world \<Rightarrow> world \<Rightarrow> bool) \<Rightarrow> 'a auth_op \<Rightarrow> bool" where
  "moves le m \<longleftrightarrow> (\<forall>w. le w (snd (m w)))"

text \<open>
  An order of the states along which the entropy and every operation of the repositories move, the
  revocation of an API key excepted. Then every operation of the service moves along it that
  revokes no key.
\<close>

named_theorems moves_intros \<open>operations that move along a state order\<close>

locale state_order =
  fixes le :: "world \<Rightarrow> world \<Rightarrow> bool"
  assumes le_refl: "le w w"
    and le_trans: "le u v \<Longrightarrow> le v w \<Longrightarrow> le u w"
    and le_seed: "le w (w\<lparr>w_seed := n\<rparr>)"
    and le_create_user: "le w (snd (create_user name mail h su w))"
    and le_store_refresh_token: "le w (snd (store_refresh_token uid j ex w))"
    and le_revoke_refresh_token: "le w (snd (revoke_refresh_token j w))"
    and le_create_api_key_row: "le w (snd (create_api_key_row uid pre h name expires w))"
    and le_touch: "le w (snd (touch_api_key_last_used i w))"
begin

lemma moves_return [moves_intros]: "moves le (sreturn x)"
  by (simp add: moves_def le_refl)

lemma moves_raise [moves_intros]: "moves le (sraise e)"
  by (simp add: moves_def le_refl)

lemma moves_lift [moves_intros]: "moves le (slift f)"
  by (simp add: moves_def le_refl)

lemma moves_draw [moves_intros]: "moves le (draw f)"
  by (simp add: moves_def draw_def le_seed)

lemma moves_bind [moves_intros]:
  assumes "moves le m" "\<And>x. moves le (f x)"
  shows "moves le (sbind m f)"
  unfolding moves_def
proof
  fix w
  have "le w (snd (m w))" using assms(1) by (simp add: moves_def)
  moreover have "le (snd (m w)) (snd (f x (snd (m w))))" for x using assms(2) by (simp add: moves_def)
  ultimately show "le w (snd (sbind m f w))"
    by (cases "fst (m w)") (auto simp: sbind_def case_prod_beta intro: le_trans)
qed

lemma moves_option [moves_intros]:
  "moves le a \<Longrightarrow> (\<And>x. moves le (b x)) \<Longrightarrow> moves le (case r of None \<Rightarrow> a | Some x \<Rightarrow> b x)"
  by (cases r) auto

lemma moves_if [moves_intros]: "moves le a \<Longrightarrow> moves le b \<Longrightarrow> moves le (if c then a else b)"
  by simp

lemma moves_pair [moves_intros]: "(\<And>x y. moves le (f x y)) \<Longrightarrow> moves le (case p of (x, y) \<Rightarrow> f x y)"
  by (cases p) auto

lemma moves_queries [moves_intros]:
  "moves le (get_by_username n)" "moves le (get_by_email m)" "moves le (get_by_id i)" "moves le (get_refresh_token j)"
  "moves le (get_api_key_by_hash h)" "moves le (get_api_key_by_id i)" "moves le (list_api_keys_for_user i)"
  by (simp_all add: query_defs moves_lift)

lemma moves_repository [moves_intros]:
  "moves le (create_user n m h s)" "moves le (store_refresh_token u j e)" "moves le (revoke_refresh_token j)"
  "moves le (create_api_key_row u p h n x)" "moves le (touch_api_key_last_used i)"
  by (simp_all add: moves_def le_create_user le_store_refresh_token le_revoke_refresh_token
      le_create_api_key_row le_touch)

lemma moves_decode_token [moves_intros]: "moves le (decode_token cr t k a)"
  unfolding decode_token_def by (rule moves_lift)

lemma moves_validate_token [moves_intros]: "moves le (validate_token cr t k a ty)"
  unfolding validate_token_def by (intro moves_intros)

lemma moves_encode_token [moves_intros]: "moves le (encode_token cr sub ty k a d)"
  unfolding encode_token_def by (intro moves_bind moves_draw) (simp add: moves_def le_refl)

lemma moves_create_pair [moves_intros]: "moves le (create_token_pair cr cfg u)"
  unfolding create_token_pair_def create_access_token_def create_refresh_token_def
  by (intro moves_intros)

lemma moves_register [moves_intros]: "moves le (register_insert cr n m p)" "moves le (register_user cr n m p)"
proof -
  have same: "snd (case r of (Inl IntegrityError, w') \<Rightarrow> (Inl DuplicateUserError, w')
    | (Inl e, w') \<Rightarrow> (Inl e, w') | (Inr user, w') \<Rightarrow> (Inr (read_user user), w')) = snd r"
    for r :: "(auth_error + user) \<times> world"
    by (simp split: prod.splits sum.splits auth_error.splits)
  have "moves le (\<lambda>w. case create_user n m h False w of
      (Inl IntegrityError, w') \<Rightarrow> (Inl DuplicateUserError, w')
    | (Inl e, w') \<Rightarrow> (Inl e, w') | (Inr user, w') \<Rightarrow> (Inr (read_user user), w'))" for h
    using moves_repository(1) by (simp add: moves_def le_refl same)
  then show ins: "moves le (register_insert cr n m p)"
    unfolding register_insert_def hash_password_def by (intro moves_bind moves_draw)
  show "moves le (register_user cr n m p)"
    unfolding register_user_def register_precheck_def or_else_def by (intro moves_intros ins)
qed

lemma moves_authenticate [moves_intros]: "moves le (authenticate cr n p)"
  unfolding authenticate_def or_else_def by (intro moves_intros)

lemma moves_refresh [moves_intros]:
  "moves le (validate_refresh_token cr cfg t)" "moves le (refresh_tokens cr cfg t)" "moves le (logout cr cfg t)"
proof -
  show v: "moves le (validate_refresh_token cr cfg t)"
    unfolding validate_refresh_token_def
    by (intro moves_intros) (auto simp: moves_def le_refl)
  show "moves le (refresh_tokens cr cfg t)"
    unfolding refresh_tokens_def refresh_check_def refresh_rotate_def by (intro moves_intros v)
  show "moves le (logout cr cfg t)"
    unfolding logout_def by (intro moves_intros v)
qed

lemma moves_current_user [moves_intros]: "moves le (get_current_user cr cfg t)"
  unfolding get_current_user_def by (intro moves_intros)

lemma moves_api_keys [moves_intros]:
  "moves le (create_api_key cr u n e)" "moves le (list_api_keys u)"
  unfolding create_api_key_def generate_raw_api_key_def list_api_keys_def
  by (intro moves_intros)+

lemma moves_authenticate_api_key [moves_intros]: "moves le (authenticate_api_key cr raw)"
proof -
  have last: "moves le (\<lambda>w'. if P w' then sbind (touch_api_key_last_used i) (\<lambda>_. sreturn x) w' else (Inr x, w'))"
    for P i and x :: user_read
    using moves_bind [OF moves_repository(5), of "\<lambda>_. sreturn x" i] by (auto simp: moves_def le_refl)
  have mid: "moves le (\<lambda>w. if P w then (Inl e, w) else m w)" if "moves le m" for P e and m :: "user_read auth_op"
    using that by (auto simp: moves_def le_refl)
  show ?thesis
    unfolding authenticate_api_key_def by (intro moves_if moves_raise moves_bind moves_queries moves_option last mid)
qed

end

section \<open>Steps that lose nothing\<close>

definition token_revoked :: "world \<Rightarrow> string \<Rightarrow> bool" where
  "token_revoked w jti \<longleftrightarrow> (\<exists>t\<in>set (db_refresh_tokens (w_db w)). rt_jti t = jti \<and> rt_revoked t)"

definition key_revoked :: "world \<Rightarrow> string \<Rightarrow> bool" where
  "key_revoked w h \<longleftrightarrow> (\<exists>k\<in>set (db_api_keys (w_db w)). ak_key_hash k = h \<and> ak_revoked_at k \<noteq> None)"

text \<open>\<open>world_le\<close> relates a state to one that keeps the table constraints and everything revoked.\<close>

definition world_le :: "world \<Rightarrow> world \<Rightarrow> bool" where
  "world_le w w' \<longleftrightarrow> (db_ok (w_db w) \<longrightarrow> db_ok (w_db w')) \<and>
     (\<forall>j. token_revoked w j \<longrightarrow> token_revoked w' j) \<and> (\<forall>h. key_revoked w h \<longrightarrow> key_revoked w' h)"

abbreviation safe :: "'a auth_op \<Rightarrow> bool" where
  "safe \<equiv> moves world_le"

lemmas safe_def = moves_def [of world_le]

lemma world_le_refl [simp]: "world_le w w"
  by (simp add: world_le_def)

lemma world_le_db: "w_db w' = w_db w \<Longrightarrow> world_le w w'"
  by (simp add: world_le_def token_revoked_def key_revoked_def)

lemma safe_revoke_refresh_token: "safe (revoke_refresh_token j)"
  unfolding safe_def world_le_def
proof (intro allI conjI impI)
  fix w h assume "token_revoked w h"
  then show "token_revoked (snd (revoke_refresh_token j w)) h"
    by (force simp: revoke_refresh_token_def sbind_def get_refresh_token_def token_revoked_def
        split: sum.splits option.splits)
next
  fix w h assume "key_revoked w h"
  then show "key_revoked (snd (revoke_refresh_token j w)) h"
    by (auto simp: revoke_refresh_token_def sbind_def get_refresh_token_def key_revoked_def
        split: sum.splits option.splits)
qed (rule revoke_refresh_token_ok)

lemma key_revoked_update:
  assumes "key_revoked w h" "\<And>k. ak_key_hash (f k) = ak_key_hash k"
    "\<And>k. ak_revoked_at k \<noteq> None \<Longrightarrow> ak_revoked_at (f k) \<noteq> None"
  shows "key_revoked (update_api_key i f w) h"
proof -
  obtain k where k: "k \<in> set (db_api_keys (w_db w))" "ak_key_hash k = h" "ak_revoked_at k \<noteq> None"
    using assms(1) by (auto simp: key_revoked_def)
  let ?k = "if ak_id k = i then f k else k"
  have "?k \<in> set (db_api_keys (w_db (update_api_key i f w)))" using k(1) by (auto simp: update_api_key_def)
  moreover have "ak_key_hash ?k = h" "ak_revoked_at ?k \<noteq> None" using k(2,3) assms(2,3) by auto
  ultimately show ?thesis unfolding key_revoked_def by blast
qed

lemma token_revoked_update [simp]: "token_revoked (update_api_key i f w) j = token_revoked w j"
  by (simp add: token_revoked_def update_api_key_def)

lemma safe_update_api_key:
  assumes "\<And>k. ak_id (f k) = ak_id k" "\<And>k. ak_key_hash (f k) = ak_key_hash k"
    "\<And>k. ak_user_id (f k) = ak_user_id k" "\<And>k. ak_revoked_at k \<noteq> None \<Longrightarrow> ak_revoked_at (f k) \<noteq> None"
  shows "world_le w (update_api_key i f w)"
  unfolding world_le_def
proof (intro conjI allI impI)
  show "db_ok (w_db (update_api_key i f w))" if "db_ok (w_db w)"
    using that assms(1-3) by (rule update_api_key_ok)
  show "key_revoked (update_api_key i f w) h" if "key_revoked w h" for h
    using that assms(2,4) by (rule key_revoked_update)
qed simp

lemma safe_key_updates: "world_le w (snd (revoke_api_key_row i w))" "world_le w (snd (touch_api_key_last_used i w))"
  unfolding revoke_api_key_row_def touch_api_key_last_used_def by (auto intro!: safe_update_api_key)

interpretation sessions: state_order world_le
proof
  show "world_le w (snd (create_user n m h s w))" for w n m h s
    using create_user_ok by (auto simp: world_le_def create_user_def Let_def token_revoked_def key_revoked_def)
  show "world_le w (snd (store_refresh_token u j e w))" for w u j e
    using store_refresh_token_ok by (auto simp: world_le_def store_refresh_token_def Let_def token_revoked_def key_revoked_def)
  show "world_le w (snd (create_api_key_row u p h n e w))" for w u p h n e
    using create_api_key_row_ok by (auto simp: world_le_def create_api_key_row_def Let_def token_revoked_def key_revoked_def)
  show "world_le w (snd (revoke_refresh_token j w))" for w j
    using safe_revoke_refresh_token by (simp add: safe_def)
  show "world_le w (w\<lparr>w_seed := n\<rparr>)" for w n by (simp add: world_le_db)
  show "world_le u w" if "world_le u v" "world_le v w" for u v w
    using that by (simp add: world_le_def)
qed (rule world_le_refl, rule safe_key_updates)

lemma safe_revoke_api_key [moves_intros]: "safe (revoke_api_key_row i)" "safe (revoke_api_key q i)"
proof -
  show row: "safe (revoke_api_key_row j)" for j by (simp add: safe_def safe_key_updates)
  show "safe (revoke_api_key q i)" unfolding revoke_api_key_def by (intro moves_intros row)
qed

lemmas safe_register = sessions.moves_register
lemmas safe_create_pair = sessions.moves_create_pair
lemmas safe_create_api_key = sessions.moves_api_keys(1)

datatype service_op =
    OpRegister string string string | OpAuthenticate string string | OpCreateTokenPair int
  | OpRefresh string | OpLogout string | OpCurrentUser string
  | OpCreateApiKey int string "datetime option" | OpListApiKeys int
  | OpRevokeApiKey user_read int | OpAuthenticateApiKey string
  | OpTimePasses nat

fun service_step :: "crypto \<Rightarrow> auth_config \<Rightarrow> service_op \<Rightarrow> world \<Rightarrow> world" where
  "service_step cr cfg (OpRegister n m p) w = snd (register_user cr n m p w)"
| "service_step cr cfg (OpAuthenticate n p) w = snd (authenticate cr n p w)"
| "service_step cr cfg (OpCreateTokenPair u) w = snd (create_token_pair cr cfg u w)"
| "service_step cr cfg (OpRefresh t) w = snd (refresh_tokens cr cfg t w)"
| "service_step cr cfg (OpLogout t) w = snd (logout cr cfg t w)"
| "service_step cr cfg (OpCurrentUser t) w = snd (get_current_user cr cfg t w)"
| "service_step cr cfg (OpCreateApiKey u n e) w = snd (create_api_key cr u n e w)"
| "service_step cr cfg (OpListApiKeys u) w = snd (list_api_keys u w)"
| "service_step cr cfg (OpRevokeApiKey q i) w = snd (revoke_api_key q i w)"
| "service_step cr cfg (OpAuthenticateApiKey raw) w = snd (authenticate_api_key cr raw w)"
| "service_step cr cfg (OpTimePasses d) w = w\<lparr>w_now := w_now w + int d\<rparr>"

lemma service_step_le: "world_le w (service_step cr cfg op w)"
proof (cases op)
  case (OpTimePasses d)
  then show ?thesis by (simp add: world_le_db)
qed (simp_all add: moves_intros [unfolded safe_def, rule_format])

text \<open>A mark that no step removes stays through every run.\<close>

locale sticky_flag =
  fixes step :: "'op \<Rightarrow> 'w \<Rightarrow> 'w" and flag :: "'w \<Rightarrow> 'k \<Rightarrow> bool"
  assumes step_flag: "flag w k \<Longrightarrow> flag (step op w) k"
begin

lemma run_flag: "flag w k \<Longrightarrow> flag (fold step ops w) k"
  by (induction ops arbitrary: w) (auto intro: step_flag)

end

interpretation revoked_tokens: sticky_flag "service_step cr cfg" token_revoked for cr cfg
  using service_step_le by unfold_locales (auto simp: world_le_def)

interpretation revoked_keys: sticky_flag "service_step cr cfg" key_revoked for cr cfg
  using service_step_le by unfold_locales (auto simp: world_le_def)

interpretation constraints: sticky_flag "service_step cr cfg" "\<lambda>w (_::unit). db_ok (w_db w)" for cr cfg
  using service_step_le by unfold_locales (auto simp: world_le_def)

end
