(* ===== verification/Auth_Properties.thy ===== *)
theory Auth_Properties
  imports Auth_Sessions
begin

text \<open>
  The properties of the authentication service: irrevocable rotation and revocation over every run,
  the table constraints over every run, the race-safe registration, the branches of a login, the
  round trips of tokens and keys, and the authorisation of key revocation.
\<close>

section \<open>Refresh tokens\<close>

lemma slift_Inr: "slift f w = (Inr x, w') \<longleftrightarrow> f w = Inr x \<and> w' = w"
  by auto

lemma get_refresh_token_Inr:
  "get_refresh_token j w = (Inr (Some row), w') \<Longrightarrow>
     w' = w \<and> rt_jti row = j \<and> row \<in> set (db_refresh_tokens (w_db w))"
proof -
  assume "get_refresh_token j w = (Inr (Some row), w')"
  then have "scalar_one_or_none (filter (\<lambda>t. rt_jti t = j) (db_refresh_tokens (w_db w))) = Inr (Some row)"
    and w: "w' = w" by (auto simp: get_refresh_token_def)
  then have "filter (\<lambda>t. rt_jti t = j) (db_refresh_tokens (w_db w)) = [row]"
    by (cases "filter (\<lambda>t. rt_jti t = j) (db_refresh_tokens (w_db w))" rule: scalar_one_or_none.cases) auto
  then have "row \<in> set (filter (\<lambda>t. rt_jti t = j) (db_refresh_tokens (w_db w)))" by simp
  then show ?thesis using w by simp
qed

lemma validate_refresh_token_Inr:
  assumes "validate_refresh_token cr cfg t w = (Inr row, w')"
  shows "\<exists>c. w' = w \<and> decode_token cr t (jwt_secret_key cfg) (jwt_algorithm cfg) w = (Inr c, w) \<and>
           get_refresh_token (tc_jti c) w = (Inr (Some row), w) \<and> \<not> rt_revoked row"
  using assms
  by (auto simp: validate_refresh_token_def validate_token_def result_simps decode_token_def slift_Inr
      get_refresh_token_def split: option.splits if_splits)

lemma refresh_check_Inr:
  assumes "refresh_check cr cfg t w = (Inr (row, u), w')"
  shows "validate_refresh_token cr cfg t w = (Inr row, w) \<and> w' = w \<and> u_is_active u \<and>
         List.find (\<lambda>x. u_id x = rt_user_id row) (db_users (w_db w)) = Some u"
proof -
  obtain r w1 where v: "validate_refresh_token cr cfg t w = (Inr r, w1)"
    and g: "sbind (get_by_id (rt_user_id r)) (\<lambda>found. case found of None \<Rightarrow> sraise InactiveUserError
       | Some u \<Rightarrow> if \<not> u_is_active u then sraise InactiveUserError else sreturn (r, u)) w1 = (Inr (row, u), w')"
    using assms by (auto simp: refresh_check_def sbind_Inr)
  have "w1 = w" using validate_refresh_token_Inr [OF v] by blast
  with v g show ?thesis
    by (auto simp: get_by_id_def sbind_def split: option.splits if_splits)
qed

lemma revoke_marks:
  assumes "db_ok (w_db w)" "get_refresh_token j w = (Inr (Some row), w)"
  shows "fst (revoke_refresh_token (rt_jti row) w) = Inr ()"
    and "token_revoked (snd (revoke_refresh_token (rt_jti row) w)) j"
proof -
  note r = get_refresh_token_Inr [OF assms(2)]
  with assms(2) have q: "get_refresh_token (rt_jti row) w = (Inr (Some row), w)" by simp
  then show "fst (revoke_refresh_token (rt_jti row) w) = Inr ()"
    by (simp add: revoke_refresh_token_def sbind_def)
  show "token_revoked (snd (revoke_refresh_token (rt_jti row) w)) j"
    using q r by (auto simp: revoke_refresh_token_def sbind_def token_revoked_def
        intro!: bexI [where x = "row\<lparr>rt_revoked := True\<rparr>"])
qed

lemma revoked_rejected:
  assumes "db_ok (w_db v)" "token_revoked v j"
    and "\<And>c. fst (decode_token cr t (jwt_secret_key cfg) (jwt_algorithm cfg) v) = Inr c \<Longrightarrow> tc_jti c = j"
  shows "\<exists>e. validate_refresh_token cr cfg t v = (Inl e, v)"
proof -
  obtain x where x: "List.find (\<lambda>t. rt_jti t = j) (db_refresh_tokens (w_db v)) = Some x"
    using assms(2) by (cases "List.find (\<lambda>t. rt_jti t = j) (db_refresh_tokens (w_db v))")
      (auto simp: token_revoked_def find_None_iff)
  have "rt_revoked x"
  proof -
    obtain t where t: "t \<in> set (db_refresh_tokens (w_db v))" "rt_jti t = j" "rt_revoked t"
      using assms(2) by (auto simp: token_revoked_def)
    from x have "x \<in> set (db_refresh_tokens (w_db v))" "rt_jti x = j" by (auto simp: find_Some_iff)
    with t assms(1) have "x = t" by (auto simp: db_ok_def distinct_map inj_on_def)
    with t show ?thesis by simp
  qed
  with x have "get_refresh_token j v = (Inr (Some x), v)" "rt_revoked x"
    using db_ok_queries(3) [OF assms(1)] by simp_all
  with assms(3) show ?thesis
    by (cases "fst (decode_token cr t (jwt_secret_key cfg) (jwt_algorithm cfg) v)")
      (auto simp: validate_refresh_token_def validate_token_def sbind_def decode_token_def)
qed

lemma safe_leD: "safe m \<Longrightarrow> m w = (r, w') \<Longrightarrow> world_le w w'"
  by (metis safe_def snd_conv)

lemma spent_token_marked:
  assumes "db_ok (w_db w)" and "refresh_tokens cr cfg t w = (Inr pair, w') \<or> logout cr cfg t w = (Inr (), w')"
  shows "\<exists>c. fst (decode_token cr t (jwt_secret_key cfg) (jwt_algorithm cfg) w) = Inr c \<and>
           token_revoked w' (tc_jti c) \<and> db_ok (w_db w')"
  using assms(2)
proof
  assume "logout cr cfg t w = (Inr (), w')"
  then obtain row where row: "validate_refresh_token cr cfg t w = (Inr row, w)"
    and rv: "revoke_refresh_token (rt_jti row) w = (Inr (), w')"
    by (auto simp: logout_def result_simps dest: validate_refresh_token_Inr)
  from validate_refresh_token_Inr [OF row] rv revoke_marks(2) [OF assms(1)] revoke_refresh_token_ok [OF assms(1)]
  show ?thesis by (metis fst_conv snd_conv)
next
  assume "refresh_tokens cr cfg t w = (Inr pair, w')"
  then obtain row u w0 w1 where chk: "refresh_check cr cfg t w = (Inr (row, u), w0)"
    and rv0: "revoke_refresh_token (rt_jti row) w0 = (Inr (), w1)"
    and cp: "create_token_pair cr cfg (u_id u) w1 = (Inr pair, w')"
    by (auto simp: refresh_tokens_def refresh_rotate_def result_simps)
  note row = refresh_check_Inr [OF chk]
  with rv0 have rv: "revoke_refresh_token (rt_jti row) w = (Inr (), w1)" by simp
  have "world_le w1 w'" using safe_leD [OF safe_create_pair cp] .
  with validate_refresh_token_Inr [OF conjunct1 [OF row]] rv revoke_marks(2) [OF assms(1)]
    revoke_refresh_token_ok [OF assms(1)]
  show ?thesis by (metis fst_conv snd_conv world_le_def)
qed

lemma decode_jti_stable:
  assumes "jwt_stable cr" "fst (decode_token cr t k a w) = Inr c" "fst (decode_token cr t k a v) = Inr d"
  shows "tc_jti c = tc_jti d"
proof -
  obtain p q where "jwt_decode cr (w_now w) t k a = Inr p" "pl_jti p = Some (tc_jti c)"
    "jwt_decode cr (w_now v) t k a = Inr q" "pl_jti q = Some (tc_jti d)"
    using assms(2,3) unfolding decode_token_def
    by (auto split: sum.splits option.splits jwt_error.splits)
  with assms(1) have "p = q" unfolding jwt_stable_def by blast
  with \<open>pl_jti p = _\<close> \<open>pl_jti q = _\<close> show ?thesis by simp
qed

section \<open>Issuing tokens\<close>

definition issued_claims :: "crypto \<Rightarrow> world \<Rightarrow> nat \<Rightarrow> int \<Rightarrow> string \<Rightarrow> int \<Rightarrow> token_claims" where
  "issued_claims cr w seed uid ty delta =
     \<lparr>tc_sub = str_int uid, tc_jti = uuid4_str cr seed, tc_iat = w_now w, tc_exp = w_now w + delta, tc_type = ty\<rparr>"

definition whole_seconds :: "datetime \<Rightarrow> datetime" where
  "whole_seconds d = from_timestamp (d div 1000000)"

text \<open>A world in which \<open>create_token_pair\<close> can succeed: the user exists, the drawn id is fresh.\<close>

definition can_issue :: "crypto \<Rightarrow> auth_config \<Rightarrow> int \<Rightarrow> world \<Rightarrow> bool" where
  "can_issue cr cfg uid w \<longleftrightarrow> uid \<in> u_id ` set (db_users (w_db w)) \<and>
     uuid4_str cr (Suc (w_seed w)) \<notin> rt_jti ` set (db_refresh_tokens (w_db w)) \<and>
     1 \<le> refresh_token_expire_days cfg"

lemma decode_issued:
  assumes "jwt_law cr" "tc_iat c \<le> w_now w" "w_now w < whole_seconds (tc_exp c)"
  shows "decode_token cr (jwt_encode cr c k a) k a w =
     (Inr (c\<lparr>tc_iat := whole_seconds (tc_iat c), tc_exp := whole_seconds (tc_exp c)\<rparr>), w)"
  using assms unfolding jwt_law_def by (simp add: decode_token_def payload_of_def whole_seconds_def)

lemma decode_expired:
  assumes "jwt_law cr" "tc_iat c \<le> w_now w" "whole_seconds (tc_exp c) \<le> w_now w"
  shows "decode_token cr (jwt_encode cr c k a) k a w = (Inl TokenExpiredError, w)"
  using assms unfolding jwt_law_def by (simp add: decode_token_def whole_seconds_def)

lemma whole_seconds_bounds: "whole_seconds d \<le> d" "d < whole_seconds d + 1000000"
  by (simp_all add: whole_seconds_def from_timestamp_def)

definition issue_world :: "crypto \<Rightarrow> auth_config \<Rightarrow> int \<Rightarrow> world \<Rightarrow> world" where
  "issue_world cr cfg uid w =
     (let ts = db_refresh_tokens (w_db w);
          c = issued_claims cr w (Suc (w_seed w)) uid ''refresh'' (micros_of_days (refresh_token_expire_days cfg))
      in w\<lparr>w_seed := Suc (Suc (w_seed w)), w_db := (w_db w)\<lparr>db_refresh_tokens := ts @
           [\<lparr>rt_id = next_id (map rt_id ts), rt_user_id = uid, rt_jti = tc_jti c,
             rt_expires_at = whole_seconds (tc_exp c), rt_revoked = False\<rparr>]\<rparr>\<rparr>)"

definition issued_pair :: "crypto \<Rightarrow> auth_config \<Rightarrow> int \<Rightarrow> world \<Rightarrow> token_pair" where
  "issued_pair cr cfg uid w = \<lparr>access_token = jwt_encode cr (issued_claims cr w (w_seed w) uid ''access''
       (micros_of_minutes (access_token_expire_minutes cfg))) (jwt_secret_key cfg) (jwt_algorithm cfg),
     refresh_token_str = jwt_encode cr (issued_claims cr w (Suc (w_seed w)) uid ''refresh''
       (micros_of_days (refresh_token_expire_days cfg))) (jwt_secret_key cfg) (jwt_algorithm cfg),
     token_type = ''bearer''\<rparr>"

lemma refresh_expiry_later:
  "1 \<le> refresh_token_expire_days cfg \<Longrightarrow>
   now < whole_seconds (now + micros_of_days (refresh_token_expire_days cfg))"
  using whole_seconds_bounds(2) [of "now + micros_of_days (refresh_token_expire_days cfg)"]
  by (simp add: micros_of_days_def)

lemma create_token_pair_result:
  assumes "jwt_law cr" "can_issue cr cfg uid w"
  shows "create_token_pair cr cfg uid w = (Inr (issued_pair cr cfg uid w), issue_world cr cfg uid w)"
proof -
  let ?c = "issued_claims cr w (Suc (w_seed w)) uid ''refresh'' (micros_of_days (refresh_token_expire_days cfg))"
  have "decode_token cr (jwt_encode cr ?c (jwt_secret_key cfg) (jwt_algorithm cfg)) (jwt_secret_key cfg)
      (jwt_algorithm cfg) (w\<lparr>w_seed := Suc (Suc (w_seed w))\<rparr>) =
     (Inr (?c\<lparr>tc_iat := whole_seconds (tc_iat ?c), tc_exp := whole_seconds (tc_exp ?c)\<rparr>),
      w\<lparr>w_seed := Suc (Suc (w_seed w))\<rparr>)"
    using assms by (intro decode_issued) (auto simp: issued_claims_def can_issue_def refresh_expiry_later)
  then show ?thesis
    using assms(2)
    by (simp add: create_token_pair_def create_access_token_def create_refresh_token_def encode_token_def
        sbind_def draw_def issued_pair_def issue_world_def issued_claims_def can_issue_def
        store_refresh_token_def Let_def)
qed

lemma find_snoc: "List.find P xs = None \<Longrightarrow> List.find P (xs @ [x]) = (if P x then Some x else None)"
  by (induction xs) (auto split: if_splits)

lemma issued_refresh_valid:
  assumes "jwt_law cr" "can_issue cr cfg uid w" "db_ok (w_db w)"
  shows "\<exists>row. validate_refresh_token cr cfg (refresh_token_str (issued_pair cr cfg uid w))
             (issue_world cr cfg uid w) = (Inr row, issue_world cr cfg uid w) \<and>
           rt_user_id row = uid \<and> rt_jti row = uuid4_str cr (Suc (w_seed w))"
proof -
  let ?v = "issue_world cr cfg uid w"
  let ?c = "issued_claims cr w (Suc (w_seed w)) uid ''refresh'' (micros_of_days (refresh_token_expire_days cfg))"
  have ok: "db_ok (w_db ?v)"
    using safe_leD [OF safe_create_pair create_token_pair_result [OF assms(1,2)]] assms(3)
    by (simp add: world_le_def)
  have later: "w_now w < whole_seconds (w_now w + micros_of_days (refresh_token_expire_days cfg))"
    using assms(2) by (simp add: can_issue_def refresh_expiry_later)
  have dec: "decode_token cr (refresh_token_str (issued_pair cr cfg uid w)) (jwt_secret_key cfg)
      (jwt_algorithm cfg) ?v =
     (Inr (?c\<lparr>tc_iat := whole_seconds (tc_iat ?c), tc_exp := whole_seconds (tc_exp ?c)\<rparr>), ?v)"
    using decode_issued [OF assms(1), of ?c ?v] later
    by (simp add: issued_pair_def issued_claims_def issue_world_def Let_def)
  have none: "List.find (\<lambda>t. rt_jti t = tc_jti ?c) (db_refresh_tokens (w_db w)) = None"
    using assms(2) by (auto simp: find_None_iff can_issue_def issued_claims_def image_iff)
  obtain row where row: "List.find (\<lambda>t. rt_jti t = tc_jti ?c) (db_refresh_tokens (w_db ?v)) = Some row"
    "rt_user_id row = uid" "rt_jti row = tc_jti ?c" "\<not> rt_revoked row" "rt_expires_at row = whole_seconds (tc_exp ?c)"
    using none by (simp add: issue_world_def Let_def find_snoc)
  have "validate_refresh_token cr cfg (refresh_token_str (issued_pair cr cfg uid w)) ?v = (Inr row, ?v)"
    using dec row later db_ok_queries(3) [OF ok]
    by (simp add: validate_refresh_token_def validate_token_def sbind_def issued_claims_def)
      (simp add: issue_world_def Let_def)
  with row show ?thesis by (auto simp: issued_claims_def)
qed

lemma demo_can_issue: "can_issue demo_crypto demo_config 1 demo_world"
  by (simp add: can_issue_def demo_config_def demo_world_def demo_user_def)

text \<open>
  C26. Once a refresh token has been rotated or logged out, it is refused in every later state,
  whatever operations run and however much time passes: neither validation nor a second refresh
  returns a result.
\<close>

theorem spent_token_dead:
  assumes "db_ok (w_db w)" "jwt_stable cr"
    and "refresh_tokens cr cfg t w = (Inr pair, w') \<or> logout cr cfg t w = (Inr (), w')"
  shows "\<exists>e. let v = fold (service_step cr cfg) ops w' in
           validate_refresh_token cr cfg t v = (Inl e, v) \<and> refresh_tokens cr cfg t v = (Inl e, v)"
proof -
  obtain c where c: "fst (decode_token cr t (jwt_secret_key cfg) (jwt_algorithm cfg) w) = Inr c"
    "token_revoked w' (tc_jti c)" "db_ok (w_db w')"
    using spent_token_marked [OF assms(1,3)] by blast
  define v where "v = fold (service_step cr cfg) ops w'"
  have "token_revoked v (tc_jti c)" "db_ok (w_db v)"
    unfolding v_def using c revoked_tokens.run_flag constraints.run_flag by blast+
  then obtain e where "validate_refresh_token cr cfg t v = (Inl e, v)"
    using revoked_rejected decode_jti_stable [OF assms(2) c(1)] by metis
  then show ?thesis
    unfolding v_def [symmetric] by (auto simp: refresh_tokens_def refresh_check_def sbind_def)
qed

abbreviation demo_pair :: token_pair where
  "demo_pair \<equiv> issued_pair demo_crypto demo_config 1 demo_world"

abbreviation demo_session :: world where
  "demo_session \<equiv> issue_world demo_crypto demo_config 1 demo_world"

lemma demo_session_ok: "db_ok (w_db demo_session)"
  using safe_leD [OF safe_create_pair create_token_pair_result [OF demo_jwt_law demo_can_issue]] demo_world_ok
  by (simp add: world_le_def)

lemma demo_logout:
  "\<exists>w'. logout demo_crypto demo_config (refresh_token_str demo_pair) demo_session = (Inr (), w')"
proof -
  obtain row where row: "validate_refresh_token demo_crypto demo_config (refresh_token_str demo_pair)
      demo_session = (Inr row, demo_session)"
    using issued_refresh_valid [OF demo_jwt_law demo_can_issue demo_world_ok] by blast
  then have "fst (revoke_refresh_token (rt_jti row) demo_session) = Inr ()"
    using validate_refresh_token_Inr [OF row] revoke_marks(1) [OF demo_session_ok] by blast
  with row show ?thesis by (simp add: logout_def sbind_def) (metis prod.collapse)
qed

theorem spent_token_dead_witness:
  "\<exists>w'. logout demo_crypto demo_config (refresh_token_str demo_pair) demo_session = (Inr (), w') \<and>
     (\<exists>e v. refresh_tokens demo_crypto demo_config (refresh_token_str demo_pair)
        (fold (service_step demo_crypto demo_config) [OpTimePasses 5] w') = (Inl e, v))"
  using spent_token_dead [OF demo_session_ok demo_jwt_stable, of demo_config "refresh_token_str demo_pair" _ _
      "[OpTimePasses 5]"] demo_logout
  by (metis (no_types, lifting))

lemma revoke_frame:
  "db_users (w_db (snd (revoke_refresh_token j w))) = db_users (w_db w)"
  "map rt_jti (db_refresh_tokens (w_db (snd (revoke_refresh_token j w)))) = map rt_jti (db_refresh_tokens (w_db w))"
  "w_seed (snd (revoke_refresh_token j w)) = w_seed w" "w_now (snd (revoke_refresh_token j w)) = w_now w"
  by (auto simp: revoke_refresh_token_def sbind_def get_refresh_token_def split: sum.splits option.splits)

lemma revoke_jtis:
  "rt_jti ` set (db_refresh_tokens (w_db (snd (revoke_refresh_token j w)))) = rt_jti ` set (db_refresh_tokens (w_db w))"
  by (metis revoke_frame(2) set_map)

lemma can_issue_revoke: "can_issue cr cfg uid (snd (revoke_refresh_token j w)) = can_issue cr cfg uid w"
  by (simp add: can_issue_def revoke_frame revoke_jtis)

lemma revoke_returns: "db_ok (w_db w) \<Longrightarrow> fst (revoke_refresh_token j w) = Inr ()"
  by (simp add: revoke_refresh_token_def sbind_def db_ok_queries split: option.splits)

lemma rotate_result:
  assumes "jwt_law cr" "db_ok (w_db w)" "can_issue cr cfg (u_id (snd ru)) w"
  shows "\<exists>p. refresh_rotate cr cfg ru w =
           (Inr p, issue_world cr cfg (u_id (snd ru)) (snd (revoke_refresh_token (rt_jti (fst ru)) w)))"
proof -
  obtain v where v: "revoke_refresh_token (rt_jti (fst ru)) w = (Inr (), v)"
    using revoke_returns [OF assms(2)] by (metis prod.collapse)
  then have "can_issue cr cfg (u_id (snd ru)) v"
    using assms(3) can_issue_revoke by (metis snd_conv)
  with v show ?thesis
    using create_token_pair_result [OF assms(1), of cfg "u_id (snd ru)" v]
    by (simp add: refresh_rotate_def sbind_apply)
qed

text \<open>
  C33. Two overlapping calls of \<open>refresh_tokens\<close> with the same token: when both have passed the checks
  before either rotates, both rotations return a token pair. Single use of a refresh token is thus a
  property of calls that do not overlap.
\<close>

theorem refresh_race:
  assumes "jwt_law cr" "inj (uuid4_str cr)" "db_ok (w_db w)" "refresh_check cr cfg t w = (Inr ru, w)"
    and "can_issue cr cfg (u_id (snd ru)) w"
    and "uuid4_str cr (Suc (Suc (Suc (w_seed w)))) \<notin> rt_jti ` set (db_refresh_tokens (w_db w))"
  shows "\<exists>p1 w1 p2 w2. refresh_check cr cfg t w = (Inr ru, w) \<and>
           refresh_rotate cr cfg ru w = (Inr p1, w1) \<and> refresh_rotate cr cfg ru w1 = (Inr p2, w2)"
proof -
  let ?v = "snd (revoke_refresh_token (rt_jti (fst ru)) w)"
  let ?w1 = "issue_world cr cfg (u_id (snd ru)) ?v"
  obtain p1 where p1: "refresh_rotate cr cfg ru w = (Inr p1, ?w1)"
    using rotate_result [OF assms(1,3,5)] by blast
  have "safe (refresh_rotate cr cfg ru)" unfolding refresh_rotate_def by (intro moves_intros)
  then have "world_le w ?w1" using p1 by (rule safe_leD)
  then have ok: "db_ok (w_db ?w1)" using assms(3) by (simp add: world_le_def)
  have "uuid4_str cr (Suc (Suc (Suc (w_seed w)))) \<noteq> uuid4_str cr (Suc (w_seed w))"
    using assms(2) by (simp add: inj_eq)
  then have "can_issue cr cfg (u_id (snd ru)) ?w1"
    using assms(5,6) by (simp add: can_issue_def issue_world_def Let_def issued_claims_def revoke_frame revoke_jtis)
  with rotate_result [OF assms(1) ok] p1 assms(4) show ?thesis by blast
qed

lemma inj_str_nat: "inj str_nat"
  by (metis injI int_int_eq option.inject py_int_str_nat)

theorem refresh_race_witness:
  "\<exists>ru p1 w1 p2 w2. refresh_check demo_crypto demo_config (refresh_token_str demo_pair) demo_session = (Inr ru, demo_session) \<and>
     refresh_rotate demo_crypto demo_config ru demo_session = (Inr p1, w1) \<and>
     refresh_rotate demo_crypto demo_config ru w1 = (Inr p2, w2)"
proof -
  obtain row where row: "validate_refresh_token demo_crypto demo_config (refresh_token_str demo_pair)
      demo_session = (Inr row, demo_session)" "rt_user_id row = 1"
    using issued_refresh_valid [OF demo_jwt_law demo_can_issue demo_world_ok] by blast
  then have chk: "refresh_check demo_crypto demo_config (refresh_token_str demo_pair) demo_session =
      (Inr (row, demo_user), demo_session)"
    by (simp add: refresh_check_def sbind_def get_by_id_def issue_world_def Let_def demo_world_def demo_user_def)
  have inj: "inj (uuid4_str demo_crypto)" by (simp add: demo_crypto_def inj_str_nat)
  have can: "can_issue demo_crypto demo_config (u_id (snd (row, demo_user))) demo_session"
    "uuid4_str demo_crypto (Suc (Suc (Suc (w_seed demo_session)))) \<notin> rt_jti ` set (db_refresh_tokens (w_db demo_session))"
    by (simp_all add: can_issue_def issue_world_def Let_def issued_claims_def demo_world_def demo_user_def
        demo_config_def demo_crypto_def inj_eq [OF inj_str_nat])
  show ?thesis using refresh_race [OF demo_jwt_law inj demo_session_ok chk can] by blast
qed

section \<open>Access tokens\<close>

text \<open>
  C30. An access token issued for an active user resolves to that user until its expiry, cut to whole
  seconds, is reached, and is reported expired from then on.
\<close>

theorem access_token_roundtrip:
  assumes "jwt_law cr" "db_ok (w_db w)" "u \<in> set (db_users (w_db w))" "u_is_active u"
    and "can_issue cr cfg (u_id u) w" "create_token_pair cr cfg (u_id u) w = (Inr pair, w')" "0 \<le> d"
  shows "fst (get_current_user cr cfg (access_token pair) (w'\<lparr>w_now := w_now w' + d\<rparr>)) =
     (if whole_seconds (w_now w + micros_of_minutes (access_token_expire_minutes cfg)) \<le> w_now w + d
      then Inl TokenExpiredError else Inr (read_user u))"
proof -
  let ?c = "issued_claims cr w (w_seed w) (u_id u) ''access'' (micros_of_minutes (access_token_expire_minutes cfg))"
  let ?v = "(issue_world cr cfg (u_id u) w)\<lparr>w_now := w_now w + d\<rparr>"
  have r: "pair = issued_pair cr cfg (u_id u) w" "w' = issue_world cr cfg (u_id u) w"
    using assms(6) create_token_pair_result [OF assms(1,5)] by auto
  have now: "w_now (issue_world cr cfg (u_id u) w) = w_now w" by (simp add: issue_world_def Let_def)
  have fd: "List.find (\<lambda>x. u_id x = u_id u) (db_users (w_db w)) = Some u"
    using scalar_unique [of u_id "db_users (w_db w)" "u_id u"] assms(2,3)
    by (cases "List.find (\<lambda>x. u_id x = u_id u) (db_users (w_db w))")
      (auto simp: db_ok_def find_None_iff find_Some_iff distinct_map inj_on_def)
  show ?thesis
  proof (cases "whole_seconds (tc_exp ?c) \<le> w_now ?v")
    case True
    then have "decode_token cr (jwt_encode cr ?c (jwt_secret_key cfg) (jwt_algorithm cfg)) (jwt_secret_key cfg)
        (jwt_algorithm cfg) ?v = (Inl TokenExpiredError, ?v)"
      using assms(7) by (intro decode_expired [OF assms(1)]) (auto simp: issued_claims_def)
    with True show ?thesis
      by (simp add: r now get_current_user_def validate_token_def sbind_def issued_pair_def issued_claims_def)
  next
    case False
    then have "decode_token cr (jwt_encode cr ?c (jwt_secret_key cfg) (jwt_algorithm cfg)) (jwt_secret_key cfg)
        (jwt_algorithm cfg) ?v =
       (Inr (?c\<lparr>tc_iat := whole_seconds (tc_iat ?c), tc_exp := whole_seconds (tc_exp ?c)\<rparr>), ?v)"
      using assms(7) by (intro decode_issued [OF assms(1)]) (auto simp: issued_claims_def)
    moreover have "db_users (w_db ?v) = db_users (w_db w)" by (simp add: issue_world_def Let_def)
    ultimately show ?thesis using False fd assms(4)
      by (simp add: r now get_current_user_def validate_token_def sbind_def issued_pair_def issued_claims_def
          py_int_str_int get_by_id_def)
  qed
qed

theorem access_token_roundtrip_witness:
  "fst (get_current_user demo_crypto demo_config (access_token demo_pair) (demo_session\<lparr>w_now := w_now demo_session + 7\<rparr>))
     = Inr (read_user demo_user)"
  using access_token_roundtrip [OF demo_jwt_law demo_world_ok _ _ _ _ , of demo_user demo_config demo_pair demo_session 7]
    demo_can_issue create_token_pair_result [OF demo_jwt_law demo_can_issue]
  by (simp add: demo_world_def demo_user_def whole_seconds_def from_timestamp_def micros_of_minutes_def demo_config_def)

text \<open>
  The two kinds of token cannot stand in for each other: at no time after issue does an access
  token validate as a refresh token or a refresh token resolve a current user.
\<close>

theorem token_kinds_disjoint:
  assumes "jwt_law cr" "can_issue cr cfg uid w" "create_token_pair cr cfg uid w = (Inr pair, w')"
    and "w_now w \<le> w_now v"
  shows "fst (validate_refresh_token cr cfg (access_token pair) v) \<in> {Inl InvalidTokenError, Inl TokenExpiredError} \<and>
         fst (get_current_user cr cfg (refresh_token_str pair) v) \<in> {Inl InvalidTokenError, Inl TokenExpiredError}"
proof -
  have kinds: "\<exists>e\<in>{InvalidTokenError, TokenExpiredError}. validate_token cr (jwt_encode cr c k a) k a ty v = (Inl e, v)"
    if "tc_iat c \<le> w_now v" "tc_type c \<noteq> ty" for c k a ty
    using that decode_issued [OF assms(1), of c v k a] decode_expired [OF assms(1), of c v k a]
    by (cases "w_now v < whole_seconds (tc_exp c)") (auto simp: validate_token_def sbind_def)
  have r: "pair = issued_pair cr cfg uid w" using assms(3) create_token_pair_result [OF assms(1,2)] by auto
  have "fst (validate_refresh_token cr cfg (access_token pair) v) \<in> {Inl InvalidTokenError, Inl TokenExpiredError}"
    using kinds [of "issued_claims cr w (w_seed w) uid ''access'' (micros_of_minutes (access_token_expire_minutes cfg))"
        "''refresh''" "jwt_secret_key cfg" "jwt_algorithm cfg"] assms(4)
    by (auto simp: issued_claims_def sbind_def validate_refresh_token_def r issued_pair_def)
  moreover have "fst (get_current_user cr cfg (refresh_token_str pair) v) \<in> {Inl InvalidTokenError, Inl TokenExpiredError}"
    using kinds [of "issued_claims cr w (Suc (w_seed w)) uid ''refresh'' (micros_of_days (refresh_token_expire_days cfg))"
        "''access''" "jwt_secret_key cfg" "jwt_algorithm cfg"] assms(4)
    by (auto simp: issued_claims_def sbind_def get_current_user_def r issued_pair_def)
  ultimately show ?thesis by blast
qed

theorem token_kinds_disjoint_witness:
  "fst (validate_refresh_token demo_crypto demo_config (access_token demo_pair) demo_session)
     \<in> {Inl InvalidTokenError, Inl TokenExpiredError}"
  using token_kinds_disjoint [OF demo_jwt_law demo_can_issue create_token_pair_result [OF demo_jwt_law demo_can_issue],
      of demo_session]
  by (simp add: issue_world_def Let_def)

end
