(* ===== verification/Auth_Accounts.thy ===== *)
theory Auth_Accounts
  imports Auth_Properties
begin

text \<open>
  Accounts and API keys: the table constraints over every run of the service, registration under a
  race, the branches of a password login, and the life cycle of an API key.
\<close>

section \<open>The constraints hold in every run\<close>

fun service_error :: "crypto \<Rightarrow> auth_config \<Rightarrow> service_op \<Rightarrow> world \<Rightarrow> auth_error option" where
  "service_error cr cfg (OpRegister n m p) w = (case fst (register_user cr n m p w) of Inl e \<Rightarrow> Some e | Inr _ \<Rightarrow> None)"
| "service_error cr cfg (OpAuthenticate n p) w = (case fst (authenticate cr n p w) of Inl e \<Rightarrow> Some e | Inr _ \<Rightarrow> None)"
| "service_error cr cfg (OpCreateTokenPair u) w = (case fst (create_token_pair cr cfg u w) of Inl e \<Rightarrow> Some e | Inr _ \<Rightarrow> None)"
| "service_error cr cfg (OpRefresh t) w = (case fst (refresh_tokens cr cfg t w) of Inl e \<Rightarrow> Some e | Inr _ \<Rightarrow> None)"
| "service_error cr cfg (OpLogout t) w = (case fst (logout cr cfg t w) of Inl e \<Rightarrow> Some e | Inr _ \<Rightarrow> None)"
| "service_error cr cfg (OpCurrentUser t) w = (case fst (get_current_user cr cfg t w) of Inl e \<Rightarrow> Some e | Inr _ \<Rightarrow> None)"
| "service_error cr cfg (OpCreateApiKey u n e) w = (case fst (create_api_key cr u n e w) of Inl e \<Rightarrow> Some e | Inr _ \<Rightarrow> None)"
| "service_error cr cfg (OpListApiKeys u) w = (case fst (list_api_keys u w) of Inl e \<Rightarrow> Some e | Inr _ \<Rightarrow> None)"
| "service_error cr cfg (OpRevokeApiKey q i) w = (case fst (revoke_api_key q i w) of Inl e \<Rightarrow> Some e | Inr _ \<Rightarrow> None)"
| "service_error cr cfg (OpAuthenticateApiKey raw) w = (case fst (authenticate_api_key cr raw w) of Inl e \<Rightarrow> Some e | Inr _ \<Rightarrow> None)"
| "service_error cr cfg (OpTimePasses d) w = None"

text \<open>An operation that never finds two rows where the constraints allow one.\<close>

definition single :: "'a auth_op \<Rightarrow> bool" where
  "single m \<longleftrightarrow> safe m \<and> (\<forall>w. db_ok (w_db w) \<longrightarrow> fst (m w) \<noteq> Inl MultipleResultsFound)"

named_theorems single_intros \<open>operations that respect uniqueness\<close>

lemma singleI:
  "safe m \<Longrightarrow> (\<And>w. db_ok (w_db w) \<Longrightarrow> fst (m w) \<noteq> Inl MultipleResultsFound) \<Longrightarrow> single m"
  by (simp add: single_def)

lemma single_return [single_intros]: "single (sreturn x)"
  by (simp add: single_def moves_intros)

lemma single_raise [single_intros]: "e \<noteq> MultipleResultsFound \<Longrightarrow> single (sraise e)"
  by (simp add: single_def moves_intros)

lemma single_bind [single_intros]:
  assumes "single m" "\<And>x. single (f x)"
  shows "single (sbind m f)"
  unfolding single_def
proof (intro conjI allI impI)
  show "safe (sbind m f)" using assms by (intro sessions.moves_bind) (auto simp: single_def)
  fix w :: world assume ok: "db_ok (w_db w)"
  then have "db_ok (w_db (snd (m w)))" using assms(1) by (auto simp: single_def safe_def world_le_def)
  with ok assms show "fst (sbind m f w) \<noteq> Inl MultipleResultsFound"
    by (cases "fst (m w)") (auto simp: sbind_def case_prod_beta single_def)
qed

lemma single_option [single_intros]:
  "single a \<Longrightarrow> (\<And>x. single (b x)) \<Longrightarrow> single (case r of None \<Rightarrow> a | Some x \<Rightarrow> b x)"
  by (cases r) auto

lemma single_if [single_intros]: "single a \<Longrightarrow> single b \<Longrightarrow> single (if c then a else b)"
  by simp

lemma single_pair [single_intros]: "(\<And>x y. single (f x y)) \<Longrightarrow> single (case p of (x, y) \<Rightarrow> f x y)"
  by (cases p) auto

lemma single_lift: "(\<And>w. f w \<noteq> Inl MultipleResultsFound) \<Longrightarrow> single (slift f)"
  by (simp add: single_def sessions.moves_lift)

lemma single_repository [single_intros]:
  "single (get_by_username n)" "single (get_by_email m)" "single (get_by_id i)" "single (get_refresh_token j)"
  "single (get_api_key_by_hash h)" "single (get_api_key_by_id i)" "single (list_api_keys_for_user i)"
  "single (store_refresh_token u j e)" "single (create_api_key_row u p h n x)"
  "single (revoke_api_key_row i)" "single (touch_api_key_last_used i)" "single (revoke_refresh_token j)"
  by (rule singleI, (intro moves_intros)[1], (auto simp: revoke_returns db_ok_queries get_by_id_def
      get_api_key_by_id_def list_api_keys_for_user_def store_refresh_token_def create_api_key_row_def
      revoke_api_key_row_def touch_api_key_last_used_def Let_def)[1])+

lemma single_draw [single_intros]: "single (draw f)"
  by (rule singleI, rule sessions.moves_draw, simp add: draw_def)

lemma single_tokens [single_intros]:
  "single (decode_token cr t k a)" "single (validate_token cr t k a ty)" "single (encode_token cr sub ty k a d)"
proof -
  show dec: "single (decode_token cr t k a)"
    unfolding decode_token_def by (intro single_lift) (simp split: sum.splits option.splits jwt_error.splits)
  show "single (validate_token cr t k a ty)"
    unfolding validate_token_def by (intro single_intros dec) auto
  have "safe (encode_token cr sub ty k a d)" by (intro moves_intros)
  then show "single (encode_token cr sub ty k a d)"
    by (rule singleI) (simp add: encode_token_def sbind_def draw_def)
qed

lemma single_service:
  "single (create_token_pair cr cfg u)" "single (list_api_keys u)" "single (create_api_key cr u n e)"
  "single (revoke_api_key q i)" "single (get_current_user cr cfg t)" "single (register_precheck n m)"
  unfolding create_token_pair_def create_access_token_def create_refresh_token_def list_api_keys_def
    create_api_key_def generate_raw_api_key_def revoke_api_key_def get_current_user_def
    register_precheck_def or_else_def
  by (intro single_intros; simp)+

lemma single_refresh:
  "single (validate_refresh_token cr cfg t)" "single (refresh_tokens cr cfg t)" "single (logout cr cfg t)"
proof -
  have last: "single (\<lambda>w. if rt_expires_at row < w_now w then (Inl TokenExpiredError, w) else (Inr row, w))" for row
    by (simp add: single_def safe_def)
  show v: "single (validate_refresh_token cr cfg t)"
    unfolding validate_refresh_token_def by (intro single_intros last) auto
  show "single (refresh_tokens cr cfg t)"
    unfolding refresh_tokens_def refresh_check_def refresh_rotate_def
    by (intro single_intros v single_service) auto
  show "single (logout cr cfg t)"
    unfolding logout_def by (intro single_intros v)
qed

lemma single_login: "single (authenticate cr n p)"
proof -
  have "single (slift (\<lambda>w. verify_password cr p h))" for h
    by (intro single_lift) (simp add: verify_password_def split: verify_outcome.splits option.splits)
  then show ?thesis unfolding authenticate_def or_else_def by (intro single_intros) auto
qed

lemma single_register: "single (register_user cr n m p)"
proof -
  have "safe (register_insert cr n m p)" by (intro moves_intros)
  then have "single (register_insert cr n m p)"
    by (rule singleI) (auto simp: register_insert_def hash_password_def draw_def sbind_def create_user_def Let_def)
  then show ?thesis unfolding register_user_def by (intro single_bind single_service)
qed

lemma single_api_key_login: "single (authenticate_api_key cr raw)"
proof -
  have last: "single (\<lambda>w'. if P w' then sbind (touch_api_key_last_used i) (\<lambda>_. sreturn x) w' else (Inr x, w'))"
    for P i and x :: user_read
    using single_bind [OF single_repository(11), of "\<lambda>_. sreturn x" i] single_return [of x]
    by (auto simp: single_def safe_def)
  have mid: "single (\<lambda>w. if P w then (Inl ApiKeyExpiredError, w) else m w)" if "single m" for P and m :: "user_read auth_op"
    using that by (auto simp: single_def safe_def)
  show ?thesis
    unfolding authenticate_api_key_def
    by (intro single_if single_bind single_repository single_option last mid single_raise) auto
qed

text \<open>
  C28. In every state a run of the service reaches from a well-formed database, the uniqueness and
  foreign-key constraints hold, and no operation of the service runs into two rows where it expects
  at most one.
\<close>

theorem constraints_in_every_run:
  assumes "db_ok (w_db w)"
  shows "db_ok (w_db (fold (service_step cr cfg) ops w)) \<and>
         service_error cr cfg op (fold (service_step cr cfg) ops w) \<noteq> Some MultipleResultsFound"
proof -
  have ok: "db_ok (w_db (fold (service_step cr cfg) ops w))"
    using constraints.run_flag assms by blast
  moreover have "service_error cr cfg op v \<noteq> Some MultipleResultsFound" if "db_ok (w_db v)" for v
    using that single_service single_refresh single_login single_register single_api_key_login
    by (cases op) (auto simp: single_def split: sum.splits)
  ultimately show ?thesis by blast
qed

theorem constraints_in_every_run_witness:
  "db_ok (w_db (fold (service_step demo_crypto demo_config) [OpRegister ''bob'' ''b@x'' ''pw'', OpCreateTokenPair 2] demo_world))"
  using constraints_in_every_run [OF demo_world_ok, of demo_crypto demo_config] by blast

section \<open>Registration\<close>

lemma register_insert_ok:
  assumes "db_ok (w_db w)" "hash_law cr" "register_insert cr n m p w = (Inr r, w')"
  shows "db_ok (w_db w') \<and> n \<notin> u_username ` set (db_users (w_db w)) \<and>
        m \<notin> u_email ` set (db_users (w_db w)) \<and>
        (\<exists>u. db_users (w_db w') = db_users (w_db w) @ [u] \<and> r = read_user u \<and> u_username u = n \<and>
             u_email u = m \<and> u_role u = ANALYST \<and> u_is_active u \<and> \<not> u_is_superuser u \<and>
             verify_password cr p (u_password_hash u) = Inr True)"
proof -
  have ok: "db_ok (w_db w')"
    using safe_leD [OF safe_register(1) assms(3)] assms(1) by (simp add: world_le_def)
  have pw: "verify_password cr p (argon2_hash cr s p) = Inr True" for s
    using assms(2) by (auto simp: hash_law_def verify_password_def)
  show ?thesis
    using ok assms(3)
    by (auto simp: register_insert_def hash_password_def draw_def sbind_def create_user_def Let_def pw split: if_splits)
qed

lemma register_insert_error:
  assumes "register_insert cr n m p w = (Inl e, w')"
  shows "e = DuplicateUserError \<and> w_db w' = w_db w \<and>
     (n \<in> u_username ` set (db_users (w_db w)) \<or> m \<in> u_email ` set (db_users (w_db w)))"
  using assms
  by (auto simp: register_insert_def hash_password_def draw_def sbind_def create_user_def Let_def split: if_splits)

text \<open>
  The insertion of a registration is right in whatever state other callers have left the tables
  after the check: it reports \<open>DuplicateUserError\<close> and leaves the tables alone exactly when the name or
  the address is taken, and otherwise adds one active analyst account whose password verifies.
\<close>

theorem register_insert_race:
  assumes "db_ok (w_db w)" "hash_law cr"
  shows "case register_insert cr n m p w of
     (Inl e, w') \<Rightarrow> e = DuplicateUserError \<and> w_db w' = w_db w \<and>
        (n \<in> u_username ` set (db_users (w_db w)) \<or> m \<in> u_email ` set (db_users (w_db w)))
   | (Inr r, w') \<Rightarrow> db_ok (w_db w') \<and> n \<notin> u_username ` set (db_users (w_db w)) \<and>
        m \<notin> u_email ` set (db_users (w_db w)) \<and>
        (\<exists>u. db_users (w_db w') = db_users (w_db w) @ [u] \<and> r = read_user u \<and> u_username u = n \<and>
             u_email u = m \<and> u_role u = ANALYST \<and> u_is_active u \<and> \<not> u_is_superuser u \<and>
             verify_password cr p (u_password_hash u) = Inr True)"
proof -
  obtain o' w' where "register_insert cr n m p w = (o', w')" by fastforce
  then show ?thesis
    using register_insert_ok [OF assms] register_insert_error by (cases o') fastforce+
qed

theorem register_insert_race_witness:
  "fst (register_insert demo_crypto ''ann'' ''new@x'' ''q'' demo_world) = Inl DuplicateUserError"
proof -
  have "fst (register_insert demo_crypto ''ann'' ''new@x'' ''q'' demo_world) = Inl DuplicateUserError \<or>
        (\<exists>r. fst (register_insert demo_crypto ''ann'' ''new@x'' ''q'' demo_world) = Inr r \<and>
             ''ann'' \<notin> u_username ` set (db_users (w_db demo_world)))"
    using register_insert_race [OF demo_world_ok demo_hash_law, of "''ann''" "''new@x''" "''q''"]
    by (auto split: prod.splits sum.splits)
  then show ?thesis by (auto simp: demo_world_def demo_user_def)
qed

lemma find_unique:
  "distinct (map f xs) \<Longrightarrow> x \<in> set xs \<Longrightarrow> List.find (\<lambda>y. f y = f x) xs = Some x"
  by (cases "List.find (\<lambda>y. f y = f x) xs") (auto simp: find_None_iff find_Some_iff distinct_map inj_on_def)

lemma filter_unique: "distinct (map f xs) \<Longrightarrow> x \<in> set xs \<Longrightarrow> filter (\<lambda>y. f y = f x) xs = [x]"
  by (induction xs) (auto simp: filter_empty_conv image_iff)

section \<open>Password login\<close>

definition login_row :: "world \<Rightarrow> string \<Rightarrow> user option" where
  "login_row w name = (case List.find (\<lambda>u. u_username u = name) (db_users (w_db w)) of
     Some u \<Rightarrow> Some u | None \<Rightarrow> List.find (\<lambda>u. u_email u = name) (db_users (w_db w)))"

lemma or_else_lookup:
  "db_ok (w_db w) \<Longrightarrow> or_else (get_by_username n) (get_by_email n) w = (Inr (login_row w n), w)"
  by (simp add: or_else_def sbind_def db_ok_queries login_row_def split: option.splits)

lemma login_row_Some: "login_row w n = Some u \<Longrightarrow> u \<in> set (db_users (w_db w)) \<and> (u_username u = n \<or> u_email u = n)"
  by (auto simp: login_row_def find_Some_iff split: option.splits)

lemma authenticate_eq:
  assumes "db_ok (w_db w)"
  shows "authenticate cr n p w =
     (case login_row w n of
        None \<Rightarrow> Inl InvalidCredentialsError
      | Some u \<Rightarrow> (case verify_password cr p (u_password_hash u) of
           Inl e \<Rightarrow> Inl e
         | Inr ok \<Rightarrow> if \<not> ok then Inl InvalidCredentialsError
                     else if \<not> u_is_active u then Inl InactiveUserError else Inr (read_user u)), w)"
  using assms by (auto simp: authenticate_def sbind_apply or_else_lookup split: option.splits sum.splits)

text \<open>
  C29. A login changes nothing, an unknown name and a wrong password give the same error, an inactive
  account is only revealed to a caller whose password verified, and a success is an active account
  of that name or address whose password verified.
\<close>

theorem login_outcomes:
  assumes "db_ok (w_db w)"
    and "\<And>u. u \<in> set (db_users (w_db w)) \<Longrightarrow> \<exists>b. verify_password cr p (u_password_hash u) = Inr b"
  shows "snd (authenticate cr n p w) = w \<and>
    (case fst (authenticate cr n p w) of
       Inl e \<Rightarrow> e = InvalidCredentialsError \<and>
                  (\<forall>u. login_row w n = Some u \<longrightarrow> verify_password cr p (u_password_hash u) = Inr False) \<or>
                e = InactiveUserError \<and>
                  (\<exists>u\<in>set (db_users (w_db w)). (u_username u = n \<or> u_email u = n) \<and> \<not> u_is_active u \<and>
                     verify_password cr p (u_password_hash u) = Inr True)
     | Inr r \<Rightarrow> (\<exists>u\<in>set (db_users (w_db w)). (u_username u = n \<or> u_email u = n) \<and> u_is_active u \<and>
                  verify_password cr p (u_password_hash u) = Inr True \<and> r = read_user u))"
proof (cases "login_row w n")
  case None
  then show ?thesis by (simp add: authenticate_eq [OF assms(1)])
next
  case (Some u)
  note u = login_row_Some [OF Some]
  then obtain b where "verify_password cr p (u_password_hash u) = Inr b" using assms(2) by blast
  with Some u show ?thesis by (cases b) (auto simp: authenticate_eq [OF assms(1)])
qed

lemma demo_verify: "verify_password demo_crypto p (''$argon2'' @ q) = Inr (p = q)"
  by (auto simp: verify_password_def demo_crypto_def startswith_def)

theorem login_outcomes_witness:
  "fst (authenticate demo_crypto ''ann'' ''bad'' demo_world) = Inl InvalidCredentialsError"
proof -
  have v: "\<exists>b. verify_password demo_crypto ''bad'' (u_password_hash u) = Inr b"
    if "u \<in> set (db_users (w_db demo_world))" for u
    using that demo_verify [of "''bad''" "''pw''"] by (auto simp: demo_world_def demo_user_def)
  show ?thesis
    using login_outcomes [OF demo_world_ok v, of "''ann''"]
      demo_verify [of "''bad''" "''pw''"]
    by (auto simp: demo_world_def demo_user_def split: sum.splits)
qed

text \<open>
  A freshly registered account can log in by its user name, and gets the record it was shown.
\<close>

theorem register_then_login:
  assumes "db_ok (w_db w)" "hash_law cr" "register_user cr n m p w = (Inr r, w')"
  shows "authenticate cr n p w' = (Inr r, w')"
proof -
  have ins: "register_insert cr n m p w = (Inr r, w')"
    using assms(1,3) by (auto simp: register_user_def register_precheck_def or_else_def sbind_apply
        db_ok_queries split: option.splits if_splits)
  from register_insert_ok [OF assms(1,2) ins] obtain u where
    u: "db_ok (w_db w')" "n \<notin> u_username ` set (db_users (w_db w))"
      "db_users (w_db w') = db_users (w_db w) @ [u]" "r = read_user u" "u_username u = n" "u_is_active u"
      "verify_password cr p (u_password_hash u) = Inr True"
    by blast
  have "List.find (\<lambda>x. u_username x = n) (db_users (w_db w)) = None"
    using u(2) by (auto simp: find_None_iff)
  with u show ?thesis by (simp add: authenticate_eq login_row_def find_snoc)
qed

theorem register_then_login_witness:
  "\<exists>r w'. register_user demo_crypto ''bob'' ''b@x'' ''s'' demo_world = (Inr r, w') \<and>
     authenticate demo_crypto ''bob'' ''s'' w' = (Inr r, w')"
proof -
  obtain r w' where "register_user demo_crypto ''bob'' ''b@x'' ''s'' demo_world = (Inr r, w')"
    by (simp add: register_user_def register_precheck_def or_else_def sbind_apply register_insert_def
        hash_password_def draw_def create_user_def get_by_username_def get_by_email_def demo_world_def
        demo_user_def Let_def)
  with register_then_login [OF demo_world_ok demo_hash_law] show ?thesis by blast
qed

text \<open>
  An account whose address is another account's user name cannot log in by its address: the
  user-name lookup comes first and finds the other account, so the right password is refused.
\<close>

theorem email_login_shadowed:
  assumes "db_ok (w_db w)" "x \<in> set (db_users (w_db w))" "y \<in> set (db_users (w_db w))"
    and "u_username x = u_email y" "verify_password cr p (u_password_hash y) = Inr True"
    and "verify_password cr p (u_password_hash x) = Inr False"
  shows "authenticate cr (u_email y) p w = (Inl InvalidCredentialsError, w)"
proof -
  have "List.find (\<lambda>u. u_username u = u_email y) (db_users (w_db w)) = Some x"
    using find_unique [of u_username "db_users (w_db w)" x] assms(1,2,4) by (simp add: db_ok_def)
  with assms(6) show ?thesis by (simp add: authenticate_eq [OF assms(1)] login_row_def)
qed

definition shadow_user :: user where
  "shadow_user = demo_user\<lparr>u_id := 2, u_username := ''a@x'', u_email := ''m@x'', u_password_hash := ''$argon2zz''\<rparr>"

definition shadow_world :: world where
  "shadow_world = demo_world\<lparr>w_db := (w_db demo_world)\<lparr>db_users := [demo_user, shadow_user]\<rparr>\<rparr>"

theorem email_login_shadowed_witness:
  "authenticate demo_crypto ''a@x'' ''pw'' shadow_world = (Inl InvalidCredentialsError, shadow_world)"
proof -
  have ok: "db_ok (w_db shadow_world)"
    by (simp add: db_ok_def shadow_world_def shadow_user_def demo_user_def demo_world_def)
  have names: "u_username shadow_user = ''a@x''" "u_email demo_user = ''a@x''"
    "u_password_hash shadow_user = ''$argon2'' @ ''zz''" "u_password_hash demo_user = ''$argon2'' @ ''pw''"
    by (simp_all add: shadow_user_def demo_user_def)
  have mem: "shadow_user \<in> set (db_users (w_db shadow_world))" "demo_user \<in> set (db_users (w_db shadow_world))"
    by (simp_all add: shadow_world_def)
  show ?thesis
    using email_login_shadowed [OF ok mem, of demo_crypto "''pw''"] names demo_verify [of "''pw''" "''pw''"]
      demo_verify [of "''pw''" "''zz''"] by simp
qed

section \<open>API keys\<close>

text \<open>
  C27. Once revoked, an API key is refused as revoked in every later state, whatever operations run.
\<close>

theorem revoked_key_dead:
  assumes "db_ok (w_db w)" "k \<in> set (db_api_keys (w_db w))" "hash_api_key cr raw = ak_key_hash k"
    and "startswith raw API_KEY_PREFIX" "revoke_api_key q (ak_id k) w = (Inr (), w')"
  shows "let v = fold (service_step cr cfg) ops w' in authenticate_api_key cr raw v = (Inl ApiKeyRevokedError, v)"
proof -
  have "List.find (\<lambda>y. ak_id y = ak_id k) (db_api_keys (w_db w)) = Some k"
    using assms(1,2) by (intro find_unique) (auto simp: db_ok_def)
  with assms(5) have w': "revoke_api_key_row (ak_id k) w = (Inr (), w')"
    by (auto simp: revoke_api_key_def sbind_apply get_api_key_by_id_def split: if_splits)
  have "key_revoked w' (ak_key_hash k)"
  proof -
    let ?k = "if ak_revoked_at k = None then k\<lparr>ak_revoked_at := Some (w_now w)\<rparr> else k"
    have "?k \<in> set (db_api_keys (w_db w'))"
      using assms(2) w' by (auto simp: revoke_api_key_row_def update_api_key_def)
    then show ?thesis unfolding key_revoked_def by (rule bexI [rotated]) simp
  qed
  moreover have "db_ok (w_db w')" using revoke_api_key_row_ok [OF assms(1), of "ak_id k"] w' by simp
  ultimately have v: "key_revoked (fold (service_step cr cfg) ops w') (ak_key_hash k)"
      "db_ok (w_db (fold (service_step cr cfg) ops w'))"
    using revoked_keys.run_flag constraints.run_flag by blast+
  then obtain x where "x \<in> set (db_api_keys (w_db (fold (service_step cr cfg) ops w')))"
      "ak_key_hash x = ak_key_hash k" "ak_revoked_at x \<noteq> None"
    by (auto simp: key_revoked_def)
  moreover from this v(2) have "List.find (\<lambda>y. ak_key_hash y = ak_key_hash x)
      (db_api_keys (w_db (fold (service_step cr cfg) ops w'))) = Some x"
    by (intro find_unique) (auto simp: db_ok_def)
  ultimately show ?thesis using assms(3,4)
    by (simp add: authenticate_api_key_def sbind_apply db_ok_queries [OF v(2)])
qed

text \<open>
  C31. A new key authenticates as its owner, with the owner's role, until its expiry is passed; from
  then on it is reported expired.
\<close>

theorem api_key_roundtrip:
  assumes "db_ok (w_db w)" "u \<in> set (db_users (w_db w))" "u_is_active u"
    and "create_api_key cr (u_id u) name ex w = (Inr created, w')"
  shows "fst (authenticate_api_key cr (raw_key created) (w'\<lparr>w_now := now\<rparr>)) =
     (case ex of Some e \<Rightarrow> if e < now then Inl ApiKeyExpiredError else Inr (read_user u)
      | None \<Rightarrow> Inr (read_user u))"
proof -
  let ?v = "w'\<lparr>w_now := now\<rparr>"
  obtain k where raw: "raw_key created = API_KEY_PREFIX @ token_urlsafe cr 32 (w_seed w)"
    and keys: "db_api_keys (w_db w') = db_api_keys (w_db w) @ [k]" "db_users (w_db w') = db_users (w_db w)"
    and k: "ak_key_hash k = hash_api_key cr (raw_key created)" "ak_user_id k = u_id u" "ak_expires_at k = ex"
      "ak_revoked_at k = None" "ak_last_used_at k = None"
    using assms(4) by (auto simp: create_api_key_def generate_raw_api_key_def draw_def sbind_apply
        create_api_key_row_def Let_def split: if_splits)
  have ok: "db_ok (w_db ?v)" using safe_leD [OF safe_create_api_key assms(4)] assms(1) by (simp add: world_le_def)
  have "List.find (\<lambda>y. ak_key_hash y = ak_key_hash k) (db_api_keys (w_db ?v)) = Some k"
    using ok keys(1) by (intro find_unique) (auto simp: db_ok_def)
  moreover have "List.find (\<lambda>y. u_id y = u_id u) (db_users (w_db ?v)) = Some u"
    using assms(1,2) keys(2) by (simp add: find_unique db_ok_def)
  moreover have "startswith (raw_key created) API_KEY_PREFIX" by (simp add: raw startswith_def)
  ultimately show ?thesis using k assms(3)
    by (simp add: authenticate_api_key_def sbind_apply db_ok_queries [OF ok] get_by_id_def
        touch_api_key_last_used_def split: option.splits)
qed

definition demo_keyed :: "api_key_created \<times> world" where
  "demo_keyed = (\<lparr>raw_key = ''qm_'' @ str_nat 0, created_key = read_api_key (hd (db_api_keys (w_db
      (snd (create_api_key demo_crypto 1 ''ci'' (Some 9) demo_world)))))\<rparr>,
      snd (create_api_key demo_crypto 1 ''ci'' (Some 9) demo_world))"

lemma demo_keyed: "create_api_key demo_crypto 1 ''ci'' (Some 9) demo_world = (Inr (fst demo_keyed), snd demo_keyed)"
  by (simp add: demo_keyed_def create_api_key_def generate_raw_api_key_def draw_def sbind_apply
      create_api_key_row_def Let_def demo_world_def demo_user_def API_KEY_PREFIX_def demo_crypto_def)

lemma demo_raw: "raw_key (fst demo_keyed) = ''qm_'' @ str_nat 0"
  by (simp add: demo_keyed_def)

theorem api_key_roundtrip_witness:
  "fst (authenticate_api_key demo_crypto (''qm_'' @ str_nat 0) ((snd demo_keyed)\<lparr>w_now := 9\<rparr>)) = Inr (read_user demo_user) \<and>
   fst (authenticate_api_key demo_crypto (''qm_'' @ str_nat 0) ((snd demo_keyed)\<lparr>w_now := 10\<rparr>)) = Inl ApiKeyExpiredError"
proof -
  have m: "demo_user \<in> set (db_users (w_db demo_world))" "u_is_active demo_user" "u_id demo_user = 1"
    by (simp_all add: demo_world_def demo_user_def)
  then show ?thesis
    using api_key_roundtrip [OF demo_world_ok m(1,2), of demo_crypto "''ci''" "Some 9" "fst demo_keyed" "snd demo_keyed"]
      demo_keyed demo_raw by simp
qed

text \<open>The outcome of one revocation; it keeps the time of an earlier one.\<close>

lemma revoke_api_key_cases:
  "revoke_api_key q i w =
     (case List.find (\<lambda>k. ak_id k = i) (db_api_keys (w_db w)) of
        None \<Rightarrow> (Inl ApiKeyNotFoundError, w)
      | Some k \<Rightarrow>
         if ur_id q = ak_user_id k \<or> ur_role q = ADMIN
         then (Inr (), update_api_key i
                (\<lambda>x. x\<lparr>ak_revoked_at := (case ak_revoked_at x of None \<Rightarrow> Some (w_now w) | Some t \<Rightarrow> Some t)\<rparr>) w)
         else (Inl ApiKeyNotFoundError, w))"
proof -
  have "(\<lambda>k::api_key. if ak_revoked_at k = None then k\<lparr>ak_revoked_at := Some (w_now w)\<rparr> else k) =
        (\<lambda>x. x\<lparr>ak_revoked_at := (case ak_revoked_at x of None \<Rightarrow> Some (w_now w) | Some t \<Rightarrow> Some t)\<rparr>)"
    by (auto split: option.splits)
  then have eq: "revoke_api_key_row i w = (Inr (), update_api_key i
      (\<lambda>x. x\<lparr>ak_revoked_at := (case ak_revoked_at x of None \<Rightarrow> Some (w_now w) | Some t \<Rightarrow> Some t)\<rparr>) w)"
    unfolding revoke_api_key_row_def by presburger
  show ?thesis
    by (auto simp: revoke_api_key_def sbind_apply get_api_key_by_id_def eq is_admin_def
        has_role_def split: option.splits)
qed

text \<open>Every operation but a revocation keeps the rows of the keys, up to the time of the last use.\<close>

definition keys_kept :: "world \<Rightarrow> world \<Rightarrow> bool" where
  "keys_kept w w' \<longleftrightarrow> w_now w' = w_now w \<and>
     (\<forall>k\<in>set (db_api_keys (w_db w)). \<exists>t. k\<lparr>ak_last_used_at := t\<rparr> \<in> set (db_api_keys (w_db w')))"

lemma same_last_used: "(k::api_key) \<in> A \<Longrightarrow> \<exists>t. k\<lparr>ak_last_used_at := t\<rparr> \<in> A"
  by (rule exI [of _ "ak_last_used_at k"]) simp

lemma keys_kept_same: "w_now w' = w_now w \<Longrightarrow> set (db_api_keys (w_db w)) \<subseteq> set (db_api_keys (w_db w')) \<Longrightarrow> keys_kept w w'"
  unfolding keys_kept_def using same_last_used by blast

interpretation key_rows: state_order keys_kept
proof
  show "keys_kept u w" if uv: "keys_kept u v" and vw: "keys_kept v w" for u v w
    unfolding keys_kept_def
  proof (intro conjI ballI)
    show "w_now w = w_now u" using uv vw by (simp add: keys_kept_def)
    fix k assume "k \<in> set (db_api_keys (w_db u))"
    then obtain t where "k\<lparr>ak_last_used_at := t\<rparr> \<in> set (db_api_keys (w_db v))" using uv unfolding keys_kept_def by blast
    with vw obtain t' where "k\<lparr>ak_last_used_at := t, ak_last_used_at := t'\<rparr> \<in> set (db_api_keys (w_db w))"
      unfolding keys_kept_def by blast
    then show "\<exists>t. k\<lparr>ak_last_used_at := t\<rparr> \<in> set (db_api_keys (w_db w))" by auto
  qed
  show "keys_kept w (snd (revoke_refresh_token j w))" for w j
    by (rule keys_kept_same) (auto simp: revoke_refresh_token_def sbind_def get_refresh_token_def split: sum.splits option.splits)
  show "keys_kept w (snd (touch_api_key_last_used i w))" for w i
    unfolding keys_kept_def
  proof (intro conjI ballI)
    fix k assume k: "k \<in> set (db_api_keys (w_db w))"
    then have "(if ak_id k = i then k\<lparr>ak_last_used_at := Some (w_now w)\<rparr> else k)
        \<in> set (db_api_keys (w_db (snd (touch_api_key_last_used i w))))"
      by (auto simp: touch_api_key_last_used_def update_api_key_def)
    then show "\<exists>t. k\<lparr>ak_last_used_at := t\<rparr> \<in> set (db_api_keys (w_db (snd (touch_api_key_last_used i w))))"
      by (cases "ak_id k = i") (auto intro: same_last_used)
  qed (simp add: touch_api_key_last_used_def update_api_key_def)
qed (rule keys_kept_same; auto simp: create_user_def store_refresh_token_def create_api_key_row_def Let_def)+

text \<open>
  The specification: a key that is not revoked is revoked by the first revocation of its id that
  its owner or an administrator requests, at that time; time passes by the amounts given.
\<close>

fun revocation_time :: "api_key \<Rightarrow> datetime \<Rightarrow> service_op list \<Rightarrow> datetime option" where
  "revocation_time k now [] = None"
| "revocation_time k now (OpTimePasses d # ops) = revocation_time k (now + int d) ops"
| "revocation_time k now (OpRevokeApiKey q i # ops) =
     (if i = ak_id k \<and> (ur_id q = ak_user_id k \<or> ur_role q = ADMIN) then Some now else revocation_time k now ops)"
| "revocation_time k now (_ # ops) = revocation_time k now ops"

text \<open>The row of a key after a run, but for the time of its last use.\<close>

definition key_after :: "api_key \<Rightarrow> datetime \<Rightarrow> service_op list \<Rightarrow> api_key" where
  "key_after k now ops = k\<lparr>ak_revoked_at :=
     (case ak_revoked_at k of Some t \<Rightarrow> Some t | None \<Rightarrow> revocation_time k now ops)\<rparr>"

fun time_after :: "service_op \<Rightarrow> datetime \<Rightarrow> datetime" where
  "time_after (OpTimePasses d) now = now + int d"
| "time_after _ now = now"

lemma key_after_same:
  assumes "revocation_time k now ops = None"
  shows "key_after k now ops = k"
proof -
  have "(case ak_revoked_at k of None \<Rightarrow> revocation_time k now ops | Some t \<Rightarrow> Some t) = ak_revoked_at k"
    using assms by (simp split: option.split)
  then show ?thesis by (simp add: key_after_def)
qed

lemma key_after_simps:
  "ak_id (key_after k now ops) = ak_id k" "ak_user_id (key_after k now ops) = ak_user_id k"
  "(key_after k now ops)\<lparr>ak_last_used_at := t\<rparr> = key_after (k\<lparr>ak_last_used_at := t\<rparr>) now ops"
proof -
  have "revocation_time (k\<lparr>ak_last_used_at := t\<rparr>) now ops = revocation_time k now ops" for now ops
    by (induction k now ops rule: revocation_time.induct) auto
  then show "(key_after k now ops)\<lparr>ak_last_used_at := t\<rparr> = key_after (k\<lparr>ak_last_used_at := t\<rparr>) now ops"
    by (simp add: key_after_def split: option.split)
qed (simp_all add: key_after_def)

lemma key_after_Cons:
  "key_after (key_after k now [op]) (time_after op now) ops = key_after k now (op # ops)"
proof -
  have "revocation_time (k\<lparr>ak_revoked_at := t\<rparr>) now ops = revocation_time k now ops" for t now ops
    by (induction k now ops rule: revocation_time.induct) auto
  then show ?thesis by (cases op) (auto simp: key_after_def split: option.splits)
qed

lemma service_step_time: "w_now (service_step cr cfg op w) = time_after op (w_now w)"
  and service_step_keys: "(\<nexists>q i. op = OpRevokeApiKey q i) \<Longrightarrow> keys_kept w (service_step cr cfg op w)
    \<or> (\<exists>d. op = OpTimePasses d)"
proof -
  have kept: "keys_kept w (service_step cr cfg op w)" if "\<nexists>q i. op = OpRevokeApiKey q i" "\<nexists>d. op = OpTimePasses d"
    using that by (cases op) (simp_all add: moves_intros [unfolded moves_def, rule_format])
  then show "(\<nexists>q i. op = OpRevokeApiKey q i) \<Longrightarrow> keys_kept w (service_step cr cfg op w) \<or> (\<exists>d. op = OpTimePasses d)"
    by blast
  show "w_now (service_step cr cfg op w) = time_after op (w_now w)"
  proof (cases op)
    case (OpRevokeApiKey q i)
    then show ?thesis by (auto simp: revoke_api_key_cases update_api_key_def split: option.splits)
  next
    case (OpTimePasses d)
    then show ?thesis by simp
  qed (use kept in \<open>simp_all add: keys_kept_def\<close>)
qed

lemma service_step_key:
  assumes "db_ok (w_db w)" "k \<in> set (db_api_keys (w_db w))"
  shows "\<exists>t. (key_after k (w_now w) [op])\<lparr>ak_last_used_at := t\<rparr> \<in> set (db_api_keys (w_db (service_step cr cfg op w)))"
proof (cases "\<exists>q i. op = OpRevokeApiKey q i")
  case True
  then obtain q i where op: "op = OpRevokeApiKey q i" by blast
  have found: "List.find (\<lambda>y. ak_id y = ak_id k) (db_api_keys (w_db w)) = Some k"
    using assms by (intro find_unique) (auto simp: db_ok_def)
  show ?thesis
  proof (cases "i = ak_id k \<and> (ur_id q = ak_user_id k \<or> ur_role q = ADMIN)")
    case True
    then have "service_step cr cfg op w = update_api_key (ak_id k)
        (\<lambda>x. x\<lparr>ak_revoked_at := (case ak_revoked_at x of None \<Rightarrow> Some (w_now w) | Some t \<Rightarrow> Some t)\<rparr>) w"
      by (simp add: op revoke_api_key_cases found)
    moreover have "key_after k (w_now w) [op] =
        k\<lparr>ak_revoked_at := (case ak_revoked_at k of None \<Rightarrow> Some (w_now w) | Some t \<Rightarrow> Some t)\<rparr>"
      using True by (simp add: op key_after_def split: option.split)
    ultimately have "key_after k (w_now w) [op] \<in> set (db_api_keys (w_db (service_step cr cfg op w)))"
      using assms(2) by (simp add: update_api_key_def image_iff) (rule bexI [of _ k]; simp)
    then show ?thesis by (rule same_last_used)
  next
    case False
    then have same: "key_after k (w_now w) [op] = k" by (auto simp: op intro!: key_after_same)
    have "k \<in> set (db_api_keys (w_db (service_step cr cfg op w)))"
      using assms(2) False found
      by (auto simp: op revoke_api_key_cases update_api_key_def split: option.splits)
    then show ?thesis unfolding same by (rule same_last_used)
  qed
next
  case False
  then have same: "key_after k (w_now w) [op] = k" by (cases op) (auto intro!: key_after_same)
  from service_step_keys [OF False, of w cr cfg] assms(2) show ?thesis
    unfolding same by (auto simp: keys_kept_def intro: same_last_used)
qed

lemma run_key:
  assumes "db_ok (w_db w)" "k \<in> set (db_api_keys (w_db w))"
  shows "\<exists>t. (key_after k (w_now w) ops)\<lparr>ak_last_used_at := t\<rparr> \<in> set (db_api_keys (w_db (fold (service_step cr cfg) ops w)))"
  using assms
proof (induction ops arbitrary: w k)
  case Nil
  then show ?case by (simp add: key_after_same same_last_used)
next
  case (Cons op ops)
  let ?w = "service_step cr cfg op w"
  obtain t where k: "(key_after k (w_now w) [op])\<lparr>ak_last_used_at := t\<rparr> \<in> set (db_api_keys (w_db ?w))"
    using service_step_key [OF Cons.prems] by blast
  moreover have "db_ok (w_db ?w)" using service_step_le Cons.prems(1) by (simp add: world_le_def)
  ultimately obtain t' where "(key_after ((key_after k (w_now w) [op])\<lparr>ak_last_used_at := t\<rparr>) (w_now ?w) ops)\<lparr>ak_last_used_at := t'\<rparr>
      \<in> set (db_api_keys (w_db (fold (service_step cr cfg) ops ?w)))" using Cons.IH by blast
  then show ?case by (auto simp: key_after_simps(3) [symmetric] service_step_time key_after_Cons)
qed

text \<open>
  C32. Whatever operations run, the row of a key keeps its owner, its hash, its name and its times of
  creation and expiry, and it is revoked only by the first revocation of its id that its owner or
  an administrator requests: the time of revocation is the clock at that request, and an earlier
  revocation is never moved or removed. In every state of the run, a revocation requested by anyone
  else is answered exactly as for a key that does not exist.
\<close>

theorem revoke_authorised:
  assumes "db_ok (w_db w)" "k \<in> set (db_api_keys (w_db w))"
  shows "let v = fold (service_step cr cfg) ops w in
    (\<exists>t. filter (\<lambda>x. ak_id x = ak_id k) (db_api_keys (w_db v)) = [(key_after k (w_now w) ops)\<lparr>ak_last_used_at := t\<rparr>]) \<and>
    (\<forall>q. fst (revoke_api_key q (ak_id k) v) =
       (if ur_id q = ak_user_id k \<or> ur_role q = ADMIN then Inr () else Inl ApiKeyNotFoundError))"
proof -
  let ?v = "fold (service_step cr cfg) ops w"
  obtain t where t: "(key_after k (w_now w) ops)\<lparr>ak_last_used_at := t\<rparr> \<in> set (db_api_keys (w_db ?v))"
    using run_key [OF assms] by blast
  let ?k = "(key_after k (w_now w) ops)\<lparr>ak_last_used_at := t\<rparr>"
  have "distinct (map ak_id (db_api_keys (w_db ?v)))"
    using constraints.run_flag assms(1) by (auto simp: db_ok_def)
  moreover have id: "ak_id ?k = ak_id k" "ak_user_id ?k = ak_user_id k" by (simp_all add: key_after_simps)
  ultimately have f: "filter (\<lambda>x. ak_id x = ak_id k) (db_api_keys (w_db ?v)) = [?k]"
    and "List.find (\<lambda>x. ak_id x = ak_id k) (db_api_keys (w_db ?v)) = Some ?k"
    using t filter_unique [of ak_id "db_api_keys (w_db ?v)" ?k] find_unique [of ak_id "db_api_keys (w_db ?v)" ?k]
    by simp_all
  with id have "\<forall>q. fst (revoke_api_key q (ak_id k) ?v) =
       (if ur_id q = ak_user_id k \<or> ur_role q = ADMIN then Inr () else Inl ApiKeyNotFoundError)"
    by (simp add: revoke_api_key_cases)
  with f show ?thesis by (auto simp: Let_def)
qed

text \<open>A stranger and then the owner revoke the key of the example.\<close>

theorem revoke_authorised_witness:
  "let k = hd (db_api_keys (w_db (snd demo_keyed)));
       stranger = (read_user demo_user)\<lparr>ur_id := 2\<rparr>;
       ops = [OpRevokeApiKey stranger (ak_id k), OpTimePasses 3, OpRevokeApiKey (read_user demo_user) (ak_id k), OpTimePasses 1]
   in \<exists>x. filter (\<lambda>x. ak_id x = ak_id k) (db_api_keys (w_db (fold (service_step demo_crypto demo_config) ops (snd demo_keyed)))) = [x] \<and>
     ak_revoked_at x = Some (w_now (snd demo_keyed) + 3) \<and> ak_user_id x = 1"
proof -
  let ?w = "snd demo_keyed" let ?k = "hd (db_api_keys (w_db ?w))"
  have ok: "db_ok (w_db ?w)"
    using safe_leD [OF safe_create_api_key demo_keyed] demo_world_ok by (simp add: world_le_def)
  have k: "?k \<in> set (db_api_keys (w_db ?w))" "ak_user_id ?k = 1" "ak_revoked_at ?k = None"
    by (simp_all add: demo_keyed_def create_api_key_def generate_raw_api_key_def draw_def sbind_apply
      create_api_key_row_def Let_def demo_world_def demo_user_def API_KEY_PREFIX_def demo_crypto_def)
  have owner: "ur_id (read_user demo_user) = 1" "ur_role (read_user demo_user) \<noteq> ADMIN"
    by (simp_all add: demo_user_def read_user_def)
  from revoke_authorised [OF ok k(1), of demo_crypto demo_config "[OpRevokeApiKey ((read_user demo_user)\<lparr>ur_id := 2\<rparr>) (ak_id ?k),
      OpTimePasses 3, OpRevokeApiKey (read_user demo_user) (ak_id ?k), OpTimePasses 1]"] k owner
  show ?thesis by (auto simp: Let_def key_after_def)
qed

theorem revoked_key_dead_witness:
  "let k = hd (db_api_keys (w_db (snd demo_keyed)));
       w' = snd (revoke_api_key (read_user demo_user) (ak_id k) (snd demo_keyed));
       v = fold (service_step demo_crypto demo_config) [OpTimePasses 1, OpListApiKeys 1] w'
   in authenticate_api_key demo_crypto (''qm_'' @ str_nat 0) v = (Inl ApiKeyRevokedError, v)"
proof -
  let ?w = "snd demo_keyed" let ?k = "hd (db_api_keys (w_db ?w))"
  have ok: "db_ok (w_db ?w)"
    using safe_leD [OF safe_create_api_key demo_keyed] demo_world_ok by (simp add: world_le_def)
  have k: "?k \<in> set (db_api_keys (w_db ?w))" "hash_api_key demo_crypto (''qm_'' @ str_nat 0) = ak_key_hash ?k"
    "fst (revoke_api_key (read_user demo_user) (ak_id ?k) ?w) = Inr ()"
    by (simp_all add: demo_keyed_def create_api_key_def generate_raw_api_key_def draw_def sbind_apply
      create_api_key_row_def Let_def demo_world_def demo_user_def API_KEY_PREFIX_def demo_crypto_def
      hash_api_key_def revoke_api_key_def get_api_key_by_id_def read_user_def revoke_api_key_row_def)
  have "startswith (''qm_'' @ str_nat 0) API_KEY_PREFIX" by (simp add: API_KEY_PREFIX_def startswith_def)
  from revoked_key_dead [OF ok k(1,2) this, of "read_user demo_user"
      "snd (revoke_api_key (read_user demo_user) (ak_id ?k) ?w)" demo_config "[OpTimePasses 1, OpListApiKeys 1]"] k(3)
  show ?thesis by (simp add: prod_eq_iff Let_def)
qed

end
