(* ===== verification/Json.thy ===== *)
theory Json
  imports Prelude
begin

text \<open>
  Values parsed from JSON, as the Python code handles them: subscripts, \<open>get\<close>, iteration and
  truth value, with the exceptions these raise on a value of another type.
\<close>

datatype json = JNull | JBool bool | JInt int | JFloat real | JStr string | JArr "json list"
  | JObj "(string \<times> json) list"

datatype py_error = KeyError | IndexError | TypeError | AttributeError

fun json_get_item :: "json \<Rightarrow> string \<Rightarrow> py_error + json" where
  "json_get_item (JObj d) k = (case map_of d k of None \<Rightarrow> Inl KeyError | Some v \<Rightarrow> Inr v)"
| "json_get_item _ k = Inl TypeError"

text \<open>\<open>j[0]\<close>.\<close>

fun json_first :: "json \<Rightarrow> py_error + json" where
  "json_first (JArr xs) = (case xs of [] \<Rightarrow> Inl IndexError | x # _ \<Rightarrow> Inr x)"
| "json_first (JStr s) = (case s of [] \<Rightarrow> Inl IndexError | c # _ \<Rightarrow> Inr (JStr [c]))"
| "json_first (JObj d) = Inl KeyError"
| "json_first _ = Inl TypeError"

text \<open>\<open>j.get(k, default)\<close>.\<close>

fun json_get :: "json \<Rightarrow> string \<Rightarrow> json \<Rightarrow> py_error + json" where
  "json_get (JObj d) k dflt = Inr (case map_of d k of None \<Rightarrow> dflt | Some v \<Rightarrow> v)"
| "json_get _ k dflt = Inl AttributeError"

text \<open>The items of \<open>for x in j\<close>.\<close>

fun json_iter :: "json \<Rightarrow> py_error + json list" where
  "json_iter (JArr xs) = Inr xs"
| "json_iter (JStr s) = Inr (map (\<lambda>c. JStr [c]) s)"
| "json_iter (JObj d) = Inr (map (\<lambda>(k, _). JStr k) d)"
| "json_iter _ = Inl TypeError"

fun json_truthy :: "json \<Rightarrow> bool" where
  "json_truthy JNull = False"
| "json_truthy (JBool b) = b"
| "json_truthy (JInt i) = (i \<noteq> 0)"
| "json_truthy (JFloat x) = (x \<noteq> 0)"
| "json_truthy (JStr s) = (s \<noteq> [])"
| "json_truthy (JArr xs) = (xs \<noteq> [])"
| "json_truthy (JObj d) = (d \<noteq> [])"

text \<open>\<open>j or ''''\<close>.\<close>

definition json_or_empty :: "json \<Rightarrow> json" where
  "json_or_empty j = (if json_truthy j then j else JStr [])"

definition is_mapping :: "json \<Rightarrow> bool" where
  "is_mapping j = (case j of JObj _ \<Rightarrow> True | _ \<Rightarrow> False)"

text \<open>Evaluating a list of expressions from left to right.\<close>

fun rmap :: "('a \<Rightarrow> 'e + 'b) \<Rightarrow> 'a list \<Rightarrow> 'e + 'b list" where
  "rmap f [] = Inr []"
| "rmap f (x # xs) = rbind (f x) (\<lambda>y. rbind (rmap f xs) (\<lambda>ys. Inr (y # ys)))"

lemma json_get_item_Inr: "json_get_item j k = Inr v \<Longrightarrow> \<exists>d. j = JObj d \<and> map_of d k = Some v"
  by (cases j) (auto split: option.splits)

end
