(* ===== verification/Data_Model.thy ===== *)
theory Data_Model
  imports Prelude
begin

text \<open>
  The frozen data models that the stages of the query pipeline hand to each other: the schema
  snapshot of \<open>metadata/models.py\<close>, the parsed question of \<open>nlu/models.py\<close>, the linked question of
  \<open>schema_linker/models.py\<close>, the gold examples of \<open>query_library/models.py\<close> and the retrieval
  results of \<open>retrieval/models.py\<close>. Each pydantic class is a record with the class's fields in
  order, each string enumeration a datatype; the \<open>Field\<close> bounds are the \<open>_ok\<close> predicates of
  the components that construct the objects.
\<close>

section \<open>Metadata (metadata/models.py)\<close>

datatype constraint_kind = CK_Unique | CK_Check

datatype relationship_direction = One_To_One | One_To_Many | Many_To_One | Many_To_Many

record primary_key_metadata =
  pk_name :: string
  pk_columns :: "string list"

record foreign_key_metadata =
  fk_name :: string
  fk_columns :: "string list"
  fk_referred_table :: string
  fk_referred_columns :: "string list"
  fk_ondelete :: "string option"

record constraint_metadata =
  cm_name :: string
  cm_kind :: constraint_kind
  cm_columns :: "string list"
  cm_expression :: "string option"

record index_metadata =
  ix_name :: string
  ix_columns :: "string list"
  ix_unique :: bool
  ix_where :: "string option"

record enum_metadata =
  en_name :: string
  en_values :: "string list"
  en_python_class :: string
  en_table_name :: string
  en_column_name :: string

record column_metadata =
  col_table_name :: string
  col_name :: string
  col_sql_type :: string
  col_python_type :: string
  col_nullable :: bool
  col_primary_key :: bool
  col_unique :: bool
  col_autoincrement :: bool
  col_default :: "string option"
  col_foreign_key :: "foreign_key_metadata option"
  col_enum :: "enum_metadata option"
  col_description :: "string option"
  col_synonyms :: "string list"
  col_example_value :: "string option"
  col_display_name :: "string option"
  col_search_keywords :: "string list"
  col_is_sensitive :: bool

record relationship_metadata =
  rel_name :: string
  rel_source_table :: string
  rel_target_table :: string
  rel_source_columns :: "string list"
  rel_target_columns :: "string list"
  rel_direction :: relationship_direction
  rel_back_populates :: "string option"

record table_metadata =
  tbl_name :: string
  tbl_columns :: "column_metadata list"
  tbl_primary_key :: primary_key_metadata
  tbl_foreign_keys :: "foreign_key_metadata list"
  tbl_unique_constraints :: "constraint_metadata list"
  tbl_check_constraints :: "constraint_metadata list"
  tbl_indexes :: "index_metadata list"
  tbl_description :: "string option"
  tbl_synonyms :: "string list"

record database_metadata =
  db_tables :: "table_metadata list"
  db_relationships :: "relationship_metadata list"
  db_enums :: "enum_metadata list"
  db_generated_at :: datetime

section \<open>The parsed question (nlu/models.py)\<close>

datatype intent = Intent_Select | Intent_Top_N | Intent_Aggregation | Intent_Comparison
  | Intent_Trend | Intent_Detail | Intent_Count | Intent_Average | Intent_Sum | Intent_Min
  | Intent_Max

datatype aggregation_type = Agg_Count | Agg_Sum | Agg_Average | Agg_Min | Agg_Max

datatype comparison_operator = Op_Equals | Op_Not_Equals | Op_Greater_Than
  | Op_Greater_Than_Or_Equal | Op_Less_Than | Op_Less_Than_Or_Equal | Op_In | Op_Contains

datatype sort_direction = Ascending | Descending

datatype time_period = Today | Yesterday | This_Week | Last_Week | This_Month | Last_Month
  | This_Quarter | Last_Quarter | This_Year | Last_Year | Between | Before | After

text \<open>A \<open>date\<close> is its proleptic Gregorian ordinal.\<close>

type_synonym date = int

record filter_expression =
  fe_field :: string
  fe_operator :: comparison_operator
  fe_value :: string
  fe_raw_text :: string

record metric_expression =
  me_name :: string
  me_aggregation :: "aggregation_type option"
  me_raw_text :: string

record time_expression =
  te_period :: time_period
  te_start_date :: "date option"
  te_end_date :: "date option"
  te_raw_text :: string

record sort_expression =
  se_field :: string
  se_direction :: sort_direction
  se_raw_text :: string

record limit_expression =
  le_value :: int
  le_raw_text :: string

record query_context =
  qc_original_question :: string
  qc_normalized_question :: string
  qc_intent :: intent
  qc_primary_entity :: "string option"
  qc_secondary_entities :: "string list"
  qc_business_concepts :: "string list"
  qc_metrics :: "metric_expression list"
  qc_dimensions :: "string list"
  qc_filters :: "filter_expression list"
  qc_time_expression :: "time_expression option"
  qc_sort :: "sort_expression option"
  qc_limit :: "limit_expression option"
  qc_aggregation :: "aggregation_type option"
  qc_confidence :: real

fun intent_value :: "intent \<Rightarrow> string" where
  "intent_value Intent_Select = ''select''"
| "intent_value Intent_Top_N = ''top_n''"
| "intent_value Intent_Aggregation = ''aggregation''"
| "intent_value Intent_Comparison = ''comparison''"
| "intent_value Intent_Trend = ''trend''"
| "intent_value Intent_Detail = ''detail''"
| "intent_value Intent_Count = ''count''"
| "intent_value Intent_Average = ''average''"
| "intent_value Intent_Sum = ''sum''"
| "intent_value Intent_Min = ''min''"
| "intent_value Intent_Max = ''max''"

section \<open>The linked question (schema_linker/models.py)\<close>

datatype match_tier = Exact | Business_Dictionary | Synonym | Alias | Fuzzy | Partial

datatype concept_kind = CK_Entity | CK_Metric | CK_Dimension | CK_Filter_Field | CK_Sort_Field

record link_candidate =
  lc_table_name :: string
  lc_column_name :: "string option"
  lc_confidence :: real
  lc_matching_reason :: match_tier
  lc_candidate_rank :: nat
  lc_matched_text :: string

record resolved_table =
  rt_business_concept :: string
  rt_table :: table_metadata
  rt_confidence :: real
  rt_matching_reason :: match_tier
  rt_candidate_rank :: nat
  rt_alternatives :: "link_candidate list"

record resolved_column =
  rc_business_concept :: string
  rc_column :: column_metadata
  rc_confidence :: real
  rc_matching_reason :: match_tier
  rc_candidate_rank :: nat
  rc_alternatives :: "link_candidate list"

record resolved_metric =
  rm_business_concept :: string
  rm_column :: column_metadata
  rm_aggregation :: "aggregation_type option"
  rm_raw_text :: string
  rm_confidence :: real
  rm_matching_reason :: match_tier
  rm_candidate_rank :: nat
  rm_alternatives :: "link_candidate list"

record resolved_filter =
  rf_business_concept :: string
  rf_column :: column_metadata
  rf_operator :: comparison_operator
  rf_value :: string
  rf_raw_text :: string
  rf_confidence :: real
  rf_matching_reason :: match_tier
  rf_candidate_rank :: nat
  rf_alternatives :: "link_candidate list"

record resolved_sort =
  rs_business_concept :: string
  rs_column :: column_metadata
  rs_direction :: sort_direction
  rs_raw_text :: string
  rs_confidence :: real
  rs_matching_reason :: match_tier
  rs_candidate_rank :: nat
  rs_alternatives :: "link_candidate list"

record resolved_relationship =
  rr_source_table :: string
  rr_target_table :: string
  rr_relationship_name :: string
  rr_source_columns :: "string list"
  rr_target_columns :: "string list"

record ambiguity =
  am_business_concept :: string
  am_concept_kind :: concept_kind
  am_candidates :: "link_candidate list"
  am_reason :: string

record linked_query_context =
  lqc_query_context :: query_context
  lqc_primary_entity :: "resolved_table option"
  lqc_secondary_entities :: "resolved_table list"
  lqc_metrics :: "resolved_metric list"
  lqc_dimensions :: "resolved_column list"
  lqc_filters :: "resolved_filter list"
  lqc_sort :: "resolved_sort option"
  lqc_relationship_paths :: "resolved_relationship list"
  lqc_ambiguities :: "ambiguity list"

definition is_fully_resolved :: "linked_query_context \<Rightarrow> bool" where
  "is_fully_resolved c = (length (lqc_ambiguities c) = 0)"

text \<open>The names of every table the question was resolved to, each once, in first-mention order.\<close>

definition resolved_table_names :: "linked_query_context \<Rightarrow> string list" where
  "resolved_table_names c = dedup_by id {}
     ((case lqc_primary_entity c of None \<Rightarrow> [] | Some e \<Rightarrow> [tbl_name (rt_table e)])
      @ map (\<lambda>e. tbl_name (rt_table e)) (lqc_secondary_entities c)
      @ map (\<lambda>m. col_table_name (rm_column m)) (lqc_metrics c)
      @ map (\<lambda>d. col_table_name (rc_column d)) (lqc_dimensions c)
      @ map (\<lambda>f. col_table_name (rf_column f)) (lqc_filters c)
      @ (case lqc_sort c of None \<Rightarrow> [] | Some s \<Rightarrow> [col_table_name (rs_column s)]))"

section \<open>Gold examples (query_library/models.py)\<close>

datatype difficulty = Beginner | Intermediate | Advanced | Expert

datatype sql_dialect = PostgreSQL | MySQL | SQLite | ANSI

fun sql_dialect_value :: "sql_dialect \<Rightarrow> string" where
  "sql_dialect_value PostgreSQL = ''postgresql''"
| "sql_dialect_value MySQL = ''mysql''"
| "sql_dialect_value SQLite = ''sqlite''"
| "sql_dialect_value ANSI = ''ansi''"

datatype result_shape = Scalar | Single_Row | Row_List | Time_Series | Ranked_List

record query_context_summary =
  qs_intent :: string
  qs_primary_entity :: "string option"
  qs_metrics :: "string list"
  qs_dimensions :: "string list"
  qs_aggregation :: "string option"

record query_example =
  ex_id :: string
  ex_title :: string
  ex_natural_language_question :: string
  ex_normalized_question :: string
  ex_query_context :: query_context_summary
  ex_business_concepts :: "string list"
  ex_linked_schema_objects :: "string list"
  ex_gold_sql :: string
  ex_sql_explanation :: string
  ex_difficulty :: difficulty
  ex_tags :: "string list"
  ex_dialect :: sql_dialect
  ex_expected_result_description :: string
  ex_expected_result_shape :: result_shape
  ex_common_variations :: "string list"
  ex_notes :: "string option"

section \<open>Retrieval results (retrieval/models.py)\<close>

datatype signal_name = Intent_Similarity | Business_Concept_Overlap | Schema_Overlap
  | Table_Overlap | Column_Overlap | Sql_Feature_Overlap | Keyword_Overlap
  | Difficulty_Similarity

record signal_breakdown =
  sb_signal :: signal_name
  sb_score :: real
  sb_weight :: real
  sb_weighted_score :: real
  sb_detail :: string

record retrieval_score =
  rsc_overall_score :: real
  rsc_signal_scores :: "signal_breakdown list"
  rsc_ranking_reason :: string

record retrieved_example =
  re_example :: query_example
  re_overall_score :: real
  re_signal_breakdown :: "signal_breakdown list"
  re_matched_business_concepts :: "string list"
  re_matched_schema_objects :: "string list"
  re_matched_keywords :: "string list"
  re_selection_explanation :: string

record signal_contribution =
  sc_signal :: signal_name
  sc_average_weighted_score :: real

record retrieval_statistics =
  rst_retrieval_latency_ms :: real
  rst_top_k :: int
  rst_candidate_count :: nat
  rst_average_score :: real
  rst_signal_contribution :: "signal_contribution list"

record retrieved_knowledge_bundle =
  rkb_linked_query_context :: linked_query_context
  rkb_retrieved_examples :: "retrieved_example list"
  rkb_statistics :: retrieval_statistics

section \<open>A concrete instance\<close>

text \<open>A small linked question and gold example, on which the components' witnesses evaluate.\<close>

definition demo_column :: column_metadata where
  "demo_column = \<lparr> col_table_name = ''orders'', col_name = ''total'', col_sql_type = ''NUMERIC'',
     col_python_type = ''Decimal'', col_nullable = False, col_primary_key = False,
     col_unique = False, col_autoincrement = False, col_default = None, col_foreign_key = None,
     col_enum = None, col_description = None, col_synonyms = [], col_example_value = None,
     col_display_name = None, col_search_keywords = [], col_is_sensitive = False \<rparr>"

definition demo_table :: table_metadata where
  "demo_table = \<lparr> tbl_name = ''orders'', tbl_columns = [demo_column],
     tbl_primary_key = \<lparr> pk_name = ''pk'', pk_columns = [''id''] \<rparr>, tbl_foreign_keys = [],
     tbl_unique_constraints = [], tbl_check_constraints = [], tbl_indexes = [],
     tbl_description = None, tbl_synonyms = [] \<rparr>"

definition demo_query_context :: query_context where
  "demo_query_context = \<lparr> qc_original_question = ''Total orders'',
     qc_normalized_question = ''total orders'', qc_intent = Intent_Sum,
     qc_primary_entity = Some ''order'', qc_secondary_entities = [],
     qc_business_concepts = [''order''], qc_metrics = [], qc_dimensions = [], qc_filters = [],
     qc_time_expression = None, qc_sort = None, qc_limit = None,
     qc_aggregation = Some Agg_Sum, qc_confidence = 1 \<rparr>"

definition demo_linked :: linked_query_context where
  "demo_linked = \<lparr> lqc_query_context = demo_query_context,
     lqc_primary_entity = Some \<lparr> rt_business_concept = ''order'', rt_table = demo_table,
       rt_confidence = 1, rt_matching_reason = Exact, rt_candidate_rank = 1,
       rt_alternatives = [] \<rparr>,
     lqc_secondary_entities = [], lqc_metrics = [], lqc_dimensions = [], lqc_filters = [],
     lqc_sort = None, lqc_relationship_paths = [], lqc_ambiguities = [] \<rparr>"

definition demo_example :: query_example where
  "demo_example = \<lparr> ex_id = ''e1'', ex_title = ''Total'',
     ex_natural_language_question = ''Total orders'', ex_normalized_question = ''total orders'',
     ex_query_context = \<lparr> qs_intent = ''sum'', qs_primary_entity = Some ''order'',
       qs_metrics = [], qs_dimensions = [], qs_aggregation = Some ''sum'' \<rparr>,
     ex_business_concepts = [''order''], ex_linked_schema_objects = [''orders''],
     ex_gold_sql = ''SELECT 1'', ex_sql_explanation = ''sum'', ex_difficulty = Beginner,
     ex_tags = [], ex_dialect = PostgreSQL, ex_expected_result_description = ''one'',
     ex_expected_result_shape = Scalar, ex_common_variations = [], ex_notes = None \<rparr>"

definition demo_bundle :: retrieved_knowledge_bundle where
  "demo_bundle = \<lparr> rkb_linked_query_context = demo_linked,
     rkb_retrieved_examples = [\<lparr> re_example = demo_example, re_overall_score = 1,
       re_signal_breakdown = [], re_matched_business_concepts = [],
       re_matched_schema_objects = [], re_matched_keywords = [],
       re_selection_explanation = [] \<rparr>],
     rkb_statistics = \<lparr> rst_retrieval_latency_ms = 0, rst_top_k = 5, rst_candidate_count = 1,
       rst_average_score = 1, rst_signal_contribution = [] \<rparr> \<rparr>"

lemma resolved_table_names_distinct: "distinct (resolved_table_names c)"
  using dedup_by_distinct [of id "{}"] by (simp add: resolved_table_names_def)

lemma primary_table_resolved:
  "lqc_primary_entity c = Some e \<Longrightarrow> tbl_name (rt_table e) \<in> set (resolved_table_names c)"
proof -
  assume "lqc_primary_entity c = Some e"
  then show ?thesis
    using dedup_by_keys [of id "{}"] by (auto simp: resolved_table_names_def)
qed

end
