(* ===== verification/Cache.thy ===== *)
theory Cache
  imports Prelude
begin

text \<open>
  The cache protocols of the packages (\<open>prompt_compiler/cache.py\<close>, \<open>retrieval/cache.py\<close>,
  \<open>llm/cache.py\<close> and their siblings): \<open>get\<close>, \<open>set\<close> and \<open>clear\<close>, with an in-memory
  and a no-op implementation. The locale states what a client may rely on, which both
  implementations give: a lookup only ever returns the value last stored under that very key.
\<close>

definition cache_get_mem :: "('k \<rightharpoonup> 'v) \<Rightarrow> 'k \<Rightarrow> 'v option" where
  "cache_get_mem store k = store k"

definition cache_set_mem :: "('k \<rightharpoonup> 'v) \<Rightarrow> 'k \<Rightarrow> 'v \<Rightarrow> ('k \<rightharpoonup> 'v)" where
  "cache_set_mem store k v = store(k \<mapsto> v)"

definition cache_clear_mem :: "('k \<rightharpoonup> 'v) \<Rightarrow> ('k \<rightharpoonup> 'v)" where
  "cache_clear_mem store = Map.empty"

definition cache_get_noop :: "unit \<Rightarrow> 'k \<Rightarrow> 'v option" where
  "cache_get_noop store k = None"

definition cache_set_noop :: "unit \<Rightarrow> 'k \<Rightarrow> 'v \<Rightarrow> unit" where
  "cache_set_noop store k v = ()"

definition cache_clear_noop :: "unit \<Rightarrow> unit" where
  "cache_clear_noop store = ()"

locale cache_protocol =
  fixes get :: "'c \<Rightarrow> 'k \<Rightarrow> 'v option"
    and set :: "'c \<Rightarrow> 'k \<Rightarrow> 'v \<Rightarrow> 'c"
    and clear :: "'c \<Rightarrow> 'c"
  assumes get_set: "get (set c k v) k' = Some u \<Longrightarrow> k' = k \<and> u = v \<or> k' \<noteq> k \<and> get c k' = Some u"
    and get_clear: "get (clear c) k = None"
begin

text \<open>A cache is sound for a relation between keys and values when all it returns is related.\<close>

definition sound :: "('k \<Rightarrow> 'v \<Rightarrow> bool) \<Rightarrow> 'c \<Rightarrow> bool" where
  "sound P c = (\<forall>k v. get c k = Some v \<longrightarrow> P k v)"

text \<open>
  The look-up-or-compute pattern of the clients: a hit is returned as it is, a miss is computed
  and stored when it passes a test.
\<close>

definition memo :: "'k \<Rightarrow> ('v \<Rightarrow> bool) \<Rightarrow> 'v \<Rightarrow> 'c \<Rightarrow> 'v \<times> 'c" where
  "memo k keep v c =
     (case get c k of Some u \<Rightarrow> (u, c) | None \<Rightarrow> (v, if keep v then set c k v else c))"

lemma sound_cleared: "sound P (clear c)"
  by (simp add: sound_def get_clear)

lemma sound_set: "sound P c \<Longrightarrow> P k v \<Longrightarrow> sound P (set c k v)"
  unfolding sound_def using get_set by blast

lemma memo_sound:
  assumes "sound P c" "keep v \<Longrightarrow> P k v"
  shows "sound P (snd (memo k keep v c))"
  using assms sound_set by (auto simp: memo_def split: option.splits)

lemma memo_result:
  assumes "sound P c"
  shows "fst (memo k keep v c) = v \<or> P k (fst (memo k keep v c))"
  using assms by (auto simp: memo_def sound_def split: option.splits)

end

interpretation mem_cache: cache_protocol cache_get_mem cache_set_mem cache_clear_mem
  by unfold_locales
    (auto simp: cache_get_mem_def cache_set_mem_def cache_clear_mem_def split: if_splits)

interpretation noop_cache: cache_protocol cache_get_noop cache_set_noop cache_clear_noop
  by unfold_locales (auto simp: cache_get_noop_def)

text \<open>What only the in-memory cache promises: a value that was stored is found again.\<close>

lemma mem_cache_hit [simp]: "cache_get_mem (cache_set_mem c k v) k = Some v"
  by (simp add: cache_get_mem_def cache_set_mem_def)

end
