(* ===== verification/Prompt_Compiler.thy ===== *)
theory Prompt_Compiler
  imports Data_Model Cache
begin

text \<open>
  The prompt compiler (\<open>prompt_compiler/\<close>): the seven section builders, the token budget, the
  prompt validator, the template and the formatter, and \<open>PromptCompiler.compile\<close> with its cache.
\<close>

section \<open>Models (models.py)\<close>

datatype section_name = System | Business_Context | Schema_Context | Relationship
  | Retrieved_Examples | Constraint | Output_Format

record section_spec =
  sp_name :: section_name
  sp_header :: string
  sp_order :: int
  sp_include_by_default :: bool

record prompt_template =
  pt_version :: string
  pt_name :: string
  pt_section_specs :: "section_spec list"

datatype prompt_compiler_error = InvalidTokenBudgetError int | PromptCompilationError

definition spec_for :: "prompt_template \<Rightarrow> section_name \<Rightarrow> prompt_compiler_error + section_spec" where
  "spec_for t n = (case next_where (\<lambda>s. sp_name s = n) (pt_section_specs t) of
     None \<Rightarrow> Inl PromptCompilationError | Some s \<Rightarrow> Inr s)"

definition ordered_names :: "prompt_template \<Rightarrow> section_name list" where
  "ordered_names t = map sp_name (sort_key sp_order (pt_section_specs t))"

definition SCHEMA_TRIM_PRIORITY :: nat where "SCHEMA_TRIM_PRIORITY = 2"
definition EXAMPLES_TRIM_PRIORITY :: nat where "EXAMPLES_TRIM_PRIORITY = 1"
definition BUSINESS_TRIM_PRIORITY :: nat where "BUSINESS_TRIM_PRIORITY = 3"
definition NOT_TRIMMABLE_PRIORITY :: nat where "NOT_TRIMMABLE_PRIORITY = 0"

text \<open>
  One record for the section classes. The two extra fields exist on one subclass each:
  \<open>None\<close> where the class does not have the field.
\<close>

record prompt_section =
  ps_name :: section_name
  ps_content :: string
  ps_estimated_tokens :: nat
  ps_priority :: nat
  ps_is_required :: bool
  ps_example_ids :: "string list option"
  ps_schema_objects :: "string list option"

text \<open>\<open>estimate_tokens\<close>: four characters per token, rounded up.\<close>

definition estimate_tokens :: "string \<Rightarrow> nat" where
  "estimate_tokens text = (if text = [] then 0 else (length text + 4 - 1) div 4)"

definition system_section :: "string \<Rightarrow> prompt_section" where
  "system_section content = \<lparr> ps_name = System, ps_content = content,
     ps_estimated_tokens = estimate_tokens content, ps_priority = NOT_TRIMMABLE_PRIORITY,
     ps_is_required = True, ps_example_ids = None, ps_schema_objects = None \<rparr>"

definition business_section :: "string \<Rightarrow> prompt_section" where
  "business_section content = \<lparr> ps_name = Business_Context, ps_content = content,
     ps_estimated_tokens = estimate_tokens content, ps_priority = BUSINESS_TRIM_PRIORITY,
     ps_is_required = False, ps_example_ids = None, ps_schema_objects = None \<rparr>"

definition schema_section :: "string \<Rightarrow> string list \<Rightarrow> prompt_section" where
  "schema_section content objects = \<lparr> ps_name = Schema_Context, ps_content = content,
     ps_estimated_tokens = estimate_tokens content, ps_priority = SCHEMA_TRIM_PRIORITY,
     ps_is_required = False, ps_example_ids = None, ps_schema_objects = Some objects \<rparr>"

definition relationship_section :: "string \<Rightarrow> prompt_section" where
  "relationship_section content = \<lparr> ps_name = Relationship, ps_content = content,
     ps_estimated_tokens = estimate_tokens content, ps_priority = SCHEMA_TRIM_PRIORITY,
     ps_is_required = False, ps_example_ids = None, ps_schema_objects = None \<rparr>"

definition example_section :: "string \<Rightarrow> string list \<Rightarrow> prompt_section" where
  "example_section content ids = \<lparr> ps_name = Retrieved_Examples, ps_content = content,
     ps_estimated_tokens = estimate_tokens content, ps_priority = EXAMPLES_TRIM_PRIORITY,
     ps_is_required = False, ps_example_ids = Some ids, ps_schema_objects = None \<rparr>"

definition constraint_section :: "string \<Rightarrow> prompt_section" where
  "constraint_section content = \<lparr> ps_name = Constraint, ps_content = content,
     ps_estimated_tokens = estimate_tokens content, ps_priority = NOT_TRIMMABLE_PRIORITY,
     ps_is_required = True, ps_example_ids = None, ps_schema_objects = None \<rparr>"

definition output_section :: "string \<Rightarrow> prompt_section" where
  "output_section content = \<lparr> ps_name = Output_Format, ps_content = content,
     ps_estimated_tokens = estimate_tokens content, ps_priority = NOT_TRIMMABLE_PRIORITY,
     ps_is_required = True, ps_example_ids = None, ps_schema_objects = None \<rparr>"

record section_token_usage =
  tu_section :: section_name
  tu_estimated_tokens :: nat

record prompt_statistics =
  pst_estimated_total_tokens :: nat
  pst_section_token_usage :: "section_token_usage list"
  pst_retrieved_example_count :: nat
  pst_schema_object_count :: nat
  pst_compilation_latency_ms :: real

record compiled_prompt =
  cp_system :: prompt_section
  cp_business_context :: prompt_section
  cp_schema_context :: prompt_section
  cp_relationships :: prompt_section
  cp_examples :: prompt_section
  cp_constraints :: prompt_section
  cp_output_format :: prompt_section
  cp_statistics :: prompt_statistics
  cp_template :: prompt_template
  cp_template_version :: string
  cp_dialect :: sql_dialect

definition all_sections :: "compiled_prompt \<Rightarrow> prompt_section list" where
  "all_sections p = [cp_system p, cp_business_context p, cp_schema_context p,
     cp_relationships p, cp_examples p, cp_constraints p, cp_output_format p]"

section \<open>Templates and section builders (templates.py, sections.py)\<close>

definition SYSTEM_PREAMBLE :: string where
  "SYSTEM_PREAMBLE =
     ''You are a precise, careful SQL-writing assistant for QueryMind, a text-to-SQL analytics '' @
     ''engine. Given the business context, schema, relationships, and example queries below, '' @
     ''write SQL that correctly answers the user's question. Use only the tables and columns '' @
     ''explicitly listed '' @ em_dash @ '' never invent a table or column name.''"

definition CONSTRAINT_RULES :: "string list" where
  "CONSTRAINT_RULES = [
     ''Only reference tables and columns explicitly listed in the Schema Context section.'',
     ''Never invent a table, column, or relationship that was not provided.'',
     ''Use the exact join paths given in the Relationships section when joining tables.'',
     ''Prefer the patterns shown in the Similar Examples section when one applies.'',
     ''Return exactly one SQL statement.'',
     ''Do not include any explanation, commentary, or markdown formatting around the SQL.'']"

definition OUTPUT_FORMAT_INSTRUCTION :: "string \<Rightarrow> string" where
  "OUTPUT_FORMAT_INSTRUCTION dialect =
     ''Write a single valid '' @ dialect @ '' SQL statement. Use clear indentation and standard SQL '' @
     ''keywords in uppercase (SELECT, FROM, WHERE, GROUP BY, ...). Do not wrap the SQL in '' @
     ''markdown code fences or add trailing commentary.''"

definition default_prompt_template :: prompt_template where
  "default_prompt_template = \<lparr> pt_version = ''1.0.0'', pt_name = ''default'',
     pt_section_specs = map (\<lambda>(n, h, i). \<lparr> sp_name = n, sp_header = h, sp_order = i,
         sp_include_by_default = True \<rparr>)
       [(System, ''# System Instructions'', 1),
        (Business_Context, ''## Business Context'', 2),
        (Schema_Context, ''## Schema Context'', 3),
        (Relationship, ''## Table Relationships'', 4),
        (Retrieved_Examples, ''## Similar Examples'', 5),
        (Constraint, ''## Constraints'', 6),
        (Output_Format, ''## Output Format'', 7)] \<rparr>"

definition build_system :: "retrieved_knowledge_bundle \<Rightarrow> sql_dialect \<Rightarrow> prompt_section" where
  "build_system bundle dialect = system_section SYSTEM_PREAMBLE"

definition build_business :: "retrieved_knowledge_bundle \<Rightarrow> sql_dialect \<Rightarrow> prompt_section" where
  "build_business bundle dialect =
     (let concepts = qc_business_concepts (lqc_query_context (rkb_linked_query_context bundle));
          content = (if concepts = []
            then ''No specific business concepts were identified for this question.''
            else ''This question relates to the following business concepts:'' @ newline @
                 join newline (map (\<lambda>c. ''- '' @ c) concepts))
      in business_section content)"

text \<open>A description in prose after a dash, where it is present and not empty.\<close>

definition described :: "string option \<Rightarrow> string" where
  "described d = (case d of None \<Rightarrow> [] | Some t \<Rightarrow> if t = [] then [] else '' '' @ em_dash @ '' '' @ t)"

definition schema_tables :: "linked_query_context \<Rightarrow> string list \<times> string list" where
  "schema_tables context =
     (let tables = dedup_by tbl_name {}
            ((case lqc_primary_entity context of None \<Rightarrow> [] | Some e \<Rightarrow> [rt_table e])
             @ map rt_table (lqc_secondary_entities context))
      in (map tbl_name tables,
          map (\<lambda>t. ''Table `'' @ tbl_name t @ ''`'' @ described (tbl_description t)) tables))"

definition column_key :: "column_metadata \<Rightarrow> string" where
  "column_key c = col_table_name c @ ''.'' @ col_name c"

definition schema_columns :: "linked_query_context \<Rightarrow> string list \<times> string list" where
  "schema_columns context =
     (let columns = dedup_by column_key {}
            (map rm_column (lqc_metrics context) @ map rc_column (lqc_dimensions context)
             @ map rf_column (lqc_filters context)
             @ (case lqc_sort context of None \<Rightarrow> [] | Some s \<Rightarrow> [rs_column s]))
      in (map column_key columns,
          map (\<lambda>c. ''Column `'' @ column_key c @ ''` ('' @ col_sql_type c @ '')''
                 @ described (col_description c)) columns))"

definition build_schema :: "retrieved_knowledge_bundle \<Rightarrow> sql_dialect \<Rightarrow> prompt_section" where
  "build_schema bundle dialect =
     (let context = rkb_linked_query_context bundle;
          (table_identifiers, table_lines) = schema_tables context;
          (column_identifiers, column_lines) = schema_columns context;
          lines = table_lines @ column_lines;
          content = (if lines = [] then ''No schema objects were resolved for this question.''
                     else join newline lines)
      in schema_section content (table_identifiers @ column_identifiers))"

definition build_relationships :: "retrieved_knowledge_bundle \<Rightarrow> sql_dialect \<Rightarrow> prompt_section" where
  "build_relationships bundle dialect =
     (let paths = lqc_relationship_paths (rkb_linked_query_context bundle);
          line = (\<lambda>e. ''`'' @ rr_source_table e @ ''.'' @ join ''/'' (rr_source_columns e) @ ''` -> `''
                 @ rr_target_table e @ ''.'' @ join ''/'' (rr_target_columns e) @ ''` (via `''
                 @ rr_relationship_name e @ ''`)'');
          content = (if paths = [] then ''No table joins are required to answer this question.''
                     else ''Join these tables as follows:'' @ newline @ join newline (map line paths))
      in relationship_section content)"

definition example_block :: "nat \<Rightarrow> query_example \<Rightarrow> string" where
  "example_block index example =
     ''Example '' @ str_nat index @ '': '' @ ex_title example @ newline @
     ''Question: '' @ ex_natural_language_question example @ newline @
     ''SQL:'' @ newline @ strip (ex_gold_sql example) @ newline @
     ''Explanation: '' @ ex_sql_explanation example"

definition build_examples :: "retrieved_knowledge_bundle \<Rightarrow> sql_dialect \<Rightarrow> prompt_section" where
  "build_examples bundle dialect =
     (let examples = map re_example (rkb_retrieved_examples bundle)
      in if examples = []
         then example_section ''No similar example questions were found in the query library.'' []
         else example_section
                (join (newline @ newline)
                   (map (\<lambda>(i, e). example_block (Suc i) e) (enumerate 0 examples)))
                (map ex_id examples))"

definition build_constraints :: "retrieved_knowledge_bundle \<Rightarrow> sql_dialect \<Rightarrow> prompt_section" where
  "build_constraints bundle dialect =
     constraint_section (join newline (map (\<lambda>r. ''- '' @ r) CONSTRAINT_RULES))"

definition build_output :: "retrieved_knowledge_bundle \<Rightarrow> sql_dialect \<Rightarrow> prompt_section" where
  "build_output bundle dialect =
     output_section (OUTPUT_FORMAT_INSTRUCTION (sql_dialect_value dialect))"

section \<open>Token budget (budget.py)\<close>

definition TRUNCATION_MARKER :: string where
  "TRUNCATION_MARKER = newline @ ''...[truncated to fit token budget]''"

definition prompt_budget_manager :: "int \<Rightarrow> prompt_compiler_error + nat" where
  "prompt_budget_manager max_tokens =
     (if max_tokens \<le> 0 then Inl (InvalidTokenBudgetError max_tokens) else Inr (nat max_tokens))"

definition shrink_or_drop :: "prompt_section \<Rightarrow> nat \<Rightarrow> prompt_section \<times> nat" where
  "shrink_or_drop section excess_tokens =
     (if ps_estimated_tokens section \<le> excess_tokens
      then (section \<lparr> ps_content := [], ps_estimated_tokens := 0,
               ps_example_ids := map_option (\<lambda>_. []) (ps_example_ids section),
               ps_schema_objects := map_option (\<lambda>_. []) (ps_schema_objects section) \<rparr>,
            ps_estimated_tokens section)
      else let target_tokens = ps_estimated_tokens section - excess_tokens;
               target_chars = target_tokens * 4;
               truncated_content = rstrip (take target_chars (ps_content section)) @ TRUNCATION_MARKER;
               new_tokens = estimate_tokens truncated_content
           in (section \<lparr> ps_content := truncated_content, ps_estimated_tokens := new_tokens \<rparr>,
               ps_estimated_tokens section - new_tokens))"

type_synonym working_sections = "section_name \<rightharpoonup> prompt_section"

fun trim_sections :: "nat \<Rightarrow> prompt_section list \<Rightarrow> nat \<Rightarrow> working_sections \<Rightarrow> working_sections" where
  "trim_sections max_tokens [] total_now working = working"
| "trim_sections max_tokens (section # trim_order) total_now working =
     (if total_now \<le> max_tokens then working
      else let excess = total_now - max_tokens;
               (trimmed, freed) = shrink_or_drop section excess
           in trim_sections max_tokens trim_order (total_now - freed)
                (working(ps_name section \<mapsto> trimmed)))"

definition total_tokens :: "prompt_section list \<Rightarrow> nat" where
  "total_tokens sections = sum_list (map ps_estimated_tokens sections)"

definition working_dict :: "prompt_section list \<Rightarrow> working_sections" where
  "working_dict sections = foldl (\<lambda>d s. d(ps_name s \<mapsto> s)) Map.empty sections"

definition enforce :: "nat \<Rightarrow> prompt_section list \<Rightarrow> prompt_section list" where
  "enforce max_tokens sections =
     (let total_now = total_tokens sections
      in if total_now \<le> max_tokens then sections
         else let trim_order = sort_key ps_priority (filter (\<lambda>s. \<not> ps_is_required s) sections);
                  working = trim_sections max_tokens trim_order total_now (working_dict sections)
              in map (\<lambda>s. case working (ps_name s) of Some s' \<Rightarrow> s' | None \<Rightarrow> s) sections)"

section \<open>Prompt validation (validator.py)\<close>

datatype validation_severity = VS_Error | VS_Warning

record prompt_validation_issue =
  pvi_rule :: string
  pvi_severity :: validation_severity
  pvi_section :: "section_name option"

definition prompt_is_valid :: "prompt_validation_issue list \<Rightarrow> bool" where
  "prompt_is_valid issues = (\<not> (\<exists>i\<in>set issues. pvi_severity i = VS_Error))"

abbreviation prompt_error :: "string \<Rightarrow> section_name option \<Rightarrow> prompt_validation_issue" where
  "prompt_error rule section \<equiv> \<lparr> pvi_rule = rule, pvi_severity = VS_Error, pvi_section = section \<rparr>"

definition check_not_empty :: "prompt_section list \<Rightarrow> prompt_validation_issue list" where
  "check_not_empty sections =
     (if strip (concat (map ps_content sections)) \<noteq> [] then []
      else [prompt_error ''not_empty'' None])"

definition check_required_sections_exist :: "prompt_section list \<Rightarrow> prompt_validation_issue list" where
  "check_required_sections_exist sections =
     map (\<lambda>n. prompt_error ''required_sections_exist'' (Some n))
       (filter (\<lambda>n. n \<notin> ps_name ` set sections) [System, Constraint, Output_Format])"

fun repeated_ids :: "string set \<Rightarrow> string list \<Rightarrow> string list" where
  "repeated_ids seen [] = []"
| "repeated_ids seen (x # xs) =
     (if x \<in> seen then x # repeated_ids seen xs else repeated_ids (insert x seen) xs)"

definition check_no_duplicate_examples :: "prompt_section list \<Rightarrow> prompt_validation_issue list" where
  "check_no_duplicate_examples sections =
     concat (map (\<lambda>s. case ps_example_ids s of None \<Rightarrow> []
        | Some ids \<Rightarrow> map (\<lambda>_. prompt_error ''no_duplicate_examples'' (Some Retrieved_Examples))
                          (repeated_ids {} ids)) sections)"

definition check_token_budget :: "nat \<Rightarrow> prompt_section list \<Rightarrow> prompt_validation_issue list" where
  "check_token_budget max_tokens sections =
     (if total_tokens sections \<le> max_tokens then [] else [prompt_error ''token_budget'' None])"

definition check_no_empty_required_section :: "prompt_section list \<Rightarrow> prompt_validation_issue list" where
  "check_no_empty_required_section sections =
     map (\<lambda>s. prompt_error ''no_empty_required_section'' (Some (ps_name s)))
       (filter (\<lambda>s. ps_is_required s \<and> strip (ps_content s) = []) sections)"

definition validate_prompt :: "nat \<Rightarrow> prompt_section list \<Rightarrow> prompt_validation_issue list" where
  "validate_prompt max_tokens sections =
     check_not_empty sections @ check_required_sections_exist sections
     @ check_no_duplicate_examples sections @ check_token_budget max_tokens sections
     @ check_no_empty_required_section sections"

section \<open>Rendering (formatter.py)\<close>

fun format_parts ::
  "prompt_template \<Rightarrow> working_sections \<Rightarrow> section_name list \<Rightarrow> prompt_compiler_error + string list" where
  "format_parts t by_name [] = Inr []"
| "format_parts t by_name (n # ns) =
     (case by_name n of
        None \<Rightarrow> format_parts t by_name ns
      | Some section \<Rightarrow>
          if strip (ps_content section) = [] then format_parts t by_name ns
          else rbind (spec_for t n) (\<lambda>spec. rbind (format_parts t by_name ns) (\<lambda>parts.
                 Inr ((sp_header spec @ newline @ strip (ps_content section)) # parts))))"

definition format_prompt :: "prompt_template \<Rightarrow> compiled_prompt \<Rightarrow> prompt_compiler_error + string" where
  "format_prompt t p =
     rbind (format_parts t (working_dict (all_sections p)) (ordered_names t)) (\<lambda>parts.
       Inr (join (newline @ newline) parts))"

definition as_text :: "compiled_prompt \<Rightarrow> prompt_compiler_error + string" where
  "as_text p = format_prompt (cp_template p) p"

section \<open>Compilation (compiler.py)\<close>

text \<open>
  \<open>bundle_content_hash\<close> serialises the linked question and the examples with pydantic and
  \<open>json\<close> and hashes the text: the parameter \<open>content_hash\<close>, a function of these two parts
  only. The clock reading is the parameter \<open>latency_ms\<close>. The report of the first call of the
  validator, on the sections before trimming, is not used by the code.
\<close>

type_synonym content_hash = "linked_query_context \<Rightarrow> retrieved_example list \<Rightarrow> string"

definition bundle_content_hash :: "content_hash \<Rightarrow> retrieved_knowledge_bundle \<Rightarrow> string" where
  "bundle_content_hash content_hash bundle =
     content_hash (rkb_linked_query_context bundle) (rkb_retrieved_examples bundle)"

type_synonym prompt_cache_key = "string \<times> string \<times> string"
type_synonym prompt_cache = "prompt_cache_key \<rightharpoonup> compiled_prompt"

text \<open>The collaborators of a compiler: its template, its budget and one builder per section.\<close>

type_synonym section_builder = "retrieved_knowledge_bundle \<Rightarrow> sql_dialect \<Rightarrow> prompt_section"

record prompt_compiler =
  pc_template :: prompt_template
  pc_max_tokens :: nat
  pc_system_builder :: section_builder
  pc_business_builder :: section_builder
  pc_schema_builder :: section_builder
  pc_relationship_builder :: section_builder
  pc_example_builder :: section_builder
  pc_constraint_builder :: section_builder
  pc_output_builder :: section_builder

definition DEFAULT_MAX_TOKENS :: nat where "DEFAULT_MAX_TOKENS = 4000"

text \<open>The constructor with its default builders.\<close>

definition default_compiler :: "prompt_template \<Rightarrow> nat \<Rightarrow> prompt_compiler" where
  "default_compiler template max_tokens = \<lparr> pc_template = template, pc_max_tokens = max_tokens,
     pc_system_builder = build_system, pc_business_builder = build_business,
     pc_schema_builder = build_schema, pc_relationship_builder = build_relationships,
     pc_example_builder = build_examples, pc_constraint_builder = build_constraints,
     pc_output_builder = build_output \<rparr>"

definition built_sections :: "prompt_compiler \<Rightarrow> retrieved_knowledge_bundle \<Rightarrow> sql_dialect \<Rightarrow> prompt_section list" where
  "built_sections pc bundle dialect =
     [pc_system_builder pc bundle dialect, pc_business_builder pc bundle dialect,
      pc_schema_builder pc bundle dialect, pc_relationship_builder pc bundle dialect,
      pc_example_builder pc bundle dialect, pc_constraint_builder pc bundle dialect,
      pc_output_builder pc bundle dialect]"

definition build_statistics :: "prompt_section list \<Rightarrow> real \<Rightarrow> prompt_statistics" where
  "build_statistics trimmed latency_ms = \<lparr>
     pst_estimated_total_tokens = total_tokens trimmed,
     pst_section_token_usage = map (\<lambda>s. \<lparr> tu_section = ps_name s,
        tu_estimated_tokens = ps_estimated_tokens s \<rparr>) trimmed,
     pst_retrieved_example_count =
       (case next_where (\<lambda>s. ps_example_ids s \<noteq> None) trimmed of None \<Rightarrow> 0
        | Some s \<Rightarrow> (case ps_example_ids s of None \<Rightarrow> 0 | Some ids \<Rightarrow> length ids)),
     pst_schema_object_count =
       (case next_where (\<lambda>s. ps_schema_objects s \<noteq> None) trimmed of None \<Rightarrow> 0
        | Some s \<Rightarrow> (case ps_schema_objects s of None \<Rightarrow> 0 | Some os \<Rightarrow> length os)),
     pst_compilation_latency_ms = latency_ms \<rparr>"

definition section_named :: "prompt_section list \<Rightarrow> prompt_section \<Rightarrow> prompt_section" where
  "section_named trimmed s = (case working_dict trimmed (ps_name s) of Some s' \<Rightarrow> s' | None \<Rightarrow> s)"

definition build_prompt ::
  "prompt_compiler \<Rightarrow> retrieved_knowledge_bundle \<Rightarrow> sql_dialect \<Rightarrow> real \<Rightarrow> compiled_prompt" where
  "build_prompt pc bundle dialect latency_ms =
     (let trimmed = enforce (pc_max_tokens pc) (built_sections pc bundle dialect)
      in \<lparr> cp_system = section_named trimmed (pc_system_builder pc bundle dialect),
           cp_business_context = section_named trimmed (pc_business_builder pc bundle dialect),
           cp_schema_context = section_named trimmed (pc_schema_builder pc bundle dialect),
           cp_relationships = section_named trimmed (pc_relationship_builder pc bundle dialect),
           cp_examples = section_named trimmed (pc_example_builder pc bundle dialect),
           cp_constraints = section_named trimmed (pc_constraint_builder pc bundle dialect),
           cp_output_format = section_named trimmed (pc_output_builder pc bundle dialect),
           cp_statistics = build_statistics trimmed latency_ms,
           cp_template = pc_template pc,
           cp_template_version = pt_version (pc_template pc),
           cp_dialect = dialect \<rparr>)"

definition compile_prompt ::
  "content_hash \<Rightarrow> prompt_compiler \<Rightarrow> real \<Rightarrow> retrieved_knowledge_bundle \<Rightarrow> sql_dialect \<Rightarrow>
   prompt_cache \<Rightarrow> compiled_prompt \<times> prompt_cache" where
  "compile_prompt content_hash pc latency_ms bundle dialect cache =
     (let cache_key = (bundle_content_hash content_hash bundle, pt_version (pc_template pc),
                       sql_dialect_value dialect)
      in case cache_get_mem cache cache_key of
           Some cached \<Rightarrow> (cached, cache)
         | None \<Rightarrow>
             (let compiled = build_prompt pc bundle dialect latency_ms;
                  final_report = validate_prompt (pc_max_tokens pc) (all_sections compiled)
              in (compiled, if prompt_is_valid final_report
                            then cache_set_mem cache cache_key compiled else cache)))"

end
