(* ===== verification/Llm_Adapter.thy ===== *)
theory Llm_Adapter
  imports Json Prompt_Compiler
begin

text \<open>
  The language-model adapter (\<open>llm/\<close>): the retry policy with its backoff, the HTTP transport,
  the Claude and Groq providers with their response parsers, and \<open>LLMAdapter.generate\<close> with its
  metrics. The HTTP library and pydantic's integer validation are parameters.
\<close>

section \<open>Models, errors and configuration\<close>

datatype llm_provider = CLAUDE | GROQ

datatype finish_reason = COMPLETE | MAX_TOKENS | CONTENT_FILTER | FINISH_ERROR

record llm_request =
  rq_prompt :: string
  rq_model :: string
  rq_temperature :: real
  rq_max_tokens :: int

record token_usage =
  tk_prompt_tokens :: int
  tk_completion_tokens :: int

record generation_metrics =
  gm_provider :: llm_provider
  gm_model :: string
  gm_latency_ms :: real
  gm_token_usage :: token_usage
  gm_retry_count :: nat
  gm_finish_reason :: finish_reason

record llm_response =
  rs_content :: string
  rs_metrics :: generation_metrics

text \<open>
  The package's exceptions, and those of the language and of pydantic that its code lets through.
\<close>

datatype llm_error = LLMConfigurationError | LLMTransientError | LLMPermanentError
  | LLMResponseParsingError | RetryExhaustedError nat llm_error
  | PythonError py_error | ValidationError | PromptError prompt_compiler_error | UncaughtHttpx string

record llm_provider_config =
  pf_provider :: llm_provider
  pf_model :: string
  pf_api_key :: string
  pf_temperature :: real
  pf_max_tokens :: int
  pf_timeout :: real
  pf_retry_count :: nat
  pf_base_url :: "string option"

definition DEFAULT_BASE_URL_BY_PROVIDER :: "llm_provider \<Rightarrow> string" where
  "DEFAULT_BASE_URL_BY_PROVIDER p = (case p of CLAUDE \<Rightarrow> ''https://api.anthropic.com''
     | GROQ \<Rightarrow> ''https://api.groq.com/openai/v1'')"

definition resolve_default_base_url :: "llm_provider_config \<Rightarrow> llm_provider_config" where
  "resolve_default_base_url c = (case pf_base_url c of
     None \<Rightarrow> c \<lparr> pf_base_url := Some (DEFAULT_BASE_URL_BY_PROVIDER (pf_provider c)) \<rparr>
   | Some _ \<Rightarrow> c)"

definition resolved_base_url :: "llm_provider_config \<Rightarrow> string" where
  "resolved_base_url c = (case pf_base_url c of Some u \<Rightarrow> u
     | None \<Rightarrow> DEFAULT_BASE_URL_BY_PROVIDER (pf_provider c))"

section \<open>Retry policy (retry.py)\<close>

record retry_policy =
  rp_max_retries :: nat
  rp_base_delay_seconds :: real
  rp_max_delay_seconds :: real

definition make_retry_policy :: "int \<Rightarrow> real \<Rightarrow> real \<Rightarrow> llm_error + retry_policy" where
  "make_retry_policy max_retries base max_delay =
     (if max_retries < 0 then Inl LLMConfigurationError
      else Inr \<lparr> rp_max_retries = nat max_retries, rp_base_delay_seconds = base,
                 rp_max_delay_seconds = max_delay \<rparr>)"

text \<open>The delay before the retry numbered \<open>attempt\<close>, from 1.\<close>

definition delay_for_attempt :: "retry_policy \<Rightarrow> nat \<Rightarrow> real" where
  "delay_for_attempt p attempt =
     min (rp_base_delay_seconds p * 2 ^ (attempt - 1)) (rp_max_delay_seconds p)"

text \<open>
  The loop of \<open>execute\<close>. The operation and the injected \<open>sleep\<close> act on an arbitrary world.
\<close>

function retry_loop :: "retry_policy \<Rightarrow> (real \<Rightarrow> 'w \<Rightarrow> 'w) \<Rightarrow> ('w, llm_error, 'a) op \<Rightarrow> nat \<Rightarrow>
    ('w, llm_error, 'a \<times> nat) op" where
  "retry_loop p sleep operation attempt w =
     (case operation w of
        (Inr x, w') \<Rightarrow> (Inr (x, attempt), w')
      | (Inl e, w') \<Rightarrow>
          if e = LLMTransientError then
            if rp_max_retries p \<le> attempt
            then (Inl (RetryExhaustedError (rp_max_retries p + 1) e), w')
            else retry_loop p sleep operation (attempt + 1)
                   (sleep (delay_for_attempt p (attempt + 1)) w')
          else (Inl e, w'))"
  by pat_completeness auto
termination
  by (relation "measure (\<lambda>(p, _, _, attempt, _). Suc (rp_max_retries p) - attempt)") auto

declare retry_loop.simps [simp del]

definition retry_execute :: "retry_policy \<Rightarrow> (real \<Rightarrow> 'w \<Rightarrow> 'w) \<Rightarrow> ('w, llm_error, 'a) op \<Rightarrow>
    ('w, llm_error, 'a \<times> nat) op" where
  "retry_execute p sleep operation = retry_loop p sleep operation 0"

section \<open>HTTP transport (client.py)\<close>

text \<open>
  What the HTTP library does with a request: a timeout, another \<open>HTTPError\<close>, an exception that
  is none, such as \<open>InvalidURL\<close>, or a response with a status and a body, \<open>None\<close> where the body is
  not JSON.
\<close>

datatype httpx_outcome = TimeoutException | HTTPError | HttpxException string | HttpResponse int "json option"

type_synonym 'w httpx_post = "string \<Rightarrow> (string \<times> string) list \<Rightarrow> json \<Rightarrow> real \<Rightarrow> 'w \<Rightarrow> httpx_outcome \<times> 'w"
type_synonym 'w transport = "string \<Rightarrow> (string \<times> string) list \<Rightarrow> json \<Rightarrow> real \<Rightarrow> ('w, llm_error, int \<times> json) op"

definition post_json :: "'w httpx_post \<Rightarrow> 'w transport" where
  "post_json post url headers body timeout w =
     (case post url headers body timeout w of
        (TimeoutException, w') \<Rightarrow> (Inl LLMTransientError, w')
      | (HTTPError, w') \<Rightarrow> (Inl LLMTransientError, w')
      | (HttpxException x, w') \<Rightarrow> (Inl (UncaughtHttpx x), w')
      | (HttpResponse status None, w') \<Rightarrow> (Inl LLMTransientError, w')
      | (HttpResponse status (Some j), w') \<Rightarrow> (Inr (status, j), w'))"

section \<open>Response parsers (providers/claude.py, providers/groq.py)\<close>

text \<open>Pydantic's validation of an integer field: the accepted value, if any.\<close>

type_synonym pydantic_int = "json \<Rightarrow> int option"

definition make_token_usage :: "pydantic_int \<Rightarrow> json \<Rightarrow> json \<Rightarrow> llm_error + token_usage" where
  "make_token_usage to_int p c = (case (to_int p, to_int c) of
     (Some i, Some j) \<Rightarrow> if 0 \<le> i \<and> 0 \<le> j
        then Inr \<lparr> tk_prompt_tokens = i, tk_completion_tokens = j \<rparr> else Inl ValidationError
   | _ \<Rightarrow> Inl ValidationError)"

text \<open>The exceptions each parser catches become its own error; the others pass.\<close>

definition malformed_unless :: "py_error set \<Rightarrow> py_error + 'a \<Rightarrow> llm_error + 'a" where
  "malformed_unless caught r = (case r of Inr x \<Rightarrow> Inr x
     | Inl e \<Rightarrow> Inl (if e \<in> caught then LLMResponseParsingError else PythonError e))"

definition finish_reason_of :: "(string \<times> finish_reason) list \<Rightarrow> json \<Rightarrow> llm_error + finish_reason" where
  "finish_reason_of table j = (case json_or_empty j of
     JStr s \<Rightarrow> Inr (case map_of table s of Some r \<Rightarrow> r | None \<Rightarrow> FINISH_ERROR)
   | JArr _ \<Rightarrow> Inl (PythonError TypeError)
   | JObj _ \<Rightarrow> Inl (PythonError TypeError)
   | _ \<Rightarrow> Inr FINISH_ERROR)"

text \<open>The construction of the response: \<open>content\<close> and \<open>model\<close> must be strings.\<close>

definition make_response ::
  "llm_provider \<Rightarrow> json \<Rightarrow> json \<Rightarrow> real \<Rightarrow> token_usage \<Rightarrow> finish_reason \<Rightarrow> llm_error + llm_response" where
  "make_response provider text model latency_ms usage reason =
     (case (text, model) of
        (JStr t, JStr m) \<Rightarrow>
          if 0 \<le> latency_ms
          then Inr \<lparr> rs_content = t, rs_metrics = \<lparr> gm_provider = provider, gm_model = m,
                 gm_latency_ms = latency_ms, gm_token_usage = usage, gm_retry_count = 0,
                 gm_finish_reason = reason \<rparr> \<rparr>
          else Inl ValidationError
      | _ \<Rightarrow> Inl ValidationError)"

definition claude_finish_reasons :: "(string \<times> finish_reason) list" where
  "claude_finish_reasons = [(''end_turn'', COMPLETE), (''stop_sequence'', COMPLETE),
     (''max_tokens'', MAX_TOKENS), (''refusal'', CONTENT_FILTER)]"

text \<open>\<open>''''.join(block.get(''text'', '''') for block in blocks if block.get(''type'') == ''text'')\<close>.\<close>

definition joined_text :: "json list \<Rightarrow> py_error + string" where
  "joined_text blocks =
     rbind (rmap (\<lambda>b. rbind (json_get b ''type'' JNull) (\<lambda>ty.
              if ty = JStr ''text'' then rbind (json_get b ''text'' (JStr [])) (\<lambda>t. Inr [t])
              else Inr [])) blocks) (\<lambda>tss.
     rbind (rmap (\<lambda>t. case t of JStr s \<Rightarrow> Inr s | _ \<Rightarrow> Inl TypeError) (concat tss)) (\<lambda>ss.
     Inr (concat ss)))"

abbreviation claude_guard :: "py_error + 'a \<Rightarrow> llm_error + 'a" where
  "claude_guard \<equiv> malformed_unless {KeyError, TypeError}"

definition claude_parse :: "pydantic_int \<Rightarrow> json \<Rightarrow> real \<Rightarrow> llm_error + llm_response" where
  "claude_parse to_int raw latency_ms =
     (rbind (claude_guard (rbind (json_get_item raw ''content'') json_iter)) (\<lambda>blocks.
      rbind (claude_guard (joined_text blocks)) (\<lambda>text.
      rbind (claude_guard (rbind (json_get_item raw ''usage'') (\<lambda>u.
               rbind (json_get_item u ''input_tokens'') (\<lambda>i.
               rbind (json_get_item u ''output_tokens'') (\<lambda>o'. Inr (i, o')))))) (\<lambda>(i, o').
      rbind (make_token_usage to_int i o') (\<lambda>usage.
      rbind (claude_guard (json_get_item raw ''model'')) (\<lambda>model.
      rbind (malformed_unless {} (json_get raw ''stop_reason'' JNull)) (\<lambda>stop.
      rbind (finish_reason_of claude_finish_reasons stop) (\<lambda>reason.
      make_response CLAUDE (JStr text) model latency_ms usage reason))))))))"

definition groq_finish_reasons :: "(string \<times> finish_reason) list" where
  "groq_finish_reasons = [(''stop'', COMPLETE), (''length'', MAX_TOKENS),
     (''content_filter'', CONTENT_FILTER)]"

abbreviation groq_guard :: "py_error + 'a \<Rightarrow> llm_error + 'a" where
  "groq_guard \<equiv> malformed_unless {KeyError, IndexError, TypeError}"

definition groq_parse :: "pydantic_int \<Rightarrow> json \<Rightarrow> real \<Rightarrow> llm_error + llm_response" where
  "groq_parse to_int raw latency_ms =
     (rbind (groq_guard (rbind (json_get_item raw ''choices'') json_first)) (\<lambda>choice.
      rbind (groq_guard (rbind (json_get_item choice ''message'') (\<lambda>m. json_get_item m ''content''))) (\<lambda>content.
      rbind (groq_guard (rbind (json_get_item raw ''usage'') (\<lambda>u.
               rbind (json_get_item u ''prompt_tokens'') (\<lambda>i.
               rbind (json_get_item u ''completion_tokens'') (\<lambda>o'. Inr (i, o')))))) (\<lambda>(i, o').
      rbind (make_token_usage to_int i o') (\<lambda>usage.
      rbind (groq_guard (json_get_item raw ''model'')) (\<lambda>model.
      rbind (malformed_unless {} (json_get choice ''finish_reason'' JNull)) (\<lambda>stop.
      rbind (finish_reason_of groq_finish_reasons stop) (\<lambda>reason.
      make_response GROQ (json_or_empty content) model latency_ms usage reason))))))))"

section \<open>Providers\<close>

definition RETRYABLE_STATUS_CODES :: "int set" where
  "RETRYABLE_STATUS_CODES = {408, 409, 429, 500, 502, 503, 504}"

text \<open>
  \<open>_error_message\<close> of both providers, of which only whether it raises matters: it calls \<open>get\<close>
  on the body, and on a mapping under \<open>error\<close>.
\<close>

definition error_message :: "json \<Rightarrow> py_error + unit" where
  "error_message raw = rbind (json_get raw ''error'' (JObj [])) (\<lambda>_. Inr ())"

definition classify_response ::
  "(json \<Rightarrow> real \<Rightarrow> llm_error + llm_response) \<Rightarrow> int \<Rightarrow> json \<Rightarrow> real \<Rightarrow> llm_error + llm_response" where
  "classify_response parse status raw latency_ms =
     (if 400 \<le> status
      then rbind (malformed_unless {} (error_message raw)) (\<lambda>_.
             Inl (if status \<in> RETRYABLE_STATUS_CODES then LLMTransientError else LLMPermanentError))
      else parse raw latency_ms)"

definition strip_slashes :: "string \<Rightarrow> string" where
  "strip_slashes u = rev (dropWhile (\<lambda>c. c = CHR ''/'') (rev u))"

definition claude_body :: "llm_request \<Rightarrow> json" where
  "claude_body r = JObj [(''model'', JStr (rq_model r)), (''max_tokens'', JInt (rq_max_tokens r)),
     (''temperature'', JFloat (rq_temperature r)),
     (''messages'', JArr [JObj [(''role'', JStr ''user''), (''content'', JStr (rq_prompt r))]])]"

definition claude_generate ::
  "pydantic_int \<Rightarrow> ('w \<Rightarrow> real) \<Rightarrow> 'w transport \<Rightarrow> llm_provider_config \<Rightarrow> llm_request \<Rightarrow>
   ('w, llm_error, llm_response) op" where
  "claude_generate to_int perf_counter transport c request w =
     (case transport (strip_slashes (resolved_base_url c) @ ''/v1/messages'')
             [(''x-api-key'', pf_api_key c), (''anthropic-version'', ''2023-06-01''),
              (''content-type'', ''application/json'')]
             (claude_body request) (pf_timeout c) w of
        (Inl e, w') \<Rightarrow> (Inl e, w')
      | (Inr (status, raw), w') \<Rightarrow>
          (classify_response (claude_parse to_int) status raw
             ((perf_counter w' - perf_counter w) * 1000), w'))"

definition groq_body :: "llm_request \<Rightarrow> json" where
  "groq_body r = JObj [(''model'', JStr (rq_model r)),
     (''max_completion_tokens'', JInt (rq_max_tokens r)),
     (''temperature'', JFloat (rq_temperature r)),
     (''messages'', JArr [JObj [(''role'', JStr ''user''), (''content'', JStr (rq_prompt r))]])]"

definition groq_generate ::
  "pydantic_int \<Rightarrow> ('w \<Rightarrow> real) \<Rightarrow> 'w transport \<Rightarrow> llm_provider_config \<Rightarrow> llm_request \<Rightarrow>
   ('w, llm_error, llm_response) op" where
  "groq_generate to_int perf_counter transport c request w =
     (case transport (strip_slashes (resolved_base_url c) @ ''/chat/completions'')
             [(''authorization'', ''Bearer '' @ pf_api_key c), (''content-type'', ''application/json'')]
             (groq_body request) (pf_timeout c) w of
        (Inl e, w') \<Rightarrow> (Inl e, w')
      | (Inr (status, raw), w') \<Rightarrow>
          (classify_response (groq_parse to_int) status raw
             ((perf_counter w' - perf_counter w) * 1000), w'))"

text \<open>The registry of \<open>build_llm_provider\<close>: every provider value has a class, built with its own configuration.\<close>

definition build_llm_provider ::
  "pydantic_int \<Rightarrow> ('w \<Rightarrow> real) \<Rightarrow> 'w transport \<Rightarrow> llm_provider_config \<Rightarrow> llm_request \<Rightarrow>
   ('w, llm_error, llm_response) op" where
  "build_llm_provider to_int perf_counter transport c =
     (case pf_provider c of CLAUDE \<Rightarrow> claude_generate to_int perf_counter transport c
      | GROQ \<Rightarrow> groq_generate to_int perf_counter transport c)"

section \<open>The adapter (adapter.py, metrics.py)\<close>

text \<open>The world of the adapter: the provider's world and the records of the metrics collector.\<close>

record 'w adapter_world =
  aw_world :: 'w
  aw_records :: "generation_metrics list"

definition record_metrics :: "generation_metrics \<Rightarrow> 'w adapter_world \<Rightarrow> 'w adapter_world" where
  "record_metrics m w = w \<lparr> aw_records := aw_records w @ [m] \<rparr>"

definition make_request :: "llm_provider_config \<Rightarrow> string \<Rightarrow> llm_error + llm_request" where
  "make_request c prompt =
     (if prompt = [] \<or> \<not> (0 \<le> pf_temperature c \<and> pf_temperature c \<le> 2) \<or> pf_max_tokens c \<le> 0
      then Inl ValidationError
      else Inr \<lparr> rq_prompt = prompt, rq_model = pf_model c, rq_temperature = pf_temperature c,
                 rq_max_tokens = pf_max_tokens c \<rparr>)"

definition stamp_retries :: "nat \<Rightarrow> llm_response \<Rightarrow> llm_response" where
  "stamp_retries n r = (if gm_retry_count (rs_metrics r) \<noteq> n
     then r \<lparr> rs_metrics := (rs_metrics r) \<lparr> gm_retry_count := n \<rparr> \<rparr> else r)"

definition llm_generate ::
  "llm_provider_config \<Rightarrow> retry_policy \<Rightarrow> (real \<Rightarrow> 'w \<Rightarrow> 'w) \<Rightarrow>
   (llm_request \<Rightarrow> ('w, llm_error, llm_response) op) \<Rightarrow> compiled_prompt \<Rightarrow>
   ('w adapter_world, llm_error, llm_response) op" where
  "llm_generate c policy sleep provider prompt w =
     (case rbind (case as_text prompt of Inl e \<Rightarrow> Inl (PromptError e) | Inr t \<Rightarrow> Inr t) (make_request c) of
        Inl e \<Rightarrow> (Inl e, w)
      | Inr request \<Rightarrow>
          (case retry_execute policy sleep (provider request) (aw_world w) of
             (Inl e, v) \<Rightarrow> (Inl e, w \<lparr> aw_world := v \<rparr>)
           | (Inr (response, retry_count), v) \<Rightarrow>
               let response = stamp_retries retry_count response
               in (Inr response, record_metrics (rs_metrics response) (w \<lparr> aw_world := v \<rparr>))))"

end
