(* ===== verification/Prompt_Budget.thy ===== *)
theory Prompt_Budget
  imports Prompt_Compiler "HOL-Library.Multiset"
begin

text \<open>
  What the token budget of the prompt compiler guarantees: which sections it may touch, how far
  the result may stay above the budget, and when it does.
\<close>

section \<open>One section\<close>

lemma marker_length: "length TRUNCATION_MARKER = 35"
  by (simp add: TRUNCATION_MARKER_def newline_def)

lemma estimate_tokens_le: "length text \<le> 4 * n + 35 \<Longrightarrow> estimate_tokens text \<le> n + 9"
  by (auto simp: estimate_tokens_def)

lemma shrink_or_drop_name [simp]:
  "ps_name (fst (shrink_or_drop s e)) = ps_name s"
  "ps_is_required (fst (shrink_or_drop s e)) = ps_is_required s"
  by (simp_all add: shrink_or_drop_def Let_def)

lemma truncated_length: "length (rstrip (take (n * 4) c) @ TRUNCATION_MARKER) \<le> 4 * n + 35"
  using length_rstrip_le [of "take (n * 4) c"] by (simp add: marker_length)

lemma drop_whole:
  assumes "ps_estimated_tokens s \<le> e"
  shows "ps_estimated_tokens (fst (shrink_or_drop s e)) = 0"
    "ps_content (fst (shrink_or_drop s e)) = []"
    "snd (shrink_or_drop s e) = ps_estimated_tokens s"
  using assms by (simp_all add: shrink_or_drop_def)

lemma shrink_tokens:
  assumes "e < ps_estimated_tokens s"
  shows "ps_estimated_tokens (fst (shrink_or_drop s e)) \<le> ps_estimated_tokens s - e + 9"
    and "snd (shrink_or_drop s e)
      = ps_estimated_tokens s - ps_estimated_tokens (fst (shrink_or_drop s e))"
proof -
  let ?n = "ps_estimated_tokens s - e"
  have "estimate_tokens (rstrip (take (?n * 4) (ps_content s)) @ TRUNCATION_MARKER) \<le> ?n + 9"
    by (rule estimate_tokens_le [OF truncated_length])
  with assms show "ps_estimated_tokens (fst (shrink_or_drop s e)) \<le> ps_estimated_tokens s - e + 9"
    by (simp add: shrink_or_drop_def Let_def del: diff_add_assoc2)
  from assms show "snd (shrink_or_drop s e)
      = ps_estimated_tokens s - ps_estimated_tokens (fst (shrink_or_drop s e))"
    by (simp add: shrink_or_drop_def Let_def)
qed

text \<open>What a step books as freed accounts for the real change up to eight tokens.\<close>

lemma shrink_account:
  assumes "0 < e"
  shows "ps_estimated_tokens (fst (shrink_or_drop s e)) + snd (shrink_or_drop s e)
    \<le> ps_estimated_tokens s + 8"
proof (cases "ps_estimated_tokens s \<le> e")
  case True
  then show ?thesis by (simp add: drop_whole)
next
  case False
  then show ?thesis using assms shrink_tokens [of e s] by linarith
qed

lemma shrink_freed_le: "snd (shrink_or_drop s e) \<le> ps_estimated_tokens s"
  by (simp add: shrink_or_drop_def Let_def)

section \<open>The trimming loop\<close>

abbreviation names :: "prompt_section list \<Rightarrow> section_name list" where
  "names \<equiv> map ps_name"

definition looked_up :: "working_sections \<Rightarrow> prompt_section \<Rightarrow> prompt_section" where
  "looked_up w s = (case w (ps_name s) of Some s' \<Rightarrow> s' | None \<Rightarrow> s)"

definition working_total :: "prompt_section list \<Rightarrow> working_sections \<Rightarrow> nat" where
  "working_total sections w = total_tokens (map (looked_up w) sections)"

lemma working_dict_other:
  "n \<notin> set (names ss) \<Longrightarrow> foldl (\<lambda>d s. d(ps_name s \<mapsto> s)) d ss n = d n"
  by (induction ss arbitrary: d) auto

lemma working_dict_fold:
  "distinct (names ss) \<Longrightarrow> s \<in> set ss \<Longrightarrow>
     foldl (\<lambda>d s. d(ps_name s \<mapsto> s)) d ss (ps_name s) = Some s"
proof (induction ss arbitrary: d)
  case (Cons x ss)
  show ?case
  proof (cases "s = x")
    case True
    then show ?thesis using Cons.prems by (simp only: foldl_Cons) (simp add: working_dict_other del: fun_upd_apply, simp)
  next
    case False
    then show ?thesis using Cons by simp
  qed
qed simp

lemma working_dict_lookup [simp]:
  "distinct (names ss) \<Longrightarrow> s \<in> set ss \<Longrightarrow> working_dict ss (ps_name s) = Some s"
  by (simp add: working_dict_def working_dict_fold)

lemma looked_up_dict: "distinct (names ss) \<Longrightarrow> s \<in> set ss \<Longrightarrow> looked_up (working_dict ss) s = s"
  by (simp add: looked_up_def)

lemma trim_sections_other:
  "n \<notin> set (names order) \<Longrightarrow> trim_sections m order t w n = w n"
  by (induction m order t w rule: trim_sections.induct) (auto simp: Let_def split: prod.splits)

text \<open>Every entry is the original one or one step's result on the original section.\<close>

lemma trim_sections_entry:
  assumes "distinct (names order)" "s \<in> set order" "w (ps_name s) = Some s"
  shows "trim_sections m order t w (ps_name s) = Some s \<or>
    (\<exists>e > 0. trim_sections m order t w (ps_name s) = Some (fst (shrink_or_drop s e)))"
  using assms
proof (induction m order t w rule: trim_sections.induct)
  case (2 m x order t w)
  let ?x = "shrink_or_drop x (t - m)"
  show ?case
  proof (cases "t \<le> m")
    case True
    then show ?thesis using 2 by simp
  next
    case False
    then have step: "trim_sections m (x # order) t w =
        trim_sections m order (t - snd ?x) (w(ps_name x \<mapsto> fst ?x))"
      by (simp add: Let_def split: prod.splits)
    show ?thesis
    proof (cases "s = x")
      case True
      then have "trim_sections m (x # order) t w (ps_name s) = Some (fst (shrink_or_drop s (t - m)))"
        using 2 by (simp only: step) (simp add: trim_sections_other)
      then show ?thesis using False by (intro disjI2 exI [of _ "t - m"]) simp
    next
      case neq: False
      with 2(2,3) have mem: "s \<in> set order" by auto
      then have "ps_name s \<noteq> ps_name x" using 2(2) by (metis distinct.simps(2) image_eqI list.set_map list.simps(9))
      note mem = mem this
      have "distinct (names order)" using 2(2) by simp
      then show ?thesis
        unfolding step using 2(1) [OF False refl refl prod.collapse] mem 2(4)
        by (simp add: fun_upd_other del: fun_upd_apply)
    qed
  qed
qed simp

lemma working_total_update:
  assumes "distinct (names ss)" "s \<in> set ss" "w (ps_name s) = Some s"
  shows "working_total ss (w(ps_name s \<mapsto> s')) + ps_estimated_tokens s
    = working_total ss w + ps_estimated_tokens s'"
  using assms
proof (induction ss)
  case (Cons x ss)
  have keep: "ps_name s \<notin> set (names ss) \<Longrightarrow>
      map (looked_up (w(ps_name s \<mapsto> s'))) ss = map (looked_up w) ss"
    by (intro map_cong) (auto simp: looked_up_def image_iff)
  show ?case
  proof (cases "s = x")
    case True
    then have "map (looked_up (w(ps_name s \<mapsto> s'))) ss = map (looked_up w) ss"
      using Cons.prems keep by simp
    then have "total_tokens (map (looked_up (w(ps_name s \<mapsto> s'))) ss)
        = total_tokens (map (looked_up w) ss)" by (rule arg_cong)
    then show ?thesis using True Cons.prems
      by (simp add: working_total_def total_tokens_def looked_up_def del: fun_upd_apply) simp
  next
    case False
    then have "s \<in> set ss" using Cons.prems by simp
    moreover from this have "ps_name s \<noteq> ps_name x" using Cons.prems(1) by (auto simp: image_iff)
    ultimately have "s \<in> set ss" "ps_name s \<noteq> ps_name x" by blast+
    then show ?thesis using Cons
      by (simp add: working_total_def total_tokens_def looked_up_def)
  qed
qed simp

text \<open>
  The loop's own count against the real total: with \<open>c\<close> tokens of error before, at most eight
  more per processed section after; and the loop ends within nine of the budget unless it has
  dropped everything it may touch.
\<close>

lemma trim_step:
  assumes "\<not> t \<le> m"
  shows "trim_sections m (s # order) t w =
    trim_sections m order (t - snd (shrink_or_drop s (t - m)))
      (w(ps_name s \<mapsto> fst (shrink_or_drop s (t - m))))"
  using assms by (simp add: Let_def split: prod.splits)

definition trimmable :: "prompt_section list \<Rightarrow> prompt_section list \<Rightarrow> working_sections \<Rightarrow> bool" where
  "trimmable ss order w \<longleftrightarrow> distinct (names ss) \<and> distinct (names order) \<and> set order \<subseteq> set ss
     \<and> (\<forall>s\<in>set order. w (ps_name s) = Some s)"

lemma trimmable_step:
  assumes "trimmable ss (s # order) w"
  shows "trimmable ss order (w(ps_name s \<mapsto> s'))"
proof -
  have "ps_name x \<noteq> ps_name s" if "x \<in> set order" for x
    using assms that by (auto simp: trimmable_def image_iff)
  with assms show ?thesis by (simp add: trimmable_def)
qed

lemma trim_step_total:
  assumes "trimmable ss (s # order) w" "\<not> t \<le> m" "total_tokens (s # order) \<le> t"
    "working_total ss w \<le> t + c"
  defines "s' \<equiv> fst (shrink_or_drop s (t - m))" and "f \<equiv> snd (shrink_or_drop s (t - m))"
  shows "working_total ss (w(ps_name s \<mapsto> s')) \<le> (t - f) + (c + 8)"
    and "total_tokens order \<le> t - f"
    and "ps_estimated_tokens s \<le> t - m \<Longrightarrow> working_total ss (w(ps_name s \<mapsto> s')) \<le> (t - f) + c"
proof -
  have upd: "working_total ss (w(ps_name s \<mapsto> s')) + ps_estimated_tokens s
      = working_total ss w + ps_estimated_tokens s'"
    using assms(1) by (intro working_total_update) (auto simp: trimmable_def)
  have f: "f \<le> ps_estimated_tokens s" unfolding f_def by (rule shrink_freed_le)
  have est: "ps_estimated_tokens s + total_tokens order \<le> t"
    using assms(3) by (simp add: total_tokens_def)
  have "ps_estimated_tokens s' + f \<le> ps_estimated_tokens s + 8"
    unfolding s'_def f_def using assms(2) by (intro shrink_account) simp
  with upd f est assms(4) show "working_total ss (w(ps_name s \<mapsto> s')) \<le> (t - f) + (c + 8)"
    by linarith
  show "total_tokens order \<le> t - f" using f est by linarith
  assume "ps_estimated_tokens s \<le> t - m"
  then have "ps_estimated_tokens s' = 0" "f = ps_estimated_tokens s"
    unfolding s'_def f_def by (rule drop_whole)+
  with upd est assms(4) show "working_total ss (w(ps_name s \<mapsto> s')) \<le> (t - f) + c" by linarith
qed

lemma trim_error:
  assumes "trimmable ss order w" "total_tokens order \<le> t" "working_total ss w \<le> t + c"
  shows "working_total ss (trim_sections m order t w) \<le> t + c + 8 * length order"
  using assms
proof (induction order arbitrary: t w c)
  case (Cons s order)
  show ?case
  proof (cases "t \<le> m")
    case True
    then show ?thesis using Cons.prems(3) by simp
  next
    case False
    note step = trim_step_total [OF Cons.prems(1) False Cons.prems(2,3)]
    show ?thesis
      using Cons.IH [OF trimmable_step [OF Cons.prems(1)] step(2,1)]
      unfolding trim_step [OF False] by (simp del: fun_upd_apply)
  qed
qed simp

lemma trim_overshoot:
  assumes "trimmable ss order w" "total_tokens order \<le> t" "working_total ss w \<le> t + c"
  shows "working_total ss (trim_sections m order t w) \<le> m + 9 + c + 8 * length order
    \<or> (\<forall>s\<in>set order. \<exists>s'. trim_sections m order t w (ps_name s) = Some s'
          \<and> ps_content s' = [] \<and> ps_estimated_tokens s' = 0)"
  using assms
proof (induction order arbitrary: t w c)
  case (Cons s order)
  let ?x = "shrink_or_drop s (t - m)"
  let ?w = "w(ps_name s \<mapsto> fst ?x)"
  show ?case
  proof (cases "t \<le> m")
    case True
    then show ?thesis using Cons.prems(3) by simp
  next
    case False
    note step = trim_step_total [OF Cons.prems(1) False Cons.prems(2,3)]
    note rest = trimmable_step [OF Cons.prems(1), of "fst ?x"]
    show ?thesis
    proof (cases "ps_estimated_tokens s \<le> t - m")
      case True
      have "ps_name s \<notin> set (names order)" using Cons.prems(1) by (auto simp: trimmable_def)
      then have "trim_sections m order (t - snd ?x) ?w (ps_name s) = Some (fst ?x)"
        by (simp add: trim_sections_other)
      then show ?thesis
        using Cons.IH [OF rest step(2) step(3) [OF True]] drop_whole [OF True]
        unfolding trim_step [OF False] by (auto simp del: fun_upd_apply)
    next
      case shrunk: False
      then have "t - snd ?x \<le> m + 9"
        using shrink_tokens [of "t - m" s] by linarith
      then show ?thesis
        using trim_error [OF rest step(2,1), of m] unfolding trim_step [OF False] by simp
    qed
  qed
qed simp

section \<open>The budget manager\<close>

abbreviation optional_sections :: "prompt_section list \<Rightarrow> prompt_section list" where
  "optional_sections ss \<equiv> filter (\<lambda>s. \<not> ps_is_required s) ss"

abbreviation trim_order :: "prompt_section list \<Rightarrow> prompt_section list" where
  "trim_order ss \<equiv> sort_key ps_priority (optional_sections ss)"

lemma enforce_trims:
  assumes "\<not> total_tokens ss \<le> m"
  shows "enforce m ss =
    map (looked_up (trim_sections m (trim_order ss) (total_tokens ss) (working_dict ss))) ss"
  using assms by (simp add: enforce_def Let_def looked_up_def)

lemma distinct_filter_names: "distinct (names ss) \<Longrightarrow> distinct (names (filter p ss))"
  by (induction ss) auto

lemma distinct_trim_order: "distinct (names ss) \<Longrightarrow> distinct (names (trim_order ss))"
  using distinct_filter_names by (auto simp: distinct_map inj_on_def)

lemma trimmable_start: "distinct (names ss) \<Longrightarrow> trimmable ss (trim_order ss) (working_dict ss)"
  using distinct_trim_order by (auto simp: trimmable_def)

lemma total_tokens_filter_le: "total_tokens (filter p ss) \<le> total_tokens ss"
  by (induction ss) (auto simp: total_tokens_def)

lemma total_tokens_trim_order: "total_tokens (trim_order ss) \<le> total_tokens ss"
proof -
  have "total_tokens (trim_order ss) = total_tokens (optional_sections ss)"
    by (simp only: total_tokens_def sum_mset_sum_list [symmetric] mset_map mset_sort)
  then show ?thesis by (simp add: total_tokens_filter_le)
qed

lemma working_total_start: "distinct (names ss) \<Longrightarrow> working_total ss (working_dict ss) = total_tokens ss"
proof -
  assume "distinct (names ss)"
  then have "map (looked_up (working_dict ss)) ss = ss" by (intro map_idI looked_up_dict)
  then show ?thesis by (simp add: working_total_def)
qed

text \<open>Entry by entry: required sections stay, the others are untouched or one step's result.\<close>

lemma enforce_entry:
  assumes "distinct (names ss)" "i < length ss"
  shows "enforce m ss ! i = ss ! i \<or>
    (\<not> ps_is_required (ss ! i) \<and> (\<exists>e > 0. enforce m ss ! i = fst (shrink_or_drop (ss ! i) e)))"
proof (cases "total_tokens ss \<le> m")
  case True
  then show ?thesis by (simp add: enforce_def)
next
  case False
  let ?s = "ss ! i" and ?w = "trim_sections m (trim_order ss) (total_tokens ss) (working_dict ss)"
  have mem: "?s \<in> set ss" using assms(2) by simp
  have at: "enforce m ss ! i = looked_up ?w ?s" using assms(2) by (simp add: enforce_trims [OF False])
  show ?thesis
  proof (cases "ps_is_required ?s")
    case True
    have "ps_name ?s \<notin> set (names (trim_order ss))"
    proof
      assume "ps_name ?s \<in> set (names (trim_order ss))"
      then obtain s where "s \<in> set ss" "ps_name s = ps_name ?s" "\<not> ps_is_required s" by auto
      with True mem assms(1) show False by (metis distinct_map inj_onD)
    qed
    then show ?thesis using at assms(1) mem by (simp add: trim_sections_other looked_up_def)
  next
    case False
    then have "?s \<in> set (trim_order ss)" using mem by simp
    then have "?w (ps_name ?s) = Some ?s \<or> (\<exists>e > 0. ?w (ps_name ?s) = Some (fst (shrink_or_drop ?s e)))"
      using assms(1) mem by (intro trim_sections_entry distinct_trim_order) auto
    then show ?thesis using at False by (auto simp: looked_up_def)
  qed
qed

lemma enforce_length [simp]: "length (enforce m ss) = length ss"
  by (simp add: enforce_def Let_def)

lemma enforce_names: "distinct (names ss) \<Longrightarrow> names (enforce m ss) = names ss"
proof (rule nth_equalityI)
  fix i
  assume "distinct (names ss)" "i < length (names (enforce m ss))"
  then show "names (enforce m ss) ! i = names ss ! i"
    using enforce_entry [of ss i m] by auto
qed simp

lemma enforce_required:
  assumes "distinct (names ss)" "s \<in> set ss" "ps_is_required s"
  shows "s \<in> set (enforce m ss)"
proof -
  obtain i where "i < length ss" "s = ss ! i" using assms(2) by (metis in_set_conv_nth)
  then have "enforce m ss ! i = s" using enforce_entry [OF assms(1), of i m] assms(3) by auto
  then show ?thesis using \<open>i < length ss\<close> by (metis enforce_length nth_mem)
qed

text \<open>The first section in trim order is emptied when the excess is at least its size.\<close>

lemma enforce_drops_first:
  assumes "distinct (names ss)" "trim_order ss = s # order" "0 < ps_estimated_tokens s"
    "m + ps_estimated_tokens s \<le> total_tokens ss"
  shows "\<exists>s'\<in>set (enforce m ss). ps_name s' = ps_name s \<and> ps_content s' = []"
proof -
  let ?e = "total_tokens ss - m"
  let ?w = "trim_sections m (trim_order ss) (total_tokens ss) (working_dict ss)"
  have over: "\<not> total_tokens ss \<le> m" using assms(3,4) by simp
  have mem: "s \<in> set ss"
    using assms(2) by (metis filter_is_subset list.set_intros(1) set_sort subsetD)
  have "ps_name s \<notin> set (names order)"
    using distinct_trim_order [OF assms(1)] unfolding assms(2) by simp
  then have "?w (ps_name s) = Some (fst (shrink_or_drop s ?e))"
    unfolding assms(2) trim_step [OF over] by (simp add: trim_sections_other)
  then have "looked_up ?w s = fst (shrink_or_drop s ?e)" by (simp add: looked_up_def)
  moreover have "looked_up ?w s \<in> set (enforce m ss)" using mem by (simp add: enforce_trims [OF over])
  moreover have "ps_content (fst (shrink_or_drop s ?e)) = []" using assms(4) by (intro drop_whole) simp
  ultimately show ?thesis by (metis shrink_or_drop_name(1))
qed

section \<open>The contract of the budget manager\<close>

lemma total_tokens_required:
  assumes "distinct (names ss)"
    "\<forall>s\<in>set (optional_sections ss). ps_estimated_tokens (looked_up w s) = 0"
    "\<forall>s\<in>set ss. ps_is_required s \<longrightarrow> looked_up w s = s"
  shows "working_total ss w = total_tokens (filter ps_is_required ss)"
  using assms by (induction ss) (auto simp: working_total_def total_tokens_def)

lemma enforce_outcome:
  assumes "distinct (names ss)"
  shows "total_tokens (enforce m ss) \<le> m + 9 + 8 * length (optional_sections ss)
    \<or> total_tokens (enforce m ss) = total_tokens (filter ps_is_required ss)
      \<and> (\<forall>s\<in>set (enforce m ss). \<not> ps_is_required s \<longrightarrow> ps_content s = [])"
proof (cases "total_tokens ss \<le> m")
  case True
  then show ?thesis by (simp add: enforce_def)
next
  case False
  let ?w = "trim_sections m (trim_order ss) (total_tokens ss) (working_dict ss)"
  have out: "enforce m ss = map (looked_up ?w) ss" by (rule enforce_trims [OF False])
  have keep: "\<forall>s\<in>set ss. ps_is_required s \<longrightarrow> looked_up ?w s = s"
    using enforce_entry [OF assms, of _ m] out by (metis in_set_conv_nth nth_map)
  from trim_overshoot [OF trimmable_start [OF assms] total_tokens_trim_order, of 0 m]
  consider (near) "working_total ss ?w \<le> m + 9 + 8 * length (optional_sections ss)"
    | (all) "\<forall>s\<in>set (optional_sections ss). ps_content (looked_up ?w s) = []
        \<and> ps_estimated_tokens (looked_up ?w s) = 0"
    using working_total_start [OF assms] by (fastforce simp: looked_up_def)
  then show ?thesis
  proof cases
    case near
    then show ?thesis by (simp add: out working_total_def)
  next
    case all
    then have "working_total ss ?w = total_tokens (filter ps_is_required ss)"
      by (intro total_tokens_required assms keep) simp
    moreover have "ps_is_required (looked_up ?w s) \<or> ps_content (looked_up ?w s) = []"
      if "s \<in> set ss" for s
      using that all keep by (cases "ps_is_required s") auto
    ultimately show ?thesis by (auto simp: out working_total_def)
  qed
qed

text \<open>
  C36. The budget manager returns the sections in their order, each required one unchanged; every
  other one is unchanged, emptied, or a prefix of its text with the truncation marker. The result
  exceeds the budget by at most nine tokens and eight more for each optional section, unless every
  optional section was emptied and the required ones alone are what remains.
\<close>
theorem enforce_contract:
  assumes "distinct (map ps_name ss)"
  shows "map ps_name (enforce m ss) = map ps_name ss \<and>
    (\<forall>s\<in>set ss. ps_is_required s \<longrightarrow> s \<in> set (enforce m ss)) \<and>
    (\<forall>i<length ss. let s = ss ! i; s' = enforce m ss ! i in
       s' = s \<or> \<not> ps_is_required s \<and> (ps_content s' = [] \<or>
         (\<exists>p. prefix p (ps_content s) \<and> ps_content s' = p @ TRUNCATION_MARKER))) \<and>
    (total_tokens (enforce m ss) \<le> m + 9 + 8 * length (filter (\<lambda>s. \<not> ps_is_required s) ss)
     \<or> total_tokens (enforce m ss) = total_tokens (filter ps_is_required ss)
       \<and> (\<forall>s\<in>set (enforce m ss). \<not> ps_is_required s \<longrightarrow> ps_content s = []))"
proof (intro conjI)
  have cut: "ps_content (fst (shrink_or_drop s e)) = [] \<or>
      (\<exists>p. prefix p (ps_content s) \<and> ps_content (fst (shrink_or_drop s e)) = p @ TRUNCATION_MARKER)" for s e
    using rstrip_prefix take_is_prefix prefix_order.trans
    by (fastforce simp: shrink_or_drop_def Let_def)
  show "\<forall>i<length ss. let s = ss ! i; s' = enforce m ss ! i in
       s' = s \<or> \<not> ps_is_required s \<and> (ps_content s' = [] \<or>
         (\<exists>p. prefix p (ps_content s) \<and> ps_content s' = p @ TRUNCATION_MARKER))"
    using enforce_entry [OF assms, of _ m] cut by (metis (no_types, lifting))
qed (use enforce_names enforce_required enforce_outcome assms in blast)+

definition demo_sections :: "prompt_section list" where
  "demo_sections = [system_section ''sys'', example_section (replicate 400 CHR ''x'') [''e1''],
     business_section (replicate 80 CHR ''y'')]"

lemma demo_sections_names: "map ps_name demo_sections = [System, Retrieved_Examples, Business_Context]"
  by (simp add: demo_sections_def system_section_def example_section_def business_section_def)

theorem enforce_contract_witness:
  "system_section ''sys'' \<in> set (enforce 50 demo_sections)"
proof -
  have "distinct (map ps_name demo_sections)" by (simp add: demo_sections_names)
  from enforce_contract [OF this, of 50] show ?thesis
    by (simp add: demo_sections_def) (simp add: system_section_def)
qed

section \<open>When trimming overruns\<close>

text \<open>
  A section whose token count is right and whose text is not cut at white space: shrinking it
  frees nine tokens less than asked, because the marker is added after the cut.
\<close>

definition plain_section :: "prompt_section \<Rightarrow> bool" where
  "plain_section s \<longleftrightarrow> ps_estimated_tokens s = estimate_tokens (ps_content s)
     \<and> (\<forall>k. rstrip (take k (ps_content s)) = take k (ps_content s))"

lemma shrink_plain:
  assumes "plain_section s" "0 < e" "e < ps_estimated_tokens s"
  shows "ps_estimated_tokens (fst (shrink_or_drop s e)) = ps_estimated_tokens s - e + 9"
proof -
  let ?c = "ps_content s" and ?n = "ps_estimated_tokens s - e"
  have est: "ps_estimated_tokens s = (length ?c + 3) div 4" "?c \<noteq> []"
    using assms by (auto simp: plain_section_def estimate_tokens_def split: if_splits)
  then have "?n * 4 \<le> length ?c" using assms(2,3) by linarith
  then have "length (take (?n * 4) ?c @ TRUNCATION_MARKER) = ?n * 4 + 35"
    by (simp add: marker_length)
  then have "estimate_tokens (take (?n * 4) ?c @ TRUNCATION_MARKER) = ?n + 9"
    by (auto simp: estimate_tokens_def)
  then show ?thesis
    using assms by (simp add: shrink_or_drop_def Let_def plain_section_def del: diff_add_assoc2)
qed

lemma trim_futile:
  assumes "trimmable ss order w" "\<forall>s\<in>set order. plain_section s \<and> 9 < ps_estimated_tokens s"
  shows "working_total ss (trim_sections m order (m + 9) w) = working_total ss w"
  using assms
proof (induction order arbitrary: w)
  case (Cons s order)
  have same: "ps_estimated_tokens (fst (shrink_or_drop s 9)) = ps_estimated_tokens s"
    using shrink_plain [of s 9] Cons.prems(2) by simp
  moreover have "snd (shrink_or_drop s 9) = 0"
    using shrink_tokens(2) [of 9 s] same Cons.prems(2) by simp
  ultimately have "trim_sections m (s # order) (m + 9) w =
      trim_sections m order (m + 9) (w(ps_name s \<mapsto> fst (shrink_or_drop s 9)))"
    using trim_step [of "m + 9" m s order w] by (simp del: fun_upd_apply)
  moreover have "working_total ss (w(ps_name s \<mapsto> fst (shrink_or_drop s 9))) = working_total ss w"
    using working_total_update [of ss s w "fst (shrink_or_drop s 9)"] same Cons.prems(1)
    by (simp add: trimmable_def del: fun_upd_apply)
  ultimately show ?case
    using Cons.IH [OF trimmable_step [OF Cons.prems(1), of "fst (shrink_or_drop s 9)"]] Cons.prems(2)
    by (simp del: fun_upd_apply)
qed simp

text \<open>
  Whenever the budget is met by shortening the first section in trim order rather than dropping
  it, by nine tokens or more, the result does not fit: the marker puts it nine tokens above the
  budget, and the remaining optional sections are cut and marked without freeing anything. (For
  sections with right counts, more than nine tokens, and no cut at white space.)
\<close>
theorem partial_trim_overruns:
  assumes "distinct (map ps_name ss)"
    and "sort_key ps_priority (filter (\<lambda>s. \<not> ps_is_required s) ss) = s # order"
    and "\<forall>x\<in>set (s # order). plain_section x \<and> 9 < ps_estimated_tokens x"
    and "total_tokens ss = m + e" and "9 \<le> e" and "e < ps_estimated_tokens s"
  shows "total_tokens (enforce m ss) = m + 9"
proof -
  let ?x = "shrink_or_drop s e"
  let ?w = "(working_dict ss)(ps_name s \<mapsto> fst ?x)"
  have over: "\<not> total_tokens ss \<le> m" using assms by simp
  have tr: "trimmable ss (s # order) (working_dict ss)"
    using trimmable_start [OF assms(1)] by (simp only: assms(2))
  have est: "ps_estimated_tokens (fst ?x) = ps_estimated_tokens s - e + 9"
    using assms by (intro shrink_plain) auto
  then have freed: "snd ?x = e - 9" using shrink_tokens(2) [of e s] assms(5,6) by simp
  have "working_total ss ?w + ps_estimated_tokens s = m + e + ps_estimated_tokens (fst ?x)"
    using working_total_update [of ss s "working_dict ss" "fst ?x"] working_total_start [of ss] tr assms(1,4)
    by (simp add: trimmable_def del: fun_upd_apply)
  then have "working_total ss ?w = m + 9" using est assms(5,6) by linarith
  moreover have "enforce m ss = map (looked_up (trim_sections m order (m + 9) ?w)) ss"
    using enforce_trims [OF over] trim_step [OF over, of s order "working_dict ss"] freed assms(2,4,5)
    by (simp del: fun_upd_apply)
  ultimately show ?thesis
    using trim_futile [OF trimmable_step [OF tr, of "fst ?x"], of m] assms(3) by (simp add: working_total_def)
qed

lemma rstrip_replicate: "\<not> is_space c \<Longrightarrow> rstrip (replicate n c) = replicate n c"
  by (simp add: rstrip_def dropWhile_eq_self_iff)

theorem partial_trim_overruns_witness:
  "total_tokens (enforce 100 demo_sections) = 109"
proof -
  have ns: "\<not> is_space CHR ''x''" "\<not> is_space CHR ''y''" by (simp_all add: is_space_def)
  let ?e = "example_section (replicate 400 CHR ''x'') [''e1'']" and ?b = "business_section (replicate 80 CHR ''y'')"
  have "sort_key ps_priority (filter (\<lambda>s. \<not> ps_is_required s) demo_sections) = [?e, ?b]"
    by (simp add: demo_sections_def system_section_def example_section_def business_section_def
        EXAMPLES_TRIM_PRIORITY_def BUSINESS_TRIM_PRIORITY_def insort_key_def)
  moreover have "\<forall>x\<in>set [?e, ?b]. plain_section x \<and> 9 < ps_estimated_tokens x"
    using ns by (simp add: plain_section_def example_section_def business_section_def
        estimate_tokens_def rstrip_replicate)
  moreover have "total_tokens demo_sections = 100 + 21"
    by (simp add: demo_sections_def total_tokens_def system_section_def example_section_def
        business_section_def estimate_tokens_def)
  moreover have "21 < ps_estimated_tokens ?e"
    by (simp add: example_section_def estimate_tokens_def)
  ultimately show ?thesis
    using partial_trim_overruns [of demo_sections ?e "[?b]" 100 21] by (simp add: demo_sections_names)
qed

end
