(* ===== verification/Prompt_Properties.thy ===== *)
theory Prompt_Properties
  imports Prompt_Budget
begin

text \<open>
  What a caller of \<open>PromptCompiler.compile\<close> gets in any run of one compiler: the mandatory text
  of the prompt, and prompts from the cache that do not differ from freshly compiled ones.
\<close>

section \<open>Rendering\<close>

lemma join_sublist: "p \<in> set ps \<Longrightarrow> sublist p (join sep ps)"
proof (induction sep ps rule: join.induct)
  case (3 sep x y xs)
  show ?case
  proof (cases "p = x")
    case True
    then show ?thesis by (simp add: prefix_imp_sublist)
  next
    case False
    with 3 have "sublist p (join sep (y # xs))" by simp
    then show ?thesis by (simp add: sublist_append)
  qed
qed auto

lemma spec_for_mem:
  assumes "n \<in> set (ordered_names t)"
  shows "\<exists>spec. spec_for t n = Inr spec"
proof (cases "next_where (\<lambda>s. sp_name s = n) (pt_section_specs t)")
  case None
  with assms show ?thesis by (auto simp: ordered_names_def)
next
  case (Some s)
  then show ?thesis by (simp add: spec_for_def)
qed

lemma format_parts_ok:
  assumes "set ns \<subseteq> set (ordered_names t)"
  shows "\<exists>parts. format_parts t by_name ns = Inr parts \<and>
    (\<forall>n s. n \<in> set ns \<and> by_name n = Some s \<and> strip (ps_content s) \<noteq> [] \<longrightarrow>
       (\<exists>p\<in>set parts. sublist (strip (ps_content s)) p))"
  using assms
proof (induction ns)
  case (Cons n ns)
  then obtain parts where parts: "format_parts t by_name ns = Inr parts"
    "\<And>n s. n \<in> set ns \<Longrightarrow> by_name n = Some s \<Longrightarrow> strip (ps_content s) \<noteq> [] \<Longrightarrow>
       \<exists>p\<in>set parts. sublist (strip (ps_content s)) p" by auto
  obtain spec where spec: "spec_for t n = Inr spec" using Cons.prems spec_for_mem by fastforce
  have "sublist (strip (ps_content s)) (sp_header spec @ newline @ strip (ps_content s))" for s :: prompt_section
    by (simp add: sublist_append)
  with parts spec show ?case by (cases "by_name n") auto
qed simp

text \<open>A compiled prompt always renders, and every section with text is in the rendering.\<close>

lemma as_text_sections:
  assumes "set (map ps_name (all_sections p)) \<subseteq> set (ordered_names (cp_template p))"
    "distinct (map ps_name (all_sections p))"
  shows "\<exists>t. as_text p = Inr t \<and>
    (\<forall>s\<in>set (all_sections p). strip (ps_content s) \<noteq> [] \<longrightarrow> sublist (strip (ps_content s)) t)"
proof -
  let ?w = "working_dict (all_sections p)" and ?t = "cp_template p"
  obtain parts where parts: "format_parts ?t ?w (ordered_names ?t) = Inr parts"
    "\<And>n s. n \<in> set (ordered_names ?t) \<Longrightarrow> ?w n = Some s \<Longrightarrow> strip (ps_content s) \<noteq> [] \<Longrightarrow>
       \<exists>p\<in>set parts. sublist (strip (ps_content s)) p"
    using format_parts_ok [of "ordered_names ?t" ?t ?w] by auto
  have "sublist (strip (ps_content s)) (join (newline @ newline) parts)"
    if "s \<in> set (all_sections p)" "strip (ps_content s) \<noteq> []" for s
  proof -
    have "\<exists>q\<in>set parts. sublist (strip (ps_content s)) q"
      using assms that by (intro parts(2) [of "ps_name s"]) auto
    then show ?thesis using join_sublist by (metis sublist_order.order.trans)
  qed
  with parts(1) show ?thesis by (simp add: as_text_def format_prompt_def)
qed

lemma strip_id:
  assumes "s \<noteq> []" "\<not> is_space (hd s)" "\<not> is_space (last s)"
  shows "strip s = s"
proof -
  have "lstrip s = s" using assms by (cases s) (auto simp: lstrip_def)
  moreover have "rstrip s = s"
    using assms by (cases s rule: rev_cases) (auto simp: rstrip_def)
  ultimately show ?thesis by (simp add: strip_def)
qed

section \<open>The sections of a compiled prompt\<close>

lemmas builder_defs = build_system_def build_business_def build_schema_def
  build_relationships_def build_examples_def build_constraints_def build_output_def
  system_section_def business_section_def schema_section_def relationship_section_def
  example_section_def constraint_section_def output_section_def

text \<open>
  The builders of a compiler are well-typed: each returns a section of its own class, which fixes
  the name and whether the section is required.
\<close>

definition section_order :: "section_name list" where
  "section_order = [System, Business_Context, Schema_Context, Relationship, Retrieved_Examples, Constraint, Output_Format]"

definition builders_typed :: "prompt_compiler \<Rightarrow> bool" where
  "builders_typed pc \<longleftrightarrow> (\<forall>b d. map ps_name (built_sections pc b d) = section_order \<and>
     ps_is_required (pc_system_builder pc b d) \<and> ps_is_required (pc_constraint_builder pc b d)
     \<and> ps_is_required (pc_output_builder pc b d))"

lemma built_names: "builders_typed pc \<Longrightarrow> map ps_name (built_sections pc b d) = section_order"
  by (simp add: builders_typed_def)

lemma section_order_distinct: "distinct section_order"
  by (simp add: section_order_def)

lemma built_distinct: "builders_typed pc \<Longrightarrow> distinct (map ps_name (built_sections pc b d))"
  by (simp only: built_names section_order_distinct)

lemma default_builders_typed: "builders_typed (default_compiler t m)"
  by (auto simp: builders_typed_def default_compiler_def built_sections_def builder_defs section_order_def
      Let_def split: prod.splits)

lemma working_dict_names: "n \<in> set (map ps_name ss) \<Longrightarrow> \<exists>s\<in>set ss. working_dict ss n = Some s \<and> ps_name s = n"
proof (induction ss rule: rev_induct)
  case (snoc x ss)
  then show ?case by (cases "n = ps_name x") (auto simp: working_dict_def)
qed simp

lemma section_named_name:
  assumes "ps_name s \<in> set (map ps_name ss)"
  shows "ps_name (section_named ss s) = ps_name s"
  using working_dict_names [OF assms] by (auto simp: section_named_def)

lemma section_named_required:
  assumes "builders_typed pc" "s \<in> set (built_sections pc b d)" "ps_is_required s"
  shows "section_named (enforce m (built_sections pc b d)) s = s"
proof -
  have "s \<in> set (enforce m (built_sections pc b d))"
    by (rule enforce_required [OF built_distinct assms(2,3)]) (rule assms)
  moreover have "distinct (map ps_name (enforce m (built_sections pc b d)))"
    using assms(1) by (simp add: enforce_names built_distinct)
  ultimately show ?thesis by (simp add: section_named_def)
qed

lemma prompt_sections_names:
  assumes "builders_typed pc"
  shows "map ps_name (all_sections (build_prompt pc b d l)) = section_order"
proof -
  have "ps_name (section_named (enforce m (built_sections pc b d)) s) = ps_name s"
    if "s \<in> set (built_sections pc b d)" for m s
    using that assms by (intro section_named_name) (simp add: enforce_names built_distinct)
  then have "map ps_name (all_sections (build_prompt pc b d l)) = map ps_name (built_sections pc b d)"
    by (simp add: all_sections_def build_prompt_def Let_def built_sections_def)
  then show ?thesis using assms by (simp only: built_names)
qed

lemma prompt_required:
  assumes "builders_typed pc"
  shows "cp_system (build_prompt pc b d l) = pc_system_builder pc b d"
  "cp_constraints (build_prompt pc b d l) = pc_constraint_builder pc b d"
  "cp_output_format (build_prompt pc b d l) = pc_output_builder pc b d"
  using assms section_named_required [OF assms, of _ b d "pc_max_tokens pc"]
  by (simp_all add: build_prompt_def Let_def builders_typed_def built_sections_def)

text \<open>The texts a compiler puts into its required sections.\<close>

definition mandatory_texts :: "prompt_compiler \<Rightarrow> retrieved_knowledge_bundle \<Rightarrow> sql_dialect \<Rightarrow> string list" where
  "mandatory_texts pc b d = map (strip \<circ> ps_content)
     [pc_system_builder pc b d, pc_constraint_builder pc b d, pc_output_builder pc b d]"

definition covers_sections :: "prompt_template \<Rightarrow> bool" where
  "covers_sections t \<longleftrightarrow> set section_order \<subseteq> set (ordered_names t)"

lemma build_prompt_mandatory:
  assumes "builders_typed pc" "covers_sections (pc_template pc)"
  shows "\<exists>t. as_text (build_prompt pc b d l) = Inr t \<and> (\<forall>r\<in>set (mandatory_texts pc b d). sublist r t)"
proof -
  let ?p = "build_prompt pc b d l"
  have "cp_template ?p = pc_template pc" by (simp add: build_prompt_def Let_def)
  then obtain t where t: "as_text ?p = Inr t"
    "\<And>s. s \<in> set (all_sections ?p) \<Longrightarrow> strip (ps_content s) \<noteq> [] \<Longrightarrow> sublist (strip (ps_content s)) t"
    using as_text_sections [of ?p] assms
    by (auto simp: prompt_sections_names covers_sections_def section_order_distinct)
  have "sublist r t" if mem: "r \<in> set (mandatory_texts pc b d)" for r
  proof -
    have "set [pc_system_builder pc b d, pc_constraint_builder pc b d, pc_output_builder pc b d]
        \<subseteq> set (all_sections ?p)"
      using assms(1) by (simp add: all_sections_def prompt_required)
    then obtain s where "s \<in> set (all_sections ?p)" "r = strip (ps_content s)"
      using mem by (auto simp: mandatory_texts_def)
    then show ?thesis using t(2) [of s] by (cases "strip (ps_content s) = []") auto
  qed
  with t(1) show ?thesis by blast
qed

definition required_texts :: "sql_dialect \<Rightarrow> string list" where
  "required_texts d = [SYSTEM_PREAMBLE, join newline (map (\<lambda>r. ''- '' @ r) CONSTRAINT_RULES),
     OUTPUT_FORMAT_INSTRUCTION (sql_dialect_value d)]"

lemma required_text_strip: "t \<in> set (required_texts d) \<Longrightarrow> strip t = t"
  by (auto simp: required_texts_def SYSTEM_PREAMBLE_def CONSTRAINT_RULES_def
      OUTPUT_FORMAT_INSTRUCTION_def is_space_def newline_def intro!: strip_id)

lemma default_mandatory_texts: "mandatory_texts (default_compiler t m) b d = required_texts d"
proof -
  have "mandatory_texts (default_compiler t m) b d = map strip (required_texts d)"
    by (simp add: mandatory_texts_def default_compiler_def builder_defs required_texts_def)
  also have "\<dots> = required_texts d" by (intro map_idI required_text_strip)
  finally show ?thesis .
qed

lemma build_prompt_text:
  assumes "covers_sections t"
  shows "\<exists>x. as_text (build_prompt (default_compiler t m) b d l) = Inr x \<and> (\<forall>r\<in>set (required_texts d). sublist r x)"
proof -
  have "covers_sections (pc_template (default_compiler t m))" using assms by (simp add: default_compiler_def)
  from build_prompt_mandatory [OF default_builders_typed this, of b d l] show ?thesis
    by (simp only: default_mandatory_texts)
qed

section \<open>Runs of one compiler\<close>

text \<open>The calls of one compiler in order: clock reading, bundle and dialect of each.\<close>

type_synonym compile_call = "real \<times> retrieved_knowledge_bundle \<times> sql_dialect"

fun compile_calls :: "content_hash \<Rightarrow> prompt_compiler \<Rightarrow> compile_call list \<Rightarrow> prompt_cache \<Rightarrow> prompt_cache" where
  "compile_calls h pc [] c = c"
| "compile_calls h pc ((l, b, d) # calls) c = compile_calls h pc calls (snd (compile_prompt h pc l b d c))"

definition prompt_key :: "content_hash \<Rightarrow> prompt_compiler \<Rightarrow> retrieved_knowledge_bundle \<Rightarrow> sql_dialect \<Rightarrow> prompt_cache_key" where
  "prompt_key h pc b d = (bundle_content_hash h b, pt_version (pc_template pc), sql_dialect_value d)"

definition prompt_valid :: "prompt_compiler \<Rightarrow> compiled_prompt \<Rightarrow> bool" where
  "prompt_valid pc p = prompt_is_valid (validate_prompt (pc_max_tokens pc) (all_sections p))"

lemma compile_prompt_memo:
  "compile_prompt h pc l b d c =
     mem_cache.memo (prompt_key h pc b d) (prompt_valid pc) (build_prompt pc b d l) c"
  by (simp add: compile_prompt_def mem_cache.memo_def prompt_key_def prompt_valid_def Let_def
      split: option.splits)

text \<open>What the cache of a run relates: a key and a valid prompt built for a bundle of that key.\<close>

definition compiled_for :: "content_hash \<Rightarrow> prompt_compiler \<Rightarrow> retrieved_knowledge_bundle set \<Rightarrow>
    prompt_cache_key \<Rightarrow> compiled_prompt \<Rightarrow> bool" where
  "compiled_for h pc B k p \<longleftrightarrow> prompt_valid pc p \<and>
     (\<exists>b\<in>B. \<exists>d l. k = prompt_key h pc b d \<and> p = build_prompt pc b d l)"

definition bundles_of :: "compile_call list \<Rightarrow> retrieved_knowledge_bundle set" where
  "bundles_of calls = (\<lambda>(l, b, d). b) ` set calls"

lemma compile_calls_sound:
  "mem_cache.sound (compiled_for h pc B) c \<Longrightarrow> bundles_of calls \<subseteq> B \<Longrightarrow>
     mem_cache.sound (compiled_for h pc B) (compile_calls h pc calls c)"
proof (induction h pc calls c rule: compile_calls.induct)
  case (2 h pc l b d calls c)
  have "mem_cache.sound (compiled_for h pc B) (snd (compile_prompt h pc l b d c))"
    unfolding compile_prompt_memo
    using 2(3) by (intro mem_cache.memo_sound [OF 2(2)]) (auto simp: compiled_for_def bundles_of_def)
  then show ?case using 2 by (simp add: bundles_of_def)
qed simp

lemma empty_cache_sound: "mem_cache.sound P Map.empty"
  by (simp add: mem_cache.sound_def cache_get_mem_def)

lemma dialect_value_inj: "sql_dialect_value d = sql_dialect_value d' \<Longrightarrow> d = d'"
  by (cases d; cases d') auto

lemma compile_result:
  assumes "mem_cache.sound (compiled_for h pc B) c"
  shows "\<exists>b'\<in>insert b B. \<exists>l'. fst (compile_prompt h pc l b d c) = build_prompt pc b' d l'
    \<and> bundle_content_hash h b' = bundle_content_hash h b"
proof -
  let ?p = "fst (compile_prompt h pc l b d c)"
  have "?p = build_prompt pc b d l \<or> compiled_for h pc B (prompt_key h pc b d) ?p"
    unfolding compile_prompt_memo by (rule mem_cache.memo_result [OF assms])
  then show ?thesis
  proof
    assume "?p = build_prompt pc b d l"
    then show ?thesis by blast
  next
    assume "compiled_for h pc B (prompt_key h pc b d) ?p"
    then obtain b' d' l' where "b' \<in> B" "?p = build_prompt pc b' d' l'"
      "prompt_key h pc b d = prompt_key h pc b' d'" by (auto simp: compiled_for_def)
    moreover from this have "d' = d" "bundle_content_hash h b' = bundle_content_hash h b"
      by (auto simp: prompt_key_def dest: dialect_value_inj)
    ultimately show ?thesis by blast
  qed
qed

text \<open>
  C35. In every run of a compiler whose template has a heading for each section, whatever the
  bundle, the budget, the trimming and the cache, the prompt sent to the model renders without
  error and contains in full the system instructions, the constraint list and the output
  instructions for the requested dialect.
\<close>
theorem required_text_survives:
  assumes "covers_sections t"
  shows "\<exists>x. as_text (fst (compile_prompt h (default_compiler t m) l b d
        (compile_calls h (default_compiler t m) calls Map.empty))) = Inr x
    \<and> (\<forall>r\<in>set (required_texts d). sublist r x)"
proof -
  let ?pc = "default_compiler t m"
  have "mem_cache.sound (compiled_for h ?pc (bundles_of calls)) (compile_calls h ?pc calls Map.empty)"
    by (rule compile_calls_sound [OF empty_cache_sound order_refl])
  from compile_result [OF this, of b l d] obtain b' l' where
    "fst (compile_prompt h ?pc l b d (compile_calls h ?pc calls Map.empty)) = build_prompt ?pc b' d l'"
    by blast
  then show ?thesis using build_prompt_text [OF assms] by simp
qed

definition demo_compiler :: prompt_compiler where
  "demo_compiler = default_compiler default_prompt_template 1"

lemma default_template_covers: "covers_sections default_prompt_template"
  by (simp add: covers_sections_def ordered_names_def default_prompt_template_def section_order_def)

theorem required_text_survives_witness:
  "\<exists>x. as_text (fst (compile_prompt (\<lambda>_ _. []) demo_compiler 0 demo_bundle MySQL
      (compile_calls (\<lambda>_ _. []) demo_compiler [(0, demo_bundle, MySQL)] Map.empty))) = Inr x
    \<and> sublist SYSTEM_PREAMBLE x"
  unfolding demo_compiler_def
  using required_text_survives [OF default_template_covers, of "\<lambda>_ _. []" 1 0 demo_bundle MySQL
      "[(0, demo_bundle, MySQL)]"] by (auto simp: required_texts_def)

section \<open>Transparency of the cache\<close>

definition without_latency :: "compiled_prompt \<Rightarrow> compiled_prompt" where
  "without_latency p = p \<lparr> cp_statistics := (cp_statistics p) \<lparr> pst_compilation_latency_ms := 0 \<rparr> \<rparr>"

text \<open>No other content that the run has seen has the hash of this bundle.\<close>

definition no_collision :: "content_hash \<Rightarrow> retrieved_knowledge_bundle set \<Rightarrow> retrieved_knowledge_bundle \<Rightarrow> bool" where
  "no_collision h B b \<longleftrightarrow> (\<forall>b'\<in>B. bundle_content_hash h b' = bundle_content_hash h b \<longrightarrow>
     rkb_linked_query_context b' = rkb_linked_query_context b
     \<and> rkb_retrieved_examples b' = rkb_retrieved_examples b)"

text \<open>The builders read only the linked question and the examples of a bundle, as the hash does.\<close>

lemma build_prompt_content:
  assumes "rkb_linked_query_context b = rkb_linked_query_context b'"
    "rkb_retrieved_examples b = rkb_retrieved_examples b'"
  shows "without_latency (build_prompt (default_compiler t m) b d l)
    = without_latency (build_prompt (default_compiler t m) b' d l')"
proof -
  have "build_business b d = build_business b' d" "build_schema b d = build_schema b' d"
    "build_relationships b d = build_relationships b' d" "build_examples b d = build_examples b' d"
    "build_system b d = build_system b' d" "build_constraints b d = build_constraints b' d"
    "build_output b d = build_output b' d"
    using assms by (simp_all add: builder_defs)
  then show ?thesis
    by (simp add: without_latency_def build_prompt_def built_sections_def build_statistics_def Let_def
        default_compiler_def)
qed

text \<open>
  If no other content of the run has the same hash, then after any sequence of calls on one
  compiler a call returns the prompt that compiling afresh would give, except for the latency
  recorded in its statistics; and the cache holds only prompts that pass validation.
\<close>
theorem cache_transparent:
  assumes "no_collision h (bundles_of calls) b"
  shows "without_latency (fst (compile_prompt h (default_compiler t m) l b d
        (compile_calls h (default_compiler t m) calls Map.empty)))
      = without_latency (build_prompt (default_compiler t m) b d l)
    \<and> (\<forall>k p. compile_calls h (default_compiler t m) calls Map.empty k = Some p \<longrightarrow>
         prompt_is_valid (validate_prompt m (all_sections p)))"
proof
  let ?pc = "default_compiler t m"
  let ?c = "compile_calls h ?pc calls Map.empty"
  have sound: "mem_cache.sound (compiled_for h ?pc (bundles_of calls)) ?c"
    by (rule compile_calls_sound [OF empty_cache_sound order_refl])
  from compile_result [OF this, of b l d] obtain b' l' where "b' \<in> insert b (bundles_of calls)"
    and p: "fst (compile_prompt h ?pc l b d ?c) = build_prompt ?pc b' d l'"
    and "bundle_content_hash h b' = bundle_content_hash h b" by blast
  then have "rkb_linked_query_context b' = rkb_linked_query_context b
      \<and> rkb_retrieved_examples b' = rkb_retrieved_examples b"
    using assms unfolding no_collision_def by blast
  then show "without_latency (fst (compile_prompt h ?pc l b d ?c)) = without_latency (build_prompt ?pc b d l)"
    unfolding p by (intro build_prompt_content) auto
  have "pc_max_tokens ?pc = m" by (simp add: default_compiler_def)
  then show "\<forall>k p. ?c k = Some p \<longrightarrow> prompt_is_valid (validate_prompt m (all_sections p))"
    using sound by (auto simp: mem_cache.sound_def cache_get_mem_def compiled_for_def prompt_valid_def)
qed

text \<open>The same question asked twice, the second time with other retrieval statistics.\<close>

definition demo_bundle_again :: retrieved_knowledge_bundle where
  "demo_bundle_again = demo_bundle \<lparr> rkb_statistics := (rkb_statistics demo_bundle)
     \<lparr> rst_retrieval_latency_ms := 7 \<rparr> \<rparr>"

theorem cache_transparent_witness:
  "without_latency (fst (compile_prompt (\<lambda>_ _. []) demo_compiler 5 demo_bundle_again PostgreSQL
     (compile_calls (\<lambda>_ _. []) demo_compiler [(3, demo_bundle, PostgreSQL)] Map.empty)))
   = without_latency (build_prompt demo_compiler demo_bundle_again PostgreSQL 5)"
proof -
  have "no_collision (\<lambda>_ _. []) (bundles_of [(3, demo_bundle, PostgreSQL)]) demo_bundle_again"
    by (simp add: no_collision_def bundles_of_def demo_bundle_again_def)
  then show ?thesis unfolding demo_compiler_def using cache_transparent by blast
qed

end
