(* ===== verification/Llm_Properties.thy ===== *)
theory Llm_Properties
  imports Llm_Adapter Prompt_Properties
begin

text \<open>
  What the adapter promises: the exact outcomes of the retry loop and its backoff, which provider
  answers are retried, and the metrics of a successful call.
\<close>

section \<open>The retry loop\<close>

text \<open>The world after \<open>k\<close> transient failures, each followed by its backoff; \<open>None\<close> if one call did not fail so.\<close>

fun after_failures :: "retry_policy \<Rightarrow> (real \<Rightarrow> 'w \<Rightarrow> 'w) \<Rightarrow> ('w, llm_error, 'a) op \<Rightarrow> nat \<Rightarrow> 'w \<Rightarrow> 'w option" where
  "after_failures p sleep oper 0 w = Some w"
| "after_failures p sleep oper (Suc k) w =
     (case after_failures p sleep oper k w of
        None \<Rightarrow> None
      | Some v \<Rightarrow> (case oper v of
            (Inl LLMTransientError, v') \<Rightarrow> Some (sleep (delay_for_attempt p (Suc k)) v')
          | _ \<Rightarrow> None))"

text \<open>The relational specification of a run of the policy.\<close>

inductive retry_spec :: "retry_policy \<Rightarrow> (real \<Rightarrow> 'w \<Rightarrow> 'w) \<Rightarrow> ('w, llm_error, 'a) op \<Rightarrow> 'w \<Rightarrow>
    (llm_error + 'a \<times> nat) \<Rightarrow> 'w \<Rightarrow> bool"
  for p sleep oper w where
  success: "k \<le> rp_max_retries p \<Longrightarrow> after_failures p sleep oper k w = Some v \<Longrightarrow>
     oper v = (Inr x, w') \<Longrightarrow> retry_spec p sleep oper w (Inr (x, k)) w'"
| permanent: "k \<le> rp_max_retries p \<Longrightarrow> after_failures p sleep oper k w = Some v \<Longrightarrow>
     oper v = (Inl e, w') \<Longrightarrow> e \<noteq> LLMTransientError \<Longrightarrow> retry_spec p sleep oper w (Inl e) w'"
| exhausted: "after_failures p sleep oper (rp_max_retries p) w = Some v \<Longrightarrow>
     oper v = (Inl LLMTransientError, w') \<Longrightarrow>
     retry_spec p sleep oper w (Inl (RetryExhaustedError (Suc (rp_max_retries p)) LLMTransientError)) w'"

lemma retry_loop_spec:
  assumes "after_failures p sleep oper k w = Some v" "k \<le> rp_max_retries p"
  shows "retry_spec p sleep oper w (fst (retry_loop p sleep oper k v)) (snd (retry_loop p sleep oper k v))"
  using assms
proof (induction p sleep oper k v rule: retry_loop.induct)
  case (1 p sleep oper k v)
  obtain r w' where o: "oper v = (r, w')" by (cases "oper v")
  show ?case
  proof (cases r)
    case (Inr x)
    then show ?thesis using 1 o by (subst (1 2) retry_loop.simps) (auto intro: retry_spec.success)
  next
    case (Inl e)
    show ?thesis
    proof (cases "e = LLMTransientError")
      case False
      then show ?thesis using 1 o Inl
        by (subst (1 2) retry_loop.simps) (auto intro: retry_spec.permanent)
    next
      case True
      show ?thesis
      proof (cases "rp_max_retries p \<le> k")
        case True
        then have "k = rp_max_retries p" using 1 by simp
        then show ?thesis using 1 o Inl \<open>e = LLMTransientError\<close>
          by (subst (1 2) retry_loop.simps) (auto intro: retry_spec.exhausted)
      next
        case False
        have "after_failures p sleep oper (k + 1) w = Some (sleep (delay_for_attempt p (k + 1)) w')"
          using 1 o Inl True by simp
        then show ?thesis
          using 1(1) [OF o [symmetric] Inl True False] 1 o Inl True False
          by (subst (1 2) retry_loop.simps) simp
      qed
    qed
  qed
qed

lemma after_failures_Suc_SomeD:
  "after_failures p sleep oper (Suc k) w = Some u \<Longrightarrow>
     \<exists>v v'. after_failures p sleep oper k w = Some v \<and> oper v = (Inl LLMTransientError, v')"
  by (auto split: option.splits prod.splits sum.splits llm_error.splits)

lemma after_failures_prefix:
  "after_failures p sleep oper j w = Some u \<Longrightarrow> k < j \<Longrightarrow>
     \<exists>v v'. after_failures p sleep oper k w = Some v \<and> oper v = (Inl LLMTransientError, v')"
proof (induction j arbitrary: u)
  case (Suc j)
  obtain v v' where v: "after_failures p sleep oper j w = Some v" "oper v = (Inl LLMTransientError, v')"
    using after_failures_Suc_SomeD [OF Suc.prems(1)] by blast
  show ?case
  proof (cases "k = j")
    case True
    with v show ?thesis by blast
  next
    case False
    with Suc v show ?thesis by simp
  qed
qed simp

text \<open>The first call that does not fail transiently decides, so the outcome is unique.\<close>

lemma first_decisive_unique:
  assumes "after_failures p sleep oper j w = Some u" "fst (oper u) \<noteq> Inl LLMTransientError"
    "after_failures p sleep oper k w = Some v" "fst (oper v) \<noteq> Inl LLMTransientError \<or> j \<le> k"
  shows "j = k \<and> u = v"
proof -
  have "\<not> j < k" using after_failures_prefix [OF assms(3), of j] assms(1,2) by auto
  moreover have "\<not> k < j" using after_failures_prefix [OF assms(1), of k] assms(3,4) by auto
  ultimately show ?thesis using assms(1,3) by (auto simp: not_less)
qed

lemma retry_spec_unique:
  assumes "retry_spec p sleep oper w r w'" "retry_spec p sleep oper w r' w''"
  shows "r = r' \<and> w' = w''"
proof -
  have decisive: "\<exists>k v. k \<le> rp_max_retries p \<and> after_failures p sleep oper k w = Some v \<and> snd (oper v) = w1
      \<and> (fst (oper v) \<noteq> Inl LLMTransientError \<or> k = rp_max_retries p)
      \<and> r1 = (case fst (oper v) of Inr x \<Rightarrow> Inr (x, k) | Inl e \<Rightarrow> Inl (if e = LLMTransientError
            then RetryExhaustedError (Suc (rp_max_retries p)) e else e))"
    if "retry_spec p sleep oper w r1 w1" for r1 w1
    using that by cases fastforce+
  obtain j u where j: "j \<le> rp_max_retries p" "after_failures p sleep oper j w = Some u" "snd (oper u) = w'"
    "fst (oper u) \<noteq> Inl LLMTransientError \<or> j = rp_max_retries p"
    "r = (case fst (oper u) of Inr x \<Rightarrow> Inr (x, j) | Inl e \<Rightarrow> Inl (if e = LLMTransientError
            then RetryExhaustedError (Suc (rp_max_retries p)) e else e))"
    using decisive [OF assms(1)] by blast
  obtain k v where k: "k \<le> rp_max_retries p" "after_failures p sleep oper k w = Some v" "snd (oper v) = w''"
    "fst (oper v) \<noteq> Inl LLMTransientError \<or> k = rp_max_retries p"
    "r' = (case fst (oper v) of Inr x \<Rightarrow> Inr (x, k) | Inl e \<Rightarrow> Inl (if e = LLMTransientError
            then RetryExhaustedError (Suc (rp_max_retries p)) e else e))"
    using decisive [OF assms(2)] by blast
  have "j = k \<and> u = v"
  proof (cases "j = k")
    case True
    with j(2) k(2) show ?thesis by simp
  next
    case False
    with j(1,4) k(1,4) show ?thesis
      using first_decisive_unique [OF j(2) _ k(2)] first_decisive_unique [OF k(2) _ j(2)] by auto
  qed
  then have "j = k" "u = v" by simp_all
  then show ?thesis using j(3,5) k(3,5) by (simp only:)
qed

lemma retry_execute_spec:
  "retry_spec p sleep oper w (fst (retry_execute p sleep oper w)) (snd (retry_execute p sleep oper w))"
  unfolding retry_execute_def by (rule retry_loop_spec) simp_all

lemma retry_execute_iff:
  "retry_execute p sleep oper w = (r, w') \<longleftrightarrow> retry_spec p sleep oper w r w'"
  using retry_execute_spec [of p sleep oper w] retry_spec_unique by (metis prod.collapse fst_conv snd_conv)

text \<open>
  C34. The retry loop always ends, with exactly one of three outcomes: the value of the first call
  that succeeds, with the number of transient failures before it, at most the configured retries;
  the first error that is not transient, unretried; or, after one call more than the configured
  retries has failed transiently, the exhaustion error with that count. Each failure but the last
  is followed by its backoff delay.
\<close>
theorem retry_outcomes:
  "retry_execute p sleep oper w = (r, w') \<longleftrightarrow>
     (\<exists>k v x. k \<le> rp_max_retries p \<and> after_failures p sleep oper k w = Some v \<and>
        oper v = (Inr x, w') \<and> r = Inr (x, k)) \<or>
     (\<exists>k v e. k \<le> rp_max_retries p \<and> after_failures p sleep oper k w = Some v \<and>
        oper v = (Inl e, w') \<and> e \<noteq> LLMTransientError \<and> r = Inl e) \<or>
     (\<exists>v. after_failures p sleep oper (rp_max_retries p) w = Some v \<and>
        oper v = (Inl LLMTransientError, w') \<and>
        r = Inl (RetryExhaustedError (rp_max_retries p + 1) LLMTransientError))"
  unfolding retry_execute_iff by (auto elim!: retry_spec.cases intro: retry_spec.intros)

section \<open>Backoff\<close>

text \<open>An operation observed together with a log of the delays slept.\<close>

definition observed :: "('w, llm_error, 'a) op \<Rightarrow> ('w \<times> real list, llm_error, 'a) op" where
  "observed oper = (\<lambda>(w, ds). case oper w of (r, w') \<Rightarrow> (r, (w', ds)))"

definition log_sleep :: "real \<Rightarrow> 'w \<times> real list \<Rightarrow> 'w \<times> real list" where
  "log_sleep d = (\<lambda>(w, ds). (w, ds @ [d]))"

lemma observed_apply [simp]: "observed oper (w, ds) = (fst (oper w), (snd (oper w), ds))"
  by (simp add: observed_def split: prod.splits)

lemma log_sleep_apply [simp]: "log_sleep d (w, ds) = (w, ds @ [d])"
  by (simp add: log_sleep_def)

lemma after_failures_log:
  "after_failures p log_sleep (observed oper) k (w, []) = Some (v, ds) \<Longrightarrow>
     ds = map (delay_for_attempt p) [Suc 0..<Suc k]"
proof (induction k arbitrary: v ds)
  case (Suc k)
  then obtain v' ds' where "after_failures p log_sleep (observed oper) k (w, []) = Some (v', ds')"
    by (cases "after_failures p log_sleep (observed oper) k (w, [])") auto
  with Suc show ?case by (auto split: sum.splits llm_error.splits)
qed simp

lemma retry_log:
  assumes "retry_spec p log_sleep (observed oper) (w, []) r (w', ds)"
  shows "\<exists>k \<le> rp_max_retries p. ds = map (delay_for_attempt p) [Suc 0..<Suc k]
    \<and> (\<forall>x n. r = Inr (x, n) \<longrightarrow> n = k)"
proof -
  have log: "ds = map (delay_for_attempt p) [Suc 0..<Suc k]"
    if "after_failures p log_sleep (observed oper) k (w, []) = Some v" "observed oper v = (r', (w', ds))" for k v r'
    using that after_failures_log [of p oper k w "fst v" "snd v"] by (cases v) auto
  from assms show ?thesis
  proof cases
    case (success k v x)
    then show ?thesis using log [OF success(3,4)] by blast
  next
    case (permanent k v e)
    then show ?thesis using log [OF permanent(3,4)] by blast
  next
    case (exhausted v)
    then show ?thesis using log [OF exhausted(2,3)] by blast
  qed
qed

lemma delay_bounds:
  assumes "0 \<le> rp_base_delay_seconds p" "0 \<le> rp_max_delay_seconds p"
  shows "0 \<le> delay_for_attempt p k \<and> delay_for_attempt p k \<le> rp_max_delay_seconds p"
  using assms by (auto simp: delay_for_attempt_def)

lemma delay_mono:
  assumes "0 \<le> rp_base_delay_seconds p" "j \<le> k"
  shows "delay_for_attempt p j \<le> delay_for_attempt p k"
proof -
  have "rp_base_delay_seconds p * 2 ^ (j - 1) \<le> rp_base_delay_seconds p * 2 ^ (k - 1)"
    using assms by (intro mult_left_mono power_increasing) auto
  then show ?thesis by (auto simp: delay_for_attempt_def)
qed

lemma sum_list_le_bound: "\<forall>x\<in>set xs. x \<le> (b::real) \<Longrightarrow> sum_list xs \<le> real (length xs) * b"
  by (induction xs) (auto simp: algebra_simps)

text \<open>
  The delays slept in a call are the delays of the retries 1, 2, and so on, never decreasing
  and each at most the maximum, so that a call sleeps at most the number of retries times the
  maximum delay; a successful call has slept as often as its retry count says.
\<close>
theorem backoff_bounded:
  assumes "0 \<le> rp_base_delay_seconds p" "0 \<le> rp_max_delay_seconds p"
    and "retry_execute p log_sleep (observed oper) (w, []) = (r, (w', ds))"
  shows "\<exists>k \<le> rp_max_retries p. ds = map (delay_for_attempt p) [1..<Suc k]
    \<and> sorted ds \<and> sum_list ds \<le> real (rp_max_retries p) * rp_max_delay_seconds p
    \<and> (\<forall>x n. r = Inr (x, n) \<longrightarrow> n = k)"
proof -
  have spec: "retry_spec p log_sleep (observed oper) (w, []) r (w', ds)"
    using assms(3) by (simp only: retry_execute_iff)
  obtain k where k: "k \<le> rp_max_retries p" "ds = map (delay_for_attempt p) [Suc 0..<Suc k]"
    "\<forall>x n. r = Inr (x, n) \<longrightarrow> n = k" using retry_log [OF spec] by blast
  have "length ds = k" by (simp add: k(2) del: upt_Suc)
  have "sorted ds" unfolding k(2) sorted_map
    by (rule sorted_wrt_mono_rel [OF _ sorted_upt]) (rule delay_mono [OF assms(1)])
  have "\<forall>d\<in>set ds. d \<le> rp_max_delay_seconds p"
    unfolding k(2) using delay_bounds [OF assms(1,2)] by (simp del: upt_Suc)
  then have "sum_list ds \<le> real k * rp_max_delay_seconds p"
    using sum_list_le_bound \<open>length ds = k\<close> by blast
  also have "\<dots> \<le> real (rp_max_retries p) * rp_max_delay_seconds p"
    using k(1) assms(2) by (intro mult_right_mono) auto
  finally show ?thesis using k \<open>sorted ds\<close> by (intro exI [of _ k]) (simp del: upt_Suc)
qed

definition default_policy :: retry_policy where
  "default_policy = \<lparr> rp_max_retries = 3, rp_base_delay_seconds = 1 / 2, rp_max_delay_seconds = 30 \<rparr>"

text \<open>A provider that fails transiently as often as its world counts, then answers.\<close>

definition flaky :: "(nat, llm_error, string) op" where
  "flaky n = (if n = 0 then (Inr ''ok'', 0) else (Inl LLMTransientError, n - 1))"

theorem backoff_bounded_witness:
  "retry_execute default_policy log_sleep (observed flaky) (2, []) = (Inr (''ok'', 2), (0, [1/2, 1])) \<and>
   sum_list [1/2, 1::real] \<le> 90"
proof -
  have run: "retry_execute default_policy log_sleep (observed flaky) (2, []) = (Inr (''ok'', 2), (0, [1/2, 1]))"
    by (simp add: retry_execute_def retry_loop.simps default_policy_def flaky_def observed_def
        log_sleep_def delay_for_attempt_def)
  with backoff_bounded [OF _ _ this] show ?thesis by (simp add: default_policy_def)
qed

section \<open>Providers\<close>

text \<open>The errors that say how a call failed; reading an answer raises others.\<close>

definition call_error :: "llm_error \<Rightarrow> bool" where
  "call_error e \<longleftrightarrow> e = LLMTransientError \<or> e = LLMPermanentError \<or> (\<exists>x. e = UncaughtHttpx x)"

definition reading :: "llm_error + 'a \<Rightarrow> bool" where
  "reading r \<longleftrightarrow> (\<forall>e. r = Inl e \<longrightarrow> \<not> call_error e)"

text \<open>
  The interface of a provider client as the adapter uses it: a network failure passes as it is;
  an answer with an error status is transient or permanent by its status alone, provided its body
  is a JSON object; any other answer is never reported as a failure of the call, and a response
  carries the provider's name and no retries.
\<close>

locale provider_client =
  fixes answer :: "int \<Rightarrow> json \<Rightarrow> real \<Rightarrow> llm_error + llm_response"
    and provider :: llm_provider
  assumes error_status: "400 \<le> status \<Longrightarrow> is_mapping body \<Longrightarrow>
      answer status body l = Inl (if status \<in> RETRYABLE_STATUS_CODES then LLMTransientError else LLMPermanentError)"
    and not_mapping: "400 \<le> status \<Longrightarrow> \<not> is_mapping body \<Longrightarrow> answer status body l = Inl (PythonError AttributeError)"
    and read_answer: "status < 400 \<Longrightarrow> reading (answer status body l)"
    and response_metrics: "answer status body l = Inr r \<Longrightarrow>
      gm_provider (rs_metrics r) = provider \<and> gm_retry_count (rs_metrics r) = 0 \<and> gm_latency_ms (rs_metrics r) = l"
begin

lemma transient_iff:
  "answer status body l = Inl LLMTransientError \<longleftrightarrow> status \<in> RETRYABLE_STATUS_CODES \<and> is_mapping body"
proof -
  have "status \<in> RETRYABLE_STATUS_CODES \<Longrightarrow> 400 \<le> status" by (auto simp: RETRYABLE_STATUS_CODES_def)
  then show ?thesis
    using error_status not_mapping read_answer [of status body l]
    by (cases "400 \<le> status"; cases "is_mapping body") (auto simp: reading_def call_error_def)
qed

lemma response_status: "answer status body l = Inr r \<Longrightarrow> status < 400"
  using error_status [of status body l] not_mapping [of status body l]
  by (cases "is_mapping body") (auto simp: not_le [symmetric])

end

named_theorems reading_intros \<open>operations that read an answer\<close>

lemma reading_malformed [reading_intros]: "reading (malformed_unless c r)"
  by (auto simp: reading_def call_error_def malformed_unless_def split: sum.splits)

lemma reading_parts [reading_intros]:
  "reading (make_token_usage f i j)" "reading (finish_reason_of t x)" "reading (make_response pr a b l u fr)"
  by (auto simp: reading_def call_error_def make_token_usage_def finish_reason_of_def make_response_def
      split: option.splits json.splits)

lemma reading_bind [reading_intros]: "reading m \<Longrightarrow> (\<And>x. reading (f x)) \<Longrightarrow> reading (rbind m f)"
  by (cases m) (auto simp: reading_def)

lemma make_response_metrics:
  "make_response pr a b l u fr = Inr r \<Longrightarrow>
     gm_provider (rs_metrics r) = pr \<and> gm_retry_count (rs_metrics r) = 0 \<and> gm_latency_ms (rs_metrics r) = l"
  by (auto simp: make_response_def split: json.splits if_splits)

lemma claude_parse_laws:
  "reading (claude_parse f j l)"
  "claude_parse f j l = Inr r \<Longrightarrow>
     gm_provider (rs_metrics r) = CLAUDE \<and> gm_retry_count (rs_metrics r) = 0 \<and> gm_latency_ms (rs_metrics r) = l"
proof -
  show "reading (claude_parse f j l)"
    unfolding claude_parse_def case_prod_beta by (intro reading_intros)
  show "claude_parse f j l = Inr r \<Longrightarrow>
     gm_provider (rs_metrics r) = CLAUDE \<and> gm_retry_count (rs_metrics r) = 0 \<and> gm_latency_ms (rs_metrics r) = l"
    unfolding claude_parse_def case_prod_beta rbind_Inr_iff using make_response_metrics by blast
qed

lemma groq_parse_laws:
  "reading (groq_parse f j l)"
  "groq_parse f j l = Inr r \<Longrightarrow>
     gm_provider (rs_metrics r) = GROQ \<and> gm_retry_count (rs_metrics r) = 0 \<and> gm_latency_ms (rs_metrics r) = l"
proof -
  show "reading (groq_parse f j l)"
    unfolding groq_parse_def case_prod_beta by (intro reading_intros)
  show "groq_parse f j l = Inr r \<Longrightarrow>
     gm_provider (rs_metrics r) = GROQ \<and> gm_retry_count (rs_metrics r) = 0 \<and> gm_latency_ms (rs_metrics r) = l"
    unfolding groq_parse_def case_prod_beta rbind_Inr_iff using make_response_metrics by blast
qed

lemma classify_error:
  assumes "400 \<le> status"
  shows "classify_response parse status body l = (if is_mapping body
    then Inl (if status \<in> RETRYABLE_STATUS_CODES then LLMTransientError else LLMPermanentError)
    else Inl (PythonError AttributeError))"
  using assms by (cases body) (auto simp: classify_response_def error_message_def malformed_unless_def is_mapping_def)

lemma classify_success: "status < 400 \<Longrightarrow> classify_response parse status body l = parse body l"
  by (simp add: classify_response_def)

lemma classify_Inr: "classify_response parse status body l = Inr r \<Longrightarrow> parse body l = Inr r"
  using classify_error [of status parse body l] by (cases "400 \<le> status") (auto simp: classify_success split: if_splits)

interpretation claude: provider_client "classify_response (claude_parse f)" CLAUDE for f
  by unfold_locales (auto simp: classify_error classify_success claude_parse_laws(1)
      dest!: classify_Inr dest: claude_parse_laws(2))

interpretation groq: provider_client "classify_response (groq_parse f)" GROQ for f
  by unfold_locales (auto simp: classify_error classify_success groq_parse_laws(1)
      dest!: classify_Inr dest: groq_parse_laws(2))

text \<open>The call that a provider makes with the HTTP library.\<close>

definition provider_post :: "'w httpx_post \<Rightarrow> llm_provider_config \<Rightarrow> llm_request \<Rightarrow> 'w \<Rightarrow> httpx_outcome \<times> 'w" where
  "provider_post post c request =
     post (strip_slashes (resolved_base_url c)
             @ (case pf_provider c of CLAUDE \<Rightarrow> ''/v1/messages'' | GROQ \<Rightarrow> ''/chat/completions''))
          (case pf_provider c of
             CLAUDE \<Rightarrow> [(''x-api-key'', pf_api_key c), (''anthropic-version'', ''2023-06-01''),
                         (''content-type'', ''application/json'')]
           | GROQ \<Rightarrow> [(''authorization'', ''Bearer '' @ pf_api_key c),
                       (''content-type'', ''application/json'')])
          (case pf_provider c of CLAUDE \<Rightarrow> claude_body request | GROQ \<Rightarrow> groq_body request)
          (pf_timeout c)"

text \<open>A provider over the transport of the HTTP library.\<close>

abbreviation http_provider ::
  "pydantic_int \<Rightarrow> ('w \<Rightarrow> real) \<Rightarrow> 'w httpx_post \<Rightarrow> llm_provider_config \<Rightarrow> llm_request \<Rightarrow> ('w, llm_error, llm_response) op" where
  "http_provider f clk post c \<equiv> build_llm_provider f clk (post_json post) c"

text \<open>A failure that is worth another attempt.\<close>

fun transient_outcome :: "httpx_outcome \<Rightarrow> bool" where
  "transient_outcome TimeoutException = True"
| "transient_outcome HTTPError = True"
| "transient_outcome (HttpxException x) = False"
| "transient_outcome (HttpResponse status None) = True"
| "transient_outcome (HttpResponse status (Some body)) = (status \<in> {408, 409, 429, 500, 502, 503, 504} \<and> is_mapping body)"

lemma provider_outcome:
  fixes post :: "'w httpx_post"
  assumes "provider_post post c request w = (out, w')"
  obtains r where "build_llm_provider f clk (post_json post) c request w = (r, w')"
    and "r = Inl LLMTransientError \<longleftrightarrow> transient_outcome out"
    and "case out of
        HttpxException x \<Rightarrow> r = Inl (UncaughtHttpx x)
      | HttpResponse status (Some body) \<Rightarrow>
          if status < 400 then reading r
          else if \<not> is_mapping body then r = Inl (PythonError AttributeError)
          else r = Inl (if status \<in> {408, 409, 429, 500, 502, 503, 504} then LLMTransientError else LLMPermanentError)
      | _ \<Rightarrow> True"
proof
  let ?r = "fst (build_llm_provider f clk (post_json post) c request w)"
  show "build_llm_provider f clk (post_json post) c request w = (?r, w')"
    using assms by (cases "pf_provider c")
      (auto simp: provider_post_def build_llm_provider_def claude_generate_def groq_generate_def post_json_def
        split: prod.splits httpx_outcome.splits option.splits)
  show "?r = Inl LLMTransientError \<longleftrightarrow> transient_outcome out"
    using assms by (cases "pf_provider c")
      (auto simp: provider_post_def build_llm_provider_def claude_generate_def groq_generate_def post_json_def
        claude.transient_iff groq.transient_iff RETRYABLE_STATUS_CODES_def split: prod.splits httpx_outcome.splits option.splits)
  show "case out of
        HttpxException x \<Rightarrow> ?r = Inl (UncaughtHttpx x)
      | HttpResponse status (Some body) \<Rightarrow>
          if status < 400 then reading ?r
          else if \<not> is_mapping body then ?r = Inl (PythonError AttributeError)
          else ?r = Inl (if status \<in> {408, 409, 429, 500, 502, 503, 504} then LLMTransientError else LLMPermanentError)
      | _ \<Rightarrow> True"
    using assms by (cases "pf_provider c")
      (auto simp: provider_post_def build_llm_provider_def claude_generate_def groq_generate_def post_json_def
        classify_error classify_success claude_parse_laws(1) groq_parse_laws(1) RETRYABLE_STATUS_CODES_def
        split: httpx_outcome.splits option.splits)
qed

text \<open>
  C37. Under the retry policy, a call of either provider is made again exactly when it timed out or
  failed with an \<open>HTTPError\<close>, the answer was not JSON, or its status is one of 408, 409, 429, 500,
  502, 503, 504 and its body a JSON object; with no retries allowed these failures exhaust them.
  Every other outcome ends the attempts at once: an exception of the HTTP library that is no
  \<open>HTTPError\<close> leaves unchanged, another status of at least 400 with an object as body is a permanent
  error, an error status whose body is no object raises \<open>AttributeError\<close> (whatever the status), and
  any other answer is read, which never counts as a failure of the call.
\<close>
theorem retried_exactly:
  fixes post :: "'w httpx_post"
  shows "case provider_post post c request w of (out, w1) \<Rightarrow>
    retry_execute p sleep (http_provider f clk post c request) w =
      (if transient_outcome out
       then if rp_max_retries p = 0 then (Inl (RetryExhaustedError 1 LLMTransientError), w1)
            else retry_loop p sleep (http_provider f clk post c request) 1 (sleep (delay_for_attempt p 1) w1)
       else (map_sum id (\<lambda>response. (response, 0)) (fst (http_provider f clk post c request w)), w1)) \<and>
    (case out of
       HttpxException x \<Rightarrow> fst (http_provider f clk post c request w) = Inl (UncaughtHttpx x)
     | HttpResponse status (Some body) \<Rightarrow>
         if status < 400 then reading (fst (http_provider f clk post c request w))
         else if \<not> is_mapping body then fst (http_provider f clk post c request w) = Inl (PythonError AttributeError)
         else fst (http_provider f clk post c request w) =
           Inl (if status \<in> {408, 409, 429, 500, 502, 503, 504} then LLMTransientError else LLMPermanentError)
     | _ \<Rightarrow> fst (http_provider f clk post c request w) = Inl LLMTransientError)"
proof -
  obtain out w1 where out: "provider_post post c request w = (out, w1)" by fastforce
  obtain r where r: "build_llm_provider f clk (post_json post) c request w = (r, w1)"
    and transient: "r = Inl LLMTransientError \<longleftrightarrow> transient_outcome out"
    and outcome: "case out of
        HttpxException x \<Rightarrow> r = Inl (UncaughtHttpx x)
      | HttpResponse status (Some body) \<Rightarrow>
          if status < 400 then reading r
          else if \<not> is_mapping body then r = Inl (PythonError AttributeError)
          else r = Inl (if status \<in> {408, 409, 429, 500, 502, 503, 504} then LLMTransientError else LLMPermanentError)
      | _ \<Rightarrow> True"
    by (rule provider_outcome [OF out])
  have "retry_execute p sleep (http_provider f clk post c request) w =
      (if transient_outcome out
       then if rp_max_retries p = 0 then (Inl (RetryExhaustedError 1 LLMTransientError), w1)
            else retry_loop p sleep (http_provider f clk post c request) 1 (sleep (delay_for_attempt p 1) w1)
       else (map_sum id (\<lambda>response. (response, 0)) r, w1))"
    unfolding retry_execute_def using r transient
    by (subst retry_loop.simps) (cases r; auto)
  then show ?thesis using outcome transient
    by (auto simp: out r split: httpx_outcome.splits option.splits)
qed

text \<open>
  A response whose shape the Claude parser does not expect is not always reported as a parsing
  error: when its content is a list that holds a string, the parser raises \<open>AttributeError\<close>,
  whatever the rest of the response is.
\<close>
theorem malformed_content_escapes:
  "claude_parse f (JObj ((''content'', JArr (JStr s # blocks)) # rest)) l = Inl (PythonError AttributeError)"
  by (simp add: claude_parse_def joined_text_def malformed_unless_def)

section \<open>The adapter\<close>

lemma stamp_retries_count [simp]: "gm_retry_count (rs_metrics (stamp_retries n r)) = n"
  "rs_content (stamp_retries n r) = rs_content r"
  by (simp_all add: stamp_retries_def)

text \<open>
  A successful call of the adapter returns the provider's text, stamps the number of retries
  that were needed on its metrics and records exactly these metrics once; a failed call records
  nothing, and its error is a validation or rendering error of the prompt, the provider's own
  error, or the exhaustion of the retries.
\<close>
theorem generate_metrics:
  "(case llm_generate c p sleep provider prompt w of
      (Inr r, w') \<Rightarrow> aw_records w' = aw_records w @ [rs_metrics r] \<and>
        gm_retry_count (rs_metrics r) \<le> rp_max_retries p \<and>
        (\<exists>text request v r0. as_text prompt = Inr text \<and> make_request c text = Inr request \<and>
           after_failures p sleep (provider request) (gm_retry_count (rs_metrics r)) (aw_world w) = Some v \<and>
           provider request v = (Inr r0, aw_world w') \<and> rs_content r = rs_content r0)
    | (Inl e, w') \<Rightarrow> aw_records w' = aw_records w \<and>
        (e = ValidationError \<or> (\<exists>x. e = PromptError x) \<or>
         (\<exists>request v. fst (provider request v) = Inl e) \<or>
         e = RetryExhaustedError (rp_max_retries p + 1) LLMTransientError))"
proof (cases "as_text prompt")
  case (Inl x)
  then show ?thesis by (simp add: llm_generate_def)
next
  case rendered: (Inr t)
  show ?thesis
  proof (cases "make_request c t")
    case (Inl e)
    then have "e = ValidationError" by (auto simp: make_request_def split: if_splits)
    with rendered Inl show ?thesis by (simp add: llm_generate_def)
  next
    case (Inr request)
    let ?run = "retry_execute p sleep (provider request) (aw_world w)"
    have spec: "retry_spec p sleep (provider request) (aw_world w) (fst ?run) (snd ?run)"
      by (rule retry_execute_spec)
    show ?thesis
    proof (cases "fst ?run")
      case err: (Inl e)
      from spec have "(\<exists>v. fst (provider request v) = Inl e) \<or>
          e = RetryExhaustedError (rp_max_retries p + 1) LLMTransientError"
        unfolding err by cases (metis fst_conv, simp)
      with rendered Inr err show ?thesis
        by (cases ?run) (auto simp: llm_generate_def)
    next
      case ok: (Inr res)
      obtain r0 k where res: "res = (r0, k)" by (cases res)
      from spec ok res have "k \<le> rp_max_retries p"
        "\<exists>v. after_failures p sleep (provider request) k (aw_world w) = Some v \<and>
           provider request v = (Inr r0, snd ?run)"
        by (auto elim: retry_spec.cases)
      with rendered Inr ok res show ?thesis
        by (cases ?run) (auto simp: llm_generate_def Let_def record_metrics_def)
    qed
  qed
qed

end
