(* ===== verification/Sql_Generation.thy ===== *)
theory Sql_Generation
  imports Llm_Adapter
begin

text \<open>
  SQL generation (\<open>sql_generation/\<close>): extraction of the statement from the model's answer,
  normalisation, detection of the statement type, statistics and the engine that composes them
  after a call of the adapter.
\<close>

section \<open>Models (models.py, exceptions.py)\<close>

datatype extraction_method = FENCED_SQL_BLOCK | FENCED_GENERIC_BLOCK | RAW_TEXT

datatype sql_statement_type = ST_Select | ST_With | ST_Insert | ST_Update | ST_Delete | ST_Unknown

record sql_generation_statistics =
  gs_extraction_method :: extraction_method
  gs_raw_sql_length :: nat
  gs_normalized_sql_length :: nat
  gs_normalization_changed_sql :: bool
  gs_generation_latency_ms :: real

record generated_sql =
  g_sql :: string
  g_statement_type :: sql_statement_type
  g_raw_llm_content :: string
  g_dialect :: sql_dialect
  g_llm_metrics :: generation_metrics
  g_statistics :: sql_generation_statistics

datatype sql_generation_error = SQLExtractionError | GenerationLLMError llm_error

section \<open>Extraction (extractor.py)\<close>

definition fence :: string where
  "fence = ''```''"

text \<open>The text before and after the first occurrence of a pattern.\<close>

fun split_at_first :: "string \<Rightarrow> string \<Rightarrow> (string \<times> string) option" where
  "split_at_first p [] = (if p = [] then Some ([], []) else None)"
| "split_at_first p (c # s) =
     (if startswith (c # s) p then Some ([], drop (length p) (c # s))
      else map_option (\<lambda>(a, b). (c # a, b)) (split_at_first p s))"

text \<open>
  The leftmost match of a fence pattern, and its group: \<open>body\<close> matches what follows the opening
  fence, up to the first closing one. The greedy classes before the group never need to give
  characters back, because no character of a fence is a word character or white space.
\<close>

fun search_fence :: "(string \<Rightarrow> string option) \<Rightarrow> string \<Rightarrow> string option" where
  "search_fence body [] = None"
| "search_fence body (c # s) =
     (case (if startswith (c # s) fence then body (drop 3 (c # s)) else None) of
        Some g \<Rightarrow> Some g
      | None \<Rightarrow> search_fence body s)"

definition sql_fence_body :: "string \<Rightarrow> string option" where
  "sql_fence_body r =
     (if lower (take 3 r) = ''sql'' then map_option fst (split_at_first fence (lstrip (drop 3 r))) else None)"

definition generic_fence_body :: "string \<Rightarrow> string option" where
  "generic_fence_body r = map_option fst (split_at_first fence (lstrip (dropWhile is_word r)))"

record extraction_result =
  er_sql :: string
  er_method :: extraction_method

definition extraction_of :: "string \<Rightarrow> extraction_method \<Rightarrow> sql_generation_error + extraction_result" where
  "extraction_of candidate method =
     (let sql = strip candidate
      in if sql = [] then Inl SQLExtractionError else Inr \<lparr> er_sql = sql, er_method = method \<rparr>)"

definition extract_sql :: "string \<Rightarrow> sql_generation_error + extraction_result" where
  "extract_sql raw_content =
     (case search_fence sql_fence_body raw_content of
        Some g \<Rightarrow> extraction_of g FENCED_SQL_BLOCK
      | None \<Rightarrow>
          (case search_fence generic_fence_body raw_content of
             Some g \<Rightarrow> extraction_of g FENCED_GENERIC_BLOCK
           | None \<Rightarrow> extraction_of raw_content RAW_TEXT))"

section \<open>Normalisation (normalizer.py)\<close>

definition CR :: char where "CR = CHR 0x0D"
definition LF :: char where "LF = CHR 0x0A"

text \<open>\<open>s.replace(CRLF, LF)\<close>, left to right.\<close>

fun replace_crlf :: "string \<Rightarrow> string" where
  "replace_crlf (c # d # s) =
     (if c = CR \<and> d = LF then LF # replace_crlf s else c # replace_crlf (d # s))"
| "replace_crlf s = s"

definition replace_cr :: "string \<Rightarrow> string" where
  "replace_cr s = map (\<lambda>c. if c = CR then LF else c) s"

definition is_terminator :: "char \<Rightarrow> bool" where
  "is_terminator c = (c = CHR '';'' \<or> is_space c)"

text \<open>The substitution of the pattern for trailing semicolons and white space, on stripped text.\<close>

definition drop_terminators :: "string \<Rightarrow> string" where
  "drop_terminators s = rev (dropWhile is_terminator (rev s))"

definition normalize :: "string \<Rightarrow> string" where
  "normalize sql = drop_terminators (strip (replace_cr (replace_crlf sql))) @ '';''"

section \<open>Statement type (parser.py)\<close>

definition LEADING_KEYWORDS :: "(string \<times> sql_statement_type) list" where
  "LEADING_KEYWORDS = [(''WITH'', ST_With), (''SELECT'', ST_Select), (''INSERT'', ST_Insert),
     (''UPDATE'', ST_Update), (''DELETE'', ST_Delete)]"

definition is_word_boundary :: "string \<Rightarrow> nat \<Rightarrow> bool" where
  "is_word_boundary text index = (length text \<le> index \<or> \<not> (is_alnum (text ! index) \<or> text ! index = CHR ''_''))"

definition detect :: "string \<Rightarrow> sql_statement_type" where
  "detect sql =
     (let up = upper (strip sql)
      in case next_where (\<lambda>(k, t). startswith up k \<and> is_word_boundary up (length k)) LEADING_KEYWORDS of
           Some (k, t) \<Rightarrow> t | None \<Rightarrow> ST_Unknown)"

section \<open>The engine (statistics.py, engine.py)\<close>

definition generation_statistics :: "extraction_method \<Rightarrow> string \<Rightarrow> string \<Rightarrow> real \<Rightarrow> sql_generation_statistics" where
  "generation_statistics method raw_sql normalized_sql latency_ms = \<lparr>
     gs_extraction_method = method, gs_raw_sql_length = length raw_sql,
     gs_normalized_sql_length = length normalized_sql,
     gs_normalization_changed_sql = (raw_sql \<noteq> normalized_sql),
     gs_generation_latency_ms = latency_ms \<rparr>"

text \<open>What the engine and the repair extractor do with the text of an answer.\<close>

definition sql_of_response ::
  "sql_dialect \<Rightarrow> llm_response \<Rightarrow> real \<Rightarrow> sql_generation_error + generated_sql" where
  "sql_of_response dialect response latency_ms =
     rbind (extract_sql (rs_content response)) (\<lambda>extraction.
       let normalized_sql = normalize (er_sql extraction)
       in Inr \<lparr> g_sql = normalized_sql, g_statement_type = detect normalized_sql,
            g_raw_llm_content = rs_content response, g_dialect = dialect,
            g_llm_metrics = rs_metrics response,
            g_statistics = generation_statistics (er_method extraction) (er_sql extraction)
              normalized_sql latency_ms \<rparr>)"

text \<open>The adapter is an operation on a world with a clock in seconds.\<close>

type_synonym 'w llm_call = "compiled_prompt \<Rightarrow> ('w, llm_error, llm_response) op"

definition generate_sql ::
  "('w \<Rightarrow> real) \<Rightarrow> 'w llm_call \<Rightarrow> compiled_prompt \<Rightarrow> ('w, sql_generation_error, generated_sql) op" where
  "generate_sql perf_counter adapter prompt w =
     (case adapter prompt w of
        (Inl e, w') \<Rightarrow> (Inl (GenerationLLMError e), w')
      | (Inr response, w') \<Rightarrow>
          (sql_of_response (cp_dialect prompt) response ((perf_counter w' - perf_counter w) * 1000), w'))"

section \<open>Laws of the text functions\<close>

lemma drop_terminators_rev: "drop_terminators (s @ [c]) = (if is_terminator c then drop_terminators s else s @ [c])"
  by (simp add: drop_terminators_def)

lemma drop_terminators_idem [simp]: "drop_terminators (drop_terminators s) = drop_terminators s"
  by (simp add: drop_terminators_def)

lemma drop_terminators_prefix: "prefix (drop_terminators s) s"
  by (metis drop_terminators_def rev_rev_ident suffix_dropWhile suffix_to_prefix)

lemma drop_terminators_last:
  "drop_terminators s \<noteq> [] \<Longrightarrow> \<not> is_terminator (last (drop_terminators s))"
proof -
  assume "drop_terminators s \<noteq> []"
  then have ne: "dropWhile is_terminator (rev s) \<noteq> []" by (simp add: drop_terminators_def)
  then have "\<not> is_terminator (hd (dropWhile is_terminator (rev s)))" by (rule hd_dropWhile)
  then show ?thesis using ne by (simp add: drop_terminators_def last_rev)
qed

lemma rstrip_drop_terminators: "rstrip (drop_terminators s) = drop_terminators s"
proof (cases "drop_terminators s = []")
  case False
  then obtain t c where "drop_terminators s = t @ [c]" by (metis rev_exhaust)
  moreover from this have "\<not> is_space c"
    using drop_terminators_last [OF False] by (simp add: is_terminator_def)
  ultimately show ?thesis by (simp add: rstrip_append_nonspace)
qed (simp add: rstrip_def)

lemma replace_cr_no_cr: "CR \<notin> set (replace_cr s)"
  by (auto simp: replace_cr_def CR_def LF_def)

lemma replace_crlf_no_cr: "CR \<notin> set s \<Longrightarrow> replace_crlf s = s"
  by (induction s rule: replace_crlf.induct) auto

lemma replace_cr_id: "CR \<notin> set s \<Longrightarrow> replace_cr s = s"
  by (auto simp: replace_cr_def intro: map_idI)

lemma set_strip: "set (strip s) \<subseteq> set s"
  by (auto simp: strip_def rstrip_def lstrip_def dest!: set_dropWhileD)

lemma no_cr_normalize: "CR \<notin> set (normalize s)"
proof -
  have "CR \<notin> set (strip (replace_cr (replace_crlf s)))"
    using replace_cr_no_cr set_strip by blast
  then have "CR \<notin> set (drop_terminators (strip (replace_cr (replace_crlf s))))"
    using drop_terminators_prefix set_mono_prefix by blast
  then show ?thesis by (simp add: normalize_def CR_def)
qed

lemma lstrip_prefix_fixed: "lstrip s = s \<Longrightarrow> prefix t s \<Longrightarrow> lstrip t = t"
proof (cases t)
  case (Cons c u)
  assume "lstrip s = s" "prefix t s"
  with Cons obtain v where "s = c # v" by (auto simp: prefix_def)
  with \<open>lstrip s = s\<close> have "\<not> is_space c"
    by (metis hd_dropWhile list.distinct(1) list.sel(1) lstrip_def)
  with Cons show ?thesis by (simp add: lstrip_def)
qed (simp add: lstrip_def)

lemma normalize_strip: "strip (normalize s) = normalize s"
proof -
  let ?t = "drop_terminators (strip (replace_cr (replace_crlf s)))"
  have "lstrip (strip (replace_cr (replace_crlf s))) = strip (replace_cr (replace_crlf s))"
    by (simp add: strip_def lstrip_rstrip_fixed)
  then have "lstrip ?t = ?t" using drop_terminators_prefix by (rule lstrip_prefix_fixed)
  then have "?t = [] \<or> \<not> is_space (hd ?t)"
    by (metis hd_dropWhile lstrip_def)
  then have "lstrip (?t @ '';'') = ?t @ '';''"
    by (cases ?t) (auto simp: lstrip_def, simp add: is_space_def)
  moreover have "rstrip (?t @ '';'') = ?t @ '';''"
    by (intro rstrip_append_nonspace) (simp add: is_space_def)
  ultimately show ?thesis by (simp add: strip_def normalize_def)
qed

text \<open>
  Normalised SQL is in normal form: it has no carriage return and no surrounding white space,
  ends in exactly one semicolon, is never empty, and normalising it again changes nothing.
\<close>
theorem normalize_canonical:
  "CR \<notin> set (normalize s) \<and> strip (normalize s) = normalize s \<and>
   (\<exists>t. normalize s = t @ '';'' \<and> drop_terminators t = t) \<and>
   normalize (normalize s) = normalize s"
proof (intro conjI)
  show "\<exists>t. normalize s = t @ '';'' \<and> drop_terminators t = t"
    by (auto simp: normalize_def)
  have "normalize (normalize s) = drop_terminators (normalize s) @ '';''"
    unfolding normalize_def [of "normalize s"]
    using no_cr_normalize [of s] by (simp add: replace_crlf_no_cr replace_cr_id normalize_strip)
  also have "drop_terminators (normalize s) = drop_terminators (strip (replace_cr (replace_crlf s)))"
    by (simp add: normalize_def drop_terminators_rev is_terminator_def)
  finally show "normalize (normalize s) = normalize s" by (simp add: normalize_def)
qed (rule no_cr_normalize normalize_strip)+

section \<open>Laws of the extraction\<close>

abbreviation tick :: char where "tick \<equiv> CHR 0x60"

lemma fence_ticks: "fence = [tick, tick, tick]"
  by (simp add: fence_def)

lemma startswith_fence_Cons: "c \<noteq> tick \<Longrightarrow> \<not> startswith (c # s) fence"
  by (simp add: startswith_def fence_ticks)

text \<open>Text without back ticks before a fence is skipped.\<close>

lemma search_fence_skip:
  "tick \<notin> set pre \<Longrightarrow> search_fence body (pre @ s) = search_fence body s"
  by (induction pre) (auto simp: startswith_fence_Cons)

lemma split_at_fence:
  "tick \<notin> set a \<Longrightarrow> split_at_first fence (a @ fence @ s) = Some (a, s)"
proof (induction a)
  case Nil
  show ?case by (simp add: fence_ticks startswith_def)
next
  case (Cons c a)
  then have "\<not> startswith (c # a @ fence @ s) fence" by (intro startswith_fence_Cons) auto
  with Cons show ?case by simp
qed

lemma search_no_tick: "tick \<notin> set s \<Longrightarrow> search_fence body s = None"
  by (induction s) (auto simp: startswith_fence_Cons)

lemma extract_plain: "tick \<notin> set s \<Longrightarrow> extract_sql s = extraction_of s RAW_TEXT"
  by (simp add: extract_sql_def search_no_tick)

lemma lstrip_append: "lstrip a \<noteq> [] \<Longrightarrow> lstrip (a @ b) = lstrip a @ b"
  by (simp add: lstrip_def dropWhile_append1 dropWhile_eq_Nil_conv) (metis dropWhile_append1)

lemma search_fence_at:
  "body r = Some g \<Longrightarrow> search_fence body (fence @ r) = Some g"
  by (simp add: fence_ticks startswith_def)

lemma strip_lstrip [simp]: "strip (lstrip s) = strip s"
  by (simp add: strip_def)

lemma set_lstrip: "set (lstrip a) \<subseteq> set a"
  by (auto simp: lstrip_def dest!: set_dropWhileD)

lemma lstrip_fence: "lstrip (fence @ s) = fence @ s"
  by (simp add: fence_ticks lstrip_def is_space_def)

text \<open>White space before a closing fence belongs to no group or to the group, never to the fence.\<close>

lemma lstrip_before_fence: "\<exists>g. lstrip (a @ fence @ s) = g @ fence @ s \<and> strip g = strip a \<and> set g \<subseteq> set a"
proof (cases "lstrip a = []")
  case True
  then have "lstrip (a @ fence @ s) = fence @ s"
    by (induction a) (auto simp: lstrip_def lstrip_fence [unfolded lstrip_def] split: if_splits)
  moreover from True have "strip a = strip []" by (simp add: strip_def) (simp add: lstrip_def)
  ultimately show ?thesis by (intro exI [of _ "[]"]) simp
next
  case False
  then have "lstrip (a @ fence @ s) = lstrip a @ fence @ s" by (rule lstrip_append)
  then show ?thesis by (intro exI [of _ "lstrip a"]) (simp add: set_lstrip)
qed

text \<open>
  A statement in a fence tagged \<open>sql\<close>, in any letter case, is extracted as written up to
  surrounding white space, whatever stands before the fence without back ticks and after it; text
  without back ticks is taken whole; and an answer whose chosen part is blank is an error.
\<close>
theorem extract_fenced:
  assumes "CHR 0x60 \<notin> set pre" and "lower tag = ''sql''" and "CHR 0x60 \<notin> set sql"
    and "CHR 0x60 \<notin> set plain"
  shows "extract_sql (pre @ fence @ tag @ newline @ sql @ fence @ post) =
      (if strip sql = [] then Inl SQLExtractionError
       else Inr \<lparr> er_sql = strip sql, er_method = FENCED_SQL_BLOCK \<rparr>)
    \<and> extract_sql plain =
      (if strip plain = [] then Inl SQLExtractionError
       else Inr \<lparr> er_sql = strip plain, er_method = RAW_TEXT \<rparr>)"
proof
  have len: "length tag = 3" using arg_cong [OF assms(2), of length] by (simp add: lower_def)
  obtain g where g: "lstrip (sql @ fence @ post) = g @ fence @ post" "strip g = strip sql" "set g \<subseteq> set sql"
    using lstrip_before_fence by blast
  have "lstrip (newline @ sql @ fence @ post) = g @ fence @ post"
    using g(1) by (simp add: newline_def lstrip_def is_space_def)
  then have "sql_fence_body (tag @ newline @ sql @ fence @ post) = Some g"
    using len assms(2,3) g(3) split_at_fence [of g post] by (auto simp: sql_fence_body_def)
  then have "search_fence sql_fence_body (pre @ fence @ tag @ newline @ sql @ fence @ post) = Some g"
    using search_fence_at by (simp add: search_fence_skip [OF assms(1)])
  then show "extract_sql (pre @ fence @ tag @ newline @ sql @ fence @ post) =
      (if strip sql = [] then Inl SQLExtractionError
       else Inr \<lparr> er_sql = strip sql, er_method = FENCED_SQL_BLOCK \<rparr>)"
    using g(2) by (simp add: extract_sql_def extraction_of_def Let_def)
  show "extract_sql plain = (if strip plain = [] then Inl SQLExtractionError
       else Inr \<lparr> er_sql = strip plain, er_method = RAW_TEXT \<rparr>)"
    by (simp add: extract_plain [OF assms(4)] extraction_of_def Let_def)
qed

theorem extract_fenced_witness:
  "extract_sql (''Here: '' @ fence @ ''SQL'' @ newline @ ''SELECT 1'' @ fence @ '' done'')
     = Inr \<lparr> er_sql = ''SELECT 1'', er_method = FENCED_SQL_BLOCK \<rparr>"
proof -
  have "lower ''SQL'' = ''sql''" by code_simp
  moreover have "strip ''SELECT 1'' = ''SELECT 1''"
    by (simp add: strip_def lstrip_def rstrip_def is_space_def)
  ultimately show ?thesis
    using extract_fenced [of "''Here: ''" "''SQL''" "''SELECT 1''" "''x''" "'' done''"] by simp
qed

lemma search_single_block:
  assumes "tick \<notin> set mid" "mid \<noteq> []" "body (mid @ fence) = None" "body [] = None"
  shows "search_fence body (fence @ mid @ fence) = None"
proof -
  obtain c m where "mid = c # m" "c \<noteq> tick" using assms(1,2) by (cases mid) auto
  then have "\<not> startswith (tick # tick # mid @ fence) fence" "\<not> startswith (tick # mid @ fence) fence"
    by (simp_all add: startswith_def fence_ticks)
  moreover have "search_fence body fence = None" using assms(4) by (simp add: fence_ticks startswith_def)
  ultimately show ?thesis
    using assms(3) search_fence_skip [OF assms(1), of body fence]
    by (simp add: fence_ticks [THEN arg_cong, of "\<lambda>f. f @ mid @ fence"] del: append_assoc)
qed

lemma not_sql_tag:
  assumes "lower (take 3 word) \<noteq> ''sql''"
  shows "sql_fence_body (word @ '' '' @ s) = None"
proof -
  have "lower (take 3 (word @ '' '' @ s)) \<noteq> ''sql''"
  proof (cases "3 \<le> length word")
    case True
    then show ?thesis using assms by simp
  next
    case False
    then obtain k where k: "3 - length word = Suc k" by (metis Suc_diff_Suc not_le)
    then have "CHR '' '' \<in> set (take 3 (word @ '' '' @ s))" by simp
    then have "lower_char CHR '' '' \<in> set (lower (take 3 (word @ '' '' @ s)))"
      unfolding lower_def by (metis image_eqI list.set_map)
    moreover have "lower_char CHR '' '' = CHR '' ''" by (simp add: lower_char_def)
    ultimately show ?thesis by auto
  qed
  then show ?thesis by (simp add: sql_fence_body_def)
qed

text \<open>
  When a fence has no tag and the statement starts on the fence's own line, its first word is
  taken for the tag and lost: only what follows the word is extracted.
\<close>
theorem untagged_fence_drops_word:
  assumes "\<forall>c\<in>set word. is_word c" "lower (take 3 word) \<noteq> ''sql''" "CHR 0x60 \<notin> set rest"
    and "strip rest \<noteq> []"
  shows "extract_sql (fence @ word @ '' '' @ rest @ fence)
    = Inr \<lparr> er_sql = strip rest, er_method = FENCED_GENERIC_BLOCK \<rparr>"
proof -
  have nt: "tick \<notin> set word"
  proof
    assume "tick \<in> set word"
    then have "is_word tick" using assms(1) by blast
    then show False by (simp add: is_word_def is_alnum_def)
  qed
  have "\<not> is_word CHR '' ''" by (simp add: is_word_def is_alnum_def)
  then have drop: "dropWhile is_word (word @ '' '' @ rest @ fence) = '' '' @ rest @ fence"
    using assms(1) by (simp add: dropWhile_append2)
  obtain g where g: "lstrip (('' '' @ rest) @ fence @ []) = g @ fence @ []" "strip g = strip ('' '' @ rest)" "set g \<subseteq> set ('' '' @ rest)"
    using lstrip_before_fence by blast
  have sp: "strip ('' '' @ rest) = strip rest" by (simp add: strip_def lstrip_def is_space_def)
  have "generic_fence_body (word @ '' '' @ rest @ fence) = Some g"
    using g drop assms(3) split_at_fence [of g "[]"] by (auto simp: generic_fence_body_def)
  then have gen: "search_fence generic_fence_body (fence @ word @ '' '' @ rest @ fence) = Some g"
    by (rule search_fence_at)
  have "search_fence sql_fence_body (fence @ word @ '' '' @ rest @ fence) = None"
    using search_single_block [of "word @ '' '' @ rest" sql_fence_body] nt assms(2,3)
    by (simp add: not_sql_tag [OF assms(2), simplified]) (simp add: sql_fence_body_def lower_def)
  then show ?thesis using gen g(2) sp assms(4) by (simp add: extract_sql_def extraction_of_def Let_def)
qed

theorem untagged_fence_drops_word_witness:
  "extract_sql (fence @ ''SELECT'' @ '' '' @ ''1'' @ fence) = Inr \<lparr> er_sql = ''1'', er_method = FENCED_GENERIC_BLOCK \<rparr>"
proof -
  have "lower (take 3 ''SELECT'') \<noteq> ''sql''" by code_simp
  moreover have "\<forall>c\<in>set ''SELECT''. is_word c" by (simp add: is_word_def is_alnum_def)
  moreover have "strip ''1'' = ''1''" by (simp add: strip_def lstrip_def rstrip_def is_space_def)
  ultimately show ?thesis using untagged_fence_drops_word [of "''SELECT''" "''1''"] by simp
qed

end
