(* ===== verification/Knowledge.thy ===== *)
theory Knowledge
  imports Data_Model
begin

text \<open>
  The schema registry with its relationship graph (\<open>metadata/registry.py\<close>,
  \<open>metadata/relationships.py\<close>) and the business-knowledge catalog with its registry and term
  resolver (\<open>business_knowledge/\<close>). The extraction of the schema from the ORM, its enrichment
  and the loading of the catalog files are parameters: functions that may raise.
\<close>

section \<open>One-value caches (metadata/cache.py, business_knowledge/cache.py)\<close>

definition value_cache_get :: "'a option \<Rightarrow> 'a option" where
  "value_cache_get c = c"

definition value_cache_set :: "'a option \<Rightarrow> 'a \<Rightarrow> 'a option" where
  "value_cache_set c v = Some v"

definition value_cache_clear :: "'a option \<Rightarrow> 'a option" where
  "value_cache_clear c = None"

section \<open>Metadata registry\<close>

datatype registry_error = MetadataNotLoadedError | TableNotFoundError string
  | ColumnNotFoundError string string | KnowledgeNotLoadedError | ConceptNotFoundError string
  | SourceError string

type_synonym metadata_registry = "database_metadata option"

definition metadata_refresh ::
  "(registry_error + database_metadata) \<Rightarrow> (database_metadata \<Rightarrow> registry_error + database_metadata) option \<Rightarrow>
   (metadata_registry, registry_error, database_metadata) op" where
  "metadata_refresh extracted enrich c =
     (case rbind extracted (\<lambda>d. case enrich of None \<Rightarrow> Inr d | Some f \<Rightarrow> f d) of
        Inl e \<Rightarrow> (Inl e, c)
      | Inr d \<Rightarrow> (Inr d, value_cache_set c d))"

definition metadata_load ::
  "(registry_error + database_metadata) \<Rightarrow> (database_metadata \<Rightarrow> registry_error + database_metadata) option \<Rightarrow>
   (metadata_registry, registry_error, database_metadata) op" where
  "metadata_load extracted enrich c =
     (case value_cache_get c of Some d \<Rightarrow> (Inr d, c) | None \<Rightarrow> metadata_refresh extracted enrich c)"

definition require_metadata :: "metadata_registry \<Rightarrow> registry_error + database_metadata" where
  "require_metadata c = (case value_cache_get c of None \<Rightarrow> Inl MetadataNotLoadedError | Some d \<Rightarrow> Inr d)"

definition get_table :: "metadata_registry \<Rightarrow> string \<Rightarrow> registry_error + table_metadata" where
  "get_table c table_name =
     rbind (require_metadata c) (\<lambda>d.
       case next_where (\<lambda>t. tbl_name t = table_name) (db_tables d) of
         None \<Rightarrow> Inl (TableNotFoundError table_name) | Some t \<Rightarrow> Inr t)"

definition get_column :: "metadata_registry \<Rightarrow> string \<Rightarrow> string \<Rightarrow> registry_error + column_metadata" where
  "get_column c table_name column_name =
     rbind (get_table c table_name) (\<lambda>t.
       case next_where (\<lambda>col. col_name col = column_name) (tbl_columns t) of
         None \<Rightarrow> Inl (ColumnNotFoundError table_name column_name) | Some col \<Rightarrow> Inr col)"

definition find_columns :: "metadata_registry \<Rightarrow> (column_metadata \<Rightarrow> bool) \<Rightarrow> registry_error + column_metadata list" where
  "find_columns c predicate =
     rbind (require_metadata c) (\<lambda>d. Inr (filter predicate (concat (map tbl_columns (db_tables d)))))"

definition find_tables :: "metadata_registry \<Rightarrow> (table_metadata \<Rightarrow> bool) \<Rightarrow> registry_error + table_metadata list" where
  "find_tables c predicate = rbind (require_metadata c) (\<lambda>d. Inr (filter predicate (db_tables d)))"

definition list_tables :: "metadata_registry \<Rightarrow> registry_error + string list" where
  "list_tables c = rbind (require_metadata c) (\<lambda>d. Inr (map tbl_name (db_tables d)))"

definition list_relationships :: "metadata_registry \<Rightarrow> registry_error + relationship_metadata list" where
  "list_relationships c = rbind (require_metadata c) (\<lambda>d. Inr (db_relationships d))"

section \<open>Relationship graph\<close>

record graph_edge =
  ge_source_table :: string
  ge_target_table :: string
  ge_relationship_name :: string
  ge_source_columns :: "string list"
  ge_target_columns :: "string list"

definition from_relationship :: "relationship_metadata \<Rightarrow> graph_edge" where
  "from_relationship r = \<lparr> ge_source_table = rel_source_table r, ge_target_table = rel_target_table r,
     ge_relationship_name = rel_name r, ge_source_columns = rel_source_columns r,
     ge_target_columns = rel_target_columns r \<rparr>"

record relationship_graph =
  rg_nodes :: "string set"
  rg_adjacency :: "(string \<times> graph_edge list) list"

text \<open>\<open>grouped.setdefault(source, []).append(edge)\<close>.\<close>

fun build_adjacency :: "relationship_metadata list \<Rightarrow> (string \<times> graph_edge list) list \<Rightarrow> (string \<times> graph_edge list) list" where
  "build_adjacency [] grouped = grouped"
| "build_adjacency (r # rs) grouped =
     build_adjacency rs (AList.update (rel_source_table r)
       ((case map_of grouped (rel_source_table r) of None \<Rightarrow> [] | Some es \<Rightarrow> es) @ [from_relationship r]) grouped)"

definition make_graph :: "string list \<Rightarrow> relationship_metadata list \<Rightarrow> relationship_graph" where
  "make_graph tables relationships = \<lparr> rg_nodes = set tables, rg_adjacency = build_adjacency relationships [] \<rparr>"

definition edges_from :: "relationship_graph \<Rightarrow> string \<Rightarrow> graph_edge list" where
  "edges_from g table = (case map_of (rg_adjacency g) table of None \<Rightarrow> [] | Some es \<Rightarrow> es)"

definition neighbors :: "relationship_graph \<Rightarrow> string \<Rightarrow> string list" where
  "neighbors g table = map ge_target_table (edges_from g table)"

definition build_graph :: "metadata_registry \<Rightarrow> registry_error + relationship_graph" where
  "build_graph c = rbind (require_metadata c) (\<lambda>d.
     Inr (make_graph (map tbl_name (db_tables d)) (db_relationships d)))"

section \<open>Business knowledge\<close>

datatype business_concept_type = BC_Metric | BC_Segment | BC_Status | BC_Kpi | BC_Attribute

record business_alias =
  ba_text :: string

record business_formula =
  bf_expression :: string
  bf_variables :: "string list"

record business_concept =
  bc_id :: string
  bc_name :: string
  bc_concept_type :: business_concept_type
  bc_description :: string
  bc_aliases :: "business_alias list"
  bc_related_terms :: "string list"
  bc_example_questions :: "string list"
  bc_calculation_description :: string
  bc_formula :: "business_formula option"
  bc_preferred_schema_objects :: "string list"

record business_definition =
  bd_concept_id :: string
  bd_name :: string
  bd_description :: string
  bd_calculation_description :: string
  bd_example_questions :: "string list"

definition to_definition :: "business_concept \<Rightarrow> business_definition" where
  "to_definition c = \<lparr> bd_concept_id = bc_id c, bd_name = bc_name c, bd_description = bc_description c,
     bd_calculation_description = bc_calculation_description c,
     bd_example_questions = bc_example_questions c \<rparr>"

record business_knowledge_catalog =
  bk_concepts :: "business_concept list"
  bk_loaded_at :: datetime

type_synonym knowledge_registry = "business_knowledge_catalog option"

definition knowledge_refresh :: "(registry_error + business_knowledge_catalog) \<Rightarrow>
    (knowledge_registry, registry_error, business_knowledge_catalog) op" where
  "knowledge_refresh source c = (case source of Inl e \<Rightarrow> (Inl e, c) | Inr k \<Rightarrow> (Inr k, value_cache_set c k))"

definition knowledge_load :: "(registry_error + business_knowledge_catalog) \<Rightarrow>
    (knowledge_registry, registry_error, business_knowledge_catalog) op" where
  "knowledge_load source c =
     (case value_cache_get c of Some k \<Rightarrow> (Inr k, c) | None \<Rightarrow> knowledge_refresh source c)"

definition require_knowledge :: "knowledge_registry \<Rightarrow> registry_error + business_knowledge_catalog" where
  "require_knowledge c = (case value_cache_get c of None \<Rightarrow> Inl KnowledgeNotLoadedError | Some k \<Rightarrow> Inr k)"

definition get_concept :: "knowledge_registry \<Rightarrow> string \<Rightarrow> registry_error + business_concept" where
  "get_concept c concept_id = rbind (require_knowledge c) (\<lambda>k.
     case next_where (\<lambda>b. bc_id b = concept_id) (bk_concepts k) of
       None \<Rightarrow> Inl (ConceptNotFoundError concept_id) | Some b \<Rightarrow> Inr b)"

definition find_concepts :: "knowledge_registry \<Rightarrow> (business_concept \<Rightarrow> bool) \<Rightarrow> registry_error + business_concept list" where
  "find_concepts c predicate = rbind (require_knowledge c) (\<lambda>k. Inr (filter predicate (bk_concepts k)))"

definition list_concepts :: "knowledge_registry \<Rightarrow> registry_error + string list" where
  "list_concepts c = rbind (require_knowledge c) (\<lambda>k. Inr (map bc_id (bk_concepts k)))"

text \<open>\<open>BusinessMetric.from_concept\<close> copies a concept of type \<open>METRIC\<close>, the only ones selected here.\<close>

definition list_metrics :: "knowledge_registry \<Rightarrow> registry_error + business_concept list" where
  "list_metrics c = find_concepts c (\<lambda>b. bc_concept_type b = BC_Metric)"

section \<open>Term resolution (resolver.py)\<close>

definition normalize_term :: "string \<Rightarrow> string" where
  "normalize_term text =
     join '' '' (split_words (map (\<lambda>c. if c = CHR ''_'' then CHR '' '' else c) (lower (strip text))) [])"

definition partially_matches :: "string \<Rightarrow> business_concept \<Rightarrow> bool" where
  "partially_matches normalized_term concept =
     (\<exists>candidate \<in> set (bc_name concept # map ba_text (bc_aliases concept)).
        sublist normalized_term (normalize_term candidate) \<or> sublist (normalize_term candidate) normalized_term)"

definition resolve_term :: "business_concept list \<Rightarrow> string \<Rightarrow> business_concept option" where
  "resolve_term concepts term =
     (let t = normalize_term term in
      case next_where (\<lambda>c. normalize_term (bc_name c) = t) concepts of
        Some c \<Rightarrow> Some c
      | None \<Rightarrow> (case next_where (\<lambda>c. \<exists>a\<in>set (bc_aliases c). normalize_term (ba_text a) = t) concepts of
          Some c \<Rightarrow> Some c
        | None \<Rightarrow> (case next_where (\<lambda>c. \<exists>r\<in>set (bc_related_terms c). normalize_term r = t) concepts of
            Some c \<Rightarrow> Some c
          | None \<Rightarrow> if 3 \<le> length t then next_where (partially_matches t) concepts else None)))"

fun resolve_many_from :: "business_concept list \<Rightarrow> string set \<Rightarrow> string list \<Rightarrow> business_concept list" where
  "resolve_many_from concepts seen [] = []"
| "resolve_many_from concepts seen (t # ts) =
     (case resolve_term concepts t of
        None \<Rightarrow> resolve_many_from concepts seen ts
      | Some c \<Rightarrow> if bc_id c \<in> seen then resolve_many_from concepts seen ts
                  else c # resolve_many_from concepts (insert (bc_id c) seen) ts)"

definition resolve_many :: "business_concept list \<Rightarrow> string list \<Rightarrow> business_concept list" where
  "resolve_many concepts terms = resolve_many_from concepts {} terms"

section \<open>Laws\<close>

lemma list_tables_get_table:
  assumes "list_tables c = Inr names"
  shows "n \<in> set names \<longleftrightarrow> (\<exists>t. get_table c n = Inr t)"
proof (cases c)
  case None
  then show ?thesis using assms by (simp add: list_tables_def require_metadata_def value_cache_get_def)
next
  case (Some d)
  then have "names = map tbl_name (db_tables d)"
    using assms by (simp add: list_tables_def require_metadata_def value_cache_get_def)
  then show ?thesis
    using Some next_where_None [of "\<lambda>t. tbl_name t = n" "db_tables d"]
    by (auto simp: get_table_def require_metadata_def value_cache_get_def split: option.splits
        dest!: next_where_Some)
qed

lemma get_table_name:
  assumes "get_table c n = Inr t"
  shows "tbl_name t = n"
proof -
  from assms obtain d :: database_metadata where
    found: "(case next_where (\<lambda>t. tbl_name t = n) (db_tables d) of
       None \<Rightarrow> Inl (TableNotFoundError n) | Some t \<Rightarrow> Inr t) = Inr t"
    by (auto simp only: get_table_def rbind_Inr_iff)
  then show ?thesis
    by (cases "next_where (\<lambda>t. tbl_name t = n) (db_tables d)") (auto dest: next_where_Some)
qed

text \<open>The edges from a table are its relationships, in the order they are listed.\<close>

lemma build_adjacency_lookup:
  "(case map_of (build_adjacency rs g) t of None \<Rightarrow> [] | Some es \<Rightarrow> es) =
     (case map_of g t of None \<Rightarrow> [] | Some es \<Rightarrow> es)
     @ map from_relationship (filter (\<lambda>r. rel_source_table r = t) rs)"
  by (induction rs g rule: build_adjacency.induct) (auto simp: update_conv split: option.splits)

lemma edges_from_relationships:
  "edges_from (make_graph tables rs) t = map from_relationship (filter (\<lambda>r. rel_source_table r = t) rs)"
  using build_adjacency_lookup [of rs "[]" t] by (simp add: edges_from_def make_graph_def)

end
