(* ===== verification/Sql_Validation.thy ===== *)
theory Sql_Validation
  imports Sql_Generation Knowledge
begin

text \<open>
  SQL validation (\<open>sql_validation/\<close>): the references extracted from a parsed statement, the ten
  validators, the registry that orders them, and the engine that runs them all and builds the
  report. The SQL parser (sqlglot) is a parameter: a record of the operations on syntax trees that
  the code calls, on an arbitrary type of nodes. The order in which Python iterates over a set is
  a parameter too. Human-readable issue messages are dropped.
\<close>

section \<open>The parser library\<close>

datatype node_class = N_Select | N_Table | N_Column | N_Join | N_CTE | N_Subquery | N_Alias
  | N_Func | N_If | N_Case | N_AggFunc | N_Literal | N_Insert | N_Update | N_Delete | N_Merge
  | N_Create | N_Alter | N_Drop | N_TruncateTable | N_Copy | N_Group

text \<open>The library's exceptions (\<open>ParseError\<close> and others below \<open>SqlglotError\<close>) and any other one.\<close>

datatype sqlglot_error = SG_ParseError | SG_TokenError | SG_UnsupportedError | SG_OtherException

text \<open>
  \<open>sg_isa\<close> is \<open>isinstance\<close>; \<open>sg_walk\<close> the nodes below and including a node in the order
  of \<open>find_all\<close>; \<open>sg_arg\<close> an entry of \<open>args\<close>; \<open>sg_sql\<close> the rendering in a dialect, the
  flag for normalised identifiers.
\<close>

record 'n sqlglot =
  sg_parse_one :: "string \<Rightarrow> string \<Rightarrow> sqlglot_error + 'n"
  sg_parse :: "string \<Rightarrow> string \<Rightarrow> sqlglot_error + 'n option list"
  sg_isa :: "node_class \<Rightarrow> 'n \<Rightarrow> bool"
  sg_type_name :: "'n \<Rightarrow> string"
  sg_walk :: "'n \<Rightarrow> 'n list"
  sg_name :: "'n \<Rightarrow> string"
  sg_alias :: "'n \<Rightarrow> string"
  sg_table :: "'n \<Rightarrow> string"
  sg_this :: "'n \<Rightarrow> 'n option"
  sg_arg :: "string \<Rightarrow> 'n \<Rightarrow> 'n option"
  sg_expressions :: "'n \<Rightarrow> 'n list"
  sg_parent :: "'n \<Rightarrow> 'n option"
  sg_has_ancestor :: "node_class \<Rightarrow> 'n \<Rightarrow> bool"
  sg_kind :: "'n \<Rightarrow> string"
  sg_side :: "'n \<Rightarrow> string"
  sg_sql :: "string option \<Rightarrow> bool \<Rightarrow> 'n \<Rightarrow> sqlglot_error + string"

definition find_all :: "'n sqlglot \<Rightarrow> node_class \<Rightarrow> 'n \<Rightarrow> 'n list" where
  "find_all sg c n = filter (sg_isa sg c) (sg_walk sg n)"

definition find_first :: "'n sqlglot \<Rightarrow> node_class list \<Rightarrow> 'n \<Rightarrow> 'n option" where
  "find_first sg cs n = next_where (\<lambda>m. \<exists>c\<in>set cs. sg_isa sg c m) (sg_walk sg n)"

text \<open>\<open>s or None\<close>.\<close>

definition none_if_empty :: "string \<Rightarrow> string option" where
  "none_if_empty s = (if s = [] then None else Some s)"

type_synonym set_order = "string set \<Rightarrow> string list"

section \<open>Models and errors (models.py, exceptions.py)\<close>

datatype severity = ERROR | WARNING

record validation_issue =
  vi_code :: string
  vi_severity :: severity
  vi_related_object :: "string option"

abbreviation err :: "string \<Rightarrow> string \<Rightarrow> validation_issue" where
  "err code related \<equiv> \<lparr> vi_code = code, vi_severity = ERROR, vi_related_object = Some related \<rparr>"

abbreviation warn :: "string \<Rightarrow> string \<Rightarrow> validation_issue" where
  "warn code related \<equiv> \<lparr> vi_code = code, vi_severity = WARNING, vi_related_object = Some related \<rparr>"

record validator_execution_time =
  vt_validator :: string
  vt_duration_ms :: real

record validation_statistics =
  vs_validation_latency_ms :: real
  vs_validator_execution_times :: "validator_execution_time list"
  vs_table_count :: nat
  vs_column_count :: nat
  vs_join_count :: nat
  vs_function_count :: nat
  vs_error_count :: nat
  vs_warning_count :: nat

record sql_validation_result =
  vr_generated_sql :: generated_sql
  vr_is_valid :: bool
  vr_errors :: "validation_issue list"
  vr_warnings :: "validation_issue list"
  vr_validated_tables :: "string list"
  vr_validated_columns :: "string list"
  vr_validated_functions :: "string list"
  vr_validation_statistics :: validation_statistics

datatype validation_error = SQLSyntaxError | VE_Sqlglot sqlglot_error | VE_Registry registry_error
  | SchemaValidationError | BusinessRuleViolationError

section \<open>Parsing and references (parser.py)\<close>

record 'n parsed_sql =
  p_ast :: 'n
  p_dialect :: string
  p_raw_sql :: string

definition parse_sql :: "'n sqlglot \<Rightarrow> string \<Rightarrow> string \<Rightarrow> validation_error + 'n parsed_sql" where
  "parse_sql sg sql dialect = (case sg_parse_one sg dialect sql of
     Inl e \<Rightarrow> Inl (if e = SG_ParseError then SQLSyntaxError else VE_Sqlglot e)
   | Inr ast \<Rightarrow> Inr \<lparr> p_ast = ast, p_dialect = dialect, p_raw_sql = sql \<rparr>)"

record 'n table_reference =
  tr_name :: string
  tr_alias :: "string option"
  tr_node :: 'n

record 'n column_reference =
  cr_name :: string
  cr_qualifier :: "string option"
  cr_node :: 'n

record join_reference =
  jr_join_type :: string
  jr_left_table :: "string option"
  jr_right_table :: "string option"
  jr_on_columns :: "string list"

definition cte_names :: "'n sqlglot \<Rightarrow> 'n \<Rightarrow> string list" where
  "cte_names sg ast = filter (\<lambda>a. a \<noteq> []) (map (sg_alias sg) (find_all sg N_CTE ast))"

definition derived_table_aliases :: "'n sqlglot \<Rightarrow> 'n \<Rightarrow> string list" where
  "derived_table_aliases sg ast = filter (\<lambda>a. a \<noteq> []) (map (sg_alias sg) (find_all sg N_Subquery ast))"

definition local_scope_names :: "'n sqlglot \<Rightarrow> 'n \<Rightarrow> string list" where
  "local_scope_names sg ast = cte_names sg ast @ derived_table_aliases sg ast"

definition extract_tables :: "'n sqlglot \<Rightarrow> 'n \<Rightarrow> 'n table_reference list" where
  "extract_tables sg ast = map (\<lambda>t. \<lparr> tr_name = sg_name sg t, tr_alias = none_if_empty (sg_alias sg t),
     tr_node = t \<rparr>) (find_all sg N_Table ast)"

definition extract_columns :: "'n sqlglot \<Rightarrow> 'n \<Rightarrow> 'n column_reference list" where
  "extract_columns sg ast = map (\<lambda>c. \<lparr> cr_name = sg_name sg c, cr_qualifier = none_if_empty (sg_table sg c),
     cr_node = c \<rparr>) (find_all sg N_Column ast)"

text \<open>The dict from alias (or bare name) to table name; derived tables map to themselves.\<close>

definition build_alias_map :: "'n sqlglot \<Rightarrow> 'n \<Rightarrow> (string \<times> string) list" where
  "build_alias_map sg ast =
     (let base = foldl (\<lambda>m r. AList.update (case tr_alias r of Some a \<Rightarrow> a | None \<Rightarrow> tr_name r) (tr_name r) m)
                   [] (extract_tables sg ast)
      in foldl (\<lambda>m a. AList.update a a m) base (derived_table_aliases sg ast))"

definition extract_join :: "'n sqlglot \<Rightarrow> set_order \<Rightarrow> (string \<times> string) list \<Rightarrow> 'n \<Rightarrow> join_reference" where
  "extract_join sg order alias_map j =
     (let right = (case sg_this sg j of Some t \<Rightarrow> if sg_isa sg N_Table t then Some t else None | None \<Rightarrow> None);
          right_resolved = map_option (sg_name sg) right;
          right_alias = map_option (\<lambda>t. if sg_alias sg t \<noteq> [] then sg_alias sg t else sg_name sg t) right;
          on_cols = (case sg_arg sg ''on'' j of None \<Rightarrow> [] | Some c \<Rightarrow> find_all sg N_Column c);
          on_qualifiers = {q \<in> set (map (sg_table sg) on_cols). q \<noteq> []};
          left_qualifiers = (case right_alias of
             Some a \<Rightarrow> if a \<noteq> [] then on_qualifiers - {a} else on_qualifiers | None \<Rightarrow> on_qualifiers);
          left_resolved = (if left_qualifiers = {} then None else map_of alias_map (hd (order left_qualifiers)));
          kind = sg_kind sg j; side = sg_side sg j
      in \<lparr> jr_join_type = upper (if kind \<noteq> [] then kind else if side \<noteq> [] then side else ''INNER''),
           jr_left_table = left_resolved, jr_right_table = right_resolved,
           jr_on_columns = map (sg_name sg) on_cols \<rparr>)"

definition extract_joins :: "'n sqlglot \<Rightarrow> set_order \<Rightarrow> 'n \<Rightarrow> join_reference list" where
  "extract_joins sg order ast = map (extract_join sg order (build_alias_map sg ast)) (find_all sg N_Join ast)"

definition function_name :: "'n sqlglot \<Rightarrow> string \<Rightarrow> 'n \<Rightarrow> validation_error + string" where
  "function_name sg dialect f =
     (if sg_isa sg N_Case f then Inr ''CASE''
      else case sg_sql sg (Some dialect) False f of
             Inl e \<Rightarrow> Inl (VE_Sqlglot e)
           | Inr rendered \<Rightarrow> Inr (upper (strip (split_first CHR ''('' rendered))))"

definition extract_functions :: "'n sqlglot \<Rightarrow> string \<Rightarrow> 'n \<Rightarrow> validation_error + string list" where
  "extract_functions sg dialect ast =
     rmap (function_name sg dialect)
       (filter (\<lambda>f. \<not> (sg_isa sg N_If f \<and> (case sg_parent sg f of Some p \<Rightarrow> sg_isa sg N_Case p | None \<Rightarrow> False)))
          (find_all sg N_Func ast))"

section \<open>Validators (validators/)\<close>

type_synonym 'n validator = "'n parsed_sql \<Rightarrow> validation_error + validation_issue list"

definition registry_result :: "registry_error + 'a \<Rightarrow> validation_error + 'a" where
  "registry_result r = (case r of Inl e \<Rightarrow> Inl (VE_Registry e) | Inr x \<Rightarrow> Inr x)"

definition syntax_validator :: "'n sqlglot \<Rightarrow> 'n validator" where
  "syntax_validator sg parsed =
     (if sg_isa sg N_Select (p_ast parsed) then Inr []
      else Inr [err ''unsupported_statement_type'' (upper (sg_type_name sg (p_ast parsed)))])"

text \<open>\<open>_column_exists\<close> of the schema and column validators.\<close>

definition column_exists :: "metadata_registry \<Rightarrow> string \<Rightarrow> string \<Rightarrow> validation_error + bool" where
  "column_exists m table_name column_name =
     (case get_table m table_name of
        Inl (TableNotFoundError _) \<Rightarrow> Inr False
      | Inl e \<Rightarrow> Inl (VE_Registry e)
      | Inr t \<Rightarrow> Inr (\<exists>c\<in>set (tbl_columns t). col_name c = column_name))"

definition schema_table_issues :: "'n sqlglot \<Rightarrow> string list \<Rightarrow> string list \<Rightarrow> 'n table_reference \<Rightarrow> validation_issue list" where
  "schema_table_issues sg local_names known_tables ref =
     (if tr_name ref \<in> set local_names then []
      else (case sg_arg sg ''db'' (tr_node ref) of
              None \<Rightarrow> []
            | Some db \<Rightarrow> if lower (sg_name sg db) \<noteq> ''public'' then [err ''unknown_schema'' (tr_name ref)] else [])
           @ (if tr_name ref \<notin> set known_tables then [err ''unknown_table'' (tr_name ref)] else []))"

definition schema_column_issues ::
  "metadata_registry \<Rightarrow> string list \<Rightarrow> string list \<Rightarrow> (string \<times> string) list \<Rightarrow> 'n column_reference \<Rightarrow>
   validation_error + validation_issue list" where
  "schema_column_issues m local_names known_tables alias_map c =
     (case cr_qualifier c of
        None \<Rightarrow> Inr []
      | Some q \<Rightarrow>
          if q \<in> set local_names then Inr []
          else case map_of alias_map q of
                 None \<Rightarrow> Inr []
               | Some real_table \<Rightarrow>
                   if real_table \<notin> set known_tables then Inr []
                   else rbind (column_exists m real_table (cr_name c)) (\<lambda>ok.
                          Inr (if ok then [] else [err ''unknown_column'' (real_table @ ''.'' @ cr_name c)])))"

definition schema_validator :: "'n sqlglot \<Rightarrow> metadata_registry \<Rightarrow> 'n validator" where
  "schema_validator sg m parsed =
     (let ast = p_ast parsed; local_names = local_scope_names sg ast in
      rbind (registry_result (list_tables m)) (\<lambda>known_tables.
      rbind (rmap (schema_column_issues m local_names known_tables (build_alias_map sg ast))
               (extract_columns sg ast)) (\<lambda>column_issues.
      Inr (concat (map (schema_table_issues sg local_names known_tables) (extract_tables sg ast))
           @ concat column_issues))))"

definition repeated :: "(string \<times> nat) list \<Rightarrow> string list" where
  "repeated counts = map fst (filter (\<lambda>(a, n). 1 < n) counts)"

definition table_aliases :: "'n table_reference list \<Rightarrow> string list" where
  "table_aliases refs = List.map_filter tr_alias refs"

definition table_validator :: "'n sqlglot \<Rightarrow> set_order \<Rightarrow> metadata_registry \<Rightarrow> 'n validator" where
  "table_validator sg order m parsed =
     (let ast = p_ast parsed; local_names = local_scope_names sg ast; refs = extract_tables sg ast;
          unaliased = map tr_name (filter (\<lambda>r. tr_alias r = None) refs) in
      rbind (registry_result (list_tables m)) (\<lambda>known_tables.
      Inr (map (\<lambda>r. err ''unknown_table'' (tr_name r))
             (filter (\<lambda>r. tr_name r \<notin> set local_names \<and> tr_name r \<notin> set known_tables) refs)
           @ map (err ''duplicate_table_alias'') (repeated (count_keys (table_aliases refs) []))
           @ map (err ''ambiguous_table_reference'')
               (filter (\<lambda>n. 1 < count_list unaliased n) (order (set unaliased))))))"

definition output_aliases :: "'n sqlglot \<Rightarrow> 'n \<Rightarrow> string list" where
  "output_aliases sg ast =
     (if sg_isa sg N_Select ast
      then filter (\<lambda>a. a \<noteq> []) (map (sg_alias sg) (filter (sg_isa sg N_Alias) (sg_expressions sg ast)))
      else [])"

fun rfilter :: "('a \<Rightarrow> 'e + bool) \<Rightarrow> 'a list \<Rightarrow> 'e + 'a list" where
  "rfilter p [] = Inr []"
| "rfilter p (x # xs) = rbind (p x) (\<lambda>b. rbind (rfilter p xs) (\<lambda>ys. Inr (if b then x # ys else ys)))"

definition column_issues ::
  "metadata_registry \<Rightarrow> (string \<times> string) list \<Rightarrow> string list \<Rightarrow> string list \<Rightarrow> string list \<Rightarrow>
   'n column_reference \<Rightarrow> validation_error + validation_issue list" where
  "column_issues m alias_map local_names tables_in_scope outputs c =
     (case cr_qualifier c of
        Some q \<Rightarrow>
          (case map_of alias_map q of
             None \<Rightarrow> Inr [err ''invalid_qualification'' (q @ ''.'' @ cr_name c)]
           | Some real_table \<Rightarrow>
               if real_table \<in> set local_names then Inr []
               else rbind (column_exists m real_table (cr_name c)) (\<lambda>ok.
                      Inr (if ok then [] else [err ''unknown_column'' (real_table @ ''.'' @ cr_name c)])))
      | None \<Rightarrow>
          if cr_name c \<in> set outputs then Inr []
          else rbind (rfilter (\<lambda>t. column_exists m t (cr_name c)) tables_in_scope) (\<lambda>owners.
                 Inr (if owners = [] then [err ''unknown_column'' (cr_name c)]
                      else if 1 < length owners then [err ''ambiguous_column'' (cr_name c)] else [])))"

definition column_validator :: "'n sqlglot \<Rightarrow> metadata_registry \<Rightarrow> 'n validator" where
  "column_validator sg m parsed =
     (let ast = p_ast parsed; alias_map = build_alias_map sg ast; local_names = local_scope_names sg ast;
          tables_in_scope = remdups (filter (\<lambda>t. t \<notin> set local_names) (map snd alias_map)) in
      rbind (rmap (column_issues m alias_map local_names tables_in_scope (output_aliases sg ast))
               (extract_columns sg ast)) (\<lambda>iss. Inr (concat iss)))"

definition has_relationship :: "relationship_graph \<Rightarrow> string \<Rightarrow> string \<Rightarrow> bool" where
  "has_relationship g left_table right_table =
     ((\<exists>e\<in>set (edges_from g left_table). ge_target_table e = right_table)
      \<or> (\<exists>e\<in>set (edges_from g right_table). ge_target_table e = left_table))"

definition on_condition_matches :: "relationship_graph \<Rightarrow> string \<Rightarrow> string \<Rightarrow> string list \<Rightarrow> bool" where
  "on_condition_matches g left_table right_table on_columns =
     (\<exists>e\<in>set (edges_from g left_table @ edges_from g right_table).
        ge_target_table e \<in> {left_table, right_table}
        \<and> (set (ge_source_columns e) \<union> set (ge_target_columns e)) \<inter> set on_columns \<noteq> {})"

definition join_issues :: "relationship_graph \<Rightarrow> join_reference \<Rightarrow> validation_issue list" where
  "join_issues g j =
     (if jr_join_type j \<in> {''CROSS''} then []
      else case (jr_left_table j, jr_right_table j) of
        (Some l, Some r) \<Rightarrow>
          if l \<notin> rg_nodes g \<or> r \<notin> rg_nodes g then []
          else if \<not> has_relationship g l r then [err ''unknown_join_relationship'' (l @ ''-'' @ r)]
          else if jr_on_columns j \<noteq> [] \<and> \<not> on_condition_matches g l r (jr_on_columns j)
               then [warn ''join_columns_do_not_match_relationship'' (l @ ''-'' @ r)]
               else []
      | _ \<Rightarrow> [])"

definition join_validator :: "'n sqlglot \<Rightarrow> set_order \<Rightarrow> relationship_graph \<Rightarrow> 'n validator" where
  "join_validator sg order g parsed = Inr (concat (map (join_issues g) (extract_joins sg order (p_ast parsed))))"

definition APPROVED_FUNCTIONS :: "string set" where
  "APPROVED_FUNCTIONS = {''COUNT'', ''SUM'', ''AVG'', ''MIN'', ''MAX'', ''ROUND'', ''COALESCE'', ''CASE'',
     ''LOWER'', ''UPPER'', ''DATE_TRUNC''}"

definition function_validator :: "'n sqlglot \<Rightarrow> 'n validator" where
  "function_validator sg parsed =
     rbind (extract_functions sg (p_dialect parsed) (p_ast parsed)) (\<lambda>names.
       Inr (map (err ''unsupported_function'') (filter (\<lambda>n. n \<notin> APPROVED_FUNCTIONS) names)))"

definition sql_text :: "'n sqlglot \<Rightarrow> bool \<Rightarrow> 'n \<Rightarrow> validation_error + string" where
  "sql_text sg normalized n = (case sg_sql sg None normalized n of Inl e \<Rightarrow> Inl (VE_Sqlglot e) | Inr s \<Rightarrow> Inr s)"

definition group_item_issues :: "'n sqlglot \<Rightarrow> string list \<Rightarrow> 'n \<Rightarrow> validation_error + validation_issue list" where
  "group_item_issues sg group_texts item =
     rbind (if sg_isa sg N_Alias item
            then (case sg_this sg item of Some t \<Rightarrow> Inr t | None \<Rightarrow> Inl (VE_Sqlglot SG_OtherException))
            else Inr item) (\<lambda>unaliased.
      if find_first sg [N_AggFunc] unaliased \<noteq> None then Inr []
      else if sg_isa sg N_Literal unaliased then Inr []
      else rbind (sql_text sg True unaliased) (\<lambda>text.
             if text \<in> set group_texts then Inr []
             else rbind (sql_text sg False unaliased) (\<lambda>plain. Inr [err ''missing_group_by'' plain])))"

definition check_group_by :: "'n sqlglot \<Rightarrow> 'n \<Rightarrow> validation_error + validation_issue list" where
  "check_group_by sg select =
     (let group = sg_arg sg ''group'' select in
      if group = None \<and> find_first sg [N_AggFunc] select = None then Inr []
      else rbind (case group of None \<Rightarrow> Inr [] | Some g \<Rightarrow> rmap (sql_text sg True) (sg_expressions sg g)) (\<lambda>texts.
           rbind (rmap (group_item_issues sg texts) (sg_expressions sg select)) (\<lambda>iss. Inr (concat iss))))"

definition check_having :: "'n sqlglot \<Rightarrow> 'n \<Rightarrow> validation_issue list" where
  "check_having sg select =
     (if sg_arg sg ''having'' select \<noteq> None \<and> sg_arg sg ''group'' select = None
         \<and> find_first sg [N_AggFunc] select = None
      then [\<lparr> vi_code = ''having_without_aggregation'', vi_severity = WARNING, vi_related_object = None \<rparr>]
      else [])"

definition check_nested_aggregates :: "'n sqlglot \<Rightarrow> 'n \<Rightarrow> validation_error + validation_issue list" where
  "check_nested_aggregates sg select =
     rbind (rmap (sql_text sg False) (filter (sg_has_ancestor sg N_AggFunc) (find_all sg N_AggFunc select)))
       (\<lambda>texts. Inr (map (err ''nested_aggregate'') texts))"

definition aggregate_validator :: "'n sqlglot \<Rightarrow> 'n validator" where
  "aggregate_validator sg parsed =
     (let select = p_ast parsed in
      if \<not> sg_isa sg N_Select select then Inr []
      else rbind (check_group_by sg select) (\<lambda>a.
           rbind (check_nested_aggregates sg select) (\<lambda>c. Inr (a @ check_having sg select @ c))))"

definition alias_validator :: "'n sqlglot \<Rightarrow> 'n validator" where
  "alias_validator sg parsed =
     (let ast = p_ast parsed;
          qualifiers = List.map_filter cr_qualifier (extract_columns sg ast);
          known = map fst (build_alias_map sg ast)
      in Inr (map (err ''duplicate_alias'') (repeated (count_keys (table_aliases (extract_tables sg ast)) []))
           @ map (err ''duplicate_alias'') (repeated (count_keys (output_aliases sg ast) []))
           @ map (err ''unknown_alias'') (sort (remdups (filter (\<lambda>q. q \<notin> set known) qualifiers)))))"

definition metric_is_mentioned :: "business_concept \<Rightarrow> string \<Rightarrow> bool" where
  "metric_is_mentioned metric raw_sql_lower =
     (\<exists>n\<in>set (bc_name metric # map ba_text (bc_aliases metric)). sublist (lower n) raw_sql_lower)"

definition referenced_schema_objects :: "'n sqlglot \<Rightarrow> 'n \<Rightarrow> string list" where
  "referenced_schema_objects sg ast =
     map tr_name (extract_tables sg ast)
     @ List.map_filter (\<lambda>c. case cr_qualifier c of None \<Rightarrow> None
         | Some q \<Rightarrow> (case map_of (build_alias_map sg ast) q of
              Some t \<Rightarrow> if t \<noteq> [] then Some (t @ ''.'' @ cr_name c) else None
            | None \<Rightarrow> None)) (extract_columns sg ast)"

definition business_rule_validator :: "'n sqlglot \<Rightarrow> knowledge_registry \<Rightarrow> 'n validator" where
  "business_rule_validator sg k parsed =
     (let objects = referenced_schema_objects sg (p_ast parsed); raw_lower = lower (p_raw_sql parsed) in
      rbind (registry_result (list_metrics k)) (\<lambda>metrics.
      Inr (map (\<lambda>b. warn ''business_metric_schema_mismatch'' (bc_id b))
        (filter (\<lambda>b. bc_preferred_schema_objects b \<noteq> [] \<and> metric_is_mentioned b raw_lower
             \<and> \<not> (\<exists>o'\<in>set (bc_preferred_schema_objects b). o' \<in> set objects)) metrics))))"

definition dialect_validator :: "'n sqlglot \<Rightarrow> string \<Rightarrow> 'n validator" where
  "dialect_validator sg dialect parsed =
     rbind (case sg_sql sg (Some dialect) False (p_ast parsed) of
              Inr _ \<Rightarrow> Inr []
            | Inl SG_OtherException \<Rightarrow> Inl (VE_Sqlglot SG_OtherException)
            | Inl e \<Rightarrow> Inr [\<lparr> vi_code = ''unsupported_dialect_construct'', vi_severity = ERROR,
                               vi_related_object = None \<rparr>]) (\<lambda>rendering.
       Inr ((if p_dialect parsed \<noteq> dialect then [err ''unsupported_dialect'' (p_dialect parsed)] else [])
            @ (if CHR 0x60 \<in> set (p_raw_sql parsed) then [err ''unsupported_dialect_construct'' [CHR 0x60]] else [])
            @ rendering))"

section \<open>Registry (registry.py) and report (report.py)\<close>

type_synonym 'n validator_registry = "(string \<times> 'n validator) list"

definition build_default_registry ::
  "'n sqlglot \<Rightarrow> set_order \<Rightarrow> metadata_registry \<Rightarrow> knowledge_registry \<Rightarrow> relationship_graph \<Rightarrow>
   'n validator_registry" where
  "build_default_registry sg order m k g =
     [(''syntax'', syntax_validator sg), (''schema'', schema_validator sg m),
      (''table'', table_validator sg order m), (''column'', column_validator sg m),
      (''join'', join_validator sg order g), (''function'', function_validator sg),
      (''aggregate'', aggregate_validator sg), (''alias'', alias_validator sg),
      (''business_rule'', business_rule_validator sg k),
      (''dialect'', dialect_validator sg ''postgres'')]"

definition build_result ::
  "generated_sql \<Rightarrow> validation_issue list \<Rightarrow> string list \<Rightarrow> string list \<Rightarrow> string list \<Rightarrow> nat \<Rightarrow>
   validator_execution_time list \<Rightarrow> real \<Rightarrow> sql_validation_result" where
  "build_result g issues tables columns functions join_count exec_times latency_ms =
     (let errors = filter (\<lambda>i. vi_severity i = ERROR) issues;
          warnings = filter (\<lambda>i. vi_severity i = WARNING) issues
      in \<lparr> vr_generated_sql = g, vr_is_valid = (length errors = 0), vr_errors = errors,
           vr_warnings = warnings, vr_validated_tables = sort (remdups tables),
           vr_validated_columns = sort (remdups columns), vr_validated_functions = sort (remdups functions),
           vr_validation_statistics = \<lparr> vs_validation_latency_ms = latency_ms,
             vs_validator_execution_times = exec_times, vs_table_count = length (remdups tables),
             vs_column_count = length (remdups columns), vs_join_count = join_count,
             vs_function_count = length (remdups functions), vs_error_count = length errors,
             vs_warning_count = length warnings \<rparr> \<rparr>)"

section \<open>The engine (engine.py)\<close>

definition SQLGLOT_DIALECTS :: "sql_dialect \<Rightarrow> string" where
  "SQLGLOT_DIALECTS d = (case d of PostgreSQL \<Rightarrow> ''postgres'' | MySQL \<Rightarrow> ''mysql'' | SQLite \<Rightarrow> ''sqlite''
     | ANSI \<Rightarrow> '''')"

text \<open>The registry the constructor builds when it is given none.\<close>

definition engine_default_registry ::
  "'n sqlglot \<Rightarrow> set_order \<Rightarrow> metadata_registry option \<Rightarrow> knowledge_registry option \<Rightarrow>
   relationship_graph option \<Rightarrow> validation_error + 'n validator_registry" where
  "engine_default_registry sg order m k g =
     (case m of None \<Rightarrow> Inl SchemaValidationError
      | Some mr \<Rightarrow> (case k of None \<Rightarrow> Inl BusinessRuleViolationError
        | Some kr \<Rightarrow> rbind (case g of Some gr \<Rightarrow> Inr gr | None \<Rightarrow> registry_result (build_graph mr)) (\<lambda>gr.
            Inr (build_default_registry sg order mr kr gr))))"

text \<open>One validator call: an exception becomes the only issue of that validator.\<close>

definition run_validator :: "'n parsed_sql \<Rightarrow> string \<times> 'n validator \<Rightarrow> validation_issue list" where
  "run_validator parsed = (\<lambda>(name, v). case v parsed of Inr iss \<Rightarrow> iss
     | Inl e \<Rightarrow> [err ''validator_internal_error'' name])"

text \<open>The clock readings are the parameters \<open>latency_ms\<close> and \<open>duration\<close> (by validator).\<close>

definition validate_sql ::
  "'n sqlglot \<Rightarrow> set_order \<Rightarrow> 'n validator_registry \<Rightarrow> real \<Rightarrow> (string \<Rightarrow> real) \<Rightarrow> generated_sql \<Rightarrow>
   validation_error + sql_validation_result" where
  "validate_sql sg order registry latency_ms duration g =
     (let dialect = SQLGLOT_DIALECTS (g_dialect g) in
      case parse_sql sg (g_sql g) dialect of
        Inl SQLSyntaxError \<Rightarrow> Inr (build_result g
          [\<lparr> vi_code = ''sql_syntax_error'', vi_severity = ERROR, vi_related_object = None \<rparr>] [] [] [] 0 [] latency_ms)
      | Inl e \<Rightarrow> Inl e
      | Inr parsed \<Rightarrow>
          (let ast = p_ast parsed;
               issues = concat (map (run_validator parsed) registry);
               exec_times = map (\<lambda>(name, v). \<lparr> vt_validator = name, vt_duration_ms = duration name \<rparr>) registry;
               column_names = map (\<lambda>c. case cr_qualifier c of Some q \<Rightarrow> q @ ''.'' @ cr_name c | None \<Rightarrow> cr_name c)
                                (extract_columns sg ast)
           in rbind (extract_functions sg dialect ast) (\<lambda>functions.
              Inr (build_result g issues (map tr_name (extract_tables sg ast)) column_names functions
                     (length (extract_joins sg order ast)) exec_times latency_ms))))"

end
