(* ===== verification/Validation_Properties.thy ===== *)
theory Validation_Properties
  imports Sql_Validation
begin

text \<open>
  What a verdict of the validation engine means: which facts about a statement a valid verdict
  with the default validators implies, what a crashing validator does, and where the check of
  table names is blind.
\<close>

section \<open>Issues of a run\<close>

lemma vr_is_valid_build_result [simp]:
  "vr_is_valid (build_result g iss a b c d e l) \<longleftrightarrow> (\<forall>i\<in>set iss. vi_severity i \<noteq> ERROR)"
  by (simp add: build_result_def Let_def filter_empty_conv)

lemma vr_fields_build_result [simp]:
  "vr_errors (build_result g iss a b c d e l) = filter (\<lambda>i. vi_severity i = ERROR) iss"
  "vr_warnings (build_result g iss a b c d e l) = filter (\<lambda>i. vi_severity i = WARNING) iss"
  "vr_generated_sql (build_result g iss a b c d e l) = g"
  "vs_validator_execution_times (vr_validation_statistics (build_result g iss a b c d e l)) = e"
  by (simp_all add: build_result_def Let_def)

lemma validate_sql_Inr:
  assumes "validate_sql sg order reg l dur g = Inr r"
  shows "vr_is_valid r = (vr_errors r = [])" "vr_generated_sql r = g"
  using assms by (auto simp: validate_sql_def Let_def result_simps filter_empty_conv
      split: sum.splits validation_error.splits)

text \<open>A valid verdict: the statement parsed, no validator raised and none reported an error.\<close>

lemma valid_run:
  assumes "validate_sql sg order reg l dur g = Inr r" "vr_is_valid r"
  obtains ast where "sg_parse_one sg (SQLGLOT_DIALECTS (g_dialect g)) (g_sql g) = Inr ast"
    "\<And>name v. (name, v) \<in> set reg \<Longrightarrow>
       \<exists>iss. v \<lparr> p_ast = ast, p_dialect = SQLGLOT_DIALECTS (g_dialect g), p_raw_sql = g_sql g \<rparr> = Inr iss
         \<and> (\<forall>i\<in>set iss. vi_severity i \<noteq> ERROR)"
proof (cases "sg_parse_one sg (SQLGLOT_DIALECTS (g_dialect g)) (g_sql g)")
  case (Inl e)
  then show ?thesis using assms by (cases e) (auto simp: validate_sql_def parse_sql_def)
next
  case (Inr ast)
  let ?p = "\<lparr> p_ast = ast, p_dialect = SQLGLOT_DIALECTS (g_dialect g), p_raw_sql = g_sql g \<rparr>"
  have ok: "\<forall>nv\<in>set reg. \<forall>i\<in>set (run_validator ?p nv). vi_severity i \<noteq> ERROR"
    using assms Inr by (auto simp: validate_sql_def parse_sql_def Let_def result_simps)
  have "\<exists>iss. v ?p = Inr iss \<and> (\<forall>i\<in>set iss. vi_severity i \<noteq> ERROR)" if "(name, v) \<in> set reg" for name v
    using bspec [OF ok that] by (cases "v ?p") (auto simp: run_validator_def)
  with Inr show ?thesis by (rule that)
qed

section \<open>What each validator excludes\<close>

lemma rmap_Inr: "rmap f xs = Inr ys \<Longrightarrow> x \<in> set xs \<Longrightarrow> \<exists>y\<in>set ys. f x = Inr y"
  by (induction xs arbitrary: ys) (auto simp: result_simps)

abbreviation harmless :: "validation_issue list \<Rightarrow> bool" where
  "harmless iss \<equiv> \<forall>i\<in>set iss. vi_severity i \<noteq> ERROR"

lemma syntax_ok: "syntax_validator sg p = Inr iss \<Longrightarrow> harmless iss \<Longrightarrow> sg_isa sg N_Select (p_ast p)"
  by (auto simp: syntax_validator_def split: if_splits)

lemma schema_ok:
  assumes "schema_validator sg m p = Inr iss" "harmless iss" "t \<in> set (extract_tables sg (p_ast p))"
  shows "tr_name t \<in> set (local_scope_names sg (p_ast p)) \<or>
    (\<exists>tm. get_table m (tr_name t) = Inr tm) \<and>
    (\<forall>db. sg_arg sg ''db'' (tr_node t) = Some db \<longrightarrow> lower (sg_name sg db) = ''public'')"
proof -
  let ?l = "local_scope_names sg (p_ast p)"
  from assms(1) obtain known rest where known: "list_tables m = Inr known" and
    iss: "iss = concat (map (schema_table_issues sg ?l known) (extract_tables sg (p_ast p))) @ rest"
    by (auto simp: schema_validator_def Let_def result_simps registry_result_def split: sum.splits)
  have "harmless (schema_table_issues sg ?l known t)"
    using assms(2,3) by (auto simp: iss)
  then show ?thesis
    using list_tables_get_table [OF known, of "tr_name t"]
    by (auto simp: schema_table_issues_def split: if_splits option.splits)
qed

lemma column_exists_True:
  "column_exists m t c = Inr True \<Longrightarrow> \<exists>tm. get_table m t = Inr tm \<and> c \<in> col_name ` set (tbl_columns tm)"
  by (auto simp: column_exists_def split: sum.splits registry_error.splits)

lemma rfilter_Inr: "rfilter p xs = Inr ys \<Longrightarrow> set ys \<subseteq> set xs \<and> (\<forall>x\<in>set ys. p x = Inr True)"
  by (induction xs arbitrary: ys) (auto simp: result_simps split: if_splits)

lemma rfilter_owner: "rfilter p xs = Inr ys \<Longrightarrow> y \<in> set ys \<Longrightarrow> y \<in> set xs \<and> p y = Inr True"
  using rfilter_Inr by blast

text \<open>
  When a column reference is accounted for: its qualifier is a table or alias of the statement,
  local or with that column; without qualifier it is an output alias or a column of a table in scope.
\<close>

definition table_has_column :: "metadata_registry \<Rightarrow> string \<Rightarrow> string \<Rightarrow> bool" where
  "table_has_column m t c \<longleftrightarrow> (\<exists>tm. get_table m t = Inr tm \<and> c \<in> col_name ` set (tbl_columns tm))"

definition column_resolved :: "'n sqlglot \<Rightarrow> metadata_registry \<Rightarrow> 'n \<Rightarrow> 'n column_reference \<Rightarrow> bool" where
  "column_resolved sg m ast c \<longleftrightarrow> (case cr_qualifier c of
     Some q \<Rightarrow> (\<exists>t. map_of (build_alias_map sg ast) q = Some t \<and>
       (t \<in> set (local_scope_names sg ast) \<or> table_has_column m t (cr_name c)))
   | None \<Rightarrow> cr_name c \<in> set (output_aliases sg ast) \<or>
       (\<exists>t \<in> snd ` set (build_alias_map sg ast). table_has_column m t (cr_name c)))"

lemma column_issues_qualified:
  assumes "column_issues m a l sc outs c = Inr ci" "harmless ci" "cr_qualifier c = Some q"
  shows "\<exists>t. map_of a q = Some t \<and> (t \<in> set l \<or> table_has_column m t (cr_name c))"
proof (cases "map_of a q")
  case None
  then show ?thesis using assms by (auto simp: column_issues_def)
next
  case (Some t)
  show ?thesis
  proof (cases "t \<in> set l")
    case False
    then obtain ok where "column_exists m t (cr_name c) = Inr ok" "ok"
      using assms Some by (auto simp: column_issues_def result_simps split: if_splits)
    then show ?thesis using Some column_exists_True [of m t "cr_name c"] by (auto simp: table_has_column_def)
  qed (use Some in auto)
qed

lemma column_issues_bare:
  assumes "column_issues m a l sc outs c = Inr ci" "harmless ci" "cr_qualifier c = None"
  shows "cr_name c \<in> set outs \<or> (\<exists>t\<in>set sc. table_has_column m t (cr_name c))"
proof (cases "cr_name c \<in> set outs")
  case False
  then obtain owners where own: "rfilter (\<lambda>t. column_exists m t (cr_name c)) sc = Inr owners" "owners \<noteq> []"
    using assms by (auto simp: column_issues_def result_simps split: if_splits)
  then have "hd owners \<in> set sc" "column_exists m (hd owners) (cr_name c) = Inr True"
    using rfilter_owner [OF own(1), of "hd owners"] by simp_all
  then have "table_has_column m (hd owners) (cr_name c)"
    using column_exists_True unfolding table_has_column_def by blast
  then show ?thesis using \<open>hd owners \<in> set sc\<close> by blast
qed simp

lemma column_ok:
  assumes "column_validator sg m p = Inr iss" "harmless iss" "c \<in> set (extract_columns sg (p_ast p))"
  shows "column_resolved sg m (p_ast p) c"
proof -
  let ?a = "build_alias_map sg (p_ast p)" and ?l = "local_scope_names sg (p_ast p)"
  let ?sc = "remdups (filter (\<lambda>t. t \<notin> set ?l) (map snd ?a))"
  let ?f = "column_issues m ?a ?l ?sc (output_aliases sg (p_ast p))"
  from assms(1) obtain isss where isss: "rmap ?f (extract_columns sg (p_ast p)) = Inr isss" "iss = concat isss"
    unfolding column_validator_def Let_def rbind_Inr_iff by blast
  obtain ci where ci: "?f c = Inr ci" "ci \<in> set isss" using rmap_Inr [OF isss(1) assms(3)] by blast
  have harmless: "harmless ci" using assms(2) ci(2) unfolding isss(2) by (simp only: set_concat) blast
  show ?thesis
  proof (cases "cr_qualifier c")
    case None
    have "set ?sc \<subseteq> snd ` set ?a" by auto
    then show ?thesis
      using column_issues_bare [OF ci(1) harmless None] None unfolding column_resolved_def
      by (simp only: option.case) blast
  next
    case (Some q)
    then show ?thesis
      using column_issues_qualified [OF ci(1) harmless Some] by (simp add: column_resolved_def)
  qed
qed

lemma function_ok:
  assumes "function_validator sg p = Inr iss" "harmless iss"
  shows "\<exists>fs. extract_functions sg (p_dialect p) (p_ast p) = Inr fs \<and> set fs \<subseteq> APPROVED_FUNCTIONS"
  using assms by (auto simp: function_validator_def result_simps)

lemma dialect_ok:
  assumes "dialect_validator sg d p = Inr iss" "harmless iss"
  shows "p_dialect p = d \<and> CHR 0x60 \<notin> set (p_raw_sql p)"
  using assms by (auto simp: dialect_validator_def result_simps split: if_splits)

section \<open>A valid verdict\<close>

definition respects_schema :: "'n sqlglot \<Rightarrow> metadata_registry \<Rightarrow> generated_sql \<Rightarrow> bool" where
  "respects_schema sg m g \<longleftrightarrow> g_dialect g = PostgreSQL \<and> CHR 0x60 \<notin> set (g_sql g) \<and>
      (\<exists>ast. sg_parse_one sg ''postgres'' (g_sql g) = Inr ast \<and> sg_isa sg N_Select ast \<and>
        (\<forall>t\<in>set (extract_tables sg ast). tr_name t \<in> set (local_scope_names sg ast) \<or>
           (\<exists>tm. get_table m (tr_name t) = Inr tm)) \<and>
        (\<forall>c\<in>set (extract_columns sg ast). column_resolved sg m ast c) \<and>
        (\<exists>fs. extract_functions sg ''postgres'' ast = Inr fs \<and> set fs \<subseteq> APPROVED_FUNCTIONS))"

lemma valid_respects_schema:
  assumes "validate_sql sg order (build_default_registry sg order m k gr) l dur g = Inr r"
    and "vr_is_valid r"
  shows "respects_schema sg m g"
proof -
  obtain ast where parse: "sg_parse_one sg (SQLGLOT_DIALECTS (g_dialect g)) (g_sql g) = Inr ast"
    and run: "\<And>name v. (name, v) \<in> set (build_default_registry sg order m k gr) \<Longrightarrow>
       \<exists>iss. v \<lparr> p_ast = ast, p_dialect = SQLGLOT_DIALECTS (g_dialect g), p_raw_sql = g_sql g \<rparr> = Inr iss
         \<and> (\<forall>i\<in>set iss. vi_severity i \<noteq> ERROR)"
    using valid_run [OF assms] by blast
  let ?p = "\<lparr> p_ast = ast, p_dialect = SQLGLOT_DIALECTS (g_dialect g), p_raw_sql = g_sql g \<rparr>"
  have mem: "(''syntax'', syntax_validator sg) \<in> set (build_default_registry sg order m k gr)"
    "(''schema'', schema_validator sg m) \<in> set (build_default_registry sg order m k gr)"
    "(''column'', column_validator sg m) \<in> set (build_default_registry sg order m k gr)"
    "(''function'', function_validator sg) \<in> set (build_default_registry sg order m k gr)"
    "(''dialect'', dialect_validator sg ''postgres'') \<in> set (build_default_registry sg order m k gr)"
    by (simp_all add: build_default_registry_def)
  have dia: "SQLGLOT_DIALECTS (g_dialect g) = ''postgres'' \<and> CHR 0x60 \<notin> set (g_sql g)"
    using run [OF mem(5)] dialect_ok [of sg "''postgres''" ?p] by auto
  then have "g_dialect g = PostgreSQL" by (cases "g_dialect g") (auto simp: SQLGLOT_DIALECTS_def)
  moreover have "sg_isa sg N_Select ast"
    using run [OF mem(1)] syntax_ok [of sg ?p] by auto
  moreover have "\<forall>t\<in>set (extract_tables sg ast). tr_name t \<in> set (local_scope_names sg ast) \<or>
      (\<exists>tm. get_table m (tr_name t) = Inr tm)"
    using run [OF mem(2)] schema_ok [of sg m ?p] by fastforce
  moreover have "\<exists>fs. extract_functions sg ''postgres'' ast = Inr fs \<and> set fs \<subseteq> APPROVED_FUNCTIONS"
    using run [OF mem(4)] function_ok [of sg ?p] dia by auto
  moreover have "\<forall>c\<in>set (extract_columns sg ast). column_resolved sg m ast c"
    using run [OF mem(3)] column_ok [of sg m ?p] by fastforce
  ultimately show ?thesis using parse dia by (simp add: respects_schema_def)
qed

text \<open>
  C38. If the engine with its default validators finds a statement valid, then it parses, in the
  PostgreSQL dialect, to a SELECT without back ticks; every table it names is in the loaded schema,
  unless the name is that of a common table expression or derived table of the statement; every
  qualified column names a table or alias of the statement and a column of that table (unless
  local); every other column is an output alias or a column of a table in scope; and every function
  is approved.
\<close>
theorem valid_sql_respects_schema:
  assumes "validate_sql sg order (build_default_registry sg order m k gr) l dur g = Inr r"
    and "vr_is_valid r"
  shows "g_dialect g = PostgreSQL \<and> CHR 0x60 \<notin> set (g_sql g) \<and>
    (\<exists>ast. sg_parse_one sg ''postgres'' (g_sql g) = Inr ast \<and> sg_isa sg N_Select ast \<and>
      (\<forall>t\<in>set (extract_tables sg ast). tr_name t \<in> set (local_scope_names sg ast) \<or>
         (\<exists>tm. get_table m (tr_name t) = Inr tm)) \<and>
      (\<forall>c\<in>set (extract_columns sg ast). column_resolved sg m ast c) \<and>
      (\<exists>fs. extract_functions sg ''postgres'' ast = Inr fs \<and> set fs \<subseteq> APPROVED_FUNCTIONS))"
  by (rule valid_respects_schema [OF assms, unfolded respects_schema_def])

section \<open>A concrete parser\<close>

text \<open>A one-statement parser for the witnesses: a SELECT of one column from one table.\<close>

datatype demo_node = DSelect | DTable string | DColumn string

definition demo_sqlglot :: "demo_node sqlglot" where
  "demo_sqlglot = \<lparr> sg_parse_one = (\<lambda>d s. Inr DSelect), sg_parse = (\<lambda>d s. Inr [Some DSelect]),
     sg_isa = (\<lambda>c n. case n of DSelect \<Rightarrow> c = N_Select | DTable _ \<Rightarrow> c = N_Table | DColumn _ \<Rightarrow> c = N_Column),
     sg_type_name = (\<lambda>n. ''Select''),
     sg_walk = (\<lambda>n. case n of DSelect \<Rightarrow> [DSelect, DTable ''orders'', DColumn ''total''] | _ \<Rightarrow> [n]),
     sg_name = (\<lambda>n. case n of DTable t \<Rightarrow> t | DColumn c \<Rightarrow> c | DSelect \<Rightarrow> []),
     sg_alias = (\<lambda>n. []), sg_table = (\<lambda>n. []), sg_this = (\<lambda>n. None), sg_arg = (\<lambda>a n. None),
     sg_expressions = (\<lambda>n. case n of DSelect \<Rightarrow> [DColumn ''total''] | _ \<Rightarrow> []),
     sg_parent = (\<lambda>n. None), sg_has_ancestor = (\<lambda>c n. False), sg_kind = (\<lambda>n. []), sg_side = (\<lambda>n. []),
     sg_sql = (\<lambda>d b n. Inr ''x'') \<rparr>"

definition demo_metadata :: metadata_registry where
  "demo_metadata = Some \<lparr> db_tables = [demo_table], db_relationships = [], db_enums = [], db_generated_at = 0 \<rparr>"

definition demo_knowledge :: knowledge_registry where
  "demo_knowledge = Some \<lparr> bk_concepts = [], bk_loaded_at = 0 \<rparr>"

definition demo_graph :: relationship_graph where
  "demo_graph = make_graph [''orders''] []"

definition demo_metrics :: generation_metrics where
  "demo_metrics = \<lparr> gm_provider = CLAUDE, gm_model = ''m'', gm_latency_ms = 1,
     gm_token_usage = \<lparr> tk_prompt_tokens = 1, tk_completion_tokens = 1 \<rparr>, gm_retry_count = 0,
     gm_finish_reason = COMPLETE \<rparr>"

definition demo_sql :: generated_sql where
  "demo_sql = \<lparr> g_sql = ''SELECT total FROM orders;'', g_statement_type = ST_Select,
     g_raw_llm_content = ''SELECT total FROM orders'', g_dialect = PostgreSQL, g_llm_metrics = demo_metrics,
     g_statistics = generation_statistics RAW_TEXT ''SELECT total FROM orders'' ''SELECT total FROM orders;'' 1 \<rparr>"

abbreviation demo_registry :: "demo_node validator_registry" where
  "demo_registry \<equiv> build_default_registry demo_sqlglot sorted_list_of_set demo_metadata demo_knowledge demo_graph"

definition demo_parsed :: "demo_node parsed_sql" where
  "demo_parsed = \<lparr> p_ast = DSelect, p_dialect = ''postgres'', p_raw_sql = g_sql demo_sql \<rparr>"

lemma demo_references:
  "extract_tables demo_sqlglot DSelect = [\<lparr> tr_name = ''orders'', tr_alias = None, tr_node = DTable ''orders'' \<rparr>]"
  "extract_columns demo_sqlglot DSelect = [\<lparr> cr_name = ''total'', cr_qualifier = None, cr_node = DColumn ''total'' \<rparr>]"
  "local_scope_names demo_sqlglot DSelect = []" "derived_table_aliases demo_sqlglot DSelect = []"
  "find_all demo_sqlglot N_Func DSelect = []" "find_all demo_sqlglot N_Join DSelect = []"
  "find_all demo_sqlglot N_AggFunc DSelect = []" "find_first demo_sqlglot [N_AggFunc] DSelect = None"
  "output_aliases demo_sqlglot DSelect = []"
  by (simp_all add: extract_tables_def extract_columns_def local_scope_names_def cte_names_def
      derived_table_aliases_def find_all_def find_first_def output_aliases_def demo_sqlglot_def none_if_empty_def)

lemma demo_alias_map: "build_alias_map demo_sqlglot DSelect = [(''orders'', ''orders'')]"
  by (simp add: build_alias_map_def demo_references)

lemma demo_schema: "list_tables demo_metadata = Inr [''orders'']" "get_table demo_metadata ''orders'' = Inr demo_table"
  by (simp_all add: list_tables_def get_table_def demo_metadata_def require_metadata_def value_cache_get_def
      demo_table_def next_where_def)

lemma demo_sqlglot_fields:
  "sg_isa demo_sqlglot N_Select DSelect" "sg_arg demo_sqlglot a n = None" "sg_sql demo_sqlglot d b n = Inr ''x''"
  "sg_parse_one demo_sqlglot d' t = Inr DSelect"
  by (simp_all add: demo_sqlglot_def)

lemma demo_column_exists: "column_exists demo_metadata ''orders'' ''total'' = Inr True"
  by (simp add: column_exists_def demo_schema) (simp add: demo_table_def demo_column_def)

lemma demo_knowledge_metrics: "list_metrics demo_knowledge = Inr []"
  by (simp add: list_metrics_def find_concepts_def demo_knowledge_def require_knowledge_def value_cache_get_def)

lemmas demo_facts = demo_references demo_alias_map demo_schema demo_sqlglot_fields demo_column_exists
  demo_knowledge_metrics registry_result_def

text \<open>The validators look at the text only for back ticks.\<close>

abbreviation demo_parse_of :: "string \<Rightarrow> demo_node parsed_sql" where
  "demo_parse_of t \<equiv> \<lparr> p_ast = DSelect, p_dialect = ''postgres'', p_raw_sql = t \<rparr>"

lemma demo_validators:
  "syntax_validator demo_sqlglot (demo_parse_of t) = Inr []"
  "schema_validator demo_sqlglot demo_metadata (demo_parse_of t) = Inr []"
  "table_validator demo_sqlglot sorted_list_of_set demo_metadata (demo_parse_of t) = Inr []"
  "column_validator demo_sqlglot demo_metadata (demo_parse_of t) = Inr []"
  "join_validator demo_sqlglot sorted_list_of_set demo_graph (demo_parse_of t) = Inr []"
  "function_validator demo_sqlglot (demo_parse_of t) = Inr []"
  "aggregate_validator demo_sqlglot (demo_parse_of t) = Inr []"
  "alias_validator demo_sqlglot (demo_parse_of t) = Inr []"
  "business_rule_validator demo_sqlglot demo_knowledge (demo_parse_of t) = Inr []"
  "CHR 0x60 \<notin> set t \<Longrightarrow> dialect_validator demo_sqlglot ''postgres'' (demo_parse_of t) = Inr []"
  by (simp_all add: syntax_validator_def schema_validator_def schema_table_issues_def
      schema_column_issues_def table_validator_def column_validator_def column_issues_def join_validator_def
      extract_joins_def function_validator_def extract_functions_def aggregate_validator_def
      check_group_by_def check_having_def check_nested_aggregates_def alias_validator_def
      business_rule_validator_def dialect_validator_def repeated_def table_aliases_def map_filter_simps
      demo_facts)

lemma demo_verdict_of:
  assumes "g_dialect g = PostgreSQL" "CHR 0x60 \<notin> set (g_sql g)"
  shows "validate_sql demo_sqlglot sorted_list_of_set demo_registry l dur g =
     Inr (build_result g [] [''orders''] [''total''] [] 0
       (map (\<lambda>(name, v). \<lparr> vt_validator = name, vt_duration_ms = dur name \<rparr>) demo_registry) l)"
proof -
  have "parse_sql demo_sqlglot (g_sql g) (SQLGLOT_DIALECTS (g_dialect g)) = Inr (demo_parse_of (g_sql g))"
    by (simp add: parse_sql_def demo_facts SQLGLOT_DIALECTS_def assms)
  moreover have "concat (map (run_validator (demo_parse_of (g_sql g))) demo_registry) = []"
    by (simp add: build_default_registry_def run_validator_def demo_validators assms)
  ultimately show ?thesis
    by (simp only: validate_sql_def Let_def sum.case) (simp add: extract_functions_def extract_joins_def demo_facts)
qed

lemma demo_verdict:
  "validate_sql demo_sqlglot sorted_list_of_set demo_registry 0 (\<lambda>_. 0) demo_sql =
     Inr (build_result demo_sql [] [''orders''] [''total''] [] 0
       (map (\<lambda>(name, v). \<lparr> vt_validator = name, vt_duration_ms = 0 \<rparr>) demo_registry) 0)"
  by (rule demo_verdict_of) (simp_all add: demo_sql_def)

theorem valid_sql_respects_schema_witness:
  "vr_is_valid (build_result demo_sql [] [''orders''] [''total''] [] 0
       (map (\<lambda>(name, v). \<lparr> vt_validator = name, vt_duration_ms = 0 \<rparr>) demo_registry) 0) \<and>
   g_dialect demo_sql = PostgreSQL"
  using valid_sql_respects_schema [OF demo_verdict] by simp

section \<open>Crashing validators\<close>

text \<open>
  When a statement parses, every registered validator runs, whatever the others do: the report
  has one execution time per validator in registry order and all issues of each validator that
  returned. A validator that raises makes the verdict invalid through an issue naming it.
\<close>
theorem crash_isolated:
  assumes "validate_sql sg order reg l dur g = Inr r"
    and "parse_sql sg (g_sql g) (SQLGLOT_DIALECTS (g_dialect g)) = Inr parsed"
  shows "map vt_validator (vs_validator_execution_times (vr_validation_statistics r)) = map fst reg
    \<and> (\<forall>(name, v) \<in> set reg. case v parsed of
         Inr iss \<Rightarrow> set iss \<subseteq> set (vr_errors r) \<union> set (vr_warnings r)
       | Inl e \<Rightarrow> \<not> vr_is_valid r \<and>
           \<lparr> vi_code = ''validator_internal_error'', vi_severity = ERROR, vi_related_object = Some name \<rparr>
             \<in> set (vr_errors r))"
proof -
  from assms obtain fs a b c d where r: "r = build_result g (concat (map (run_validator parsed) reg)) a b fs c
      (map (\<lambda>(name, v). \<lparr> vt_validator = name, vt_duration_ms = dur name \<rparr>) reg) d"
    by (auto simp: validate_sql_def Let_def result_simps)
  have sev: "vi_severity i = ERROR \<or> vi_severity i = WARNING" for i :: validation_issue
    by (cases "vi_severity i") auto
  have one: "case v parsed of Inr iss \<Rightarrow> set iss \<subseteq> set (vr_errors r) \<union> set (vr_warnings r)
       | Inl e \<Rightarrow> \<not> vr_is_valid r \<and> err ''validator_internal_error'' name \<in> set (vr_errors r)"
    if "(name, v) \<in> set reg" for name v
  proof -
    have sub: "set (run_validator parsed (name, v)) \<subseteq> set (concat (map (run_validator parsed) reg))"
      using that by auto
    show ?thesis
    proof (cases "v parsed")
      case (Inr iss)
      then have "set iss \<subseteq> set (concat (map (run_validator parsed) reg))"
        using sub by (simp add: run_validator_def)
      moreover have "set is \<subseteq> set (filter (\<lambda>i. vi_severity i = ERROR) is)
          \<union> set (filter (\<lambda>i. vi_severity i = WARNING) is)" for "is" :: "validation_issue list"
        using sev by auto
      ultimately show ?thesis using Inr unfolding r by (simp only: sum.case vr_fields_build_result) blast
    next
      case (Inl e)
      then have "err ''validator_internal_error'' name \<in> set (concat (map (run_validator parsed) reg))"
        using sub by (simp add: run_validator_def)
      then show ?thesis
        using Inl unfolding r vr_is_valid_build_result vr_fields_build_result
        by (simp only: sum.case set_filter) force
    qed
  qed
  have "map vt_validator (vs_validator_execution_times (vr_validation_statistics r)) = map fst reg"
    by (simp add: r comp_def case_prod_beta)
  with one show ?thesis by blast
qed

text \<open>A registry whose first validator raises, because no schema was loaded.\<close>

definition crashing_registry :: "demo_node validator_registry" where
  "crashing_registry = [(''schema'', schema_validator demo_sqlglot None), (''syntax'', syntax_validator demo_sqlglot)]"

theorem crash_isolated_witness:
  "\<exists>r. validate_sql demo_sqlglot sorted_list_of_set crashing_registry 0 (\<lambda>_. 0) demo_sql = Inr r
     \<and> \<not> vr_is_valid r"
proof -
  have p: "parse_sql demo_sqlglot (g_sql demo_sql) (SQLGLOT_DIALECTS (g_dialect demo_sql)) = Inr demo_parsed"
    by (simp add: parse_sql_def demo_facts demo_parsed_def SQLGLOT_DIALECTS_def demo_sql_def)
  then obtain r where r: "validate_sql demo_sqlglot sorted_list_of_set crashing_registry 0 (\<lambda>_. 0) demo_sql = Inr r"
    by (simp add: validate_sql_def Let_def extract_functions_def demo_parsed_def demo_facts)
  have "schema_validator demo_sqlglot None demo_parsed = Inl (VE_Registry MetadataNotLoadedError)"
    by (simp add: schema_validator_def registry_result_def list_tables_def require_metadata_def
        value_cache_get_def Let_def)
  with crash_isolated [OF r p] r show ?thesis by (auto simp: crashing_registry_def)
qed

section \<open>The blind spot of the table check\<close>

text \<open>
  No validator reports a table as unknown, or checks a column qualified by it, when its name
  is also the alias of a subquery or the name of a common table expression anywhere in the
  statement, even where the reference stands outside that scope and means a table of the database.
\<close>
theorem shadowed_table_accepted:
  assumes "n \<in> set (local_scope_names sg (p_ast p))"
    and "schema_validator sg m p = Inr iss" and "table_validator sg order m p = Inr iss'"
  shows "\<lparr> vi_code = ''unknown_table'', vi_severity = ERROR, vi_related_object = Some n \<rparr> \<notin> set iss \<union> set iss'
    \<and> (\<forall>c q. cr_qualifier c = Some q \<and> map_of (build_alias_map sg (p_ast p)) q = Some n \<longrightarrow>
         column_issues m (build_alias_map sg (p_ast p)) (local_scope_names sg (p_ast p)) sc outs c = Inr [])"
proof
  have t: "err ''unknown_table'' n \<notin> set (schema_table_issues sg (local_scope_names sg (p_ast p)) known t)" for known t
    using assms(1) by (auto simp: schema_table_issues_def split: option.splits if_splits)
  have c: "err ''unknown_table'' n \<notin> set ci" if "schema_column_issues m ln kn am col = Inr ci"
    for ci ln kn am and col :: "'a column_reference"
    using that by (auto simp: schema_column_issues_def result_simps split: option.splits if_splits)
  have rm: "\<forall>ci\<in>set cis. err ''unknown_table'' n \<notin> set ci" if "rmap (schema_column_issues m ln kn am) cols = Inr cis"
    for cis ln kn am and cols :: "'a column_reference list"
    using that c by (induction cols arbitrary: cis) (auto simp: result_simps)
  have "err ''unknown_table'' n \<notin> set iss"
    using assms(2) t rm by (auto simp: schema_validator_def Let_def result_simps)
  moreover have "err ''unknown_table'' n \<notin> set iss'"
    using assms(1,3) by (auto simp: table_validator_def Let_def result_simps)
  ultimately show "err ''unknown_table'' n \<notin> set iss \<union> set iss'" by simp
  show "\<forall>c q. cr_qualifier c = Some q \<and> map_of (build_alias_map sg (p_ast p)) q = Some n \<longrightarrow>
         column_issues m (build_alias_map sg (p_ast p)) (local_scope_names sg (p_ast p)) sc outs c = Inr []"
    using assms(1) by (simp add: column_issues_def)
qed

text \<open>
  The witness: a statement that reads the table \<open>secret\<close> under an alias and has a subquery of
  that name; the schema has no such table.
\<close>

definition shadow_sqlglot :: "demo_node sqlglot" where
  "shadow_sqlglot = demo_sqlglot \<lparr>
     sg_isa := (\<lambda>c n. case n of DSelect \<Rightarrow> c = N_Select | DTable _ \<Rightarrow> c = N_Table | DColumn _ \<Rightarrow> c = N_Subquery),
     sg_walk := (\<lambda>n. [DSelect, DTable ''secret'', DColumn ''secret'']),
     sg_alias := (\<lambda>n. case n of DTable _ \<Rightarrow> ''s'' | DColumn _ \<Rightarrow> ''secret'' | DSelect \<Rightarrow> []) \<rparr>"

theorem shadowed_table_accepted_witness:
  "schema_validator shadow_sqlglot demo_metadata demo_parsed = Inr []
   \<and> (\<exists>iss. table_validator shadow_sqlglot sorted_list_of_set demo_metadata demo_parsed = Inr iss
        \<and> err ''unknown_table'' ''secret'' \<notin> set iss)
   \<and> get_table demo_metadata ''secret'' = Inl (TableNotFoundError ''secret'')"
proof -
  have refs: "find_all shadow_sqlglot N_Table DSelect = [DTable ''secret'']" "find_all shadow_sqlglot N_Column DSelect = []"
    "find_all shadow_sqlglot N_Subquery DSelect = [DColumn ''secret'']"
    by (simp_all add: find_all_def shadow_sqlglot_def)
  have local: "''secret'' \<in> set (local_scope_names shadow_sqlglot (p_ast demo_parsed))"
    by (simp add: local_scope_names_def derived_table_aliases_def demo_parsed_def refs)
      (simp add: shadow_sqlglot_def)
  have schema: "schema_validator shadow_sqlglot demo_metadata demo_parsed = Inr []"
    using local by (simp add: schema_validator_def Let_def demo_schema registry_result_def extract_columns_def
        extract_tables_def schema_table_issues_def demo_parsed_def refs)
      (simp add: shadow_sqlglot_def demo_sqlglot_def)
  obtain iss where "table_validator shadow_sqlglot sorted_list_of_set demo_metadata demo_parsed = Inr iss"
    by (simp add: table_validator_def Let_def demo_schema registry_result_def)
  moreover have "err ''unknown_table'' ''secret'' \<notin> set [] \<union> set iss"
    using shadowed_table_accepted [OF local schema calculation, of "[]" "[]"] by (rule conjunct1)
  moreover have "get_table demo_metadata ''secret'' = Inl (TableNotFoundError ''secret'')"
    by (simp add: get_table_def demo_metadata_def require_metadata_def value_cache_get_def demo_table_def next_where_def)
  ultimately show ?thesis using schema by auto
qed

end
