(* ===== verification/Sql_Repair.thy ===== *)
theory Sql_Repair
  imports Validation_Properties Prompt_Properties
begin

text \<open>
  SQL repair (\<open>sql_repair/\<close>): the planner that groups validation issues by reason, the repair
  prompt, the strategy that decides whether to go on, and the engine's loop of prompt, model call,
  extraction and validation. The model call and the validation engine act on an arbitrary world.
\<close>

section \<open>Models (models.py, exceptions.py)\<close>

datatype repair_reason = UNKNOWN_TABLE | UNKNOWN_COLUMN | SCHEMA_ISSUE | INVALID_JOIN
  | MISSING_GROUP_BY | AGGREGATE_ERROR | ALIAS_ISSUE | UNSUPPORTED_FUNCTION | DIALECT_ISSUE
  | BUSINESS_RULE_MISMATCH | UNSUPPORTED_STATEMENT | SYNTAX_ERROR | OTHER

fun repair_reason_value :: "repair_reason \<Rightarrow> string" where
  "repair_reason_value UNKNOWN_TABLE = ''unknown_table''"
| "repair_reason_value UNKNOWN_COLUMN = ''unknown_column''"
| "repair_reason_value SCHEMA_ISSUE = ''schema_issue''"
| "repair_reason_value INVALID_JOIN = ''invalid_join''"
| "repair_reason_value MISSING_GROUP_BY = ''missing_group_by''"
| "repair_reason_value AGGREGATE_ERROR = ''aggregate_error''"
| "repair_reason_value ALIAS_ISSUE = ''alias_issue''"
| "repair_reason_value UNSUPPORTED_FUNCTION = ''unsupported_function''"
| "repair_reason_value DIALECT_ISSUE = ''dialect_issue''"
| "repair_reason_value BUSINESS_RULE_MISMATCH = ''business_rule_mismatch''"
| "repair_reason_value UNSUPPORTED_STATEMENT = ''unsupported_statement''"
| "repair_reason_value SYNTAX_ERROR = ''syntax_error''"
| "repair_reason_value OTHER = ''other''"

datatype repair_status = REPAIRED | MAX_ATTEMPTS_REACHED | NO_PROGRESS | UNREPAIRABLE

record repair_attempt =
  ra_attempt_number :: nat
  ra_repair_reason :: repair_reason
  ra_input_sql :: string
  ra_repaired_sql :: string
  ra_validation_result :: sql_validation_result
  ra_prompt_version :: string
  ra_llm_metrics :: generation_metrics
  ra_success :: bool

record repair_statistics =
  rps_attempt_count :: nat
  rps_successful_repairs :: nat
  rps_failed_repairs :: nat
  rps_repair_latency_ms :: real
  rps_average_validation_latency_ms :: real

record sql_repair_result =
  rr_original_sql :: generated_sql
  rr_final_sql :: generated_sql
  rr_final_validation_result :: sql_validation_result
  rr_history :: "repair_attempt list"
  rr_statistics :: repair_statistics
  rr_status :: repair_status

datatype repair_error = SQLRepairConfigurationError | RepairedSQLExtractionError
  | RepairLLMError llm_error | RepairValidationError validation_error

section \<open>Planner (planner.py)\<close>

definition ISSUE_CODE_TO_REASON :: "(string \<times> repair_reason) list" where
  "ISSUE_CODE_TO_REASON = [(''sql_syntax_error'', SYNTAX_ERROR),
     (''unsupported_statement_type'', UNSUPPORTED_STATEMENT), (''unknown_table'', UNKNOWN_TABLE),
     (''unknown_schema'', SCHEMA_ISSUE), (''ambiguous_table_reference'', SCHEMA_ISSUE),
     (''unknown_column'', UNKNOWN_COLUMN), (''ambiguous_column'', UNKNOWN_COLUMN),
     (''invalid_qualification'', ALIAS_ISSUE), (''duplicate_table_alias'', ALIAS_ISSUE),
     (''duplicate_alias'', ALIAS_ISSUE), (''unknown_alias'', ALIAS_ISSUE),
     (''unknown_join_relationship'', INVALID_JOIN), (''join_columns_do_not_match_relationship'', INVALID_JOIN),
     (''missing_group_by'', MISSING_GROUP_BY), (''having_without_aggregation'', AGGREGATE_ERROR),
     (''nested_aggregate'', AGGREGATE_ERROR), (''unsupported_function'', UNSUPPORTED_FUNCTION),
     (''unsupported_dialect'', DIALECT_ISSUE), (''unsupported_dialect_construct'', DIALECT_ISSUE),
     (''business_metric_schema_mismatch'', BUSINESS_RULE_MISMATCH)]"

fun priority_for :: "repair_reason \<Rightarrow> nat" where
  "priority_for SYNTAX_ERROR = 0"
| "priority_for UNSUPPORTED_STATEMENT = 1"
| "priority_for UNKNOWN_TABLE = 2"
| "priority_for SCHEMA_ISSUE = 3"
| "priority_for UNKNOWN_COLUMN = 4"
| "priority_for ALIAS_ISSUE = 5"
| "priority_for INVALID_JOIN = 6"
| "priority_for MISSING_GROUP_BY = 7"
| "priority_for AGGREGATE_ERROR = 8"
| "priority_for UNSUPPORTED_FUNCTION = 9"
| "priority_for DIALECT_ISSUE = 10"
| "priority_for BUSINESS_RULE_MISMATCH = 11"
| "priority_for OTHER = 99"

definition UNREPAIRABLE_CODES :: "string set" where
  "UNREPAIRABLE_CODES = {''validator_internal_error''}"

record repair_category =
  rcat_reason :: repair_reason
  rcat_priority :: nat
  rcat_issues :: "validation_issue list"

record repair_plan =
  rpl_categories :: "repair_category list"
  rpl_primary_reason :: repair_reason
  rpl_summary :: string
  rpl_is_repairable :: bool

definition reason_of :: "validation_issue \<Rightarrow> repair_reason" where
  "reason_of issue = (case map_of ISSUE_CODE_TO_REASON (vi_code issue) of Some r \<Rightarrow> r | None \<Rightarrow> OTHER)"

fun group_issues :: "validation_issue list \<Rightarrow> (repair_reason \<times> validation_issue list) list \<Rightarrow>
    (repair_reason \<times> validation_issue list) list" where
  "group_issues [] grouped = grouped"
| "group_issues (i # is) grouped =
     group_issues is (AList.update (reason_of i)
       ((case map_of grouped (reason_of i) of None \<Rightarrow> [] | Some js \<Rightarrow> js) @ [i]) grouped)"

definition build_summary :: "repair_category list \<Rightarrow> string" where
  "build_summary categories = ''Repair needed: '' @
     join '', '' (map (\<lambda>c. repair_reason_value (rcat_reason c) @ '' ('' @ str_nat (length (rcat_issues c)) @ '')'') categories)
     @ ''.''"

definition plan :: "sql_validation_result \<Rightarrow> repair_plan" where
  "plan v =
     (let issues = (if vr_errors v \<noteq> [] then vr_errors v else vr_warnings v) in
      if issues = [] then \<lparr> rpl_categories = [], rpl_primary_reason = OTHER,
           rpl_summary = ''No validation issues to repair.'', rpl_is_repairable = False \<rparr>
      else let categories = map (\<lambda>(r, is). \<lparr> rcat_reason = r, rcat_priority = priority_for r, rcat_issues = is \<rparr>)
                              (sort_key (\<lambda>(r, is). priority_for r) (group_issues issues []))
           in \<lparr> rpl_categories = categories, rpl_primary_reason = rcat_reason (hd categories),
                rpl_summary = build_summary categories,
                rpl_is_repairable = (\<not> (\<forall>i\<in>set issues. vi_code i \<in> UNREPAIRABLE_CODES)) \<rparr>)"

section \<open>Repair prompt (prompt_builder.py)\<close>

definition REPAIR_SYSTEM_PREAMBLE :: string where
  "REPAIR_SYSTEM_PREAMBLE =
     ''You are a precise SQL repair assistant for QueryMind. You will be given a '' @
     ''previously generated SQL query that failed validation, the exact validation '' @
     ''errors it produced, and the schema and relationships it must draw from. Your '' @
     ''job is to fix ONLY the reported errors.''"

definition REPAIR_RULES :: "string list" where
  "REPAIR_RULES = [
     ''Repair ONLY the reported validation errors -- do not rewrite unrelated parts of the query.'',
     ''Do not change the intended business question the query answers.'',
     ''Do not invent a table that was not already provided.'',
     ''Do not invent a column that was not already provided.'',
     ''Do not invent a relationship that was not already provided.'',
     ''Preserve the original query's intent.'',
     ''Return exactly one repaired SQL statement, and nothing else.'']"

definition build_repair_system :: section_builder where
  "build_repair_system bundle dialect = system_section REPAIR_SYSTEM_PREAMBLE"

text \<open>The text of an issue's message is the parameter \<open>message\<close>.\<close>

definition build_repair_context ::
  "(validation_issue \<Rightarrow> string) \<Rightarrow> generated_sql \<Rightarrow> sql_validation_result \<Rightarrow> repair_plan \<Rightarrow> section_builder" where
  "build_repair_context message g v pl bundle dialect =
     (let error_lines = map (\<lambda>i. ''- ['' @ vi_code i @ ''] '' @ message i) (vr_errors v)
      in example_section (''SQL requiring repair:'' @ newline @ g_sql g @ newline @ newline
           @ rpl_summary pl @ newline @ newline @ ''Validation errors:'' @ newline @ join newline error_lines) [])"

definition build_repair_constraints :: section_builder where
  "build_repair_constraints bundle dialect =
     constraint_section (join newline (map (\<lambda>r. ''- '' @ r) (CONSTRAINT_RULES @ REPAIR_RULES)))"

definition repair_prompt_template :: prompt_template where
  "repair_prompt_template = \<lparr> pt_version = ''1.0.0-repair'', pt_name = ''repair'',
     pt_section_specs = map (\<lambda>(n, h, i). \<lparr> sp_name = n, sp_header = h, sp_order = i,
         sp_include_by_default = True \<rparr>)
       [(System, ''# System Instructions'', 1),
        (Business_Context, ''## Business Context'', 2),
        (Schema_Context, ''## Schema Context'', 3),
        (Relationship, ''## Table Relationships'', 4),
        (Retrieved_Examples, ''## SQL Requiring Repair'', 5),
        (Constraint, ''## Repair Rules'', 6),
        (Output_Format, ''## Output Format'', 7)] \<rparr>"

definition repair_compiler ::
  "(validation_issue \<Rightarrow> string) \<Rightarrow> generated_sql \<Rightarrow> sql_validation_result \<Rightarrow> repair_plan \<Rightarrow> prompt_compiler" where
  "repair_compiler message g v pl = (default_compiler repair_prompt_template DEFAULT_MAX_TOKENS)
     \<lparr> pc_system_builder := build_repair_system, pc_example_builder := build_repair_context message g v pl,
       pc_constraint_builder := build_repair_constraints \<rparr>"

text \<open>A fresh compiler, and so an empty cache, for every attempt.\<close>

definition build_repair_prompt ::
  "content_hash \<Rightarrow> (validation_issue \<Rightarrow> string) \<Rightarrow> real \<Rightarrow> retrieved_knowledge_bundle \<Rightarrow> generated_sql \<Rightarrow>
   sql_validation_result \<Rightarrow> repair_plan \<Rightarrow> compiled_prompt" where
  "build_repair_prompt h message latency_ms bundle g v pl =
     fst (compile_prompt h (repair_compiler message g v pl) latency_ms bundle (g_dialect g) Map.empty)"

section \<open>Extraction (parser.py) and strategy (strategy.py)\<close>

definition extract_repaired :: "sql_dialect \<Rightarrow> llm_response \<Rightarrow> real \<Rightarrow> repair_error + generated_sql" where
  "extract_repaired dialect response latency_ms =
     (case sql_of_response dialect response latency_ms of Inl _ \<Rightarrow> Inl RepairedSQLExtractionError | Inr g \<Rightarrow> Inr g)"

definition repair_strategy :: "int \<Rightarrow> repair_error + nat" where
  "repair_strategy max_attempts = (if max_attempts < 1 then Inl SQLRepairConfigurationError else Inr (nat max_attempts))"

definition error_codes :: "repair_attempt \<Rightarrow> string set" where
  "error_codes a = vi_code ` set (vr_errors (ra_validation_result a))"

definition made_progress :: "repair_attempt \<Rightarrow> repair_attempt \<Rightarrow> bool" where
  "made_progress previous current = (error_codes current \<noteq> error_codes previous)"

text \<open>\<open>history[-2]\<close> is the last but one.\<close>

definition should_continue :: "nat \<Rightarrow> repair_attempt list \<Rightarrow> bool" where
  "should_continue max_attempts history =
     (if history = [] \<or> ra_success (last history) then False
      else if max_attempts \<le> length history then False
      else length history < 2 \<or> made_progress (last (butlast history)) (last history))"

definition final_status :: "nat \<Rightarrow> repair_attempt list \<Rightarrow> repair_status" where
  "final_status max_attempts history =
     (if history = [] then UNREPAIRABLE
      else if ra_success (last history) then REPAIRED
      else if 2 \<le> length history \<and> \<not> made_progress (last (butlast history)) (last history) then NO_PROGRESS
      else if max_attempts \<le> length history then MAX_ATTEMPTS_REACHED
      else UNREPAIRABLE)"

section \<open>The engine (engine.py)\<close>

record 'w repair_engine =
  rpe_content_hash :: content_hash
  rpe_message :: "validation_issue \<Rightarrow> string"
  rpe_perf_counter :: "'w \<Rightarrow> real"
  rpe_adapter :: "'w llm_call"
  rpe_validate :: "generated_sql \<Rightarrow> ('w, validation_error, sql_validation_result) op"
  rpe_max_attempts :: nat

text \<open>The body of one attempt, up to the new history entry.\<close>

definition repair_step ::
  "'w repair_engine \<Rightarrow> retrieved_knowledge_bundle \<Rightarrow> nat \<Rightarrow> repair_plan \<Rightarrow> generated_sql \<Rightarrow> sql_validation_result \<Rightarrow>
   ('w, repair_error, repair_attempt \<times> generated_sql \<times> sql_validation_result) op" where
  "repair_step eng bundle attempt_number pl current_sql current_validation w =
     (let prompt = build_repair_prompt (rpe_content_hash eng) (rpe_message eng) 0 bundle
                     current_sql current_validation pl
      in case rpe_adapter eng prompt w of
           (Inl e, w1) \<Rightarrow> (Inl (RepairLLMError e), w1)
         | (Inr response, w1) \<Rightarrow>
             (case extract_repaired (g_dialect current_sql) response 0 of
                Inl e \<Rightarrow> (Inl e, w1)
              | Inr repaired_sql \<Rightarrow>
                  (case rpe_validate eng repaired_sql w1 of
                     (Inl e, w2) \<Rightarrow> (Inl (RepairValidationError e), w2)
                   | (Inr new_validation, w2) \<Rightarrow>
                       (Inr (\<lparr> ra_attempt_number = attempt_number, ra_repair_reason = rpl_primary_reason pl,
                           ra_input_sql = g_sql current_sql, ra_repaired_sql = g_sql repaired_sql,
                           ra_validation_result = new_validation,
                           ra_prompt_version = cp_template_version prompt,
                           ra_llm_metrics = rs_metrics response,
                           ra_success = vr_is_valid new_validation \<rparr>, repaired_sql, new_validation), w2))))"

text \<open>The loop, which ends because \<open>should_continue\<close> is false from the last allowed attempt on.\<close>

function repair_loop ::
  "'w repair_engine \<Rightarrow> retrieved_knowledge_bundle \<Rightarrow> repair_attempt list \<Rightarrow> generated_sql \<Rightarrow> sql_validation_result \<Rightarrow>
   ('w, repair_error, repair_attempt list \<times> generated_sql \<times> sql_validation_result) op" where
  "repair_loop eng bundle history current_sql current_validation w =
     (let pl = plan current_validation in
      if \<not> rpl_is_repairable pl then (Inr (history, current_sql, current_validation), w)
      else case repair_step eng bundle (length history + 1) pl current_sql current_validation w of
             (Inl e, w') \<Rightarrow> (Inl e, w')
           | (Inr (attempt, repaired_sql, new_validation), w') \<Rightarrow>
               if should_continue (rpe_max_attempts eng) (history @ [attempt])
               then repair_loop eng bundle (history @ [attempt]) repaired_sql new_validation w'
               else (Inr (history @ [attempt], repaired_sql, new_validation), w'))"
  by pat_completeness auto
termination
  by (relation "measure (\<lambda>(eng, _, history, _). rpe_max_attempts eng - length history)")
    (auto simp: should_continue_def split: if_splits)

declare repair_loop.simps [simp del]

definition build_repair_statistics :: "repair_attempt list \<Rightarrow> real \<Rightarrow> repair_statistics" where
  "build_repair_statistics history latency_ms =
     (let successful = length (filter ra_success history) in
      \<lparr> rps_attempt_count = length history, rps_successful_repairs = successful,
        rps_failed_repairs = length history - successful, rps_repair_latency_ms = latency_ms,
        rps_average_validation_latency_ms =
          (if history = [] then 0
           else sum_list (map (\<lambda>a. vs_validation_latency_ms (vr_validation_statistics (ra_validation_result a))) history)
                / real (length history)) \<rparr>)"

definition repair ::
  "'w repair_engine \<Rightarrow> retrieved_knowledge_bundle \<Rightarrow> generated_sql \<Rightarrow> sql_validation_result \<Rightarrow>
   ('w, repair_error, sql_repair_result) op" where
  "repair eng bundle g v w =
     (case repair_loop eng bundle [] g v w of
        (Inl e, w') \<Rightarrow> (Inl e, w')
      | (Inr (history, final_sql, final_validation), w') \<Rightarrow>
          (Inr \<lparr> rr_original_sql = g, rr_final_sql = final_sql, rr_final_validation_result = final_validation,
             rr_history = history,
             rr_statistics = build_repair_statistics history ((rpe_perf_counter eng w' - rpe_perf_counter eng w) * 1000),
             rr_status = final_status (rpe_max_attempts eng) history \<rparr>, w'))"

end
