(* ===== verification/Sql_Execution.thy ===== *)
theory Sql_Execution
  imports Sql_Repair
begin

text \<open>
  Execution of generated SQL (\<open>sql_execution/\<close>): the execution guard, the read-only
  connection, the executor, the result formatter and the engine. The database driver is a record
  of operations on a world; a value of a row is of an arbitrary type. Message texts are dropped:
  an \<open>ExecutionError\<close> keeps the exception its message is made from.
\<close>

section \<open>Models and exceptions (models.py, exceptions.py)\<close>

text \<open>What the driver raises: \<open>TimeoutError\<close>, \<open>SQLAlchemyError\<close> or any other exception.\<close>

datatype db_exception = DB_Timeout | DB_SQLAlchemyError | DB_OtherException

datatype rejection_reason = Not_Validated | Empty_SQL | Statement_Count nat | Not_Select string | Write_Node string

datatype execution_exception = SQLExecutionConfigurationError | ExecutionRejectedError rejection_reason
  | DatabaseConnectionError | ExecutionTimeoutError | ExecutionFailureError | ResultFormattingError
  | XE_Sqlglot sqlglot_error | XE_Database db_exception

datatype execution_status = X_Success | X_Failed | X_Rejected | X_Timeout

record execution_error =
  ee_code :: string
  ee_cause :: execution_exception

record query_column =
  qcol_name :: string
  qcol_database_type :: string
  qcol_python_type :: string
  qcol_nullable :: "bool option"

record 'v query_row =
  qrow_values :: "'v list"

record 'v query_result =
  qr_columns :: "query_column list"
  qr_rows :: "'v query_row list"
  qr_row_count :: nat

record execution_statistics =
  xs_execution_latency_ms :: real
  xs_rows_returned :: nat
  xs_columns_returned :: nat
  xs_database_name :: string
  xs_dialect :: sql_dialect

record 'v sql_execution_result =
  xr_status :: execution_status
  xr_executed_sql :: string
  xr_query_result :: "'v query_result option"
  xr_statistics :: execution_statistics
  xr_execution_error :: "execution_error option"

section \<open>The guard (validator.py)\<close>

definition WRITE_NODE_TYPES :: "node_class list" where
  "WRITE_NODE_TYPES = [N_Insert, N_Update, N_Delete, N_Merge, N_Create, N_Alter, N_Drop, N_TruncateTable, N_Copy]"

definition DEFAULT_EXECUTION_TIMEOUT_SECONDS :: real where
  "DEFAULT_EXECUTION_TIMEOUT_SECONDS = 30"

record execution_permit =
  pm_sql :: string
  pm_timeout_seconds :: real

text \<open>The guard is the timeout its constructor accepted.\<close>

definition execution_guard :: "real \<Rightarrow> execution_exception + real" where
  "execution_guard timeout_seconds =
     (if timeout_seconds \<le> 0 then Inl SQLExecutionConfigurationError else Inr timeout_seconds)"

definition guard_statement :: "'n sqlglot \<Rightarrow> 'n \<Rightarrow> execution_exception + unit" where
  "guard_statement sg statement =
     (if \<not> sg_isa sg N_Select statement
      then Inl (ExecutionRejectedError (Not_Select (upper (sg_type_name sg statement))))
      else case find_first sg WRITE_NODE_TYPES statement of
             Some n \<Rightarrow> Inl (ExecutionRejectedError (Write_Node (upper (sg_type_name sg n))))
           | None \<Rightarrow> Inr ())"

definition guard_check ::
  "'n sqlglot \<Rightarrow> real \<Rightarrow> generated_sql \<Rightarrow> sql_validation_result \<Rightarrow> execution_exception + execution_permit" where
  "guard_check sg timeout_seconds g v =
     (if \<not> vr_is_valid v then Inl (ExecutionRejectedError Not_Validated)
      else let sql = strip (g_sql g) in
        if sql = [] then Inl (ExecutionRejectedError Empty_SQL)
        else case sg_parse sg (SQLGLOT_DIALECTS (g_dialect g)) sql of
               Inl e \<Rightarrow> Inl (XE_Sqlglot e)
             | Inr parsed \<Rightarrow>
                 (case List.map_filter id parsed of
                    [statement] \<Rightarrow> rbind (guard_statement sg statement)
                      (\<lambda>_. Inr \<lparr> pm_sql = sql, pm_timeout_seconds = timeout_seconds \<rparr>)
                  | statements \<Rightarrow> Inl (ExecutionRejectedError (Statement_Count (length statements)))))"

section \<open>Connection and executor (connection.py, executor.py)\<close>

text \<open>
  What a statement returns: its column names, the type codes of the cursor description if there
  is one, and its rows; reading the names and the rows may raise.
\<close>

record 'v cursor =
  cu_keys :: "db_exception + string list"
  cu_description :: "int option list option"
  cu_fetchall :: "db_exception + 'v list list"

text \<open>
  The driver. \<open>db_execute\<close> is \<open>connection.execute(text(sql), {})\<close> under \<open>wait_for\<close>: what SQLAlchemy makes of
  the text, the bind parameters it finds in it included, is part of the parameter.
\<close>

record ('w, 'v) database =
  db_name :: string
  db_connect :: "('w, db_exception, unit) op"
  db_set_readonly :: "('w, db_exception, unit) op"
  db_execute :: "string \<Rightarrow> real \<Rightarrow> ('w, db_exception, 'v cursor) op"
  db_close :: "('w, db_exception, unit) op"
  db_perf_counter :: "'w \<Rightarrow> real"

text \<open>Leaving the exit stack closes the connection; an exception there replaces the outcome.\<close>

definition close_after :: "('w, 'v) database \<Rightarrow> execution_exception + 'a \<Rightarrow> ('w, execution_exception, 'a) op" where
  "close_after db r w = (case db_close db w of (Inl e, w') \<Rightarrow> (Inl (XE_Database e), w') | (Inr _, w') \<Rightarrow> (r, w'))"

text \<open>\<open>async with acquire() as connection: body\<close>.\<close>

definition acquire :: "('w, 'v) database \<Rightarrow> ('w, execution_exception, 'a) op \<Rightarrow> ('w, execution_exception, 'a) op" where
  "acquire db body w =
     (case db_connect db w of
        (Inl _, w1) \<Rightarrow> (Inl DatabaseConnectionError, w1)
      | (Inr _, w1) \<Rightarrow>
          (case db_set_readonly db w1 of
             (Inl _, w2) \<Rightarrow> close_after db (Inl DatabaseConnectionError) w2
           | (Inr _, w2) \<Rightarrow> (case body w2 of (r, w3) \<Rightarrow> close_after db r w3)))"

record 'v raw_query_result =
  rq_column_names :: "string list"
  rq_column_type_oids :: "int option list"
  rq_rows :: "'v list list"
  rq_execution_latency_ms :: real

fun fetch_error :: "db_exception \<Rightarrow> execution_exception" where
  "fetch_error DB_SQLAlchemyError = ExecutionFailureError"
| "fetch_error e = XE_Database e"

fun statement_error :: "db_exception \<Rightarrow> execution_exception" where
  "statement_error DB_Timeout = ExecutionTimeoutError"
| "statement_error e = fetch_error e"

definition read_cursor :: "'v cursor \<Rightarrow> real \<Rightarrow> execution_exception + 'v raw_query_result" where
  "read_cursor cu latency_ms =
     (case cu_keys cu of
        Inl e \<Rightarrow> Inl (fetch_error e)
      | Inr column_names \<Rightarrow>
          (let type_oids = (case cu_description cu of Some d \<Rightarrow> d | None \<Rightarrow> map (\<lambda>_. None) column_names)
           in case cu_fetchall cu of
                Inl e \<Rightarrow> Inl (fetch_error e)
              | Inr rows \<Rightarrow> Inr \<lparr> rq_column_names = column_names, rq_column_type_oids = type_oids,
                    rq_rows = rows, rq_execution_latency_ms = latency_ms \<rparr>))"

definition execute_statement ::
  "('w, 'v) database \<Rightarrow> string \<Rightarrow> real \<Rightarrow> ('w, execution_exception, 'v raw_query_result) op" where
  "execute_statement db sql timeout_seconds w =
     (case db_execute db sql timeout_seconds w of
        (Inl e, w') \<Rightarrow> (Inl (statement_error e), w')
      | (Inr cu, w') \<Rightarrow> (read_cursor cu ((db_perf_counter db w' - db_perf_counter db w) * 1000), w'))"

section \<open>The formatter (formatter.py)\<close>

definition POSTGRES_OID_TYPES :: "(int, string \<times> string) dict" where
  "POSTGRES_OID_TYPES =
     [(16, ''boolean'', ''bool''), (20, ''bigint'', ''int''), (21, ''smallint'', ''int''),
      (23, ''integer'', ''int''), (25, ''text'', ''str''), (114, ''json'', ''dict''),
      (700, ''real'', ''float''), (701, ''double precision'', ''float''), (1042, ''char'', ''str''),
      (1043, ''varchar'', ''str''), (1082, ''date'', ''date''), (1083, ''time'', ''time''),
      (1114, ''timestamp'', ''datetime''), (1184, ''timestamptz'', ''datetime''),
      (1700, ''numeric'', ''Decimal''), (2950, ''uuid'', ''UUID''), (3802, ''jsonb'', ''dict'')]"

definition format_column :: "string \<Rightarrow> int option \<Rightarrow> query_column" where
  "format_column name type_oid =
     (let (database_type, python_type) =
            (case map_of POSTGRES_OID_TYPES (case type_oid of Some i \<Rightarrow> i | None \<Rightarrow> - 1) of
               Some p \<Rightarrow> p
             | None \<Rightarrow> (''oid:'' @ (case type_oid of Some i \<Rightarrow> str_int i | None \<Rightarrow> ''None''), ''object''))
      in \<lparr> qcol_name = name, qcol_database_type = database_type, qcol_python_type = python_type,
           qcol_nullable = None \<rparr>)"

definition format_result :: "'v raw_query_result \<Rightarrow> execution_exception + 'v query_result" where
  "format_result raw =
     (if length (rq_column_names raw) \<noteq> length (rq_column_type_oids raw) then Inl ResultFormattingError
      else let rows = map (\<lambda>r. \<lparr> qrow_values = r \<rparr>) (rq_rows raw) in
        Inr \<lparr> qr_columns = map2 format_column (rq_column_names raw) (rq_column_type_oids raw),
              qr_rows = rows, qr_row_count = length rows \<rparr>)"

section \<open>The engine (engine.py)\<close>

text \<open>The result of every outcome but success.\<close>

definition error_result ::
  "('w, 'v) database \<Rightarrow> generated_sql \<Rightarrow> execution_status \<Rightarrow> string \<Rightarrow> string \<Rightarrow> execution_exception \<Rightarrow> real \<Rightarrow>
   'v sql_execution_result" where
  "error_result db g status sql code cause latency_ms =
     \<lparr> xr_status = status, xr_executed_sql = sql, xr_query_result = None,
       xr_statistics = \<lparr> xs_execution_latency_ms = latency_ms, xs_rows_returned = 0, xs_columns_returned = 0,
         xs_database_name = db_name db, xs_dialect = g_dialect g \<rparr>,
       xr_execution_error = Some \<lparr> ee_code = code, ee_cause = cause \<rparr> \<rparr>"

definition success_result ::
  "('w, 'v) database \<Rightarrow> generated_sql \<Rightarrow> string \<Rightarrow> 'v query_result \<Rightarrow> real \<Rightarrow> 'v sql_execution_result" where
  "success_result db g sql qr latency_ms =
     \<lparr> xr_status = X_Success, xr_executed_sql = sql, xr_query_result = Some qr,
       xr_statistics = \<lparr> xs_execution_latency_ms = latency_ms, xs_rows_returned = qr_row_count qr,
         xs_columns_returned = length (qr_columns qr), xs_database_name = db_name db, xs_dialect = g_dialect g \<rparr>,
       xr_execution_error = None \<rparr>"

text \<open>What the engine does with the outcome of the connection block; other exceptions propagate.\<close>

definition conclude ::
  "('w, 'v) database \<Rightarrow> generated_sql \<Rightarrow> string \<Rightarrow> real \<Rightarrow> execution_exception + 'v raw_query_result \<Rightarrow>
   execution_exception + 'v sql_execution_result" where
  "conclude db g sql latency_ms raw_result =
     (case raw_result of
        Inl ExecutionTimeoutError \<Rightarrow>
          Inr (error_result db g X_Timeout sql ''execution_timeout'' ExecutionTimeoutError latency_ms)
      | Inl DatabaseConnectionError \<Rightarrow>
          Inr (error_result db g X_Failed sql ''database_connection_error'' DatabaseConnectionError latency_ms)
      | Inl ExecutionFailureError \<Rightarrow>
          Inr (error_result db g X_Failed sql ''execution_failed'' ExecutionFailureError latency_ms)
      | Inl e \<Rightarrow> Inl e
      | Inr raw \<Rightarrow>
          (case format_result raw of
             Inl e \<Rightarrow> Inr (error_result db g X_Failed sql ''result_formatting_failed'' e latency_ms)
           | Inr qr \<Rightarrow> Inr (success_result db g sql qr latency_ms)))"

definition execute_sql ::
  "'n sqlglot \<Rightarrow> ('w, 'v) database \<Rightarrow> real \<Rightarrow> generated_sql \<Rightarrow> sql_validation_result \<Rightarrow>
   ('w, execution_exception, 'v sql_execution_result) op" where
  "execute_sql sg db timeout_seconds g v w =
     (case guard_check sg timeout_seconds g v of
        Inl (ExecutionRejectedError reason) \<Rightarrow>
          (Inr (error_result db g X_Rejected (g_sql g) ''execution_rejected'' (ExecutionRejectedError reason) 0), w)
      | Inl e \<Rightarrow> (Inl e, w)
      | Inr permit \<Rightarrow>
          (case acquire db (execute_statement db (pm_sql permit) (pm_timeout_seconds permit)) w of
             (r, w') \<Rightarrow> (conclude db g (pm_sql permit) ((db_perf_counter db w' - db_perf_counter db w) * 1000) r, w')))"

definition execute_repair_result ::
  "'n sqlglot \<Rightarrow> ('w, 'v) database \<Rightarrow> real \<Rightarrow> sql_repair_result \<Rightarrow>
   ('w, execution_exception, 'v sql_execution_result) op" where
  "execute_repair_result sg db timeout_seconds r =
     execute_sql sg db timeout_seconds (rr_final_sql r) (rr_final_validation_result r)"

end
