(* ===== verification/Pipeline.thy ===== *)
theory Pipeline
  imports Sql_Execution
begin

text \<open>
  The orchestrator (\<open>orchestrator/\<close>): the pipeline runner and the engine in front of it. The
  collaborators of the runner are operations on a world that may raise; the local variables that
  the exception handlers read are a record threaded next to the world, so that a handler sees
  them as they were when the exception was raised.
\<close>

section \<open>Models, exceptions and events (models.py, exceptions.py, events.py)\<close>

datatype pipeline_stage = NLU | SCHEMA_LINKING | BUSINESS_KNOWLEDGE | RETRIEVAL | PROMPT_COMPILATION
  | LLM | SQL_GENERATION | SQL_VALIDATION | SQL_REPAIR | SQL_EXECUTION | RESULT_FORMATTING

text \<open>The exceptions of the collaborators, and any other one.\<close>

datatype stage_exception = SE_Registry registry_error | SE_Generation sql_generation_error
  | SE_Validation validation_error | SE_Repair repair_error | SE_Execution execution_exception | SE_Other string

record stage_timing =
  tm_stage :: pipeline_stage
  tm_latency_ms :: real

record pipeline_statistics =
  pls_total_latency_ms :: real
  pls_stage_timings :: "stage_timing list"
  pls_repair_attempted :: bool
  pls_repair_performed :: bool

datatype pipeline_status = P_Success | P_Failed

text \<open>The text of \<open>error\<close> is kept as what it is made from.\<close>

datatype response_error = RE_Execution execution_error | RE_Status execution_status | RE_Exception stage_exception

record ('v, 'b) query_mind_response =
  qm_original_question :: string
  qm_business_answer :: "'b option"
  qm_generated_sql :: "generated_sql option"
  qm_validation_result :: "sql_validation_result option"
  qm_repair_result :: "sql_repair_result option"
  qm_execution_result :: "'v sql_execution_result option"
  qm_statistics :: pipeline_statistics
  qm_status :: pipeline_status
  qm_error :: "response_error option"

record generated_sql_result =
  gr_original_question :: string
  gr_generated_sql :: generated_sql
  gr_validation_result :: sql_validation_result
  gr_repair_result :: "sql_repair_result option"
  gr_statistics :: pipeline_statistics

text \<open>\<open>PipelineExecutionError\<close> with its \<open>__cause__\<close>.\<close>

record 'v pipeline_failure =
  pf_stage :: pipeline_stage
  pf_cause :: stage_exception
  pf_stage_timings :: "stage_timing list"
  pf_repair_attempted :: bool
  pf_repair_performed :: bool
  pf_generated_sql :: "generated_sql option"
  pf_validation_result :: "sql_validation_result option"
  pf_repair_result :: "sql_repair_result option"
  pf_execution_result :: "'v sql_execution_result option"

datatype 'v pipeline_exception = PipelineConfigurationError "string list"
  | PipelineExecutionError "'v pipeline_failure" | PE_Other stage_exception

text \<open>The six methods of a \<open>StageEventPublisher\<close>, by their arguments.\<close>

datatype ('v, 'b) pipeline_event = PipelineStarted string
  | StageStarted pipeline_stage
  | StageCompleted pipeline_stage real
  | StageFailed pipeline_stage real stage_exception
  | PipelineCompleted "('v, 'b) query_mind_response"
  | PipelineFailed "'v pipeline_failure"

type_synonym ('w, 'v, 'b) publisher = "(('v, 'b) pipeline_event \<Rightarrow> ('w, stage_exception, unit) op) option"

section \<open>The runner and its local variables (pipeline.py)\<close>

record ('w, 'v, 'b) pipeline_runner =
  pl_perf_counter :: "'w \<Rightarrow> real"
  pl_parse :: "string \<Rightarrow> ('w, stage_exception, query_context) op"
  pl_link :: "query_context \<Rightarrow> ('w, stage_exception, linked_query_context) op"
  pl_load_knowledge :: "('w, stage_exception, unit) op"
  pl_retrieve :: "linked_query_context \<Rightarrow> ('w, stage_exception, retrieved_knowledge_bundle) op"
  pl_compile :: "retrieved_knowledge_bundle \<Rightarrow> sql_dialect \<Rightarrow> ('w, stage_exception, compiled_prompt) op"
  pl_generate :: "compiled_prompt \<Rightarrow> ('w, stage_exception, generated_sql) op"
  pl_validate :: "generated_sql \<Rightarrow> ('w, stage_exception, sql_validation_result) op"
  pl_repair :: "generated_sql \<Rightarrow> sql_validation_result \<Rightarrow> retrieved_knowledge_bundle \<Rightarrow>
    ('w, stage_exception, sql_repair_result) op"
  pl_execute :: "generated_sql \<Rightarrow> sql_validation_result \<Rightarrow> ('w, stage_exception, 'v sql_execution_result) op"
  pl_format :: "'v sql_execution_result \<Rightarrow> ('w, stage_exception, 'b) op"
  pl_dialect :: sql_dialect

record 'v locals =
  lc_stage_timings :: "stage_timing list"
  lc_current_stage :: pipeline_stage
  lc_repair_attempted :: bool
  lc_repair_performed :: bool
  lc_generated_sql :: "generated_sql option"
  lc_validation_result :: "sql_validation_result option"
  lc_repair_result :: "sql_repair_result option"
  lc_execution_result :: "'v sql_execution_result option"
  lc_stage_started :: real

type_synonym ('w, 'v, 'a) body = "('w \<times> 'v locals, stage_exception, 'a) op"

definition on_world :: "('w, stage_exception, 'a) op \<Rightarrow> ('w, 'v, 'a) body" where
  "on_world f = (\<lambda>(w, l). case f w of (r, w') \<Rightarrow> (r, w', l))"

definition assign :: "('w \<Rightarrow> 'v locals \<Rightarrow> 'v locals) \<Rightarrow> ('w, 'v, unit) body" where
  "assign f = (\<lambda>(w, l). (Inr (), w, f w l))"

definition publish :: "('w, 'v, 'b) publisher \<Rightarrow> ('v, 'b) pipeline_event \<Rightarrow> ('w, stage_exception, unit) op" where
  "publish p ev = (case p of None \<Rightarrow> sreturn () | Some f \<Rightarrow> f ev)"

definition elapsed_ms :: "('w, 'v, 'b) pipeline_runner \<Rightarrow> real \<Rightarrow> 'w \<Rightarrow> real" where
  "elapsed_ms r started w = (pl_perf_counter r w - started) * 1000"

definition notify_completed ::
  "('w, 'v, 'b) pipeline_runner \<Rightarrow> ('w, 'v, 'b) publisher \<Rightarrow> pipeline_stage \<Rightarrow> ('w, 'v, unit) body" where
  "notify_completed r p stage = (\<lambda>(w, l).
     let duration_ms = elapsed_ms r (lc_stage_started l) w in
     on_world (publish p (StageCompleted stage duration_ms))
       (w, l \<lparr> lc_stage_timings := lc_stage_timings l @ [\<lparr> tm_stage = stage, tm_latency_ms = duration_ms \<rparr>] \<rparr>))"

text \<open>
  The pattern of every stage: set \<open>current_stage\<close>, announce it, take the time, call the
  collaborator, assign its result, record and announce the completion.
\<close>

definition run_stage ::
  "('w, 'v, 'b) pipeline_runner \<Rightarrow> ('w, 'v, 'b) publisher \<Rightarrow> pipeline_stage \<Rightarrow> ('w, stage_exception, 'a) op \<Rightarrow>
   ('a \<Rightarrow> 'v locals \<Rightarrow> 'v locals) \<Rightarrow> ('w, 'v, 'a) body" where
  "run_stage r p stage call store =
     sbind (assign (\<lambda>w l. l \<lparr> lc_current_stage := stage \<rparr>)) (\<lambda>_.
     sbind (on_world (publish p (StageStarted stage))) (\<lambda>_.
     sbind (assign (\<lambda>w l. l \<lparr> lc_stage_started := pl_perf_counter r w \<rparr>)) (\<lambda>_.
     sbind (on_world call) (\<lambda>x.
     sbind (assign (\<lambda>w. store x)) (\<lambda>_.
     sbind (notify_completed r p stage) (\<lambda>_.
     sreturn x))))))"

text \<open>The language-model stage is reported from the metrics of the generated SQL.\<close>

definition report_llm ::
  "('w, 'v, 'b) publisher \<Rightarrow> generated_sql \<Rightarrow> ('w, 'v, unit) body" where
  "report_llm p g =
     (let duration_ms = gm_latency_ms (g_llm_metrics g) in
      sbind (assign (\<lambda>w l. l \<lparr> lc_stage_timings := lc_stage_timings l @ [\<lparr> tm_stage = LLM, tm_latency_ms = duration_ms \<rparr>] \<rparr>)) (\<lambda>_.
      sbind (on_world (publish p (StageStarted LLM))) (\<lambda>_.
      on_world (publish p (StageCompleted LLM duration_ms)))))"

record generation_outcome =
  go_bundle :: retrieved_knowledge_bundle
  go_final_generated_sql :: generated_sql
  go_final_validation_result :: sql_validation_result
  go_repair_result :: "sql_repair_result option"
  go_repair_attempted :: bool
  go_repair_performed :: bool
  go_stage_timings :: "stage_timing list"

definition keep :: "'a \<Rightarrow> 'l \<Rightarrow> 'l" where
  "keep _ l = l"

text \<open>The stages up to the retrieved bundle, in their order.\<close>

definition retrieve_context ::
  "('w, 'v, 'b) pipeline_runner \<Rightarrow> ('w, 'v, 'b) publisher \<Rightarrow> string \<Rightarrow> ('w, 'v, retrieved_knowledge_bundle) body" where
  "retrieve_context r p question =
     sbind (run_stage r p NLU (pl_parse r question) keep) (\<lambda>query_context.
     sbind (run_stage r p SCHEMA_LINKING (pl_link r query_context) keep) (\<lambda>linked_context.
     sbind (run_stage r p BUSINESS_KNOWLEDGE (pl_load_knowledge r) keep) (\<lambda>_.
     run_stage r p RETRIEVAL (pl_retrieve r linked_context) keep)))"

text \<open>The repair branch and the outcome.\<close>

definition repair_if_invalid ::
  "('w, 'v, 'b) pipeline_runner \<Rightarrow> ('w, 'v, 'b) publisher \<Rightarrow> retrieved_knowledge_bundle \<Rightarrow> generated_sql \<Rightarrow>
   sql_validation_result \<Rightarrow> ('w, 'v, generated_sql \<times> sql_validation_result) body" where
  "repair_if_invalid r p bundle g v =
     sbind (assign (\<lambda>w l. l \<lparr> lc_repair_attempted := \<not> vr_is_valid v \<rparr>)) (\<lambda>_.
     if vr_is_valid v then sreturn (g, v)
     else sbind (run_stage r p SQL_REPAIR (pl_repair r g v bundle) (\<lambda>x l. l \<lparr> lc_repair_result := Some x \<rparr>)) (\<lambda>repair_result.
          sbind (assign (\<lambda>w l. l \<lparr> lc_repair_performed := rr_status repair_result = REPAIRED \<rparr>)) (\<lambda>_.
          sreturn (rr_final_sql repair_result, rr_final_validation_result repair_result))))"

definition outcome_of ::
  "retrieved_knowledge_bundle \<Rightarrow> generated_sql \<times> sql_validation_result \<Rightarrow> ('w, 'v, generation_outcome) body" where
  "outcome_of bundle = (\<lambda>(g, v) (w, l). (Inr \<lparr> go_bundle = bundle, go_final_generated_sql = g,
     go_final_validation_result = v, go_repair_result = lc_repair_result l,
     go_repair_attempted = lc_repair_attempted l, go_repair_performed = lc_repair_performed l,
     go_stage_timings = lc_stage_timings l \<rparr>, w, l))"

text \<open>The body of the \<open>try\<close> of \<open>_generate_and_validate\<close>.\<close>

definition generate_body ::
  "('w, 'v, 'b) pipeline_runner \<Rightarrow> ('w, 'v, 'b) publisher \<Rightarrow> string \<Rightarrow> ('w, 'v, generation_outcome) body" where
  "generate_body r p question =
     sbind (retrieve_context r p question) (\<lambda>bundle.
     sbind (run_stage r p PROMPT_COMPILATION (pl_compile r bundle (pl_dialect r)) keep) (\<lambda>compiled_prompt.
     sbind (run_stage r p SQL_GENERATION (pl_generate r compiled_prompt) (\<lambda>g l. l \<lparr> lc_generated_sql := Some g \<rparr>)) (\<lambda>g.
     sbind (report_llm p g) (\<lambda>_.
     sbind (run_stage r p SQL_VALIDATION (pl_validate r g) (\<lambda>v l. l \<lparr> lc_validation_result := Some v \<rparr>)) (\<lambda>v.
     sbind (repair_if_invalid r p bundle g v) (outcome_of bundle))))))"

definition failure_of :: "stage_exception \<Rightarrow> 'v locals \<Rightarrow> 'v pipeline_failure" where
  "failure_of e l = \<lparr> pf_stage = lc_current_stage l, pf_cause = e, pf_stage_timings = lc_stage_timings l,
     pf_repair_attempted = lc_repair_attempted l, pf_repair_performed = lc_repair_performed l,
     pf_generated_sql = lc_generated_sql l, pf_validation_result = lc_validation_result l,
     pf_repair_result = lc_repair_result l, pf_execution_result = lc_execution_result l \<rparr>"

text \<open>
  The two \<open>except Exception\<close> handlers: announce the failed stage, wrap, announce the failed
  pipeline, raise. An exception of the publisher in a handler leaves it unwrapped.
\<close>

definition handle_failure ::
  "('w, 'v, 'b) pipeline_runner \<Rightarrow> ('w, 'v, 'b) publisher \<Rightarrow> stage_exception \<Rightarrow> 'v locals \<Rightarrow>
   ('w, 'v pipeline_exception, 'a) op" where
  "handle_failure r p e l w =
     (case publish p (StageFailed (lc_current_stage l) (elapsed_ms r (lc_stage_started l) w) e) w of
        (Inl e', w1) \<Rightarrow> (Inl (PE_Other e'), w1)
      | (Inr _, w1) \<Rightarrow>
          (case publish p (PipelineFailed (failure_of e l)) w1 of
             (Inl e', w2) \<Rightarrow> (Inl (PE_Other e'), w2)
           | (Inr _, w2) \<Rightarrow> (Inl (PipelineExecutionError (failure_of e l)), w2)))"

definition try_body ::
  "('w, 'v, 'b) pipeline_runner \<Rightarrow> ('w, 'v, 'b) publisher \<Rightarrow> 'v locals \<Rightarrow> ('w, 'v, 'a) body \<Rightarrow>
   ('w, 'v pipeline_exception, 'a) op" where
  "try_body r p l body w =
     (case body (w, l) of (Inr x, w', _) \<Rightarrow> (Inr x, w') | (Inl e, w', l') \<Rightarrow> handle_failure r p e l' w')"

definition initial_locals :: "real \<Rightarrow> 'v locals" where
  "initial_locals started = \<lparr> lc_stage_timings = [], lc_current_stage = NLU, lc_repair_attempted = False,
     lc_repair_performed = False, lc_generated_sql = None, lc_validation_result = None, lc_repair_result = None,
     lc_execution_result = None, lc_stage_started = started \<rparr>"

definition generate_and_validate ::
  "('w, 'v, 'b) pipeline_runner \<Rightarrow> ('w, 'v, 'b) publisher \<Rightarrow> string \<Rightarrow> ('w, 'v pipeline_exception, generation_outcome) op" where
  "generate_and_validate r p question w =
     try_body r p (initial_locals (pl_perf_counter r w)) (generate_body r p question) w"

definition build_pipeline_statistics :: "real \<Rightarrow> stage_timing list \<Rightarrow> bool \<Rightarrow> bool \<Rightarrow> pipeline_statistics" where
  "build_pipeline_statistics total_ms timings attempted performed =
     \<lparr> pls_total_latency_ms = total_ms, pls_stage_timings = timings, pls_repair_attempted = attempted,
       pls_repair_performed = performed \<rparr>"

definition execution_error_message :: "'v sql_execution_result \<Rightarrow> response_error" where
  "execution_error_message x =
     (case xr_execution_error x of Some xe \<Rightarrow> RE_Execution xe | None \<Rightarrow> RE_Status (xr_status x))"

text \<open>The response for an execution result; an answer is given exactly on success.\<close>

definition response_of ::
  "string \<Rightarrow> generation_outcome \<Rightarrow> 'v sql_execution_result \<Rightarrow> 'b option \<Rightarrow> real \<Rightarrow> stage_timing list \<Rightarrow>
   ('v, 'b) query_mind_response" where
  "response_of question go x answer total_ms timings =
     \<lparr> qm_original_question = question, qm_business_answer = answer,
       qm_generated_sql = Some (go_final_generated_sql go),
       qm_validation_result = Some (go_final_validation_result go), qm_repair_result = go_repair_result go,
       qm_execution_result = Some x,
       qm_statistics = build_pipeline_statistics total_ms timings (go_repair_attempted go) (go_repair_performed go),
       qm_status = (case answer of None \<Rightarrow> P_Failed | Some _ \<Rightarrow> P_Success),
       qm_error = (case answer of None \<Rightarrow> Some (execution_error_message x) | Some _ \<Rightarrow> None) \<rparr>"

definition respond ::
  "('w, 'v, 'b) pipeline_runner \<Rightarrow> ('w, 'v, 'b) publisher \<Rightarrow> string \<Rightarrow> real \<Rightarrow> generation_outcome \<Rightarrow>
   'v sql_execution_result \<Rightarrow> 'b option \<Rightarrow> ('w, 'v, ('v, 'b) query_mind_response) body" where
  "respond r p question started go x answer = (\<lambda>(w, l).
     let response = response_of question go x answer (elapsed_ms r started w) (lc_stage_timings l)
     in sbind (on_world (publish p (PipelineCompleted response))) (\<lambda>_. sreturn response) (w, l))"

text \<open>The body of the \<open>try\<close> of \<open>run\<close>.\<close>

definition execute_body ::
  "('w, 'v, 'b) pipeline_runner \<Rightarrow> ('w, 'v, 'b) publisher \<Rightarrow> string \<Rightarrow> real \<Rightarrow> generation_outcome \<Rightarrow>
   ('w, 'v, ('v, 'b) query_mind_response) body" where
  "execute_body r p question started go =
     sbind (run_stage r p SQL_EXECUTION
              (pl_execute r (go_final_generated_sql go) (go_final_validation_result go))
              (\<lambda>x l. l \<lparr> lc_execution_result := Some x \<rparr>)) (\<lambda>x.
     if xr_status x \<noteq> X_Success then respond r p question started go x None
     else sbind (run_stage r p RESULT_FORMATTING (pl_format r x) keep) (\<lambda>answer.
          respond r p question started go x (Some answer)))"

text \<open>The variables the handler of \<open>run\<close> reads, when its \<open>try\<close> begins.\<close>

definition execution_locals :: "real \<Rightarrow> generation_outcome \<Rightarrow> 'v locals" where
  "execution_locals started go = \<lparr> lc_stage_timings = go_stage_timings go, lc_current_stage = SQL_EXECUTION,
     lc_repair_attempted = go_repair_attempted go, lc_repair_performed = go_repair_performed go,
     lc_generated_sql = Some (go_final_generated_sql go),
     lc_validation_result = Some (go_final_validation_result go), lc_repair_result = go_repair_result go,
     lc_execution_result = None, lc_stage_started = started \<rparr>"

definition run_pipeline ::
  "('w, 'v, 'b) pipeline_runner \<Rightarrow> ('w, 'v, 'b) publisher \<Rightarrow> string \<Rightarrow>
   ('w, 'v pipeline_exception, ('v, 'b) query_mind_response) op" where
  "run_pipeline r p question w =
     (let started = pl_perf_counter r w in
      case publish p (PipelineStarted question) w of
        (Inl e, w1) \<Rightarrow> (Inl (PE_Other e), w1)
      | (Inr _, w1) \<Rightarrow>
          sbind (generate_and_validate r p question) (\<lambda>go.
            try_body r p (execution_locals started go) (execute_body r p question started go)) w1)"

definition pipeline_generate_sql ::
  "('w, 'v, 'b) pipeline_runner \<Rightarrow> string \<Rightarrow> ('w, 'v pipeline_exception, generated_sql_result) op" where
  "pipeline_generate_sql r question w =
     (case generate_and_validate r None question w of
        (Inl e, w') \<Rightarrow> (Inl e, w')
      | (Inr go, w') \<Rightarrow>
          (Inr \<lparr> gr_original_question = question, gr_generated_sql = go_final_generated_sql go,
             gr_validation_result = go_final_validation_result go, gr_repair_result = go_repair_result go,
             gr_statistics = build_pipeline_statistics (elapsed_ms r (pl_perf_counter r w) w')
               (go_stage_timings go) (go_repair_attempted go) (go_repair_performed go) \<rparr>, w'))"

definition pipeline_repair_sql ::
  "('w, 'v, 'b) pipeline_runner \<Rightarrow> string \<Rightarrow> sql_validation_result \<Rightarrow> ('w, stage_exception, sql_repair_result) op" where
  "pipeline_repair_sql r question v =
     sbind (pl_parse r question) (\<lambda>query_context.
     sbind (pl_link r query_context) (\<lambda>linked_context.
     sbind (pl_load_knowledge r) (\<lambda>_.
     sbind (pl_retrieve r linked_context) (\<lambda>bundle.
     pl_repair r (vr_generated_sql v) v bundle))))"

section \<open>The engine (engine.py)\<close>

definition failed_response ::
  "string \<Rightarrow> real \<Rightarrow> 'v pipeline_exception \<Rightarrow> ('v, 'b) query_mind_response" where
  "failed_response question total_ms e =
     (case e of
        PipelineExecutionError f \<Rightarrow>
          \<lparr> qm_original_question = question, qm_business_answer = None, qm_generated_sql = pf_generated_sql f,
            qm_validation_result = pf_validation_result f, qm_repair_result = pf_repair_result f,
            qm_execution_result = pf_execution_result f,
            qm_statistics = build_pipeline_statistics total_ms (pf_stage_timings f) (pf_repair_attempted f) (pf_repair_performed f),
            qm_status = P_Failed, qm_error = Some (RE_Exception (pf_cause f)) \<rparr>
      | _ \<Rightarrow>
          \<lparr> qm_original_question = question, qm_business_answer = None, qm_generated_sql = None,
            qm_validation_result = None, qm_repair_result = None, qm_execution_result = None,
            qm_statistics = build_pipeline_statistics total_ms [] False False,
            qm_status = P_Failed,
            qm_error = Some (RE_Exception (case e of PE_Other x \<Rightarrow> x | _ \<Rightarrow> SE_Other ''PipelineConfigurationError'')) \<rparr>)"

text \<open>Every exception of the runner becomes a response, so asking never raises.\<close>

definition ask ::
  "('w, 'v, 'b) pipeline_runner \<Rightarrow> ('w, 'v, 'b) publisher \<Rightarrow> string \<Rightarrow> 'w \<Rightarrow> ('v, 'b) query_mind_response \<times> 'w" where
  "ask r p question w =
     (case run_pipeline r p question w of
        (Inr response, w') \<Rightarrow> (response, w')
      | (Inl e, w') \<Rightarrow> (failed_response question (elapsed_ms r (pl_perf_counter r w) w') e, w'))"

definition ask_for_sql ::
  "('w, 'v, 'b) pipeline_runner \<Rightarrow> string \<Rightarrow> ('w, 'v pipeline_exception, generated_sql_result) op" where
  "ask_for_sql r question = pipeline_generate_sql r question"

definition ask_repair ::
  "('w, 'v, 'b) pipeline_runner \<Rightarrow> string \<Rightarrow> sql_validation_result \<Rightarrow> ('w, stage_exception, sql_repair_result) op" where
  "ask_repair r question v = pipeline_repair_sql r question v"

end
