(* ===== verification/Container.thy ===== *)
theory Container
  imports Pipeline
begin

text \<open>
  The composition root (\<open>api/container.py\<close>) as far as the query pipeline goes: the registries
  loaded at start-up, one validation engine shared by the pipeline and the repair engine, the
  language-model adapter shared by generation and repair, and the execution engine with the
  default guard. The stages before generation and the result formatter come in as a runner.
\<close>

definition DEFAULT_MAX_ATTEMPTS :: nat where
  "DEFAULT_MAX_ATTEMPTS = 3"

record ('n, 'w, 'v) container =
  ct_sqlglot :: "'n sqlglot"
  ct_set_order :: set_order
  ct_metadata_registry :: metadata_registry
  ct_relationship_graph :: relationship_graph
  ct_business_knowledge_registry :: knowledge_registry
  ct_llm_adapter :: "'w llm_call"
  ct_database :: "('w, 'v) database"
  ct_perf_counter :: "'w \<Rightarrow> real"
  ct_validation_latency :: "'w \<Rightarrow> real"
  ct_validator_duration :: "'w \<Rightarrow> string \<Rightarrow> real"
  ct_content_hash :: content_hash
  ct_message :: "validation_issue \<Rightarrow> string"

text \<open>The start-up: load both registries, then build the graph; any error stops it.\<close>

definition load_registries ::
  "(registry_error + database_metadata) \<Rightarrow> (database_metadata \<Rightarrow> registry_error + database_metadata) option \<Rightarrow>
   (registry_error + business_knowledge_catalog) \<Rightarrow>
   registry_error + metadata_registry \<times> relationship_graph \<times> knowledge_registry" where
  "load_registries extracted enrich source =
     (case metadata_load extracted enrich None of
        (Inl e, _) \<Rightarrow> Inl e
      | (Inr _, m) \<Rightarrow>
          rbind (build_graph m) (\<lambda>g.
            case knowledge_load source None of (Inl e, _) \<Rightarrow> Inl e | (Inr _, k) \<Rightarrow> Inr (m, g, k)))"

definition container_registry :: "('n, 'w, 'v) container \<Rightarrow> 'n validator_registry" where
  "container_registry ct = build_default_registry (ct_sqlglot ct) (ct_set_order ct) (ct_metadata_registry ct)
     (ct_business_knowledge_registry ct) (ct_relationship_graph ct)"

definition container_validate ::
  "('n, 'w, 'v) container \<Rightarrow> generated_sql \<Rightarrow> ('w, validation_error, sql_validation_result) op" where
  "container_validate ct g w =
     (validate_sql (ct_sqlglot ct) (ct_set_order ct) (container_registry ct) (ct_validation_latency ct w)
        (ct_validator_duration ct w) g, w)"

definition container_repair_engine :: "('n, 'w, 'v) container \<Rightarrow> 'w repair_engine" where
  "container_repair_engine ct = \<lparr> rpe_content_hash = ct_content_hash ct, rpe_message = ct_message ct,
     rpe_perf_counter = ct_perf_counter ct, rpe_adapter = ct_llm_adapter ct,
     rpe_validate = container_validate ct, rpe_max_attempts = DEFAULT_MAX_ATTEMPTS \<rparr>"

definition raising :: "('e \<Rightarrow> stage_exception) \<Rightarrow> ('w, 'e, 'a) op \<Rightarrow> ('w, stage_exception, 'a) op" where
  "raising f m w = (case m w of (Inl e, w') \<Rightarrow> (Inl (f e), w') | (Inr x, w') \<Rightarrow> (Inr x, w'))"

definition container_runner ::
  "('n, 'w, 'v) container \<Rightarrow> ('w, 'v, 'b) pipeline_runner \<Rightarrow> ('w, 'v, 'b) pipeline_runner" where
  "container_runner ct base = base \<lparr>
     pl_perf_counter := ct_perf_counter ct,
     pl_generate := (\<lambda>p. raising SE_Generation (generate_sql (ct_perf_counter ct) (ct_llm_adapter ct) p)),
     pl_validate := (\<lambda>g. raising SE_Validation (container_validate ct g)),
     pl_repair := (\<lambda>g v b. raising SE_Repair (repair (container_repair_engine ct) b g v)),
     pl_execute := (\<lambda>g v. raising SE_Execution
       (execute_sql (ct_sqlglot ct) (ct_database ct) DEFAULT_EXECUTION_TIMEOUT_SECONDS g v)) \<rparr>"

end
