(* ===== verification/Repair_Properties.thy ===== *)
theory Repair_Properties
  imports Sql_Repair
begin

text \<open>
  The contract of a repair: the chain of attempts, what each final status means, how often the
  model is called; the plan; and what the token budget does to the repair prompt.
\<close>

section \<open>The plan\<close>

lemma group_issues_keys:
  "set (map fst (group_issues is gr)) = set (map fst gr) \<union> reason_of ` set is"
  by (induction "is" gr rule: group_issues.induct) (auto simp: dom_update)

lemma group_issues_lookup:
  "(case map_of (group_issues is gr) r of None \<Rightarrow> [] | Some js \<Rightarrow> js)
     = (case map_of gr r of None \<Rightarrow> [] | Some js \<Rightarrow> js) @ filter (\<lambda>i. reason_of i = r) is"
  by (induction "is" gr rule: group_issues.induct) (auto simp: update_conv split: option.splits)

lemma group_issues_distinct: "distinct (map fst gr) \<Longrightarrow> distinct (map fst (group_issues is gr))"
  by (induction "is" gr rule: group_issues.induct) (auto simp: distinct_update)

lemma group_issues_Nil_entry:
  assumes "(r, js) \<in> set (group_issues is [])"
  shows "js = filter (\<lambda>i. reason_of i = r) is"
proof -
  have "map_of (group_issues is []) r = Some js"
    using assms group_issues_distinct [of "[]" "is"] by (simp add: map_of_is_SomeI)
  then show ?thesis using group_issues_lookup [of "is" "[]" r] by simp
qed

abbreviation planned_issues :: "sql_validation_result \<Rightarrow> validation_issue list" where
  "planned_issues v \<equiv> (if vr_errors v \<noteq> [] then vr_errors v else vr_warnings v)"

text \<open>
  The plan partitions the errors of a result (its warnings if there are none) by reason: each
  reason that occurs has one category, holding exactly its issues in their order; the categories
  are in ascending priority, and the primary reason is the reason of smallest priority. The plan is
  repairable exactly if some issue is not the crash of a validator.
\<close>
theorem plan_partition:
  "(let issues = planned_issues v; cs = rpl_categories (plan v) in
     rcat_reason ` set cs = reason_of ` set issues \<and> distinct (map rcat_reason cs) \<and>
     sorted (map rcat_priority cs) \<and>
     (\<forall>c\<in>set cs. rcat_issues c = filter (\<lambda>i. reason_of i = rcat_reason c) issues \<and>
        rcat_priority c = priority_for (rcat_reason c)) \<and>
     (\<forall>i\<in>set issues. priority_for (rpl_primary_reason (plan v)) \<le> priority_for (reason_of i)) \<and>
     (rpl_is_repairable (plan v) \<longleftrightarrow> (\<exists>i\<in>set issues. vi_code i \<noteq> ''validator_internal_error'')))"
proof (cases "planned_issues v = []")
  case True
  then show ?thesis by (simp add: plan_def Let_def)
next
  case False
  let ?is = "planned_issues v"
  define gr where "gr = sort_key (\<lambda>(r, is). priority_for r) (group_issues ?is [])"
  define cs where "cs = map (\<lambda>(r, is). \<lparr> rcat_reason = r, rcat_priority = priority_for r, rcat_issues = is \<rparr>) gr"
  have pl: "rpl_categories (plan v) = cs" "rpl_primary_reason (plan v) = rcat_reason (hd cs)"
    "rpl_is_repairable (plan v) \<longleftrightarrow> (\<exists>i\<in>set ?is. vi_code i \<noteq> ''validator_internal_error'')"
    using False by (auto simp: plan_def Let_def cs_def gr_def UNREPAIRABLE_CODES_def)
  have keys: "set (map fst gr) = reason_of ` set ?is"
    using group_issues_keys [of ?is "[]"] by (simp add: gr_def)
  have "mset (map fst gr) = mset (map fst (group_issues ?is []))" by (simp add: gr_def)
  then have dist: "distinct (map fst gr)"
    using group_issues_distinct [of "[]" ?is] by (metis distinct.simps(1) list.simps(8) mset_eq_imp_distinct_iff)
  have reasons: "map rcat_reason cs = map fst gr" by (simp add: cs_def comp_def case_prod_beta)
  have prios: "map rcat_priority cs = map (\<lambda>(r, is). priority_for r) gr" by (simp add: cs_def comp_def case_prod_beta)
  have sorted: "sorted (map rcat_priority cs)" unfolding prios gr_def by simp
  have entry: "rcat_issues c = filter (\<lambda>i. reason_of i = rcat_reason c) ?is \<and> rcat_priority c = priority_for (rcat_reason c)"
    if "c \<in> set cs" for c
    using that group_issues_Nil_entry by (auto simp: cs_def gr_def)
  have ne: "cs \<noteq> []" using False keys by (auto simp: cs_def)
  have prim: "priority_for (rcat_reason (hd cs)) \<le> priority_for (reason_of i)" if "i \<in> set ?is" for i
  proof -
    have "reason_of i \<in> rcat_reason ` set cs" using that keys reasons by (metis imageI list.set_map)
    then obtain c where "c \<in> set cs" "rcat_reason c = reason_of i" by auto
    moreover have "rcat_priority (hd cs) \<le> rcat_priority c"
      using sorted ne \<open>c \<in> set cs\<close> by (cases cs) auto
    ultimately show ?thesis using entry ne by (metis hd_in_set)
  qed
  have "rcat_reason ` set cs = reason_of ` set ?is" using keys reasons by (metis list.set_map)
  then show ?thesis using pl dist reasons sorted entry prim by (simp add: Let_def)
qed

section \<open>The chain of attempts\<close>

fun chained :: "string \<Rightarrow> repair_attempt list \<Rightarrow> bool" where
  "chained s [] = True"
| "chained s (a # as) = (ra_input_sql a = s \<and> chained (ra_repaired_sql a) as)"

lemma chained_snoc:
  "chained s (as @ [a]) \<longleftrightarrow> chained s as \<and> ra_input_sql a = (if as = [] then s else ra_repaired_sql (last as))"
  by (induction as arbitrary: s) auto

definition repair_inv :: "'w repair_engine \<Rightarrow> generated_sql \<Rightarrow> sql_validation_result \<Rightarrow> repair_attempt list \<Rightarrow>
    generated_sql \<Rightarrow> sql_validation_result \<Rightarrow> bool" where
  "repair_inv eng g v h sql val \<longleftrightarrow>
     chained (g_sql g) h \<and> map ra_attempt_number h = [1..<Suc (length h)] \<and>
     (\<forall>a\<in>set (butlast h). \<not> ra_success a) \<and> length h \<le> rpe_max_attempts eng \<and>
     g_dialect sql = g_dialect g \<and>
     (if h = [] then sql = g \<and> val = v
      else g_sql sql = ra_repaired_sql (last h) \<and> val = ra_validation_result (last h) \<and>
        ra_success (last h) = vr_is_valid val \<and> (\<exists>w w'. rpe_validate eng sql w = (Inr val, w')))"

lemma sql_of_response_dialect: "sql_of_response d r l = Inr g \<Longrightarrow> g_dialect g = d"
  by (auto simp: sql_of_response_def result_simps Let_def)

lemma repair_step_result:
  assumes "repair_step eng b n pl sql val w = (Inr (a, sql', val'), w')"
  shows "ra_attempt_number a = n" "ra_input_sql a = g_sql sql" "ra_repaired_sql a = g_sql sql'"
    "ra_validation_result a = val'" "ra_success a = vr_is_valid val'" "g_dialect sql' = g_dialect sql"
    "\<exists>w1. rpe_validate eng sql' w1 = (Inr val', w')"
  using assms
  by (auto simp: repair_step_def extract_repaired_def Let_def dest: sql_of_response_dialect
      split: prod.splits sum.splits)

lemma repair_inv_snoc:
  assumes "repair_inv eng g v h sql val" "repair_step eng b (length h + 1) pl sql val w = (Inr (a, sql', val'), w')"
    "\<forall>x\<in>set h. \<not> ra_success x" "length h < rpe_max_attempts eng"
  shows "repair_inv eng g v (h @ [a]) sql' val'"
  using assms(1,3,4) repair_step_result [OF assms(2)]
  by (auto simp: repair_inv_def chained_snoc split: if_splits)

lemma should_continue_all_failed:
  assumes "repair_inv eng g v h sql val" "should_continue (rpe_max_attempts eng) h"
  shows "(\<forall>x\<in>set h. \<not> ra_success x) \<and> length h < rpe_max_attempts eng"
proof -
  have "h \<noteq> []" "\<not> ra_success (last h)" "length h < rpe_max_attempts eng"
    using assms(2) by (auto simp: should_continue_def split: if_splits)
  moreover have "set h = insert (last h) (set (butlast h))"
    using \<open>h \<noteq> []\<close> by (metis append_butlast_last_id list.set(1,2) set_append sup_bot_right insert_is_Un sup_commute)
  ultimately show ?thesis using assms(1) by (auto simp: repair_inv_def)
qed

lemma repair_loop_inv:
  assumes "repair_inv eng g v h sql val" "1 \<le> rpe_max_attempts eng"
    "h = [] \<or> should_continue (rpe_max_attempts eng) h"
    "repair_loop eng b h sql val w = (Inr (h', sql', val'), w')"
  shows "repair_inv eng g v h' sql' val' \<and>
    (\<not> rpl_is_repairable (plan val') \<or> h' \<noteq> [] \<and> \<not> should_continue (rpe_max_attempts eng) h')"
  using assms
proof (induction eng b h sql val w rule: repair_loop.induct)
  case (1 eng b h sql val w)
  have pre: "\<forall>x\<in>set h. \<not> ra_success x" "length h < rpe_max_attempts eng"
    using 1(2-4) should_continue_all_failed [of eng g v h sql val] by auto
  show ?case
  proof (cases "rpl_is_repairable (plan val)")
    case False
    then show ?thesis using 1(2,5) by (simp add: repair_loop.simps Let_def)
  next
    case True
    then obtain a sql1 val1 w1 where
      step: "repair_step eng b (length h + 1) (plan val) sql val w = (Inr (a, sql1, val1), w1)"
      using 1(5) by (auto simp: repair_loop.simps [of eng b h] Let_def split: prod.splits sum.splits)
    note inv = repair_inv_snoc [OF 1(2) step pre]
    show ?thesis
    proof (cases "should_continue (rpe_max_attempts eng) (h @ [a])")
      case cont: True
      with 1(5) True step have "repair_loop eng b (h @ [a]) sql1 val1 w1 = (Inr (h', sql', val'), w')"
        by (simp add: repair_loop.simps [of eng b h] Let_def)
      then show ?thesis
        using 1(1) [OF refl _ step [symmetric] refl refl refl cont] True inv 1(3) cont by simp
    next
      case False
      with 1(5) True step inv show ?thesis by (auto simp: repair_loop.simps [of eng b h] Let_def)
    qed
  qed
qed

lemma repair_result:
  assumes "repair eng b g v w = (Inr r, w')" "1 \<le> rpe_max_attempts eng"
  shows "repair_inv eng g v (rr_history r) (rr_final_sql r) (rr_final_validation_result r)"
    "\<not> rpl_is_repairable (plan (rr_final_validation_result r)) \<or>
       rr_history r \<noteq> [] \<and> \<not> should_continue (rpe_max_attempts eng) (rr_history r)"
    "rr_status r = final_status (rpe_max_attempts eng) (rr_history r)" "rr_original_sql r = g"
proof -
  from assms(1) obtain h sql val where loop: "repair_loop eng b [] g v w = (Inr (h, sql, val), w')"
    and r: "rr_history r = h" "rr_final_sql r = sql" "rr_final_validation_result r = val"
      "rr_status r = final_status (rpe_max_attempts eng) h" "rr_original_sql r = g"
    by (auto simp: repair_def split: prod.splits sum.splits)
  have "repair_inv eng g v [] g v" by (simp add: repair_inv_def)
  from repair_loop_inv [OF this assms(2) _ loop] r show
    "repair_inv eng g v (rr_history r) (rr_final_sql r) (rr_final_validation_result r)"
    "\<not> rpl_is_repairable (plan (rr_final_validation_result r)) \<or>
       rr_history r \<noteq> [] \<and> \<not> should_continue (rpe_max_attempts eng) (rr_history r)"
    "rr_status r = final_status (rpe_max_attempts eng) (rr_history r)" "rr_original_sql r = g"
    by simp_all
qed

text \<open>
  C39. When a repair returns, its history has at most the configured number of attempts, numbered
  from one; each works on the SQL the one before produced, the first on the original; only the last
  can have succeeded. The final SQL is the last one produced, in the original dialect, and the final
  verdict is the engine's own verdict on that very SQL; without an attempt both are the inputs. The
  status is REPAIRED exactly if there was an attempt and the final verdict is valid; NO_PROGRESS
  only after two attempts with the same error codes; MAX_ATTEMPTS_REACHED only after the last
  allowed attempt; and otherwise, UNREPAIRABLE, only issues no rewrite can mend are left.
\<close>
theorem repair_contract:
  assumes "repair eng b g v w = (Inr r, w')" and "1 \<le> rpe_max_attempts eng"
  shows "(let h = rr_history r; final = rr_final_sql r; verdict = rr_final_validation_result r in
    length h \<le> rpe_max_attempts eng \<and> map ra_attempt_number h = [1..<Suc (length h)] \<and>
    chained (g_sql g) h \<and> (\<forall>a\<in>set (butlast h). \<not> ra_success a) \<and> g_dialect final = g_dialect g \<and>
    (h = [] \<longrightarrow> final = g \<and> verdict = v) \<and>
    (h \<noteq> [] \<longrightarrow> g_sql final = ra_repaired_sql (last h) \<and> (\<exists>w1 w2. rpe_validate eng final w1 = (Inr verdict, w2))) \<and>
    (rr_status r = REPAIRED \<longleftrightarrow> h \<noteq> [] \<and> vr_is_valid verdict) \<and>
    (rr_status r = NO_PROGRESS \<longrightarrow> 2 \<le> length h \<and> error_codes (last h) = error_codes (last (butlast h))) \<and>
    (rr_status r = MAX_ATTEMPTS_REACHED \<longrightarrow> length h = rpe_max_attempts eng) \<and>
    (rr_status r = UNREPAIRABLE \<longrightarrow> \<not> rpl_is_repairable (plan verdict)))"
proof -
  note res = repair_result [OF assms]
  let ?h = "rr_history r" and ?m = "rpe_max_attempts eng"
  have inv: "chained (g_sql g) ?h" "map ra_attempt_number ?h = [1..<Suc (length ?h)]"
    "\<forall>a\<in>set (butlast ?h). \<not> ra_success a" "length ?h \<le> ?m" "g_dialect (rr_final_sql r) = g_dialect g"
    "?h = [] \<Longrightarrow> rr_final_sql r = g \<and> rr_final_validation_result r = v"
    "?h \<noteq> [] \<Longrightarrow> g_sql (rr_final_sql r) = ra_repaired_sql (last ?h) \<and>
       ra_success (last ?h) = vr_is_valid (rr_final_validation_result r) \<and>
       (\<exists>w1 w2. rpe_validate eng (rr_final_sql r) w1 = (Inr (rr_final_validation_result r), w2))"
    using res(1) unfolding repair_inv_def by (metis+)
  have st: "rr_status r = final_status ?m ?h" by (rule res(3))
  have rep: "rr_status r = REPAIRED \<longleftrightarrow> ?h \<noteq> [] \<and> vr_is_valid (rr_final_validation_result r)"
    using inv(7) by (auto simp: st final_status_def)
  have np: "rr_status r = NO_PROGRESS \<longrightarrow> 2 \<le> length ?h \<and> error_codes (last ?h) = error_codes (last (butlast ?h))"
    by (auto simp: st final_status_def made_progress_def split: if_splits)
  have ma: "rr_status r = MAX_ATTEMPTS_REACHED \<longrightarrow> length ?h = ?m"
    using inv(4) by (auto simp: st final_status_def split: if_splits)
  have un: "rr_status r = UNREPAIRABLE \<longrightarrow> \<not> rpl_is_repairable (plan (rr_final_validation_result r))"
    using res(2) by (auto simp: st final_status_def should_continue_def split: if_splits)
  show ?thesis unfolding Let_def using inv rep np ma un by blast
qed

section \<open>The number of model calls\<close>

text \<open>The engine on a world that also counts the calls of the adapter.\<close>

definition counting :: "'w repair_engine \<Rightarrow> ('w \<times> nat) repair_engine" where
  "counting eng = \<lparr> rpe_content_hash = rpe_content_hash eng, rpe_message = rpe_message eng,
     rpe_perf_counter = rpe_perf_counter eng \<circ> fst,
     rpe_adapter = (\<lambda>p (w, n). case rpe_adapter eng p w of (r, w') \<Rightarrow> (r, (w', Suc n))),
     rpe_validate = (\<lambda>g (w, n). case rpe_validate eng g w of (r, w') \<Rightarrow> (r, (w', n))),
     rpe_max_attempts = rpe_max_attempts eng \<rparr>"

lemma counting_max [simp]: "rpe_max_attempts (counting eng) = rpe_max_attempts eng"
  by (simp add: counting_def)

lemma repair_step_count:
  "snd (snd (repair_step (counting eng) b k pl sql val (w, n))) = Suc n"
  by (auto simp: repair_step_def counting_def Let_def split: prod.splits sum.splits)

lemma repair_loop_count:
  assumes "eng' = counting eng" "1 \<le> rpe_max_attempts eng" "h = [] \<or> should_continue (rpe_max_attempts eng) h"
  shows "snd (snd (repair_loop eng' b h sql val w)) \<le> snd w + (rpe_max_attempts eng - length h)"
  using assms
proof (induction eng' b h sql val w rule: repair_loop.induct)
  case (1 eng' b h sql val w)
  have len: "length h < rpe_max_attempts eng"
    using 1(3,4) by (auto simp: should_continue_def split: if_splits)
  obtain r w1 where step: "repair_step eng' b (length h + 1) (plan val) sql val w = (r, w1)"
    by (cases "repair_step eng' b (length h + 1) (plan val) sql val w")
  have w1: "snd w1 = Suc (snd w)"
    using repair_step_count [of eng b "length h + 1" "plan val" sql val "fst w" "snd w"] step 1(2) by simp
  show ?case
  proof (cases "rpl_is_repairable (plan val)")
    case False
    then show ?thesis by (subst repair_loop.simps) (simp add: Let_def)
  next
    case rep: True
    show ?thesis
    proof (cases r)
      case (Inl e)
      then show ?thesis using rep step w1 len by (subst repair_loop.simps) (simp add: Let_def)
    next
      case (Inr x)
      obtain a sql1 val1 where x: "x = (a, sql1, val1)" by (cases x)
      show ?thesis
      proof (cases "should_continue (rpe_max_attempts eng') (h @ [a])")
        case False
        then show ?thesis using rep step Inr x w1 len by (subst repair_loop.simps) (simp add: Let_def)
      next
        case True
        have "snd (snd (repair_loop eng' b (h @ [a]) sql1 val1 w1))
            \<le> snd w1 + (rpe_max_attempts eng - length (h @ [a]))"
          using 1(1) [OF refl _ step [symmetric, unfolded Inr x] refl refl refl True] rep 1(2,3) True by simp
        then show ?thesis using rep step Inr x w1 len True by (subst repair_loop.simps) (simp add: Let_def)
      qed
    qed
  qed
qed

text \<open>
  C40. Every repair ends, and whether it returns or raises it has called the model at most as often
  as the configured number of attempts.
\<close>
theorem repair_calls_bounded:
  assumes "1 \<le> rpe_max_attempts eng"
  shows "\<exists>res w' n. repair (counting eng) b g v (w, 0) = (res, (w', n)) \<and> n \<le> rpe_max_attempts eng"
proof -
  have "snd (snd (repair (counting eng) b g v (w, 0))) = snd (snd (repair_loop (counting eng) b [] g v (w, 0)))"
    by (auto simp: repair_def split: prod.splits sum.splits)
  also have "\<dots> \<le> snd (w, 0) + (rpe_max_attempts eng - length ([] :: repair_attempt list))"
    by (rule repair_loop_count) (use assms in auto)
  finally show ?thesis by (metis add_0 diff_zero list.size(3) prod.collapse snd_conv)
qed

section \<open>A concrete engine\<close>

text \<open>A model that always answers with one statement, judged valid; the world counts the calls.\<close>

definition demo_response :: llm_response where
  "demo_response = \<lparr> rs_content = ''SELECT 1'', rs_metrics = demo_metrics \<rparr>"

definition demo_valid :: sql_validation_result where
  "demo_valid = build_result demo_sql [] [''orders''] [''total''] [] 0 [] 0"

definition demo_invalid :: sql_validation_result where
  "demo_invalid = build_result demo_sql
     [\<lparr> vi_code = ''unknown_table'', vi_severity = ERROR, vi_related_object = Some ''x'' \<rparr>] [] [] [] 0 [] 0"

definition demo_repair_engine :: "nat repair_engine" where
  "demo_repair_engine = \<lparr> rpe_content_hash = (\<lambda>_ _. []), rpe_message = (\<lambda>_. []), rpe_perf_counter = (\<lambda>_. 0),
     rpe_adapter = (\<lambda>p n. (Inr demo_response, Suc n)), rpe_validate = (\<lambda>g n. (Inr demo_valid, n)),
     rpe_max_attempts = 3 \<rparr>"

lemma demo_extract: "\<exists>g. extract_repaired d demo_response l = Inr g"
proof -
  have "strip ''SELECT 1'' = ''SELECT 1''" by (simp add: strip_def lstrip_def rstrip_def is_space_def)
  then have "extract_sql ''SELECT 1'' = Inr \<lparr> er_sql = ''SELECT 1'', er_method = RAW_TEXT \<rparr>"
    by (simp add: extract_plain extraction_of_def)
  then show ?thesis by (simp add: extract_repaired_def sql_of_response_def demo_response_def Let_def)
qed

lemma demo_plan: "rpl_is_repairable (plan demo_invalid)"
  by (simp add: plan_def Let_def demo_invalid_def UNREPAIRABLE_CODES_def)

lemma demo_repair_step:
  "\<exists>a g. repair_step demo_repair_engine b n pl demo_sql demo_invalid w = (Inr (a, g, demo_valid), Suc w)
     \<and> ra_success a"
proof -
  obtain g where "extract_repaired (g_dialect demo_sql) demo_response 0 = Inr g" using demo_extract by blast
  then show ?thesis
    by (simp add: repair_step_def Let_def demo_repair_engine_def) (simp add: demo_valid_def)
qed

lemma demo_repair: "\<exists>r. repair demo_repair_engine b demo_sql demo_invalid 0 = (Inr r, 1) \<and> length (rr_history r) = 1"
proof -
  obtain a g where step: "repair_step demo_repair_engine b 1 (plan demo_invalid) demo_sql demo_invalid 0
      = (Inr (a, g, demo_valid), 1)" and "ra_success a"
    using demo_repair_step [of b 1 "plan demo_invalid" 0] by auto
  then have "repair_loop demo_repair_engine b [] demo_sql demo_invalid 0 = (Inr ([a], g, demo_valid), 1)"
    by (subst repair_loop.simps) (simp add: demo_plan should_continue_def Let_def)
  then show ?thesis by (simp add: repair_def)
qed

theorem repair_contract_witness:
  "\<exists>r. repair demo_repair_engine demo_bundle demo_sql demo_invalid 0 = (Inr r, 1) \<and>
     length (rr_history r) = 1 \<and> rr_status r = REPAIRED \<and> chained (g_sql demo_sql) (rr_history r)"
proof -
  obtain r where r: "repair demo_repair_engine demo_bundle demo_sql demo_invalid 0 = (Inr r, 1)"
    "length (rr_history r) = 1" using demo_repair by blast
  have m: "1 \<le> rpe_max_attempts demo_repair_engine" by (simp add: demo_repair_engine_def)
  have h: "rr_history r \<noteq> []" using r(2) by auto
  note c = repair_contract [OF r(1) m, unfolded Let_def]
  from c h obtain w1 w2 where "rpe_validate demo_repair_engine (rr_final_sql r) w1
      = (Inr (rr_final_validation_result r), w2)" by blast
  then have "rr_final_validation_result r = demo_valid" by (simp add: demo_repair_engine_def)
  then have "vr_is_valid (rr_final_validation_result r)" by (simp add: demo_valid_def)
  with c h r show ?thesis by blast
qed

theorem repair_calls_bounded_witness:
  "\<exists>res w' n. repair (counting demo_repair_engine) demo_bundle demo_sql demo_invalid (0, 0) = (res, (w', n)) \<and> n \<le> 3"
  using repair_calls_bounded [of demo_repair_engine demo_bundle demo_sql demo_invalid 0]
  by (simp add: demo_repair_engine_def)

theorem plan_partition_witness:
  "rpl_is_repairable (plan demo_invalid) \<and> rcat_reason ` set (rpl_categories (plan demo_invalid)) = {UNKNOWN_TABLE}"
  using plan_partition [of demo_invalid]
  by (simp add: Let_def demo_invalid_def reason_of_def ISSUE_CODE_TO_REASON_def)

section \<open>The repair prompt under the token budget\<close>

lemma repair_compiler_typed: "builders_typed (repair_compiler message g v pl)"
  by (auto simp: builders_typed_def repair_compiler_def default_compiler_def built_sections_def builder_defs
      build_repair_system_def build_repair_context_def build_repair_constraints_def section_order_def
      Let_def split: prod.splits)

lemma repair_trim_order:
  "sort_key ps_priority (filter (\<lambda>s. \<not> ps_is_required s) (built_sections (repair_compiler message g v pl) b d)) =
     [build_repair_context message g v pl b d, build_schema b d, build_relationships b d, build_business b d]"
proof -
  have p: "ps_priority (build_repair_context message g v pl b d) = 1" "ps_priority (build_schema b d) = 2"
    "ps_priority (build_relationships b d) = 2" "ps_priority (build_business b d) = 3"
    by (simp_all add: build_repair_context_def builder_defs Let_def SCHEMA_TRIM_PRIORITY_def
        EXAMPLES_TRIM_PRIORITY_def BUSINESS_TRIM_PRIORITY_def split: prod.splits)
  have "filter (\<lambda>s. \<not> ps_is_required s) (built_sections (repair_compiler message g v pl) b d) =
     [build_business b d, build_schema b d, build_relationships b d, build_repair_context message g v pl b d]"
    by (simp add: built_sections_def repair_compiler_def default_compiler_def build_repair_system_def
        build_repair_constraints_def build_repair_context_def builder_defs Let_def split: prod.splits)
  then show ?thesis using p by simp
qed

lemma compile_prompt_fresh: "fst (compile_prompt h pc l b d Map.empty) = build_prompt pc b d l"
  by (simp add: compile_prompt_def cache_get_mem_def Let_def)

lemma repair_prompt_examples:
  assumes "s' \<in> set (enforce DEFAULT_MAX_TOKENS (built_sections (repair_compiler message g v pl) b (g_dialect g)))"
    "ps_name s' = Retrieved_Examples"
  shows "cp_examples (build_repair_prompt h message l b g v pl) = s'"
proof -
  let ?pc = "repair_compiler message g v pl"
  let ?ss = "enforce DEFAULT_MAX_TOKENS (built_sections ?pc b (g_dialect g))"
  have "distinct (map ps_name ?ss)"
    by (simp add: enforce_names built_distinct [OF repair_compiler_typed])
  then have "working_dict ?ss Retrieved_Examples = Some s'"
    using working_dict_lookup [of ?ss s'] assms by simp
  moreover have "ps_name (pc_example_builder ?pc b (g_dialect g)) = Retrieved_Examples"
    by (simp add: repair_compiler_def build_repair_context_def example_section_def Let_def)
  moreover have "pc_max_tokens ?pc = DEFAULT_MAX_TOKENS" by (simp add: repair_compiler_def default_compiler_def)
  ultimately show ?thesis
    by (simp add: build_repair_prompt_def compile_prompt_fresh build_prompt_def section_named_def Let_def)
qed

text \<open>
  The section with the SQL to repair and its validation errors is the first the token budget
  removes: when the whole prompt exceeds the budget by at least the size of that section, the
  repair prompt is sent without the SQL, the plan and the errors, while the schema and business
  context are kept or only then cut.
\<close>
theorem repair_sql_dropped:
  assumes "DEFAULT_MAX_TOKENS + ps_estimated_tokens (build_repair_context message g v pl b (g_dialect g))
      \<le> total_tokens (built_sections (repair_compiler message g v pl) b (g_dialect g))"
  shows "ps_content (cp_examples (build_repair_prompt h message l b g v pl)) = []"
proof -
  let ?ss = "built_sections (repair_compiler message g v pl) b (g_dialect g)"
  let ?s = "build_repair_context message g v pl b (g_dialect g)"
  have name: "ps_name ?s = Retrieved_Examples" and "ps_content ?s \<noteq> []"
    by (simp_all add: build_repair_context_def example_section_def Let_def)
  then have "0 < ps_estimated_tokens ?s"
    by (simp add: build_repair_context_def example_section_def estimate_tokens_def Let_def)
  from enforce_drops_first [OF built_distinct [OF repair_compiler_typed] repair_trim_order this assms] name
  obtain s' where "s' \<in> set (enforce DEFAULT_MAX_TOKENS ?ss)" "ps_name s' = Retrieved_Examples" "ps_content s' = []"
    by auto
  then show ?thesis using repair_prompt_examples by metis
qed

text \<open>A question with one very long business concept.\<close>

definition long_bundle :: retrieved_knowledge_bundle where
  "long_bundle = demo_bundle \<lparr> rkb_linked_query_context := demo_linked \<lparr> lqc_query_context :=
     demo_query_context \<lparr> qc_business_concepts := [replicate 20000 CHR ''x''] \<rparr> \<rparr> \<rparr>"

theorem repair_sql_dropped_witness:
  "ps_content (cp_examples (build_repair_prompt (\<lambda>_ _. []) (\<lambda>_. []) 0 long_bundle demo_sql demo_invalid (plan demo_invalid))) = []"
proof (rule repair_sql_dropped)
  let ?ss = "built_sections (repair_compiler (\<lambda>_. []) demo_sql demo_invalid (plan demo_invalid)) long_bundle (g_dialect demo_sql)"
  let ?s = "build_repair_context (\<lambda>_. []) demo_sql demo_invalid (plan demo_invalid) long_bundle (g_dialect demo_sql)"
  have "5000 \<le> ps_estimated_tokens (build_business long_bundle (g_dialect demo_sql))"
    by (simp add: build_business_def business_section_def long_bundle_def demo_bundle_def estimate_tokens_def
        newline_def Let_def)
  moreover have "ps_estimated_tokens ?s + ps_estimated_tokens (build_business long_bundle (g_dialect demo_sql)) \<le> total_tokens ?ss"
    by (simp add: total_tokens_def built_sections_def repair_compiler_def default_compiler_def)
  ultimately show "DEFAULT_MAX_TOKENS + ps_estimated_tokens ?s \<le> total_tokens ?ss"
    by (simp add: DEFAULT_MAX_TOKENS_def)
qed

end
