(* ===== verification/Execution_Properties.thy ===== *)
theory Execution_Properties
  imports Sql_Execution Repair_Properties
begin

text \<open>
  What reaches the database and what the execution engine reports. The calls to the driver are
  observed with a recording wrapper around an arbitrary driver, so the statements hold for every
  behaviour of the database, including failures at every call.
\<close>

section \<open>Recording the calls of the driver\<close>

datatype db_call = C_Connect | C_Readonly | C_Execute string real | C_Close

definition logged :: "'c \<Rightarrow> ('w, 'e, 'a) op \<Rightarrow> ('w \<times> 'c list, 'e, 'a) op" where
  "logged c f = (\<lambda>(w, calls). case f w of (r, w') \<Rightarrow> (r, w', calls @ [c]))"

definition recording :: "('w, 'v) database \<Rightarrow> ('w \<times> db_call list, 'v) database" where
  "recording db = \<lparr> db_name = db_name db, db_connect = logged C_Connect (db_connect db),
     db_set_readonly = logged C_Readonly (db_set_readonly db),
     db_execute = (\<lambda>sql t. logged (C_Execute sql t) (db_execute db sql t)),
     db_close = logged C_Close (db_close db), db_perf_counter = (\<lambda>(w, _). db_perf_counter db w) \<rparr>"

lemma recording_apply [simp]:
  "db_name (recording db) = db_name db"
  "db_connect (recording db) (w, cs) = (let (r, w') = db_connect db w in (r, w', cs @ [C_Connect]))"
  "db_set_readonly (recording db) (w, cs) = (let (r, w') = db_set_readonly db w in (r, w', cs @ [C_Readonly]))"
  "db_execute (recording db) sql t (w, cs) = (let (r, w') = db_execute db sql t w in (r, w', cs @ [C_Execute sql t]))"
  "db_close (recording db) (w, cs) = (let (r, w') = db_close db w in (r, w', cs @ [C_Close]))"
  "db_perf_counter (recording db) (w, cs) = db_perf_counter db w"
  by (simp_all add: recording_def logged_def)

lemma execute_statement_recording [simp]:
  "execute_statement (recording db) sql t (w, cs) =
     (let (r, w') = execute_statement db sql t w in (r, w', cs @ [C_Execute sql t]))"
  by (simp add: execute_statement_def Let_def split: prod.split sum.split)

lemma close_after_recording [simp]:
  "close_after (recording db) r (w, cs) = (let (r', w') = close_after db r w in (r', w', cs @ [C_Close]))"
  by (simp add: close_after_def Let_def split: prod.split sum.split)

text \<open>The calls a connection block may make, in order: it is closed whenever it was opened.\<close>

definition session_calls :: "string \<Rightarrow> real \<Rightarrow> db_call list set" where
  "session_calls sql t = {[C_Connect], [C_Connect, C_Readonly, C_Close],
     [C_Connect, C_Readonly, C_Execute sql t, C_Close]}"

lemma acquire_recording:
  "\<exists>cs'. cs' \<in> session_calls sql t \<and>
     acquire (recording db) (execute_statement (recording db) sql t) (w, cs) =
       (let (r, w') = acquire db (execute_statement db sql t) w in (r, w', cs @ cs'))"
  by (auto simp: acquire_def session_calls_def Let_def split: prod.split sum.split)

lemma conclude_recording [simp]: "conclude (recording db) g sql l r = conclude db g sql l r"
  by (simp add: conclude_def error_result_def success_result_def split: sum.split execution_exception.split)

section \<open>What the guard lets through\<close>

definition read_only_select :: "'n sqlglot \<Rightarrow> 'n \<Rightarrow> bool" where
  "read_only_select sg s \<longleftrightarrow> sg_isa sg N_Select s \<and>
     (\<forall>n\<in>set (sg_walk sg s). \<forall>c\<in>set WRITE_NODE_TYPES. \<not> sg_isa sg c n)"

lemma guard_statement_Inr [simp]: "guard_statement sg s = Inr u \<longleftrightarrow> read_only_select sg s"
proof (cases "find_first sg WRITE_NODE_TYPES s")
  case (Some n)
  then have "n \<in> set (sg_walk sg s)" "\<exists>c\<in>set WRITE_NODE_TYPES. sg_isa sg c n"
    using next_where_Some unfolding find_first_def by fastforce+
  with Some show ?thesis by (auto simp: guard_statement_def read_only_select_def)
next
  case None
  then show ?thesis by (auto simp: guard_statement_def read_only_select_def) (auto simp: find_first_def)
qed

lemma guard_check_Inr:
  "guard_check sg t g v = Inr p \<longleftrightarrow>
     vr_is_valid v \<and> strip (g_sql g) \<noteq> [] \<and> p = \<lparr> pm_sql = strip (g_sql g), pm_timeout_seconds = t \<rparr> \<and>
     (\<exists>parsed s. sg_parse sg (SQLGLOT_DIALECTS (g_dialect g)) (strip (g_sql g)) = Inr parsed \<and>
        List.map_filter id parsed = [s] \<and> read_only_select sg s)"
  by (auto simp: guard_check_def Let_def result_simps split: sum.split list.split)

lemma execute_recording:
  assumes "execute_sql sg (recording db) t g v (w, cs) = (res, w', cs')"
  shows "fst (execute_sql sg db t g v w) = res \<and>
    (\<exists>calls. cs' = cs @ calls \<and> (calls \<noteq> [] \<longrightarrow> vr_is_valid v \<and> calls \<in> session_calls (strip (g_sql g)) t \<and>
      (\<exists>parsed s. sg_parse sg (SQLGLOT_DIALECTS (g_dialect g)) (strip (g_sql g)) = Inr parsed \<and>
         List.map_filter id parsed = [s] \<and> read_only_select sg s)))"
proof (cases "guard_check sg t g v")
  case (Inl e)
  then show ?thesis using assms
    by (cases e) (auto simp: execute_sql_def error_result_def)
next
  case (Inr p)
  then have p: "p = \<lparr> pm_sql = strip (g_sql g), pm_timeout_seconds = t \<rparr>" and
    ok: "vr_is_valid v" "\<exists>parsed s. sg_parse sg (SQLGLOT_DIALECTS (g_dialect g)) (strip (g_sql g)) = Inr parsed \<and>
       List.map_filter id parsed = [s] \<and> read_only_select sg s"
    by (auto simp: guard_check_Inr)
  obtain calls where c: "calls \<in> session_calls (strip (g_sql g)) t"
    and acq: "acquire (recording db) (execute_statement (recording db) (strip (g_sql g)) t) (w, cs) =
      (let (r, w') = acquire db (execute_statement db (strip (g_sql g)) t) w in (r, w', cs @ calls))"
    using acquire_recording [of "strip (g_sql g)" t db w cs] by auto
  have "fst (execute_sql sg db t g v w) = res \<and> cs' = cs @ calls"
    using assms Inr by (auto simp: execute_sql_def p acq Let_def split: prod.splits)
  with c ok show ?thesis by blast
qed

text \<open>
  C6. Whatever the driver does, the engine talks to the database only for SQL that passed
  validation and that parses as exactly one SELECT without a writing node anywhere below it. It
  then opens one connection, makes it read-only before it sends that statement (stripped, once,
  with the timeout of the guard) and closes the connection in every case in which it was opened.
  Recording the calls does not change the result.
\<close>
theorem only_reads_reach_database:
  assumes "execute_sql sg (recording db) t g v (w, []) = (res, w', calls)"
  shows "fst (execute_sql sg db t g v w) = res \<and>
    (calls \<noteq> [] \<longrightarrow> vr_is_valid v \<and> calls \<in> session_calls (strip (g_sql g)) t \<and>
      (\<exists>parsed s. sg_parse sg (SQLGLOT_DIALECTS (g_dialect g)) (strip (g_sql g)) = Inr parsed \<and>
         List.map_filter id parsed = [s] \<and> read_only_select sg s))"
  using execute_recording [OF assms] by auto

section \<open>What the engine reports\<close>

text \<open>The contract of \<open>SQLExecutionResult\<close>: which fields are populated under which status.\<close>

definition execution_result_ok :: "'v sql_execution_result \<Rightarrow> bool" where
  "execution_result_ok r \<longleftrightarrow>
     (case xr_status r of
        X_Success \<Rightarrow> xr_execution_error r = None \<and>
          (\<exists>qr. xr_query_result r = Some qr \<and> qr_row_count qr = length (qr_rows qr) \<and>
             xs_rows_returned (xr_statistics r) = length (qr_rows qr) \<and>
             xs_columns_returned (xr_statistics r) = length (qr_columns qr))
      | _ \<Rightarrow> xr_query_result r = None \<and> xs_rows_returned (xr_statistics r) = 0 \<and>
          xs_columns_returned (xr_statistics r) = 0 \<and>
          (\<exists>err. xr_execution_error r = Some err \<and>
             (xr_status r = X_Rejected \<longleftrightarrow> ee_code err = ''execution_rejected'') \<and>
             (xr_status r = X_Timeout \<longleftrightarrow> ee_code err = ''execution_timeout'') \<and>
             (xr_status r = X_Failed \<longleftrightarrow> ee_code err \<in>
                {''database_connection_error'', ''execution_failed'', ''result_formatting_failed''})))"

lemma error_result_ok:
  "(status, code) \<in> {(X_Rejected, ''execution_rejected''), (X_Timeout, ''execution_timeout''),
     (X_Failed, ''database_connection_error''), (X_Failed, ''execution_failed''), (X_Failed, ''result_formatting_failed'')}
   \<Longrightarrow> execution_result_ok (error_result db g status sql code e l)"
  by (auto simp: execution_result_ok_def error_result_def)

lemma success_result_ok:
  "format_result raw = Inr qr \<Longrightarrow> execution_result_ok (success_result db g sql qr l)"
  by (auto simp: execution_result_ok_def success_result_def format_result_def Let_def split: if_splits)

lemma conclude_ok: "conclude db g sql l r = Inr x \<Longrightarrow> execution_result_ok x"
  by (auto simp: conclude_def error_result_ok success_result_ok split: sum.splits execution_exception.splits)

text \<open>
  What the driver did: each call with the exception it raised, if any, and the cursor that executing
  the statement returned.
\<close>

datatype 'v db_event = V_Connect "db_exception option" | V_Readonly "db_exception option"
  | V_Execute "db_exception + 'v cursor" | V_Close "db_exception option"

definition failure :: "db_exception + unit \<Rightarrow> db_exception option" where
  "failure r = (case r of Inl e \<Rightarrow> Some e | Inr _ \<Rightarrow> None)"

definition observed_call :: "('e + 'a \<Rightarrow> 'c) \<Rightarrow> ('w, 'e, 'a) op \<Rightarrow> ('w \<times> 'c list, 'e, 'a) op" where
  "observed_call event f = (\<lambda>(w, events). case f w of (r, w') \<Rightarrow> (r, w', events @ [event r]))"

definition observing :: "('w, 'v) database \<Rightarrow> ('w \<times> 'v db_event list, 'v) database" where
  "observing db = \<lparr> db_name = db_name db, db_connect = observed_call (V_Connect \<circ> failure) (db_connect db),
     db_set_readonly = observed_call (V_Readonly \<circ> failure) (db_set_readonly db),
     db_execute = (\<lambda>sql t. observed_call V_Execute (db_execute db sql t)),
     db_close = observed_call (V_Close \<circ> failure) (db_close db), db_perf_counter = (\<lambda>(w, _). db_perf_counter db w) \<rparr>"

lemma observing_apply [simp]:
  "db_name (observing db) = db_name db"
  "db_connect (observing db) (w, vs) = (let (r, w') = db_connect db w in (r, w', vs @ [V_Connect (failure r)]))"
  "db_set_readonly (observing db) (w, vs) = (let (r, w') = db_set_readonly db w in (r, w', vs @ [V_Readonly (failure r)]))"
  "db_execute (observing db) sql t (w, vs) = (let (r, w') = db_execute db sql t w in (r, w', vs @ [V_Execute r]))"
  "db_close (observing db) (w, vs) = (let (r, w') = db_close db w in (r, w', vs @ [V_Close (failure r)]))"
  "db_perf_counter (observing db) (w, vs) = db_perf_counter db w"
  by (simp_all add: observing_def observed_call_def)

lemma failure_simps [simp]: "failure (Inl e) = Some e" "failure (Inr u) = None"
  by (simp_all add: failure_def)

text \<open>The exception with which reading the names or the rows of a cursor fails.\<close>

definition read_failure :: "'v cursor \<Rightarrow> db_exception option" where
  "read_failure cu = (case cu_keys cu of Inl e \<Rightarrow> Some e
     | Inr _ \<Rightarrow> (case cu_fetchall cu of Inl e \<Rightarrow> Some e | Inr _ \<Rightarrow> None))"

text \<open>
  The sessions with the driver that are possible, and the outcome of the connection block for each:
  the translation of the exceptions of the driver, stated on what was observed.
\<close>

inductive session_outcome :: "'v db_event list \<Rightarrow> execution_exception + 'v raw_query_result \<Rightarrow> bool" where
  no_connection: "session_outcome [V_Connect (Some d)] (Inl DatabaseConnectionError)"
| not_readonly: "session_outcome [V_Connect None, V_Readonly (Some d), V_Close None] (Inl DatabaseConnectionError)"
| timed_out: "session_outcome [V_Connect None, V_Readonly None, V_Execute (Inl DB_Timeout), V_Close None]
    (Inl ExecutionTimeoutError)"
| refused: "session_outcome [V_Connect None, V_Readonly None, V_Execute (Inl DB_SQLAlchemyError), V_Close None]
    (Inl ExecutionFailureError)"
| escaped: "session_outcome [V_Connect None, V_Readonly None, V_Execute (Inl DB_OtherException), V_Close None]
    (Inl (XE_Database DB_OtherException))"
| unreadable: "read_failure cu = Some DB_SQLAlchemyError \<Longrightarrow>
    session_outcome [V_Connect None, V_Readonly None, V_Execute (Inr cu), V_Close None] (Inl ExecutionFailureError)"
| unread: "read_failure cu = Some d \<Longrightarrow> d \<noteq> DB_SQLAlchemyError \<Longrightarrow>
    session_outcome [V_Connect None, V_Readonly None, V_Execute (Inr cu), V_Close None] (Inl (XE_Database d))"
| rows: "cu_keys cu = Inr (rq_column_names raw) \<Longrightarrow> cu_fetchall cu = Inr (rq_rows raw) \<Longrightarrow>
    (\<And>d. cu_description cu = Some d \<Longrightarrow> rq_column_type_oids raw = d) \<Longrightarrow>
    (cu_description cu = None \<Longrightarrow> rq_column_type_oids raw = map (\<lambda>_. None) (rq_column_names raw)) \<Longrightarrow>
    session_outcome [V_Connect None, V_Readonly None, V_Execute (Inr cu), V_Close None] (Inr raw)"
| close_failed: "session_outcome (V_Connect None # vs @ [V_Close (Some d)]) (Inl (XE_Database d))"

lemma execute_statement_observed:
  "execute_statement (observing db) sql t (w, vs) =
     (let (r, w') = execute_statement db sql t w in (r, w', vs @ [V_Execute (fst (db_execute db sql t w))]))"
  by (simp add: execute_statement_def Let_def split: prod.split sum.split)

lemma statement_session:
  assumes "execute_statement db sql t w = (r, w')"
  shows "session_outcome [V_Connect None, V_Readonly None, V_Execute (fst (db_execute db sql t w)), V_Close None] r"
proof (cases "db_execute db sql t w")
  case (Pair r0 w0)
  show ?thesis
  proof (cases r0)
    case (Inl d)
    then show ?thesis using assms Pair
      by (cases d) (auto simp: execute_statement_def intro: timed_out refused escaped)
  next
    case (Inr cu)
    then obtain l where r: "r = read_cursor cu l" using assms Pair by (auto simp: execute_statement_def)
    have fail: "session_outcome [V_Connect None, V_Readonly None, V_Execute (Inr cu), V_Close None] (Inl (fetch_error d))"
      if "read_failure cu = Some d" for d
      using that by (cases d) (auto intro: unreadable unread)
    show ?thesis
    proof (cases "read_failure cu")
      case (Some d)
      then have "r = Inl (fetch_error d)" unfolding r read_failure_def read_cursor_def
        by (auto simp: Let_def split: sum.splits)
      with fail [OF Some] show ?thesis by (simp add: Pair Inr)
    next
      case None
      then obtain names rows where "cu_keys cu = Inr names" "cu_fetchall cu = Inr rows"
        by (auto simp: read_failure_def split: sum.splits)
      then show ?thesis unfolding r by (auto simp: Pair Inr read_cursor_def Let_def intro!: rows split: option.split)
    qed
  qed
qed

lemma acquire_session:
  fixes db :: "('w, 'v) database"
  assumes "acquire (observing db) (execute_statement (observing db) sql t) (w, []) = (r, w', vs)"
  shows "session_outcome vs r \<and> acquire db (execute_statement db sql t) w = (r, w')"
proof -
  obtain c w1 where c: "db_connect db w = (c, w1)" by fastforce
  show ?thesis
  proof (cases c)
    case (Inl d)
    then show ?thesis using assms c by (auto simp: acquire_def intro: no_connection)
  next
    case c': (Inr u)
    obtain o2 w2 where o2: "db_set_readonly db w1 = (o2, w2)" by fastforce
    have close: "session_outcome (V_Connect None # vs @ [V_Close (failure k)])
        (case k of Inl e \<Rightarrow> Inl (XE_Database e) | Inr _ \<Rightarrow> q)"
      if "session_outcome (V_Connect None # vs @ [V_Close None]) q" for vs k and q :: "execution_exception + 'v raw_query_result"
      using that by (cases k) (auto intro: close_failed)
    show ?thesis
    proof (cases o2)
      case (Inl d)
      obtain k w3 where k: "db_close db w2 = (k, w3)" by fastforce
      have "session_outcome (V_Connect None # [V_Readonly (Some d)] @ [V_Close None])
          (Inl DatabaseConnectionError :: execution_exception + 'v raw_query_result)"
        using not_readonly by simp
      from close [OF this, of k] show ?thesis
        using assms c c' o2 Inl k by (cases k) (auto simp: acquire_def close_after_def)
    next
      case o2': (Inr u')
      obtain q w3 where q: "execute_statement db sql t w2 = (q, w3)" by fastforce
      obtain k w4 where k: "db_close db w3 = (k, w4)" by fastforce
      have "session_outcome (V_Connect None # [V_Readonly None, V_Execute (fst (db_execute db sql t w2))] @ [V_Close None]) q"
        using statement_session [OF q] by simp
      from close [OF this, of k] show ?thesis
        using assms c c' o2 o2' q k by (cases k) (auto simp: acquire_def close_after_def execute_statement_observed)
    qed
  qed
qed

lemma conclude_observing [simp]: "conclude (observing db) g sql l r = conclude db g sql l r"
  by (simp add: conclude_def error_result_def success_result_def split: sum.split execution_exception.split)

inductive_cases session_cases: "session_outcome vs r"

definition reported :: "'v sql_execution_result \<Rightarrow> string \<Rightarrow> bool" where
  "reported r code \<longleftrightarrow> (\<exists>err. xr_execution_error r = Some err \<and> ee_code err = code)"

lemma reported_simps [simp]:
  "reported (error_result db g status sql c e l) code \<longleftrightarrow> c = code"
  "\<not> reported (success_result db g sql qr l) code"
  by (auto simp: reported_def error_result_def success_result_def)

lemma result_fields [simp]:
  "xr_status (error_result db g status sql c e l) = status"
  "xr_query_result (error_result db g status sql c e l) = None"
  "xs_dialect (xr_statistics (error_result db g status sql c e l)) = g_dialect g"
  "xr_status (success_result db g sql qr l) = X_Success"
  "xr_query_result (success_result db g sql qr l) = Some qr"
  "xs_dialect (xr_statistics (success_result db g sql qr l)) = g_dialect g"
  by (simp_all add: error_result_def success_result_def)

text \<open>An error of SQLAlchemy when the statement ran or when its result was read.\<close>

definition statement_failed :: "'v db_event list \<Rightarrow> bool" where
  "statement_failed events \<longleftrightarrow> V_Execute (Inl DB_SQLAlchemyError) \<in> set events \<or>
     (\<exists>cu. V_Execute (Inr cu) \<in> set events \<and> read_failure cu = Some DB_SQLAlchemyError)"

text \<open>What a result says of the driver: its status and its error name the failure observed.\<close>

definition result_observed :: "'v db_event list \<Rightarrow> 'v sql_execution_result \<Rightarrow> bool" where
  "result_observed events r \<longleftrightarrow>
     (xr_status r = X_Rejected \<longleftrightarrow> events = []) \<and>
     (xr_status r = X_Timeout \<longleftrightarrow> V_Execute (Inl DB_Timeout) \<in> set events) \<and>
     (reported r ''database_connection_error'' \<longleftrightarrow>
        (\<exists>d. V_Connect (Some d) \<in> set events \<or> V_Readonly (Some d) \<in> set events)) \<and>
     (reported r ''execution_failed'' \<longleftrightarrow> statement_failed events) \<and>
     (reported r ''result_formatting_failed'' \<longleftrightarrow>
        (\<exists>cu names rows d. V_Execute (Inr cu) \<in> set events \<and> cu_keys cu = Inr names \<and> cu_fetchall cu = Inr rows \<and>
           cu_description cu = Some d \<and> length d \<noteq> length names)) \<and>
     (\<forall>qr. xr_query_result r = Some qr \<longrightarrow> (\<exists>cu. V_Execute (Inr cu) \<in> set events \<and>
        cu_keys cu = Inr (map qcol_name (qr_columns qr)) \<and> cu_fetchall cu = Inr (map qrow_values (qr_rows qr)))) \<and>
     (\<forall>d. V_Close (Some d) \<notin> set events)"

text \<open>
  What may leave the engine: an exception of closing the connection, one of the statement that is
  neither a timeout nor an error of SQLAlchemy, or one of reading its result that is not an error
  of SQLAlchemy.
\<close>

definition exception_observed :: "'v db_event list \<Rightarrow> db_exception \<Rightarrow> bool" where
  "exception_observed events d \<longleftrightarrow> V_Close (Some d) \<in> set events \<or>
     d = DB_OtherException \<and> V_Execute (Inl d) \<in> set events \<or>
     d \<noteq> DB_SQLAlchemyError \<and> (\<exists>cu. V_Execute (Inr cu) \<in> set events \<and> read_failure cu = Some d)"

lemma read_failure_None:
  "cu_keys cu = Inr ns \<Longrightarrow> cu_fetchall cu = Inr rows \<Longrightarrow> read_failure cu = None"
  by (simp add: read_failure_def)

lemma read_failure_Some:
  "read_failure cu = Some d \<Longrightarrow> cu_keys cu = Inr ns \<Longrightarrow> cu_fetchall cu = Inr rows \<Longrightarrow> False"
  by (simp add: read_failure_None)

lemma conclude_rows:
  assumes "cu_keys cu = Inr (rq_column_names raw)" "cu_fetchall cu = Inr (rq_rows raw)"
    and "\<And>d. cu_description cu = Some d \<Longrightarrow> rq_column_type_oids raw = d"
    and "cu_description cu = None \<Longrightarrow> rq_column_type_oids raw = map (\<lambda>_. None) (rq_column_names raw)"
    and "conclude db g sql l (Inr raw) = Inr x"
  shows "result_observed [V_Connect None, V_Readonly None, V_Execute (Inr cu), V_Close None] x"
proof (cases "length (rq_column_names raw) = length (rq_column_type_oids raw)")
  case True
  have "map qcol_name (map2 format_column ns ts) = ns" if "length ns = length ts" for ns ts
    using that by (induction ns ts rule: list_induct2) (simp_all add: format_column_def split: prod.split)
  moreover have "map (qrow_values \<circ> (\<lambda>r. \<lparr> qrow_values = r \<rparr>)) vs = vs" for vs :: "'b list list"
    by (induction vs) simp_all
  moreover have "length d = length (rq_column_names raw)" if "cu_description cu = Some d" for d
    using assms(3) [OF that] True by simp
  ultimately show ?thesis using assms True
    by (auto simp: result_observed_def conclude_def format_result_def statement_failed_def read_failure_def Let_def
        o_def)
next
  case False
  with assms(4) obtain d where "cu_description cu = Some d" by (cases "cu_description cu") auto
  with False assms show ?thesis
    by (auto simp: result_observed_def conclude_def format_result_def statement_failed_def read_failure_def)
qed

lemma session_observed:
  assumes "session_outcome vs r"
  shows "case conclude db g sql l r of
      Inr x \<Rightarrow> result_observed vs x \<and> xs_dialect (xr_statistics x) = g_dialect g
    | Inl e \<Rightarrow> \<exists>d. e = XE_Database d \<and> exception_observed vs d"
  using assms
proof cases
  case (rows cu raw)
  then obtain x where "conclude db g sql l (Inr raw) = Inr x"
    by (cases "format_result raw") (simp_all add: conclude_def)
  with conclude_rows [OF rows(3-6) this] rows(2) show ?thesis
    by (auto simp: rows(1) conclude_def split: sum.splits)
qed (auto simp: conclude_def result_observed_def exception_observed_def statement_failed_def
    dest: read_failure_Some)

text \<open>
  C8. A call of the execution engine returns a result in which the fields match the status (rows
  and counts exactly on success, otherwise an error whose code determines the status), and which
  names what the driver did: it is rejected exactly when the driver was not called (and then the
  world is untouched), a timeout exactly when executing the statement timed out, a connection error
  exactly when connecting or making the connection read-only failed, a failed execution exactly
  when executing or reading failed with an error of SQLAlchemy, a formatting error exactly when
  the description of the cursor has another length than its names, and on success it holds the
  names and the values the driver returned. The only exceptions that leave the engine are those of
  the SQL parser while the guard parses, those of closing the connection, and those of executing
  or reading that the executor does not translate. Observing the driver does not change the result.
\<close>
theorem execution_outcomes:
  assumes "execute_sql sg (observing db) t g v (w, []) = (res, (w', events))"
  shows "fst (execute_sql sg db t g v w) = res \<and>
    (case res of
       Inr r \<Rightarrow> execution_result_ok r \<and> xs_dialect (xr_statistics r) = g_dialect g \<and> result_observed events r \<and>
         (xr_status r = X_Rejected \<longrightarrow> w' = w)
     | Inl e \<Rightarrow>
         (\<exists>s. e = XE_Sqlglot s \<and> w' = w \<and> events = [] \<and>
            sg_parse sg (SQLGLOT_DIALECTS (g_dialect g)) (strip (g_sql g)) = Inl s) \<or>
         (\<exists>d. e = XE_Database d \<and> exception_observed events d))"
proof (cases "guard_check sg t g v")
  case (Inl e)
  then have "(\<exists>s. e = XE_Sqlglot s \<and> sg_parse sg (SQLGLOT_DIALECTS (g_dialect g)) (strip (g_sql g)) = Inl s) \<or>
      (\<exists>reason. e = ExecutionRejectedError reason)"
    by (auto simp: guard_check_def guard_statement_def Let_def split: sum.splits if_splits list.splits option.splits)
  then show ?thesis using assms Inl
    by (auto simp: execute_sql_def error_result_ok result_observed_def statement_failed_def)
      (auto simp: error_result_def)
next
  case (Inr p)
  obtain r where a: "acquire (observing db) (execute_statement (observing db) (pm_sql p) (pm_timeout_seconds p)) (w, [])
      = (r, w', events)" and "\<exists>l. res = conclude db g (pm_sql p) l r"
    using assms by (auto simp: execute_sql_def Inr split: prod.splits)
  then obtain l where res: "conclude db g (pm_sql p) l r = res" by blast
  from acquire_session [OF a] have s: "session_outcome events r"
    and a': "acquire db (execute_statement db (pm_sql p) (pm_timeout_seconds p)) w = (r, w')" by auto
  from assms have same: "fst (execute_sql sg db t g v w) = res" by (auto simp: execute_sql_def Inr a a' Let_def)
  have "events \<noteq> []" using s by cases auto
  with session_observed [OF s, of g db "pm_sql p" l] res show ?thesis
    by (cases res) (auto simp: same conclude_ok result_observed_def)
qed

text \<open>
  A connection that can be made neither read-only nor closed: the exception of closing it leaves the
  engine, although a connection problem should be reported in the result.
\<close>

lemma close_failure_escapes:
  assumes "guard_check sg t g v = Inr p" "db_connect db w = (Inr (), w1)" "db_set_readonly db w1 = (Inl e, w2)"
    and "db_close db w2 = (Inl d, w3)"
  shows "execute_sql sg db t g v w = (Inl (XE_Database d), w3)"
  using assms by (simp add: execute_sql_def acquire_def close_after_def conclude_def)

section \<open>A concrete database\<close>

text \<open>One row with one number; the clock counts the calls.\<close>

definition demo_database :: "(nat, int) database" where
  "demo_database = \<lparr> db_name = ''shop'', db_connect = (\<lambda>w. (Inr (), w + 1)), db_set_readonly = (\<lambda>w. (Inr (), w + 1)),
     db_execute = (\<lambda>sql t w. (Inr \<lparr> cu_keys = Inr [''total''], cu_description = Some [Some 20],
        cu_fetchall = Inr [[42]] \<rparr>, w + 1)),
     db_close = (\<lambda>w. (Inr (), w + 1)), db_perf_counter = real \<rparr>"

definition demo_outcome :: "(execution_exception + int sql_execution_result) \<times> nat \<times> db_call list" where
  "demo_outcome = execute_sql demo_sqlglot (recording demo_database) 30 demo_sql demo_valid (0, [])"

lemma demo_permit: "\<exists>p. guard_check demo_sqlglot 30 demo_sql demo_valid = Inr p"
proof -
  have "strip (g_sql demo_sql) \<noteq> []" by (simp add: demo_sql_def) code_simp
  moreover have "read_only_select demo_sqlglot DSelect"
    by (auto simp: read_only_select_def demo_sqlglot_def WRITE_NODE_TYPES_def)
  ultimately show ?thesis
    by (auto simp: guard_check_Inr demo_valid_def demo_sqlglot_def List.map_filter_def)
qed

lemma demo_calls: "\<exists>r w. demo_outcome = (Inr r, w, [C_Connect, C_Readonly, C_Execute (strip (g_sql demo_sql)) 30, C_Close])
    \<and> xr_status r = X_Success"
proof -
  obtain p where p: "guard_check demo_sqlglot 30 demo_sql demo_valid = Inr p" using demo_permit by blast
  then have "p = \<lparr> pm_sql = strip (g_sql demo_sql), pm_timeout_seconds = 30 \<rparr>" by (simp add: guard_check_Inr)
  then show ?thesis
    by (simp add: demo_outcome_def execute_sql_def p acquire_def Let_def)
      (simp add: demo_database_def close_after_def execute_statement_def read_cursor_def format_result_def
        success_result_def conclude_def Let_def)
qed

theorem only_reads_reach_database_witness:
  "\<exists>r w. demo_outcome = (Inr r, w, [C_Connect, C_Readonly, C_Execute (strip (g_sql demo_sql)) 30, C_Close]) \<and>
     fst (execute_sql demo_sqlglot demo_database 30 demo_sql demo_valid 0) = Inr r \<and>
     vr_is_valid demo_valid \<and>
     (\<exists>parsed s. sg_parse demo_sqlglot ''postgres'' (strip (g_sql demo_sql)) = Inr parsed \<and>
        List.map_filter id parsed = [s] \<and> read_only_select demo_sqlglot s)"
proof -
  obtain r w where d: "demo_outcome = (Inr r, w, [C_Connect, C_Readonly, C_Execute (strip (g_sql demo_sql)) 30, C_Close])"
    using demo_calls by blast
  have dialect: "SQLGLOT_DIALECTS (g_dialect demo_sql) = ''postgres''" by (simp add: SQLGLOT_DIALECTS_def demo_sql_def)
  from only_reads_reach_database [OF d [unfolded demo_outcome_def]] d dialect show ?thesis by auto
qed

theorem execution_outcomes_witness:
  "\<exists>r w' cu. execute_sql demo_sqlglot (observing demo_database) 30 demo_sql demo_valid (0, []) =
       (Inr r, w', [V_Connect None, V_Readonly None, V_Execute (Inr cu), V_Close None]) \<and>
     fst (execute_sql demo_sqlglot demo_database 30 demo_sql demo_valid 0) = Inr r \<and> xr_status r = X_Success \<and>
     (\<exists>qr. xr_query_result r = Some qr \<and> map qcol_name (qr_columns qr) = [''total''] \<and>
        map qrow_values (qr_rows qr) = [[42]])"
proof -
  obtain p where p: "guard_check demo_sqlglot 30 demo_sql demo_valid = Inr p" using demo_permit by blast
  obtain r w' cu where x: "execute_sql demo_sqlglot (observing demo_database) 30 demo_sql demo_valid (0, []) =
       (Inr r, w', [V_Connect None, V_Readonly None, V_Execute (Inr cu), V_Close None])"
    and r: "xr_status r = X_Success" and cu: "cu_keys cu = Inr [''total'']" "cu_fetchall cu = Inr [[42]]"
    by (simp add: execute_sql_def p acquire_def execute_statement_observed Let_def)
      (simp add: demo_database_def close_after_def execute_statement_def read_cursor_def format_result_def
        success_result_def conclude_def Let_def)
  from execution_outcomes [OF x] r cu show ?thesis using x
    by (auto simp: result_observed_def execution_result_ok_def)
qed

end
