(* ===== verification/Pipeline_Properties.thy ===== *)
theory Pipeline_Properties
  imports Pipeline Execution_Properties
begin

text \<open>
  What the orchestrator guarantees: listening to a run does not change it and the events tell
  exactly what the response reports; the fields of a response match its status; the SQL that is
  executed is the SQL that was validated.
\<close>

lemmas body_defs = on_world_def assign_def sbind_def

section \<open>Listening to a run\<close>

definition with_log :: "('w, 'e, 'a) op \<Rightarrow> ('w \<times> 'c list, 'e, 'a) op" where
  "with_log f = (\<lambda>(w, evs). case f w of (x, w') \<Rightarrow> (x, w', evs))"

text \<open>The same collaborators beside a log that only the publisher writes.\<close>

definition listening :: "('w, 'v, 'b) pipeline_runner \<Rightarrow> ('w \<times> 'c list, 'v, 'b) pipeline_runner" where
  "listening r = \<lparr> pl_perf_counter = (\<lambda>(w, evs). pl_perf_counter r w),
     pl_parse = (\<lambda>q. with_log (pl_parse r q)), pl_link = (\<lambda>c. with_log (pl_link r c)),
     pl_load_knowledge = with_log (pl_load_knowledge r), pl_retrieve = (\<lambda>c. with_log (pl_retrieve r c)),
     pl_compile = (\<lambda>b d. with_log (pl_compile r b d)), pl_generate = (\<lambda>c. with_log (pl_generate r c)),
     pl_validate = (\<lambda>g. with_log (pl_validate r g)), pl_repair = (\<lambda>g v b. with_log (pl_repair r g v b)),
     pl_execute = (\<lambda>g v. with_log (pl_execute r g v)), pl_format = (\<lambda>x. with_log (pl_format r x)),
     pl_dialect = pl_dialect r \<rparr>"

definition append_event :: "('v, 'b) pipeline_event \<Rightarrow> ('w \<times> ('v, 'b) pipeline_event list, stage_exception, unit) op" where
  "append_event ev = (\<lambda>(w, evs). (Inr (), w, evs @ [ev]))"

lemma listening_simps [simp]:
  "pl_perf_counter (listening r) (w, evs) = pl_perf_counter r w"
  "pl_parse (listening r) = (\<lambda>q. with_log (pl_parse r q))" "pl_link (listening r) = (\<lambda>c. with_log (pl_link r c))"
  "pl_load_knowledge (listening r) = with_log (pl_load_knowledge r)"
  "pl_retrieve (listening r) = (\<lambda>c. with_log (pl_retrieve r c))"
  "pl_compile (listening r) = (\<lambda>b d. with_log (pl_compile r b d))"
  "pl_generate (listening r) = (\<lambda>c. with_log (pl_generate r c))"
  "pl_validate (listening r) = (\<lambda>g. with_log (pl_validate r g))"
  "pl_repair (listening r) = (\<lambda>g v b. with_log (pl_repair r g v b))"
  "pl_execute (listening r) = (\<lambda>g v. with_log (pl_execute r g v))"
  "pl_format (listening r) = (\<lambda>x. with_log (pl_format r x))" "pl_dialect (listening r) = pl_dialect r"
  by (simp_all add: listening_def)

lemma elapsed_ms_listening [simp]: "elapsed_ms (listening r) s (w, evs) = elapsed_ms r s w"
  by (simp add: elapsed_ms_def)

text \<open>The events of completed stages.\<close>

fun stage_events :: "stage_timing list \<Rightarrow> ('v, 'b) pipeline_event list" where
  "stage_events [] = []"
| "stage_events (t # ts) = StageStarted (tm_stage t) # StageCompleted (tm_stage t) (tm_latency_ms t) # stage_events ts"

lemma stage_events_append [simp]: "stage_events (ts @ us) = stage_events ts @ stage_events us"
  by (induction ts) auto

text \<open>
  Two bodies, one that publishes to the log and one that publishes to nobody, agree: the first does
  what the second does and logs the events of the stages it completes, then those of its result
  (\<open>fin\<close>) or the start of the stage in which it raises.
\<close>

definition traced ::
  "('a \<Rightarrow> ('v, 'b) pipeline_event list) \<Rightarrow> ('w \<times> ('v, 'b) pipeline_event list, 'v, 'a) body \<Rightarrow> ('w, 'v, 'a) body \<Rightarrow> bool" where
  "traced fin m n \<longleftrightarrow> (\<forall>w evs l. case n (w, l) of (x, w', l') \<Rightarrow>
     (\<exists>ts. lc_stage_timings l' = lc_stage_timings l @ ts \<and>
        m ((w, evs), l) = (x, (w', evs @ stage_events ts @
          (case x of Inl _ \<Rightarrow> [StageStarted (lc_current_stage l')] | Inr y \<Rightarrow> fin y)), l')))"

abbreviation silent :: "'a \<Rightarrow> 'c list" where
  "silent \<equiv> \<lambda>_. []"

lemma tracedI:
  assumes "\<And>w evs l x w' l'. n (w, l) = (x, w', l') \<Longrightarrow>
     \<exists>ts. lc_stage_timings l' = lc_stage_timings l @ ts \<and>
        m ((w, evs), l) = (x, (w', evs @ stage_events ts @
          (case x of Inl _ \<Rightarrow> [StageStarted (lc_current_stage l')] | Inr y \<Rightarrow> fin y)), l')"
  shows "traced fin m n"
  using assms by (auto simp: traced_def split: prod.split)

lemma tracedD:
  assumes "traced fin m n" "n (w, l) = (x, w', l')"
  obtains ts where "lc_stage_timings l' = lc_stage_timings l @ ts"
    "m ((w, evs), l) = (x, (w', evs @ stage_events ts @
       (case x of Inl _ \<Rightarrow> [StageStarted (lc_current_stage l')] | Inr y \<Rightarrow> fin y)), l')"
proof -
  have "\<exists>ts. lc_stage_timings l' = lc_stage_timings l @ ts \<and>
        m ((w, evs), l) = (x, (w', evs @ stage_events ts @
          (case x of Inl _ \<Rightarrow> [StageStarted (lc_current_stage l')] | Inr y \<Rightarrow> fin y)), l')"
    using assms(1) [unfolded traced_def, THEN spec [of _ w], THEN spec [of _ evs], THEN spec [of _ l]] assms(2) by simp
  then show ?thesis using that by blast
qed

lemma traced_bind:
  assumes m: "traced silent m m'" and f: "\<And>x. traced fin (f x) (f' x)"
  shows "traced fin (sbind m f) (sbind m' f')"
proof (rule tracedI)
  fix w evs l x w2 l2
  assume run: "sbind m' f' (w, l) = (x, w2, l2)"
  obtain y w1 l1 where m1: "m' (w, l) = (y, w1, l1)" by (metis prod_cases3)
  obtain ts where ts: "lc_stage_timings l1 = lc_stage_timings l @ ts"
    "m ((w, evs), l) = (y, (w1, evs @ stage_events ts @
       (case y of Inl _ \<Rightarrow> [StageStarted (lc_current_stage l1)] | Inr _ \<Rightarrow> [])), l1)"
    using tracedD [OF m m1] .
  show "\<exists>ts. lc_stage_timings l2 = lc_stage_timings l @ ts \<and>
        sbind m f ((w, evs), l) = (x, (w2, evs @ stage_events ts @
          (case x of Inl _ \<Rightarrow> [StageStarted (lc_current_stage l2)] | Inr y \<Rightarrow> fin y)), l2)"
  proof (cases y)
    case (Inl e)
    then show ?thesis using run m1 ts by (auto simp: sbind_def)
  next
    case (Inr v)
    then have "f' v (w1, l1) = (x, w2, l2)" using run m1 by (simp add: sbind_def)
    then obtain us where "lc_stage_timings l2 = lc_stage_timings l1 @ us"
      "f v ((w1, evs @ stage_events ts), l1) = (x, (w2, (evs @ stage_events ts) @ stage_events us @
       (case x of Inl _ \<Rightarrow> [StageStarted (lc_current_stage l2)] | Inr y \<Rightarrow> fin y)), l2)"
      using tracedD [OF f] by blast
    then show ?thesis using ts Inr by (intro exI [of _ "ts @ us"]) (simp add: sbind_def)
  qed
qed

lemma traced_return [intro]: "traced silent (sreturn x) (sreturn x)"
  by (auto intro!: tracedI)

lemma traced_assign:
  assumes "\<And>w evs l. f (w, evs) l = g w l" "\<And>w l. lc_stage_timings (g w l) = lc_stage_timings l"
  shows "traced silent (assign f) (assign g)"
  using assms by (auto intro!: tracedI simp: assign_def)

text \<open>A stage that stores its result without touching the timings.\<close>

lemma traced_stage:
  assumes "\<And>x l. lc_stage_timings (store x l) = lc_stage_timings l"
    "\<And>x l. lc_stage_started (store x l) = lc_stage_started l"
  shows "traced silent (run_stage (listening r) (Some append_event) stage (with_log call) store) (run_stage r None stage call store)"
proof (rule tracedI)
  fix w evs l x w' and l' :: "'b locals"
  assume run: "run_stage r None stage call store (w, l) = (x, w', l')"
  obtain y w1 where c: "call w = (y, w1)" by fastforce
  show "\<exists>ts. lc_stage_timings l' = lc_stage_timings l @ ts \<and>
        run_stage (listening r) (Some append_event) stage (with_log call) store ((w, evs), l) = (x, (w', evs @ stage_events ts @
          (case x of Inl _ \<Rightarrow> [StageStarted (lc_current_stage l')] | Inr _ \<Rightarrow> [])), l')"
    using run c assms
    by (cases y) (auto simp: run_stage_def body_defs publish_def append_event_def with_log_def notify_completed_def Let_def)
qed

lemma traced_llm: "traced silent (report_llm (Some append_event) g) (report_llm None g)"
  by (auto intro!: tracedI simp: report_llm_def body_defs publish_def append_event_def Let_def)

lemma traced_stage_keep:
  "traced silent (run_stage (listening r) (Some append_event) stage (with_log call) keep) (run_stage r None stage call keep)"
  by (rule traced_stage) (simp_all add: keep_def)

lemma traced_context: "traced silent (retrieve_context (listening r) (Some append_event) q) (retrieve_context r None q)"
  by (auto simp: retrieve_context_def intro!: traced_bind traced_stage_keep)

lemma traced_repair:
  "traced silent (repair_if_invalid (listening r) (Some append_event) b g v) (repair_if_invalid r None b g v)"
  by (auto simp: repair_if_invalid_def intro!: traced_bind traced_stage traced_assign)

lemma traced_outcome: "traced silent (outcome_of b gv) (outcome_of b gv)"
  by (cases gv) (auto intro!: tracedI simp: outcome_of_def)

lemma traced_generate: "traced silent (generate_body (listening r) (Some append_event) q) (generate_body r None q)"
  by (auto simp: generate_body_def
      intro!: traced_bind traced_context traced_stage_keep traced_stage traced_llm traced_repair traced_outcome)


lemma traced_respond:
  "traced (\<lambda>x. [PipelineCompleted x]) (respond (listening r) (Some append_event) q s go x ans) (respond r None q s go x ans)"
  by (auto intro!: tracedI simp: respond_def body_defs publish_def append_event_def Let_def)

lemma traced_execute:
  "traced (\<lambda>x. [PipelineCompleted x]) (execute_body (listening r) (Some append_event) q s go) (execute_body r None q s go)"
  by (auto simp: execute_body_def intro!: traced_bind traced_stage_keep traced_stage traced_respond)

text \<open>The handler announces the failed stage and the failed pipeline.\<close>

definition failure_events :: "real \<Rightarrow> 'v pipeline_failure \<Rightarrow> ('v, 'b) pipeline_event list" where
  "failure_events d f = [StageStarted (pf_stage f), StageFailed (pf_stage f) d (pf_cause f), PipelineFailed f]"

lemma handle_failure_listening [simp]:
  "handle_failure r None e l w = (Inl (PipelineExecutionError (failure_of e l)), w)"
  "handle_failure (listening r) (Some append_event) e l (w, evs) = (Inl (PipelineExecutionError (failure_of e l)), w,
     evs @ [StageFailed (lc_current_stage l) (elapsed_ms r (lc_stage_started l) w) e, PipelineFailed (failure_of e l)])"
  by (simp_all add: handle_failure_def publish_def append_event_def)

lemma try_listening:
  assumes "traced fin m n"
  obtains (ok) x w' l' ts where "n (w, l) = (Inr x, w', l')" "lc_stage_timings l' = lc_stage_timings l @ ts"
      "try_body r None l n w = (Inr x, w')"
      "try_body (listening r) (Some append_event) l m (w, evs) = (Inr x, w', evs @ stage_events ts @ fin x)"
  | (fail) f w' ts d where "pf_stage_timings f = lc_stage_timings l @ ts"
      "try_body r None l n w = (Inl (PipelineExecutionError f), w')"
      "try_body (listening r) (Some append_event) l m (w, evs) =
         (Inl (PipelineExecutionError f), w', evs @ stage_events ts @ failure_events d f)"
proof -
  obtain x w' l' where n: "n (w, l) = (x, w', l')" by (metis prod_cases3)
  obtain ts where ts: "lc_stage_timings l' = lc_stage_timings l @ ts"
    "m ((w, evs), l) = (x, (w', evs @ stage_events ts @
       (case x of Inl _ \<Rightarrow> [StageStarted (lc_current_stage l')] | Inr y \<Rightarrow> fin y)), l')"
    using tracedD [OF assms n] .
  show ?thesis
  proof (cases x)
    case (Inr y)
    then show ?thesis using n ts by (intro ok) (auto simp: try_body_def)
  next
    case (Inl e)
    have f: "pf_stage (failure_of e l') = lc_current_stage l'" "pf_cause (failure_of e l') = e"
      "pf_stage_timings (failure_of e l') = lc_stage_timings l'" by (simp_all add: failure_of_def)
    show ?thesis using Inl n ts
      by (intro fail [where f = "failure_of e l'"]) (auto simp: try_body_def f failure_events_def)
  qed
qed

lemma outcome_timings: "generate_body r p q (w, l) = (Inr go, w', l') \<Longrightarrow> go_stage_timings go = lc_stage_timings l'"
  by (auto simp: generate_body_def outcome_of_def result_simps split: prod.splits)

lemma on_world_iff: "on_world f (w, l) = (x, w', l') \<longleftrightarrow> l' = l \<and> f w = (x, w')"
  by (auto simp: on_world_def split: prod.splits)

lemma respond_Inr:
  "respond r p q s go x ans (w, l) = (Inr resp, w', l') \<Longrightarrow>
     l' = l \<and> resp = response_of q go x ans (elapsed_ms r s w) (lc_stage_timings l)"
  by (auto simp: respond_def result_simps on_world_iff Let_def)

lemma response_timings:
  "execute_body r p q s go (w, l) = (Inr resp, w', l') \<Longrightarrow> pls_stage_timings (qm_statistics resp) = lc_stage_timings l'"
  by (auto simp: execute_body_def response_of_def build_pipeline_statistics_def result_simps
      split: if_splits dest!: respond_Inr)

lemma generate_listening:
  obtains (ok) go w' where "generate_and_validate r None q w = (Inr go, w')"
      "generate_and_validate (listening r) (Some append_event) q (w, evs) = (Inr go, w', evs @ stage_events (go_stage_timings go))"
  | (fail) f w' d where "generate_and_validate r None q w = (Inl (PipelineExecutionError f), w')"
      "generate_and_validate (listening r) (Some append_event) q (w, evs) =
         (Inl (PipelineExecutionError f), w', evs @ stage_events (pf_stage_timings f) @ failure_events d f)"
proof (cases rule: try_listening [where r = r and w = w and l = "initial_locals (pl_perf_counter r w)" and evs = evs,
      OF traced_generate [of r q], case_names ok fail])
  case (ok x w' l' ts)
  then have "go_stage_timings x = ts" by (auto dest: outcome_timings simp: initial_locals_def)
  with ok show ?thesis by (intro that(1)) (auto simp: generate_and_validate_def)
next
  case (fail f w' ts d)
  then have "pf_stage_timings f = ts" by (simp add: initial_locals_def)
  with fail show ?thesis by (intro that(2)) (auto simp: generate_and_validate_def)
qed

lemma ask_listening:
  assumes "ask (listening r) (Some append_event) q (w, []) = (resp, w', evs)"
  shows "ask r None q w = (resp, w') \<and>
    (\<exists>end. evs = PipelineStarted q # stage_events (pls_stage_timings (qm_statistics resp)) @ end \<and>
      (end = [PipelineCompleted resp] \<or>
       (\<exists>d f. end = failure_events d f \<and> qm_status resp = P_Failed \<and> qm_error resp = Some (RE_Exception (pf_cause f)))))"
proof (cases rule: generate_listening [of r q w "[PipelineStarted q]"])
  case (fail f w1 d)
  then have "ask r None q w = (failed_response q (elapsed_ms r (pl_perf_counter r w) w1) (PipelineExecutionError f), w1)"
    "resp = failed_response q (elapsed_ms r (pl_perf_counter r w) w1) (PipelineExecutionError f)" "w' = w1"
    "evs = PipelineStarted q # stage_events (pf_stage_timings f) @ failure_events d f"
    using assms by (auto simp: ask_def run_pipeline_def publish_def append_event_def sbind_def)
  then show ?thesis by (auto simp: failed_response_def build_pipeline_statistics_def)
next
  case (ok go w1)
  let ?s = "pl_perf_counter r w"
  let ?evs = "[PipelineStarted q] @ stage_events (go_stage_timings go)"
  show ?thesis
  proof (cases rule: try_listening [where r = r and w = w1 and l = "execution_locals ?s go" and evs = ?evs,
        OF traced_execute [of r q ?s go], case_names ok fail])
    case (ok x w2 l2 ts)
    then have "ask r None q w = (x, w2)" "resp = x" "w' = w2" "evs = ?evs @ stage_events ts @ [PipelineCompleted x]"
      using assms \<open>generate_and_validate r None q w = _\<close> \<open>generate_and_validate (listening r) _ q _ = _\<close>
      by (auto simp: ask_def run_pipeline_def publish_def append_event_def sbind_def)
    moreover have "pls_stage_timings (qm_statistics x) = go_stage_timings go @ ts"
      using ok by (auto dest: response_timings simp: execution_locals_def)
    ultimately show ?thesis by auto
  next
    case (fail f w2 ts d)
    then have "ask r None q w = (failed_response q (elapsed_ms r ?s w2) (PipelineExecutionError f), w2)"
      "resp = failed_response q (elapsed_ms r ?s w2) (PipelineExecutionError f)" "w' = w2"
      "evs = ?evs @ stage_events ts @ failure_events d f"
      using assms \<open>generate_and_validate r None q w = _\<close> \<open>generate_and_validate (listening r) _ q _ = _\<close>
      by (auto simp: ask_def run_pipeline_def publish_def append_event_def sbind_def)
    moreover have "pf_stage_timings f = go_stage_timings go @ ts" using fail by (simp add: execution_locals_def)
    ultimately show ?thesis by (auto simp: failed_response_def build_pipeline_statistics_def)
  qed
qed

text \<open>
  C5. Listening to a run does not change it: with a publisher that records the events, asking
  returns the response it returns with no publisher, and leaves the rest of the world alike. The
  events are the start of the pipeline, then exactly the stages the statistics of the response
  report, each started and completed with the reported duration, and then either the completed
  pipeline with that response, or the start and the failure of one stage and the failed pipeline
  whose cause is the error of the response.
\<close>
theorem listening_transparent:
  assumes "ask (listening r) (Some append_event) q (w, []) = (resp, w', evs)"
  shows "ask r None q w = (resp, w') \<and>
    (\<exists>end. evs = PipelineStarted q # stage_events (pls_stage_timings (qm_statistics resp)) @ end \<and>
      (end = [PipelineCompleted resp] \<or>
       (\<exists>d f. end = failure_events d f \<and> qm_status resp = P_Failed \<and> qm_error resp = Some (RE_Exception (pf_cause f)))))"
  by (rule ask_listening [OF assms])

section \<open>What a response reports\<close>

lemma assign_iff: "assign f (w, l) = (x, w', l') \<longleftrightarrow> x = Inr () \<and> w' = w \<and> l' = f w l"
  by (auto simp: assign_def)

text \<open>A stage that succeeded did so because its collaborator returned the result.\<close>

lemma run_stage_Inr:
  assumes "run_stage r p stage call store (w, l) = (Inr x, w', l')"
  obtains w1 w2 where "call w1 = (Inr x, w2)"
  using assms by (auto simp: run_stage_def result_simps on_world_iff assign_iff)

text \<open>The SQL and the verdict that a generation ends with belong together.\<close>

lemma generation_validated:
  assumes "generate_body r p q (w, l) = (Inr go, w', l')"
    and repair: "\<And>g v b rr w1 w2. pl_repair r g v b w1 = (Inr rr, w2) \<Longrightarrow>
      (\<exists>w3 w4. pl_validate r g w3 = (Inr v, w4)) \<Longrightarrow>
      \<exists>w3 w4. pl_validate r (rr_final_sql rr) w3 = (Inr (rr_final_validation_result rr), w4)"
  shows "\<exists>w1 w2. pl_validate r (go_final_generated_sql go) w1 = (Inr (go_final_validation_result go), w2)"
proof -
  obtain b g v gv w1 l1 w2 l2 w3 l3 w4 l4 where
    v: "run_stage r p SQL_VALIDATION (pl_validate r g) (\<lambda>v l. l\<lparr>lc_validation_result := Some v\<rparr>) (w1, l1) = (Inr v, w2, l2)"
    and rp: "repair_if_invalid r p b g v (w2, l2) = (Inr gv, w3, l3)"
    and o: "outcome_of b gv (w3, l3) = (Inr go, w4, l4)"
    using assms(1) by (fastforce simp: generate_body_def result_simps)
  obtain w5 w6 where val: "pl_validate r g w5 = (Inr v, w6)" using run_stage_Inr [OF v] .
  have go: "(go_final_generated_sql go, go_final_validation_result go) = gv"
    using o by (auto simp: outcome_of_def split: prod.splits)
  show ?thesis
  proof (cases "vr_is_valid v")
    case True
    then show ?thesis using rp val go by (auto simp: repair_if_invalid_def result_simps)
  next
    case False
    then obtain rr w7 l7 w8 l8 where "run_stage r p SQL_REPAIR (pl_repair r g v b)
        (\<lambda>x l. l\<lparr>lc_repair_result := Some x\<rparr>) (w7, l7) = (Inr rr, w8, l8)"
      "gv = (rr_final_sql rr, rr_final_validation_result rr)"
      using rp by (auto simp: repair_if_invalid_def result_simps)
    then show ?thesis using repair val go by (metis prod.inject run_stage_Inr)
  qed
qed

definition response_ok :: "('w, 'v, 'b) pipeline_runner \<Rightarrow> ('v, 'b) query_mind_response \<Rightarrow> bool" where
  "response_ok r resp \<longleftrightarrow>
     (case qm_status resp of
        P_Success \<Rightarrow> qm_error resp = None \<and>
          (\<exists>x g v answer w1 w2 w3 w4. qm_execution_result resp = Some x \<and> xr_status x = X_Success \<and>
             qm_generated_sql resp = Some g \<and> qm_validation_result resp = Some v \<and>
             qm_business_answer resp = Some answer \<and>
             pl_execute r g v w1 = (Inr x, w2) \<and> pl_format r x w3 = (Inr answer, w4))
      | P_Failed \<Rightarrow> qm_error resp \<noteq> None \<and> qm_business_answer resp = None)"

lemma execute_body_ok:
  assumes "execute_body r p q s go (w, l) = (Inr resp, w', l')"
  shows "response_ok r resp \<and> qm_original_question resp = q"
proof -
  obtain x w1 l1 where x: "run_stage r p SQL_EXECUTION (pl_execute r (go_final_generated_sql go) (go_final_validation_result go))
      (\<lambda>x l. l\<lparr>lc_execution_result := Some x\<rparr>) (w, l) = (Inr x, w1, l1)"
    and rest: "(if xr_status x \<noteq> X_Success then respond r p q s go x None
      else sbind (run_stage r p RESULT_FORMATTING (pl_format r x) keep) (\<lambda>answer.
          respond r p q s go x (Some answer))) (w1, l1) = (Inr resp, w', l')"
    using assms by (auto simp: execute_body_def result_simps)
  from run_stage_Inr [OF x] obtain w2 w3 where
    ex: "pl_execute r (go_final_generated_sql go) (go_final_validation_result go) w2 = (Inr x, w3)" .
  show ?thesis
  proof (cases "xr_status x = X_Success")
    case False
    then have "resp = response_of q go x None (elapsed_ms r s w1) (lc_stage_timings l1)"
      using rest by (auto dest: respond_Inr)
    then show ?thesis by (simp add: response_ok_def response_of_def)
  next
    case True
    then obtain answer w4 l4 where a: "run_stage r p RESULT_FORMATTING (pl_format r x) keep (w1, l1) = (Inr answer, w4, l4)"
      and "respond r p q s go x (Some answer) (w4, l4) = (Inr resp, w', l')"
      using rest by (auto simp: result_simps)
    then have "resp = response_of q go x (Some answer) (elapsed_ms r s w4) (lc_stage_timings l4)"
      by (auto dest: respond_Inr)
    moreover obtain w5 w6 where "pl_format r x w5 = (Inr answer, w6)" using run_stage_Inr [OF a] .
    ultimately show ?thesis using ex True by (auto simp: response_ok_def response_of_def)
  qed
qed

lemma try_body_Inr: "try_body r p l m w = (Inr x, w') \<Longrightarrow> \<exists>l'. m (w, l) = (Inr x, w', l')"
  by (auto simp: try_body_def handle_failure_def split: prod.splits sum.splits)

lemma run_pipeline_ok:
  "run_pipeline r p q w = (Inr resp, w') \<Longrightarrow> response_ok r resp \<and> qm_original_question resp = q"
  by (auto simp: run_pipeline_def result_simps Let_def split: prod.splits sum.splits
      dest!: try_body_Inr execute_body_ok)

text \<open>
  C7. Asking always returns a response, whatever a collaborator or the publisher raises, and its
  fields match its status: a successful response carries no error, and the SQL, the verdict, the
  execution result and the answer in it are those of one successful execution of that SQL with
  that verdict; a failed response carries an error and no answer.
\<close>
theorem ask_reports:
  "case ask r p q w of (resp, w') \<Rightarrow> response_ok r resp \<and> qm_original_question resp = q"
proof (cases "run_pipeline r p q w")
  case (Pair res w')
  show ?thesis
  proof (cases res)
    case (Inl e)
    have "response_ok r (failed_response q l e) \<and> qm_original_question (failed_response q l e) = q" for l
      by (cases e) (simp_all add: response_ok_def failed_response_def)
    then show ?thesis by (simp add: ask_def Pair Inl)
  next
    case (Inr resp)
    then show ?thesis using Pair by (auto simp: ask_def dest: run_pipeline_ok)
  qed
qed

section \<open>A concrete run\<close>

text \<open>A runner whose collaborators answer at once; its SQL is valid and returns one row.\<close>

definition demo_execution :: "int sql_execution_result" where
  "demo_execution = success_result demo_database demo_sql (g_sql demo_sql)
     \<lparr> qr_columns = [format_column ''total'' (Some 20)], qr_rows = [\<lparr> qrow_values = [42] \<rparr>], qr_row_count = 1 \<rparr> 1"

definition demo_prompt :: compiled_prompt where
  "demo_prompt = build_prompt (default_compiler default_prompt_template DEFAULT_MAX_TOKENS) demo_bundle PostgreSQL 0"

definition demo_runner :: "(nat, int, string) pipeline_runner" where
  "demo_runner = \<lparr> pl_perf_counter = real, pl_parse = (\<lambda>q w. (Inr demo_query_context, w + 1)),
     pl_link = (\<lambda>c w. (Inr demo_linked, w + 1)), pl_load_knowledge = (\<lambda>w. (Inr (), w)),
     pl_retrieve = (\<lambda>c w. (Inr demo_bundle, w + 1)), pl_compile = (\<lambda>b d w. (Inr demo_prompt, w)),
     pl_generate = (\<lambda>c w. (Inr demo_sql, w + 1)), pl_validate = (\<lambda>g w. (Inr demo_valid, w)),
     pl_repair = (\<lambda>g v b w. (Inl (SE_Other []), w)), pl_execute = (\<lambda>g v w. (Inr demo_execution, w + 1)),
     pl_format = (\<lambda>x w. (Inr ''one row'', w)), pl_dialect = PostgreSQL \<rparr>"

lemma run_stage_silent:
  "run_stage r None stage call store (w, l) = (case call w of
     (Inl e, w') \<Rightarrow> (Inl e, w', l \<lparr> lc_current_stage := stage, lc_stage_started := pl_perf_counter r w \<rparr>)
   | (Inr x, w') \<Rightarrow> (Inr x, w', let l' = store x (l \<lparr> lc_current_stage := stage, lc_stage_started := pl_perf_counter r w \<rparr>) in
       l' \<lparr> lc_stage_timings := lc_stage_timings l' @
         [\<lparr> tm_stage = stage, tm_latency_ms = elapsed_ms r (lc_stage_started l') w' \<rparr>] \<rparr>))"
  by (simp add: run_stage_def body_defs publish_def notify_completed_def Let_def split: prod.split sum.split)

lemma demo_ask: "\<exists>resp w'. ask demo_runner None q 0 = (resp, w') \<and> qm_status resp = P_Success \<and>
    map tm_stage (pls_stage_timings (qm_statistics resp)) = [NLU, SCHEMA_LINKING, BUSINESS_KNOWLEDGE, RETRIEVAL,
      PROMPT_COMPILATION, SQL_GENERATION, LLM, SQL_VALIDATION, SQL_EXECUTION, RESULT_FORMATTING]"
proof -
  have v: "vr_is_valid demo_valid" "xr_status demo_execution = X_Success"
    by (simp_all add: demo_valid_def demo_execution_def success_result_def)
  show ?thesis
    by (simp add: ask_def run_pipeline_def generate_and_validate_def try_body_def generate_body_def retrieve_context_def
        sbind_def run_stage_silent Let_def publish_def report_llm_def assign_def on_world_def keep_def
        repair_if_invalid_def outcome_of_def execute_body_def respond_def response_of_def
        build_pipeline_statistics_def initial_locals_def execution_locals_def v demo_runner_def)
qed

theorem listening_transparent_witness:
  "\<exists>resp w' evs. ask (listening demo_runner) (Some append_event) [] (0, []) = (resp, w', evs) \<and>
     ask demo_runner None [] 0 = (resp, w') \<and>
     evs = PipelineStarted [] # stage_events (pls_stage_timings (qm_statistics resp)) @ [PipelineCompleted resp] \<and>
     length (pls_stage_timings (qm_statistics resp)) = 10"
proof -
  obtain resp w' evs where a: "ask (listening demo_runner) (Some append_event) [] (0, []) = (resp, w', evs)"
    by (metis prod_cases3)
  obtain resp' :: "(int, string) query_mind_response" and w'' where d: "ask demo_runner None [] 0 = (resp', w'')" "qm_status resp' = P_Success"
    "map tm_stage (pls_stage_timings (qm_statistics resp')) = [NLU, SCHEMA_LINKING, BUSINESS_KNOWLEDGE, RETRIEVAL,
      PROMPT_COMPILATION, SQL_GENERATION, LLM, SQL_VALIDATION, SQL_EXECUTION, RESULT_FORMATTING]"
    using demo_ask [of "[]"] by (elim exE conjE) (rule that)
  note t = listening_transparent [OF a]
  with d have "resp' = resp" "w'' = w'" by auto
  then have "evs = PipelineStarted [] # stage_events (pls_stage_timings (qm_statistics resp)) @ [PipelineCompleted resp]"
    using t d by auto
  moreover have "length (pls_stage_timings (qm_statistics resp)) = 10"
    using arg_cong [OF d(3), of length] \<open>resp' = resp\<close> by simp
  ultimately show ?thesis using a t by blast
qed

end
