(* ===== verification/Container_Properties.thy ===== *)
theory Container_Properties
  imports Container Pipeline_Properties
begin

text \<open>
  The composed application: whatever the language model answers, the only statements that reach
  the database are read-only and were found valid against the loaded schema.
\<close>

section \<open>What a body may append to a log\<close>

definition effect :: "'c list set \<Rightarrow> ('w \<times> 'c list, 'v, 'a) body \<Rightarrow> bool" where
  "effect A m \<longleftrightarrow> (\<forall>w cs l x w' cs' l'. m ((w, cs), l) = (x, (w', cs'), l') \<longrightarrow> cs' = cs \<or> (\<exists>ds\<in>A. cs' = cs @ ds))"

definition op_effect :: "'c list set \<Rightarrow> ('w \<times> 'c list, 'e, 'a) op \<Rightarrow> bool" where
  "op_effect A f \<longleftrightarrow> (\<forall>w cs x w' cs'. f (w, cs) = (x, w', cs') \<longrightarrow> cs' = cs \<or> (\<exists>ds\<in>A. cs' = cs @ ds))"

lemma effect_bind:
  assumes "effect A m" "\<And>x. effect B (f x)" "A = {} \<or> B = {}"
  shows "effect (A \<union> B) (sbind m f)"
  unfolding effect_def
proof (intro allI impI)
  fix w cs l x w2 cs2 l2
  assume run: "sbind m f ((w, cs), l) = (x, (w2, cs2), l2)"
  obtain y w1 cs1 l1 where m: "m ((w, cs), l) = (y, (w1, cs1), l1)" by (metis prod.collapse)
  then have 1: "cs1 = cs \<or> (\<exists>ds\<in>A. cs1 = cs @ ds)" using assms(1) unfolding effect_def by blast
  show "cs2 = cs \<or> (\<exists>ds\<in>A \<union> B. cs2 = cs @ ds)"
  proof (cases y)
    case (Inl e)
    then show ?thesis using run m 1 by (auto simp: sbind_def)
  next
    case (Inr v)
    then have "f v ((w1, cs1), l1) = (x, (w2, cs2), l2)" using run m by (simp add: sbind_def)
    then have "cs2 = cs1 \<or> (\<exists>ds\<in>B. cs2 = cs1 @ ds)" using assms(2) unfolding effect_def by blast
    with 1 assms(3) show ?thesis by auto
  qed
qed

lemma effect_quiet_bind: "effect {} m \<Longrightarrow> (\<And>x. effect A (f x)) \<Longrightarrow> effect A (sbind m f)"
  using effect_bind [of "{}" m A f] by simp

lemma effect_bind_quiet: "effect A m \<Longrightarrow> (\<And>x. effect {} (f x)) \<Longrightarrow> effect A (sbind m f)"
  using effect_bind [of A m "{}" f] by simp

lemma effect_on_world: "op_effect A f \<Longrightarrow> effect A (on_world f)"
  by (auto simp: effect_def op_effect_def on_world_iff)

lemma effect_basic [intro]: "effect {} (sreturn x)" "effect {} (assign g)"
  by (auto simp: effect_def assign_def)

lemma op_effect_with_log [intro]: "op_effect {} (with_log f)"
  by (auto simp: op_effect_def with_log_def split: prod.splits)

lemma op_effect_raising: "op_effect A f \<Longrightarrow> op_effect A (raising h f)"
  by (auto simp: op_effect_def raising_def split: prod.splits sum.splits)

definition quiet_publisher :: "('w \<times> 'c list, 'v, 'b) publisher \<Rightarrow> bool" where
  "quiet_publisher p \<longleftrightarrow> (\<forall>ev. op_effect {} (publish p ev))"

lemma effect_publish [intro]: "quiet_publisher p \<Longrightarrow> effect {} (on_world (publish p ev))"
  by (simp add: quiet_publisher_def effect_on_world)

lemma effect_completed: "quiet_publisher p \<Longrightarrow> effect {} (notify_completed r p s)"
  by (auto simp: effect_def quiet_publisher_def op_effect_def notify_completed_def on_world_iff Let_def)

lemma effect_stage:
  assumes "quiet_publisher p" "op_effect A call"
  shows "effect A (run_stage r p stage call store)"
  unfolding run_stage_def
  by (intro effect_quiet_bind [OF effect_basic(2)] effect_quiet_bind [OF effect_publish [OF assms(1)]]
      effect_bind_quiet [OF effect_on_world [OF assms(2)]] effect_quiet_bind [OF effect_completed [OF assms(1)]]
      effect_basic)

text \<open>A runner in which only the execution stage writes to the log.\<close>

definition quiet_runner :: "('w \<times> 'c list, 'v, 'b) pipeline_runner \<Rightarrow> bool" where
  "quiet_runner r \<longleftrightarrow> (\<forall>q. op_effect {} (pl_parse r q)) \<and> (\<forall>c. op_effect {} (pl_link r c)) \<and>
     op_effect {} (pl_load_knowledge r) \<and> (\<forall>c. op_effect {} (pl_retrieve r c)) \<and>
     (\<forall>b d. op_effect {} (pl_compile r b d)) \<and> (\<forall>c. op_effect {} (pl_generate r c)) \<and>
     (\<forall>g. op_effect {} (pl_validate r g)) \<and> (\<forall>g v b. op_effect {} (pl_repair r g v b)) \<and>
     (\<forall>x. op_effect {} (pl_format r x))"

lemma effect_llm: "quiet_publisher p \<Longrightarrow> effect {} (report_llm p g)"
  by (auto simp: report_llm_def Let_def intro!: effect_quiet_bind)

lemma effect_generate:
  assumes "quiet_publisher p" "quiet_runner r"
  shows "effect {} (generate_body r p q)"
proof -
  have "effect {} (outcome_of b gv)" for b gv by (cases gv) (auto simp: effect_def outcome_of_def)
  then show ?thesis using assms
    by (auto simp: generate_body_def retrieve_context_def repair_if_invalid_def quiet_runner_def
        intro!: effect_quiet_bind effect_stage effect_llm)
qed

lemma effect_respond: "quiet_publisher p \<Longrightarrow> effect {} (respond r p q s go x ans)"
  by (auto simp: effect_def quiet_publisher_def op_effect_def respond_def sbind_def on_world_def Let_def
      split: prod.splits sum.splits)

lemma effect_execute:
  assumes "quiet_publisher p" "quiet_runner r"
    "op_effect A (pl_execute r (go_final_generated_sql go) (go_final_validation_result go))"
  shows "effect A (execute_body r p q s go)"
  unfolding execute_body_def
proof (rule effect_bind_quiet [OF effect_stage [OF assms(1,3)]])
  have "op_effect {} (pl_format r x)" for x using assms(2) by (simp add: quiet_runner_def)
  then show "effect {} (if xr_status x \<noteq> X_Success then respond r p q s go x None
      else sbind (run_stage r p RESULT_FORMATTING (pl_format r x) keep) (\<lambda>answer. respond r p q s go x (Some answer)))" for x
    using assms(1) by (auto intro!: effect_quiet_bind effect_stage effect_respond)
qed

lemma publish_quiet: "quiet_publisher p \<Longrightarrow> publish p ev (w, cs) = (x, w', cs') \<Longrightarrow> cs' = cs"
  by (auto simp: quiet_publisher_def op_effect_def)

lemma handle_failure_quiet:
  assumes "quiet_publisher p" "handle_failure r p e l (w, cs) = (x, w', cs')"
  shows "cs' = cs"
  using assms(2) by (auto simp: handle_failure_def split: prod.splits sum.splits dest!: publish_quiet [OF assms(1)])

lemma try_body_effect:
  assumes "quiet_publisher p" "effect A m" "try_body r p l m (w, cs) = (x, w', cs')"
  shows "cs' = cs \<or> (\<exists>ds\<in>A. cs' = cs @ ds)"
proof -
  obtain y w1 cs1 l1 where m: "m ((w, cs), l) = (y, (w1, cs1), l1)" by (metis prod.collapse)
  then have "cs1 = cs \<or> (\<exists>ds\<in>A. cs1 = cs @ ds)" using assms(2) unfolding effect_def by blast
  moreover have "cs' = cs1"
    using assms(3) m by (auto simp: try_body_def split: sum.splits dest: handle_failure_quiet [OF assms(1)])
  ultimately show ?thesis by simp
qed

text \<open>
  What a run appends to the log is what one execution appends, of SQL with the verdict of the
  validation stage on it.
\<close>

lemma ask_effect:
  assumes quiet: "quiet_publisher p" "quiet_runner r"
    and repair: "\<And>g v b rr w1 w2. pl_repair r g v b w1 = (Inr rr, w2) \<Longrightarrow>
      (\<exists>w3 w4. pl_validate r g w3 = (Inr v, w4)) \<Longrightarrow>
      \<exists>w3 w4. pl_validate r (rr_final_sql rr) w3 = (Inr (rr_final_validation_result rr), w4)"
    and exec: "\<And>g v. op_effect (A g v) (pl_execute r g v)"
    and run: "ask r p q (w, cs) = (resp, w', cs')"
  shows "cs' = cs \<or> (\<exists>g v w1 w2. pl_validate r g w1 = (Inr v, w2) \<and> (\<exists>ds\<in>A g v. cs' = cs @ ds))"
proof -
  obtain y w1 cs1 where s: "publish p (PipelineStarted q) (w, cs) = (y, w1, cs1)" by (metis prod.collapse)
  then have cs1: "cs1 = cs" by (rule publish_quiet [OF quiet(1)])
  obtain z w2 cs2 where g: "generate_and_validate r p q (w1, cs) = (z, w2, cs2)" by (metis prod.collapse)
  then have cs2: "cs2 = cs"
    using try_body_effect [OF quiet(1) effect_generate [OF quiet]] by (fastforce simp: generate_and_validate_def)
  show ?thesis
  proof (cases "\<exists>u go. y = Inr u \<and> z = Inr go")
    case False
    then have "cs' = cs" using run s g cs1 cs2
      by (cases y; cases z) (auto simp: ask_def run_pipeline_def sbind_def Let_def)
    then show ?thesis by simp
  next
    case True
    then obtain u go where yz: "y = Inr u" "z = Inr go" by blast
    let ?t = "pl_perf_counter r (w, cs)"
    obtain x' w3 cs3 where t: "try_body r p (execution_locals ?t go) (execute_body r p q ?t go) (w2, cs) = (x', w3, cs3)"
      by (metis prod.collapse)
    then have "cs' = cs3"
      using run s g yz cs1 cs2 by (cases x') (auto simp: ask_def run_pipeline_def sbind_def Let_def)
    moreover have "cs3 = cs \<or> (\<exists>ds\<in>A (go_final_generated_sql go) (go_final_validation_result go). cs3 = cs @ ds)"
      by (rule try_body_effect [OF quiet(1) effect_execute [OF quiet exec] t])
    moreover obtain l' where "generate_body r p q ((w1, cs), initial_locals (pl_perf_counter r (w1, cs))) = (Inr go, (w2, cs2), l')"
      using g yz by (auto simp: generate_and_validate_def dest: try_body_Inr)
    then have "\<exists>w1 w2. pl_validate r (go_final_generated_sql go) w1 = (Inr (go_final_validation_result go), w2)"
      by (rule generation_validated [OF _ repair])
    ultimately show ?thesis by blast
  qed
qed

section \<open>The container beside a log of the driver's calls\<close>

definition recorded :: "('n, 'w, 'v) container \<Rightarrow> ('n, 'w \<times> db_call list, 'v) container" where
  "recorded ct = \<lparr> ct_sqlglot = ct_sqlglot ct, ct_set_order = ct_set_order ct,
     ct_metadata_registry = ct_metadata_registry ct, ct_relationship_graph = ct_relationship_graph ct,
     ct_business_knowledge_registry = ct_business_knowledge_registry ct,
     ct_llm_adapter = (\<lambda>p. with_log (ct_llm_adapter ct p)), ct_database = recording (ct_database ct),
     ct_perf_counter = (\<lambda>(w, _). ct_perf_counter ct w),
     ct_validation_latency = (\<lambda>(w, _). ct_validation_latency ct w),
     ct_validator_duration = (\<lambda>(w, _). ct_validator_duration ct w),
     ct_content_hash = ct_content_hash ct, ct_message = ct_message ct \<rparr>"

text \<open>A property of the world that the adapter and the validation engine keep is kept by a repair.\<close>

lemma repair_step_world:
  assumes "\<And>p w. P w \<Longrightarrow> P (snd (rpe_adapter eng p w))" "\<And>g w. P w \<Longrightarrow> P (snd (rpe_validate eng g w))"
    and "P w"
  shows "P (snd (repair_step eng b n pl g v w))"
  using assms(3) assms(1) [of w "build_repair_prompt (rpe_content_hash eng) (rpe_message eng) 0 b g v pl"] assms(2)
  by (auto simp: repair_step_def Let_def split: prod.splits sum.splits) (metis snd_conv)+

lemma repair_loop_world:
  assumes "\<And>p w. P w \<Longrightarrow> P (snd (rpe_adapter eng p w))" "\<And>g w. P w \<Longrightarrow> P (snd (rpe_validate eng g w))"
    and "P w"
  shows "P (snd (repair_loop eng b h g v w))"
  using assms
proof (induction eng b h g v w rule: repair_loop.induct)
  case (1 eng b h g v w)
  obtain x w' where step: "repair_step eng b (length h + 1) (plan v) g v w = (x, w')" by fastforce
  then have "P w'" using repair_step_world [of P eng w b "length h + 1" "plan v" g v] 1(2,3,4) by simp
  then show ?case
    using 1 step by (subst repair_loop.simps) (auto simp: Let_def split: sum.split)
qed

lemma quiet_repair: "op_effect {} (repair (container_repair_engine (recorded ct)) b g v)"
  unfolding op_effect_def
proof (intro allI impI)
  fix w cs x w' cs'
  let ?eng = "container_repair_engine (recorded ct)"
  assume "repair ?eng b g v (w, cs) = (x, w', cs')"
  then have "snd (snd (repair_loop ?eng b [] g v (w, cs))) = cs'"
    by (auto simp: repair_def split: prod.splits sum.splits)
  moreover have "snd (snd (repair_loop ?eng b [] g v (w, cs))) = cs"
    by (rule repair_loop_world [where P = "\<lambda>w. snd w = cs"])
      (auto simp: container_repair_engine_def recorded_def with_log_def container_validate_def split: prod.splits)
  ultimately show "cs' = cs \<or> (\<exists>ds\<in>{}. cs' = cs @ ds)" by simp
qed

lemma quiet_generate: "op_effect {} (generate_sql f (\<lambda>p. with_log (a p)) p)"
  by (auto simp: op_effect_def generate_sql_def with_log_def split: prod.splits sum.splits)

lemma quiet_container_runner: "quiet_runner (container_runner (recorded ct) (listening base))"
proof -
  have "op_effect {} (container_validate (recorded ct) g)" for g
    by (auto simp: op_effect_def container_validate_def)
  moreover have "op_effect {} (generate_sql f (ct_llm_adapter (recorded ct)) p)" for f p
    using quiet_generate by (simp add: recorded_def)
  ultimately show ?thesis
    by (auto simp: quiet_runner_def container_runner_def intro!: op_effect_raising quiet_repair)
qed

text \<open>The verdict of the container's validation engine does not depend on the world.\<close>

definition verdict :: "('n, 'w, 'v) container \<Rightarrow> generated_sql \<Rightarrow> sql_validation_result \<Rightarrow> bool" where
  "verdict ct g v \<longleftrightarrow> (\<exists>l dur. validate_sql (ct_sqlglot ct) (ct_set_order ct) (container_registry ct) l dur g = Inr v)"

lemma validate_verdict:
  "pl_validate (container_runner ct base) g w = (Inr v, w') \<Longrightarrow> verdict ct g v"
  by (auto simp: container_runner_def raising_def container_validate_def verdict_def split: sum.splits)

lemma container_repair_contract:
  assumes "pl_repair (container_runner ct base) g v b w1 = (Inr rr, w2)"
    "\<exists>w3 w4. pl_validate (container_runner ct base) g w3 = (Inr v, w4)"
  shows "\<exists>w3 w4. pl_validate (container_runner ct base) (rr_final_sql rr) w3 = (Inr (rr_final_validation_result rr), w4)"
proof -
  have "repair (container_repair_engine ct) b g v w1 = (Inr rr, w2)"
    using assms(1) by (auto simp: container_runner_def raising_def split: prod.splits sum.splits)
  moreover have "1 \<le> rpe_max_attempts (container_repair_engine ct)"
    by (simp add: container_repair_engine_def DEFAULT_MAX_ATTEMPTS_def)
  ultimately have "repair_inv (container_repair_engine ct) g v (rr_history rr) (rr_final_sql rr) (rr_final_validation_result rr)"
    by (rule repair_result(1))
  then have "rr_final_sql rr = g \<and> rr_final_validation_result rr = v \<or>
      (\<exists>w w'. container_validate ct (rr_final_sql rr) w = (Inr (rr_final_validation_result rr), w'))"
    by (auto simp: repair_inv_def container_repair_engine_def split: if_splits)
  moreover have "container_validate ct h w = (Inr u, w') \<Longrightarrow> pl_validate (container_runner ct base) h w = (Inr u, w')"
    for h u w w' by (simp add: container_runner_def raising_def)
  ultimately show ?thesis using assms(2) by metis
qed

lemma recorded_verdict [simp]: "verdict (recorded ct) = verdict ct"
  by (auto simp: verdict_def recorded_def container_registry_def fun_eq_iff)

text \<open>The calls that an execution of SQL with a verdict may make.\<close>

definition permitted_calls :: "'n sqlglot \<Rightarrow> generated_sql \<Rightarrow> sql_validation_result \<Rightarrow> db_call list set" where
  "permitted_calls sg g v = {calls. vr_is_valid v \<and>
     calls \<in> session_calls (strip (g_sql g)) DEFAULT_EXECUTION_TIMEOUT_SECONDS \<and>
     (\<exists>parsed s. sg_parse sg (SQLGLOT_DIALECTS (g_dialect g)) (strip (g_sql g)) = Inr parsed \<and>
        List.map_filter id parsed = [s] \<and> read_only_select sg s)}"

lemma execute_effect:
  "op_effect (permitted_calls (ct_sqlglot ct) g v) (pl_execute (container_runner (recorded ct) base) g v)"
  unfolding op_effect_def
proof (intro allI impI)
  fix w cs x w' cs'
  assume "pl_execute (container_runner (recorded ct) base) g v (w, cs) = (x, w', cs')"
  then obtain y where "execute_sql (ct_sqlglot ct) (recording (ct_database ct)) DEFAULT_EXECUTION_TIMEOUT_SECONDS g v (w, cs)
      = (y, w', cs')"
    by (auto simp: container_runner_def raising_def recorded_def split: prod.splits sum.splits)
  from execute_recording [OF this] show "cs' = cs \<or> (\<exists>ds\<in>permitted_calls (ct_sqlglot ct) g v. cs' = cs @ ds)"
    by (auto simp: permitted_calls_def)
qed

text \<open>
  C2. The whole application: whatever the question, the answers of the language model, the other
  stages, the publisher and the database do, one run of the pipeline makes no call to the database,
  or it makes the calls of a single read-only session that sends one SQL text, stripped. That text
  was found valid by the validation engine of the container, parses as exactly one SELECT in which
  no writing node occurs, and respects the loaded schema and the list of approved functions.
\<close>
theorem only_validated_reads_executed:
  assumes "ask (container_runner (recorded ct) (listening base)) (map_option (\<lambda>f ev. with_log (f ev)) p) q (w, [])
      = (resp, w', calls)"
  shows "calls = [] \<or> (\<exists>g v. verdict ct g v \<and> vr_is_valid v \<and> respects_schema (ct_sqlglot ct) (ct_metadata_registry ct) g \<and>
    calls \<in> session_calls (strip (g_sql g)) DEFAULT_EXECUTION_TIMEOUT_SECONDS \<and>
    (\<exists>parsed s. sg_parse (ct_sqlglot ct) ''postgres'' (strip (g_sql g)) = Inr parsed \<and>
       List.map_filter id parsed = [s] \<and> read_only_select (ct_sqlglot ct) s))"
proof -
  let ?r = "container_runner (recorded ct) (listening base)"
  have "quiet_publisher (map_option (\<lambda>f ev. with_log (f ev)) p)"
    by (cases p) (auto simp: quiet_publisher_def publish_def, auto simp: op_effect_def)
  then have "calls = [] \<or> (\<exists>g v w1 w2. pl_validate ?r g w1 = (Inr v, w2) \<and>
      (\<exists>ds\<in>permitted_calls (ct_sqlglot ct) g v. calls = [] @ ds))"
    by (rule ask_effect [where A = "permitted_calls (ct_sqlglot ct)", OF _ quiet_container_runner
          container_repair_contract execute_effect assms])
  then consider "calls = []"
    | g v w1 w2 where "pl_validate ?r g w1 = (Inr v, w2)" "calls \<in> permitted_calls (ct_sqlglot ct) g v"
    by (metis append_Nil)
  then show ?thesis
  proof cases
    case 2
    have v: "verdict ct g v" using validate_verdict [OF 2(1)] by simp
    moreover have valid: "vr_is_valid v" using 2(2) by (simp add: permitted_calls_def)
    ultimately have rs: "respects_schema (ct_sqlglot ct) (ct_metadata_registry ct) g"
      by (auto simp: verdict_def container_registry_def dest: valid_respects_schema)
    then have "SQLGLOT_DIALECTS (g_dialect g) = ''postgres''" by (simp add: respects_schema_def SQLGLOT_DIALECTS_def)
    with 2(2) v valid rs show ?thesis by (auto simp: permitted_calls_def)
  qed simp
qed

section \<open>A concrete application\<close>

definition demo_container :: "(demo_node, nat, int) container" where
  "demo_container = \<lparr> ct_sqlglot = demo_sqlglot, ct_set_order = sorted_list_of_set, ct_metadata_registry = demo_metadata,
     ct_relationship_graph = demo_graph, ct_business_knowledge_registry = demo_knowledge,
     ct_llm_adapter = (\<lambda>p w. (Inr demo_response, w + 1)), ct_database = demo_database, ct_perf_counter = (\<lambda>_. 0),
     ct_validation_latency = (\<lambda>_. 0), ct_validator_duration = (\<lambda>_ _. 0), ct_content_hash = (\<lambda>_ _. []),
     ct_message = (\<lambda>_. []) \<rparr>"

abbreviation demo_app :: "(nat \<times> db_call list, int, string) pipeline_runner" where
  "demo_app \<equiv> container_runner (recorded demo_container) (listening demo_runner)"

lemma demo_generated:
  obtains g where "sql_of_response PostgreSQL demo_response 0 = Inr g" "g_dialect g = PostgreSQL"
    "g_sql g = normalize ''SELECT 1''"
proof -
  have "strip ''SELECT 1'' = ''SELECT 1''" by (simp add: strip_def lstrip_def rstrip_def is_space_def)
  then have "extract_sql ''SELECT 1'' = Inr \<lparr> er_sql = ''SELECT 1'', er_method = RAW_TEXT \<rparr>"
    by (simp add: extract_plain extraction_of_def)
  then show ?thesis by (intro that) (auto simp: sql_of_response_def demo_response_def Let_def)
qed

lemma demo_normal: "CHR 0x60 \<notin> set (normalize ''SELECT 1'')" "strip (normalize ''SELECT 1'') \<noteq> []"
  by code_simp+

lemma demo_app_run:
  obtains resp w' and g :: generated_sql where "ask demo_app None [] (0, []) = (resp, w',
      [C_Connect, C_Readonly, C_Execute (strip (g_sql g)) DEFAULT_EXECUTION_TIMEOUT_SECONDS, C_Close])"
proof -
  obtain g where g: "sql_of_response PostgreSQL demo_response 0 = Inr g" "g_dialect g = PostgreSQL"
    "g_sql g = normalize ''SELECT 1''" by (rule demo_generated)
  let ?t = DEFAULT_EXECUTION_TIMEOUT_SECONDS
  let ?calls = "[C_Connect, C_Readonly, C_Execute (strip (g_sql g)) ?t, C_Close]"
  have prompt: "cp_dialect demo_prompt = PostgreSQL" by (simp add: demo_prompt_def build_prompt_def Let_def)
  have gen: "pl_generate demo_app demo_prompt (w, cs) = (Inr g, Suc w, cs)" for w cs
    by (simp add: container_runner_def raising_def generate_sql_def recorded_def demo_container_def with_log_def prompt g)
  obtain v where val: "\<And>w cs. pl_validate demo_app g (w, cs) = (Inr v, w, cs)" and valid: "vr_is_valid v"
    using demo_verdict_of [of g 0 "\<lambda>_. 0"] g demo_normal
    by (simp add: container_runner_def raising_def container_validate_def container_registry_def recorded_def
        demo_container_def)
  have "guard_check demo_sqlglot ?t g v = Inr \<lparr> pm_sql = strip (g_sql g), pm_timeout_seconds = ?t \<rparr>"
    using valid g demo_normal
    by (auto simp: guard_check_Inr demo_sqlglot_def List.map_filter_def read_only_select_def WRITE_NODE_TYPES_def)
  then obtain x where ex: "\<And>w cs. pl_execute demo_app g v (w, cs) = (Inr (x w), w + 4, cs @ ?calls)"
    and st: "\<And>w. xr_status (x w) = X_Success"
    by (simp add: container_runner_def raising_def recorded_def execute_sql_def acquire_def Let_def demo_container_def
        demo_database_def close_after_def execute_statement_def read_cursor_def format_result_def
        success_result_def conclude_def)
  have rest: "pl_parse demo_app q (w, cs) = (Inr demo_query_context, Suc w, cs)" "pl_link demo_app c (w, cs) = (Inr demo_linked, Suc w, cs)"
    "pl_load_knowledge demo_app (w, cs) = (Inr (), w, cs)" "pl_retrieve demo_app lc (w, cs) = (Inr demo_bundle, Suc w, cs)"
    "pl_compile demo_app b d (w, cs) = (Inr demo_prompt, w, cs)" "pl_format demo_app y (w, cs) = (Inr ''one row'', w, cs)"
    for q c lc b d y w cs
    by (simp_all add: container_runner_def with_log_def demo_runner_def)
  have "\<exists>resp w'. ask demo_app None [] (0, []) = (resp, w', ?calls)"
    by (simp add: ask_def run_pipeline_def generate_and_validate_def try_body_def generate_body_def retrieve_context_def
        sbind_def run_stage_silent Let_def publish_def report_llm_def assign_def on_world_def keep_def
        repair_if_invalid_def outcome_of_def execute_body_def respond_def gen val ex st rest valid)
  then show ?thesis by (elim exE) (rule that)
qed

theorem only_validated_reads_executed_witness:
  "\<exists>resp w' calls g v. ask demo_app None [] (0, []) = (resp, w', calls) \<and> length calls = 4 \<and>
     verdict demo_container g v \<and> vr_is_valid v \<and> respects_schema demo_sqlglot demo_metadata g \<and>
     calls \<in> session_calls (strip (g_sql g)) DEFAULT_EXECUTION_TIMEOUT_SECONDS"
proof -
  obtain resp w' and g :: generated_sql where run: "ask demo_app None [] (0, []) = (resp, w',
      [C_Connect, C_Readonly, C_Execute (strip (g_sql g)) DEFAULT_EXECUTION_TIMEOUT_SECONDS, C_Close])"
    by (rule demo_app_run)
  from only_validated_reads_executed [of demo_container demo_runner None, simplified, OF run]
  have "\<exists>g' v. verdict demo_container g' v \<and> vr_is_valid v \<and>
      respects_schema (ct_sqlglot demo_container) (ct_metadata_registry demo_container) g' \<and>
      [C_Connect, C_Readonly, C_Execute (strip (g_sql g)) DEFAULT_EXECUTION_TIMEOUT_SECONDS, C_Close]
        \<in> session_calls (strip (g_sql g')) DEFAULT_EXECUTION_TIMEOUT_SECONDS" by blast
  with run show ?thesis by (fastforce simp: demo_container_def)
qed

end
