(* ===== verification/Event_Bus.thy ===== *)
theory Event_Bus
  imports Prelude
begin

text \<open>
  The publish/subscribe bus of the streaming layer (\<open>streaming/event_bus.py\<close>): queues are
  objects with an identity, so they live in a store and the bus holds their identifiers. The bus
  refines a specification that has no queues: one log of publications and, per subscription, an
  interval of it and the number of events already taken. An event is of any type with a function
  that gives its correlation id.
\<close>

section \<open>The bus\<close>

type_synonym queue_id = nat

record subscription =
  sub_correlation_id :: string
  sub_queue :: queue_id

datatype streaming_error = UnknownSubscriptionError

text \<open>\<open>eb_queues\<close> is the store of \<open>asyncio.Queue\<close> objects, \<open>eb_next\<close> the next fresh identity.\<close>

record 'e event_bus =
  eb_subscribers :: "string \<Rightarrow> queue_id set option"
  eb_queues :: "queue_id \<Rightarrow> 'e list"
  eb_next :: queue_id

definition new_event_bus :: "'e event_bus" where
  "new_event_bus = \<lparr> eb_subscribers = Map.empty, eb_queues = (\<lambda>_. []), eb_next = 0 \<rparr>"

definition listeners :: "'e event_bus \<Rightarrow> string \<Rightarrow> queue_id set" where
  "listeners b c = (case eb_subscribers b c of None \<Rightarrow> {} | Some qs \<Rightarrow> qs)"

definition subscribe :: "string \<Rightarrow> 'e event_bus \<Rightarrow> subscription \<times> 'e event_bus" where
  "subscribe c b =
     (let q = eb_next b in
      (\<lparr> sub_correlation_id = c, sub_queue = q \<rparr>,
       \<lparr> eb_subscribers = (eb_subscribers b)(c \<mapsto> insert q (listeners b c)),
         eb_queues = (eb_queues b)(q := []), eb_next = Suc q \<rparr>))"

definition unsubscribe :: "subscription \<Rightarrow> ('e event_bus, streaming_error, unit) op" where
  "unsubscribe s b =
     (case eb_subscribers b (sub_correlation_id s) of
        None \<Rightarrow> (Inl UnknownSubscriptionError, b)
      | Some qs \<Rightarrow>
          if sub_queue s \<notin> qs then (Inl UnknownSubscriptionError, b)
          else let qs' = qs - {sub_queue s} in
            (Inr (), b \<lparr> eb_subscribers := (eb_subscribers b)(sub_correlation_id s := (if qs' = {} then None else Some qs')) \<rparr>))"

text \<open>The set of queues is iterated in some order; each gets the event once.\<close>

definition publish_event :: "('e \<Rightarrow> string) \<Rightarrow> 'e \<Rightarrow> 'e event_bus \<Rightarrow> 'e event_bus" where
  "publish_event cid e b = b \<lparr> eb_queues := (\<lambda>q. if q \<in> listeners b (cid e) then eb_queues b q @ [e] else eb_queues b q) \<rparr>"

text \<open>\<open>queue.get()\<close>: the oldest event, or nothing yet.\<close>

definition receive :: "subscription \<Rightarrow> 'e event_bus \<Rightarrow> 'e option \<times> 'e event_bus" where
  "receive s b = (case eb_queues b (sub_queue s) of
     [] \<Rightarrow> (None, b) | e # es \<Rightarrow> (Some e, b \<lparr> eb_queues := (eb_queues b)(sub_queue s := es) \<rparr>))"

definition subscriber_count :: "'e event_bus \<Rightarrow> string \<Rightarrow> nat" where
  "subscriber_count b c = card (listeners b c)"

section \<open>The interface a streaming client relies on\<close>

text \<open>
  \<open>pending\<close> is what a subscription can still receive, \<open>active\<close> whether it is registered. The
  laws are those of an ordered channel per subscription.
\<close>

locale event_channel =
  fixes cid :: "'e \<Rightarrow> string"
    and sub :: "string \<Rightarrow> 's \<Rightarrow> subscription \<times> 's"
    and pub :: "'e \<Rightarrow> 's \<Rightarrow> 's"
    and recv :: "subscription \<Rightarrow> 's \<Rightarrow> 'e option \<times> 's"
    and pending :: "'s \<Rightarrow> subscription \<Rightarrow> 'e list"
    and active :: "'s \<Rightarrow> subscription \<Rightarrow> bool"
    and ok :: "'s \<Rightarrow> bool"
  assumes sub_ok: "ok s \<Longrightarrow> sub c s = (h, s') \<Longrightarrow>
      ok s' \<and> active s' h \<and> pending s' h = [] \<and> sub_correlation_id h = c"
    and pub_ok: "ok s \<Longrightarrow> ok (pub e s)"
    and pub_active: "active (pub e s) h = active s h"
    and pub_pending: "active s h \<Longrightarrow>
      pending (pub e s) h = pending s h @ (if cid e = sub_correlation_id h then [e] else [])"
    and recv_pending: "recv h s = (x, s') \<Longrightarrow>
      (case pending s h of [] \<Rightarrow> x = None \<and> s' = s | e # es \<Rightarrow> x = Some e \<and> pending s' h = es)"
begin

text \<open>A subscriber gets the events of its correlation id, all of them, in their order.\<close>

lemma pub_all_pending:
  "active s h \<Longrightarrow> pending (fold pub es s) h = pending s h @ filter (\<lambda>e. cid e = sub_correlation_id h) es"
  by (induction es arbitrary: s) (simp_all add: pub_active pub_pending)

lemma fresh_subscription_pending:
  assumes "ok s" "sub c s = (h, s')"
  shows "pending (fold pub es s') h = filter (\<lambda>e. cid e = c) es"
  using sub_ok [OF assms] by (simp add: pub_all_pending)

end

text \<open>A handle is registered if its queue is among those of its correlation id, and only there.\<close>

definition registered :: "'e event_bus \<Rightarrow> subscription \<Rightarrow> bool" where
  "registered b s \<longleftrightarrow> sub_queue s \<in> listeners b (sub_correlation_id s) \<and>
     (\<forall>c. sub_queue s \<in> listeners b c \<longrightarrow> c = sub_correlation_id s)"

section \<open>The invariant of the bus\<close>

text \<open>
  No correlation id keeps an empty set, queues are registered under one id only, and identities
  are handed out once.
\<close>

definition bus_ok :: "'e event_bus \<Rightarrow> bool" where
  "bus_ok b \<longleftrightarrow> (\<forall>c. eb_subscribers b c \<noteq> Some {}) \<and>
     (\<forall>c d q. q \<in> listeners b c \<longrightarrow> q \<in> listeners b d \<longrightarrow> c = d) \<and>
     (\<forall>c. \<forall>q\<in>listeners b c. q < eb_next b) \<and> (\<forall>c. finite (listeners b c))"

lemma listeners_subscribe [simp]:
  "listeners (snd (subscribe c b)) d = (if d = c then insert (eb_next b) (listeners b c) else listeners b d)"
  by (simp add: subscribe_def listeners_def Let_def)

lemma listeners_publish [simp]: "listeners (publish_event cid e b) = listeners b"
  by (simp add: publish_event_def listeners_def fun_eq_iff)

lemma listeners_unsubscribe:
  "unsubscribe s b = (Inr u, b') \<Longrightarrow>
     listeners b' = (listeners b)(sub_correlation_id s := listeners b (sub_correlation_id s) - {sub_queue s})"
  by (auto simp: unsubscribe_def listeners_def Let_def fun_eq_iff split: option.splits if_splits)

lemma listeners_receive [simp]: "listeners (snd (receive s b)) = listeners b"
  by (simp add: receive_def listeners_def fun_eq_iff split: list.split)

lemma new_bus_ok [simp]: "bus_ok new_event_bus"
  by (simp add: bus_ok_def new_event_bus_def listeners_def)

lemma subscribe_ok [intro]: "bus_ok b \<Longrightarrow> bus_ok (snd (subscribe c b))"
  unfolding bus_ok_def
  by (auto simp: subscribe_def listeners_def Let_def less_Suc_eq split: option.splits if_splits)

lemma publish_ok [intro]: "bus_ok b \<Longrightarrow> bus_ok (publish_event cid e b)"
  by (simp add: bus_ok_def) (simp add: publish_event_def)

lemma receive_ok [intro]: "bus_ok b \<Longrightarrow> bus_ok (snd (receive s b))"
  by (simp add: bus_ok_def) (simp add: receive_def split: list.split)

lemma unsubscribe_ok:
  assumes "bus_ok b" "unsubscribe s b = (x, b')"
  shows "bus_ok b'"
proof (cases x)
  case (Inl e)
  then show ?thesis using assms by (auto simp: unsubscribe_def Let_def split: option.splits if_splits)
next
  case (Inr u)
  then have l: "listeners b' = (listeners b)(sub_correlation_id s := listeners b (sub_correlation_id s) - {sub_queue s})"
    using assms(2) listeners_unsubscribe by blast
  have "eb_subscribers b' c \<noteq> Some {}" "eb_next b' = eb_next b" for c
    using assms Inr by (auto simp: bus_ok_def unsubscribe_def Let_def split: option.splits if_splits)
  then show ?thesis using assms(1) unfolding bus_ok_def l by (auto split: if_splits)
qed

interpretation bus: event_channel cid subscribe "publish_event cid" receive "\<lambda>b s. eb_queues b (sub_queue s)"
  registered bus_ok for cid :: "'e \<Rightarrow> string"
proof unfold_locales
  fix s s' :: "'e event_bus" and c h
  assume ok: "bus_ok s" and sub: "subscribe c s = (h, s')"
  have "s' = snd (subscribe c s)" "h = \<lparr> sub_correlation_id = c, sub_queue = eb_next s \<rparr>"
    using sub by (auto simp: subscribe_def Let_def)
  moreover have "eb_next s \<notin> listeners s d" for d using ok by (auto simp: bus_ok_def)
  ultimately show "bus_ok s' \<and> registered s' h \<and> eb_queues s' (sub_queue h) = [] \<and> sub_correlation_id h = c"
    using subscribe_ok [OF ok, of c] by (auto simp: registered_def subscribe_def Let_def listeners_def split: option.splits)
next
  fix s :: "'e event_bus" and h and e :: 'e
  assume "registered s h"
  then show "eb_queues (publish_event cid e s) (sub_queue h) =
      eb_queues s (sub_queue h) @ (if cid e = sub_correlation_id h then [e] else [])"
    by (auto simp: registered_def publish_event_def)
next
  fix s s' :: "'e event_bus" and h x
  assume "receive h s = (x, s')"
  then show "case eb_queues s (sub_queue h) of [] \<Rightarrow> x = None \<and> s' = s
      | e # es \<Rightarrow> x = Some e \<and> eb_queues s' (sub_queue h) = es"
    by (auto simp: receive_def split: list.splits)
qed (auto simp: registered_def)

section \<open>The specification\<close>

text \<open>
  An abstract bus: the log of all publications and for each handle its correlation id, the
  positions of the log between which it was registered and the number of events taken. A handle
  is named by the number of subscriptions before it.
\<close>

record 'e topic_log =
  tl_log :: "'e list"
  tl_handles :: "(string \<times> nat \<times> nat option \<times> nat) list"

definition tl_span :: "('e \<Rightarrow> string) \<Rightarrow> 'e list \<Rightarrow> string \<Rightarrow> nat \<Rightarrow> nat option \<Rightarrow> 'e list" where
  "tl_span cid es c start stop =
     filter (\<lambda>e. cid e = c) (drop start (case stop of None \<Rightarrow> es | Some m \<Rightarrow> take m es))"

definition tl_window :: "('e \<Rightarrow> string) \<Rightarrow> 'e topic_log \<Rightarrow> nat \<Rightarrow> 'e list" where
  "tl_window cid t q = (case tl_handles t ! q of (c, start, stop, taken) \<Rightarrow> drop taken (tl_span cid (tl_log t) c start stop))"

datatype 'e bus_call = Subscribe string | Unsubscribe string queue_id | Publish 'e | Receive string queue_id | Count string

datatype 'e bus_reply = Subscribed queue_id | Done | Unknown_Subscription | Received 'e | Blocked | Counted nat

fun bus_step :: "('e \<Rightarrow> string) \<Rightarrow> 'e bus_call \<Rightarrow> 'e event_bus \<Rightarrow> 'e bus_reply \<times> 'e event_bus" where
  "bus_step cid (Subscribe c) b = (case subscribe c b of (s, b') \<Rightarrow> (Subscribed (sub_queue s), b'))"
| "bus_step cid (Unsubscribe c q) b =
     (case unsubscribe \<lparr> sub_correlation_id = c, sub_queue = q \<rparr> b of
        (Inl _, b') \<Rightarrow> (Unknown_Subscription, b') | (Inr _, b') \<Rightarrow> (Done, b'))"
| "bus_step cid (Publish e) b = (Done, publish_event cid e b)"
| "bus_step cid (Receive c q) b =
     (case receive \<lparr> sub_correlation_id = c, sub_queue = q \<rparr> b of
        (None, b') \<Rightarrow> (Blocked, b') | (Some e, b') \<Rightarrow> (Received e, b'))"
| "bus_step cid (Count c) b = (Counted (subscriber_count b c), b)"

fun spec_step :: "('e \<Rightarrow> string) \<Rightarrow> 'e bus_call \<Rightarrow> 'e topic_log \<Rightarrow> 'e bus_reply \<times> 'e topic_log" where
  "spec_step cid (Subscribe c) t =
     (Subscribed (length (tl_handles t)), t \<lparr> tl_handles := tl_handles t @ [(c, length (tl_log t), None, 0)] \<rparr>)"
| "spec_step cid (Unsubscribe c q) t =
     (if q < length (tl_handles t) then
        (case tl_handles t ! q of (d, start, stop, taken) \<Rightarrow>
           if d = c \<and> stop = None
           then (Done, t \<lparr> tl_handles := (tl_handles t)[q := (d, start, Some (length (tl_log t)), taken)] \<rparr>)
           else (Unknown_Subscription, t))
      else (Unknown_Subscription, t))"
| "spec_step cid (Publish e) t = (Done, t \<lparr> tl_log := tl_log t @ [e] \<rparr>)"
| "spec_step cid (Receive c q) t =
     (if q < length (tl_handles t) then
        (case tl_window cid t q of
           [] \<Rightarrow> (Blocked, t)
         | e # _ \<Rightarrow> (Received e, t \<lparr> tl_handles := (tl_handles t)[q := (case tl_handles t ! q of (d, start, stop, taken) \<Rightarrow>
              (d, start, stop, Suc taken))] \<rparr>))
      else (Blocked, t))"
| "spec_step cid (Count c) t = (Counted (length (filter (\<lambda>(d, _, stop, _). d = c \<and> stop = None) (tl_handles t))), t)"

fun run_calls :: "('c \<Rightarrow> 's \<Rightarrow> 'r \<times> 's) \<Rightarrow> 'c list \<Rightarrow> 's \<Rightarrow> 'r list" where
  "run_calls step [] s = []"
| "run_calls step (c # cs) s = (case step c s of (r, s') \<Rightarrow> r # run_calls step cs s')"

text \<open>Forward simulation, once for all.\<close>

lemma run_calls_simulation:
  assumes "R s t" "\<And>c s t. R s t \<Longrightarrow> fst (f c s) = fst (g c t) \<and> R (snd (f c s)) (snd (g c t))"
  shows "run_calls f cs s = run_calls g cs t"
  using assms(1)
proof (induction cs arbitrary: s t)
  case (Cons c cs)
  then show ?case using assms(2) [OF Cons.prems, of c] by (simp add: case_prod_beta)
qed simp

lemma tl_span_publish:
  assumes "start \<le> length es" "\<forall>m. stop = Some m \<longrightarrow> m \<le> length es"
  shows "tl_span cid (es @ [e]) c start stop = tl_span cid es c start stop @ (if stop = None \<and> cid e = c then [e] else [])"
  using assms by (auto simp: tl_span_def split: option.split)

lemma tl_span_stop: "tl_span cid es c start (Some (length es)) = tl_span cid es c start None"
  by (simp add: tl_span_def)

text \<open>The simulation relation: every queue holds the window of its handle.\<close>

definition handle_refines ::
  "('e \<Rightarrow> string) \<Rightarrow> 'e event_bus \<Rightarrow> 'e list \<Rightarrow> queue_id \<Rightarrow> string \<times> nat \<times> nat option \<times> nat \<Rightarrow> bool" where
  "handle_refines cid b es q = (\<lambda>(c, start, stop, taken).
     (\<forall>d. q \<in> listeners b d \<longleftrightarrow> d = c \<and> stop = None) \<and>
     eb_queues b q = drop taken (tl_span cid es c start stop) \<and> taken \<le> length (tl_span cid es c start stop) \<and>
     start \<le> length es \<and> (\<forall>m. stop = Some m \<longrightarrow> m \<le> length es))"

definition refines :: "('e \<Rightarrow> string) \<Rightarrow> 'e event_bus \<Rightarrow> 'e topic_log \<Rightarrow> bool" where
  "refines cid b t \<longleftrightarrow> bus_ok b \<and> eb_next b = length (tl_handles t) \<and>
     (\<forall>q. length (tl_handles t) \<le> q \<longrightarrow> eb_queues b q = []) \<and>
     (\<forall>q < length (tl_handles t). handle_refines cid b (tl_log t) q (tl_handles t ! q))"

lemma refines_window:
  "refines cid b t \<Longrightarrow> q < length (tl_handles t) \<Longrightarrow> eb_queues b q = tl_window cid t q"
  by (auto simp: refines_def handle_refines_def tl_window_def split: prod.splits)

lemma refines_listeners:
  assumes "refines cid b t"
  shows "q \<in> listeners b c \<longleftrightarrow> q < length (tl_handles t) \<and>
    (case tl_handles t ! q of (d, start, stop, taken) \<Rightarrow> d = c \<and> stop = None)"
proof (cases "q < length (tl_handles t)")
  case True
  then show ?thesis using assms by (auto simp: refines_def handle_refines_def split: prod.splits)
next
  case False
  then show ?thesis using assms by (auto simp: refines_def bus_ok_def)
qed

lemma subscribe_refines:
  assumes "refines cid b t"
  shows "refines cid (snd (subscribe c b)) (t \<lparr> tl_handles := tl_handles t @ [(c, length (tl_log t), None, 0)] \<rparr>)"
proof -
  have next_eq: "eb_next b = length (tl_handles t)" and ok: "bus_ok b" using assms by (auto simp: refines_def)
  have q: "eb_queues (snd (subscribe c b)) = (eb_queues b)(eb_next b := [])"
    "eb_next (snd (subscribe c b)) = Suc (eb_next b)" by (simp_all add: subscribe_def Let_def)
  have "eb_next b \<notin> listeners b d" for d using ok by (auto simp: bus_ok_def)
  then have "handle_refines cid (snd (subscribe c b)) (tl_log t) (eb_next b) (c, length (tl_log t), None, 0)"
    by (simp add: handle_refines_def q tl_span_def)
  moreover have "handle_refines cid (snd (subscribe c b)) (tl_log t) i (tl_handles t ! i)" if "i < length (tl_handles t)" for i
    using assms that by (auto simp: refines_def handle_refines_def q split: prod.splits)
  ultimately show ?thesis using assms ok next_eq
    by (auto simp: refines_def q nth_append less_Suc_eq subscribe_ok)
qed

lemma publish_refines:
  assumes "refines cid b t"
  shows "refines cid (publish_event cid e b) (t \<lparr> tl_log := tl_log t @ [e] \<rparr>)"
proof -
  have ok: "bus_ok b" using assms by (simp add: refines_def)
  have next_eq: "eb_next (publish_event cid e b) = eb_next b" by (simp add: publish_event_def)
  have outside: "q \<notin> listeners b c" if "length (tl_handles t) \<le> q" for q c
    using refines_listeners [OF assms] that by (simp add: leD)
  have "handle_refines cid (publish_event cid e b) (tl_log t @ [e]) q (tl_handles t ! q)" if "q < length (tl_handles t)" for q
  proof -
    obtain c start stop taken where h: "tl_handles t ! q = (c, start, stop, taken)" by (metis prod_cases4)
    then have r: "handle_refines cid b (tl_log t) q (c, start, stop, taken)" using assms that by (auto simp: refines_def)
    then have "tl_span cid (tl_log t @ [e]) c start stop =
        tl_span cid (tl_log t) c start stop @ (if stop = None \<and> cid e = c then [e] else [])"
      by (intro tl_span_publish) (auto simp: handle_refines_def)
    moreover have "eb_queues (publish_event cid e b) q = eb_queues b q @ (if stop = None \<and> cid e = c then [e] else [])"
      using r by (auto simp: handle_refines_def publish_event_def)
    ultimately show ?thesis using r unfolding h by (simp add: handle_refines_def le_SucI)
  qed
  moreover have "eb_queues (publish_event cid e b) q = []" if "length (tl_handles t) \<le> q" for q
    using assms outside [OF that] that by (simp add: refines_def publish_event_def)
  ultimately show ?thesis using assms publish_ok [OF ok, of cid e] by (simp add: refines_def next_eq)
qed

lemma receive_refines:
  assumes "refines cid b t" "q < length (tl_handles t)" "eb_queues b q = e # es" "tl_handles t ! q = (c, start, stop, taken)"
  shows "refines cid (b \<lparr> eb_queues := (eb_queues b)(q := es) \<rparr>) (t \<lparr> tl_handles := (tl_handles t)[q := (c, start, stop, Suc taken)] \<rparr>)"
proof -
  have l: "listeners (b \<lparr> eb_queues := qs \<rparr>) = listeners b" for qs by (simp add: listeners_def fun_eq_iff)
  have r: "handle_refines cid b (tl_log t) q (c, start, stop, taken)" using assms(1,2,4) by (auto simp: refines_def)
  then have "drop taken (tl_span cid (tl_log t) c start stop) = e # es" using assms(3) by (simp add: handle_refines_def)
  then have "drop (Suc taken) (tl_span cid (tl_log t) c start stop) = es" "taken < length (tl_span cid (tl_log t) c start stop)"
    by (simp_all add: drop_Suc drop_tl) (metis drop_all leI list.distinct(1))
  with r have "handle_refines cid (b \<lparr> eb_queues := (eb_queues b)(q := es) \<rparr>) (tl_log t) q (c, start, stop, Suc taken)"
    by (simp add: handle_refines_def l)
  moreover have "handle_refines cid (b \<lparr> eb_queues := (eb_queues b)(q := es) \<rparr>) (tl_log t) i (tl_handles t ! i)"
    if "i < length (tl_handles t)" "i \<noteq> q" for i
    using assms(1) that by (auto simp: refines_def handle_refines_def l split: prod.splits)
  ultimately show ?thesis using assms(1,2) by (auto simp: refines_def nth_list_update bus_ok_def l)
qed

lemma unsubscribe_refines:
  assumes "refines cid b t" "q < length (tl_handles t)" "tl_handles t ! q = (c, start, None, taken)"
    "unsubscribe \<lparr> sub_correlation_id = c, sub_queue = q \<rparr> b = (Inr u, b')"
  shows "refines cid b' (t \<lparr> tl_handles := (tl_handles t)[q := (c, start, Some (length (tl_log t)), taken)] \<rparr>)"
proof -
  have l: "listeners b' = (listeners b)(c := listeners b c - {q})" using listeners_unsubscribe [OF assms(4)] by simp
  have b': "eb_queues b' = eb_queues b" "eb_next b' = eb_next b"
    using assms(4) by (auto simp: unsubscribe_def Let_def split: option.splits if_splits)
  have ok: "bus_ok b'" using assms(1,4) unsubscribe_ok by (auto simp: refines_def)
  have "handle_refines cid b (tl_log t) q (c, start, None, taken)" using assms(1,2,3) by (auto simp: refines_def)
  then have "handle_refines cid b' (tl_log t) q (c, start, Some (length (tl_log t)), taken)"
    by (auto simp: handle_refines_def l b' tl_span_stop)
  moreover have "handle_refines cid b' (tl_log t) i (tl_handles t ! i)" if "i < length (tl_handles t)" "i \<noteq> q" for i
    using assms(1) that by (auto simp: refines_def handle_refines_def l b' split: prod.splits)
  ultimately show ?thesis using assms(1,2) ok by (auto simp: refines_def nth_list_update b')
qed

lemma step_refines:
  assumes "refines cid b t"
  shows "fst (bus_step cid call b) = fst (spec_step cid call t) \<and> refines cid (snd (bus_step cid call b)) (snd (spec_step cid call t))"
proof (cases call)
  case (Subscribe c)
  have "sub_queue (fst (subscribe c b)) = length (tl_handles t)" using assms by (simp add: subscribe_def refines_def Let_def)
  then show ?thesis using subscribe_refines [OF assms, of c] Subscribe by (simp add: case_prod_beta)
next
  case (Unsubscribe c q)
  let ?s = "\<lparr> sub_correlation_id = c, sub_queue = q \<rparr>"
  show ?thesis
  proof (cases "q \<in> listeners b c")
    case True
    then obtain b' where b': "unsubscribe ?s b = (Inr (), b')"
      by (auto simp: unsubscribe_def listeners_def Let_def split: option.splits)
    from True obtain start taken where h: "q < length (tl_handles t)" "tl_handles t ! q = (c, start, None, taken)"
      using refines_listeners [OF assms, of q c] by (auto split: prod.splits)
    then show ?thesis using unsubscribe_refines [OF assms h b'] b' Unsubscribe by simp
  next
    case False
    then have "unsubscribe ?s b = (Inl UnknownSubscriptionError, b)"
      by (auto simp: unsubscribe_def listeners_def split: option.splits)
    moreover have "spec_step cid call t = (Unknown_Subscription, t)"
      using False refines_listeners [OF assms, of q c] Unsubscribe by (auto split: prod.splits)
    ultimately show ?thesis using assms Unsubscribe by simp
  qed
next
  case (Publish e)
  then show ?thesis using publish_refines [OF assms] by simp
next
  case (Receive c q)
  show ?thesis
  proof (cases "eb_queues b q")
    case Nil
    then have "spec_step cid call t = (Blocked, t)"
      using refines_window [OF assms, of q] Receive by auto
    then show ?thesis using assms Nil Receive by (simp add: receive_def)
  next
    case (Cons e es)
    then have q: "q < length (tl_handles t)" using assms by (auto simp: refines_def) (metis list.distinct(1) not_le_imp_less)
    obtain d start stop taken where h: "tl_handles t ! q = (d, start, stop, taken)" by (metis prod_cases4)
    have "tl_window cid t q = e # es" using refines_window [OF assms q] Cons by simp
    then have "spec_step cid call t = (Received e, t \<lparr> tl_handles := (tl_handles t)[q := (d, start, stop, Suc taken)] \<rparr>)"
      using q h Receive by simp
    then show ?thesis using receive_refines [OF assms q Cons h] Cons Receive by (simp add: receive_def)
  qed
next
  case (Count c)
  let ?p = "\<lambda>(d, start, stop, taken). d = c \<and> stop = (None :: nat option)"
  have "listeners b c = {q. q < length (tl_handles t) \<and> ?p (tl_handles t ! q)}"
    by (rule set_eqI) (simp add: refines_listeners [OF assms])
  then have "card (listeners b c) = length (filter ?p (tl_handles t))"
    by (simp add: length_filter_conv_card)
  then show ?thesis using assms Count by (simp add: subscriber_count_def)
qed

text \<open>
  C3. The bus with its per-subscriber queues refines the specification: on every sequence of
  subscriptions, cancellations, publications, receptions and counts, from an empty bus, both give
  the same replies. A handle receives, in their order and once each, exactly the events of its
  correlation id published while it was registered; cancelling succeeds exactly once; the count
  is the number of registered handles.
\<close>
theorem bus_refines_log:
  "run_calls (bus_step cid) calls new_event_bus = run_calls (spec_step cid) calls \<lparr> tl_log = [], tl_handles = [] \<rparr>"
proof (rule run_calls_simulation [where R = "refines cid"])
  show "refines cid new_event_bus \<lparr> tl_log = [], tl_handles = [] \<rparr>"
    using new_bus_ok by (simp add: refines_def) (simp add: new_event_bus_def)
qed (rule step_refines)

end
