(* ===== verification/Streaming.thy ===== *)
theory Streaming
  imports Event_Bus Pipeline Json
begin

text \<open>
  Streaming of a run (\<open>streaming/models.py\<close>, \<open>events.py\<close>, \<open>subscriber.py\<close>, \<open>sse.py\<close>): the
  events sent to a client, the emitter that makes them from the notifications of the pipeline,
  and the generator that drains a subscription while the pipeline and the heartbeat tasks run.
  Tasks of the event loop interleave, so a stream is a step relation.
\<close>

section \<open>Events (models.py)\<close>

datatype pipeline_event_type = PIPELINE_STARTED | STAGE_STARTED | STAGE_COMPLETED | STAGE_FAILED
  | PIPELINE_COMPLETED | PIPELINE_FAILED | HEARTBEAT | CLIENT_DISCONNECTED

fun event_type_value :: "pipeline_event_type \<Rightarrow> string" where
  "event_type_value PIPELINE_STARTED = ''pipeline_started''"
| "event_type_value STAGE_STARTED = ''stage_started''"
| "event_type_value STAGE_COMPLETED = ''stage_completed''"
| "event_type_value STAGE_FAILED = ''stage_failed''"
| "event_type_value PIPELINE_COMPLETED = ''pipeline_completed''"
| "event_type_value PIPELINE_FAILED = ''pipeline_failed''"
| "event_type_value HEARTBEAT = ''heartbeat''"
| "event_type_value CLIENT_DISCONNECTED = ''client_disconnected''"

record stream_event =
  ev_event_id :: string
  ev_correlation_id :: string
  ev_timestamp :: datetime
  ev_pipeline_stage :: "pipeline_stage option"
  ev_event_type :: pipeline_event_type
  ev_payload :: "(string \<times> json) list"

text \<open>The texts of exceptions and the JSON form of an answer come from elsewhere.\<close>

record ('v, 'b) rendering =
  rd_error_type :: "stage_exception \<Rightarrow> string"
  rd_error_message :: "stage_exception \<Rightarrow> string"
  rd_failure_message :: "'v pipeline_failure \<Rightarrow> string"
  rd_response_error :: "response_error \<Rightarrow> string"
  rd_answer :: "'b \<Rightarrow> json"

text \<open>An event with its generated id and time stamp.\<close>

definition make_event ::
  "string \<times> datetime \<Rightarrow> string \<Rightarrow> pipeline_event_type \<Rightarrow> pipeline_stage option \<Rightarrow> (string \<times> json) list \<Rightarrow> stream_event" where
  "make_event stamp c ty stage payload = \<lparr> ev_event_id = fst stamp, ev_correlation_id = c, ev_timestamp = snd stamp,
     ev_pipeline_stage = stage, ev_event_type = ty, ev_payload = payload \<rparr>"

definition pipeline_started_event :: "string \<times> datetime \<Rightarrow> string \<Rightarrow> string \<Rightarrow> stream_event" where
  "pipeline_started_event st c question = make_event st c PIPELINE_STARTED None [(''original_question'', JStr question)]"

definition stage_started_event :: "string \<times> datetime \<Rightarrow> string \<Rightarrow> pipeline_stage \<Rightarrow> stream_event" where
  "stage_started_event st c stage = make_event st c STAGE_STARTED (Some stage) []"

definition stage_completed_event :: "string \<times> datetime \<Rightarrow> string \<Rightarrow> pipeline_stage \<Rightarrow> real \<Rightarrow> stream_event" where
  "stage_completed_event st c stage d = make_event st c STAGE_COMPLETED (Some stage) [(''duration_ms'', JFloat d)]"

definition stage_failed_event ::
  "('v, 'b) rendering \<Rightarrow> string \<times> datetime \<Rightarrow> string \<Rightarrow> pipeline_stage \<Rightarrow> real \<Rightarrow> stage_exception \<Rightarrow> stream_event" where
  "stage_failed_event rd st c stage d e = make_event st c STAGE_FAILED (Some stage)
     [(''duration_ms'', JFloat d), (''error_type'', JStr (rd_error_type rd e)), (''error_message'', JStr (rd_error_message rd e))]"

definition pipeline_completed_event ::
  "('v, 'b) rendering \<Rightarrow> string \<times> datetime \<Rightarrow> string \<Rightarrow> ('v, 'b) query_mind_response \<Rightarrow> stream_event" where
  "pipeline_completed_event rd st c resp = make_event st c PIPELINE_COMPLETED None
     [(''status'', JStr (case qm_status resp of P_Success \<Rightarrow> ''success'' | P_Failed \<Rightarrow> ''failed'')),
      (''error'', case qm_error resp of None \<Rightarrow> JNull | Some e \<Rightarrow> JStr (rd_response_error rd e)),
      (''business_answer'', case qm_business_answer resp of None \<Rightarrow> JNull | Some a \<Rightarrow> rd_answer rd a)]"

definition pipeline_failed_event ::
  "string \<times> datetime \<Rightarrow> string \<Rightarrow> string \<Rightarrow> string \<Rightarrow> pipeline_stage option \<Rightarrow> stream_event" where
  "pipeline_failed_event st c ty msg stage = make_event st c PIPELINE_FAILED stage
     [(''error_type'', JStr ty), (''error_message'', JStr msg)]"

definition heartbeat_event :: "string \<times> datetime \<Rightarrow> string \<Rightarrow> real \<Rightarrow> stream_event" where
  "heartbeat_event st c elapsed = make_event st c HEARTBEAT None [(''elapsed_ms'', JFloat elapsed)]"

definition client_disconnected_event :: "string \<times> datetime \<Rightarrow> string \<Rightarrow> stream_event" where
  "client_disconnected_event st c = make_event st c CLIENT_DISCONNECTED None []"

section \<open>The emitter (events.py)\<close>

fun emit :: "('v, 'b) rendering \<Rightarrow> string \<Rightarrow> string \<times> datetime \<Rightarrow> ('v, 'b) pipeline_event \<Rightarrow> stream_event" where
  "emit rd c st (PipelineStarted question) = pipeline_started_event st c question"
| "emit rd c st (StageStarted stage) = stage_started_event st c stage"
| "emit rd c st (StageCompleted stage d) = stage_completed_event st c stage d"
| "emit rd c st (StageFailed stage d e) = stage_failed_event rd st c stage d e"
| "emit rd c st (PipelineCompleted resp) = pipeline_completed_event rd st c resp"
| "emit rd c st (PipelineFailed f) =
     pipeline_failed_event st c ''PipelineExecutionError'' (rd_failure_message rd f) None"

text \<open>The events of a run; the stamps are drawn one after the other.\<close>

definition emitted ::
  "('v, 'b) rendering \<Rightarrow> string \<Rightarrow> (nat \<Rightarrow> string \<times> datetime) \<Rightarrow> ('v, 'b) pipeline_event list \<Rightarrow> stream_event list" where
  "emitted rd c stamps evs = map (\<lambda>(n, ev). emit rd c (stamps n) ev) (List.enumerate 0 evs)"

section \<open>The generator (subscriber.py)\<close>

definition TERMINAL_EVENT_TYPES :: "pipeline_event_type set" where
  "TERMINAL_EVENT_TYPES = {PIPELINE_COMPLETED, PIPELINE_FAILED}"

definition terminal :: "stream_event \<Rightarrow> bool" where
  "terminal e \<longleftrightarrow> ev_event_type e \<in> TERMINAL_EVENT_TYPES"

datatype stream_phase = Running | Finished | Disconnected

text \<open>
  \<open>st_todo\<close> are the events the pipeline task has still to publish, \<open>st_raised\<close> the exception it
  ends with, if it raises, by type name and message.
\<close>

record stream =
  st_bus :: "stream_event event_bus"
  st_subscription :: subscription
  st_todo :: "stream_event list"
  st_raised :: "(string \<times> string) option"
  st_yielded :: "stream_event list"
  st_phase :: stream_phase

text \<open>The start: subscribe, then create the tasks.\<close>

definition open_stream ::
  "string \<Rightarrow> stream_event list \<Rightarrow> (string \<times> string) option \<Rightarrow> stream_event event_bus \<Rightarrow> stream" where
  "open_stream c events raised b = (case subscribe c b of (s, b') \<Rightarrow>
     \<lparr> st_bus = b', st_subscription = s, st_todo = events, st_raised = raised, st_yielded = [], st_phase = Running \<rparr>)"

text \<open>The \<open>finally\<close> block: the tasks are cancelled and the subscription is dropped.\<close>

definition close_stream :: "stream_phase \<Rightarrow> stream \<Rightarrow> stream" where
  "close_stream ph s = s \<lparr> st_todo := [], st_phase := ph, st_bus := snd (unsubscribe (st_subscription s) (st_bus s)) \<rparr>"

definition yield_event :: "stream_event \<Rightarrow> stream \<Rightarrow> stream" where
  "yield_event e s = s \<lparr> st_yielded := st_yielded s @ [e] \<rparr>"

abbreviation cid :: "stream_event \<Rightarrow> string" where
  "cid \<equiv> ev_correlation_id"

text \<open>
  The steps: the pipeline task publishes, the heartbeat task publishes, other streams use the bus
  under other correlation ids, the generator yields the next event (and stops after a terminal
  one), finds the pipeline done and the queue empty, or is closed by the client.
\<close>

inductive stream_step :: "string \<Rightarrow> stream \<Rightarrow> stream \<Rightarrow> bool" for c where
  Pipeline_Publishes: "st_phase s = Running \<Longrightarrow> st_todo s = e # es \<Longrightarrow>
    stream_step c s (s \<lparr> st_todo := es, st_bus := publish_event cid e (st_bus s) \<rparr>)"
| Heartbeat: "st_phase s = Running \<Longrightarrow>
    stream_step c s (s \<lparr> st_bus := publish_event cid (heartbeat_event st c elapsed) (st_bus s) \<rparr>)"
| Other_Publishes: "cid e \<noteq> c \<Longrightarrow> stream_step c s (s \<lparr> st_bus := publish_event cid e (st_bus s) \<rparr>)"
| Other_Subscribes: "stream_step c s (s \<lparr> st_bus := snd (subscribe d (st_bus s)) \<rparr>)"
| Other_Unsubscribes: "sub_queue h \<noteq> sub_queue (st_subscription s) \<Longrightarrow>
    stream_step c s (s \<lparr> st_bus := snd (unsubscribe h (st_bus s)) \<rparr>)"
| Other_Receives: "sub_queue h \<noteq> sub_queue (st_subscription s) \<Longrightarrow>
    stream_step c s (s \<lparr> st_bus := snd (receive h (st_bus s)) \<rparr>)"
| Yields: "st_phase s = Running \<Longrightarrow> receive (st_subscription s) (st_bus s) = (Some e, b') \<Longrightarrow> \<not> terminal e \<Longrightarrow>
    stream_step c s (yield_event e (s \<lparr> st_bus := b' \<rparr>))"
| Yields_Last: "st_phase s = Running \<Longrightarrow> receive (st_subscription s) (st_bus s) = (Some e, b') \<Longrightarrow> terminal e \<Longrightarrow>
    stream_step c s (close_stream Finished (yield_event e (s \<lparr> st_bus := b' \<rparr>)))"
| Pipeline_Done: "st_phase s = Running \<Longrightarrow> st_todo s = [] \<Longrightarrow> fst (receive (st_subscription s) (st_bus s)) = None \<Longrightarrow>
    stream_step c s (close_stream Finished (case st_raised s of None \<Rightarrow> s
      | Some (ty, msg) \<Rightarrow> yield_event (pipeline_failed_event st c ty msg None) s))"
| Client_Closes: "st_phase s = Running \<Longrightarrow> stream_step c s (close_stream Disconnected s)"

inductive_cases stream_step_cases: "stream_step c s s'"

section \<open>Frames (sse.py)\<close>

definition format_sse_frame :: "(stream_event \<Rightarrow> string) \<Rightarrow> stream_event \<Rightarrow> string" where
  "format_sse_frame serialize e = ''id: '' @ ev_event_id e @ newline @ ''event: '' @ event_type_value (ev_event_type e) @ newline
     @ ''data: '' @ serialize e @ newline @ newline"

end
