(* ===== verification/Streaming_Properties.thy ===== *)
theory Streaming_Properties
  imports Streaming Pipeline_Properties
begin

text \<open>
  What a client of a stream sees, in every interleaving of the tasks, and what happens when two
  streams share a correlation id.
\<close>

section \<open>The events of a run\<close>

definition proper_events :: "string \<Rightarrow> stream_event list \<Rightarrow> bool" where
  "proper_events c es \<longleftrightarrow> es \<noteq> [] \<and> terminal (last es) \<and> (\<forall>e\<in>set (butlast es). \<not> terminal e) \<and>
     (\<forall>e\<in>set es. cid e = c \<and> ev_event_type e \<noteq> HEARTBEAT)"

definition final_event :: "('v, 'b) pipeline_event \<Rightarrow> bool" where
  "final_event ev = (case ev of PipelineCompleted _ \<Rightarrow> True | PipelineFailed _ \<Rightarrow> True | _ \<Rightarrow> False)"

lemmas event_defs = make_event_def pipeline_started_event_def stage_started_event_def stage_completed_event_def
  stage_failed_event_def pipeline_completed_event_def pipeline_failed_event_def heartbeat_event_def

lemma emit_fields [simp]:
  "cid (emit rd c st ev) = c" "ev_event_type (emit rd c st ev) \<noteq> HEARTBEAT"
  "terminal (emit rd c st ev) \<longleftrightarrow> final_event ev"
  by (cases ev; simp add: event_defs terminal_def TERMINAL_EVENT_TYPES_def final_event_def)+

lemma emitted_Nil [simp]: "emitted rd c stamps [] = []"
  by (simp add: emitted_def)

lemma emitted_snoc: "emitted rd c stamps (evs @ [ev]) = emitted rd c stamps evs @ [emit rd c (stamps (length evs)) ev]"
  by (simp add: emitted_def enumerate_append_eq)

lemma emitted_mem: "e \<in> set (emitted rd c stamps evs) \<Longrightarrow> \<exists>n. \<exists>ev\<in>set evs. e = emit rd c (stamps n) ev"
  by (force simp: emitted_def in_set_enumerate_eq)

lemma emitted_proper:
  assumes "\<forall>ev\<in>set evs. \<not> final_event ev" "final_event ev"
  shows "proper_events c (emitted rd c stamps (evs @ [ev]))"
  using assms by (auto simp: proper_events_def emitted_snoc dest!: emitted_mem)

lemma stage_events_not_final: "ev \<in> set (stage_events ts) \<Longrightarrow> \<not> final_event ev"
  by (induction ts) (auto simp: final_event_def)

text \<open>The events of a run are those of stages and one final event.\<close>

lemma run_events_proper:
  assumes "ask (listening r) (Some append_event) q (w, []) = (resp, w', evs)"
  shows "proper_events c (emitted rd c stamps evs)"
proof -
  obtain init ev where "evs = init @ [ev]" "final_event ev" "\<forall>e\<in>set init. \<not> final_event e"
  proof -
    from ask_listening [OF assms] obtain tail where
      e: "evs = PipelineStarted q # stage_events (pls_stage_timings (qm_statistics resp)) @ tail"
      and t: "tail = [PipelineCompleted resp] \<or> (\<exists>d f. tail = failure_events d f)" by blast
    show thesis
    proof (rule that [of "butlast evs" "last evs"])
      show "evs = butlast evs @ [last evs]" using e by simp
      show "final_event (last evs)" "\<forall>e\<in>set (butlast evs). \<not> final_event e"
        using t by (auto simp: e butlast_append final_event_def failure_events_def dest: stage_events_not_final)
    qed
  qed
  then show ?thesis by (simp add: emitted_proper)
qed

section \<open>The invariant of a stream\<close>

abbreviation real_events :: "stream_event list \<Rightarrow> stream_event list" where
  "real_events \<equiv> filter (\<lambda>e. ev_event_type e \<noteq> HEARTBEAT)"

definition stream_inv :: "string \<Rightarrow> stream_event list \<Rightarrow> stream \<Rightarrow> bool" where
  "stream_inv c es s \<longleftrightarrow> bus_ok (st_bus s) \<and> sub_correlation_id (st_subscription s) = c \<and>
     sub_queue (st_subscription s) < eb_next (st_bus s) \<and>
     (case st_phase s of
        Running \<Rightarrow> registered (st_bus s) (st_subscription s) \<and>
          real_events (st_yielded s @ eb_queues (st_bus s) (sub_queue (st_subscription s))) @ st_todo s = es \<and>
          (\<forall>e\<in>set (st_yielded s). \<not> terminal e)
      | Finished \<Rightarrow> \<not> registered (st_bus s) (st_subscription s) \<and> real_events (st_yielded s) = es \<and>
          terminal (last (st_yielded s)) \<and> (\<forall>e\<in>set (butlast (st_yielded s)). \<not> terminal e)
      | Disconnected \<Rightarrow> \<not> registered (st_bus s) (st_subscription s) \<and> prefix (real_events (st_yielded s)) es)"

lemma open_stream_inv:
  assumes "bus_ok b" shows "stream_inv c es (open_stream c es raised b)"
proof -
  obtain h b' where s: "subscribe c b = (h, b')" by fastforce
  then have "sub_queue h < eb_next b'" by (auto simp: subscribe_def Let_def)
  then show ?thesis using bus.sub_ok [OF assms s] by (simp add: stream_inv_def open_stream_def s)
qed

text \<open>How the operations of the bus treat a registered subscription.\<close>

lemma registered_publish [simp]: "registered (publish_event f e b) h = registered b h"
  by (simp add: registered_def)

lemma registered_receive [simp]: "registered (snd (receive k b)) h = registered b h"
  by (simp add: registered_def)

lemma eb_next_steps [simp]:
  "eb_next (publish_event f e b) = eb_next b" "eb_next (snd (receive k b)) = eb_next b"
  "eb_next (snd (subscribe d b)) = Suc (eb_next b)" "eb_next (snd (unsubscribe k b)) = eb_next b"
  by (auto simp: publish_event_def receive_def subscribe_def unsubscribe_def Let_def split: list.split option.split)

lemma registered_subscribe:
  "sub_queue h < eb_next b \<Longrightarrow> registered (snd (subscribe d b)) h = registered b h"
  by (auto simp: registered_def)

lemma listeners_unsubscribe_snd:
  "listeners (snd (unsubscribe k b)) = (listeners b)(sub_correlation_id k := listeners b (sub_correlation_id k) - {sub_queue k})"
proof
  fix d
  show "listeners (snd (unsubscribe k b)) d = ((listeners b)(sub_correlation_id k := listeners b (sub_correlation_id k) - {sub_queue k})) d"
    by (cases "eb_subscribers b (sub_correlation_id k)") (simp_all add: unsubscribe_def listeners_def Let_def)
qed

lemma registered_unsubscribe_other:
  assumes "sub_queue k \<noteq> sub_queue h"
  shows "registered (snd (unsubscribe k b)) h = registered b h"
proof -
  have "sub_queue h \<in> listeners (snd (unsubscribe k b)) d \<longleftrightarrow> sub_queue h \<in> listeners b d" for d
    using assms by (simp add: listeners_unsubscribe_snd)
  then show ?thesis by (simp add: registered_def)
qed

lemma registered_unsubscribe_self: "\<not> registered (snd (unsubscribe h b)) h"
  by (simp add: registered_def listeners_unsubscribe_snd)

lemma eb_queues_steps:
  "sub_queue k \<noteq> q \<Longrightarrow> eb_queues (snd (receive k b)) q = eb_queues b q"
  "q < eb_next b \<Longrightarrow> eb_queues (snd (subscribe d b)) q = eb_queues b q"
  "eb_queues (snd (unsubscribe k b)) q = eb_queues b q"
  by (auto simp: receive_def subscribe_def unsubscribe_def Let_def split: list.split option.split)

lemma unsubscribe_snd_ok: "bus_ok b \<Longrightarrow> bus_ok (snd (unsubscribe k b))"
  using unsubscribe_ok [of b k] by (metis prod.collapse)

lemmas bus_step_simps = registered_subscribe registered_unsubscribe_other registered_unsubscribe_self eb_queues_steps unsubscribe_snd_ok publish_ok
  receive_ok subscribe_ok


lemma receive_self:
  "receive h b = (Some e, b') \<Longrightarrow> eb_queues b (sub_queue h) = e # eb_queues b' (sub_queue h) \<and> b' = snd (receive h b)"
  by (auto simp: receive_def split: list.splits)

lemma receive_bus:
  assumes "receive h b = (x, b')"
  shows "bus_ok b \<Longrightarrow> bus_ok b'" "eb_next b' = eb_next b" "registered b' k = registered b k"
  using assms receive_ok [of b h] registered_receive [of h b k] eb_next_steps(2) [of h b] by simp_all

lemma phase_close [simp]: "st_phase (close_stream ph s) = ph"
  by (simp add: close_stream_def)

lemma heartbeat_fields [simp]:
  "cid (heartbeat_event st c x) = c" "ev_event_type (heartbeat_event st c x) = HEARTBEAT"
  by (simp_all add: event_defs)

lemma terminal_not_heartbeat: "terminal e \<Longrightarrow> ev_event_type e \<noteq> HEARTBEAT"
  by (auto simp: terminal_def TERMINAL_EVENT_TYPES_def)

text \<open>In a proper list a terminal event is the last.\<close>

lemma proper_split:
  assumes "proper_events c (xs @ e # ys)"
  shows "terminal e \<longleftrightarrow> ys = []"
proof -
  have "ys \<noteq> [] \<Longrightarrow> e \<in> set (butlast (xs @ e # ys))" by (simp add: butlast_append)
  then show ?thesis using assms by (auto simp: proper_events_def)
qed

lemma close_stream_inv:
  assumes "bus_ok (st_bus s)" "sub_correlation_id (st_subscription s) = c" "sub_queue (st_subscription s) < eb_next (st_bus s)"
    "ph = Disconnected \<and> prefix (real_events (st_yielded s)) es \<or>
     ph = Finished \<and> real_events (st_yielded s) = es \<and> terminal (last (st_yielded s)) \<and> (\<forall>e\<in>set (butlast (st_yielded s)). \<not> terminal e)"
  shows "stream_inv c es (close_stream ph s)"
  using assms by (auto simp: stream_inv_def close_stream_def bus_step_simps)

lemma publish_queue:
  "registered b h \<Longrightarrow> eb_queues (publish_event cid e b) (sub_queue h) =
     eb_queues b (sub_queue h) @ (if cid e = sub_correlation_id h then [e] else [])"
  by (rule bus.pub_pending)

lemma stream_step_inv:
  assumes "stream_step c s s'" "stream_inv c es s" "proper_events c es"
  shows "stream_inv c es s'"
  using assms(1,2)
proof (induction rule: stream_step.induct)
  case (Pipeline_Publishes s e todo)
  then have "e \<in> set es" by (auto simp: stream_inv_def)
  then have "cid e = c" "ev_event_type e \<noteq> HEARTBEAT" using assms(3) by (auto simp: proper_events_def)
  then show ?case using Pipeline_Publishes by (auto simp: stream_inv_def bus_step_simps publish_queue)
next
  case (Heartbeat s st x)
  then show ?case by (auto simp: stream_inv_def bus_step_simps publish_queue)
next
  case (Other_Publishes e s)
  then show ?case by (auto simp: stream_inv_def bus_step_simps publish_queue split: stream_phase.splits)
next
  case (Other_Subscribes s d)
  then show ?case by (auto simp: stream_inv_def bus_step_simps split: stream_phase.splits)
next
  case (Other_Unsubscribes h s)
  then show ?case by (auto simp: stream_inv_def bus_step_simps split: stream_phase.splits)
next
  case (Other_Receives h s)
  then show ?case by (auto simp: stream_inv_def bus_step_simps split: stream_phase.splits)
next
  case (Yields s e b')
  note r = receive_self [OF Yields(2)]
  show ?case using Yields r receive_bus [OF Yields(2)] by (simp add: stream_inv_def yield_event_def)
next
  case (Yields_Last s e b')
  note r = receive_self [OF Yields_Last(2)]
  let ?rest = "eb_queues b' (sub_queue (st_subscription s))"
  have es: "es = real_events (st_yielded s) @ e # real_events ?rest @ st_todo s"
    using Yields_Last r terminal_not_heartbeat [OF Yields_Last(3)] by (auto simp: stream_inv_def)
  then have "real_events ?rest @ st_todo s = []" using proper_split assms(3) Yields_Last(3) by metis
  then have "real_events (st_yielded s @ [e]) = es" using es terminal_not_heartbeat [OF Yields_Last(3)] by simp
  then show ?case using Yields_Last receive_bus [OF Yields_Last(2)]
    by (intro close_stream_inv) (simp_all add: stream_inv_def yield_event_def)
next
  case (Pipeline_Done s st)
  then have "eb_queues (st_bus s) (sub_queue (st_subscription s)) = []" by (auto simp: receive_def split: list.splits)
  then have "real_events (st_yielded s) = es" "\<forall>e\<in>set (st_yielded s). \<not> terminal e"
    using Pipeline_Done by (auto simp: stream_inv_def)
  moreover have "terminal (last es)" "es \<noteq> []" using assms(3) by (auto simp: proper_events_def)
  ultimately have False by (metis filter_is_subset last_in_set subsetD)
  then show ?case ..
next
  case (Client_Closes s)
  then show ?case by (intro close_stream_inv) (auto simp: stream_inv_def prefix_def)
qed

lemma stream_inv_reachable:
  assumes "(stream_step c)\<^sup>*\<^sup>* (open_stream c es raised b) s" "bus_ok b" "proper_events c es"
  shows "stream_inv c es s"
  using assms(1) by (induction rule: rtranclp_induct) (auto intro: open_stream_inv [OF assms(2)] stream_step_inv [OF _ _ assms(3)])

text \<open>A running stream can always be driven to its end by the pipeline and the client alone.\<close>

lemma stream_can_finish:
  assumes "stream_inv c es s" "st_phase s = Running" "proper_events c es"
  shows "\<exists>s'. (stream_step c)\<^sup>*\<^sup>* s s' \<and> st_phase s' = Finished"
  using assms(1,2)
proof (induction "2 * length (st_todo s) + length (eb_queues (st_bus s) (sub_queue (st_subscription s)))"
    arbitrary: s rule: less_induct)
  case less
  show ?case
  proof (cases "eb_queues (st_bus s) (sub_queue (st_subscription s))")
    case (Cons e q)
    then obtain b' where b': "receive (st_subscription s) (st_bus s) = (Some e, b')" by (simp add: receive_def)
    note r = receive_self [OF b']
    show ?thesis
    proof (cases "terminal e")
      case True
      then have "stream_step c s (close_stream Finished (yield_event e (s \<lparr> st_bus := b' \<rparr>)))"
        using less b' by (intro Yields_Last)
      then show ?thesis by (meson phase_close r_into_rtranclp)
    next
      case False
      let ?s = "yield_event e (s \<lparr> st_bus := b' \<rparr>)"
      have step: "stream_step c s ?s" using less False b' by (intro Yields)
      then have "stream_inv c es ?s" using less.prems stream_step_inv assms(3) by blast
      moreover have "st_phase ?s = Running" "st_todo ?s = st_todo s" "st_bus ?s = b'" "st_subscription ?s = st_subscription s"
        using less.prems by (simp_all add: yield_event_def)
      ultimately show ?thesis using less.hyps [of ?s] r Cons step by (auto intro: converse_rtranclp_into_rtranclp)
    qed
  next
    case Nil
    show ?thesis
    proof (cases "st_todo s")
      case todo: Nil
      have "stream_step c s (close_stream Finished (case st_raised s of None \<Rightarrow> s
          | Some (ty, msg) \<Rightarrow> yield_event (pipeline_failed_event ([], 0) c ty msg None) s))"
        using less todo Nil by (intro Pipeline_Done) (simp_all add: receive_def)
      then show ?thesis by (meson phase_close r_into_rtranclp)
    next
      case (Cons e todo)
      let ?s = "s \<lparr> st_todo := todo, st_bus := publish_event cid e (st_bus s) \<rparr>"
      have step: "stream_step c s ?s" using less Cons by (intro Pipeline_Publishes)
      then have inv: "stream_inv c es ?s" using less.prems stream_step_inv assms(3) by blast
      have "length (eb_queues (publish_event cid e (st_bus s)) (sub_queue (st_subscription s))) \<le> 1"
        using Nil by (simp add: publish_event_def)
      then show ?thesis using less.hyps [of ?s] inv less.prems Cons Nil step
        by (auto intro: converse_rtranclp_into_rtranclp)
    qed
  qed
qed

text \<open>
  C4. Streaming one run, in every interleaving of the pipeline, the heartbeats, the client and any
  use of the bus by streams with other correlation ids: what the client has received, without
  heartbeats, is always an initial part of the events of the run, in order; when the generator
  ends by itself, it has received all of them, and the only terminal event it received came last;
  once the stream is over, its queue is no longer registered; and while it is running, the
  pipeline and the client can always drive it to its end.
\<close>
theorem stream_delivers_run:
  assumes "ask (listening r) (Some append_event) q (w, []) = (resp, w', evs)" and "bus_ok b"
    and "(stream_step c)\<^sup>*\<^sup>* (open_stream c (emitted rd c stamps evs) raised b) s"
  shows "prefix (real_events (st_yielded s)) (emitted rd c stamps evs) \<and>
    (st_phase s = Finished \<longrightarrow> real_events (st_yielded s) = emitted rd c stamps evs \<and>
       terminal (last (st_yielded s)) \<and> (\<forall>e\<in>set (butlast (st_yielded s)). \<not> terminal e)) \<and>
    (st_phase s \<noteq> Running \<longleftrightarrow> \<not> registered (st_bus s) (st_subscription s)) \<and>
    (st_phase s = Running \<longrightarrow> (\<exists>s'. (stream_step c)\<^sup>*\<^sup>* s s' \<and> st_phase s' = Finished))"
proof -
  have p: "proper_events c (emitted rd c stamps evs)" by (rule run_events_proper [OF assms(1)])
  have inv: "stream_inv c (emitted rd c stamps evs) s" by (rule stream_inv_reachable [OF assms(3,2) p])
  have "st_phase s = Running \<Longrightarrow> \<exists>s'. (stream_step c)\<^sup>*\<^sup>* s s' \<and> st_phase s' = Finished"
    using stream_can_finish [OF inv _ p] .
  moreover have "st_phase s = Running \<Longrightarrow> prefix (real_events (st_yielded s)) (emitted rd c stamps evs)"
    using inv by (simp add: stream_inv_def) (metis prefixI)
  ultimately show ?thesis using inv by (cases "st_phase s") (simp_all add: stream_inv_def)
qed

lemma new_bus_registered: "subscribe c new_event_bus = (h, b) \<Longrightarrow> bus_ok b \<and> registered b h \<and> sub_correlation_id h = c"
  using bus.sub_ok [OF new_bus_ok] by blast

definition demo_rendering :: "(int, string) rendering" where
  "demo_rendering = \<lparr> rd_error_type = (\<lambda>_. []), rd_error_message = (\<lambda>_. []), rd_failure_message = (\<lambda>_. []),
     rd_response_error = (\<lambda>_. []), rd_answer = JStr \<rparr>"

theorem stream_delivers_run_witness:
  "\<exists>resp w' evs s. ask (listening demo_runner) (Some append_event) [] (0, []) = (resp, w', evs) \<and>
     (stream_step ''id'')\<^sup>*\<^sup>* (open_stream ''id'' (emitted demo_rendering ''id'' (\<lambda>n. (str_nat n, 0)) evs) None new_event_bus) s \<and>
     st_phase s = Finished \<and> real_events (st_yielded s) = emitted demo_rendering ''id'' (\<lambda>n. (str_nat n, 0)) evs \<and>
     \<not> registered (st_bus s) (st_subscription s)"
proof -
  obtain resp w' evs where a: "ask (listening demo_runner) (Some append_event) [] (0, []) = (resp, w', evs)"
    by (metis prod_cases3)
  let ?s0 = "open_stream ''id'' (emitted demo_rendering ''id'' (\<lambda>n. (str_nat n, 0)) evs) None new_event_bus"
  have "st_phase ?s0 = Running" by (simp add: open_stream_def split: prod.split)
  with stream_delivers_run [OF a new_bus_ok, of "''id''" demo_rendering "\<lambda>n. (str_nat n, 0)" None ?s0]
  obtain s where "(stream_step ''id'')\<^sup>*\<^sup>* ?s0 s" "st_phase s = Finished" by auto
  with stream_delivers_run [OF a new_bus_ok, of "''id''" demo_rendering "\<lambda>n. (str_nat n, 0)" None s] a show ?thesis by auto
qed

section \<open>Shared correlation ids\<close>

text \<open>
  The correlation id of a stream comes from a request header, and the bus fans out by it: when
  a second request is streamed under the correlation id of a stream that is still open, every
  event of the second run, its final answer included, is delivered to the first client too.
\<close>
theorem shared_correlation_id_crosstalk:
  assumes "bus_ok b" "registered b h" "sub_correlation_id h = c" "subscribe c b = (h', b')" "\<forall>e\<in>set es. cid e = c"
  shows "eb_queues (fold (publish_event cid) es b') (sub_queue h) = eb_queues b (sub_queue h) @ es \<and>
    eb_queues (fold (publish_event cid) es b') (sub_queue h') = es"
proof -
  have q: "sub_queue h < eb_next b" using assms(1,2) by (auto simp: bus_ok_def registered_def)
  have b': "b' = snd (subscribe c b)" using assms(4) by simp
  have "registered b' h" using assms(2) by (simp add: b' registered_subscribe [OF q])
  from bus.pub_all_pending [OF this, of cid es]
  have "eb_queues (fold (publish_event cid) es b') (sub_queue h) = eb_queues b (sub_queue h) @ es"
    using assms(3,5) q by (simp add: b' eb_queues_steps)
  moreover have "eb_queues (fold (publish_event cid) es b') (sub_queue h') = es"
    using bus.fresh_subscription_pending [OF assms(1,4), of cid es] assms(5) by simp
  ultimately show ?thesis ..
qed

theorem shared_correlation_id_crosstalk_witness:
  "\<exists>h h' b b' e. registered b h \<and> subscribe ''id'' b = (h', b') \<and> terminal e \<and>
     eb_queues (fold (publish_event cid) [e] b') (sub_queue h) = [e]"
proof -
  obtain h and b :: "stream_event event_bus" where s: "subscribe ''id'' new_event_bus = (h, b)" by fastforce
  obtain h' b' where s': "subscribe ''id'' b = (h', b')" by fastforce
  let ?e = "pipeline_failed_event ([], 0) ''id'' [] [] None"
  have "eb_queues b (sub_queue h) = []" using bus.sub_ok [OF new_bus_ok s] by simp
  moreover have "cid ?e = ''id''" "terminal ?e" by (simp_all add: event_defs terminal_def TERMINAL_EVENT_TYPES_def)
  ultimately show ?thesis
    using shared_correlation_id_crosstalk [of b h "''id''" h' b' "[?e]"] new_bus_registered [OF s] s'
    by (metis append_Nil empty_iff empty_set set_ConsD)
qed

end
