(* ===== verification/Query_Library.thy ===== *)
theory Query_Library
  imports Knowledge Json
begin

text \<open>
  Catalogues read from YAML: the query library (\<open>query_library/\<close>) with its loader, registry,
  search and validator, the loader and catalogue of business concepts (\<open>business_knowledge/loader.py\<close>,
  \<open>catalog.py\<close>) and the column dictionary (\<open>metadata/loader.py\<close>, \<open>dictionary.py\<close>). Reading a
  file, parsing YAML and the construction of a pydantic model from an entry are parameters; the
  files are UTF-8 with string keys, and the reason of a load error is kept without the text of its
  cause.
\<close>

section \<open>Reading a catalogue\<close>

datatype catalog_error = LoadError string string | DuplicateError string | NotLoadedError
  | NotFoundError string | PyError py_error

text \<open>What the file system, the YAML parser and the model constructor do; \<open>None\<close> is the exception.\<close>

record 'a source_reader =
  sr_read_text :: "string \<Rightarrow> string option"
  sr_safe_load :: "string \<Rightarrow> json option"
  sr_construct :: "json \<Rightarrow> (py_error option) + 'a"

text \<open>
  \<open>Model(**entry)\<close> raises \<open>TypeError\<close> if the entry is not a mapping and \<open>ValidationError\<close>
  (\<open>Inl None\<close>) if pydantic refuses it; only the latter is translated.
\<close>

definition construct_entry :: "'a source_reader \<Rightarrow> string \<Rightarrow> json \<Rightarrow> catalog_error + 'a" where
  "construct_entry sr path entry =
     (if \<not> is_mapping entry then Inl (PyError TypeError)
      else case sr_construct sr entry of
             Inr x \<Rightarrow> Inr x
           | Inl None \<Rightarrow> Inl (LoadError path ''schema validation failed'')
           | Inl (Some e) \<Rightarrow> Inl (PyError e))"

definition py_result :: "py_error + 'a \<Rightarrow> catalog_error + 'a" where
  "py_result r = (case r of Inl e \<Rightarrow> Inl (PyError e) | Inr x \<Rightarrow> Inr x)"

definition read_yaml :: "'a source_reader \<Rightarrow> string \<Rightarrow> catalog_error + json" where
  "read_yaml sr path =
     (case sr_read_text sr path of
        None \<Rightarrow> Inl (LoadError path ''could not read file'')
      | Some raw \<Rightarrow>
          (case sr_safe_load sr raw of
             None \<Rightarrow> Inl (LoadError path ''invalid YAML'')
           | Some j \<Rightarrow> Inr (if json_truthy j then j else JObj [])))"

text \<open>\<open>load_examples_file\<close> and \<open>load_concepts_file\<close>, which differ in the key.\<close>

definition load_entries_file :: "string \<Rightarrow> 'a source_reader \<Rightarrow> string \<Rightarrow> catalog_error + 'a list" where
  "load_entries_file key sr path =
     rbind (read_yaml sr path) (\<lambda>raw.
     rbind (py_result (json_get raw key JNull)) (\<lambda>entries.
       if entries = JNull then Inl (LoadError path (''missing top-level key '' @ key))
       else rbind (py_result (json_iter entries)) (rmap (construct_entry sr path))))"

definition load_examples_file :: "query_example source_reader \<Rightarrow> string \<Rightarrow> catalog_error + query_example list" where
  "load_examples_file = load_entries_file ''examples''"

definition load_concepts_file :: "business_concept source_reader \<Rightarrow> string \<Rightarrow> catalog_error + business_concept list" where
  "load_concepts_file = load_entries_file ''concepts''"

section \<open>Catalogues (catalog.py of both packages)\<close>

text \<open>The first id that occurred before.\<close>

fun first_duplicate :: "string set \<Rightarrow> string list \<Rightarrow> string option" where
  "first_duplicate seen [] = None"
| "first_duplicate seen (i # is) = (if i \<in> seen then Some i else first_duplicate (insert i seen) is)"

record query_example_library =
  ql_examples :: "query_example list"
  ql_loaded_at :: datetime

definition build_library :: "datetime \<Rightarrow> query_example list \<Rightarrow> catalog_error + query_example_library" where
  "build_library now examples =
     (case first_duplicate {} (map ex_id examples) of
        Some i \<Rightarrow> Inl (DuplicateError i)
      | None \<Rightarrow> Inr \<lparr> ql_examples = examples, ql_loaded_at = now \<rparr>)"

definition load_library :: "datetime \<Rightarrow> query_example source_reader \<Rightarrow> string \<Rightarrow> catalog_error + query_example_library" where
  "load_library now sr path = rbind (load_examples_file sr path) (build_library now)"

definition build_catalog :: "datetime \<Rightarrow> business_concept list \<Rightarrow> catalog_error + business_knowledge_catalog" where
  "build_catalog now concepts =
     (case first_duplicate {} (map bc_id concepts) of
        Some i \<Rightarrow> Inl (DuplicateError i)
      | None \<Rightarrow> Inr \<lparr> bk_concepts = concepts, bk_loaded_at = now \<rparr>)"

definition load_catalog :: "datetime \<Rightarrow> business_concept source_reader \<Rightarrow> string \<Rightarrow> catalog_error + business_knowledge_catalog" where
  "load_catalog now sr path = rbind (load_concepts_file sr path) (build_catalog now)"

section \<open>The registry of examples (registry.py)\<close>

type_synonym query_library_registry = "query_example_library option"

definition library_refresh ::
  "(catalog_error + query_example_library) \<Rightarrow> (query_library_registry, catalog_error, query_example_library) op" where
  "library_refresh source c = (case source of Inl e \<Rightarrow> (Inl e, c) | Inr l \<Rightarrow> (Inr l, value_cache_set c l))"

definition library_load ::
  "(catalog_error + query_example_library) \<Rightarrow> (query_library_registry, catalog_error, query_example_library) op" where
  "library_load source c = (case value_cache_get c of Some l \<Rightarrow> (Inr l, c) | None \<Rightarrow> library_refresh source c)"

definition require_library :: "query_library_registry \<Rightarrow> catalog_error + query_example_library" where
  "require_library c = (case value_cache_get c of None \<Rightarrow> Inl NotLoadedError | Some l \<Rightarrow> Inr l)"

definition get_example :: "query_library_registry \<Rightarrow> string \<Rightarrow> catalog_error + query_example" where
  "get_example c i = rbind (require_library c) (\<lambda>l.
     case next_where (\<lambda>e. ex_id e = i) (ql_examples l) of None \<Rightarrow> Inl (NotFoundError i) | Some e \<Rightarrow> Inr e)"

definition list_examples :: "query_library_registry \<Rightarrow> catalog_error + string list" where
  "list_examples c = rbind (require_library c) (\<lambda>l. Inr (map ex_id (ql_examples l)))"

definition find_examples :: "query_library_registry \<Rightarrow> (query_example \<Rightarrow> bool) \<Rightarrow> catalog_error + query_example list" where
  "find_examples c p = rbind (require_library c) (\<lambda>l. Inr (filter p (ql_examples l)))"

section \<open>Search (search.py)\<close>

definition normalize_text :: "string \<Rightarrow> string" where
  "normalize_text s = join '' '' (split_words (lower (strip s)) [])"

definition by_title :: "query_example list \<Rightarrow> string \<Rightarrow> query_example list" where
  "by_title examples s = filter (\<lambda>e. sublist (normalize_text s) (normalize_text (ex_title e))) examples"

definition by_tag :: "query_example list \<Rightarrow> string \<Rightarrow> query_example list" where
  "by_tag examples tag = filter (\<lambda>e. \<exists>c\<in>set (ex_tags e). normalize_text c = normalize_text tag) examples"

definition by_business_concept :: "query_example list \<Rightarrow> string \<Rightarrow> query_example list" where
  "by_business_concept examples concept =
     filter (\<lambda>e. \<exists>c\<in>set (ex_business_concepts e). normalize_text c = normalize_text concept) examples"

definition by_difficulty :: "query_example list \<Rightarrow> difficulty \<Rightarrow> query_example list" where
  "by_difficulty examples d = filter (\<lambda>e. ex_difficulty e = d) examples"

definition matches_all_keywords :: "query_example \<Rightarrow> string list \<Rightarrow> bool" where
  "matches_all_keywords e keywords =
     (let haystack = join '' '' [normalize_text (ex_title e), normalize_text (ex_natural_language_question e),
        normalize_text (ex_normalized_question e)] in \<forall>k\<in>set keywords. sublist k haystack)"

definition by_keywords :: "query_example list \<Rightarrow> string list \<Rightarrow> query_example list" where
  "by_keywords examples keywords =
     (let ks = map normalize_text (filter (\<lambda>k. strip k \<noteq> []) keywords) in
      if ks = [] then [] else filter (\<lambda>e. matches_all_keywords e ks) examples)"

definition search_by_tags :: "query_library_registry \<Rightarrow> string \<Rightarrow> catalog_error + query_example list" where
  "search_by_tags c tag = rbind (require_library c) (\<lambda>l. Inr (by_tag (ql_examples l) tag))"

definition search_by_difficulty :: "query_library_registry \<Rightarrow> difficulty \<Rightarrow> catalog_error + query_example list" where
  "search_by_difficulty c d = rbind (require_library c) (\<lambda>l. Inr (by_difficulty (ql_examples l) d))"

definition search_by_business_concept :: "query_library_registry \<Rightarrow> string \<Rightarrow> catalog_error + query_example list" where
  "search_by_business_concept c t = rbind (require_library c) (\<lambda>l. Inr (by_business_concept (ql_examples l) t))"

definition search_by_title :: "query_library_registry \<Rightarrow> string \<Rightarrow> catalog_error + query_example list" where
  "search_by_title c t = rbind (require_library c) (\<lambda>l. Inr (by_title (ql_examples l) t))"

definition search_by_keywords :: "query_library_registry \<Rightarrow> string list \<Rightarrow> catalog_error + query_example list" where
  "search_by_keywords c ks = rbind (require_library c) (\<lambda>l. Inr (by_keywords (ql_examples l) ks))"

section \<open>The validator (validator.py)\<close>

datatype library_severity = L_Error | L_Warning

record library_issue =
  li_rule :: string
  li_severity :: library_severity
  li_message :: string
  li_example_id :: "string option"

definition library_error :: "string \<Rightarrow> query_example \<Rightarrow> string \<Rightarrow> library_issue" where
  "library_error rule e message =
     \<lparr> li_rule = rule, li_severity = L_Error, li_message = message, li_example_id = Some (ex_id e) \<rparr>"

fun check_unique_ids :: "string set \<Rightarrow> query_example list \<Rightarrow> library_issue list" where
  "check_unique_ids seen [] = []"
| "check_unique_ids seen (e # es) =
     (if ex_id e \<in> seen
      then [library_error ''unique_ids'' e (''Duplicate example id '' @ py_repr (ex_id e) @ ''.'')] else [])
     @ check_unique_ids (insert (ex_id e) seen) es"

definition required_text_fields :: "(string \<times> (query_example \<Rightarrow> string)) list" where
  "required_text_fields = [(''title'', ex_title), (''natural_language_question'', ex_natural_language_question),
     (''sql_explanation'', ex_sql_explanation), (''expected_result_description'', ex_expected_result_description)]"

definition check_required_fields :: "query_example list \<Rightarrow> library_issue list" where
  "check_required_fields es = concat (map (\<lambda>e. concat (map (\<lambda>(field_name, field).
     if strip (field e) = [] then [library_error ''required_fields'' e (''Field '' @ py_repr field_name @ '' is blank.'')]
     else []) required_text_fields)) es)"

text \<open>The enumerations are closed, so no constructed example is outside of them.\<close>

fun difficulty_value :: "difficulty \<Rightarrow> string" where
  "difficulty_value Beginner = ''beginner''"
| "difficulty_value Intermediate = ''intermediate''"
| "difficulty_value Advanced = ''advanced''"
| "difficulty_value Expert = ''expert''"

definition check_valid_dialect :: "(sql_dialect \<Rightarrow> string) \<Rightarrow> query_example list \<Rightarrow> library_issue list" where
  "check_valid_dialect repr es = concat (map (\<lambda>e. if ex_dialect e \<notin> {PostgreSQL, MySQL, SQLite, ANSI}
     then [library_error ''valid_dialect'' e (repr (ex_dialect e) @ '' is not a recognized SQL dialect.'')] else []) es)"

definition check_valid_difficulty :: "(difficulty \<Rightarrow> string) \<Rightarrow> query_example list \<Rightarrow> library_issue list" where
  "check_valid_difficulty repr es = concat (map (\<lambda>e. if ex_difficulty e \<notin> {Beginner, Intermediate, Advanced, Expert}
     then [library_error ''valid_difficulty'' e (repr (ex_difficulty e) @ '' is not a recognized difficulty.'')] else []) es)"

fun check_duplicate_questions :: "(string, string) dict \<Rightarrow> query_example list \<Rightarrow> library_issue list" where
  "check_duplicate_questions seen [] = []"
| "check_duplicate_questions seen (e # es) =
     (let key = normalize_text (ex_natural_language_question e) in
      case map_of seen key of
        Some i \<Rightarrow> library_error ''duplicate_questions'' e
            (''Same question as '' @ py_repr i @ '': '' @ py_repr (ex_natural_language_question e))
          # check_duplicate_questions seen es
      | None \<Rightarrow> check_duplicate_questions (AList.update key (ex_id e) seen) es)"

definition check_empty_concepts :: "query_example list \<Rightarrow> library_issue list" where
  "check_empty_concepts es = map (\<lambda>e. \<lparr> li_rule = ''empty_concepts'', li_severity = L_Warning,
     li_message = ''No business_concepts declared; this example won'' @ [CHR 0x27] @ ''t surface in concept-based search.'',
     li_example_id = Some (ex_id e) \<rparr>) (filter (\<lambda>e. ex_business_concepts e = []) es)"

definition check_missing_sql :: "query_example list \<Rightarrow> library_issue list" where
  "check_missing_sql es = map (\<lambda>e. library_error ''missing_sql'' e ''gold_sql is blank.'')
     (filter (\<lambda>e. strip (ex_gold_sql e) = []) es)"

text \<open>
  The \<open>repr\<close> of an enumeration member shows its class, name and value; it occurs only in messages
  that no constructed example gives rise to.
\<close>

definition validate_examples :: "(sql_dialect \<Rightarrow> string) \<Rightarrow> (difficulty \<Rightarrow> string) \<Rightarrow> query_example list \<Rightarrow> library_issue list" where
  "validate_examples repr_dialect repr_difficulty es = check_unique_ids {} es @ check_required_fields es
     @ check_valid_dialect repr_dialect es @ check_valid_difficulty repr_difficulty es
     @ check_duplicate_questions [] es @ check_empty_concepts es @ check_missing_sql es"

definition report_is_valid :: "library_issue list \<Rightarrow> bool" where
  "report_is_valid iss = (\<not> (\<exists>i\<in>set iss. li_severity i = L_Error))"

definition report_errors :: "library_issue list \<Rightarrow> library_issue list" where
  "report_errors iss = filter (\<lambda>i. li_severity i = L_Error) iss"

definition report_warnings :: "library_issue list \<Rightarrow> library_issue list" where
  "report_warnings iss = filter (\<lambda>i. li_severity i = L_Warning) iss"

text \<open>Only a \<open>LibraryLoadError\<close> becomes an issue.\<close>

definition validate_file ::
  "(sql_dialect \<Rightarrow> string) \<Rightarrow> (difficulty \<Rightarrow> string) \<Rightarrow> query_example source_reader \<Rightarrow> string \<Rightarrow>
   catalog_error + library_issue list" where
  "validate_file repr_dialect repr_difficulty sr path =
     (case load_examples_file sr path of
        Inl (LoadError src reason) \<Rightarrow> Inr [\<lparr> li_rule = ''broken_yaml'', li_severity = L_Error,
          li_message = ''Failed to load query example library from '' @ py_repr src @ '': '' @ reason,
          li_example_id = None \<rparr>]
      | Inl e \<Rightarrow> Inl e
      | Inr es \<Rightarrow> Inr (validate_examples repr_dialect repr_difficulty es))"

section \<open>The column dictionary (metadata/loader.py, metadata/dictionary.py)\<close>

record table_dictionary_entry =
  tde_table :: string
  tde_description :: string
  tde_synonyms :: "string list"

record column_dictionary_entry =
  cde_table :: string
  cde_column :: string
  cde_description :: string
  cde_example_value :: "string option"
  cde_synonyms :: "string list"
  cde_display_name :: "string option"
  cde_search_keywords :: "string list"
  cde_is_sensitive :: bool

record column_dictionary =
  cd_tables :: "(string, table_dictionary_entry) dict"
  cd_columns :: "(string \<times> string, column_dictionary_entry) dict"

text \<open>\<open>s.partition(sep)\<close> at a one-character separator, without the separator itself.\<close>

definition partition_at :: "char \<Rightarrow> string \<Rightarrow> string \<times> string" where
  "partition_at c s = (takeWhile (\<lambda>x. x \<noteq> c) s, drop 1 (dropWhile (\<lambda>x. x \<noteq> c) s))"

text \<open>The items of \<open>raw.get(key) or {}\<close>.\<close>

definition mapping_items :: "json \<Rightarrow> string \<Rightarrow> catalog_error + (string \<times> json) list" where
  "mapping_items raw key =
     rbind (py_result (json_get raw key JNull)) (\<lambda>v.
       if \<not> json_truthy v then Inr []
       else case v of JObj d \<Rightarrow> Inr d | _ \<Rightarrow> Inl (PyError AttributeError))"

text \<open>A keyword that the call passes itself may not occur in \<open>**entry\<close> again.\<close>

definition has_key :: "json \<Rightarrow> string \<Rightarrow> bool" where
  "has_key j k = (case j of JObj d \<Rightarrow> map_of d k \<noteq> None | _ \<Rightarrow> False)"

text \<open>One column key; a key without a column part is refused.\<close>

definition load_column_entry ::
  "(string \<Rightarrow> string \<Rightarrow> json \<Rightarrow> (py_error option) + column_dictionary_entry) \<Rightarrow> string \<Rightarrow> string \<times> json \<Rightarrow>
   catalog_error + (string \<times> string) \<times> column_dictionary_entry" where
  "load_column_entry build path = (\<lambda>(qualified_name, entry).
     let (table_name, column_name) = partition_at CHR ''.'' qualified_name in
     if column_name = [] then Inl (LoadError path ''column key is not in table.column form'')
     else if \<not> is_mapping entry \<or> has_key entry ''table'' \<or> has_key entry ''column'' then Inl (PyError TypeError)
     else case build table_name column_name entry of
            Inr x \<Rightarrow> Inr ((table_name, column_name), x)
          | Inl None \<Rightarrow> Inl (LoadError path ''schema validation failed'')
          | Inl (Some e) \<Rightarrow> Inl (PyError e))"

definition load_table_entry ::
  "(string \<Rightarrow> json \<Rightarrow> (py_error option) + table_dictionary_entry) \<Rightarrow> string \<Rightarrow> string \<times> json \<Rightarrow>
   catalog_error + string \<times> table_dictionary_entry" where
  "load_table_entry build path = (\<lambda>(table_name, entry).
     if \<not> is_mapping entry \<or> has_key entry ''table'' then Inl (PyError TypeError)
     else case build table_name entry of
            Inr x \<Rightarrow> Inr (table_name, x)
          | Inl None \<Rightarrow> Inl (LoadError path ''schema validation failed'')
          | Inl (Some e) \<Rightarrow> Inl (PyError e))"

text \<open>A later entry for a key replaces an earlier one.\<close>

definition load_dictionary_file ::
  "'a source_reader \<Rightarrow> (string \<Rightarrow> json \<Rightarrow> (py_error option) + table_dictionary_entry) \<Rightarrow>
   (string \<Rightarrow> string \<Rightarrow> json \<Rightarrow> (py_error option) + column_dictionary_entry) \<Rightarrow> string \<Rightarrow> catalog_error + column_dictionary" where
  "load_dictionary_file sr mk_table mk_column path =
     rbind (read_yaml sr path) (\<lambda>raw.
     rbind (mapping_items raw ''tables'') (\<lambda>ts.
     rbind (rmap (load_table_entry mk_table path) ts) (\<lambda>tables.
     rbind (mapping_items raw ''columns'') (\<lambda>cs.
     rbind (rmap (load_column_entry mk_column path) cs) (\<lambda>columns.
       Inr \<lparr> cd_tables = fold (\<lambda>(k, v). AList.update k v) tables [],
             cd_columns = fold (\<lambda>(k, v). AList.update k v) columns [] \<rparr>)))))"

definition get_table_entry :: "column_dictionary \<Rightarrow> string \<Rightarrow> table_dictionary_entry option" where
  "get_table_entry d table_name = map_of (cd_tables d) table_name"

definition get_column_entry :: "column_dictionary \<Rightarrow> string \<Rightarrow> string \<Rightarrow> column_dictionary_entry option" where
  "get_column_entry d table_name column_name = map_of (cd_columns d) (table_name, column_name)"

definition enrich_column :: "column_dictionary \<Rightarrow> string \<Rightarrow> column_metadata \<Rightarrow> column_metadata" where
  "enrich_column d table_name col =
     (case get_column_entry d table_name (col_name col) of
        None \<Rightarrow> col
      | Some e \<Rightarrow> col \<lparr> col_description := Some (cde_description e), col_synonyms := cde_synonyms e,
          col_example_value := cde_example_value e, col_display_name := cde_display_name e,
          col_search_keywords := cde_search_keywords e, col_is_sensitive := cde_is_sensitive e \<rparr>)"

definition enrich_table :: "column_dictionary \<Rightarrow> table_metadata \<Rightarrow> table_metadata" where
  "enrich_table d t =
     (let t' = t \<lparr> tbl_columns := map (enrich_column d (tbl_name t)) (tbl_columns t) \<rparr> in
      case get_table_entry d (tbl_name t) of
        None \<Rightarrow> t'
      | Some e \<Rightarrow> t' \<lparr> tbl_description := Some (tde_description e), tbl_synonyms := tde_synonyms e \<rparr>)"

definition enrich :: "column_dictionary \<Rightarrow> database_metadata \<Rightarrow> database_metadata" where
  "enrich d db = db \<lparr> db_tables := map (enrich_table d) (db_tables db) \<rparr>"

section \<open>Laws\<close>

lemma first_duplicate_None: "first_duplicate seen is = None \<longleftrightarrow> distinct is \<and> set is \<inter> seen = {}"
  by (induction seen "is" rule: first_duplicate.induct) auto

lemma check_unique_ids_Nil: "check_unique_ids seen es = [] \<longleftrightarrow> distinct (map ex_id es) \<and> ex_id ` set es \<inter> seen = {}"
  by (induction seen es rule: check_unique_ids.induct) auto

lemma load_library_Inr:
  assumes "load_library now sr path = Inr l"
  shows "load_examples_file sr path = Inr (ql_examples l) \<and> distinct (map ex_id (ql_examples l))"
  using assms
  by (auto simp: load_library_def build_library_def result_simps first_duplicate_None split: option.splits)

lemma enrich_keeps_structure:
  "map tbl_name (db_tables (enrich d db)) = map tbl_name (db_tables db)"
  "map (\<lambda>t. map col_name (tbl_columns t)) (db_tables (enrich d db)) = map (\<lambda>t. map col_name (tbl_columns t)) (db_tables db)"
  "db_relationships (enrich d db) = db_relationships db"
  by (auto simp: enrich_def enrich_table_def enrich_column_def Let_def split: option.split)

text \<open>Enriching twice is enriching once.\<close>

lemma enrich_idem: "enrich d (enrich d db) = enrich d db"
proof -
  have c: "enrich_column d n (enrich_column d n c) = enrich_column d n c" for n c
    by (simp add: enrich_column_def split: option.split)
  have "enrich_table d (enrich_table d t) = enrich_table d t" for t
    by (simp add: enrich_table_def Let_def c comp_def split: option.split)
  then show ?thesis by (simp add: enrich_def comp_def)
qed

text \<open>
  What a valid report means: ids and normalised questions are each distinct and no required text
  is blank; a missing business concept is only a warning.
\<close>

lemma check_duplicate_questions_Nil:
  "check_duplicate_questions seen es = [] \<longleftrightarrow>
     distinct (map (normalize_text \<circ> ex_natural_language_question) es)
     \<and> (normalize_text \<circ> ex_natural_language_question) ` set es \<inter> dom (map_of seen) = {}"
proof (induction seen es rule: check_duplicate_questions.induct)
  case (1 seen)
  then show ?case by simp
next
  case (2 seen e es)
  define key :: "query_example \<Rightarrow> string" where "key = normalize_text \<circ> ex_natural_language_question"
  note ih = 2 [folded key_def comp_apply [of normalize_text ex_natural_language_question], OF refl]
  show ?case
  proof (cases "map_of seen (key e)")
    case None
    then have "check_duplicate_questions seen (e # es) = check_duplicate_questions (AList.update (key e) (ex_id e) seen) es"
      by (simp add: Let_def key_def)
    also have "\<dots> = [] \<longleftrightarrow> distinct (map key es) \<and> key ` set es \<inter> insert (key e) (dom (map_of seen)) = {}"
      using ih(1) [OF None] by (simp only: update_conv' dom_fun_upd) simp
    also have "\<dots> \<longleftrightarrow> distinct (map key (e # es)) \<and> key ` set (e # es) \<inter> dom (map_of seen) = {}"
      using None by (simp add: domIff) blast
    finally show ?thesis by (simp only: key_def)
  next
    case (Some i)
    then have "key e \<in> key ` set (e # es) \<inter> dom (map_of seen)" by (simp add: domIff)
    with Some show ?thesis by (auto simp: Let_def key_def)
  qed
qed

lemma errors_of_checks:
  "i \<in> set (check_unique_ids seen es) \<Longrightarrow> li_severity i = L_Error"
  "i \<in> set (check_duplicate_questions d es) \<Longrightarrow> li_severity i = L_Error"
proof -
  show "i \<in> set (check_unique_ids seen es) \<Longrightarrow> li_severity i = L_Error"
    by (induction seen es rule: check_unique_ids.induct) (auto simp: library_error_def split: if_splits)
  show "i \<in> set (check_duplicate_questions d es) \<Longrightarrow> li_severity i = L_Error"
    by (induction d es rule: check_duplicate_questions.induct)
      (auto simp: library_error_def Let_def split: option.splits)
qed

lemma no_errors_iff:
  assumes "\<And>i. i \<in> set iss \<Longrightarrow> li_severity i = L_Error"
  shows "report_is_valid iss \<longleftrightarrow> iss = []"
  using assms by (cases iss) (auto simp: report_is_valid_def)

lemma report_is_valid_append [simp]: "report_is_valid (a @ b) \<longleftrightarrow> report_is_valid a \<and> report_is_valid b"
  by (auto simp: report_is_valid_def)

lemma closed_enumerations [simp]: "check_valid_dialect r es = []" "check_valid_difficulty q es = []"
proof -
  have "d \<in> {PostgreSQL, MySQL, SQLite, ANSI}" for d by (cases d) auto
  then show "check_valid_dialect r es = []" by (simp add: check_valid_dialect_def del: insert_iff)
  have "d \<in> {Beginner, Intermediate, Advanced, Expert}" for d by (cases d) auto
  then show "check_valid_difficulty q es = []" by (simp add: check_valid_difficulty_def del: insert_iff)
qed

lemma required_fields_valid:
  "report_is_valid (check_required_fields es) \<longleftrightarrow> (\<forall>e\<in>set es. strip (ex_title e) \<noteq> []
     \<and> strip (ex_natural_language_question e) \<noteq> [] \<and> strip (ex_sql_explanation e) \<noteq> []
     \<and> strip (ex_expected_result_description e) \<noteq> [])"
  by (auto simp: report_is_valid_def check_required_fields_def required_text_fields_def library_error_def)

text \<open>
  The library validator accepts exactly the libraries whose ids and normalised questions are
  pairwise distinct and in which no example has a blank title, question, explanation, result
  description or SQL; examples without business concepts only give warnings.
\<close>

theorem library_validation_exact:
  "report_is_valid (validate_examples rd rq es) \<longleftrightarrow>
     distinct (map ex_id es) \<and> distinct (map (normalize_text \<circ> ex_natural_language_question) es)
     \<and> list_all (\<lambda>e. list_all (\<lambda>s. strip s \<noteq> []) [ex_title e, ex_natural_language_question e,
          ex_sql_explanation e, ex_expected_result_description e, ex_gold_sql e]) es"
proof -
  have ids: "report_is_valid (check_unique_ids {} es) \<longleftrightarrow> distinct (map ex_id es)"
    using no_errors_iff [OF errors_of_checks(1)] by (simp add: check_unique_ids_Nil)
  have qs: "report_is_valid (check_duplicate_questions [] es)
      \<longleftrightarrow> distinct (map (normalize_text \<circ> ex_natural_language_question) es)"
    using no_errors_iff [OF errors_of_checks(2)] by (simp add: check_duplicate_questions_Nil)
  have sql: "report_is_valid (check_missing_sql es) \<longleftrightarrow> (\<forall>e\<in>set es. strip (ex_gold_sql e) \<noteq> [])"
    by (auto simp: report_is_valid_def check_missing_sql_def library_error_def)
  have "report_is_valid (check_empty_concepts es)"
    by (auto simp: report_is_valid_def check_empty_concepts_def)
  then show ?thesis
    by (auto simp: validate_examples_def ids qs sql required_fields_valid list_all_iff report_is_valid_def [of "[]"])
qed

end
