(* ===== verification/Regex.thy ===== *)
theory Regex
  imports Prelude
begin

text \<open>
  The part of Python's \<open>re\<close> that the sources use: classes, sequence, ordered choice, greedy and
  lazy repetition, numbered groups, \<open>\<backslash>b\<close>, \<open>$\<close> and a negative look-behind of a fixed text. A
  pattern is run by backtracking: the matches at a position are listed in the order in which the
  engine of Python tries them, so the first is the one it returns.
\<close>

datatype rx = RClass "char \<Rightarrow> bool" | REps | RSeq rx rx | RAlt rx rx | RStar rx | RGroup nat rx
  | RBoundary | RNotBehind string | REnd

type_synonym captures = "nat \<rightharpoonup> nat \<times> nat"

section \<open>Derived patterns\<close>

definition rlit :: "string \<Rightarrow> rx" where
  "rlit s = foldr (\<lambda>c. RSeq (RClass (\<lambda>d. d = c))) s REps"

text \<open>A lower-case literal under \<open>re.IGNORECASE\<close>.\<close>

definition rlit_ci :: "string \<Rightarrow> rx" where
  "rlit_ci s = foldr (\<lambda>c. RSeq (RClass (\<lambda>d. lower_char d = c))) s REps"

definition rseq :: "rx list \<Rightarrow> rx" where
  "rseq rs = foldr RSeq rs REps"

fun ralt :: "rx list \<Rightarrow> rx" where
  "ralt [] = RClass (\<lambda>_. False)"
| "ralt [r] = r"
| "ralt (r # rs) = RAlt r (ralt rs)"

definition ropt :: "rx \<Rightarrow> rx" where
  "ropt r = RAlt r REps"

definition rplus :: "rx \<Rightarrow> rx" where
  "rplus r = RSeq r (RStar r)"

text \<open>\<open>r{0,n}\<close>, \<open>r{0,n}?\<close> and \<open>r{n}\<close>.\<close>

fun rupto :: "nat \<Rightarrow> rx \<Rightarrow> rx" where
  "rupto 0 r = REps"
| "rupto (Suc n) r = RAlt (RSeq r (rupto n r)) REps"

fun rupto_lazy :: "nat \<Rightarrow> rx \<Rightarrow> rx" where
  "rupto_lazy 0 r = REps"
| "rupto_lazy (Suc n) r = RAlt REps (RSeq r (rupto_lazy n r))"

definition rtimes :: "nat \<Rightarrow> rx \<Rightarrow> rx" where
  "rtimes n r = rseq (replicate n r)"

abbreviation rspaces :: rx where
  "rspaces \<equiv> rplus (RClass is_space)"

abbreviation rdigit :: rx where
  "rdigit \<equiv> RClass is_digit"

definition is_az :: "char \<Rightarrow> bool" where
  "is_az c = (let n = of_char c :: nat in 97 \<le> n \<and> n \<le> 122)"

text \<open>\<open>rf'\<backslash>b{re.escape(phrase)}\<backslash>b'\<close>.\<close>

definition rword :: "string \<Rightarrow> rx" where
  "rword phrase = RSeq RBoundary (RSeq (rlit phrase) RBoundary)"

section \<open>Running a pattern\<close>

definition word_at :: "string \<Rightarrow> nat \<Rightarrow> bool" where
  "word_at s p = (p < length s \<and> is_word (s ! p))"

definition at_boundary :: "string \<Rightarrow> nat \<Rightarrow> bool" where
  "at_boundary s p = ((0 < p \<and> word_at s (p - 1)) \<noteq> word_at s p)"

text \<open>
  Greedy iteration: every further round must consume a character, so as many rounds as there are
  characters left are enough.
\<close>

fun iterate_greedy :: "(nat \<times> captures \<Rightarrow> (nat \<times> captures) list) \<Rightarrow> nat \<Rightarrow> nat \<times> captures \<Rightarrow> (nat \<times> captures) list" where
  "iterate_greedy f 0 st = [st]"
| "iterate_greedy f (Suc n) st =
     concat (map (\<lambda>st'. if fst st < fst st' then iterate_greedy f n st' else []) (f st)) @ [st]"

primrec run_rx :: "rx \<Rightarrow> string \<Rightarrow> nat \<times> captures \<Rightarrow> (nat \<times> captures) list" where
  "run_rx (RClass P) s st = (if fst st < length s \<and> P (s ! fst st) then [(Suc (fst st), snd st)] else [])"
| "run_rx REps s st = [st]"
| "run_rx (RSeq r1 r2) s st = concat (map (run_rx r2 s) (run_rx r1 s st))"
| "run_rx (RAlt r1 r2) s st = run_rx r1 s st @ run_rx r2 s st"
| "run_rx (RStar r) s st = iterate_greedy (run_rx r s) (length s - fst st) st"
| "run_rx (RGroup g r) s st = map (\<lambda>(p, c). (p, c(g \<mapsto> (fst st, p)))) (run_rx r s st)"
| "run_rx RBoundary s st = (if at_boundary s (fst st) then [st] else [])"
| "run_rx (RNotBehind t) s st =
     (if length t \<le> fst st \<and> take (length t) (drop (fst st - length t) s) = t then [] else [st])"
| "run_rx REnd s st =
     (if fst st = length s \<or> Suc (fst st) = length s \<and> s ! fst st = CHR 0x0A then [st] else [])"

record rx_match =
  m_start :: nat
  m_end :: nat
  m_groups :: captures

text \<open>The match that starts at a given position, and the leftmost match from a position on.\<close>

definition match_at :: "rx \<Rightarrow> string \<Rightarrow> nat \<Rightarrow> rx_match option" where
  "match_at r s p = (case run_rx r s (p, Map.empty) of
     [] \<Rightarrow> None | (e, c) # _ \<Rightarrow> Some \<lparr> m_start = p, m_end = e, m_groups = c \<rparr>)"

definition search_from :: "rx \<Rightarrow> string \<Rightarrow> nat \<Rightarrow> rx_match option" where
  "search_from r s i = (case List.find (\<lambda>p. match_at r s p \<noteq> None) [i..<Suc (length s)] of
     None \<Rightarrow> None | Some p \<Rightarrow> match_at r s p)"

definition search :: "rx \<Rightarrow> string \<Rightarrow> rx_match option" where
  "search r s = search_from r s 0"

text \<open>\<open>re.finditer\<close>, for patterns that do not match the empty text.\<close>

function finditer_from :: "rx \<Rightarrow> string \<Rightarrow> nat \<Rightarrow> rx_match list" where
  "finditer_from r s i = (if length s < i then [] else
     case search_from r s i of None \<Rightarrow> [] | Some m \<Rightarrow> m # finditer_from r s (max (m_end m) (Suc i)))"
  by pat_completeness auto
termination
  by (relation "measure (\<lambda>(r, s, i). Suc (length s) - i)") auto

declare finditer_from.simps [simp del]

definition finditer :: "rx \<Rightarrow> string \<Rightarrow> rx_match list" where
  "finditer r s = finditer_from r s 0"

text \<open>\<open>s[a:b]\<close>, the text of a match and of a group.\<close>

definition slice :: "string \<Rightarrow> nat \<Rightarrow> nat \<Rightarrow> string" where
  "slice s a b = take (b - a) (drop a s)"

definition group0 :: "string \<Rightarrow> rx_match \<Rightarrow> string" where
  "group0 s m = slice s (m_start m) (m_end m)"

definition group_text :: "string \<Rightarrow> rx_match \<Rightarrow> nat \<Rightarrow> string option" where
  "group_text s m g = map_option (\<lambda>(a, b). slice s a b) (m_groups m g)"

text \<open>\<open>re.sub\<close> with a literal replacement.\<close>

fun splice :: "string \<Rightarrow> string \<Rightarrow> nat \<Rightarrow> rx_match list \<Rightarrow> string" where
  "splice repl s i [] = drop i s"
| "splice repl s i (m # ms) = slice s i (m_start m) @ repl @ splice repl s (m_end m) ms"

definition rx_sub :: "rx \<Rightarrow> string \<Rightarrow> string \<Rightarrow> string" where
  "rx_sub r repl s = splice repl s 0 (finditer r s)"

section \<open>Where matches lie\<close>

lemma iterate_greedy_bounds:
  assumes f: "\<And>st st'. st' \<in> set (f st) \<Longrightarrow> fst st \<le> l \<Longrightarrow> fst st \<le> fst st' \<and> fst st' \<le> l"
  shows "st' \<in> set (iterate_greedy f n st) \<Longrightarrow> fst st \<le> l \<Longrightarrow> fst st \<le> fst st' \<and> fst st' \<le> l"
proof (induction n arbitrary: st)
  case 0
  then show ?case by simp
next
  case (Suc n)
  from Suc.prems(1) consider "st' = st"
    | st1 where "st1 \<in> set (f st)" "st' \<in> set (iterate_greedy f n st1)"
    by (auto split: if_splits)
  then show ?case
  proof cases
    case 1
    then show ?thesis using Suc.prems(2) by simp
  next
    case 2
    with f [OF this(1) Suc.prems(2)] Suc.IH [OF this(2)] show ?thesis by simp
  qed
qed

lemma run_rx_bounds:
  "st' \<in> set (run_rx r s st) \<Longrightarrow> fst st \<le> length s \<Longrightarrow> fst st \<le> fst st' \<and> fst st' \<le> length s"
proof (induction r arbitrary: st st')
  case (RSeq r1 r2)
  from RSeq.prems(1) obtain st1 where 1: "st1 \<in> set (run_rx r1 s st)" "st' \<in> set (run_rx r2 s st1)" by auto
  from RSeq.IH(1) [OF 1(1) RSeq.prems(2)] RSeq.IH(2) [OF 1(2)] show ?case by simp
next
  case (RStar r)
  from RStar.prems(1) have "st' \<in> set (iterate_greedy (run_rx r s) (length s - fst st) st)" by simp
  from iterate_greedy_bounds [OF RStar.IH this RStar.prems(2)] show ?case .
next
  case (RAlt r1 r2)
  then show ?case by (simp only: run_rx.simps set_append Un_iff) blast
next
  case (RGroup g r)
  from RGroup.prems(1) obtain p c where "(p, c) \<in> set (run_rx r s st)" "fst st' = p" by auto
  with RGroup.IH [of "(p, c)" st] RGroup.prems(2) show ?case by simp
qed (auto split: if_splits)

lemma match_at_bounds:
  "match_at r s p = Some m \<Longrightarrow> p \<le> length s \<Longrightarrow> m_start m = p \<and> p \<le> m_end m \<and> m_end m \<le> length s"
  using run_rx_bounds [of _ r s "(p, Map.empty)"] by (fastforce simp: match_at_def split: list.splits)

lemma search_from_Some:
  assumes "search_from r s i = Some m"
  shows "i \<le> m_start m \<and> m_start m \<le> m_end m \<and> m_end m \<le> length s \<and> match_at r s (m_start m) = Some m"
proof -
  from assms obtain p where "List.find (\<lambda>p. match_at r s p \<noteq> None) [i..<Suc (length s)] = Some p"
    and m: "match_at r s p = Some m"
    by (auto simp: search_from_def split: option.splits)
  then have "i \<le> p" "p \<le> length s" by (auto simp: find_Some_iff nth_append split: if_splits)
  with match_at_bounds [OF m] m show ?thesis by auto
qed

text \<open>The matches of \<open>finditer\<close> follow each other without overlap.\<close>

lemma finditer_from_bounds:
  "m \<in> set (finditer_from r s i) \<Longrightarrow>
   i \<le> m_start m \<and> m_start m \<le> m_end m \<and> m_end m \<le> length s \<and> match_at r s (m_start m) = Some m"
proof (induction r s i rule: finditer_from.induct)
  case (1 r s i)
  from 1(2) obtain k where k: "\<not> length s < i" "search_from r s i = Some k"
      "m = k \<or> m \<in> set (finditer_from r s (max (m_end k) (Suc i)))"
    by (cases "search_from r s i") (auto simp: finditer_from.simps [of r s i] split: if_splits)
  from k(3) show ?case
  proof
    assume "m = k"
    with search_from_Some [OF k(2)] show ?thesis by simp
  next
    assume "m \<in> set (finditer_from r s (max (m_end k) (Suc i)))"
    from 1(1) [OF k(1,2) this] show ?thesis by simp
  qed
qed

text \<open>The runs of a sequence.\<close>

lemma run_seq: "st' \<in> set (run_rx (RSeq a b) s st) \<longleftrightarrow>
    (\<exists>p1 c1. (p1, c1) \<in> set (run_rx a s st) \<and> st' \<in> set (run_rx b s (p1, c1)))"
  by force

lemma run_boundary_seq: "st' \<in> set (run_rx (RSeq RBoundary r) s (p, c)) \<longleftrightarrow> at_boundary s p \<and> st' \<in> set (run_rx r s (p, c))"
  by simp

text \<open>A text occurs at a position.\<close>

definition occurs :: "string \<Rightarrow> nat \<Rightarrow> string \<Rightarrow> bool" where
  "occurs s p t \<longleftrightarrow> take (length t) (drop p s) = t"

lemma occurs_Nil [simp]: "occurs s p []"
  by (simp add: occurs_def)

lemma occurs_Cons: "occurs s p (x # t) \<longleftrightarrow> p < length s \<and> s ! p = x \<and> occurs s (Suc p) t"
  unfolding occurs_def by (cases "p < length s") (auto simp: Cons_nth_drop_Suc [symmetric])

lemma occurs_append: "occurs s p (t @ u) \<longleftrightarrow> occurs s p t \<and> occurs s (p + length t) u"
  by (induction t arbitrary: p) (simp_all add: occurs_Cons)

lemma occurs_length: "occurs s p t \<Longrightarrow> t \<noteq> [] \<Longrightarrow> p + length t \<le> length s"
proof (induction t arbitrary: p)
  case (Cons x t)
  then have "p < length s" "occurs s (Suc p) t" by (auto simp: occurs_Cons)
  with Cons.IH [of "Suc p"] show ?case by (cases "t = []") auto
qed simp

lemma occurs_nth: "occurs s p t \<Longrightarrow> i < length t \<Longrightarrow> s ! (p + i) = t ! i"
proof (induction t arbitrary: p i)
  case (Cons x t)
  from Cons.prems Cons.IH [of "Suc p" "i - 1"] show ?case by (cases i) (auto simp: occurs_Cons)
qed simp

text \<open>A run of a literal between word boundaries is an occurrence of the literal.\<close>

lemma run_rlit_occurs: "run_rx (rlit t) s (p, c) = (if occurs s p t then [(p + length t, c)] else [])"
  by (induction t arbitrary: p) (auto simp: rlit_def occurs_Cons)

lemmas run_rlit = run_rlit_occurs [unfolded occurs_def]

text \<open>The runs of a repeated class: the texts of that class that occur.\<close>

lemma iterate_class:
  "(p', c') \<in> set (iterate_greedy (run_rx (RClass P) s) n (p, c)) \<longleftrightarrow>
     c' = c \<and> (\<exists>t. list_all P t \<and> length t \<le> n \<and> occurs s p t \<and> p' = p + length t)"
proof (induction n arbitrary: p)
  case 0
  then show ?case by auto
next
  case (Suc n)
  have "(\<exists>t. list_all P t \<and> length t \<le> Suc n \<and> occurs s p t \<and> p' = p + length t) \<longleftrightarrow>
      p' = p \<or> (p < length s \<and> P (s ! p) \<and> (\<exists>t. list_all P t \<and> length t \<le> n \<and> occurs s (Suc p) t \<and> p' = Suc p + length t))"
    (is "?l \<longleftrightarrow> ?r")
  proof
    assume ?l
    then obtain t where t: "list_all P t" "length t \<le> Suc n" "occurs s p t" "p' = p + length t" by blast
    then show ?r using occurs_Cons [of s p "hd t" "tl t"] by (cases t) auto
  next
    assume ?r
    then show ?l
    proof
      assume "p' = p"
      then show ?l by (intro exI [of _ "[]"]) simp
    next
      assume "p < length s \<and> P (s ! p) \<and> (\<exists>t. list_all P t \<and> length t \<le> n \<and> occurs s (Suc p) t \<and> p' = Suc p + length t)"
      then obtain t where "p < length s" "P (s ! p)" "list_all P t" "length t \<le> n" "occurs s (Suc p) t" "p' = Suc p + length t"
        by blast
      then show ?l using occurs_Cons [of s p "s ! p" t] by (intro exI [of _ "s ! p # t"]) simp
    qed
  qed
  then show ?case using Suc [of "Suc p"] by auto
qed

lemma run_plus_class:
  "(p', c') \<in> set (run_rx (rplus (RClass P)) s (p, c)) \<longleftrightarrow>
     c' = c \<and> (\<exists>t. t \<noteq> [] \<and> list_all P t \<and> occurs s p t \<and> p' = p + length t)"
proof -
  have "(p', c') \<in> set (run_rx (rplus (RClass P)) s (p, c)) \<longleftrightarrow> p < length s \<and> P (s ! p) \<and> c' = c \<and>
      (\<exists>t. list_all P t \<and> length t \<le> length s - Suc p \<and> occurs s (Suc p) t \<and> p' = Suc p + length t)"
    using iterate_class [of p' c' P s "length s - Suc p" "Suc p" c] by (auto simp: rplus_def)
  also have "\<dots> \<longleftrightarrow> c' = c \<and> (\<exists>t. t \<noteq> [] \<and> list_all P t \<and> occurs s p t \<and> p' = p + length t)" (is "?l \<longleftrightarrow> ?r")
  proof
    assume ?l
    then obtain t where "p < length s" "P (s ! p)" "c' = c" "list_all P t" "occurs s (Suc p) t" "p' = Suc p + length t"
      by blast
    then show ?r using occurs_Cons [of s p "s ! p" t] by (intro conjI exI [of _ "s ! p # t"]) simp_all
  next
    assume ?r
    then obtain u where u: "c' = c" "u \<noteq> []" "list_all P u" "occurs s p u" "p' = p + length u" by blast
    then obtain x t where t: "c' = c" "P x" "list_all P t" "occurs s p (x # t)" "p' = p + length (x # t)" by (cases u) auto
    then have "occurs s (Suc p) t" "p < length s" "s ! p = x" using occurs_Cons [of s p x t] by auto
    moreover have "length t \<le> length s - Suc p" using occurs_length [OF t(4)] by simp
    ultimately show ?l using t by auto
  qed
  finally show ?thesis .
qed

text \<open>The leftmost match.\<close>

lemma match_at_Some_set:
  "match_at r s p = Some m \<Longrightarrow> m_start m = p \<and> (m_end m, m_groups m) \<in> set (run_rx r s (p, Map.empty))"
  by (auto simp: match_at_def split: list.splits)

lemma match_at_None: "match_at r s p = None \<longleftrightarrow> run_rx r s (p, Map.empty) = []"
  by (simp add: match_at_def split: list.split)

lemma search_None: "search r s = None \<longleftrightarrow> (\<forall>p\<le>length s. match_at r s p = None)"
proof (cases "List.find (\<lambda>p. match_at r s p \<noteq> None) [0..<Suc (length s)]")
  case None
  then have "\<forall>p\<le>length s. match_at r s p = None" by (auto simp: find_None_iff less_Suc_eq_le simp del: upt_Suc)
  with None show ?thesis by (simp add: search_def search_from_def del: upt_Suc not_None_eq)
next
  case (Some p)
  then have "match_at r s p \<noteq> None" "p \<le> length s"
    by (auto simp: find_Some_iff less_Suc_eq_le simp del: upt_Suc)
  with Some show ?thesis by (auto simp: search_def search_from_def simp del: upt_Suc)
qed

lemma search_Some:
  assumes "search r s = Some m"
  shows "match_at r s (m_start m) = Some m \<and> (\<forall>p<m_start m. match_at r s p = None)"
proof -
  from assms obtain p where p: "List.find (\<lambda>p. match_at r s p \<noteq> None) [0..<Suc (length s)] = Some p" "match_at r s p = Some m"
    by (auto simp: search_def search_from_def split: option.splits)
  have "m_start m = p" using match_at_Some_set [OF p(2)] by simp
  moreover have "match_at r s i = None" if i: "i < p" for i
  proof -
    from p(1) obtain j where j: "j < length [0..<Suc (length s)]" "[0..<Suc (length s)] ! j = p"
        "\<forall>k<j. \<not> (match_at r s ([0..<Suc (length s)] ! k) \<noteq> None)"
      by (auto simp: find_Some_iff simp del: upt_Suc)
    then have "j = p" by (simp del: upt_Suc)
    with j i show ?thesis by (simp del: upt_Suc)
  qed
  ultimately show ?thesis using p(2) by simp
qed

lemma match_rword:
  assumes "match_at (rword t) s p = Some m"
  shows "m = \<lparr> m_start = p, m_end = p + length t, m_groups = Map.empty \<rparr> \<and> slice s p (p + length t) = t
    \<and> at_boundary s p \<and> at_boundary s (p + length t)"
  using assms by (auto simp: match_at_def rword_def run_rlit slice_def split: if_splits)

lemma slice_length: "a \<le> b \<Longrightarrow> b \<le> length s \<Longrightarrow> length (slice s a b) = b - a"
  by (simp add: slice_def)

end
