(* ===== verification/Retrieval.thy ===== *)
theory Retrieval
  imports Query_Library Cache Regex "HOL-Library.Product_Lexorder"
begin

text \<open>
  Retrieval of gold examples for a linked question (\<open>retrieval/\<close>): the matcher with its cache of
  example features, the eight signals, the scorer, the ranker, explanations, statistics and the
  engine. The formatting \<open>{x:.2f}\<close> of a float is a parameter; \<open>Field\<close> bounds of the pydantic
  models are checked where the objects are built and raise \<open>ValidationError\<close>.
\<close>

datatype retrieval_error = InvalidTopKError int | R_Library catalog_error | R_Knowledge registry_error
  | R_ValidationError

section \<open>Features and their cache (matcher.py, cache.py)\<close>

definition STOPWORDS :: "string list" where
  "STOPWORDS = [''a'', ''an'', ''the'', ''is'', ''are'', ''was'', ''were'', ''be'', ''been'', ''of'', ''in'', ''on'',
     ''by'', ''to'', ''for'', ''and'', ''or'', ''with'', ''we'', ''our'', ''us'', ''do'', ''does'', ''did'', ''what'',
     ''how'', ''many'', ''much'', ''show'', ''me'', ''list'', ''get'', ''find'', ''which'', ''who'', ''that'', ''this'',
     ''these'', ''those'', ''at'', ''from'', ''as'', ''all'']"

definition is_az09 :: "char \<Rightarrow> bool" where
  "is_az09 c = (is_az c \<or> is_digit c)"

definition tokenize :: "string \<Rightarrow> string set" where
  "tokenize s = (let t = lower s; words = map (group0 t) (finditer (rplus (RClass is_az09)) t)
     in set (filter (\<lambda>w. w \<notin> set STOPWORDS \<and> 1 < length w) words))"

definition jaccard :: "string set \<Rightarrow> string set \<Rightarrow> real" where
  "jaccard left right = (let union = left \<union> right in
     if union = {} then 0 else real (card (left \<inter> right)) / real (card union))"

record feature_sets =
  xf_concept_set :: "string set"
  xf_schema_object_set :: "string set"
  xf_table_set :: "string set"
  xf_column_set :: "string set"
  xf_keyword_set :: "string set"

text \<open>
  A matcher has an optional registry of business knowledge and an optional cache; the cache is the
  state of its operations, \<open>None\<close> for a matcher without one.
\<close>

type_synonym feature_cache = "(string \<rightharpoonup> feature_sets) option"

definition registry_resolve :: "knowledge_registry \<Rightarrow> string \<Rightarrow> registry_error + business_concept option" where
  "registry_resolve kr term = rbind (require_knowledge kr) (\<lambda>k. Inr (resolve_term (bk_concepts k) term))"

definition canonicalize :: "knowledge_registry option \<Rightarrow> string list \<Rightarrow> retrieval_error + string set" where
  "canonicalize kb terms =
     (case kb of
        None \<Rightarrow> Inr (set (map (\<lambda>t. lower (strip t)) terms))
      | Some kr \<Rightarrow>
          (case rmap (registry_resolve kr) terms of
             Inl e \<Rightarrow> Inl (R_Knowledge e)
           | Inr resolved \<Rightarrow> Inr (set (map2 (\<lambda>t r. case r of Some c \<Rightarrow> bc_id c | None \<Rightarrow> lower (strip t)) terms resolved))))"

definition context_business_concepts :: "knowledge_registry option \<Rightarrow> linked_query_context \<Rightarrow> retrieval_error + string set" where
  "context_business_concepts kb c = canonicalize kb (qc_business_concepts (lqc_query_context c))"

definition context_tables :: "linked_query_context \<Rightarrow> string set" where
  "context_tables c = set (resolved_table_names c)"

definition column_ref :: "column_metadata \<Rightarrow> string" where
  "column_ref col = col_table_name col @ ''.'' @ col_name col"

definition context_columns :: "linked_query_context \<Rightarrow> string set" where
  "context_columns c = set (map (\<lambda>m. column_ref (rm_column m)) (lqc_metrics c)
     @ map (\<lambda>d. column_ref (rc_column d)) (lqc_dimensions c)
     @ map (\<lambda>f. column_ref (rf_column f)) (lqc_filters c)
     @ (case lqc_sort c of None \<Rightarrow> [] | Some s \<Rightarrow> [column_ref (rs_column s)]))"

definition context_schema_objects :: "linked_query_context \<Rightarrow> string set" where
  "context_schema_objects c = context_tables c \<union> context_columns c"

definition context_keywords :: "linked_query_context \<Rightarrow> string set" where
  "context_keywords c = tokenize (qc_normalized_question (lqc_query_context c))"

definition compute_features :: "knowledge_registry option \<Rightarrow> query_example \<Rightarrow> retrieval_error + feature_sets" where
  "compute_features kb e =
     (let table_set = set (map (split_first CHR ''.'') (ex_linked_schema_objects e));
          column_set = set (filter (\<lambda>r. CHR ''.'' \<in> set r) (ex_linked_schema_objects e))
      in rbind (canonicalize kb (ex_business_concepts e)) (\<lambda>concepts.
           Inr \<lparr> xf_concept_set = concepts,
                 xf_schema_object_set = set (ex_linked_schema_objects e) \<union> table_set,
                 xf_table_set = table_set, xf_column_set = column_set,
                 xf_keyword_set = tokenize (ex_title e @ '' '' @ ex_natural_language_question e @ '' '' @ ex_normalized_question e) \<rparr>))"

definition get_features :: "feature_cache \<Rightarrow> string \<Rightarrow> feature_sets option" where
  "get_features cache i = (case cache of None \<Rightarrow> None | Some store \<Rightarrow> cache_get_mem store i)"

definition set_features :: "feature_cache \<Rightarrow> string \<Rightarrow> feature_sets \<Rightarrow> feature_cache" where
  "set_features cache i f = (case cache of None \<Rightarrow> None | Some store \<Rightarrow> Some (cache_set_mem store i f))"

definition clear_features :: "feature_cache \<Rightarrow> feature_cache" where
  "clear_features cache = map_option cache_clear_mem cache"

definition example_features :: "knowledge_registry option \<Rightarrow> query_example \<Rightarrow> (feature_cache, retrieval_error, feature_sets) op" where
  "example_features kb e cache =
     (case get_features cache (ex_id e) of
        Some f \<Rightarrow> (Inr f, cache)
      | None \<Rightarrow> (case compute_features kb e of
          Inl er \<Rightarrow> (Inl er, cache)
        | Inr f \<Rightarrow> (Inr f, set_features cache (ex_id e) f)))"

text \<open>\<open>tuple(sorted(query & example))\<close>.\<close>

definition sorted_matches :: "string set \<Rightarrow> string set \<Rightarrow> string list" where
  "sorted_matches q x = sorted_list_of_set (q \<inter> x)"

definition matched_business_concepts ::
  "knowledge_registry option \<Rightarrow> linked_query_context \<Rightarrow> query_example \<Rightarrow> (feature_cache, retrieval_error, string list) op" where
  "matched_business_concepts kb c e =
     sbind (slift (\<lambda>_. context_business_concepts kb c)) (\<lambda>q.
     sbind (example_features kb e) (\<lambda>f. sreturn (sorted_matches q (xf_concept_set f))))"

definition matched_schema_objects ::
  "knowledge_registry option \<Rightarrow> linked_query_context \<Rightarrow> query_example \<Rightarrow> (feature_cache, retrieval_error, string list) op" where
  "matched_schema_objects kb c e =
     sbind (example_features kb e) (\<lambda>f. sreturn (sorted_matches (context_schema_objects c) (xf_schema_object_set f)))"

definition matched_tables ::
  "knowledge_registry option \<Rightarrow> linked_query_context \<Rightarrow> query_example \<Rightarrow> (feature_cache, retrieval_error, string list) op" where
  "matched_tables kb c e =
     sbind (example_features kb e) (\<lambda>f. sreturn (sorted_matches (context_tables c) (xf_table_set f)))"

definition matched_columns ::
  "knowledge_registry option \<Rightarrow> linked_query_context \<Rightarrow> query_example \<Rightarrow> (feature_cache, retrieval_error, string list) op" where
  "matched_columns kb c e =
     sbind (example_features kb e) (\<lambda>f. sreturn (sorted_matches (context_columns c) (xf_column_set f)))"

definition matched_keywords ::
  "knowledge_registry option \<Rightarrow> linked_query_context \<Rightarrow> query_example \<Rightarrow> (feature_cache, retrieval_error, string list) op" where
  "matched_keywords kb c e =
     sbind (example_features kb e) (\<lambda>f. sreturn (sorted_matches (context_keywords c) (xf_keyword_set f)))"

section \<open>Signals (signals.py)\<close>

record signal_result =
  sr_score :: real
  sr_detail :: string

type_synonym signal = "linked_query_context \<Rightarrow> query_example \<Rightarrow> (feature_cache, retrieval_error, signal_result) op"

definition implies_aggregation :: "linked_query_context \<Rightarrow> bool" where
  "implies_aggregation c = (qc_aggregation (lqc_query_context c) \<noteq> None
     \<or> (\<exists>m\<in>set (lqc_metrics c). rm_aggregation m \<noteq> None))"

definition intent_similarity_signal :: signal where
  "intent_similarity_signal c e =
     (let query_intent = intent_value (qc_intent (lqc_query_context c));
          example_intent = lower (strip (qs_intent (ex_query_context e)))
      in sreturn (if query_intent = example_intent
           then \<lparr> sr_score = 1, sr_detail = ''Intent matches: '' @ py_repr query_intent @ ''.'' \<rparr>
           else \<lparr> sr_score = 0, sr_detail = ''Intent differs: query is '' @ py_repr query_intent @ '', example is ''
                    @ py_repr example_intent @ ''.'' \<rparr>))"

definition overlap_result :: "string \<Rightarrow> string \<Rightarrow> string set \<Rightarrow> string set \<Rightarrow> signal_result" where
  "overlap_result one many q x =
     (let matched = sorted_list_of_set (q \<inter> x) in
      \<lparr> sr_score = jaccard q x,
        sr_detail = (if matched \<noteq> [] then str_nat (length matched) @ '' shared '' @ one @ ''(s): '' @ join '', '' matched @ ''.''
                     else ''No shared '' @ many @ ''.'') \<rparr>)"

definition business_concept_overlap_signal :: "knowledge_registry option \<Rightarrow> signal" where
  "business_concept_overlap_signal kb c e =
     sbind (slift (\<lambda>_. context_business_concepts kb c)) (\<lambda>q.
     sbind (example_features kb e) (\<lambda>f.
       sreturn (overlap_result ''business concept'' ''business concepts'' q (xf_concept_set f))))"

definition schema_overlap_signal :: "knowledge_registry option \<Rightarrow> signal" where
  "schema_overlap_signal kb c e = sbind (example_features kb e) (\<lambda>f.
     sreturn (overlap_result ''schema object'' ''schema objects'' (context_schema_objects c) (xf_schema_object_set f)))"

definition table_overlap_signal :: "knowledge_registry option \<Rightarrow> signal" where
  "table_overlap_signal kb c e = sbind (example_features kb e) (\<lambda>f.
     sreturn (overlap_result ''table'' ''tables'' (context_tables c) (xf_table_set f)))"

definition column_overlap_signal :: "knowledge_registry option \<Rightarrow> signal" where
  "column_overlap_signal kb c e = sbind (example_features kb e) (\<lambda>f.
     sreturn (overlap_result ''column'' ''columns'' (context_columns c) (xf_column_set f)))"

definition keyword_overlap_signal :: "knowledge_registry option \<Rightarrow> signal" where
  "keyword_overlap_signal kb c e = sbind (example_features kb e) (\<lambda>f.
     sreturn (overlap_result ''keyword'' ''keywords'' (context_keywords c) (xf_keyword_set f)))"

definition rword_ci :: "string \<Rightarrow> rx" where
  "rword_ci w = rseq [RBoundary, rlit_ci w, RBoundary]"

definition SQL_FEATURE_RULES :: "(string \<times> rx) list" where
  "SQL_FEATURE_RULES =
     [(''JOIN'', rword_ci ''join''),
      (''GROUP BY'', rseq [RBoundary, rlit_ci ''group'', rspaces, rlit_ci ''by'', RBoundary]),
      (''ORDER BY'', rseq [RBoundary, rlit_ci ''order'', rspaces, rlit_ci ''by'', RBoundary]),
      (''LIMIT'', rword_ci ''limit''),
      (''WHERE'', rword_ci ''where''),
      (''aggregate function'', rseq [RBoundary,
         RGroup 1 (ralt (map rlit_ci [''sum'', ''count'', ''avg'', ''min'', ''max''])), RStar (RClass is_space), rlit ''('']),
      (''HAVING'', rword_ci ''having'')]"

definition expected_features :: "linked_query_context \<Rightarrow> string list" where
  "expected_features c =
     (if 1 < length (resolved_table_names c) \<or> lqc_relationship_paths c \<noteq> [] then [''JOIN''] else [])
     @ (if lqc_dimensions c \<noteq> [] \<or> implies_aggregation c then [''GROUP BY''] else [])
     @ (if implies_aggregation c then [''aggregate function''] else [])
     @ (if lqc_sort c \<noteq> None then [''ORDER BY''] else [])
     @ (if qc_limit (lqc_query_context c) \<noteq> None then [''LIMIT''] else [])
     @ (if lqc_filters c \<noteq> [] then [''WHERE''] else [])"

definition sql_feature_overlap_signal :: signal where
  "sql_feature_overlap_signal c e =
     (let expected = set (expected_features c) in
      if expected = {} then sreturn \<lparr> sr_score = 1, sr_detail = ''Question implies no particular SQL structure.'' \<rparr>
      else let present = set (map fst (filter (\<lambda>(_, pat). search pat (ex_gold_sql e) \<noteq> None) SQL_FEATURE_RULES));
               matched = expected \<inter> present
           in sreturn \<lparr> sr_score = real (card matched) / real (card expected),
                sr_detail = (if matched \<noteq> {}
                  then str_nat (card matched) @ ''/'' @ str_nat (card expected) @ '' expected SQL feature(s) present: ''
                       @ join '', '' (sorted_list_of_set matched) @ ''.''
                  else ''None of the '' @ str_nat (card expected) @ '' expected SQL feature(s) were found in gold_sql.'') \<rparr>)"

text \<open>The place of a difficulty in \<open>_DIFFICULTY_ORDER\<close>.\<close>

fun difficulty_index :: "difficulty \<Rightarrow> int" where
  "difficulty_index Beginner = 0"
| "difficulty_index Intermediate = 1"
| "difficulty_index Advanced = 2"
| "difficulty_index Expert = 3"

definition COMPLEXITY_THRESHOLDS :: "(nat \<times> difficulty) list" where
  "COMPLEXITY_THRESHOLDS = [(2, Beginner), (4, Intermediate), (6, Advanced)]"

definition complexity_points :: "linked_query_context \<Rightarrow> nat" where
  "complexity_points c = (length (resolved_table_names c) - 1)
     + (if implies_aggregation c then 1 else 0)
     + (if lqc_dimensions c \<noteq> [] then 1 else 0)
     + (if lqc_sort c \<noteq> None then 1 else 0)
     + (if 1 < length (lqc_filters c) then 1 else 0)
     + (if qc_time_expression (lqc_query_context c) \<noteq> None then 1 else 0)
     + (if lqc_ambiguities c \<noteq> [] then 1 else 0)"

definition implied_difficulty :: "linked_query_context \<Rightarrow> difficulty" where
  "implied_difficulty c = (case next_where (\<lambda>(threshold, _). complexity_points c < threshold) COMPLEXITY_THRESHOLDS of
     None \<Rightarrow> Expert | Some (_, d) \<Rightarrow> d)"

definition difficulty_similarity_signal :: signal where
  "difficulty_similarity_signal c e =
     (let implied = implied_difficulty c;
          distance = \<bar>difficulty_index implied - difficulty_index (ex_difficulty e)\<bar>
      in sreturn \<lparr> sr_score = max 0 (1 - real_of_int distance / 3),
           sr_detail = ''Question implies '' @ py_repr (difficulty_value implied) @ '' difficulty; example is ''
             @ py_repr (difficulty_value (ex_difficulty e)) @ '' ('' @ str_int distance @ '' step(s) apart).'' \<rparr>)"

section \<open>Scoring (scorer.py)\<close>

definition DEFAULT_SIGNAL_WEIGHTS :: "(signal_name, real) dict" where
  "DEFAULT_SIGNAL_WEIGHTS = [(Business_Concept_Overlap, 20/100), (Table_Overlap, 15/100), (Column_Overlap, 15/100),
     (Intent_Similarity, 15/100), (Schema_Overlap, 10/100), (Sql_Feature_Overlap, 10/100), (Keyword_Overlap, 10/100),
     (Difficulty_Similarity, 5/100)]"

definition default_signals :: "knowledge_registry option \<Rightarrow> (signal_name \<times> signal) list" where
  "default_signals kb = [(Intent_Similarity, intent_similarity_signal),
     (Business_Concept_Overlap, business_concept_overlap_signal kb), (Schema_Overlap, schema_overlap_signal kb),
     (Table_Overlap, table_overlap_signal kb), (Column_Overlap, column_overlap_signal kb),
     (Sql_Feature_Overlap, sql_feature_overlap_signal), (Keyword_Overlap, keyword_overlap_signal kb),
     (Difficulty_Similarity, difficulty_similarity_signal)]"

fun signal_value :: "signal_name \<Rightarrow> string" where
  "signal_value Intent_Similarity = ''intent_similarity''"
| "signal_value Business_Concept_Overlap = ''business_concept_overlap''"
| "signal_value Schema_Overlap = ''schema_overlap''"
| "signal_value Table_Overlap = ''table_overlap''"
| "signal_value Column_Overlap = ''column_overlap''"
| "signal_value Sql_Feature_Overlap = ''sql_feature_overlap''"
| "signal_value Keyword_Overlap = ''keyword_overlap''"
| "signal_value Difficulty_Similarity = ''difficulty_similarity''"

definition unit_interval :: "real \<Rightarrow> bool" where
  "unit_interval x = (0 \<le> x \<and> x \<le> 1)"

text \<open>The construction of a \<open>SignalBreakdown\<close>, with its \<open>Field\<close> bounds.\<close>

definition make_breakdown :: "signal_name \<Rightarrow> real \<Rightarrow> signal_result \<Rightarrow> retrieval_error + signal_breakdown" where
  "make_breakdown n weight r =
     (if unit_interval (sr_score r) \<and> unit_interval weight \<and> unit_interval (sr_score r * weight)
      then Inr \<lparr> sb_signal = n, sb_score = sr_score r, sb_weight = weight,
                 sb_weighted_score = sr_score r * weight, sb_detail = sr_detail r \<rparr>
      else Inl R_ValidationError)"

fun score_signals ::
  "(signal_name, real) dict \<Rightarrow> linked_query_context \<Rightarrow> query_example \<Rightarrow> (signal_name \<times> signal) list \<Rightarrow>
   (feature_cache, retrieval_error, signal_breakdown list) op" where
  "score_signals weights c e [] = sreturn []"
| "score_signals weights c e ((n, sig) # sigs) =
     sbind (sig c e) (\<lambda>r.
     sbind (slift (\<lambda>_. make_breakdown n (case map_of weights n of None \<Rightarrow> 0 | Some w \<Rightarrow> w) r)) (\<lambda>b.
     sbind (score_signals weights c e sigs) (\<lambda>bs. sreturn (b # bs))))"

definition build_ranking_reason :: "(real \<Rightarrow> string) \<Rightarrow> signal_breakdown list \<Rightarrow> string" where
  "build_ranking_reason fmt breakdown =
     (let contributing = filter (\<lambda>b. 0 < sb_score b) breakdown in
      if contributing = [] then ''No signals matched; this is a low-confidence, fallback-only candidate.''
      else let top = take 2 (sort_key (\<lambda>b. - sb_weighted_score b) contributing);
               parts = map (\<lambda>b. map (\<lambda>ch. if ch = CHR ''_'' then CHR '' '' else ch) (signal_value (sb_signal b))
                              @ '' ('' @ fmt (sb_score b) @ '')'') top
           in ''Strongest match on '' @ join '' and '' parts @ ''.'')"

record retrieval_scorer =
  rsr_signals :: "(signal_name \<times> signal) list"
  rsr_weights :: "(signal_name, real) dict"

definition make_scorer ::
  "knowledge_registry option \<Rightarrow> (signal_name \<times> signal) list option \<Rightarrow> (signal_name, real) dict option \<Rightarrow> retrieval_scorer" where
  "make_scorer kb signals weights =
     \<lparr> rsr_signals = (case signals of Some s \<Rightarrow> s | None \<Rightarrow> default_signals kb),
       rsr_weights = (case weights of Some w \<Rightarrow> w | None \<Rightarrow> DEFAULT_SIGNAL_WEIGHTS) \<rparr>"

definition make_score :: "(real \<Rightarrow> string) \<Rightarrow> signal_breakdown list \<Rightarrow> retrieval_error + retrieval_score" where
  "make_score fmt breakdown =
     (let overall = min 1 (sum_list (map sb_weighted_score breakdown)) in
      if unit_interval overall
      then Inr \<lparr> rsc_overall_score = overall, rsc_signal_scores = breakdown,
                 rsc_ranking_reason = build_ranking_reason fmt breakdown \<rparr>
      else Inl R_ValidationError)"

definition score_example ::
  "(real \<Rightarrow> string) \<Rightarrow> retrieval_scorer \<Rightarrow> linked_query_context \<Rightarrow> query_example \<Rightarrow> (feature_cache, retrieval_error, retrieval_score) op" where
  "score_example fmt sc c e =
     sbind (score_signals (rsr_weights sc) c e (rsr_signals sc)) (\<lambda>breakdown.
       slift (\<lambda>_. make_score fmt breakdown))"

section \<open>Ranking, explanations, statistics\<close>

definition rank_key :: "query_example \<times> retrieval_score \<Rightarrow> real \<times> string" where
  "rank_key p = (- rsc_overall_score (snd p), ex_id (fst p))"

definition rank_examples ::
  "(query_example \<times> retrieval_score) list \<Rightarrow> int \<Rightarrow> retrieval_error + (query_example \<times> retrieval_score) list" where
  "rank_examples scored top_k =
     (if top_k \<le> 0 then Inl (InvalidTopKError top_k)
      else Inr (take (nat top_k) (sort_key rank_key scored)))"

definition explanation_text ::
  "(real \<Rightarrow> string) \<Rightarrow> retrieval_score \<Rightarrow> string list \<Rightarrow> string list \<Rightarrow> string list \<Rightarrow> string" where
  "explanation_text fmt score concepts schema keywords =
     join '' '' ([''Selected with an overall score of '' @ fmt (rsc_overall_score score) @ ''.'', rsc_ranking_reason score]
       @ (if concepts \<noteq> [] then [''Shared business concepts: '' @ join '', '' concepts @ ''.''] else [])
       @ (if schema \<noteq> [] then [''Shared schema objects: '' @ join '', '' schema @ ''.''] else [])
       @ (if keywords \<noteq> [] then [''Shared keywords: '' @ join '', '' keywords @ ''.''] else []))"

definition build_explanation ::
  "(real \<Rightarrow> string) \<Rightarrow> knowledge_registry option \<Rightarrow> linked_query_context \<Rightarrow> query_example \<times> retrieval_score \<Rightarrow>
   (feature_cache, retrieval_error, retrieved_example) op" where
  "build_explanation fmt kb c p =
     (let (e, score) = p in
      sbind (matched_business_concepts kb c e) (\<lambda>concepts.
      sbind (matched_schema_objects kb c e) (\<lambda>schema.
      sbind (matched_keywords kb c e) (\<lambda>keywords.
        sreturn \<lparr> re_example = e, re_overall_score = rsc_overall_score score,
          re_signal_breakdown = rsc_signal_scores score, re_matched_business_concepts = concepts,
          re_matched_schema_objects = schema, re_matched_keywords = keywords,
          re_selection_explanation = explanation_text fmt score concepts schema keywords \<rparr>))))"

text \<open>\<open>totals[entry.signal] += entry.weighted_score\<close> over all entries.\<close>

fun add_totals :: "signal_breakdown list \<Rightarrow> (signal_name, real) dict \<Rightarrow> (signal_name, real) dict" where
  "add_totals [] d = d"
| "add_totals (b # bs) d = add_totals bs (AList.update (sb_signal b)
     ((case map_of d (sb_signal b) of None \<Rightarrow> 0 | Some t \<Rightarrow> t) + sb_weighted_score b) d)"

definition signal_contributions :: "retrieved_example list \<Rightarrow> signal_contribution list" where
  "signal_contributions retrieved =
     (if retrieved = [] then []
      else map (\<lambda>(n, t). \<lparr> sc_signal = n, sc_average_weighted_score = t / real (length retrieved) \<rparr>)
             (add_totals (concat (map re_signal_breakdown retrieved)) []))"

definition collect_statistics ::
  "real \<Rightarrow> int \<Rightarrow> nat \<Rightarrow> retrieved_example list \<Rightarrow> retrieval_error + retrieval_statistics" where
  "collect_statistics latency_ms top_k candidate_count retrieved =
     (let average = (if retrieved \<noteq> [] then sum_list (map re_overall_score retrieved) / real (length retrieved) else 0);
          contribution = signal_contributions retrieved
      in if 0 \<le> latency_ms \<and> 0 < top_k \<and> unit_interval average
            \<and> list_all (\<lambda>s. unit_interval (sc_average_weighted_score s)) contribution
         then Inr \<lparr> rst_retrieval_latency_ms = latency_ms, rst_top_k = top_k, rst_candidate_count = candidate_count,
                    rst_average_score = average, rst_signal_contribution = contribution \<rparr>
         else Inl R_ValidationError)"

section \<open>The engine (engine.py)\<close>

definition DEFAULT_TOP_K :: int where
  "DEFAULT_TOP_K = 5"

text \<open>What an engine owns and shares: the two registries and the feature cache.\<close>

record retrieval_state =
  rv_library :: query_library_registry
  rv_knowledge :: "knowledge_registry option"
  rv_cache :: feature_cache

fun smap :: "('a \<Rightarrow> ('w, 'e, 'b) op) \<Rightarrow> 'a list \<Rightarrow> ('w, 'e, 'b list) op" where
  "smap f [] = sreturn []"
| "smap f (x # xs) = sbind (f x) (\<lambda>y. sbind (smap f xs) (\<lambda>ys. sreturn (y # ys)))"

definition load_sources ::
  "(catalog_error + query_example_library) \<Rightarrow> (registry_error + business_knowledge_catalog) \<Rightarrow>
   (retrieval_state, retrieval_error, query_example list) op" where
  "load_sources library_source catalog_source s =
     (case library_load library_source (rv_library s) of
        (Inl e, l) \<Rightarrow> (Inl (R_Library e), s \<lparr> rv_library := l \<rparr>)
      | (Inr _, l) \<Rightarrow>
          (let s1 = s \<lparr> rv_library := l \<rparr>;
               found = (\<lambda>s'. case find_examples (rv_library s') (\<lambda>_. True) of Inl e \<Rightarrow> Inl (R_Library e) | Inr es \<Rightarrow> Inr es)
           in case rv_knowledge s1 of
                None \<Rightarrow> (found s1, s1)
              | Some kr \<Rightarrow> (case knowledge_load catalog_source kr of
                  (Inl e, k) \<Rightarrow> (Inl (R_Knowledge e), s1 \<lparr> rv_knowledge := Some k \<rparr>)
                | (Inr _, k) \<Rightarrow> (let s2 = s1 \<lparr> rv_knowledge := Some k \<rparr> in (found s2, s2)))))"

text \<open>Scoring, ranking and explaining a list of candidates, with the loaded knowledge.\<close>

definition rank_candidates ::
  "(real \<Rightarrow> string) \<Rightarrow> knowledge_registry option \<Rightarrow> retrieval_scorer \<Rightarrow> linked_query_context \<Rightarrow> int \<Rightarrow> query_example list \<Rightarrow>
   (feature_cache, retrieval_error, retrieved_example list) op" where
  "rank_candidates fmt kb sc c top_k candidates =
     sbind (smap (\<lambda>e. sbind (score_example fmt sc c e) (\<lambda>s. sreturn (e, s))) candidates) (\<lambda>scored.
     sbind (slift (\<lambda>_. rank_examples scored top_k)) (\<lambda>top_ranked.
       smap (build_explanation fmt kb c) top_ranked))"

text \<open>
  \<open>retrieve\<close> with the default collaborators; \<open>started\<close> and \<open>finished\<close> are the readings of
  \<open>time.perf_counter\<close>.
\<close>

definition retrieve ::
  "(real \<Rightarrow> string) \<Rightarrow> (catalog_error + query_example_library) \<Rightarrow> (registry_error + business_knowledge_catalog) \<Rightarrow>
   real \<Rightarrow> real \<Rightarrow> int \<Rightarrow> linked_query_context \<Rightarrow> int option \<Rightarrow>
   (retrieval_state, retrieval_error, retrieved_knowledge_bundle) op" where
  "retrieve fmt library_source catalog_source started finished default_top_k c top_k s =
     (let resolved_top_k = (case top_k of Some k \<Rightarrow> k | None \<Rightarrow> default_top_k) in
      if resolved_top_k \<le> 0 then (Inl (InvalidTopKError resolved_top_k), s)
      else case load_sources library_source catalog_source s of
        (Inl e, s1) \<Rightarrow> (Inl e, s1)
      | (Inr candidates, s1) \<Rightarrow>
          (let kb = rv_knowledge s1 in
           case rank_candidates fmt kb (make_scorer kb None None) c resolved_top_k candidates (rv_cache s1) of
             (Inl e, cache) \<Rightarrow> (Inl e, s1 \<lparr> rv_cache := cache \<rparr>)
           | (Inr retrieved, cache) \<Rightarrow>
               (rbind (collect_statistics ((finished - started) * 1000) resolved_top_k (length candidates) retrieved) (\<lambda>st.
                  Inr \<lparr> rkb_linked_query_context = c, rkb_retrieved_examples = retrieved, rkb_statistics = st \<rparr>),
                s1 \<lparr> rv_cache := cache \<rparr>)))"

end
