(* ===== verification/Retrieval_Properties.thy ===== *)
theory Retrieval_Properties
  imports Retrieval
begin

text \<open>
  Correctness of retrieval: the feature cache never changes an answer, every score is the weighted
  sum of the eight signals and lies in the unit interval, and the answer is the best \<open>top_k\<close>
  examples of the library.
\<close>

section \<open>Operations that a cache does not influence\<close>

definition faithful :: "knowledge_registry option \<Rightarrow> query_example list \<Rightarrow> feature_cache \<Rightarrow> bool" where
  "faithful kb es cache = (case cache of None \<Rightarrow> True | Some store \<Rightarrow>
     mem_cache.sound (\<lambda>i f. \<forall>e\<in>set es. ex_id e = i \<longrightarrow> compute_features kb e = Inr f) store)"

text \<open>From a faithful cache an operation returns what it returns without one, and the cache stays faithful.\<close>

definition transparent :: "(feature_cache \<Rightarrow> bool) \<Rightarrow> (feature_cache, 'e, 'a) op \<Rightarrow> bool" where
  "transparent F m = (snd (m None) = None \<and> (\<forall>cache. F cache \<longrightarrow> fst (m cache) = fst (m None) \<and> F (snd (m cache))))"

named_theorems transparency

lemma transparent_sreturn [transparency]: "transparent F (sreturn x)"
  by (simp add: transparent_def)

lemma transparent_slift [transparency]: "transparent F (slift (\<lambda>_. r))"
  by (simp add: transparent_def)

lemma transparent_sbind [transparency]:
  assumes m: "transparent F m" and f: "\<And>x. fst (m None) = Inr x \<Longrightarrow> transparent F (f x)"
  shows "transparent F (sbind m f)"
proof -
  obtain r where none: "m None = (r, None)" using m by (cases "m None") (simp add: transparent_def)
  have "fst (sbind m f cache) = fst (sbind m f None) \<and> F (snd (sbind m f cache))" if "F cache" for cache
  proof -
    from m that none have c: "fst (m cache) = r" "F (snd (m cache))" by (auto simp: transparent_def)
    then show ?thesis
    proof (cases r)
      case (Inl e)
      then show ?thesis using c none by (cases "m cache") (simp add: sbind_def)
    next
      case (Inr x)
      then show ?thesis using c none f [of x] by (cases "m cache") (auto simp: sbind_def transparent_def)
    qed
  qed
  moreover have "snd (sbind m f None) = None"
    using none f by (cases r) (auto simp: sbind_def transparent_def)
  ultimately show ?thesis by (simp add: transparent_def)
qed

lemma transparent_smap [transparency]:
  assumes "\<And>x. x \<in> set xs \<Longrightarrow> transparent F (f x)"
  shows "transparent F (smap f xs)"
  using assms by (induction xs) (auto intro!: transparency)

lemma transparent_features:
  assumes "distinct (map ex_id es)" "e \<in> set es"
  shows "transparent (faithful kb es) (example_features kb e)"
proof -
  have step: "fst (example_features kb e (Some store)) = fst (example_features kb e None)
      \<and> faithful kb es (snd (example_features kb e (Some store)))"
    if "faithful kb es (Some store)" for store
  proof (cases "cache_get_mem store (ex_id e)")
    case (Some f)
    with that assms(2) have "compute_features kb e = Inr f"
      by (auto simp: faithful_def mem_cache.sound_def)
    with Some that show ?thesis by (simp add: example_features_def get_features_def set_features_def)
  next
    case None
    show ?thesis
    proof (cases "compute_features kb e")
      case (Inl er)
      with None that show ?thesis by (simp add: example_features_def get_features_def)
    next
      case (Inr f)
      have "e' = e" if "e' \<in> set es" "ex_id e' = ex_id e" for e'
        using that assms by (metis distinct_map inj_on_def)
      with Inr have "\<forall>e'\<in>set es. ex_id e' = ex_id e \<longrightarrow> compute_features kb e' = Inr f" by blast
      with that have "faithful kb es (Some (cache_set_mem store (ex_id e) f))"
        by (simp add: faithful_def mem_cache.sound_set)
      with Inr None show ?thesis by (simp add: example_features_def get_features_def set_features_def)
    qed
  qed
  have "snd (example_features kb e None) = None"
    by (simp add: example_features_def get_features_def set_features_def split: sum.split)
  moreover have "fst (example_features kb e cache) = fst (example_features kb e None)
      \<and> faithful kb es (snd (example_features kb e cache))" if "faithful kb es cache" for cache
    using that step calculation by (cases cache) (auto simp: faithful_def)
  ultimately show ?thesis by (simp add: transparent_def)
qed

lemma transparent_default_signals:
  assumes "distinct (map ex_id es)" "e \<in> set es" "(n, sig) \<in> set (default_signals kb)"
  shows "transparent (faithful kb es) (sig c e)"
  using assms(3) transparent_features [OF assms(1,2), of kb]
  by (auto simp: default_signals_def intent_similarity_signal_def business_concept_overlap_signal_def
      schema_overlap_signal_def table_overlap_signal_def column_overlap_signal_def
      sql_feature_overlap_signal_def keyword_overlap_signal_def difficulty_similarity_signal_def Let_def
      intro!: transparency)

lemma transparent_score_signals:
  assumes "\<And>n sig. (n, sig) \<in> set sigs \<Longrightarrow> transparent F (sig c e)"
  shows "transparent F (score_signals w c e sigs)"
  using assms
proof (induction sigs)
  case Nil
  then show ?case unfolding score_signals.simps by (intro transparency)
next
  case (Cons a sigs)
  obtain n sig where a: "a = (n, sig)" by (cases a)
  have "transparent F (sig c e)" using Cons.prems [of n sig] a by simp
  moreover have "transparent F (score_signals w c e sigs)" using Cons by auto
  ultimately show ?case unfolding a score_signals.simps by (intro transparency)
qed

lemma smap_paired:
  "fst (smap (\<lambda>e. sbind (f e) (\<lambda>s. sreturn (e, s))) es w) = Inr sc \<Longrightarrow> map fst sc = es"
proof (induction es arbitrary: w sc)
  case (Cons e es)
  let ?g = "\<lambda>e. sbind (f e) (\<lambda>s. sreturn (e, s))"
  obtain w' where "smap ?g (e # es) w = (Inr sc, w')"
    using Cons.prems surjective_pairing [of "smap ?g (e # es) w"] by (simp only:)
  then obtain x w1 ys where "sc = (e, x) # ys" "smap ?g es w1 = (Inr ys, w')"
    by (auto simp: result_simps)
  moreover from this(2) have "fst (smap ?g es w1) = Inr ys" by (simp only: fst_conv)
  ultimately show ?case using Cons.IH [of w1 ys] by (simp only: list.map fst_conv)
qed simp

lemma transparent_rank_candidates:
  assumes "distinct (map ex_id es)"
  shows "transparent (faithful kb es) (rank_candidates fmt kb (make_scorer kb None None) c k es)"
proof -
  let ?F = "faithful kb es"
  let ?score = "\<lambda>e. sbind (score_example fmt (make_scorer kb None None) c e) (\<lambda>s. sreturn (e, s))"
  have score: "transparent ?F (?score e)" if "e \<in> set es" for e
    unfolding score_example_def make_scorer_def
    by (auto intro!: transparency transparent_score_signals transparent_default_signals [OF assms that])
  have explain: "transparent ?F (build_explanation fmt kb c p)" if "fst p \<in> set es" for p
    using transparent_features [OF assms that, of kb]
    by (auto simp: build_explanation_def matched_business_concepts_def matched_schema_objects_def
        matched_keywords_def split: prod.split intro!: transparency)
  have scored: "transparent ?F (smap ?score es)" using score by (rule transparent_smap)
  have "transparent ?F (smap (build_explanation fmt kb c) top)"
    if "fst (smap ?score es None) = Inr sc" "rank_examples sc k = Inr top" for sc top
  proof (rule transparent_smap, rule explain)
    fix p assume "p \<in> set top"
    with that(2) have "p \<in> set sc"
      by (auto simp: rank_examples_def dest!: in_set_takeD split: if_splits)
    then show "fst p \<in> set es" using smap_paired [OF that(1)] by auto
  qed
  then show ?thesis unfolding rank_candidates_def
    by (intro transparent_sbind scored) (auto intro!: transparent_sbind transparent_slift)
qed

section \<open>Scores\<close>

text \<open>The reference definition of a score: what the eight signals measure, with their weights.\<close>

definition sql_feature_share :: "linked_query_context \<Rightarrow> query_example \<Rightarrow> real" where
  "sql_feature_share c e =
     (let expected = set (expected_features c);
          present = {label. \<exists>pat. (label, pat) \<in> set SQL_FEATURE_RULES \<and> search pat (ex_gold_sql e) \<noteq> None}
      in if expected = {} then 1 else real (card (expected \<inter> present)) / real (card expected))"

definition difficulty_closeness :: "linked_query_context \<Rightarrow> query_example \<Rightarrow> real" where
  "difficulty_closeness c e = 1 - \<bar>real_of_int (difficulty_index (implied_difficulty c) - difficulty_index (ex_difficulty e))\<bar> / 3"

definition intent_match :: "linked_query_context \<Rightarrow> query_example \<Rightarrow> real" where
  "intent_match c e = of_bool (intent_value (qc_intent (lqc_query_context c)) = lower (strip (qs_intent (ex_query_context e))))"

definition relevance :: "string set \<Rightarrow> linked_query_context \<Rightarrow> feature_sets \<Rightarrow> query_example \<Rightarrow> real" where
  "relevance concepts c f e =
     20/100 * jaccard concepts (xf_concept_set f) + 15/100 * jaccard (context_tables c) (xf_table_set f)
     + 15/100 * jaccard (context_columns c) (xf_column_set f) + 15/100 * intent_match c e
     + 10/100 * jaccard (context_schema_objects c) (xf_schema_object_set f) + 10/100 * sql_feature_share c e
     + 10/100 * jaccard (context_keywords c) (xf_keyword_set f) + 5/100 * difficulty_closeness c e"

lemma jaccard_unit [simp]: "unit_interval (jaccard l r)"
proof (cases "finite (l \<union> r)")
  case True
  then have "card (l \<inter> r) \<le> card (l \<union> r)" by (auto intro: card_mono)
  with True show ?thesis by (simp add: jaccard_def unit_interval_def Let_def divide_le_eq_1 card_gt_0_iff)
next
  case False
  then show ?thesis by (simp add: jaccard_def unit_interval_def Let_def)
qed

lemma card_share_unit: "finite b \<Longrightarrow> unit_interval (real (card (b \<inter> a)) / real (card b))"
  using card_mono [of b "b \<inter> a"] by (cases "b = {}") (simp_all add: unit_interval_def divide_le_eq_1 card_gt_0_iff)

lemma sql_feature_share_unit [simp]: "unit_interval (sql_feature_share c e)"
  using card_share_unit [of "set (expected_features c)"]
  by (simp add: sql_feature_share_def Let_def) (simp add: unit_interval_def)

lemma difficulty_closeness_unit [simp]: "unit_interval (difficulty_closeness c e)"
proof -
  have "0 \<le> difficulty_index d \<and> difficulty_index d \<le> 3" for d by (cases d) auto
  from this [of "implied_difficulty c"] this [of "ex_difficulty e"] show ?thesis
    by (simp add: difficulty_closeness_def unit_interval_def abs_le_iff)
qed

lemma intent_match_unit [simp]: "unit_interval (intent_match c e)"
  by (simp add: intent_match_def unit_interval_def)

lemma relevance_unit: "unit_interval (relevance q c f e)"
proof -
  note units = jaccard_unit [of q "xf_concept_set f"] jaccard_unit [of "context_tables c" "xf_table_set f"]
    jaccard_unit [of "context_columns c" "xf_column_set f"] intent_match_unit [of c e]
    jaccard_unit [of "context_schema_objects c" "xf_schema_object_set f"] sql_feature_share_unit [of c e]
    jaccard_unit [of "context_keywords c" "xf_keyword_set f"] difficulty_closeness_unit [of c e]
  show ?thesis using units unfolding relevance_def unit_interval_def by linarith
qed

lemma intent_signal: "\<exists>d. intent_similarity_signal c e w = (Inr \<lparr> sr_score = intent_match c e, sr_detail = d \<rparr>, w)"
  by (simp add: intent_similarity_signal_def intent_match_def Let_def)

lemma sql_signal: "\<exists>d. sql_feature_overlap_signal c e w = (Inr \<lparr> sr_score = sql_feature_share c e, sr_detail = d \<rparr>, w)"
proof -
  have "set (map fst (filter (\<lambda>(_, pat). search pat (ex_gold_sql e) \<noteq> None) SQL_FEATURE_RULES))
      = {label. \<exists>pat. (label, pat) \<in> set SQL_FEATURE_RULES \<and> search pat (ex_gold_sql e) \<noteq> None}"
    by force
  then show ?thesis by (simp add: sql_feature_overlap_signal_def sql_feature_share_def Let_def del: set_map)
qed

lemma difficulty_signal:
  "\<exists>d. difficulty_similarity_signal c e w = (Inr \<lparr> sr_score = difficulty_closeness c e, sr_detail = d \<rparr>, w)"
proof -
  have "max 0 (difficulty_closeness c e) = difficulty_closeness c e"
    using difficulty_closeness_unit [of c e] by (simp add: unit_interval_def)
  then show ?thesis by (simp add: difficulty_similarity_signal_def difficulty_closeness_def Let_def)
qed

lemma features_uncached: "example_features kb e None = (compute_features kb e, None)"
  by (simp add: example_features_def get_features_def set_features_def split: sum.split)

text \<open>One signal after the other: a score and a weight in the unit interval pass the \<open>Field\<close> bounds.\<close>

lemma score_signals_step:
  assumes "\<exists>d. sig c e None = (Inr \<lparr> sr_score = x, sr_detail = d \<rparr>, None)" "unit_interval x"
    and "map_of w n = Some v" "unit_interval v"
    and "\<exists>bs. score_signals w c e sigs None = (Inr bs, None) \<and> map sb_signal bs = ns \<and> map sb_weighted_score bs = vs"
  shows "\<exists>bs. score_signals w c e ((n, sig) # sigs) None = (Inr bs, None)
    \<and> map sb_signal bs = n # ns \<and> map sb_weighted_score bs = (x * v) # vs"
proof -
  have "unit_interval (x * v)" using assms(2,4) by (simp add: unit_interval_def mult_le_one)
  with assms show ?thesis by (auto simp: sbind_def make_breakdown_def)
qed

abbreviation signal_order :: "signal_name list" where
  "signal_order \<equiv> [Intent_Similarity, Business_Concept_Overlap, Schema_Overlap, Table_Overlap, Column_Overlap,
     Sql_Feature_Overlap, Keyword_Overlap, Difficulty_Similarity]"

lemma score_signals_default:
  assumes "context_business_concepts kb c = Inr q" "compute_features kb e = Inr f"
  shows "\<exists>bs. score_signals DEFAULT_SIGNAL_WEIGHTS c e (default_signals kb) None = (Inr bs, None)
    \<and> map sb_signal bs = signal_order
    \<and> map sb_weighted_score bs = [intent_match c e * (15/100), jaccard q (xf_concept_set f) * (20/100),
        jaccard (context_schema_objects c) (xf_schema_object_set f) * (10/100),
        jaccard (context_tables c) (xf_table_set f) * (15/100),
        jaccard (context_columns c) (xf_column_set f) * (15/100), sql_feature_share c e * (10/100),
        jaccard (context_keywords c) (xf_keyword_set f) * (10/100), difficulty_closeness c e * (5/100)]"
proof -
  have overlaps:
    "\<exists>d. business_concept_overlap_signal kb c e None = (Inr \<lparr> sr_score = jaccard q (xf_concept_set f), sr_detail = d \<rparr>, None)"
    "\<exists>d. schema_overlap_signal kb c e None
       = (Inr \<lparr> sr_score = jaccard (context_schema_objects c) (xf_schema_object_set f), sr_detail = d \<rparr>, None)"
    "\<exists>d. table_overlap_signal kb c e None = (Inr \<lparr> sr_score = jaccard (context_tables c) (xf_table_set f), sr_detail = d \<rparr>, None)"
    "\<exists>d. column_overlap_signal kb c e None = (Inr \<lparr> sr_score = jaccard (context_columns c) (xf_column_set f), sr_detail = d \<rparr>, None)"
    "\<exists>d. keyword_overlap_signal kb c e None = (Inr \<lparr> sr_score = jaccard (context_keywords c) (xf_keyword_set f), sr_detail = d \<rparr>, None)"
    using assms by (simp_all add: business_concept_overlap_signal_def schema_overlap_signal_def table_overlap_signal_def
        column_overlap_signal_def keyword_overlap_signal_def sbind_def features_uncached overlap_result_def Let_def)
  have nil: "\<exists>bs. score_signals DEFAULT_SIGNAL_WEIGHTS c e [] None = (Inr bs, None)
      \<and> map sb_signal bs = [] \<and> map sb_weighted_score bs = []" by simp
  show ?thesis unfolding default_signals_def
    by (intro score_signals_step overlaps intent_signal sql_signal difficulty_signal nil)
      (simp_all add: DEFAULT_SIGNAL_WEIGHTS_def unit_interval_def [of "_ / _"])
qed

lemma score_example_default:
  assumes "context_business_concepts kb c = Inr q" "compute_features kb e = Inr f"
  shows "\<exists>s. score_example fmt (make_scorer kb None None) c e None = (Inr s, None)
    \<and> rsc_overall_score s = relevance q c f e \<and> map sb_signal (rsc_signal_scores s) = signal_order
    \<and> list_all (\<lambda>b. unit_interval (sb_weighted_score b)) (rsc_signal_scores s)"
proof -
  from score_signals_default [OF assms] obtain bs where
    bs: "score_signals DEFAULT_SIGNAL_WEIGHTS c e (default_signals kb) None = (Inr bs, None)"
    and names: "map sb_signal bs = signal_order"
    and weighted: "map sb_weighted_score bs = [intent_match c e * (15/100), jaccard q (xf_concept_set f) * (20/100),
        jaccard (context_schema_objects c) (xf_schema_object_set f) * (10/100),
        jaccard (context_tables c) (xf_table_set f) * (15/100),
        jaccard (context_columns c) (xf_column_set f) * (15/100), sql_feature_share c e * (10/100),
        jaccard (context_keywords c) (xf_keyword_set f) * (10/100), difficulty_closeness c e * (5/100)]"
    by (elim exE conjE) (rule that)
  have sum: "sum_list (map sb_weighted_score bs) = relevance q c f e"
    unfolding weighted relevance_def by simp
  have "list_all unit_interval (map sb_weighted_score bs)"
  proof -
    have scale: "unit_interval x \<Longrightarrow> 0 \<le> w \<Longrightarrow> w \<le> 1 \<Longrightarrow> unit_interval (x * w)" for x w
      by (simp add: unit_interval_def mult_le_one)
    show ?thesis unfolding weighted list.pred_inject by (intro conjI TrueI scale) simp_all
  qed
  then have "list_all (\<lambda>b. unit_interval (sb_weighted_score b)) bs" by (simp add: list_all_iff)
  moreover have "make_score fmt bs = Inr \<lparr> rsc_overall_score = relevance q c f e, rsc_signal_scores = bs,
      rsc_ranking_reason = build_ranking_reason fmt bs \<rparr>"
    using relevance_unit [of q c f e] by (simp add: make_score_def sum Let_def unit_interval_def)
  ultimately show ?thesis using bs names by (simp add: score_example_def make_scorer_def sbind_def)
qed

section \<open>Ranking\<close>

lemma insort_key_map: "map g (insort_key (f \<circ> g) x xs) = insort_key f (g x) (map g xs)"
  by (induction xs) auto

lemma sort_key_map: "sort_key f (map g xs) = map g (sort_key (f \<circ> g) xs)"
  by (induction xs) (simp_all add: insort_key_map [of g f, unfolded comp_def] comp_def)

lemma smap_pure:
  assumes "\<And>x. x \<in> set xs \<Longrightarrow> f x w = (Inr (g x), w)"
  shows "smap f xs w = (Inr (map g xs), w)"
  using assms by (induction xs) (auto simp: sbind_def)

section \<open>Statistics\<close>

lemma add_totals_lookup:
  "map_of (add_totals bs d) n = Some t \<Longrightarrow>
   t = (case map_of d n of None \<Rightarrow> 0 | Some x \<Rightarrow> x) + sum_list (map sb_weighted_score (filter (\<lambda>b. sb_signal b = n) bs))"
proof (induction bs d arbitrary: t rule: add_totals.induct)
  case (1 d)
  then show ?case by simp
next
  case (2 b bs d)
  from 2(1) [of t] 2(2) show ?case by (auto simp: update_conv split: if_splits)
qed

lemma add_totals_distinct: "distinct (map fst d) \<Longrightarrow> distinct (map fst (add_totals bs d))"
  by (induction bs d rule: add_totals.induct) (auto simp: distinct_update)

lemma single_signal_sum:
  assumes "distinct (map sb_signal bs)" "list_all (\<lambda>b. unit_interval (sb_weighted_score b)) bs"
  shows "unit_interval (sum_list (map sb_weighted_score (filter (\<lambda>b. sb_signal b = n) bs)))"
  using assms
proof (induction bs)
  case (Cons b bs)
  have "filter (\<lambda>x. sb_signal x = n) bs = []" if "sb_signal b = n"
  proof -
    have "sb_signal b \<notin> sb_signal ` set bs" using Cons.prems(1) by simp
    then have "\<forall>x\<in>set bs. sb_signal x \<noteq> n" unfolding that [symmetric] by (metis image_eqI)
    then show ?thesis by simp
  qed
  with Cons show ?case by auto
qed (simp add: unit_interval_def)

lemma sum_units: "\<forall>x\<in>set xs. unit_interval (f x) \<Longrightarrow> 0 \<le> sum_list (map f xs) \<and> sum_list (map f xs) \<le> real (length xs)"
  by (induction xs) (auto simp: unit_interval_def)

lemma average_unit:
  assumes "xs \<noteq> []" "\<forall>x\<in>set xs. unit_interval (f x)"
  shows "unit_interval (sum_list (map f xs) / real (length xs))"
  using sum_units [OF assms(2)] assms(1) by (simp add: unit_interval_def)

definition well_scored :: "retrieved_example \<Rightarrow> bool" where
  "well_scored r = (unit_interval (re_overall_score r) \<and> distinct (map sb_signal (re_signal_breakdown r))
     \<and> list_all (\<lambda>b. unit_interval (sb_weighted_score b)) (re_signal_breakdown r))"

lemma contributions_unit:
  assumes "\<forall>r\<in>set rs. well_scored r"
  shows "list_all (\<lambda>s. unit_interval (sc_average_weighted_score s)) (signal_contributions rs)"
proof (cases "rs = []")
  case True
  then show ?thesis by (simp add: signal_contributions_def)
next
  case False
  let ?part = "\<lambda>n r. sum_list (map sb_weighted_score (filter (\<lambda>b. sb_signal b = n) (re_signal_breakdown r)))"
  have "unit_interval (t / real (length rs))"
    if "(n, t) \<in> set (add_totals (concat (map re_signal_breakdown rs)) [])" for n t
  proof -
    from that have "map_of (add_totals (concat (map re_signal_breakdown rs)) []) n = Some t"
      by (simp add: add_totals_distinct)
    then have "t = sum_list (map sb_weighted_score (filter (\<lambda>b. sb_signal b = n) (concat (map re_signal_breakdown rs))))"
      by (auto dest: add_totals_lookup)
    also have "\<dots> = sum_list (map (?part n) rs)"
      by (induction rs) auto
    finally have t: "t = sum_list (map (?part n) rs)" .
    have "\<forall>r\<in>set rs. unit_interval (?part n r)"
      using assms by (auto simp: well_scored_def intro!: single_signal_sum)
    from average_unit [OF False this] show ?thesis by (simp add: t)
  qed
  then show ?thesis using False by (auto simp: signal_contributions_def list_all_iff)
qed

lemma collect_statistics_ok:
  assumes "\<forall>r\<in>set rs. well_scored r" "0 \<le> l" "0 < k"
  shows "\<exists>st. collect_statistics l k n rs = Inr st \<and> rst_candidate_count st = n \<and> rst_top_k st = k
    \<and> rst_average_score st * real (length rs) = sum_list (map re_overall_score rs)"
proof -
  have "unit_interval (if rs \<noteq> [] then sum_list (map re_overall_score rs) / real (length rs) else 0)"
    using average_unit [of rs re_overall_score] assms(1)
    by (auto simp: well_scored_def) (simp add: unit_interval_def)
  then show ?thesis using assms contributions_unit [OF assms(1)]
    by (cases "rs = []") (simp_all add: collect_statistics_def Let_def)
qed

section \<open>One retrieval\<close>

text \<open>With loaded knowledge, or without a registry, no term fails to resolve.\<close>

definition knowledge_ready :: "knowledge_registry option \<Rightarrow> bool" where
  "knowledge_ready kb = (kb \<noteq> Some None)"

lemma rmap_total:
  assumes "\<And>x. \<exists>y. f x = Inr y"
  shows "\<exists>ys. rmap f xs = Inr ys"
proof (induction xs)
  case (Cons x xs)
  with assms [of x] show ?case by auto
qed simp

lemma canonicalize_ready: "knowledge_ready kb \<Longrightarrow> \<exists>q. canonicalize kb terms = Inr q"
proof (cases kb)
  case (Some kr)
  assume "knowledge_ready kb"
  with Some obtain k where "kr = Some k" by (cases kr) (auto simp: knowledge_ready_def)
  then have "\<exists>y. registry_resolve kr t = Inr y" for t
    by (simp add: registry_resolve_def require_knowledge_def value_cache_get_def)
  from rmap_total [of "registry_resolve kr" terms, OF this] obtain ys where "rmap (registry_resolve kr) terms = Inr ys" by blast
  then show ?thesis by (simp add: canonicalize_def Some)
qed (simp add: canonicalize_def)

text \<open>The concepts of a question and the features of an example, given ready knowledge.\<close>

definition concepts_of :: "knowledge_registry option \<Rightarrow> linked_query_context \<Rightarrow> string set" where
  "concepts_of kb c = projr (context_business_concepts kb c)"

definition features_of :: "knowledge_registry option \<Rightarrow> query_example \<Rightarrow> feature_sets" where
  "features_of kb e = projr (compute_features kb e)"

definition relevance_in :: "knowledge_registry option \<Rightarrow> linked_query_context \<Rightarrow> query_example \<Rightarrow> real" where
  "relevance_in kb c e = relevance (concepts_of kb c) c (features_of kb e) e"

lemma ready_concepts: "knowledge_ready kb \<Longrightarrow> context_business_concepts kb c = Inr (concepts_of kb c)"
  using canonicalize_ready [of kb "qc_business_concepts (lqc_query_context c)"]
  by (auto simp: concepts_of_def context_business_concepts_def)

lemma ready_features: "knowledge_ready kb \<Longrightarrow> compute_features kb e = Inr (features_of kb e)"
  using canonicalize_ready [of kb "ex_business_concepts e"] by (auto simp: features_of_def compute_features_def Let_def)

lemma rank_candidates_uncached:
  assumes "knowledge_ready kb" "0 < k"
  shows "\<exists>rs. rank_candidates fmt kb (make_scorer kb None None) c k es None = (Inr rs, None)
    \<and> map re_example rs = take (nat k) (sort_key (\<lambda>e. (- relevance_in kb c e, ex_id e)) es)
    \<and> (\<forall>r\<in>set rs. well_scored r \<and> re_overall_score r = relevance_in kb c (re_example r))"
proof -
  define S where "S e = projr (fst (score_example fmt (make_scorer kb None None) c e None))" for e
  have S: "score_example fmt (make_scorer kb None None) c e None = (Inr (S e), None)
      \<and> rsc_overall_score (S e) = relevance_in kb c e \<and> map sb_signal (rsc_signal_scores (S e)) = signal_order
      \<and> list_all (\<lambda>b. unit_interval (sb_weighted_score b)) (rsc_signal_scores (S e))" for e
    using score_example_default [OF ready_concepts [OF assms(1)] ready_features [OF assms(1)], of fmt c e]
    by (auto simp: S_def relevance_in_def)
  let ?sc = "map (\<lambda>e. (e, S e)) es" and ?best = "take (nat k) (sort_key (\<lambda>e. (- relevance_in kb c e, ex_id e)) es)"
  have scored: "smap (\<lambda>e. sbind (score_example fmt (make_scorer kb None None) c e) (\<lambda>s. sreturn (e, s))) es None = (Inr ?sc, None)"
    by (rule smap_pure) (simp add: sbind_def S)
  have "rank_key \<circ> (\<lambda>e. (e, S e)) = (\<lambda>e. (- relevance_in kb c e, ex_id e))"
    by (simp add: rank_key_def S comp_def)
  then have ranked: "rank_examples ?sc k = Inr (map (\<lambda>e. (e, S e)) ?best)"
    using assms(2) by (simp add: rank_examples_def sort_key_map take_map)
  define E where "E e = projr (fst (build_explanation fmt kb c (e, S e) None))" for e
  have E: "build_explanation fmt kb c (e, S e) None = (Inr (E e), None) \<and> re_example (E e) = e
      \<and> re_overall_score (E e) = relevance_in kb c e \<and> re_signal_breakdown (E e) = rsc_signal_scores (S e)" for e
    using S [of e] ready_features [OF assms(1)] ready_concepts [OF assms(1)]
    by (simp add: E_def build_explanation_def matched_business_concepts_def matched_schema_objects_def
        matched_keywords_def sbind_def features_uncached)
  have "smap (build_explanation fmt kb c) (map (\<lambda>e. (e, S e)) ?best) None
      = (Inr (map (\<lambda>p. E (fst p)) (map (\<lambda>e. (e, S e)) ?best)), None)"
    by (rule smap_pure) (use E in auto)
  with scored ranked have "rank_candidates fmt kb (make_scorer kb None None) c k es None = (Inr (map E ?best), None)"
    by (simp add: rank_candidates_def sbind_def comp_def)
  moreover have "well_scored (E e)" for e
    using E [of e] S [of e] relevance_unit [of "concepts_of kb c" c "features_of kb e" e]
    by (simp add: well_scored_def relevance_in_def)
  moreover have "map re_example (map E xs) = xs" for xs by (simp add: E comp_def)
  ultimately show ?thesis using E by (intro exI [of _ "map E ?best"]) auto
qed

lemma faithful_empty: "faithful kb es None" "faithful kb es (Some Map.empty)"
  using mem_cache.sound_cleared by (auto simp: faithful_def cache_clear_mem_def)

text \<open>The knowledge a retrieval ends up with, when the catalogue loads.\<close>

definition loaded_knowledge :: "business_knowledge_catalog \<Rightarrow> knowledge_registry option \<Rightarrow> knowledge_registry option" where
  "loaded_knowledge k kb = map_option (\<lambda>kr. Some (case kr of None \<Rightarrow> k | Some k' \<Rightarrow> k')) kb"

lemma load_sources_loaded:
  assumes "rv_library s = Some l \<or> rv_library s = None \<and> ls = Inr l"
  shows "load_sources ls (Inr k) s = (Inr (ql_examples l),
     s \<lparr> rv_library := Some l, rv_knowledge := loaded_knowledge k (rv_knowledge s) \<rparr>)"
  using assms
  by (cases "rv_knowledge s"; cases "the (rv_knowledge s)")
    (auto simp: load_sources_def library_load_def library_refresh_def value_cache_get_def value_cache_set_def
      knowledge_load_def knowledge_refresh_def find_examples_def require_library_def loaded_knowledge_def Let_def)

text \<open>
  C9. When the library and the catalogue are loaded or can be loaded, a retrieval with a positive
  \<open>top_k\<close> succeeds, from any cache that holds true features: it returns the \<open>top_k\<close> examples of
  the library that are least by (minus the score, id), where every reported score is the weighted
  sum of the eight signals and lies between 0 and 1, and the statistics describe them.
\<close>

theorem retrieve_returns_best:
  assumes "rv_library s = Some l \<or> rv_library s = None \<and> ls = Inr l" "distinct (map ex_id (ql_examples l))"
    and "faithful (loaded_knowledge k (rv_knowledge s)) (ql_examples l) (rv_cache s)"
    and "0 < top_k" "started \<le> finished"
  shows "\<exists>b s'. retrieve fmt ls (Inr k) started finished d c (Some top_k) s = (Inr b, s')
    \<and> map re_example (rkb_retrieved_examples b) = take (nat top_k)
        (sort_key (\<lambda>e. (- relevance_in (loaded_knowledge k (rv_knowledge s)) c e, ex_id e)) (ql_examples l))
    \<and> (\<forall>r\<in>set (rkb_retrieved_examples b). 0 \<le> re_overall_score r \<and> re_overall_score r \<le> 1
        \<and> re_overall_score r = relevance_in (loaded_knowledge k (rv_knowledge s)) c (re_example r))
    \<and> rst_candidate_count (rkb_statistics b) = length (ql_examples l)
    \<and> rst_average_score (rkb_statistics b) * real (length (rkb_retrieved_examples b))
        = sum_list (map re_overall_score (rkb_retrieved_examples b))
    \<and> faithful (loaded_knowledge k (rv_knowledge s)) (ql_examples l) (rv_cache s')"
proof -
  let ?kb = "loaded_knowledge k (rv_knowledge s)" and ?es = "ql_examples l"
  have ready: "knowledge_ready ?kb" by (auto simp: knowledge_ready_def loaded_knowledge_def)
  let ?m = "rank_candidates fmt ?kb (make_scorer ?kb None None) c top_k ?es"
  obtain rs where rs: "?m None = (Inr rs, None)"
    and order: "map re_example rs = take (nat top_k) (sort_key (\<lambda>e. (- relevance_in ?kb c e, ex_id e)) ?es)"
    and scores: "\<forall>r\<in>set rs. well_scored r \<and> re_overall_score r = relevance_in ?kb c (re_example r)"
    using rank_candidates_uncached [OF ready assms(4), of fmt c ?es] by (elim exE conjE) (rule that)
  obtain cache where cache: "?m (rv_cache s) = (Inr rs, cache)" "faithful ?kb ?es cache"
    using transparent_rank_candidates [OF assms(2), of ?kb fmt c top_k] assms(3) rs
    by (cases "?m (rv_cache s)") (auto simp: transparent_def)
  have "0 \<le> (finished - started) * 1000" using assms(5) by simp
  from collect_statistics_ok [OF _ this assms(4), of rs "length ?es"] scores
  obtain st where st: "collect_statistics ((finished - started) * 1000) top_k (length ?es) rs = Inr st"
      "rst_candidate_count st = length ?es" "rst_average_score st * real (length rs) = sum_list (map re_overall_score rs)"
    by blast
  have "retrieve fmt ls (Inr k) started finished d c (Some top_k) s
     = (Inr \<lparr> rkb_linked_query_context = c, rkb_retrieved_examples = rs, rkb_statistics = st \<rparr>,
        s \<lparr> rv_library := Some l, rv_knowledge := ?kb, rv_cache := cache \<rparr>)"
    using assms(4) st(1) cache(1) by (simp add: retrieve_def load_sources_loaded [OF assms(1)])
  then show ?thesis using order scores st(2,3) cache(2) by (auto simp: well_scored_def unit_interval_def)
qed

text \<open>A library of one example, and a state in which nothing is loaded.\<close>

definition demo_library :: query_example_library where
  "demo_library = \<lparr> ql_examples = [demo_example], ql_loaded_at = 0 \<rparr>"

definition fresh_state :: "bool \<Rightarrow> retrieval_state" where
  "fresh_state with_knowledge =
     \<lparr> rv_library = None, rv_knowledge = (if with_knowledge then Some None else None), rv_cache = Some Map.empty \<rparr>"

theorem retrieve_returns_best_witness:
  "\<exists>b s'. retrieve (\<lambda>_. []) (Inr demo_library) (Inr \<lparr> bk_concepts = [], bk_loaded_at = 0 \<rparr>) 0 0 5 demo_linked (Some 3) (fresh_state False)
     = (Inr b, s') \<and> map re_example (rkb_retrieved_examples b) = [demo_example]
     \<and> rst_candidate_count (rkb_statistics b) = 1"
proof -
  let ?k = "\<lparr> bk_concepts = [], bk_loaded_at = 0 \<rparr> :: business_knowledge_catalog"
  have "rv_library (fresh_state False) = Some demo_library \<or> rv_library (fresh_state False) = None \<and> Inr demo_library = Inr demo_library"
    by (simp add: fresh_state_def)
  moreover have "distinct (map ex_id (ql_examples demo_library))" by (simp add: demo_library_def)
  moreover have "faithful (loaded_knowledge ?k (rv_knowledge (fresh_state False))) (ql_examples demo_library) (rv_cache (fresh_state False))"
    by (simp add: fresh_state_def faithful_empty)
  ultimately show ?thesis
    using retrieve_returns_best [of "fresh_state False" demo_library "Inr demo_library" ?k 3 0 0 "\<lambda>_. []" 5 demo_linked]
    by (fastforce simp: demo_library_def)
qed

section \<open>Runs\<close>

record retrieval_request =
  rq_started :: real
  rq_finished :: real
  rq_context :: linked_query_context
  rq_top_k :: "int option"

definition serve_retrieval ::
  "(real \<Rightarrow> string) \<Rightarrow> (catalog_error + query_example_library) \<Rightarrow> (registry_error + business_knowledge_catalog) \<Rightarrow>
   retrieval_request \<Rightarrow> (retrieval_state, retrieval_error, retrieved_knowledge_bundle) op" where
  "serve_retrieval fmt ls cs q = retrieve fmt ls cs (rq_started q) (rq_finished q) DEFAULT_TOP_K (rq_context q) (rq_top_k q)"

fun serve_retrievals ::
  "(real \<Rightarrow> string) \<Rightarrow> (catalog_error + query_example_library) \<Rightarrow> (registry_error + business_knowledge_catalog) \<Rightarrow>
   retrieval_request list \<Rightarrow> retrieval_state \<Rightarrow> (retrieval_error + retrieved_knowledge_bundle) list" where
  "serve_retrievals fmt ls cs [] s = []"
| "serve_retrievals fmt ls cs (q # qs) s = (let (r, s') = serve_retrieval fmt ls cs q s in r # serve_retrievals fmt ls cs qs s')"

text \<open>What holds between two retrievals: nothing but the loaded values and true features is kept.\<close>

definition final_knowledge :: "(registry_error + business_knowledge_catalog) \<Rightarrow> bool \<Rightarrow> knowledge_registry option" where
  "final_knowledge cs wk = (if wk then Some (case cs of Inl _ \<Rightarrow> None | Inr k \<Rightarrow> Some k) else None)"

definition between ::
  "(catalog_error + query_example_library) \<Rightarrow> (registry_error + business_knowledge_catalog) \<Rightarrow> bool \<Rightarrow> retrieval_state \<Rightarrow> bool" where
  "between ls cs wk s =
     ((rv_library s = None \<and> rv_knowledge s = rv_knowledge (fresh_state wk) \<or> (\<exists>l. ls = Inr l \<and> rv_library s = Some l))
      \<and> (if wk then rv_knowledge s = Some None \<or> (\<exists>k. cs = Inr k \<and> rv_knowledge s = Some (Some k)) else rv_knowledge s = None)
      \<and> (\<forall>l. ls = Inr l \<longrightarrow> faithful (final_knowledge cs wk) (ql_examples l) (rv_cache s)))"

lemma between_cache:
  "between ls cs wk s \<Longrightarrow> (\<And>l. ls = Inr l \<Longrightarrow> faithful (final_knowledge cs wk) (ql_examples l) x)
   \<Longrightarrow> between ls cs wk (s \<lparr> rv_cache := x \<rparr>)"
  by (cases s) (auto simp: between_def)

lemma load_sources_between:
  assumes "between ls cs wk s"
  shows "\<exists>r lib kb. load_sources ls cs s = (r, s \<lparr> rv_library := lib, rv_knowledge := kb \<rparr>)
    \<and> load_sources ls cs ((fresh_state wk) \<lparr> rv_cache := None \<rparr>)
        = (r, (fresh_state wk) \<lparr> rv_cache := None, rv_library := lib, rv_knowledge := kb \<rparr>)
    \<and> between ls cs wk (s \<lparr> rv_library := lib, rv_knowledge := kb \<rparr>)
    \<and> (\<forall>es. r = Inr es \<longrightarrow> (\<exists>l. ls = Inr l \<and> es = ql_examples l)
        \<and> kb = final_knowledge cs wk)"
proof -
  note defs = load_sources_def library_load_def library_refresh_def value_cache_get_def value_cache_set_def
    knowledge_load_def knowledge_refresh_def find_examples_def require_library_def fresh_state_def between_def final_knowledge_def Let_def
  show ?thesis
  proof (cases ls)
    case (Inl e)
    then show ?thesis using assms by (cases s) (auto simp: defs)
  next
    case (Inr l)
    then show ?thesis using assms by (cases s; cases wk; cases cs) (auto simp: defs)
  qed
qed

lemma serve_between:
  assumes "between ls cs wk s" "\<And>l. ls = Inr l \<Longrightarrow> distinct (map ex_id (ql_examples l))"
  shows "fst (serve_retrieval fmt ls cs q s) = fst (serve_retrieval fmt ls cs q ((fresh_state wk) \<lparr> rv_cache := None \<rparr>))
    \<and> between ls cs wk (snd (serve_retrieval fmt ls cs q s))"
proof (cases "(case rq_top_k q of Some k \<Rightarrow> k | None \<Rightarrow> DEFAULT_TOP_K) \<le> 0")
  case True
  then show ?thesis using assms(1) by (simp add: serve_retrieval_def retrieve_def Let_def)
next
  case False
  let ?k = "case rq_top_k q of Some k \<Rightarrow> k | None \<Rightarrow> DEFAULT_TOP_K" and ?s0 = "(fresh_state wk) \<lparr> rv_cache := None \<rparr>"
  obtain r lib kb where ld: "load_sources ls cs s = (r, s \<lparr> rv_library := lib, rv_knowledge := kb \<rparr>)"
    and ld0: "load_sources ls cs ?s0 = (r, (fresh_state wk) \<lparr> rv_cache := None, rv_library := lib, rv_knowledge := kb \<rparr>)"
    and bt: "between ls cs wk (s \<lparr> rv_library := lib, rv_knowledge := kb \<rparr>)"
    and ok: "\<forall>es. r = Inr es \<longrightarrow> (\<exists>l. ls = Inr l \<and> es = ql_examples l)
        \<and> kb = final_knowledge cs wk"
    using load_sources_between [OF assms(1)] by (elim exE conjE) (rule that)
  show ?thesis
  proof (cases r)
    case (Inl e)
    then show ?thesis using False ld ld0 bt by (simp add: serve_retrieval_def retrieve_def Let_def)
  next
    case (Inr es)
    with ok obtain l where l: "ls = Inr l" "es = ql_examples l" by blast
    let ?m = "rank_candidates fmt kb (make_scorer kb None None) (rq_context q) ?k es"
    have "transparent (faithful kb es) ?m"
      using transparent_rank_candidates [of es kb] assms(2) [OF l(1)] l(2) by simp
    moreover have "faithful kb es (rv_cache s)"
      using bt ok Inr l by (simp add: between_def)
    ultimately have m: "fst (?m (rv_cache s)) = fst (?m None)" "snd (?m None) = None" "faithful kb es (snd (?m (rv_cache s)))"
      by (auto simp: transparent_def)
    then have bt': "between ls cs wk (s \<lparr> rv_library := lib, rv_knowledge := kb, rv_cache := snd (?m (rv_cache s)) \<rparr>)"
      using between_cache [OF bt] ok Inr l by simp
    show ?thesis using False ld ld0 Inr m bt'
      by (cases "?m (rv_cache s)"; cases "?m None"; cases "fst (?m None)") (simp_all add: serve_retrieval_def retrieve_def Let_def)
  qed
qed

text \<open>
  C10. In every run of an engine whose library comes from a file the answers, errors included, are
  those an engine without any cache gives to each request on its own: neither the feature cache
  nor the loaded registries carry anything from one question to the next.
\<close>

theorem retrieval_cache_transparent:
  "serve_retrievals fmt (load_library now sr path) cs qs (fresh_state wk)
     = map (\<lambda>q. fst (serve_retrieval fmt (load_library now sr path) cs q ((fresh_state wk) \<lparr> rv_cache := None \<rparr>))) qs"
proof -
  let ?ls = "load_library now sr path"
  have dist: "distinct (map ex_id (ql_examples l))" if "?ls = Inr l" for l
    using load_library_Inr [OF that] by simp
  have "between ?ls cs wk s \<Longrightarrow> serve_retrievals fmt ?ls cs qs s
      = map (\<lambda>q. fst (serve_retrieval fmt ?ls cs q ((fresh_state wk) \<lparr> rv_cache := None \<rparr>))) qs" for s
  proof (induction qs arbitrary: s)
    case (Cons q qs)
    from serve_between [OF Cons.prems dist, of fmt q] Cons.IH show ?case
      by (cases "serve_retrieval fmt ?ls cs q s") simp
  qed simp
  moreover have "between ?ls cs wk (fresh_state wk)"
    by (simp add: between_def fresh_state_def faithful_empty)
  ultimately show ?thesis by blast
qed

end
