(* ===== verification/Calendar.thy ===== *)
theory Calendar
  imports Data_Model Regex
begin

text \<open>
  Dates of the standard library: a \<open>date\<close> is its ordinal, \<open>datetime.date\<close> and
  \<open>calendar.monthrange\<close> are computed on year, month and day, and \<open>datetime.strptime\<close> is modelled
  for the directives the sources use, with the English month names of the C locale.
\<close>

record civil =
  cv_year :: int
  cv_month :: int
  cv_day :: int

definition is_leap :: "int \<Rightarrow> bool" where
  "is_leap y = (4 dvd y \<and> (\<not> 100 dvd y \<or> 400 dvd y))"

definition days_in_month :: "int \<Rightarrow> int \<Rightarrow> int" where
  "days_in_month y m = (if m = 2 then (if is_leap y then 29 else 28) else if m \<in> {4, 6, 9, 11} then 30 else 31)"

definition days_before_year :: "int \<Rightarrow> int" where
  "days_before_year y = (y - 1) * 365 + (y - 1) div 4 - (y - 1) div 100 + (y - 1) div 400"

definition days_before_month :: "int \<Rightarrow> int \<Rightarrow> int" where
  "days_before_month y m = sum_list (map (days_in_month y) [1..m - 1])"

definition ordinal_of :: "civil \<Rightarrow> date" where
  "ordinal_of c = days_before_year (cv_year c) + days_before_month (cv_year c) (cv_month c) + cv_day c"

definition valid_civil :: "civil \<Rightarrow> bool" where
  "valid_civil c = (1 \<le> cv_year c \<and> cv_year c \<le> 9999 \<and> 1 \<le> cv_month c \<and> cv_month c \<le> 12
     \<and> 1 \<le> cv_day c \<and> cv_day c \<le> days_in_month (cv_year c) (cv_month c))"

text \<open>\<open>date(y, m, d)\<close>; \<open>None\<close> is \<open>ValueError\<close>.\<close>

definition make_date :: "int \<Rightarrow> int \<Rightarrow> int \<Rightarrow> date option" where
  "make_date y m d = (let c = \<lparr> cv_year = y, cv_month = m, cv_day = d \<rparr> in
     if valid_civil c then Some (ordinal_of c) else None)"

text \<open>From \<open>date.min\<close> to \<open>date.max\<close>; leaving the range is \<open>OverflowError\<close>.\<close>

definition date_in_range :: "date \<Rightarrow> bool" where
  "date_in_range n = (1 \<le> n \<and> n \<le> 3652059)"

text \<open>Monday is 0.\<close>

definition weekday :: "date \<Rightarrow> int" where
  "weekday n = (n + 6) mod 7"

section \<open>Parsing with a format\<close>

datatype date_directive = D_Y | D_m | D_d | D_B | D_b | D_Lit char

definition full_month_names :: "string list" where
  "full_month_names = [''january'', ''february'', ''march'', ''april'', ''may'', ''june'', ''july'', ''august'',
     ''september'', ''october'', ''november'', ''december'']"

definition short_month_names :: "string list" where
  "short_month_names = map (take 3) full_month_names"

definition digit_in :: "string \<Rightarrow> rx" where
  "digit_in ds = RClass (\<lambda>c. c \<in> set ds)"

text \<open>
  The pattern of a directive; month names are tried longest first and letters match in either
  case; white space in a format stands for any white space. Group 1 is the year, 2 the number of
  the month, 3 the day, 4 and 5 the names.
\<close>

fun directive_rx :: "date_directive \<Rightarrow> rx" where
  "directive_rx D_Y = RGroup 1 (rtimes 4 rdigit)"
| "directive_rx D_m = RGroup 2 (ralt [RSeq (rlit ''1'') (digit_in ''012''), RSeq (rlit ''0'') (digit_in ''123456789''),
     digit_in ''123456789''])"
| "directive_rx D_d = RGroup 3 (ralt [RSeq (rlit ''3'') (digit_in ''01''), RSeq (digit_in ''12'') rdigit,
     RSeq (rlit ''0'') (digit_in ''123456789''), digit_in ''123456789'', RSeq (rlit '' '') (digit_in ''123456789'')])"
| "directive_rx D_B = RGroup 4 (ralt (map rlit_ci (sort_key (\<lambda>n. - int (length n)) full_month_names)))"
| "directive_rx D_b = RGroup 5 (ralt (map rlit_ci short_month_names))"
| "directive_rx (D_Lit c) = (if is_space c then rspaces else RClass (\<lambda>d. d = c))"

fun index_of :: "string \<Rightarrow> string list \<Rightarrow> nat" where
  "index_of x [] = 0"
| "index_of x (y # ys) = (if x = y then 0 else Suc (index_of x ys))"

definition group_number :: "string \<Rightarrow> rx_match \<Rightarrow> nat \<Rightarrow> int option" where
  "group_number s m g = map_option (\<lambda>t. int (digits_value (filter is_digit t))) (group_text s m g)"

definition parsed_month :: "string \<Rightarrow> rx_match \<Rightarrow> int" where
  "parsed_month s m =
     (case group_number s m 2 of Some n \<Rightarrow> n | None \<Rightarrow>
     (case group_text s m 4 of Some t \<Rightarrow> int (index_of (lower t) full_month_names) + 1 | None \<Rightarrow>
     (case group_text s m 5 of Some t \<Rightarrow> int (index_of (lower t) short_month_names) + 1 | None \<Rightarrow> 1)))"

text \<open>\<open>None\<close> is \<open>ValueError\<close>: no match, unconverted data, or no such day.\<close>

definition strptime :: "string \<Rightarrow> date_directive list \<Rightarrow> date option" where
  "strptime token fmt =
     (case match_at (rseq (map directive_rx fmt)) token 0 of
        None \<Rightarrow> None
      | Some m \<Rightarrow>
          if m_end m \<noteq> length token then None
          else make_date (case group_number token m 1 of Some y \<Rightarrow> y | None \<Rightarrow> 1900) (parsed_month token m)
                 (case group_number token m 3 of Some d \<Rightarrow> d | None \<Rightarrow> 1))"

section \<open>Laws\<close>

lemma div_pred:
  fixes y d :: int
  assumes "1 < d"
  shows "y div d = (y - 1) div d + (if d dvd y then 1 else 0)"
proof (cases "d dvd y")
  case True
  then obtain k where k: "y = d * k" ..
  then have "y - 1 = d * (k - 1) + (d - 1)" by (simp add: right_diff_distrib)
  then have "(y - 1) div d = k - 1" by (rule int_div_pos_eq) (use assms in simp_all)
  then show ?thesis using True k assms by simp
next
  case False
  then have "0 < y mod d" using pos_mod_sign [of d y] assms by (simp add: dvd_eq_mod_eq_0 order_less_le)
  moreover have "y mod d < d" using assms by simp
  moreover have "y - 1 = d * (y div d) + (y mod d - 1)" using mult_div_mod_eq [of d y] by linarith
  ultimately have "(y - 1) div d = y div d" using int_div_pos_eq [of "y - 1" d "y div d" "y mod d - 1"] by simp
  then show ?thesis using False by simp
qed

lemma days_before_year_Suc: "days_before_year (y + 1) = days_before_year y + (if is_leap y then 366 else 365)"
proof -
  have d: "(400::int) dvd y \<Longrightarrow> 100 dvd y" "(100::int) dvd y \<Longrightarrow> 4 dvd y"
    by (erule dvd_trans [rotated], simp)+
  define a b c where "a = y div 4" and "b = y div 100" and "c = y div 400"
  define a' b' c' where "a' = (y - 1) div 4" and "b' = (y - 1) div 100" and "c' = (y - 1) div 400"
  have "days_before_year (y + 1) = y * 365 + a - b + c"
    by (simp only: days_before_year_def a_def b_def c_def add_diff_cancel_right')
  moreover have "days_before_year y = (y - 1) * 365 + a' - b' + c'"
    by (simp only: days_before_year_def a'_def b'_def c'_def)
  moreover have "a = a' + (if 4 dvd y then 1 else 0)" "b = b' + (if 100 dvd y then 1 else 0)" "c = c' + (if 400 dvd y then 1 else 0)"
    unfolding a_def b_def c_def a'_def b'_def c'_def by (rule div_pred, simp)+
  moreover define P Q R where "P = (4 dvd y)" and "Q = (100 dvd y)" and "R = (400 dvd y)"
  ultimately show ?thesis using d unfolding is_leap_def P_def [symmetric] Q_def [symmetric] R_def [symmetric]
    by (cases P; cases Q; cases R) simp_all
qed

lemma days_before_month_Suc: "1 \<le> m \<Longrightarrow> days_before_month y (m + 1) = days_before_month y m + days_in_month y m"
  by (simp add: days_before_month_def upto_rec2)

lemma days_before_month_1 [simp]: "days_before_month y 1 = 0"
  by (simp add: days_before_month_def)

lemma year_length: "days_before_month y 13 = (if is_leap y then 366 else 365)"
  by (simp add: days_before_month_def upto.simps days_in_month_def)

lemma weekday_bounds: "0 \<le> weekday n" "weekday n \<le> 6"
  by (simp_all add: weekday_def)

end
