(* ===== verification/Nlu.thy ===== *)
theory Nlu
  imports Data_Model Regex Calendar
begin

text \<open>
  Understanding a question (\<open>nlu/\<close>): the normaliser, the intent classifier, the extractors of
  entities, metrics, filters, sort orders, limits and time expressions, and the parser that
  composes them into a query context. Every table of phrases is the table of the source, every
  pattern the pattern of the source.
\<close>

datatype nlu_error = EmptyQuestionError | N_ValidationError | N_ValueError | N_DateError

section \<open>Normalisation (normalizer.py)\<close>

definition CONTRACTIONS :: "(string, string) dict" where
  "CONTRACTIONS =
     [((''what'' @ [CHR 0x27] @ ''s''), ''what is''), ((''who'' @ [CHR 0x27] @ ''s''), ''who is''),
      ((''how'' @ [CHR 0x27] @ ''s''), ''how is''), ((''where'' @ [CHR 0x27] @ ''s''), ''where is''),
      ((''let'' @ [CHR 0x27] @ ''s''), ''let us''), ((''don'' @ [CHR 0x27] @ ''t''), ''do not''),
      ((''doesn'' @ [CHR 0x27] @ ''t''), ''does not''), ((''didn'' @ [CHR 0x27] @ ''t''), ''did not''),
      ((''isn'' @ [CHR 0x27] @ ''t''), ''is not''), ((''aren'' @ [CHR 0x27] @ ''t''), ''are not''),
      ((''wasn'' @ [CHR 0x27] @ ''t''), ''was not''), ((''weren'' @ [CHR 0x27] @ ''t''), ''were not''),
      ((''can'' @ [CHR 0x27] @ ''t''), ''cannot''), ((''won'' @ [CHR 0x27] @ ''t''), ''will not''),
      ((''i'' @ [CHR 0x27] @ ''m''), ''i am''), ((''it'' @ [CHR 0x27] @ ''s''), ''it is''),
      ((''there'' @ [CHR 0x27] @ ''s''), ''there is'')]"

definition is_end_mark :: "char \<Rightarrow> bool" where
  "is_end_mark c = (c \<in> {CHR ''?'', CHR ''!'', CHR ''.''})"

definition expand_contractions :: "string \<Rightarrow> string" where
  "expand_contractions s = fold (\<lambda>(contraction, expansion) t. rx_sub (rword contraction) expansion t) CONTRACTIONS s"

definition normalize_question :: "string \<Rightarrow> string" where
  "normalize_question question =
     (let t1 = lower (strip question);
          t2 = rx_sub (RSeq (rplus (RClass is_end_mark)) REnd) [] t1;
          t3 = expand_contractions t2;
          t4 = rx_sub rspaces '' '' t3
      in strip t4)"

section \<open>Intents (intents.py)\<close>

definition counted :: "string \<Rightarrow> rx" where
  "counted w = rseq [RBoundary, rlit w, rspaces, rplus rdigit, RBoundary]"

definition INTENT_RULES :: "(intent \<times> rx list \<times> real) list" where
  "INTENT_RULES =
     [(Intent_Top_N,
       [counted ''top'', counted ''bottom'', counted ''first'', counted ''best'', counted ''worst''],
       95 / 100),
      (Intent_Trend,
       [rword ''trend'', rword ''trending'', rword ''over time'', rword ''month over month'',
        rword ''year over year'', rword ''growth'', rword ''change over''],
       90 / 100),
      (Intent_Comparison,
       [rword ''compare'', rword ''comparison'', rword ''versus'',
        rseq [RBoundary, rlit ''vs'', ropt (rlit ''.''), RBoundary], rword ''difference between''],
       90 / 100),
      (Intent_Count,
       [rword ''how many'', rword ''count of'', rword ''number of'', rword ''count''],
       90 / 100),
      (Intent_Average,
       [rword ''average'', rword ''avg'', rword ''mean''],
       90 / 100),
      (Intent_Sum,
       [rword ''total'', rword ''sum of'', rword ''sum''],
       85 / 100),
      (Intent_Max,
       [rword ''maximum'', rword ''highest'', rword ''most expensive'', rword ''largest'',
        RSeq (RNotBehind ''at '') (rword ''most'')],
       85 / 100),
      (Intent_Min,
       [rword ''minimum'', rword ''lowest'', rword ''cheapest'', rword ''smallest'',
        RSeq (RNotBehind ''at '') (rword ''least'')],
       85 / 100),
      (Intent_Aggregation,
       [rword ''by region'', rword ''by category'', rword ''by month'', rword ''by year'', rword ''broken down'',
        rseq [RBoundary, rlit ''group'', ropt (rlit ''ed''), rlit '' by'', RBoundary], rword ''per''],
       75 / 100),
      (Intent_Detail,
       [rword ''show me'', rword ''show'', rword ''list'',
        rseq [RBoundary, rlit ''detail'', ropt (rlit ''s''), rlit '' of'', RBoundary], rword ''who is'',
        rword ''what is'', rword ''which''],
       60 / 100)]"

definition classify :: "string \<Rightarrow> intent \<times> real" where
  "classify q = (case next_where (\<lambda>(_, patterns, _). \<exists>p\<in>set patterns. search p q \<noteq> None) INTENT_RULES of
     Some (i, _, confidence) \<Rightarrow> (i, confidence)
   | None \<Rightarrow> (Intent_Select, 4/10))"

section \<open>Vocabulary matches and entities (entities.py)\<close>

definition ENTITY_SYNONYMS :: "(string, string) dict" where
  "ENTITY_SYNONYMS =
     [(''customers'', ''customer''), (''customer'', ''customer''), (''clients'', ''customer''),
      (''client'', ''customer''), (''buyers'', ''customer''), (''buyer'', ''customer''),
      (''shoppers'', ''customer''), (''shopper'', ''customer''), (''order items'', ''order_item''),
      (''order item'', ''order_item''), (''line items'', ''order_item''), (''line item'', ''order_item''),
      (''orders'', ''order''), (''order'', ''order''), (''purchases'', ''order''), (''purchase'', ''order''),
      (''product categories'', ''category''), (''product category'', ''category''), (''categories'', ''category''),
      (''category'', ''category''), (''products'', ''product''), (''product'', ''product''),
      (''items'', ''product''), (''item'', ''product''), (''skus'', ''product''), (''sku'', ''product''),
      (''suppliers'', ''supplier''), (''supplier'', ''supplier''), (''vendors'', ''supplier''),
      (''vendor'', ''supplier''), (''warehouses'', ''warehouse''), (''warehouse'', ''warehouse''),
      (''payments'', ''payment''), (''payment'', ''payment''), (''transactions'', ''payment''),
      (''transaction'', ''payment''), (''shipments'', ''shipment''), (''shipment'', ''shipment''),
      (''deliveries'', ''shipment''), (''delivery'', ''shipment''), (''reviews'', ''review''),
      (''review'', ''review''), (''ratings'', ''review''), (''rating'', ''review''), (''returns'', ''return''),
      (''return'', ''return''), (''refunds'', ''return''), (''refund'', ''return''), (''promotions'', ''promotion''),
      (''promotion'', ''promotion''), (''promo codes'', ''promotion''), (''promo code'', ''promotion''),
      (''inventory'', ''inventory''), (''stock'', ''inventory'')]"

definition DIMENSION_SYNONYMS :: "(string, string) dict" where
  "DIMENSION_SYNONYMS =
     [(''regions'', ''region''), (''region'', ''region''), (''countries'', ''country''), (''country'', ''country''),
      (''states'', ''state''), (''state'', ''state''), (''cities'', ''city''), (''city'', ''city''),
      (''customer segment'', ''customer_segment''), (''customer segments'', ''customer_segment''),
      (''segments'', ''customer_segment''), (''segment'', ''customer_segment''),
      (''sales channel'', ''sales_channel''), (''sales channels'', ''sales_channel''),
      (''channels'', ''sales_channel''), (''channel'', ''sales_channel''), (''order status'', ''order_status''),
      (''status'', ''order_status''), (''payment method'', ''payment_method''),
      (''payment methods'', ''payment_method''), (''carriers'', ''carrier''), (''carrier'', ''carrier''),
      (''gender'', ''gender''), (''product name'', ''product_name'')]"

type_synonym span = "nat \<times> nat"

definition overlaps :: "span \<Rightarrow> span list \<Rightarrow> bool" where
  "overlaps sp claimed = (\<exists>(start, stop)\<in>set claimed. fst sp < stop \<and> start < snd sp)"

definition m_span :: "rx_match \<Rightarrow> span" where
  "m_span m = (m_start m, m_end m)"

text \<open>\<open>sorted(d, key=len, reverse=True)\<close>: longest first, equal lengths in their order.\<close>

definition longest_first :: "string list \<Rightarrow> string list" where
  "longest_first ps = sort_key (\<lambda>p. - int (length p)) ps"

fun claim_phrases ::
  "string \<Rightarrow> (string, string) dict \<Rightarrow> string list \<Rightarrow> span list \<Rightarrow> (string, nat \<times> string) dict \<Rightarrow> (string, nat \<times> string) dict" where
  "claim_phrases s vocabulary [] claimed found = found"
| "claim_phrases s vocabulary (phrase # ps) claimed found =
     (let canonical = the (map_of vocabulary phrase) in
      if map_of found canonical \<noteq> None then claim_phrases s vocabulary ps claimed found
      else case next_where (\<lambda>m. \<not> overlaps (m_span m) claimed) (finditer (rword phrase) s) of
             None \<Rightarrow> claim_phrases s vocabulary ps claimed found
           | Some m \<Rightarrow> claim_phrases s vocabulary ps (claimed @ [m_span m])
                         (AList.update canonical (m_start m, group0 s m) found))"

definition find_vocabulary_matches :: "string \<Rightarrow> (string, string) dict \<Rightarrow> (string \<times> nat \<times> string) list" where
  "find_vocabulary_matches s vocabulary =
     sort_key (\<lambda>(_, position, _). position) (claim_phrases s vocabulary (longest_first (map fst vocabulary)) [] [])"

record entity_extraction_result =
  er_primary_entity :: "string option"
  er_secondary_entities :: "string list"
  er_dimensions :: "string list"

definition extract_entities :: "string \<Rightarrow> entity_extraction_result" where
  "extract_entities q =
     (let entities = map fst (find_vocabulary_matches q ENTITY_SYNONYMS);
          dimensions = map fst (find_vocabulary_matches q DIMENSION_SYNONYMS)
      in \<lparr> er_primary_entity = (case entities of [] \<Rightarrow> None | e # _ \<Rightarrow> Some e),
           er_secondary_entities = drop 1 entities, er_dimensions = dimensions \<rparr>)"

section \<open>Metrics (metrics.py)\<close>

definition METRIC_SYNONYMS :: "(string, string) dict" where
  "METRIC_SYNONYMS =
     [(''total sales'', ''revenue''), (''gross merchandise value'', ''revenue''), (''revenue'', ''revenue''),
      (''sales'', ''revenue''), (''gmv'', ''revenue''), (''profit'', ''profit''), (''margin'', ''profit''),
      (''average order value'', ''average_order_value''), (''aov'', ''average_order_value''),
      (''order value'', ''order_value''), (''order count'', ''order_count''),
      (''number of orders'', ''order_count''), (''quantity sold'', ''quantity''), (''units sold'', ''quantity''),
      (''quantity'', ''quantity''), (''unit price'', ''price''), (''price'', ''price''), (''cost price'', ''cost''),
      (''cost'', ''cost''), (''discount amount'', ''discount_amount''), (''discount'', ''discount_amount''),
      (''tax amount'', ''tax_amount''), (''tax'', ''tax_amount''), (''shipping cost'', ''shipping_amount''),
      (''shipping fee'', ''shipping_amount''), (''return rate'', ''return_rate''),
      (''average rating'', ''review_rating''), (''review rating'', ''review_rating''),
      (''rating'', ''review_rating''), (''inventory level'', ''inventory_level''),
      (''stock level'', ''inventory_level''), (''quantity on hand'', ''inventory_level''),
      (''lead time'', ''lead_time'')]"

definition AGGREGATION_KEYWORDS :: "(string, aggregation_type) dict" where
  "AGGREGATION_KEYWORDS =
     [(''sum of'', Agg_Sum), (''total'', Agg_Sum), (''sum'', Agg_Sum), (''average'', Agg_Average),
      (''avg'', Agg_Average), (''mean'', Agg_Average), (''count of'', Agg_Count), (''number of'', Agg_Count),
      (''how many'', Agg_Count), (''count'', Agg_Count), (''minimum'', Agg_Min), (''lowest'', Agg_Min),
      (''smallest'', Agg_Min), (''cheapest'', Agg_Min), (''min'', Agg_Min), (''maximum'', Agg_Max),
      (''highest'', Agg_Max), (''largest'', Agg_Max), (''max'', Agg_Max)]"

definition AGGREGATION_WINDOW :: nat where
  "AGGREGATION_WINDOW = 20"

fun best_aggregation ::
  "string \<Rightarrow> (string, aggregation_type) dict \<Rightarrow> (nat \<times> aggregation_type) option \<Rightarrow> (nat \<times> aggregation_type) option" where
  "best_aggregation window [] best = best"
| "best_aggregation window ((keyword, aggregation) # ks) best =
     (case search (rword keyword) window of
        None \<Rightarrow> best_aggregation window ks best
      | Some m \<Rightarrow>
          if (case best of None \<Rightarrow> True | Some (p, _) \<Rightarrow> p < m_start m)
          then best_aggregation window ks (Some (m_start m, aggregation))
          else best_aggregation window ks best)"

definition find_aggregation_before :: "string \<Rightarrow> nat \<Rightarrow> aggregation_type option" where
  "find_aggregation_before s position =
     map_option snd (best_aggregation (slice s (position - AGGREGATION_WINDOW) position) AGGREGATION_KEYWORDS None)"

definition extract_metrics :: "string \<Rightarrow> metric_expression list" where
  "extract_metrics q = map (\<lambda>(canonical, position, raw).
     \<lparr> me_name = canonical, me_aggregation = find_aggregation_before q position, me_raw_text = raw \<rparr>)
     (find_vocabulary_matches q METRIC_SYNONYMS)"

section \<open>Filters (filters.py)\<close>

abbreviation az_plus :: rx where
  "az_plus \<equiv> rplus (RClass is_az)"

definition field_rx :: rx where
  "field_rx = RSeq (rupto 2 (RSeq az_plus rspaces)) az_plus"

definition number_rx :: rx where
  "number_rx = rseq [ropt (rlit ''$''), rdigit, RStar (RClass (\<lambda>c. is_digit c \<or> c = CHR '','')),
     ropt (RSeq (rlit ''.'') (rplus rdigit))]"

definition words_rx :: rx where
  "words_rx = RSeq az_plus (rupto 3 (RSeq (RClass is_space) az_plus))"

text \<open>Group 1 is \<open>field\<close>, group 2 is \<open>value\<close>.\<close>

definition comparator :: "string list \<Rightarrow> rx \<Rightarrow> rx" where
  "comparator phrases v = rseq [RGroup 1 field_rx, rspaces, ralt (map rlit phrases), rspaces, RGroup 2 v]"

definition COMPARATOR_PATTERNS :: "(rx \<times> comparison_operator) list" where
  "COMPARATOR_PATTERNS =
     [(comparator [''at least''] number_rx, Op_Greater_Than_Or_Equal),
      (comparator [''at most''] number_rx, Op_Less_Than_Or_Equal),
      (comparator [''greater than or equal to''] number_rx, Op_Greater_Than_Or_Equal),
      (comparator [''less than or equal to''] number_rx, Op_Less_Than_Or_Equal),
      (comparator [''greater than'', ''more than'', ''above'', ''over''] number_rx, Op_Greater_Than),
      (comparator [''less than'', ''fewer than'', ''under'', ''below''] number_rx, Op_Less_Than),
      (comparator [''not equal to'', ''not equals'', ''excluding'', ''except''] (RAlt words_rx number_rx), Op_Not_Equals),
      (comparator [''equal to'', ''equals''] (RAlt words_rx number_rx), Op_Equals),
      (comparator [''containing'', ''contains'', ''like'', ''named''] words_rx, Op_Contains),
      (comparator [''in''] words_rx, Op_In)]"

text \<open>\<open>{**ENTITY_SYNONYMS, **DIMENSION_SYNONYMS, **METRIC_SYNONYMS}\<close>.\<close>

definition KNOWN_FIELDS :: "(string, string) dict" where
  "KNOWN_FIELDS = fold (\<lambda>(k, v). AList.update k v) (ENTITY_SYNONYMS @ DIMENSION_SYNONYMS @ METRIC_SYNONYMS) []"

definition nonempty_tails :: "'a list \<Rightarrow> 'a list list" where
  "nonempty_tails xs = map (\<lambda>n. drop n xs) [0..<length xs]"

definition resolve_field :: "string \<Rightarrow> string option" where
  "resolve_field candidate =
     (case next_where (\<lambda>phrase. map_of KNOWN_FIELDS phrase \<noteq> None)
             (map (join '' '') (nonempty_tails (split_words (strip candidate) []))) of
        None \<Rightarrow> None | Some phrase \<Rightarrow> map_of KNOWN_FIELDS phrase)"

text \<open>\<open>s.rstrip('.,?!')\<close>.\<close>

definition rstrip_marks :: "string \<Rightarrow> string" where
  "rstrip_marks s = rev (dropWhile (\<lambda>c. c \<in> {CHR ''.'', CHR '','', CHR ''?'', CHR ''!''}) (rev s))"

definition filter_of_match :: "string \<Rightarrow> comparison_operator \<Rightarrow> rx_match \<Rightarrow> filter_expression option" where
  "filter_of_match q operator m =
     (case resolve_field (the (group_text q m 1)) of
        None \<Rightarrow> None
      | Some field \<Rightarrow>
          (let v = rstrip_marks (strip (the (group_text q m 2))) in
           if v = [] then None
           else Some \<lparr> fe_field = field, fe_operator = operator, fe_value = v, fe_raw_text = strip (group0 q m) \<rparr>))"

text \<open>The two nested loops: matches that overlap a claimed span or do not resolve are skipped.\<close>

fun claim_filters ::
  "string \<Rightarrow> comparison_operator \<Rightarrow> rx_match list \<Rightarrow> (span \<times> filter_expression) list \<Rightarrow> (span \<times> filter_expression) list" where
  "claim_filters q operator [] found = found"
| "claim_filters q operator (m # ms) found =
     (if overlaps (m_span m) (map fst found) then claim_filters q operator ms found
      else case filter_of_match q operator m of
             None \<Rightarrow> claim_filters q operator ms found
           | Some f \<Rightarrow> claim_filters q operator ms (found @ [(m_span m, f)]))"

definition find_filters :: "string \<Rightarrow> (span \<times> filter_expression) list" where
  "find_filters q = fold (\<lambda>(pat, operator) found. claim_filters q operator (finditer pat q) found) COMPARATOR_PATTERNS []"

definition extract_filters :: "string \<Rightarrow> filter_expression list" where
  "extract_filters q = map snd (sort_key (\<lambda>(sp, _). fst sp) (find_filters q))"

section \<open>Sort orders (sorting.py)\<close>

text \<open>Group 1 is \<open>field\<close>, group 2 is \<open>direction\<close>.\<close>

definition EXPLICIT_PATTERN :: rx where
  "EXPLICIT_PATTERN = rseq
     [RAlt (RSeq (rlit ''sort'') (ropt (rlit ''ed''))) (RSeq (rlit ''order'') (ropt (rlit ''ed''))),
      rspaces, rlit ''by'', rspaces,
      RGroup 1 (RSeq az_plus (rupto_lazy 3 (RSeq (RClass is_space) az_plus))),
      ropt (RSeq rspaces (RGroup 2 (ralt (map rlit [''ascending'', ''asc'', ''descending'', ''desc''])))),
      RBoundary]"

definition SUPERLATIVE_PHRASES :: "(string, sort_direction) dict" where
  "SUPERLATIVE_PHRASES =
     [(''highest'', Descending), (''most'', Descending), (''largest'', Descending), (''greatest'', Descending),
      (''top'', Descending), (''best'', Descending), (''lowest'', Ascending), (''least'', Ascending),
      (''smallest'', Ascending), (''cheapest'', Ascending), (''bottom'', Ascending), (''worst'', Ascending)]"

definition explicit_sort :: "string \<Rightarrow> metric_expression list \<Rightarrow> sort_expression option" where
  "explicit_sort q metrics =
     (case search EXPLICIT_PATTERN q of
        None \<Rightarrow> None
      | Some m \<Rightarrow>
          (let direction = (if group_text q m 2 \<in> {Some ''asc'', Some ''ascending''} then Ascending else Descending);
               resolved = resolve_field (the (group_text q m 1));
               field = (if resolved = None \<and> metrics \<noteq> [] then Some (me_name (hd metrics)) else resolved)
           in map_option (\<lambda>f. \<lparr> se_field = f, se_direction = direction, se_raw_text = group0 q m \<rparr>) field))"

definition superlative_pattern :: "string \<Rightarrow> rx" where
  "superlative_pattern phrase =
     (if phrase = ''most'' \<or> phrase = ''least'' then RSeq (RNotBehind ''at '') (rword phrase) else rword phrase)"

definition extract_sort :: "string \<Rightarrow> metric_expression list \<Rightarrow> sort_expression option" where
  "extract_sort q metrics =
     (case explicit_sort q metrics of
        Some s \<Rightarrow> Some s
      | None \<Rightarrow>
          if metrics = [] then None
          else case next_where (\<lambda>phrase. search (superlative_pattern phrase) q \<noteq> None)
                      (longest_first (map fst SUPERLATIVE_PHRASES)) of
                 None \<Rightarrow> None
               | Some phrase \<Rightarrow> Some \<lparr> se_field = me_name (hd metrics),
                   se_direction = the (map_of SUPERLATIVE_PHRASES phrase),
                   se_raw_text = group0 q (the (search (superlative_pattern phrase) q)) \<rparr>)"

section \<open>Limits (limits.py)\<close>

definition LIMIT_PATTERN :: rx where
  "LIMIT_PATTERN = rseq [RBoundary, ralt (map rlit [''top'', ''first'', ''bottom'', ''last'', ''limit'']), rspaces,
     RGroup 1 (rplus rdigit), RBoundary]"

text \<open>
  \<open>int\<close> refuses a text of more than 4300 digits, and \<open>LimitExpression\<close> demands a positive value.
\<close>

definition INT_MAX_STR_DIGITS :: nat where
  "INT_MAX_STR_DIGITS = 4300"

definition extract_limit :: "string \<Rightarrow> nlu_error + limit_expression option" where
  "extract_limit q =
     (case search LIMIT_PATTERN q of
        None \<Rightarrow> Inr None
      | Some m \<Rightarrow>
          (let ds = the (group_text q m 1); n = int (digits_value ds) in
           if INT_MAX_STR_DIGITS < length ds then Inl N_ValueError
           else if n \<le> 0 then Inl N_ValidationError
           else Inr (Some \<lparr> le_value = n, le_raw_text = group0 q m \<rparr>)))"

section \<open>Time expressions (time.py)\<close>

definition MONTH_NAMES :: "(string, nat) dict" where
  "MONTH_NAMES =
     [(''january'', 1), (''jan'', 1), (''february'', 2), (''feb'', 2), (''march'', 3), (''mar'', 3), (''april'', 4),
      (''apr'', 4), (''may'', 5), (''june'', 6), (''jun'', 6), (''july'', 7), (''jul'', 7), (''august'', 8),
      (''aug'', 8), (''september'', 9), (''sep'', 9), (''sept'', 9), (''october'', 10), (''oct'', 10),
      (''november'', 11), (''nov'', 11), (''december'', 12), (''dec'', 12)]"

definition RELATIVE_PHRASES :: "(string, time_period) dict" where
  "RELATIVE_PHRASES =
     [(''today'', Today), (''yesterday'', Yesterday), (''this week'', This_Week), (''last week'', Last_Week),
      (''this month'', This_Month), (''last month'', Last_Month), (''this quarter'', This_Quarter),
      (''last quarter'', Last_Quarter), (''this year'', This_Year), (''last year'', Last_Year)]"

abbreviation any_month :: rx where
  "any_month \<equiv> ralt (map (\<lambda>(n, _). rlit n) MONTH_NAMES)"

definition DATE_TOKEN :: rx where
  "DATE_TOKEN = ralt
     [rseq [rtimes 4 rdigit, rlit ''-'', rtimes 2 rdigit, rlit ''-'', rtimes 2 rdigit],
      rseq [any_month, rspaces, rdigit, ropt rdigit, ropt (rlit '',''), rspaces, rtimes 4 rdigit],
      rseq [any_month, rspaces, rtimes 4 rdigit],
      rseq [rdigit, ropt rdigit, rlit ''/'', rdigit, ropt rdigit, rlit ''/'', rtimes 4 rdigit],
      rtimes 4 rdigit]"

definition BETWEEN_PATTERN :: rx where
  "BETWEEN_PATTERN = rseq [rlit ''between'', rspaces, RGroup 1 DATE_TOKEN, rspaces, rlit ''and'', rspaces, RGroup 2 DATE_TOKEN]"

definition BEFORE_PATTERN :: rx where
  "BEFORE_PATTERN = rseq [rlit ''before'', rspaces, RGroup 1 DATE_TOKEN]"

definition AFTER_PATTERN :: rx where
  "AFTER_PATTERN = rseq [rlit ''after'', rspaces, RGroup 1 DATE_TOKEN]"

definition DATE_FORMATS :: "date_directive list list" where
  "DATE_FORMATS =
     [[D_Y, D_Lit CHR ''-'', D_m, D_Lit CHR ''-'', D_d],
      [D_B, D_Lit CHR '' '', D_d, D_Lit CHR '','', D_Lit CHR '' '', D_Y],
      [D_B, D_Lit CHR '' '', D_d, D_Lit CHR '' '', D_Y],
      [D_b, D_Lit CHR '' '', D_d, D_Lit CHR '','', D_Lit CHR '' '', D_Y],
      [D_b, D_Lit CHR '' '', D_d, D_Lit CHR '' '', D_Y],
      [D_B, D_Lit CHR '' '', D_Y],
      [D_b, D_Lit CHR '' '', D_Y],
      [D_m, D_Lit CHR ''/'', D_d, D_Lit CHR ''/'', D_Y],
      [D_Y]]"

text \<open>
  A format without a day or a month parses to the first of it, which is what the two special
  cases of the source construct again.
\<close>

definition parse_date_token :: "string \<Rightarrow> date option" where
  "parse_date_token token =
     (case next_where (\<lambda>fmt. strptime token fmt \<noteq> None) DATE_FORMATS of
        None \<Rightarrow> None | Some fmt \<Rightarrow> strptime token fmt)"

definition week_bounds :: "date \<Rightarrow> nlu_error + date \<times> date" where
  "week_bounds reference =
     (let start = reference - weekday reference in
      if date_in_range start \<and> date_in_range (start + 6) then Inr (start, start + 6) else Inl N_DateError)"

definition month_bounds :: "int \<Rightarrow> int \<Rightarrow> nlu_error + date \<times> date" where
  "month_bounds year month =
     (let last_day = days_in_month year month in
      case (make_date year month 1, make_date year month last_day) of
        (Some a, Some b) \<Rightarrow> Inr (a, b) | _ \<Rightarrow> Inl N_DateError)"

definition quarter_of :: "int \<Rightarrow> int" where
  "quarter_of month = (month - 1) div 3 + 1"

definition quarter_bounds :: "int \<Rightarrow> int \<Rightarrow> nlu_error + date \<times> date" where
  "quarter_bounds year quarter =
     (let start_month = (quarter - 1) * 3 + 1 in
      case make_date year start_month 1 of
        None \<Rightarrow> Inl N_DateError
      | Some start \<Rightarrow> rbind (month_bounds year (start_month + 2)) (\<lambda>(_, stop). Inr (start, stop)))"

definition year_bounds :: "int \<Rightarrow> nlu_error + date \<times> date" where
  "year_bounds year = (case (make_date year 1 1, make_date year 12 31) of
     (Some a, Some b) \<Rightarrow> Inr (a, b) | _ \<Rightarrow> Inl N_DateError)"

definition day_bounds :: "date \<Rightarrow> nlu_error + date \<times> date" where
  "day_bounds d = (if date_in_range d then Inr (d, d) else Inl N_DateError)"

text \<open>The other periods never reach this method.\<close>

fun bounds_for :: "civil \<Rightarrow> time_period \<Rightarrow> nlu_error + date \<times> date" where
  "bounds_for ref Today = day_bounds (ordinal_of ref)"
| "bounds_for ref Yesterday = day_bounds (ordinal_of ref - 1)"
| "bounds_for ref This_Week = week_bounds (ordinal_of ref)"
| "bounds_for ref Last_Week =
     (if date_in_range (ordinal_of ref - 7) then week_bounds (ordinal_of ref - 7) else Inl N_DateError)"
| "bounds_for ref This_Month = month_bounds (cv_year ref) (cv_month ref)"
| "bounds_for ref Last_Month =
     (if cv_month ref = 1 then month_bounds (cv_year ref - 1) 12 else month_bounds (cv_year ref) (cv_month ref - 1))"
| "bounds_for ref This_Quarter = quarter_bounds (cv_year ref) (quarter_of (cv_month ref))"
| "bounds_for ref Last_Quarter =
     (let quarter = quarter_of (cv_month ref) - 1 in
      if quarter = 0 then quarter_bounds (cv_year ref - 1) 4 else quarter_bounds (cv_year ref) quarter)"
| "bounds_for ref This_Year = year_bounds (cv_year ref)"
| "bounds_for ref Last_Year = year_bounds (cv_year ref - 1)"
| "bounds_for ref Between = Inl N_DateError"
| "bounds_for ref Before = Inl N_DateError"
| "bounds_for ref After = Inl N_DateError"

definition explicit_range :: "string \<Rightarrow> time_expression option" where
  "explicit_range q =
     (case search BETWEEN_PATTERN q of
        None \<Rightarrow> None
      | Some m \<Rightarrow>
          (case (parse_date_token (the (group_text q m 1)), parse_date_token (the (group_text q m 2))) of
             (Some a, Some b) \<Rightarrow> Some \<lparr> te_period = Between, te_start_date = Some a, te_end_date = Some b,
                                       te_raw_text = group0 q m \<rparr>
           | _ \<Rightarrow> None))"

definition before_range :: "string \<Rightarrow> time_expression option" where
  "before_range q = (case search BEFORE_PATTERN q of
     None \<Rightarrow> None
   | Some m \<Rightarrow> map_option (\<lambda>d. \<lparr> te_period = Before, te_start_date = None, te_end_date = Some d, te_raw_text = group0 q m \<rparr>)
       (parse_date_token (the (group_text q m 1))))"

definition after_range :: "string \<Rightarrow> time_expression option" where
  "after_range q = (case search AFTER_PATTERN q of
     None \<Rightarrow> None
   | Some m \<Rightarrow> map_option (\<lambda>d. \<lparr> te_period = After, te_start_date = Some d, te_end_date = None, te_raw_text = group0 q m \<rparr>)
       (parse_date_token (the (group_text q m 1))))"

definition relative_range :: "civil \<Rightarrow> string \<Rightarrow> nlu_error + time_expression option" where
  "relative_range ref q =
     (case next_where (\<lambda>phrase. search (rword phrase) q \<noteq> None) (longest_first (map fst RELATIVE_PHRASES)) of
        None \<Rightarrow> Inr None
      | Some phrase \<Rightarrow>
          (let p = the (map_of RELATIVE_PHRASES phrase) in
           rbind (bounds_for ref p) (\<lambda>(a, b).
             Inr (Some \<lparr> te_period = p, te_start_date = Some a, te_end_date = Some b,
                         te_raw_text = group0 q (the (search (rword phrase) q)) \<rparr>))))"

definition extract_time :: "civil \<Rightarrow> string \<Rightarrow> nlu_error + time_expression option" where
  "extract_time ref q =
     (case explicit_range q of Some t \<Rightarrow> Inr (Some t) | None \<Rightarrow>
     (case before_range q of Some t \<Rightarrow> Inr (Some t) | None \<Rightarrow>
     (case after_range q of Some t \<Rightarrow> Inr (Some t) | None \<Rightarrow> relative_range ref q)))"

section \<open>The parser (parser.py)\<close>

fun INTENT_AGGREGATION :: "intent \<Rightarrow> aggregation_type option" where
  "INTENT_AGGREGATION Intent_Count = Some Agg_Count"
| "INTENT_AGGREGATION Intent_Sum = Some Agg_Sum"
| "INTENT_AGGREGATION Intent_Average = Some Agg_Average"
| "INTENT_AGGREGATION Intent_Min = Some Agg_Min"
| "INTENT_AGGREGATION Intent_Max = Some Agg_Max"
| "INTENT_AGGREGATION _ = None"

definition resolve_aggregation :: "intent \<Rightarrow> metric_expression list \<Rightarrow> aggregation_type option" where
  "resolve_aggregation i metrics =
     (case INTENT_AGGREGATION i of
        Some a \<Rightarrow> Some a
      | None \<Rightarrow>
          if i = Intent_Aggregation
          then case next_where (\<lambda>m. me_aggregation m \<noteq> None) metrics of
                 Some m \<Rightarrow> me_aggregation m
               | None \<Rightarrow> if metrics \<noteq> [] then Some Agg_Sum else None
          else None)"

definition collect_business_concepts ::
  "entity_extraction_result \<Rightarrow> metric_expression list \<Rightarrow> filter_expression list \<Rightarrow> string list" where
  "collect_business_concepts er metrics filters =
     dedup_by id {} ((case er_primary_entity er of None \<Rightarrow> [] | Some e \<Rightarrow> [e]) @ er_secondary_entities er
       @ er_dimensions er @ map me_name metrics @ map fe_field filters)"

definition compute_confidence :: "real \<Rightarrow> bool \<Rightarrow> bool \<Rightarrow> bool \<Rightarrow> bool \<Rightarrow> real" where
  "compute_confidence intent_confidence has_entity has_metric has_filter has_time =
     round4 (min (intent_confidence + (if has_entity then 5/100 else 0) + (if has_metric then 5/100 else 0)
       + (if has_filter then 3/100 else 0) + (if has_time then 2/100 else 0)) 1)"

text \<open>\<open>ref\<close> is the reference date that the time extractor took when the parser was built.\<close>

definition parse :: "civil \<Rightarrow> string \<Rightarrow> nlu_error + query_context" where
  "parse ref question =
     (if strip question = [] then Inl EmptyQuestionError
      else
        (let q = normalize_question question;
             (i, intent_confidence) = classify q;
             er = extract_entities q;
             metrics = extract_metrics q;
             filters = extract_filters q
         in rbind (extract_time ref q) (\<lambda>time_expr.
              let sorting = extract_sort q metrics in
              rbind (extract_limit q) (\<lambda>limit.
                let confidence = compute_confidence intent_confidence (er_primary_entity er \<noteq> None) (metrics \<noteq> [])
                                   (filters \<noteq> []) (time_expr \<noteq> None)
                in if 0 \<le> confidence \<and> confidence \<le> 1
                   then Inr \<lparr> qc_original_question = question, qc_normalized_question = q, qc_intent = i,
                     qc_primary_entity = er_primary_entity er, qc_secondary_entities = er_secondary_entities er,
                     qc_business_concepts = collect_business_concepts er metrics filters, qc_metrics = metrics,
                     qc_dimensions = er_dimensions er, qc_filters = filters, qc_time_expression = time_expr,
                     qc_sort = sorting, qc_limit = limit, qc_aggregation = resolve_aggregation i metrics,
                     qc_confidence = confidence \<rparr>
                   else Inl N_ValidationError))))"

end
