(* ===== verification/Nlu_Properties.thy ===== *)
theory Nlu_Properties
  imports Nlu
begin

text \<open>
  Correctness of question understanding: the calendar periods tile the calendar, the phrases
  recognised in a question do not overlap, and parsing is total but for two documented or
  undocumented refusals.
\<close>

section \<open>Calendar periods\<close>

lemma days_in_month_bounds: "28 \<le> days_in_month y m" "days_in_month y m \<le> 31"
  by (auto simp: days_in_month_def)

lemma days_before_month_mono: "a \<le> b \<Longrightarrow> 1 \<le> a \<Longrightarrow> days_before_month y a \<le> days_before_month y b"
proof (induction b rule: int_ge_induct)
  case (step b)
  then show ?case using days_before_month_Suc [of b y] days_in_month_bounds(1) [of y b] by simp
qed simp

lemma days_before_year_mono: "a \<le> b \<Longrightarrow> days_before_year a \<le> days_before_year b"
proof (induction b rule: int_ge_induct)
  case (step b)
  then show ?case using days_before_year_Suc [of b] by (simp split: if_splits)
qed simp

lemma next_year: "days_before_year y + days_before_month y 13 = days_before_year (y + 1)"
  by (simp add: year_length days_before_year_Suc)

lemma month_bounds_eq:
  assumes "1 \<le> y" "y \<le> 9999" "1 \<le> m" "m \<le> 12"
  shows "month_bounds y m = Inr (days_before_year y + days_before_month y m + 1, days_before_year y + days_before_month y (m + 1))"
  using assms days_in_month_bounds [of y m] days_before_month_Suc [of m y]
  by (simp add: month_bounds_def make_date_def valid_civil_def ordinal_of_def Let_def)

lemma quarter_bounds_eq:
  assumes "1 \<le> y" "y \<le> 9999" "1 \<le> q" "q \<le> 4"
  shows "quarter_bounds y q = Inr (days_before_year y + days_before_month y (3 * q - 2) + 1, days_before_year y + days_before_month y (3 * q + 1))"
proof -
  have "month_bounds y (3 * q) = Inr (days_before_year y + days_before_month y (3 * q) + 1, days_before_year y + days_before_month y (3 * q + 1))"
    by (rule month_bounds_eq) (use assms in auto)
  moreover have "make_date y (3 * q - 2) 1 = Some (days_before_year y + days_before_month y (3 * q - 2) + 1)"
    using assms days_in_month_bounds [of y "3 * q - 2"] by (simp add: make_date_def valid_civil_def ordinal_of_def Let_def)
  ultimately show ?thesis by (simp add: quarter_bounds_def Let_def algebra_simps)
qed

lemma year_bounds_eq:
  assumes "1 \<le> y" "y \<le> 9999"
  shows "year_bounds y = Inr (days_before_year y + 1, days_before_year (y + 1))"
proof -
  have "days_before_month y 13 = days_before_month y 12 + days_in_month y 12"
    using days_before_month_Suc [of 12 y] by simp
  moreover have "days_in_month y 12 = 31" "days_in_month y 1 = 31" by (simp_all add: days_in_month_def)
  ultimately show ?thesis using assms next_year [of y]
    by (simp add: year_bounds_def make_date_def valid_civil_def ordinal_of_def Let_def)
qed

lemma ordinal_in_month:
  assumes "valid_civil c"
  shows "days_before_year (cv_year c) + days_before_month (cv_year c) (cv_month c) < ordinal_of c"
    and "ordinal_of c \<le> days_before_year (cv_year c) + days_before_month (cv_year c) (cv_month c + 1)"
  using assms days_before_month_Suc [of "cv_month c" "cv_year c"] by (simp_all add: valid_civil_def ordinal_of_def)

lemma ordinal_in_span:
  assumes "valid_civil c" "1 \<le> a" "a \<le> cv_month c" "cv_month c < b"
  shows "days_before_year (cv_year c) + days_before_month (cv_year c) a < ordinal_of c"
    and "ordinal_of c \<le> days_before_year (cv_year c) + days_before_month (cv_year c) b"
  using ordinal_in_month [OF assms(1)] days_before_month_mono [of a "cv_month c" "cv_year c"]
    days_before_month_mono [of "cv_month c + 1" b "cv_year c"] assms by linarith+

lemma ordinal_range:
  assumes "valid_civil c" "1 < cv_year c" "cv_year c < 9999"
  shows "365 < ordinal_of c" "ordinal_of c \<le> 3651694"
proof -
  from assms(1) have m: "1 \<le> cv_month c" "cv_month c < 13" by (simp_all add: valid_civil_def)
  have "days_before_year 2 \<le> days_before_year (cv_year c)" "days_before_year (cv_year c + 1) \<le> days_before_year 9999"
    using assms(2,3) by (auto intro!: days_before_year_mono)
  moreover have "days_before_year 2 = 365" "days_before_year 9999 = 3651694" by (simp_all add: days_before_year_def)
  ultimately show "365 < ordinal_of c" "ordinal_of c \<le> 3651694"
    using ordinal_in_span [OF assms(1) order_refl m] next_year [of "cv_year c"] by simp_all
qed

text \<open>A period that contains the reference day, and the period that ends on the day before it.\<close>

definition tiles :: "civil \<Rightarrow> time_period \<Rightarrow> time_period \<Rightarrow> bool" where
  "tiles ref this prev = (\<exists>a b a' b'. bounds_for ref this = Inr (a, b) \<and> bounds_for ref prev = Inr (a', b')
     \<and> a \<le> ordinal_of ref \<and> ordinal_of ref \<le> b \<and> a' \<le> b' \<and> b' + 1 = a)"

lemma tilesI:
  assumes "bounds_for ref this = Inr (a, b)" "bounds_for ref prev = Inr (a', b')"
    and "a \<le> ordinal_of ref" "ordinal_of ref \<le> b" "a' \<le> b'" "b' + 1 = a"
  shows "tiles ref this prev"
  using assms by (auto simp: tiles_def)

lemma tiles_week:
  assumes "valid_civil ref" "1 < cv_year ref" "cv_year ref < 9999"
  shows "tiles ref This_Week Last_Week"
proof -
  let ?n = "ordinal_of ref"
  note r = ordinal_range [OF assms] and w = weekday_bounds [of ?n]
  have same: "weekday (?n - 7) = weekday ?n"
    using mod_add_self2 [of "?n - 1" 7] by (simp add: weekday_def add.commute)
  have cur: "bounds_for ref This_Week = Inr (?n - weekday ?n, ?n - weekday ?n + 6)"
    using r w by (simp add: week_bounds_def date_in_range_def Let_def)
  have prev: "bounds_for ref Last_Week = Inr (?n - 7 - weekday ?n, ?n - 7 - weekday ?n + 6)"
    using r w by (simp add: week_bounds_def date_in_range_def Let_def same)
  show ?thesis by (rule tilesI [OF cur prev]) (use w in auto)
qed

lemma tiles_month:
  assumes "valid_civil ref" "1 < cv_year ref"
  shows "tiles ref This_Month Last_Month"
proof -
  let ?y = "cv_year ref" and ?m = "cv_month ref"
  from assms have v: "?y \<le> 9999" "1 \<le> ?m" "?m \<le> 12" by (simp_all add: valid_civil_def)
  have cur: "bounds_for ref This_Month = Inr (days_before_year ?y + days_before_month ?y ?m + 1, days_before_year ?y + days_before_month ?y (?m + 1))"
    using month_bounds_eq [of ?y ?m] assms(2) v by simp
  show ?thesis
  proof (cases "?m = 1")
    case True
    then have prev: "bounds_for ref Last_Month = Inr (days_before_year (?y - 1) + days_before_month (?y - 1) 12 + 1, days_before_year ?y)"
      using month_bounds_eq [of "?y - 1" 12] next_year [of "?y - 1"] assms(2) v by simp
    show ?thesis using ordinal_in_month [OF assms(1)] True next_year [of "?y - 1"]
        days_before_month_Suc [of 12 "?y - 1"] days_in_month_bounds [of "?y - 1" 12]
      by (intro tilesI [OF cur prev]) auto
  next
    case False
    then have prev: "bounds_for ref Last_Month = Inr (days_before_year ?y + days_before_month ?y (?m - 1) + 1, days_before_year ?y + days_before_month ?y ?m)"
      using month_bounds_eq [of ?y "?m - 1"] assms(2) v by simp
    show ?thesis using ordinal_in_month [OF assms(1)] False v
        days_before_month_Suc [of "?m - 1" ?y] days_in_month_bounds [of ?y "?m - 1"]
      by (intro tilesI [OF cur prev]) auto
  qed
qed

lemma tiles_quarter:
  assumes "valid_civil ref" "1 < cv_year ref"
  shows "tiles ref This_Quarter Last_Quarter"
proof -
  let ?y = "cv_year ref" and ?q = "quarter_of (cv_month ref)"
  from assms have v: "?y \<le> 9999" "1 \<le> cv_month ref" "cv_month ref \<le> 12" by (simp_all add: valid_civil_def)
  then have q: "1 \<le> ?q" "?q \<le> 4" "3 * ?q - 2 \<le> cv_month ref" "cv_month ref < 3 * ?q + 1"
    unfolding quarter_of_def by presburger+
  have cur: "bounds_for ref This_Quarter = Inr (days_before_year ?y + days_before_month ?y (3 * ?q - 2) + 1, days_before_year ?y + days_before_month ?y (3 * ?q + 1))"
    using quarter_bounds_eq [of ?y ?q] assms(2) v(1) q by simp
  have inside: "days_before_year ?y + days_before_month ?y (3 * ?q - 2) < ordinal_of ref"
      "ordinal_of ref \<le> days_before_year ?y + days_before_month ?y (3 * ?q + 1)"
    using ordinal_in_span [OF assms(1), of "3 * ?q - 2" "3 * ?q + 1"] q by auto
  show ?thesis
  proof (cases "?q = 1")
    case True
    then have prev: "bounds_for ref Last_Quarter = Inr (days_before_year (?y - 1) + days_before_month (?y - 1) 10 + 1, days_before_year ?y)"
      using quarter_bounds_eq [of "?y - 1" 4] next_year [of "?y - 1"] assms(2) v by (simp add: Let_def)
    have "days_before_month (?y - 1) 10 + 28 \<le> days_before_month (?y - 1) 13"
      using days_before_month_Suc [of 10 "?y - 1"] days_before_month_mono [of 11 13 "?y - 1"] days_in_month_bounds [of "?y - 1" 10] by simp
    then show ?thesis using inside True next_year [of "?y - 1"] by (intro tilesI [OF cur prev]) auto
  next
    case False
    then have prev: "bounds_for ref Last_Quarter = Inr (days_before_year ?y + days_before_month ?y (3 * ?q - 5) + 1, days_before_year ?y + days_before_month ?y (3 * ?q - 2))"
      using quarter_bounds_eq [of ?y "?q - 1"] assms(2) v(1) q by (simp add: Let_def algebra_simps)
    have "days_before_month ?y (3 * ?q - 5) + 28 \<le> days_before_month ?y (3 * ?q - 2)"
      using days_before_month_Suc [of "3 * ?q - 5" ?y] days_before_month_mono [of "3 * ?q - 4" "3 * ?q - 2" ?y]
        days_in_month_bounds [of ?y "3 * ?q - 5"] q False by simp
    then show ?thesis using inside by (intro tilesI [OF cur prev]) auto
  qed
qed

lemma tiles_year:
  assumes "valid_civil ref" "1 < cv_year ref"
  shows "tiles ref This_Year Last_Year"
proof -
  let ?y = "cv_year ref"
  from assms have v: "?y \<le> 9999" "1 \<le> cv_month ref" "cv_month ref < 13" by (simp_all add: valid_civil_def)
  have cur: "bounds_for ref This_Year = Inr (days_before_year ?y + 1, days_before_year (?y + 1))"
    using year_bounds_eq [of ?y] assms(2) v by simp
  have prev: "bounds_for ref Last_Year = Inr (days_before_year (?y - 1) + 1, days_before_year ?y)"
    using year_bounds_eq [of "?y - 1"] assms(2) v by simp
  show ?thesis using ordinal_in_span [OF assms(1) order_refl v(2,3)] next_year [of ?y] days_before_year_Suc [of "?y - 1"]
    by (intro tilesI [OF cur prev]) (auto split: if_splits)
qed

text \<open>
  C14. Every calendar period of the time extractor contains the reference day, and the period
  before it is not empty and ends on the day before the current one begins: today and yesterday,
  this and last week, month, quarter and year, leap years and turns of the year included.
\<close>

theorem periods_tile_calendar:
  assumes "valid_civil ref" "1 < cv_year ref" "cv_year ref < 9999"
  shows "list_all (\<lambda>(this, prev). \<exists>a b a' b'. bounds_for ref this = Inr (a, b) \<and> bounds_for ref prev = Inr (a', b')
     \<and> a \<le> ordinal_of ref \<and> ordinal_of ref \<le> b \<and> a' \<le> b' \<and> b' + 1 = a)
   [(Today, Yesterday), (This_Week, Last_Week), (This_Month, Last_Month), (This_Quarter, Last_Quarter), (This_Year, Last_Year)]"
proof -
  have "tiles ref Today Yesterday" using ordinal_range [OF assms]
    by (simp add: tiles_def day_bounds_def date_in_range_def)
  then have "list_all (\<lambda>(this, prev). tiles ref this prev)
     [(Today, Yesterday), (This_Week, Last_Week), (This_Month, Last_Month), (This_Quarter, Last_Quarter), (This_Year, Last_Year)]"
    using tiles_week [OF assms] tiles_month [OF assms(1,2)] tiles_quarter [OF assms(1,2)] tiles_year [OF assms(1,2)] by simp
  then show ?thesis by (simp only: tiles_def)
qed

theorem periods_tile_calendar_witness:
  "\<exists>a b a' b'. bounds_for \<lparr> cv_year = 2024, cv_month = 1, cv_day = 31 \<rparr> This_Quarter = Inr (a, b)
     \<and> bounds_for \<lparr> cv_year = 2024, cv_month = 1, cv_day = 31 \<rparr> Last_Quarter = Inr (a', b') \<and> b' + 1 = a"
proof -
  have "valid_civil \<lparr> cv_year = 2024, cv_month = 1, cv_day = 31 \<rparr>" by (simp add: valid_civil_def days_in_month_def)
  from periods_tile_calendar [OF this] show ?thesis by auto
qed

section \<open>Recognised phrases\<close>

text \<open>The span a reported match occupies.\<close>

definition entry_span :: "string \<times> nat \<times> string \<Rightarrow> span" where
  "entry_span e = (fst (snd e), fst (snd e) + length (snd (snd e)))"

definition apart :: "span \<Rightarrow> span \<Rightarrow> bool" where
  "apart a b = (snd a \<le> fst b \<or> snd b \<le> fst a)"

text \<open>An occurrence of a phrase of the vocabulary as a whole word, reported under its name.\<close>

definition genuine :: "string \<Rightarrow> (string, string) dict \<Rightarrow> string \<times> nat \<times> string \<Rightarrow> bool" where
  "genuine s vocabulary e = (case e of (c, p, t) \<Rightarrow> map_of vocabulary t = Some c
     \<and> slice s p (p + length t) = t \<and> at_boundary s p \<and> at_boundary s (p + length t))"

definition claim_inv :: "string \<Rightarrow> (string, string) dict \<Rightarrow> span list \<Rightarrow> (string, nat \<times> string) dict \<Rightarrow> bool" where
  "claim_inv s vocabulary claimed found = (claimed = map entry_span found \<and> distinct (map fst found)
     \<and> sorted_wrt (\<lambda>a b. apart (entry_span a) (entry_span b)) found \<and> (\<forall>e\<in>set found. genuine s vocabulary e))"

lemma not_overlaps: "\<not> overlaps a bs \<Longrightarrow> b \<in> set bs \<Longrightarrow> apart b a"
  by (fastforce simp: overlaps_def apart_def)

lemma finditer_rword:
  assumes "m \<in> set (finditer (rword t) s)"
  shows "group0 s m = t \<and> m_span m = (m_start m, m_start m + length t) \<and> slice s (m_start m) (m_start m + length t) = t
    \<and> at_boundary s (m_start m) \<and> at_boundary s (m_start m + length t)"
proof -
  from assms have "match_at (rword t) s (m_start m) = Some m"
    using finditer_from_bounds [of m "rword t" s 0] by (simp add: finditer_def)
  from match_rword [OF this] show ?thesis by (metis group0_def m_span_def rx_match.select_convs(2))
qed

lemma update_fresh: "map_of d k = None \<Longrightarrow> AList.update k v d = d @ [(k, v)]"
  by (induction d) auto

lemma claim_step:
  assumes inv: "claim_inv s vocabulary claimed found" and ph: "map_of vocabulary phrase = Some c" and new: "map_of found c = None"
    and m: "next_where (\<lambda>m. \<not> overlaps (m_span m) claimed) (finditer (rword phrase) s) = Some m"
  shows "claim_inv s vocabulary (claimed @ [m_span m]) (found @ [(c, m_start m, group0 s m)])"
proof -
  from next_where_Some [OF m] have m: "m \<in> set (finditer (rword phrase) s)" and free: "\<not> overlaps (m_span m) claimed"
    by auto
  note w = finditer_rword [OF m]
  then have e: "entry_span (c, m_start m, group0 s m) = m_span m" by (simp add: entry_span_def)
  have "\<forall>x\<in>set found. apart (entry_span x) (m_span m)"
    using not_overlaps [OF free] inv by (auto simp: claim_inv_def)
  moreover have "genuine s vocabulary (c, m_start m, group0 s m)" using w ph by (simp add: genuine_def)
  moreover have "c \<notin> fst ` set found" using new by (simp add: map_of_eq_None_iff)
  ultimately show ?thesis using inv e by (simp add: claim_inv_def sorted_wrt_append)
qed

lemma claim_phrases_inv:
  assumes "claim_inv s vocabulary claimed found" "set ps \<subseteq> dom (map_of vocabulary)"
  shows "claim_inv s vocabulary (map entry_span (claim_phrases s vocabulary ps claimed found)) (claim_phrases s vocabulary ps claimed found)"
  using assms
proof (induction s vocabulary ps claimed found rule: claim_phrases.induct)
  case (1 s vocabulary claimed found)
  then show ?case by (simp add: claim_inv_def)
next
  case (2 s vocabulary phrase ps claimed found)
  from 2(5) obtain c where c: "map_of vocabulary phrase = Some c" by auto
  from 2(5) have ps: "set ps \<subseteq> dom (map_of vocabulary)" by auto
  show ?case
  proof (cases "map_of found c")
    case (Some x)
    then show ?thesis using 2(1) [OF _ _ 2(4) ps] c by (simp add: Let_def)
  next
    case None
    show ?thesis
    proof (cases "next_where (\<lambda>m. \<not> overlaps (m_span m) claimed) (finditer (rword phrase) s)")
      case N: None
      then show ?thesis using 2(2) [OF _ _ N 2(4) ps] c None by (simp add: Let_def del: next_where_None)
    next
      case (Some m)
      have "claim_inv s vocabulary (claimed @ [m_span m]) (AList.update c (m_start m, group0 s m) found)"
        using claim_step [OF 2(4) c None Some] by (simp add: update_fresh [OF None])
      from 2(3) [OF _ _ Some _ ps, of c] this c None Some show ?thesis by (simp add: Let_def)
    qed
  qed
qed

text \<open>Nothing is lost on the way, and every occurrence of a phrase is accounted for.\<close>

lemma claim_phrases_grows:
  "set claimed \<subseteq> set (map entry_span found) \<Longrightarrow> set found \<subseteq> set (claim_phrases s vocabulary ps claimed found)"
proof (induction s vocabulary ps claimed found rule: claim_phrases.induct)
  case (2 s vocabulary phrase ps claimed found)
  let ?c = "the (map_of vocabulary phrase)"
  show ?case
  proof (cases "map_of found ?c")
    case (Some x)
    then show ?thesis using 2(1) [OF refl _ 2(4)] by (simp add: Let_def)
  next
    case None
    show ?thesis
    proof (cases "next_where (\<lambda>m. \<not> overlaps (m_span m) claimed) (finditer (rword phrase) s)")
      case N: None
      then show ?thesis using 2(2) [OF refl _ N 2(4)] None by (simp add: Let_def del: next_where_None)
    next
      case (Some m)
      have "m_span m = entry_span (?c, m_start m, group0 s m)"
        using finditer_rword next_where_Some [OF Some] by (fastforce simp: entry_span_def)
      then have "set (claimed @ [m_span m]) \<subseteq> set (map entry_span (AList.update ?c (m_start m, group0 s m) found))"
        using 2(4) by (auto simp: update_fresh [OF None])
      from 2(3) [OF refl _ Some this] None Some show ?thesis
        by (auto simp: Let_def update_fresh [OF None])
    qed
  qed
qed simp

lemma overlaps_mono: "overlaps a bs \<Longrightarrow> set bs \<subseteq> set cs \<Longrightarrow> overlaps a cs"
  by (auto simp: overlaps_def)

lemma claim_phrases_complete:
  assumes "set claimed \<subseteq> set (map entry_span found)" "phrase \<in> set ps" "m \<in> set (finditer (rword phrase) s)"
  shows "the (map_of vocabulary phrase) \<in> fst ` set (claim_phrases s vocabulary ps claimed found)
    \<or> overlaps (m_span m) (map entry_span (claim_phrases s vocabulary ps claimed found))"
  using assms
proof (induction s vocabulary ps claimed found rule: claim_phrases.induct)
  case (2 s vocabulary p ps claimed found)
  let ?c = "the (map_of vocabulary p)"
  note grows = claim_phrases_grows [OF 2(4), of s vocabulary "p # ps"]
  show ?case
  proof (cases "map_of found ?c")
    case (Some x)
    then have "?c \<in> fst ` set found" by (metis map_of_SomeD fst_conv image_eqI)
    moreover have "fst ` set found \<subseteq> fst ` set (claim_phrases s vocabulary (p # ps) claimed found)"
      using grows by (rule image_mono)
    ultimately show ?thesis
      using 2(1) [OF refl _ 2(4) _ 2(6)] Some 2(5) by (cases "phrase = p") (auto simp: Let_def)
  next
    case None
    show ?thesis
    proof (cases "next_where (\<lambda>m. \<not> overlaps (m_span m) claimed) (finditer (rword p) s)")
      case N: None
      have step: "claim_phrases s vocabulary (p # ps) claimed found = claim_phrases s vocabulary ps claimed found"
        using N None by (simp add: Let_def del: next_where_None)
      have "overlaps (m_span m) (map entry_span (claim_phrases s vocabulary (p # ps) claimed found))" if "phrase = p"
      proof (rule overlaps_mono)
        show "overlaps (m_span m) claimed" using N 2(6) that by simp
        have "entry_span ` set found \<subseteq> entry_span ` set (claim_phrases s vocabulary (p # ps) claimed found)"
          using grows by (rule image_mono)
        then show "set claimed \<subseteq> set (map entry_span (claim_phrases s vocabulary (p # ps) claimed found))"
          using 2(4) by (metis list.set_map order_trans)
      qed
      then show ?thesis using 2(2) [OF refl _ N 2(4) _ 2(6)] None 2(5) step by auto
    next
      case (Some k)
      let ?found = "AList.update ?c (m_start k, group0 s k) found"
      have span: "m_span k = entry_span (?c, m_start k, group0 s k)"
        using finditer_rword next_where_Some [OF Some] by (fastforce simp: entry_span_def)
      then have sub: "set (claimed @ [m_span k]) \<subseteq> set (map entry_span ?found)"
        using 2(4) by (auto simp: update_fresh [OF None])
      have step: "claim_phrases s vocabulary (p # ps) claimed found = claim_phrases s vocabulary ps (claimed @ [m_span k]) ?found"
        using Some None by (simp add: Let_def)
      have "(?c, m_start k, group0 s k) \<in> set (claim_phrases s vocabulary (p # ps) claimed found)"
        using claim_phrases_grows [OF sub, of s vocabulary ps] unfolding step by (auto simp: update_fresh [OF None])
      then have "?c \<in> fst ` set (claim_phrases s vocabulary (p # ps) claimed found)" by (metis fst_conv image_eqI)
      then show ?thesis using 2(3) [OF refl _ Some sub _ 2(6)] None 2(5) step by (cases "phrase = p") auto
    qed
  qed
qed simp

lemma genuine_name: "genuine s v e \<Longrightarrow> map_of v (snd (snd e)) = Some (fst e)"
  by (cases e) (auto simp: genuine_def)

text \<open>
  C15. The phrases that the vocabulary matcher reports are whole-word occurrences of phrases of the
  vocabulary under their canonical names, each name once, in the order of the text and without
  overlap; and every occurrence of a phrase is either of a reported name or overlaps a reported
  match.
\<close>

theorem vocabulary_matches_disjoint:
  "let ms = find_vocabulary_matches s vocabulary in
     distinct (map fst ms) \<and> sorted (map (\<lambda>(_, p, _). p) ms)
     \<and> (\<forall>(c, p, t)\<in>set ms. map_of vocabulary t = Some c \<and> slice s p (p + length t) = t
          \<and> at_boundary s p \<and> at_boundary s (p + length t))
     \<and> (\<forall>(c, p, t)\<in>set ms. \<forall>(c', p', t')\<in>set ms. c \<noteq> c' \<longrightarrow> p + length t \<le> p' \<or> p' + length t' \<le> p)
     \<and> (\<forall>phrase\<in>fst ` set vocabulary. \<forall>m\<in>set (finditer (rword phrase) s).
          the (map_of vocabulary phrase) \<in> fst ` set ms \<or> (\<exists>(c, p, t)\<in>set ms. m_start m < p + length t \<and> p < m_end m))"
proof -
  let ?ps = "longest_first (map fst vocabulary)"
  define found where "found = claim_phrases s vocabulary ?ps [] []"
  have "set ?ps = dom (map_of vocabulary)" by (simp add: longest_first_def dom_map_of_conv_image_fst)
  then have inv: "claim_inv s vocabulary (map entry_span found) found"
    unfolding found_def by (intro claim_phrases_inv) (simp_all add: claim_inv_def)
  have ms: "find_vocabulary_matches s vocabulary = sort_key (\<lambda>(_, p, _). p) found"
    by (simp add: find_vocabulary_matches_def found_def)
  have pairwise: "apart (entry_span a) (entry_span b)" if "a \<in> set found" "b \<in> set found" "fst a \<noteq> fst b" for a b
  proof -
    from that(1,2) obtain i j where "i < length found" "j < length found" "a = found ! i" "b = found ! j"
      by (metis in_set_conv_nth)
    moreover from this that(3) have "i \<noteq> j" by blast
    moreover have "sorted_wrt (\<lambda>a b. apart (entry_span a) (entry_span b)) found" using inv by (simp add: claim_inv_def)
    ultimately show ?thesis using sorted_wrt_nth_less [of _ found i j] sorted_wrt_nth_less [of _ found j i]
      by (cases "i < j") (auto simp: apart_def)
  qed
  have complete: "the (map_of vocabulary phrase) \<in> fst ` set found \<or> overlaps (m_span m) (map entry_span found)"
    if "phrase \<in> fst ` set vocabulary" "m \<in> set (finditer (rword phrase) s)" for phrase m
    unfolding found_def using that by (intro claim_phrases_complete) (auto simp: longest_first_def)
  have "distinct (map fst (sort_key (\<lambda>(_, p, _). p) found))"
    using inv by (simp add: claim_inv_def distinct_map)
  moreover have "sorted (map (\<lambda>(_, p, _). p) (sort_key (\<lambda>(_, p, _). p) found))" by simp
  moreover have "\<forall>(c, p, t)\<in>set found. map_of vocabulary t = Some c \<and> slice s p (p + length t) = t
      \<and> at_boundary s p \<and> at_boundary s (p + length t)"
    using inv by (auto simp: claim_inv_def genuine_def)
  moreover have "\<forall>(c, p, t)\<in>set found. \<forall>(c', p', t')\<in>set found. c \<noteq> c' \<longrightarrow> p + length t \<le> p' \<or> p' + length t' \<le> p"
    using pairwise by (fastforce simp: apart_def entry_span_def)
  moreover have "\<exists>(c, p, t)\<in>set found. m_start m < p + length t \<and> p < m_end m"
    if "overlaps (m_span m) (map entry_span found)" for m
    using that by (fastforce simp: overlaps_def entry_span_def m_span_def)
  ultimately show ?thesis unfolding ms Let_def set_sort using complete by blast
qed

theorem vocabulary_matches_disjoint_witness:
  "let ms = find_vocabulary_matches ''order status'' DIMENSION_SYNONYMS in
     distinct (map fst ms) \<and> sorted (map (\<lambda>(_, p, _). p) ms)"
  using vocabulary_matches_disjoint [of "''order status''" DIMENSION_SYNONYMS] by (simp add: Let_def)

section \<open>Outcomes of parsing\<close>

lemma intent_rules_confidence: "list_all (\<lambda>(i, ps, c). 4/10 \<le> c \<and> c \<le> 95/100) INTENT_RULES"
  by (simp add: INTENT_RULES_def)

lemma classify_confidence: "4/10 \<le> snd (classify q) \<and> snd (classify q) \<le> 95/100"
proof (cases "next_where (\<lambda>(_, patterns, _). \<exists>p\<in>set patterns. search p q \<noteq> None) INTENT_RULES")
  case None
  then show ?thesis unfolding classify_def by (simp only: option.case snd_conv) simp
next
  case (Some r)
  obtain i ps c where r: "r = (i, ps, c)" by (cases r)
  from next_where_Some [OF Some] have "r \<in> set INTENT_RULES" by (rule conjunct1)
  with intent_rules_confidence have "4/10 \<le> c \<and> c \<le> 95/100" unfolding r list_all_iff by blast
  then show ?thesis unfolding classify_def Some r by simp
qed

lemma compute_confidence_bounds:
  "4/10 \<le> compute_confidence (snd (classify q)) a b c d \<and> compute_confidence (snd (classify q)) a b c d \<le> 1"
proof -
  let ?x = "min (snd (classify q) + (if a then 5/100 else 0) + (if b then 5/100 else 0) + (if c then 3/100 else 0) + (if d then 2/100 else 0)) 1"
  have "4/10 \<le> ?x" "?x \<le> 1" using classify_confidence [of q] by simp_all
  with round4_bounds [of 4000 ?x 10000] show ?thesis unfolding compute_confidence_def by simp
qed

lemma relative_phrases_period:
  "map_of RELATIVE_PHRASES phrase = Some p \<Longrightarrow> p \<in> {Today, Yesterday, This_Week, Last_Week, This_Month, Last_Month,
     This_Quarter, Last_Quarter, This_Year, Last_Year}"
  by (auto simp: RELATIVE_PHRASES_def split: if_splits)

lemma relative_bounds_ok:
  assumes "valid_civil ref" "1 < cv_year ref" "cv_year ref < 9999"
    and "p \<in> {Today, Yesterday, This_Week, Last_Week, This_Month, Last_Month, This_Quarter, Last_Quarter, This_Year, Last_Year}"
  shows "\<exists>a b. bounds_for ref p = Inr (a, b) \<and> a \<le> b"
proof -
  have "tiles ref Today Yesterday" using ordinal_range [OF assms(1-3)]
    by (simp add: tiles_def day_bounds_def date_in_range_def)
  with assms(4) tiles_week [OF assms(1-3)] tiles_month [OF assms(1,2)] tiles_quarter [OF assms(1,2)] tiles_year [OF assms(1,2)]
  show ?thesis unfolding tiles_def by fastforce
qed

lemma extract_time_total:
  assumes "valid_civil ref" "1 < cv_year ref" "cv_year ref < 9999"
  shows "\<exists>t. extract_time ref q = Inr t"
proof -
  have "\<exists>t. relative_range ref q = Inr t"
  proof (cases "next_where (\<lambda>phrase. search (rword phrase) q \<noteq> None) (longest_first (map fst RELATIVE_PHRASES))")
    case None
    then show ?thesis by (simp add: relative_range_def del: next_where_None)
  next
    case (Some phrase)
    then have "phrase \<in> set (map fst RELATIVE_PHRASES)" using next_where_Some by (fastforce simp: longest_first_def)
    then obtain p where p: "map_of RELATIVE_PHRASES phrase = Some p"
      using dom_map_of_conv_image_fst [of RELATIVE_PHRASES] by auto
    from relative_bounds_ok [OF assms relative_phrases_period [OF p]] Some p show ?thesis
      by (auto simp: relative_range_def Let_def)
  qed
  then show ?thesis by (auto simp: extract_time_def split: option.split)
qed

lemma collect_concepts:
  "distinct (collect_business_concepts er metrics filters)"
  "set (collect_business_concepts er metrics filters) = set_option (er_primary_entity er) \<union> set (er_secondary_entities er)
     \<union> set (er_dimensions er) \<union> me_name ` set metrics \<union> fe_field ` set filters"
proof -
  show "distinct (collect_business_concepts er metrics filters)"
    using dedup_by_distinct [of id "{}"] by (simp only: collect_business_concepts_def list.map_id)
  have "set (dedup_by id {} xs) = set xs" for xs :: "string list" using dedup_by_keys [of id "{}" xs] by simp
  then show "set (collect_business_concepts er metrics filters) = set_option (er_primary_entity er) \<union> set (er_secondary_entities er)
     \<union> set (er_dimensions er) \<union> me_name ` set metrics \<union> fe_field ` set filters"
    unfolding collect_business_concepts_def by (cases "er_primary_entity er") (simp_all only:, auto)
qed

text \<open>
  A phrase that asks for a number of rows, as the documentation of the limit extractor describes
  it: a keyword, spaces and digits, as whole words.
\<close>

definition limit_keywords :: "string set" where
  "limit_keywords = {''top'', ''first'', ''bottom'', ''last'', ''limit''}"

definition limit_phrase :: "string \<Rightarrow> nat \<Rightarrow> string \<Rightarrow> string \<Rightarrow> string \<Rightarrow> bool" where
  "limit_phrase q p kw ws ds \<longleftrightarrow> kw \<in> limit_keywords
     \<and> ws \<noteq> [] \<and> list_all is_space ws \<and> ds \<noteq> [] \<and> list_all is_digit ds
     \<and> occurs q p (kw @ ws @ ds) \<and> at_boundary q p \<and> at_boundary q (p + length (kw @ ws @ ds))"

text \<open>The first such phrase of a question.\<close>

definition first_limit :: "string \<Rightarrow> nat \<Rightarrow> string \<Rightarrow> string \<Rightarrow> string \<Rightarrow> bool" where
  "first_limit q p kw ws ds \<longleftrightarrow> limit_phrase q p kw ws ds \<and> (\<forall>p'<p. \<nexists>kw ws ds. limit_phrase q p' kw ws ds)"

lemma run_keywords:
  "(p', c') \<in> set (run_rx (ralt (map rlit [''top'', ''first'', ''bottom'', ''last'', ''limit''])) q (p, c)) \<longleftrightarrow>
     c' = c \<and> (\<exists>kw\<in>limit_keywords. occurs q p kw \<and> p' = p + length kw)"
  by (simp only: limit_keywords_def list.map ralt.simps run_rx.simps run_rlit_occurs set_append Un_iff) (auto split: if_splits)

lemma run_limit:
  "(e, c) \<in> set (run_rx LIMIT_PATTERN q (p, Map.empty)) \<longleftrightarrow>
     (\<exists>kw ws ds. limit_phrase q p kw ws ds \<and> e = p + length (kw @ ws @ ds) \<and> c = [1 \<mapsto> (p + length (kw @ ws), e)])"
proof -
  define G where "G = RSeq (RGroup 1 (rplus rdigit)) (RSeq RBoundary REps)"
  have group: "(e, c) \<in> set (run_rx G q (p2, Map.empty)) \<longleftrightarrow>
      (\<exists>ds. ds \<noteq> [] \<and> list_all is_digit ds \<and> occurs q p2 ds \<and> e = p2 + length ds \<and> at_boundary q e \<and> c = [1 \<mapsto> (p2, e)])" for p2
  proof -
    have "(e, c) \<in> set (run_rx G q (p2, Map.empty)) \<longleftrightarrow>
        (\<exists>c0. (e, c0) \<in> set (run_rx (rplus rdigit) q (p2, Map.empty)) \<and> at_boundary q e \<and> c = c0(1 \<mapsto> (p2, e)))"
      unfolding G_def by (auto split: if_splits) (erule bexI [rotated], simp)
    also have "\<dots> \<longleftrightarrow> (\<exists>ds. ds \<noteq> [] \<and> list_all is_digit ds \<and> occurs q p2 ds \<and> e = p2 + length ds \<and> at_boundary q e \<and> c = [1 \<mapsto> (p2, e)])"
      unfolding run_plus_class by auto
    finally show ?thesis .
  qed
  have "(e, c) \<in> set (run_rx LIMIT_PATTERN q (p, Map.empty)) \<longleftrightarrow> at_boundary q p \<and>
      (\<exists>p1 c1. (p1, c1) \<in> set (run_rx (ralt (map rlit [''top'', ''first'', ''bottom'', ''last'', ''limit''])) q (p, Map.empty)) \<and>
      (\<exists>p2 c2. (p2, c2) \<in> set (run_rx rspaces q (p1, c1)) \<and>
        (e, c) \<in> set (run_rx G q (p2, c2))))"
    unfolding LIMIT_PATTERN_def rseq_def foldr.simps comp_def id_apply G_def [symmetric]
    unfolding run_boundary_seq run_seq [of _ "ralt _"] run_seq [of _ rspaces] by (rule refl)
  also have "\<dots> \<longleftrightarrow> at_boundary q p \<and> (\<exists>kw\<in>limit_keywords. occurs q p kw \<and> (\<exists>ws. ws \<noteq> [] \<and> list_all is_space ws \<and>
      occurs q (p + length kw) ws \<and> (e, c) \<in> set (run_rx G q (p + length kw + length ws, Map.empty))))"
    unfolding run_keywords run_plus_class by auto
  also have "\<dots> \<longleftrightarrow> (\<exists>kw ws ds. limit_phrase q p kw ws ds \<and> e = p + length (kw @ ws @ ds) \<and> c = [1 \<mapsto> (p + length (kw @ ws), e)])"
    unfolding group limit_phrase_def occurs_append length_append add.assoc by blast
  finally show ?thesis .
qed

text \<open>There is at most one phrase at a position.\<close>

lemma keyword_unique:
  assumes "kw \<in> limit_keywords" "kw' \<in> limit_keywords"
    and "occurs q p kw" "occurs q p kw'"
  shows "kw = kw'"
proof -
  have "kw ! 0 = kw' ! 0" "kw ! 1 = kw' ! 1"
    using assms(1,2) occurs_nth [OF assms(3), of 0] occurs_nth [OF assms(4), of 0]
      occurs_nth [OF assms(3), of 1] occurs_nth [OF assms(4), of 1] by (auto simp: limit_keywords_def)
  with assms(1,2) show ?thesis by (auto simp: limit_keywords_def)
qed

lemma class_unique:
  assumes "list_all P t" "occurs q p t" "list_all P u" "occurs q p u"
    and "\<not> (p + length t < length q \<and> P (q ! (p + length t)))" "\<not> (p + length u < length q \<and> P (q ! (p + length u)))"
  shows "t = u"
  using assms
proof (induction t arbitrary: p u)
  case Nil
  then show ?case using occurs_Cons [of q p "hd u" "tl u"] by (cases u) auto
next
  case (Cons x t)
  then have x: "p < length q" "q ! p = x" "occurs q (Suc p) t" using occurs_Cons [of q p x t] by auto
  show ?case
  proof (cases u)
    case Nil
    with Cons.prems x show ?thesis by simp
  next
    case u: (Cons y v)
    then have "y = x" "occurs q (Suc p) v" using Cons.prems(4) x occurs_Cons [of q p y v] by auto
    with Cons.IH [of "Suc p" v] Cons.prems u x show ?thesis by simp
  qed
qed

lemma digit_word: "is_digit c \<Longrightarrow> is_word c \<and> \<not> is_space c"
  by (simp add: is_word_def is_alnum_def is_digit_def is_space_def Let_def)

lemma limit_phrase_unique:
  assumes "limit_phrase q p kw ws ds" "limit_phrase q p kw' ws' ds'"
  shows "kw = kw' \<and> ws = ws' \<and> ds = ds'"
proof -
  have kw: "kw = kw'"
    by (rule keyword_unique [of _ _ q p]) (use assms in \<open>auto simp: limit_phrase_def occurs_append\<close>)
  have split: "occurs q (p + length kw) ws \<and> occurs q (p + length kw + length ws) ds \<and> ds \<noteq> [] \<and>
      list_all is_space ws \<and> list_all is_digit ds \<and> at_boundary q (p + length kw + length ws + length ds)"
    if "limit_phrase q p kw ws ds" for ws ds
    using that unfolding limit_phrase_def occurs_append by (simp add: add.assoc)
  note l = split [OF assms(1)] split [OF assms(2) [folded kw]]
  have no_space: "\<not> (i < length q \<and> is_space (q ! i))" if "occurs q i t" "t \<noteq> []" "list_all is_digit t" for i t
    using that occurs_Cons [of q i "hd t" "tl t"] digit_word by (cases t) auto
  have no_digit: "\<not> (i + length t < length q \<and> is_digit (q ! (i + length t)))"
    if at: "occurs q i t" and ne: "t \<noteq> []" and ds: "list_all is_digit t" and bound: "at_boundary q (i + length t)" for i t
  proof -
    obtain u x where t: "t = u @ [x]" using ne append_butlast_last_id [of t] by metis
    then have "i + length u < length q" "q ! (i + length u) = x"
      using at occurs_append [of q i u "[x]"] occurs_Cons [of q "i + length u" x "[]"] by auto
    then have "word_at q (i + length t - 1)" using ds t digit_word by (simp add: word_at_def)
    with bound t digit_word show ?thesis by (auto simp: at_boundary_def word_at_def)
  qed
  have ws: "ws = ws'"
    by (rule class_unique [of is_space ws q "p + length kw"]) (use l no_space in blast)+
  have "ds = ds'"
    by (rule class_unique [of is_digit ds q "p + length kw + length ws"]) (use l [folded ws] no_digit in blast)+
  with kw ws show ?thesis by simp
qed

lemma match_limit:
  assumes "match_at LIMIT_PATTERN q p = Some m"
  shows "\<exists>kw ws ds. limit_phrase q p kw ws ds \<and> m_start m = p \<and> group_text q m 1 = Some ds \<and> group0 q m = kw @ ws @ ds"
proof -
  from match_at_Some_set [OF assms] obtain kw ws ds where l: "limit_phrase q p kw ws ds" and m: "m_start m = p"
      "m_end m = p + length (kw @ ws @ ds)" "m_groups m = [1 \<mapsto> (p + length (kw @ ws), m_end m)]"
    unfolding run_limit by blast
  have "occurs q p ((kw @ ws) @ ds)" "occurs q p (kw @ ws @ ds)" using l by (simp_all add: limit_phrase_def)
  then have "occurs q (p + length (kw @ ws)) ds" unfolding occurs_append by blast
  with l m \<open>occurs q p (kw @ ws @ ds)\<close> show ?thesis
    by (intro exI [of _ kw] exI [of _ ws] exI [of _ ds]) (simp add: group_text_def group0_def slice_def occurs_def add.commute)
qed

lemma no_limit_at: "match_at LIMIT_PATTERN q p = None \<longleftrightarrow> (\<nexists>kw ws ds. limit_phrase q p kw ws ds)"
proof -
  have "run_rx LIMIT_PATTERN q (p, Map.empty) = [] \<longleftrightarrow> (\<nexists>e c. (e, c) \<in> set (run_rx LIMIT_PATTERN q (p, Map.empty)))"
    by (cases "run_rx LIMIT_PATTERN q (p, Map.empty)") auto
  then show ?thesis unfolding match_at_None run_limit by auto
qed

lemma limit_phrase_position: "limit_phrase q p kw ws ds \<Longrightarrow> p \<le> length q"
  using occurs_length [of q p "kw @ ws @ ds"] by (auto simp: limit_phrase_def)

text \<open>The limit extractor finds exactly the first phrase.\<close>

lemma extract_limit_first:
  assumes "first_limit q p kw ws ds"
  shows "extract_limit q =
    (if INT_MAX_STR_DIGITS < length ds then Inl N_ValueError else if digits_value ds = 0 then Inl N_ValidationError
     else Inr (Some \<lparr> le_value = int (digits_value ds), le_raw_text = kw @ ws @ ds \<rparr>))"
proof -
  have l: "limit_phrase q p kw ws ds" using assms by (simp add: first_limit_def)
  have "search LIMIT_PATTERN q \<noteq> None"
    using l limit_phrase_position [OF l] no_limit_at [of q p] by (auto simp: search_None)
  then obtain m where m: "search LIMIT_PATTERN q = Some m" by blast
  note first = search_Some [OF m]
  obtain kw' ws' ds' where m': "limit_phrase q (m_start m) kw' ws' ds'" "group_text q m 1 = Some ds'" "group0 q m = kw' @ ws' @ ds'"
    using match_limit [OF conjunct1 [OF first]] by blast
  have "m_start m = p"
    using assms m'(1) first no_limit_at l by (metis first_limit_def nat_neq_iff)
  with limit_phrase_unique [OF l] m' have "ds' = ds" "group0 q m = kw @ ws @ ds" by auto
  with m m' show ?thesis by (simp add: extract_limit_def Let_def)
qed

lemma extract_limit_none: "(\<nexists>p kw ws ds. limit_phrase q p kw ws ds) \<Longrightarrow> extract_limit q = Inr None"
  using no_limit_at [of q] search_None [of LIMIT_PATTERN q] by (auto simp: extract_limit_def)

lemma first_limit_exists:
  assumes "limit_phrase q p kw ws ds"
  shows "\<exists>p kw ws ds. first_limit q p kw ws ds"
proof -
  define n where "n = (LEAST p. \<exists>kw ws ds. limit_phrase q p kw ws ds)"
  have "\<exists>kw ws ds. limit_phrase q n kw ws ds" unfolding n_def using assms by (intro LeastI) blast
  moreover have "\<forall>i<n. \<nexists>kw ws ds. limit_phrase q i kw ws ds" unfolding n_def using not_less_Least by blast
  ultimately show ?thesis unfolding first_limit_def by blast
qed

text \<open>What the row limit of a question comes to.\<close>

definition limit_outcome :: "string \<Rightarrow> nlu_error + limit_expression option \<Rightarrow> bool" where
  "limit_outcome q r \<longleftrightarrow>
     (r = Inl N_ValueError \<longleftrightarrow> (\<exists>p kw ws ds. first_limit q p kw ws ds \<and> 4300 < length ds)) \<and>
     (r = Inl N_ValidationError \<longleftrightarrow> (\<exists>p kw ws ds. first_limit q p kw ws ds \<and> length ds \<le> 4300 \<and> digits_value ds = 0)) \<and>
     (r = Inr None \<longleftrightarrow> (\<nexists>p kw ws ds. limit_phrase q p kw ws ds)) \<and>
     (\<forall>l. r = Inr (Some l) \<longleftrightarrow> (\<exists>p kw ws ds. first_limit q p kw ws ds \<and> length ds \<le> 4300 \<and> 0 < digits_value ds \<and>
        l = \<lparr> le_value = int (digits_value ds), le_raw_text = kw @ ws @ ds \<rparr>))"

lemma limit_outcome_iff: "limit_outcome q r \<longleftrightarrow> r = extract_limit q"
proof (cases "\<exists>p kw ws ds. limit_phrase q p kw ws ds")
  case False
  then show ?thesis using extract_limit_none [of q] by (auto simp: limit_outcome_def first_limit_def)
next
  case True
  then obtain p kw ws ds where f: "first_limit q p kw ws ds" using first_limit_exists by blast
  have unique: "first_limit q p' kw' ws' ds' \<longleftrightarrow> p' = p \<and> kw' = kw \<and> ws' = ws \<and> ds' = ds" for p' kw' ws' ds'
  proof
    assume f': "first_limit q p' kw' ws' ds'"
    then have "p' = p" using f by (metis first_limit_def nat_neq_iff)
    with f f' limit_phrase_unique show "p' = p \<and> kw' = kw \<and> ws' = ws \<and> ds' = ds" by (metis first_limit_def)
  qed (use f in simp)
  let ?l = "\<lparr> le_value = int (digits_value ds), le_raw_text = kw @ ws @ ds \<rparr>"
  have "limit_outcome q r \<longleftrightarrow> (r = Inl N_ValueError \<longleftrightarrow> 4300 < length ds) \<and>
      (r = Inl N_ValidationError \<longleftrightarrow> length ds \<le> 4300 \<and> digits_value ds = 0) \<and> r \<noteq> Inr None \<and>
      (\<forall>l. r = Inr (Some l) \<longleftrightarrow> length ds \<le> 4300 \<and> 0 < digits_value ds \<and> l = ?l)"
    using True unfolding limit_outcome_def unique by auto
  also have "\<dots> \<longleftrightarrow> r = extract_limit q"
    unfolding extract_limit_first [OF f] INT_MAX_STR_DIGITS_def by auto
  finally show ?thesis .
qed

text \<open>
  C13. For every reference date away from the ends of the calendar: a question is refused as empty
  exactly when it is blank. Any other is refused exactly when the first phrase that limits its rows
  (top, first, bottom, last or limit, and a number) asks for zero rows, with a validation error, or
  has more than 4300 digits, with a \<open>ValueError\<close>. Every remaining question gives a context for that
  question, with a confidence between 0.4 and 1, duplicate-free concepts that are exactly the
  recognised entities, dimensions, metrics and filter fields, and the number and the text of that
  first phrase as its limit, or none if there is no such phrase.
\<close>

theorem parse_outcomes:
  assumes "valid_civil ref" "1 < cv_year ref" "cv_year ref < 9999"
  shows "(parse ref question = Inl EmptyQuestionError \<longleftrightarrow> (\<forall>c\<in>set question. is_space c)) \<and>
    (case parse ref question of
      Inl e \<Rightarrow> e = EmptyQuestionError \<or> limit_outcome (normalize_question question) (Inl e)
    | Inr qc \<Rightarrow> limit_outcome (normalize_question question) (Inr (qc_limit qc))
        \<and> qc_original_question qc = question \<and> qc_normalized_question qc = normalize_question question
        \<and> 4/10 \<le> qc_confidence qc \<and> qc_confidence qc \<le> 1
        \<and> distinct (qc_business_concepts qc)
        \<and> set (qc_business_concepts qc) = set_option (qc_primary_entity qc) \<union> set (qc_secondary_entities qc)
            \<union> set (qc_dimensions qc) \<union> me_name ` set (qc_metrics qc) \<union> fe_field ` set (qc_filters qc))"
proof (cases "strip question = []")
  case True
  then show ?thesis by (simp add: parse_def strip_Nil_iff)
next
  case False
  then have nonblank: "\<exists>c\<in>set question. \<not> is_space c" by (simp add: strip_Nil_iff)
  let ?q = "normalize_question question"
  obtain i conf where c: "classify ?q = (i, conf)" by (cases "classify ?q")
  obtain t where t: "extract_time ref ?q = Inr t" using extract_time_total [OF assms] by blast
  define concepts where "concepts = collect_business_concepts (extract_entities ?q) (extract_metrics ?q) (extract_filters ?q)"
  define conf' where "conf' = compute_confidence conf (er_primary_entity (extract_entities ?q) \<noteq> None) (extract_metrics ?q \<noteq> [])
     (extract_filters ?q \<noteq> []) (t \<noteq> None)"
  have conf: "4/10 \<le> conf'" "conf' \<le> 1" using compute_confidence_bounds [of ?q] c by (simp_all add: conf'_def)
  have concepts: "distinct concepts" "set concepts = set_option (er_primary_entity (extract_entities ?q))
      \<union> set (er_secondary_entities (extract_entities ?q)) \<union> set (er_dimensions (extract_entities ?q))
      \<union> me_name ` set (extract_metrics ?q) \<union> fe_field ` set (extract_filters ?q)"
    using collect_concepts by (simp_all only: concepts_def)
  have eq: "parse ref question = rbind (extract_limit ?q) (\<lambda>limit. Inr
      \<lparr> qc_original_question = question, qc_normalized_question = ?q, qc_intent = i,
        qc_primary_entity = er_primary_entity (extract_entities ?q),
        qc_secondary_entities = er_secondary_entities (extract_entities ?q), qc_business_concepts = concepts,
        qc_metrics = extract_metrics ?q, qc_dimensions = er_dimensions (extract_entities ?q),
        qc_filters = extract_filters ?q, qc_time_expression = t, qc_sort = extract_sort ?q (extract_metrics ?q),
        qc_limit = limit, qc_aggregation = resolve_aggregation i (extract_metrics ?q), qc_confidence = conf' \<rparr>)"
    using False conf by (simp add: parse_def c t Let_def conf'_def concepts_def)
  have "extract_limit ?q \<noteq> Inl EmptyQuestionError"
    by (auto simp: extract_limit_def Let_def split: option.split)
  then show ?thesis using nonblank conf concepts by (cases "extract_limit ?q") (auto simp: eq limit_outcome_iff)
qed

text \<open>The question \<open>top 5\<close> has five rows as its limit.\<close>

theorem parse_outcomes_witness:
  "case parse \<lparr> cv_year = 2024, cv_month = 2, cv_day = 29 \<rparr> ''top 5'' of
     Inl e \<Rightarrow> False
   | Inr qc \<Rightarrow> qc_limit qc = Some \<lparr> le_value = 5, le_raw_text = ''top 5'' \<rparr> \<and> 4/10 \<le> qc_confidence qc"
proof -
  have valid: "valid_civil \<lparr> cv_year = 2024, cv_month = 2, cv_day = 29 \<rparr>"
    by (simp add: valid_civil_def days_in_month_def is_leap_def)
  have n: "normalize_question ''top 5'' = ''top 5''" by code_simp
  have limit: "extract_limit ''top 5'' = Inr (Some \<lparr> le_value = 5, le_raw_text = ''top 5'' \<rparr>)" by code_simp
  from parse_outcomes [OF valid, of "''top 5''"] show ?thesis
    by (auto simp: n is_space_def limit_outcome_iff limit split: sum.splits)
qed

section \<open>Where the documentation is not met\<close>

lemma parse_limit_error:
  assumes "strip question \<noteq> []" "extract_time ref (normalize_question question) = Inr t" "extract_limit (normalize_question question) = Inl e"
  shows "parse ref question = Inl e"
  using assms by (cases "classify (normalize_question question)") (simp add: parse_def Let_def)

text \<open>
  A question that asks for the first zero rows is refused by the limit model although it is not
  blank.
\<close>

lemma zero_limit_refused:
  assumes "valid_civil ref" "1 < cv_year ref" "cv_year ref < 9999"
  shows "parse ref ''top 0'' = Inl N_ValidationError"
proof -
  have n: "normalize_question ''top 0'' = ''top 0''" by code_simp
  have "strip ''top 0'' \<noteq> []" by code_simp
  moreover have "extract_limit ''top 0'' = Inl N_ValidationError" by code_simp
  ultimately show ?thesis using extract_time_total [OF assms, of "''top 0''"] parse_limit_error [of "''top 0''"] n by auto
qed

text \<open>
  The lazy repetition in the pattern of an explicit sort order stops at the first word, so that
  the second word of a field and the direction after it are lost.
\<close>

lemma sort_direction_lost:
  "extract_sort ''sorted by unit price ascending'' [\<lparr> me_name = ''price'', me_aggregation = None, me_raw_text = ''unit price'' \<rparr>]
     = Some \<lparr> se_field = ''price'', se_direction = Descending, se_raw_text = ''sorted by unit'' \<rparr>"
proof -
  have "explicit_sort ''sorted by unit price ascending'' [\<lparr> me_name = ''price'', me_aggregation = None, me_raw_text = ''unit price'' \<rparr>]
     = Some \<lparr> se_field = ''price'', se_direction = Descending, se_raw_text = ''sorted by unit'' \<rparr>" by code_simp
  then show ?thesis by (simp add: extract_sort_def)
qed

text \<open>A date with the month name \<open>sept\<close> is recognised as a date token, but no format reads it.\<close>

lemma sept_not_read: "parse_date_token ''sept 2024'' = None"
  by code_simp

end
