(* ===== verification/Join_Path.thy ===== *)
theory Join_Path
  imports Knowledge
begin

text \<open>
  The search for join paths of the schema linker (\<open>schema_linker/relationships.py\<close>): breadth-first
  search over the relationship graph, its termination, and that it finds a shortest path whenever
  there is one.
\<close>

definition to_resolved :: "graph_edge \<Rightarrow> resolved_relationship" where
  "to_resolved e = \<lparr> rr_source_table = ge_source_table e, rr_target_table = ge_target_table e,
     rr_relationship_name = ge_relationship_name e, rr_source_columns = ge_source_columns e,
     rr_target_columns = ge_target_columns e \<rparr>"

type_synonym bfs_queue = "(string \<times> resolved_relationship list) list"

text \<open>
  The loop over the edges of the current table: \<open>Inl\<close> is the path that the loop returns, \<open>Inr\<close>
  the visited tables and what was appended to the queue.
\<close>

fun scan_edges ::
  "string \<Rightarrow> resolved_relationship list \<Rightarrow> graph_edge list \<Rightarrow> string set \<Rightarrow> bfs_queue \<Rightarrow>
   resolved_relationship list + string set \<times> bfs_queue" where
  "scan_edges target path [] visited added = Inr (visited, added)"
| "scan_edges target path (e # es) visited added =
     (if ge_target_table e = target then Inl (path @ [to_resolved e])
      else if ge_target_table e \<notin> visited
      then scan_edges target path es (insert (ge_target_table e) visited) (added @ [(ge_target_table e, path @ [to_resolved e])])
      else scan_edges target path es visited added)"

definition graph_targets :: "relationship_graph \<Rightarrow> string set" where
  "graph_targets g = (\<Union>(t, es)\<in>set (rg_adjacency g). ge_target_table ` set es)"

lemma edges_targets: "ge_target_table ` set (edges_from g v) \<subseteq> graph_targets g"
proof (cases "map_of (rg_adjacency g) v")
  case (Some es)
  then have "(v, es) \<in> set (rg_adjacency g)" by (rule map_of_SomeD)
  then have "ge_target_table ` set es \<subseteq> graph_targets g" unfolding graph_targets_def by fastforce
  then show ?thesis by (simp add: edges_from_def Some)
qed (simp add: edges_from_def)

lemma finite_graph_targets: "finite (graph_targets g)"
  by (auto simp: graph_targets_def)

text \<open>What a complete scan did: the new tables are exactly the unvisited targets, each queued once.\<close>

lemma scan_edges_Inr:
  "scan_edges target path es visited added = Inr (visited', added') \<Longrightarrow>
   visited' = visited \<union> ge_target_table ` set es \<and> target \<notin> ge_target_table ` set es
   \<and> (\<exists>new. added' = added @ new \<and> fst ` set new = visited' - visited
        \<and> (\<forall>(v, p)\<in>set new. \<exists>e\<in>set es. v = ge_target_table e \<and> p = path @ [to_resolved e]))"
proof (induction target path es visited added arbitrary: visited' added' rule: scan_edges.induct)
  case (1 target path visited added)
  then show ?case by simp
next
  case (2 target path e es visited added)
  show ?case
  proof (cases "ge_target_table e \<in> visited")
    case True
    with 2(3) have ne: "ge_target_table e \<noteq> target" and r: "scan_edges target path es visited added = Inr (visited', added')"
      by (auto split: if_splits)
    from 2(2) [OF ne _ r] True obtain new where
      "visited' = visited \<union> ge_target_table ` set es" "target \<notin> ge_target_table ` set es" "added' = added @ new"
      "fst ` set new = visited' - visited" "\<forall>(v, p)\<in>set new. \<exists>e\<in>set es. v = ge_target_table e \<and> p = path @ [to_resolved e]" by auto
    then show ?thesis using True ne by (intro conjI exI [of _ new]) auto
  next
    case False
    let ?v = "ge_target_table e"
    from False 2(3) have ne: "?v \<noteq> target"
      and r: "scan_edges target path es (insert ?v visited) (added @ [(?v, path @ [to_resolved e])]) = Inr (visited', added')"
      by (auto split: if_splits)
    from 2(1) [OF ne False r] obtain new where
      n: "visited' = insert ?v visited \<union> ge_target_table ` set es" "target \<notin> ge_target_table ` set es"
      "added' = (added @ [(?v, path @ [to_resolved e])]) @ new" "fst ` set new = visited' - insert ?v visited"
      "\<forall>(v, p)\<in>set new. \<exists>e\<in>set es. v = ge_target_table e \<and> p = path @ [to_resolved e]"
      by (elim conjE exE) (rule that)
    show ?thesis
    proof (intro conjI exI [of _ "(?v, path @ [to_resolved e]) # new"])
      show "fst ` set ((?v, path @ [to_resolved e]) # new) = visited' - visited" using n(1,4) False by auto
    qed (use n ne in auto)
  qed
qed

lemma scan_edges_Inl:
  "scan_edges target path es visited added = Inl p \<Longrightarrow> \<exists>e\<in>set es. ge_target_table e = target \<and> p = path @ [to_resolved e]"
  by (induction target path es visited added rule: scan_edges.induct) (auto split: if_splits)

function bfs :: "relationship_graph \<Rightarrow> string \<Rightarrow> bfs_queue \<Rightarrow> string set \<Rightarrow> resolved_relationship list" where
  "bfs g target [] visited = []"
| "bfs g target ((current, path_so_far) # queue) visited =
     (case scan_edges target path_so_far (edges_from g current) visited [] of
        Inl p \<Rightarrow> p
      | Inr (visited', added) \<Rightarrow> bfs g target (queue @ added) visited')"
  by pat_completeness auto

termination
proof (relation "measures [\<lambda>(g, t, q, v). card (graph_targets g - v), \<lambda>(g, t, q, v). length q]")
  show "wf (measures [\<lambda>(g, t, q, v). card (graph_targets g - v), \<lambda>(g, t, q :: bfs_queue, v). length q])" by simp
next
  fix g :: relationship_graph and target current :: string and path :: "resolved_relationship list" and q :: bfs_queue
    and visited visited' :: "string set" and added :: bfs_queue and y
  assume "scan_edges target path (edges_from g current) visited [] = Inr y" "(visited', added) = y"
  then have s: "visited' = visited \<union> ge_target_table ` set (edges_from g current)" "fst ` set added = visited' - visited"
    using scan_edges_Inr [of target path "edges_from g current" visited "[]" visited' added] by auto
  show "((g, target, q @ added, visited'), g, target, (current, path) # q, visited)
     \<in> measures [\<lambda>(g, t, q, v). card (graph_targets g - v), \<lambda>(g, t, q, v). length q]"
  proof (cases "visited' = visited")
    case True
    then have "added = []" using s(2) by simp
    with True show ?thesis by simp
  next
    case False
    then have "graph_targets g - visited' \<subset> graph_targets g - visited" using s(1) edges_targets [of g current] by auto
    then have "card (graph_targets g - visited') < card (graph_targets g - visited)"
      using finite_graph_targets by (intro psubset_card_mono) auto
    then show ?thesis by simp
  qed
qed

definition find_path :: "relationship_graph \<Rightarrow> string \<Rightarrow> string \<Rightarrow> resolved_relationship list" where
  "find_path g source_table target_table =
     (if source_table = target_table then []
      else if source_table \<notin> rg_nodes g \<or> target_table \<notin> rg_nodes g then []
      else bfs g target_table [(source_table, [])] {source_table})"

definition rel_key :: "resolved_relationship \<Rightarrow> string \<times> string \<times> string" where
  "rel_key r = (rr_source_table r, rr_target_table r, rr_relationship_name r)"

definition find_paths_from :: "relationship_graph \<Rightarrow> string \<Rightarrow> string list \<Rightarrow> resolved_relationship list" where
  "find_paths_from g anchor_table other_tables =
     dedup_by rel_key {} (concat (map (\<lambda>target. if target = anchor_table then [] else find_path g anchor_table target) other_tables))"

section \<open>Walks\<close>

text \<open>A chain of relationships that leads from one table to another, edge by edge.\<close>

fun walk :: "relationship_graph \<Rightarrow> string \<Rightarrow> resolved_relationship list \<Rightarrow> string \<Rightarrow> bool" where
  "walk g a [] b = (a = b)"
| "walk g a (r # rs) b = (\<exists>e\<in>set (edges_from g a). r = to_resolved e \<and> walk g (ge_target_table e) rs b)"

lemma walk_append: "walk g a (p @ q) c \<longleftrightarrow> (\<exists>b. walk g a p b \<and> walk g b q c)"
  by (induction p arbitrary: a) auto

text \<open>
  The state between two rounds of the search from \<open>s\<close> to \<open>t\<close>: the queue holds shortest paths in
  the order of their length, which differs by at most one, and every visited table that is not
  queued has all its neighbours visited.
\<close>

definition bfs_inv :: "relationship_graph \<Rightarrow> string \<Rightarrow> string \<Rightarrow> bfs_queue \<Rightarrow> string set \<Rightarrow> bool" where
  "bfs_inv g s t queue visited =
     (s \<in> visited \<and> t \<notin> visited \<and> fst ` set queue \<subseteq> visited
      \<and> (\<forall>(v, p)\<in>set queue. walk g s p v \<and> (\<forall>es. walk g s es v \<longrightarrow> length p \<le> length es))
      \<and> (\<forall>v\<in>visited - fst ` set queue. ge_target_table ` set (edges_from g v) \<subseteq> visited)
      \<and> sorted (map (length \<circ> snd) queue)
      \<and> (\<forall>x\<in>set queue. length (snd x) \<le> length (snd (hd queue)) + 1))"

text \<open>A walk to an unvisited table passes a queued one, with an edge to go after it.\<close>

lemma walk_leaves:
  assumes "\<forall>v\<in>visited - fst ` set queue. ge_target_table ` set (edges_from g v) \<subseteq> visited"
  shows "walk g a es w \<Longrightarrow> a \<in> visited \<Longrightarrow> w \<notin> visited \<Longrightarrow>
    \<exists>pre post u. es = pre @ post \<and> post \<noteq> [] \<and> walk g a pre u \<and> u \<in> fst ` set queue"
proof (induction es arbitrary: a)
  case Nil
  then show ?case by simp
next
  case (Cons r es)
  show ?case
  proof (cases "a \<in> fst ` set queue")
    case True
    then show ?thesis by (intro exI [of _ "[]"] exI [of _ "r # es"] exI [of _ a]) simp
  next
    case False
    from Cons.prems(1) obtain e where e: "e \<in> set (edges_from g a)" "r = to_resolved e" "walk g (ge_target_table e) es w" by auto
    then have "ge_target_table e \<in> visited" using assms False Cons.prems(2) by blast
    from Cons.IH [OF e(3) this Cons.prems(3)] obtain pre post u where
      "es = pre @ post" "post \<noteq> []" "walk g (ge_target_table e) pre u" "u \<in> fst ` set queue" by blast
    then show ?thesis using e by (intro exI [of _ "r # pre"] exI [of _ post] exI [of _ u]) auto
  qed
qed

lemma unvisited_far:
  assumes "bfs_inv g s t ((current, path) # queue) visited" "w \<notin> visited" "walk g s es w"
  shows "length path < length es"
proof -
  from assms(1) have inv: "s \<in> visited"
      "\<forall>v\<in>visited - fst ` set ((current, path) # queue). ge_target_table ` set (edges_from g v) \<subseteq> visited"
      "\<forall>(v, p)\<in>set ((current, path) # queue). walk g s p v \<and> (\<forall>es. walk g s es v \<longrightarrow> length p \<le> length es)"
      "sorted (map (length \<circ> snd) ((current, path) # queue))"
    by (simp_all add: bfs_inv_def)
  from walk_leaves [OF inv(2) assms(3) inv(1) assms(2)] obtain pre post u where
    es: "es = pre @ post" "post \<noteq> []" "walk g s pre u" "u \<in> fst ` set ((current, path) # queue)" by blast
  from es(4) obtain x where "x \<in> set ((current, path) # queue)" "u = fst x" by (rule imageE)
  then have q: "(u, snd x) \<in> set ((current, path) # queue)" by simp
  with inv(3) es(3) have "length (snd x) \<le> length pre" by blast
  moreover have "length path \<le> length (snd x)" using q inv(4) by auto
  ultimately show ?thesis using es(1,2) by (cases post) auto
qed

lemma bfs_step:
  assumes inv: "bfs_inv g s t ((current, path) # queue) visited"
    and scan: "scan_edges t path (edges_from g current) visited [] = Inr (visited', added)"
  shows "bfs_inv g s t (queue @ added) visited'"
proof -
  from scan_edges_Inr [OF scan] have vis: "visited' = visited \<union> ge_target_table ` set (edges_from g current)"
    and t: "t \<notin> ge_target_table ` set (edges_from g current)" and new: "fst ` set added = visited' - visited"
    and paths: "\<forall>(v, p)\<in>set added. \<exists>e\<in>set (edges_from g current). v = ge_target_table e \<and> p = path @ [to_resolved e]"
    by auto
  have cur: "walk g s path current" using inv by (simp add: bfs_inv_def)
  have queued: "walk g s p v \<and> (\<forall>es. walk g s es v \<longrightarrow> length p \<le> length es)" if a: "(v, p) \<in> set added" for v p
  proof -
    from paths a obtain e where e: "e \<in> set (edges_from g current)" "v = ge_target_table e" "p = path @ [to_resolved e]" by blast
    have "v \<notin> visited" using a new by force
    then have "length path < length es" if "walk g s es v" for es using unvisited_far [OF inv _ that] by blast
    then show ?thesis using e cur by (auto simp: walk_append Suc_le_eq)
  qed
  have lens: "length (snd x) = length path + 1" if "x \<in> set added" for x
  proof -
    obtain v p where x: "x = (v, p)" by (cases x)
    with paths that obtain e where "p = path @ [to_resolved e]" by blast
    then show ?thesis by (simp add: x)
  qed
  have sq: "sorted (map (length \<circ> snd) queue)" and low: "\<forall>x\<in>set queue. length path \<le> length (snd x)"
    and high: "\<forall>x\<in>set queue. length (snd x) \<le> length path + 1"
    using inv by (simp_all add: bfs_inv_def)
  have "sorted (map (length \<circ> snd) added)"
    using lens by (simp add: sorted_wrt_map) (rule sorted_wrt_mono_rel [of _ "\<lambda>_ _. True"], simp_all add: sorted_wrt_true)
  then have "sorted (map (length \<circ> snd) (queue @ added))"
    using sq high lens by (simp add: sorted_append)
  moreover have "\<forall>x\<in>set (queue @ added). length (snd x) \<le> length (snd (hd (queue @ added))) + 1"
  proof (cases "queue @ added = []")
    case False
    then have "hd (queue @ added) \<in> set (queue @ added)" by (rule hd_in_set)
    moreover have "length path \<le> length (snd x)" if "x \<in> set (queue @ added)" for x
      using that low lens [of x] by (simp only: set_append Un_iff) auto
    ultimately have "length path \<le> length (snd (hd (queue @ added)))" by blast
    moreover have "length (snd x) \<le> length path + 1" if "x \<in> set (queue @ added)" for x
      using that high lens [of x] by (simp only: set_append Un_iff) auto
    ultimately show ?thesis by (meson add_le_cancel_right order_trans)
  qed simp
  moreover have "\<forall>v\<in>visited' - fst ` set (queue @ added). ge_target_table ` set (edges_from g v) \<subseteq> visited'"
  proof
    fix v assume v: "v \<in> visited' - fst ` set (queue @ added)"
    show "ge_target_table ` set (edges_from g v) \<subseteq> visited'"
    proof (cases "v = current")
      case True
      then show ?thesis using vis by blast
    next
      case False
      with v new have "v \<in> visited - fst ` set ((current, path) # queue)" by auto
      then have "ge_target_table ` set (edges_from g v) \<subseteq> visited" using inv unfolding bfs_inv_def by blast
      then show ?thesis using vis by blast
    qed
  qed
  moreover have "fst ` set (queue @ added) \<subseteq> visited'" "s \<in> visited'" "t \<notin> visited'"
    using inv vis new t by (auto simp: bfs_inv_def)
  moreover have "\<forall>(v, p)\<in>set (queue @ added). walk g s p v \<and> (\<forall>es. walk g s es v \<longrightarrow> length p \<le> length es)"
    using inv queued unfolding bfs_inv_def by auto
  ultimately show ?thesis unfolding bfs_inv_def by blast
qed

lemma bfs_correct:
  "bfs_inv g s t queue visited \<Longrightarrow>
   (if \<exists>es. walk g s es t then walk g s (bfs g t queue visited) t \<and> (\<forall>es. walk g s es t \<longrightarrow> length (bfs g t queue visited) \<le> length es)
    else bfs g t queue visited = [])"
proof (induction g t queue visited rule: bfs.induct)
  case (1 g t visited)
  then have "\<not> walk g s es t" for es using walk_leaves [of visited "[]" g s es t] by (auto simp: bfs_inv_def)
  then show ?case by simp
next
  case (2 g t current path queue visited)
  show ?case
  proof (cases "scan_edges t path (edges_from g current) visited []")
    case (Inl p)
    then obtain e where e: "e \<in> set (edges_from g current)" "ge_target_table e = t" "p = path @ [to_resolved e]"
      using scan_edges_Inl by blast
    have "walk g s path current" "t \<notin> visited" using 2(2) by (simp_all add: bfs_inv_def)
    moreover from this have "length path < length es" if "walk g s es t" for es using unvisited_far [OF 2(2) _ that] by blast
    ultimately have "walk g s p t" "\<forall>es. walk g s es t \<longrightarrow> length p \<le> length es"
      using e by (auto simp: walk_append Suc_le_eq)
    then show ?thesis using Inl by auto
  next
    case (Inr y)
    obtain visited' added where y: "y = (visited', added)" by (cases y)
    from 2(1) [OF Inr y [symmetric] bfs_step [OF 2(2) Inr [unfolded y]]] show ?thesis using Inr y by simp
  qed
qed

text \<open>
  C12. The search for a join path returns a shortest chain of relationships from one table to the
  other whenever the two are different tables of the graph that some chain connects, and the empty
  path exactly in the other cases.
\<close>

theorem find_path_shortest:
  "if source_table \<noteq> target_table \<and> source_table \<in> rg_nodes g \<and> target_table \<in> rg_nodes g
      \<and> (\<exists>es. walk g source_table es target_table)
   then walk g source_table (find_path g source_table target_table) target_table
      \<and> (\<forall>es. walk g source_table es target_table \<longrightarrow> length (find_path g source_table target_table) \<le> length es)
   else find_path g source_table target_table = []"
proof (cases "source_table \<noteq> target_table \<and> source_table \<in> rg_nodes g \<and> target_table \<in> rg_nodes g")
  case True
  then have "bfs_inv g source_table target_table [(source_table, [])] {source_table}"
    by (auto simp: bfs_inv_def)
  moreover have "find_path g source_table target_table = bfs g target_table [(source_table, [])] {source_table}"
    using True by (simp only: find_path_def if_False simp_thms)
  ultimately show ?thesis using bfs_correct [of g source_table target_table "[(source_table, [])]" "{source_table}"] True by presburger
next
  case False
  then show ?thesis by (auto simp: find_path_def)
qed

definition demo_edge :: "string \<Rightarrow> string \<Rightarrow> relationship_metadata" where
  "demo_edge a b = \<lparr> rel_name = b, rel_source_table = a, rel_target_table = b, rel_source_columns = [''id''],
     rel_target_columns = [''id''], rel_direction = Many_To_One, rel_back_populates = None \<rparr>"

definition demo_joins :: relationship_graph where
  "demo_joins = make_graph [''a'', ''b'', ''c''] [demo_edge ''a'' ''b'', demo_edge ''b'' ''c'', demo_edge ''a'' ''c'']"

theorem find_path_shortest_witness: "length (find_path demo_joins ''a'' ''c'') = 1"
proof -
  have w: "walk demo_joins ''a'' [to_resolved (from_relationship (demo_edge ''a'' ''c''))] ''c''"
    by (simp add: demo_joins_def edges_from_relationships demo_edge_def from_relationship_def)
  have n: "''a'' \<in> rg_nodes demo_joins" "''c'' \<in> rg_nodes demo_joins" by (simp_all add: demo_joins_def make_graph_def)
  have "\<exists>es. walk demo_joins ''a'' es ''c''" using w by (rule exI)
  with find_path_shortest [of "''a''" "''c''" demo_joins] n have
    path: "walk demo_joins ''a'' (find_path demo_joins ''a'' ''c'') ''c''"
    and le: "\<And>es. walk demo_joins ''a'' es ''c'' \<Longrightarrow> length (find_path demo_joins ''a'' ''c'') \<le> length es"
    by simp_all
  from le [OF w] path show ?thesis by (cases "find_path demo_joins ''a'' ''c''") auto
qed

end
