(* ===== verification/Difflib.thy ===== *)
theory Difflib
  imports Prelude
begin

text \<open>
  \<open>difflib.SequenceMatcher(None, a, b).ratio()\<close> of the standard library: twice the number of
  matched characters over the number of all characters, where the matched blocks are found by
  taking a longest block, first in \<open>a\<close>, then in \<open>b\<close>, and going on to its left and right. Characters
  that are popular in a long \<open>b\<close> do not start a block but extend one.
\<close>

definition popular :: "string \<Rightarrow> char \<Rightarrow> bool" where
  "popular b c = (200 \<le> length b \<and> length b div 100 + 1 < count_list b c)"

fun common_prefix :: "(char \<Rightarrow> bool) \<Rightarrow> string \<Rightarrow> string \<Rightarrow> nat" where
  "common_prefix ok (x # xs) (y # ys) = (if x = y \<and> ok y then Suc (common_prefix ok xs ys) else 0)"
| "common_prefix ok _ _ = 0"

text \<open>The first longest block: a later pair of positions replaces an earlier one only by a longer block.\<close>

definition block_starts :: "string \<Rightarrow> string \<Rightarrow> (nat \<times> nat) list" where
  "block_starts a b = concat (map (\<lambda>i. map (\<lambda>j. (i, j)) [0..<length b]) [0..<length a])"

definition longest_block :: "(char \<Rightarrow> bool) \<Rightarrow> string \<Rightarrow> string \<Rightarrow> nat \<times> nat \<times> nat" where
  "longest_block ok a b = fold (\<lambda>(i, j) (bi, bj, k).
     let n = common_prefix ok (drop i a) (drop j b) in if k < n then (i, j, n) else (bi, bj, k))
     (block_starts a b) (0, 0, 0)"

text \<open>Extension to the left and to the right by equal characters.\<close>

definition extended_block :: "(char \<Rightarrow> bool) \<Rightarrow> string \<Rightarrow> string \<Rightarrow> nat \<times> nat \<times> nat" where
  "extended_block ok a b =
     (let (i, j, k) = longest_block ok a b;
          l = common_prefix (\<lambda>_. True) (rev (take i a)) (rev (take j b));
          r = common_prefix (\<lambda>_. True) (drop (i + k) a) (drop (j + k) b)
      in (i - l, j - l, l + k + r))"

lemma common_prefix_le: "common_prefix ok xs ys \<le> length xs" "common_prefix ok xs ys \<le> length ys"
  by (induction ok xs ys rule: common_prefix.induct) auto

lemma longest_block_fits:
  "case longest_block ok a b of (i, j, k) \<Rightarrow> i + k \<le> length a \<and> j + k \<le> length b"
proof -
  have inv: "(case st of (i, j, k) \<Rightarrow> i + k \<le> length a \<and> j + k \<le> length b) \<Longrightarrow>
      set ps \<subseteq> {(i, j). i \<le> length a \<and> j \<le> length b} \<Longrightarrow>
      (case fold (\<lambda>(i, j) (bi, bj, k).
        let n = common_prefix ok (drop i a) (drop j b) in if k < n then (i, j, n) else (bi, bj, k)) ps st
       of (i, j, k) \<Rightarrow> i + k \<le> length a \<and> j + k \<le> length b)" for ps st
  proof (induction ps arbitrary: st)
    case (Cons p ps)
    obtain i j where p: "p = (i, j)" by (cases p)
    have "i + common_prefix ok (drop i a) (drop j b) \<le> length a" "j + common_prefix ok (drop i a) (drop j b) \<le> length b"
      using common_prefix_le [of ok "drop i a" "drop j b"] Cons.prems(2) p by auto
    then show ?case using Cons p by (cases st) (auto simp: Let_def)
  qed simp
  show ?thesis unfolding longest_block_def by (rule inv) (auto simp: block_starts_def)
qed

lemma extended_block_fits:
  assumes "extended_block ok a b = (i, j, k)"
  shows "i + k \<le> length a" "j + k \<le> length b"
proof -
  obtain i0 j0 k0 where l: "longest_block ok a b = (i0, j0, k0)" by (cases "longest_block ok a b")
  with longest_block_fits [of a b ok] have f: "i0 + k0 \<le> length a" "j0 + k0 \<le> length b" by simp_all
  let ?l = "common_prefix (\<lambda>_. True) (rev (take i0 a)) (rev (take j0 b))"
  let ?r = "common_prefix (\<lambda>_. True) (drop (i0 + k0) a) (drop (j0 + k0) b)"
  have "?l \<le> i0" "?l \<le> j0" using common_prefix_le [of _ "rev (take i0 a)" "rev (take j0 b)"] f by simp_all
  moreover have "?r \<le> length a - (i0 + k0)" "?r \<le> length b - (j0 + k0)"
    using common_prefix_le [of _ "drop (i0 + k0) a" "drop (j0 + k0) b"] by simp_all
  ultimately show "i + k \<le> length a" "j + k \<le> length b"
    using assms f by (auto simp: extended_block_def l Let_def)
qed

function matched_size :: "(char \<Rightarrow> bool) \<Rightarrow> string \<Rightarrow> string \<Rightarrow> nat" where
  "matched_size ok a b =
     (let (i, j, k) = extended_block ok a b in
      if k = 0 then 0
      else k + matched_size ok (take i a) (take j b) + matched_size ok (drop (i + k) a) (drop (j + k) b))"
  by pat_completeness auto
termination
proof (relation "measure (\<lambda>(ok, a, b). length a)")
  fix ok :: "char \<Rightarrow> bool" and a b x i y j k
  assume a: "x = extended_block ok a b" "(i, y) = x" "(j, k) = y" "k \<noteq> (0::nat)"
  then have "extended_block ok a b = (i, j, k)" by simp
  from extended_block_fits [OF this] a(4) show "((ok, take i a, take j b), ok, a, b) \<in> measure (\<lambda>(ok, a, b). length a)"
    "((ok, drop (i + k) a, drop (j + k) b), ok, a, b) \<in> measure (\<lambda>(ok, a, b). length a)" by auto
qed simp

declare matched_size.simps [simp del]

definition sequence_ratio :: "string \<Rightarrow> string \<Rightarrow> real" where
  "sequence_ratio a b =
     (if length a + length b = 0 then 1
      else 2 * real (matched_size (\<lambda>c. \<not> popular b c) a b) / real (length a + length b))"

lemma matched_size_le: "matched_size ok a b \<le> length a \<and> matched_size ok a b \<le> length b"
proof (induction ok a b rule: matched_size.induct)
  case (1 ok a b)
  obtain i j k where e: "extended_block ok a b = (i, j, k)" by (cases "extended_block ok a b")
  note f = extended_block_fits [OF e]
  show ?case
  proof (cases "k = 0")
    case False
    from 1(1) [OF e [symmetric] refl refl False] 1(2) [OF e [symmetric] refl refl False] f False show ?thesis
      by (subst (1 2) matched_size.simps) (auto simp: e)
  qed (subst (1 2) matched_size.simps, simp add: e)
qed

lemma sequence_ratio_unit: "0 \<le> sequence_ratio a b \<and> sequence_ratio a b \<le> 1"
proof -
  have "2 * real (matched_size (\<lambda>c. \<not> popular b c) a b) \<le> real (length a + length b)"
    using matched_size_le [of "\<lambda>c. \<not> popular b c" a b] by linarith
  then show ?thesis by (auto simp: sequence_ratio_def divide_le_eq_1)
qed

end
