(* ===== verification/Schema_Linker.thy ===== *)
theory Schema_Linker
  imports Join_Path Difflib Cache "HOL-Library.Product_Lexorder"
begin

text \<open>
  Linking a parsed question to the schema (\<open>schema_linker/\<close>): the tiers of the concept matcher,
  the confidence scorer, the candidate generator with its cache, the ambiguity detector, the
  resolver of each kind of concept and the linker. The order in which Python iterates over a set
  and the formatting \<open>{x:.2f}\<close> are parameters.
\<close>

datatype linker_error = EmptyRegistryError | L_Registry registry_error

section \<open>Matching (matcher.py)\<close>

definition ABBREVIATIONS :: "(string, string) dict" where
  "ABBREVIATIONS = [(''qty'', ''quantity''), (''amt'', ''amount''), (''num'', ''number''), (''id'', ''identifier''),
     (''addr'', ''address''), (''desc'', ''description''), (''msg'', ''message''), (''dob'', ''date of birth''),
     (''pct'', ''percent''), (''avg'', ''average''), (''min'', ''minimum''), (''max'', ''maximum''),
     (''std'', ''standard''), (''info'', ''information'')]"

definition FUZZY_THRESHOLD :: real where
  "FUZZY_THRESHOLD = 75/100"

definition PARTIAL_MIN_LENGTH :: nat where
  "PARTIAL_MIN_LENGTH = 3"

definition normalize_concept :: "string \<Rightarrow> string" where
  "normalize_concept s =
     join '' '' (split_words (map (\<lambda>c. if c = CHR ''_'' then CHR '' '' else c) (lower (strip s))) [])"

definition endswith :: "string \<Rightarrow> string \<Rightarrow> bool" where
  "endswith s t = (length t \<le> length s \<and> drop (length s - length t) s = t)"

text \<open>\<open>s[:-n]\<close>.\<close>

definition chop :: "nat \<Rightarrow> string \<Rightarrow> string" where
  "chop n s = take (length s - n) s"

definition sibilant :: "string \<Rightarrow> bool" where
  "sibilant w = (\<exists>t\<in>{''s'', ''x'', ''z'', ''ch'', ''sh''}. endswith w t)"

definition singularize :: "string \<Rightarrow> string" where
  "singularize w =
     (if endswith w ''ies'' \<and> 3 < length w then chop 3 w @ ''y''
      else if endswith w ''es'' \<and> sibilant (chop 2 w) then chop 2 w
      else if endswith w ''s'' \<and> \<not> endswith w ''ss'' then chop 1 w
      else w)"

text \<open>\<open>word[-2:-1] not in 'aeiou'\<close>: the empty slice of a one-letter word is in every text.\<close>

definition pluralize :: "string \<Rightarrow> string" where
  "pluralize w =
     (if sibilant w then w @ ''es''
      else if endswith w ''y'' \<and> \<not> sublist (take 1 (drop (length w - 2) (chop 1 w))) ''aeiou'' then chop 1 w @ ''ies''
      else w @ ''s'')"

definition canonical_alias_tokens :: "string \<Rightarrow> string set" where
  "canonical_alias_tokens s = set (concat (map (\<lambda>token.
     split_words (case map_of ABBREVIATIONS token of Some t \<Rightarrow> t | None \<Rightarrow> token) []) (split_words (normalize_concept s) [])))"

record match_result =
  mr_tier :: match_tier
  mr_similarity :: real
  mr_matched_text :: string

definition concept_forms :: "string \<Rightarrow> string set" where
  "concept_forms concept = {normalize_concept concept, normalize_concept (singularize concept), normalize_concept (pluralize concept)}"

fun best_partial_ratio :: "string \<Rightarrow> string list \<Rightarrow> real option \<Rightarrow> real option" where
  "best_partial_ratio concept [] best = best"
| "best_partial_ratio concept (x # xs) best =
     (let t = normalize_concept x in
      if sublist concept t \<or> sublist t concept
      then let ratio = real (min (length concept) (length t)) / real (max (length concept) (length t))
           in best_partial_ratio concept xs
                (if (case best of None \<Rightarrow> True | Some b \<Rightarrow> b < ratio) then Some ratio else best)
      else best_partial_ratio concept xs best)"

text \<open>\<open>max(..., default=0.0)\<close>; the name is always among the texts.\<close>

definition best_fuzzy_ratio :: "string \<Rightarrow> string list \<Rightarrow> real" where
  "best_fuzzy_ratio concept xs = fold (\<lambda>x m. max m (sequence_ratio concept (normalize_concept x))) xs 0"

text \<open>The element that \<open>next(iter(s))\<close> yields of a set depends on the order of its iteration.\<close>

definition match_concept ::
  "(string set \<Rightarrow> string) \<Rightarrow> string \<Rightarrow> string \<Rightarrow> string list \<Rightarrow> string list \<Rightarrow> string option \<Rightarrow> match_result option" where
  "match_concept pick concept name synonyms search_keywords display_name =
     (let normalized_concept = normalize_concept concept;
          forms = concept_forms concept;
          dictionary_hit = forms \<inter> (set (map normalize_concept search_keywords)
             \<union> (case display_name of None \<Rightarrow> {} | Some d \<Rightarrow> {normalize_concept d}));
          synonym_hit = forms \<inter> set (map normalize_concept synonyms);
          searchable_texts = name # synonyms @ search_keywords
             @ (case display_name of None \<Rightarrow> [] | Some d \<Rightarrow> if d = [] then [] else [d]);
          fuzzy = best_fuzzy_ratio normalized_concept searchable_texts
      in if normalize_concept name \<in> forms then Some \<lparr> mr_tier = Exact, mr_similarity = 1, mr_matched_text = name \<rparr>
         else if dictionary_hit \<noteq> {}
         then Some \<lparr> mr_tier = Business_Dictionary, mr_similarity = 1, mr_matched_text = pick dictionary_hit \<rparr>
         else if synonym_hit \<noteq> {} then Some \<lparr> mr_tier = Synonym, mr_similarity = 1, mr_matched_text = pick synonym_hit \<rparr>
         else if canonical_alias_tokens concept = canonical_alias_tokens name
         then Some \<lparr> mr_tier = Alias, mr_similarity = 1, mr_matched_text = name \<rparr>
         else if FUZZY_THRESHOLD \<le> fuzzy then Some \<lparr> mr_tier = Fuzzy, mr_similarity = fuzzy, mr_matched_text = name \<rparr>
         else if PARTIAL_MIN_LENGTH \<le> length normalized_concept
         then map_option (\<lambda>r. \<lparr> mr_tier = Partial, mr_similarity = r, mr_matched_text = name \<rparr>)
                (best_partial_ratio normalized_concept searchable_texts None)
         else None)"

section \<open>Confidence (scorer.py)\<close>

fun tier_confidence :: "match_tier \<Rightarrow> real option" where
  "tier_confidence Exact = Some 1"
| "tier_confidence Business_Dictionary = Some (92/100)"
| "tier_confidence Synonym = Some (85/100)"
| "tier_confidence Alias = Some (78/100)"
| "tier_confidence _ = None"

definition scale_confidence :: "real \<Rightarrow> real \<Rightarrow> real \<Rightarrow> real \<Rightarrow> real \<Rightarrow> real" where
  "scale_confidence v source_low source_high target_low target_high =
     (let sp = source_high - source_low;
          fraction = (if sp \<noteq> 0 then (v - source_low) / sp else 1)
      in round4 (target_low + (target_high - target_low) * min (max fraction 0) 1))"

definition confidence_score :: "match_result \<Rightarrow> real" where
  "confidence_score r =
     (case tier_confidence (mr_tier r) of
        Some c \<Rightarrow> c
      | None \<Rightarrow> if mr_tier r = Fuzzy then scale_confidence (mr_similarity r) FUZZY_THRESHOLD 1 (45/100) (70/100)
                else scale_confidence (mr_similarity r) 0 1 (25/100) (44/100))"

section \<open>Candidates (candidates.py, cache.py)\<close>

type_synonym linker_cache = "bool \<times> string \<rightharpoonup> link_candidate list"

record linker_state =
  lk_registry :: metadata_registry
  lk_cache :: linker_cache

text \<open>What \<open>registry.load()\<close> extracts and how it enriches it.\<close>

record schema_source =
  ss_extracted :: "registry_error + database_metadata"
  ss_enrich :: "(database_metadata \<Rightarrow> registry_error + database_metadata) option"

definition load_schema :: "schema_source \<Rightarrow> (linker_state, linker_error, database_metadata) op" where
  "load_schema src s =
     (case metadata_load (ss_extracted src) (ss_enrich src) (lk_registry s) of
        (Inl e, c) \<Rightarrow> (Inl (L_Registry e), s \<lparr> lk_registry := c \<rparr>)
      | (Inr d, c) \<Rightarrow> (Inr d, s \<lparr> lk_registry := c \<rparr>))"

fun tier_priority :: "match_tier \<Rightarrow> nat" where
  "tier_priority Exact = 0"
| "tier_priority Business_Dictionary = 1"
| "tier_priority Synonym = 2"
| "tier_priority Alias = 3"
| "tier_priority Fuzzy = 4"
| "tier_priority Partial = 5"

definition rank_link_candidates :: "link_candidate list \<Rightarrow> link_candidate list" where
  "rank_link_candidates cs =
     (let ordered = sort_key (\<lambda>c. (- lc_confidence c, tier_priority (lc_matching_reason c))) cs
      in map2 (\<lambda>r c. c \<lparr> lc_candidate_rank := r \<rparr>) [1..<length ordered + 1] ordered)"

definition link_candidate_of :: "string \<Rightarrow> string option \<Rightarrow> match_result \<Rightarrow> link_candidate" where
  "link_candidate_of table_name column_name r = \<lparr> lc_table_name = table_name, lc_column_name = column_name,
     lc_confidence = confidence_score r, lc_matching_reason = mr_tier r, lc_candidate_rank = 1,
     lc_matched_text = mr_matched_text r \<rparr>"

definition table_candidates :: "(string set \<Rightarrow> string) \<Rightarrow> database_metadata \<Rightarrow> string \<Rightarrow> link_candidate list" where
  "table_candidates pick d concept = rank_link_candidates (concat (map (\<lambda>t.
     case match_concept pick concept (tbl_name t) (tbl_synonyms t) [] None of
       None \<Rightarrow> [] | Some r \<Rightarrow> [link_candidate_of (tbl_name t) None r]) (db_tables d)))"

definition column_candidates :: "(string set \<Rightarrow> string) \<Rightarrow> database_metadata \<Rightarrow> string \<Rightarrow> link_candidate list" where
  "column_candidates pick d concept = rank_link_candidates (concat (map (\<lambda>t. concat (map (\<lambda>col.
     case match_concept pick concept (col_name col) (col_synonyms col) (col_search_keywords col) (col_display_name col) of
       None \<Rightarrow> [] | Some r \<Rightarrow> [link_candidate_of (tbl_name t) (Some (col_name col)) r]) (tbl_columns t))) (db_tables d)))"

definition generate_candidates ::
  "bool \<Rightarrow> (database_metadata \<Rightarrow> string \<Rightarrow> link_candidate list) \<Rightarrow> schema_source \<Rightarrow> string \<Rightarrow>
   (linker_state, linker_error, link_candidate list) op" where
  "generate_candidates is_table scan src concept s =
     (let key = (is_table, normalize_concept concept) in
      case cache_get_mem (lk_cache s) key of
        Some cs \<Rightarrow> (Inr cs, s)
      | None \<Rightarrow> (case load_schema src s of
          (Inl e, s') \<Rightarrow> (Inl e, s')
        | (Inr d, s') \<Rightarrow> (let cs = scan d concept in (Inr cs, s' \<lparr> lk_cache := cache_set_mem (lk_cache s') key cs \<rparr>))))"

definition generate_table_candidates ::
  "(string set \<Rightarrow> string) \<Rightarrow> schema_source \<Rightarrow> string \<Rightarrow> (linker_state, linker_error, link_candidate list) op" where
  "generate_table_candidates pick = generate_candidates True (table_candidates pick)"

definition generate_column_candidates ::
  "(string set \<Rightarrow> string) \<Rightarrow> schema_source \<Rightarrow> string \<Rightarrow> (linker_state, linker_error, link_candidate list) op" where
  "generate_column_candidates pick = generate_candidates False (column_candidates pick)"

section \<open>Ambiguity (ambiguity.py)\<close>

definition MIN_CONFIDENCE :: real where
  "MIN_CONFIDENCE = 6/10"

definition MIN_MARGIN :: real where
  "MIN_MARGIN = 1/10"

definition describe :: "link_candidate \<Rightarrow> string" where
  "describe c = (case lc_column_name c of None \<Rightarrow> lc_table_name c | Some col \<Rightarrow> lc_table_name c @ ''.'' @ col)"

text \<open>\<open>None\<close> is a confident decision, \<open>Some\<close> the reason against it.\<close>

definition decide :: "(real \<Rightarrow> string) \<Rightarrow> link_candidate list \<Rightarrow> string option" where
  "decide fmt cs =
     (case cs of
        [] \<Rightarrow> Some ''No candidate schema object matched this business concept at any tier.''
      | best # rest \<Rightarrow>
          if lc_confidence best < MIN_CONFIDENCE
          then Some (''Best candidate ('' @ describe best @ '', confidence '' @ fmt (lc_confidence best)
            @ '') is below the minimum '' @ fmt MIN_CONFIDENCE @ '' required to resolve automatically.'')
          else case rest of
                 [] \<Rightarrow> None
               | runner_up # _ \<Rightarrow>
                   if lc_confidence best - lc_confidence runner_up < MIN_MARGIN
                   then Some (''Top candidates are within '' @ fmt MIN_MARGIN @ '' confidence of each other ('' @ describe best
                     @ '' at '' @ fmt (lc_confidence best) @ '' vs. '' @ describe runner_up @ '' at ''
                     @ fmt (lc_confidence runner_up) @ ''); cannot pick one without more context.'')
                   else None)"

section \<open>Resolution (resolver.py)\<close>

text \<open>What is outside the linker, and what it is configured with.\<close>

record linker_env =
  le_pick :: "string set \<Rightarrow> string"
  le_fmt :: "real \<Rightarrow> string"
  le_source :: schema_source

definition ambiguity_for :: "string \<Rightarrow> concept_kind \<Rightarrow> link_candidate list \<Rightarrow> string \<Rightarrow> ambiguity" where
  "ambiguity_for concept kind cs reason = \<lparr> am_business_concept = concept, am_concept_kind = kind, am_candidates = cs,
     am_reason = (if reason = [] then ''Could not be resolved to a single confident schema object.'' else reason) \<rparr>"

text \<open>The pair of a resolution and an ambiguity, of which the resolvers return exactly one, is a sum.\<close>

definition resolve_entity :: "linker_env \<Rightarrow> string \<Rightarrow> (linker_state, linker_error, ambiguity + resolved_table) op" where
  "resolve_entity env concept =
     sbind (generate_table_candidates (le_pick env) (le_source env) concept) (\<lambda>cs.
       case decide (le_fmt env) cs of
         Some reason \<Rightarrow> sreturn (Inl (ambiguity_for concept CK_Entity cs reason))
       | None \<Rightarrow> (let winner = hd cs in
           sbind (slift (\<lambda>s. case get_table (lk_registry s) (lc_table_name winner) of Inl e \<Rightarrow> Inl (L_Registry e) | Inr t \<Rightarrow> Inr t)) (\<lambda>t.
             sreturn (Inr \<lparr> rt_business_concept = concept, rt_table = t, rt_confidence = lc_confidence winner,
               rt_matching_reason = lc_matching_reason winner, rt_candidate_rank = lc_candidate_rank winner,
               rt_alternatives = tl cs \<rparr>))))"

text \<open>\<open>_resolve_column\<close> and the lookup of the winning column that every caller does next.\<close>

definition resolve_column ::
  "linker_env \<Rightarrow> string \<Rightarrow> concept_kind \<Rightarrow> (linker_state, linker_error, ambiguity + link_candidate list \<times> column_metadata) op" where
  "resolve_column env concept kind =
     sbind (generate_column_candidates (le_pick env) (le_source env) concept) (\<lambda>cs.
       case decide (le_fmt env) cs of
         Some reason \<Rightarrow> sreturn (Inl (ambiguity_for concept kind cs reason))
       | None \<Rightarrow> sbind (slift (\<lambda>s. case get_column (lk_registry s) (lc_table_name (hd cs)) (the (lc_column_name (hd cs))) of
                     Inl e \<Rightarrow> Inl (L_Registry e) | Inr c \<Rightarrow> Inr c)) (\<lambda>col. sreturn (Inr (cs, col))))"

definition resolve_dimension :: "linker_env \<Rightarrow> string \<Rightarrow> (linker_state, linker_error, ambiguity + resolved_column) op" where
  "resolve_dimension env concept = sbind (resolve_column env concept CK_Dimension) (\<lambda>r. sreturn (map_sum id (\<lambda>(cs, col).
     \<lparr> rc_business_concept = concept, rc_column = col, rc_confidence = lc_confidence (hd cs),
       rc_matching_reason = lc_matching_reason (hd cs), rc_candidate_rank = lc_candidate_rank (hd cs),
       rc_alternatives = tl cs \<rparr>) r))"

definition resolve_metric :: "linker_env \<Rightarrow> metric_expression \<Rightarrow> (linker_state, linker_error, ambiguity + resolved_metric) op" where
  "resolve_metric env metric = sbind (resolve_column env (me_name metric) CK_Metric) (\<lambda>r. sreturn (map_sum id (\<lambda>(cs, col).
     \<lparr> rm_business_concept = me_name metric, rm_column = col, rm_aggregation = me_aggregation metric,
       rm_raw_text = me_raw_text metric, rm_confidence = lc_confidence (hd cs),
       rm_matching_reason = lc_matching_reason (hd cs), rm_candidate_rank = lc_candidate_rank (hd cs),
       rm_alternatives = tl cs \<rparr>) r))"

definition resolve_filter :: "linker_env \<Rightarrow> filter_expression \<Rightarrow> (linker_state, linker_error, ambiguity + resolved_filter) op" where
  "resolve_filter env f = sbind (resolve_column env (fe_field f) CK_Filter_Field) (\<lambda>r. sreturn (map_sum id (\<lambda>(cs, col).
     \<lparr> rf_business_concept = fe_field f, rf_column = col, rf_operator = fe_operator f, rf_value = fe_value f,
       rf_raw_text = fe_raw_text f, rf_confidence = lc_confidence (hd cs), rf_matching_reason = lc_matching_reason (hd cs),
       rf_candidate_rank = lc_candidate_rank (hd cs), rf_alternatives = tl cs \<rparr>) r))"

definition resolve_sort :: "linker_env \<Rightarrow> sort_expression \<Rightarrow> (linker_state, linker_error, ambiguity + resolved_sort) op" where
  "resolve_sort env so = sbind (resolve_column env (se_field so) CK_Sort_Field) (\<lambda>r. sreturn (map_sum id (\<lambda>(cs, col).
     \<lparr> rs_business_concept = se_field so, rs_column = col, rs_direction = se_direction so, rs_raw_text = se_raw_text so,
       rs_confidence = lc_confidence (hd cs), rs_matching_reason = lc_matching_reason (hd cs),
       rs_candidate_rank = lc_candidate_rank (hd cs), rs_alternatives = tl cs \<rparr>) r))"

section \<open>The linker (linker.py)\<close>

text \<open>One of the loops: what was resolved and what is ambiguous, each in order.\<close>

fun resolve_each ::
  "('a \<Rightarrow> (linker_state, linker_error, ambiguity + 'b) op) \<Rightarrow> 'a list \<Rightarrow> (linker_state, linker_error, 'b list \<times> ambiguity list) op" where
  "resolve_each f [] = sreturn ([], [])"
| "resolve_each f (x # xs) =
     sbind (f x) (\<lambda>r. sbind (resolve_each f xs) (\<lambda>(rs, as).
       sreturn (case r of Inl a \<Rightarrow> (rs, a # as) | Inr y \<Rightarrow> (y # rs, as))))"

definition resolve_relationship_paths :: "string list \<Rightarrow> metadata_registry \<Rightarrow> registry_error + resolved_relationship list" where
  "resolve_relationship_paths involved c =
     (let unique_tables = dedup_by id {} involved in
      if length unique_tables < 2 then Inr []
      else rbind (build_graph c) (\<lambda>g. Inr (find_paths_from g (hd unique_tables) (tl unique_tables))))"

definition link :: "linker_env \<Rightarrow> query_context \<Rightarrow> (linker_state, linker_error, linked_query_context) op" where
  "link env qc =
     sbind (load_schema (le_source env)) (\<lambda>d.
     if db_tables d = [] then sraise EmptyRegistryError else
     sbind (resolve_each (resolve_entity env) (case qc_primary_entity qc of None \<Rightarrow> [] | Some e \<Rightarrow> [e])) (\<lambda>(primary, a1).
     sbind (resolve_each (resolve_entity env) (qc_secondary_entities qc)) (\<lambda>(secondary, a2).
     sbind (resolve_each (resolve_metric env) (qc_metrics qc)) (\<lambda>(metrics, a3).
     sbind (resolve_each (resolve_dimension env) (qc_dimensions qc)) (\<lambda>(dimensions, a4).
     sbind (resolve_each (resolve_filter env) (qc_filters qc)) (\<lambda>(filters, a5).
     sbind (resolve_each (resolve_sort env) (case qc_sort qc of None \<Rightarrow> [] | Some so \<Rightarrow> [so])) (\<lambda>(sorting, a6).
     let involved = map (\<lambda>e. tbl_name (rt_table e)) (primary @ secondary)
           @ map (\<lambda>m. col_table_name (rm_column m)) metrics @ map (\<lambda>c. col_table_name (rc_column c)) dimensions
           @ map (\<lambda>f. col_table_name (rf_column f)) filters @ map (\<lambda>so. col_table_name (rs_column so)) sorting
     in sbind (slift (\<lambda>s. case resolve_relationship_paths involved (lk_registry s) of Inl e \<Rightarrow> Inl (L_Registry e) | Inr p \<Rightarrow> Inr p)) (\<lambda>paths.
          sreturn \<lparr> lqc_query_context = qc,
            lqc_primary_entity = (case primary of [] \<Rightarrow> None | e # _ \<Rightarrow> Some e), lqc_secondary_entities = secondary,
            lqc_metrics = metrics, lqc_dimensions = dimensions, lqc_filters = filters,
            lqc_sort = (case sorting of [] \<Rightarrow> None | so # _ \<Rightarrow> Some so), lqc_relationship_paths = paths,
            lqc_ambiguities = a1 @ a2 @ a3 @ a4 @ a5 @ a6 \<rparr>))))))))"

end
