(* ===== verification/Linker_Properties.thy ===== *)
theory Linker_Properties
  imports Schema_Linker
begin

text \<open>
  Correctness of schema linking: confidences respect the order of the match tiers, every resolved
  object is an object of the loaded schema that beats its alternatives by a margin, every concept
  is resolved or reported, and the tables involved are joined by shortest paths.
\<close>

section \<open>Confidences\<close>

lemma best_fuzzy_unit: "0 \<le> best_fuzzy_ratio c xs \<and> best_fuzzy_ratio c xs \<le> 1"
proof -
  have "0 \<le> m \<Longrightarrow> m \<le> 1 \<Longrightarrow> 0 \<le> fold (\<lambda>x m. max m (sequence_ratio c (normalize_concept x))) xs m
      \<and> fold (\<lambda>x m. max m (sequence_ratio c (normalize_concept x))) xs m \<le> 1" for m
  proof (induction xs arbitrary: m)
    case (Cons x xs)
    have "0 \<le> max m (sequence_ratio c (normalize_concept x))" "max m (sequence_ratio c (normalize_concept x)) \<le> 1"
      using Cons.prems sequence_ratio_unit [of c "normalize_concept x"] by simp_all
    from Cons.IH [OF this] show ?case by simp
  qed simp
  from this [of 0] show ?thesis by (simp add: best_fuzzy_ratio_def)
qed

lemma scale_bounds:
  assumes "lo \<le> hi" "lo = real_of_int a / 10000" "hi = real_of_int b / 10000"
  shows "lo \<le> scale_confidence v sl sh lo hi \<and> scale_confidence v sl sh lo hi \<le> hi"
proof -
  define f where "f = min (max (if sh - sl \<noteq> 0 then (v - sl) / (sh - sl) else 1) 0) (1::real)"
  have f: "0 \<le> f" "f \<le> 1" by (simp_all add: f_def)
  have "0 \<le> (hi - lo) * f" "(hi - lo) * f \<le> hi - lo"
    using f assms(1) mult_left_le [of f "hi - lo"] by simp_all
  then have "lo \<le> lo + (hi - lo) * f" "lo + (hi - lo) * f \<le> hi" by simp_all
  with round4_bounds [of a "lo + (hi - lo) * f" b] show ?thesis
    by (simp add: scale_confidence_def Let_def f_def assms(2,3))
qed

text \<open>The band of confidences of each tier.\<close>

fun tier_band :: "match_tier \<Rightarrow> real \<times> real" where
  "tier_band Exact = (1, 1)"
| "tier_band Business_Dictionary = (92/100, 92/100)"
| "tier_band Synonym = (85/100, 85/100)"
| "tier_band Alias = (78/100, 78/100)"
| "tier_band Fuzzy = (45/100, 70/100)"
| "tier_band Partial = (25/100, 44/100)"

lemma confidence_in_band: "fst (tier_band (mr_tier r)) \<le> confidence_score r \<and> confidence_score r \<le> snd (tier_band (mr_tier r))"
  using scale_bounds [of "45/100" "70/100" 4500 7000] scale_bounds [of "25/100" "44/100" 2500 4400]
  by (cases "mr_tier r") (simp_all add: confidence_score_def)

lemma confidence_bounds: "25/100 \<le> confidence_score r" "confidence_score r \<le> 1"
  using confidence_in_band [of r] by (cases "mr_tier r"; simp)+

text \<open>
  A match of a better tier always has a strictly higher confidence than a match of a worse
  tier, whatever the similarities, and every confidence is between 0.25 and 1.
\<close>

theorem tiers_dominate:
  "25/100 \<le> confidence_score r \<and> confidence_score r \<le> 1
   \<and> (tier_priority (mr_tier r) < tier_priority (mr_tier q) \<longrightarrow> confidence_score q < confidence_score r)"
proof -
  have "tier_priority a < tier_priority b \<Longrightarrow> snd (tier_band b) < fst (tier_band a)" for a b
    by (cases a; cases b) simp_all
  with confidence_in_band [of r] confidence_in_band [of q] confidence_bounds [of r] show ?thesis
    by fastforce
qed

theorem tiers_dominate_witness:
  "confidence_score \<lparr> mr_tier = Fuzzy, mr_similarity = 1, mr_matched_text = [] \<rparr>
     < confidence_score \<lparr> mr_tier = Alias, mr_similarity = 0, mr_matched_text = [] \<rparr>"
  using tiers_dominate [of "\<lparr> mr_tier = Alias, mr_similarity = 0, mr_matched_text = [] \<rparr>"
      "\<lparr> mr_tier = Fuzzy, mr_similarity = 1, mr_matched_text = [] \<rparr>"] by simp

section \<open>Candidates\<close>

text \<open>A schema as the extractor produces it: names are unique and columns know their table.\<close>

definition schema_ok :: "database_metadata \<Rightarrow> bool" where
  "schema_ok d = (distinct (map tbl_name (db_tables d))
     \<and> (\<forall>t\<in>set (db_tables d). \<forall>c\<in>set (tbl_columns t). col_table_name c = tbl_name t))"

text \<open>What a candidate may refer to.\<close>

definition refers :: "database_metadata \<Rightarrow> bool \<Rightarrow> link_candidate \<Rightarrow> bool" where
  "refers d is_table c = (\<exists>t\<in>set (db_tables d). lc_table_name c = tbl_name t
     \<and> (if is_table then lc_column_name c = None
        else \<exists>col\<in>set (tbl_columns t). lc_column_name c = Some (col_name col)))"

definition candidates_ok :: "database_metadata \<Rightarrow> bool \<Rightarrow> link_candidate list \<Rightarrow> bool" where
  "candidates_ok d is_table cs = ((\<forall>c\<in>set cs. refers d is_table c \<and> lc_confidence c \<le> 1)
     \<and> sorted (map (\<lambda>c. - lc_confidence c) cs) \<and> map lc_candidate_rank cs = [1..<length cs + 1])"

lemma map2_rank:
  assumes "length ns = length cs"
  shows "map lc_candidate_rank (map2 (\<lambda>r c. c \<lparr> lc_candidate_rank := r \<rparr>) ns cs) = ns"
    and "map lc_confidence (map2 (\<lambda>r c. c \<lparr> lc_candidate_rank := r \<rparr>) ns cs) = map lc_confidence cs"
    and "map lc_table_name (map2 (\<lambda>r c. c \<lparr> lc_candidate_rank := r \<rparr>) ns cs) = map lc_table_name cs"
    and "map lc_column_name (map2 (\<lambda>r c. c \<lparr> lc_candidate_rank := r \<rparr>) ns cs) = map lc_column_name cs"
  using assms by (induction ns cs rule: list_induct2) simp_all

lemma rank_ok:
  assumes "\<forall>c\<in>set cs. refers d is_table c \<and> lc_confidence c \<le> 1"
  shows "candidates_ok d is_table (rank_link_candidates cs)"
proof -
  let ?k = "\<lambda>c. (- lc_confidence c, tier_priority (lc_matching_reason c))"
  let ?o = "sort_key ?k cs" and ?n = "[1..<length cs + 1]"
  let ?r = "map2 (\<lambda>r c. c \<lparr> lc_candidate_rank := r \<rparr>) ?n ?o"
  have len: "length ?n = length ?o" by (simp del: upt_Suc)
  have r: "rank_link_candidates cs = ?r" by (simp add: rank_link_candidates_def)
  have "sorted (map ?k ?o)" by simp
  then have "sorted (map (\<lambda>c. - lc_confidence c) ?o)"
    by (simp add: sorted_map) (erule sorted_wrt_mono_rel [rotated], auto simp: less_eq_prod_def)
  moreover have "map (\<lambda>c. - lc_confidence c) ?r = map (\<lambda>c. - lc_confidence c) ?o"
    using arg_cong [OF map2_rank(2) [OF len], of "map uminus"] by (simp only: map_map comp_def)
  ultimately have "sorted (map (\<lambda>c. - lc_confidence c) ?r)" by (simp only:)
  moreover have "refers d is_table c \<and> lc_confidence c \<le> 1" if c: "c \<in> set ?r" for c
  proof -
    from c obtain n x where "x \<in> set ?o" "c = x \<lparr> lc_candidate_rank := n \<rparr>" by (auto dest: set_zip_rightD)
    moreover have "refers d is_table (x \<lparr> lc_candidate_rank := n \<rparr>) = refers d is_table x" by (simp add: refers_def)
    ultimately show ?thesis using assms by simp
  qed
  moreover have "length ?r = length cs" by (simp del: upt_Suc)
  ultimately show ?thesis using map2_rank(1) [OF len] unfolding candidates_ok_def r by metis
qed

lemma scans_ok:
  "candidates_ok d True (table_candidates pick d concept)" "candidates_ok d False (column_candidates pick d concept)"
proof -
  show "candidates_ok d True (table_candidates pick d concept)" unfolding table_candidates_def
    by (rule rank_ok) (auto simp: refers_def link_candidate_of_def confidence_bounds split: option.splits)
  show "candidates_ok d False (column_candidates pick d concept)" unfolding column_candidates_def
  proof (rule rank_ok, rule ballI)
    fix c assume "c \<in> set (concat (map (\<lambda>t. concat (map (\<lambda>col.
      case match_concept pick concept (col_name col) (col_synonyms col) (col_search_keywords col) (col_display_name col) of
        None \<Rightarrow> [] | Some r \<Rightarrow> [link_candidate_of (tbl_name t) (Some (col_name col)) r]) (tbl_columns t))) (db_tables d)))"
    then obtain t col r where "t \<in> set (db_tables d)" "col \<in> set (tbl_columns t)" "c = link_candidate_of (tbl_name t) (Some (col_name col)) r"
      by (auto split: option.splits)
    then show "refers d False c \<and> lc_confidence c \<le> 1"
      by (auto simp: refers_def link_candidate_of_def confidence_bounds)
  qed
qed

section \<open>Operations on a loaded linker\<close>

text \<open>
  What the cache may hold under a key: the candidates of some spelling of the concept with the
  normal form of the key.
\<close>

definition scanned :: "(string set \<Rightarrow> string) \<Rightarrow> database_metadata \<Rightarrow> bool \<times> string \<Rightarrow> link_candidate list \<Rightarrow> bool" where
  "scanned pick d k cs = (\<exists>concept. normalize_concept concept = snd k
     \<and> cs = (if fst k then table_candidates pick d concept else column_candidates pick d concept))"

lemma scanned_ok: "scanned pick d k cs \<Longrightarrow> candidates_ok d (fst k) cs"
  by (auto simp: scanned_def scans_ok)

definition linker_ready :: "(string set \<Rightarrow> string) \<Rightarrow> database_metadata \<Rightarrow> linker_state \<Rightarrow> bool" where
  "linker_ready pick d s = (lk_registry s = Some d \<and> mem_cache.sound (scanned pick d) (lk_cache s))"

text \<open>The operation succeeds on a ready linker, with a result of the given kind, and leaves it ready.\<close>

definition serves ::
  "(string set \<Rightarrow> string) \<Rightarrow> database_metadata \<Rightarrow> (linker_state, linker_error, 'a) op \<Rightarrow> ('a \<Rightarrow> bool) \<Rightarrow> bool" where
  "serves pick d m Q = (\<forall>s. linker_ready pick d s \<longrightarrow> (\<exists>x s'. m s = (Inr x, s') \<and> Q x \<and> linker_ready pick d s'))"

lemma serves_return: "Q x \<Longrightarrow> serves pick d (sreturn x) Q"
  by (simp add: serves_def)

lemma serves_slift: "(\<And>s. lk_registry s = Some d \<Longrightarrow> \<exists>x. f s = Inr x \<and> Q x) \<Longrightarrow> serves pick d (slift f) Q"
  by (auto simp: serves_def linker_ready_def)

lemma serves_bind: "serves pick d m P \<Longrightarrow> (\<And>x. P x \<Longrightarrow> serves pick d (f x) Q) \<Longrightarrow> serves pick d (sbind m f) Q"
  unfolding serves_def sbind_def by fastforce

lemma serves_load: "serves pick d (load_schema src) (\<lambda>x. x = d)"
  by (auto simp: serves_def load_schema_def linker_ready_def metadata_load_def value_cache_get_def)

lemma serves_generate:
  assumes "\<And>c. scan d c = (if is_table then table_candidates pick d c else column_candidates pick d c)"
  shows "serves pick d (generate_candidates is_table scan src concept) (scanned pick d (is_table, normalize_concept concept))"
  unfolding serves_def
proof (intro allI impI)
  fix s assume r: "linker_ready pick d s"
  let ?k = "(is_table, normalize_concept concept)"
  show "\<exists>x s'. generate_candidates is_table scan src concept s = (Inr x, s') \<and> scanned pick d ?k x \<and> linker_ready pick d s'"
  proof (cases "cache_get_mem (lk_cache s) ?k")
    case (Some cs)
    then have "scanned pick d ?k cs" using r by (auto simp: linker_ready_def mem_cache.sound_def)
    then show ?thesis using r Some by (simp add: generate_candidates_def)
  next
    case None
    obtain s' where s': "load_schema src s = (Inr d, s')" "linker_ready pick d s'"
      using serves_load [of pick d src] r unfolding serves_def by blast
    have "scanned pick d ?k (scan d concept)" using assms by (auto simp: scanned_def)
    with s'(2) have "linker_ready pick d (s' \<lparr> lk_cache := cache_set_mem (lk_cache s') ?k (scan d concept) \<rparr>)"
      by (simp add: linker_ready_def mem_cache.sound_set)
    with \<open>scanned pick d ?k (scan d concept)\<close> show ?thesis using None s' by (simp add: generate_candidates_def Let_def)
  qed
qed

lemma decide_confident:
  assumes "decide fmt cs = None" "candidates_ok d is_table cs"
  shows "cs \<noteq> [] \<and> MIN_CONFIDENCE \<le> lc_confidence (hd cs)
    \<and> (\<forall>a\<in>set (tl cs). lc_confidence a + MIN_MARGIN \<le> lc_confidence (hd cs))"
proof (cases cs)
  case Nil
  with assms(1) show ?thesis by (simp add: decide_def)
next
  case (Cons c rest)
  show ?thesis
  proof (cases rest)
    case Nil
    with assms(1) Cons show ?thesis by (auto simp: decide_def split: if_splits)
  next
    case (Cons r rest')
    from assms(2) have "sorted (map (\<lambda>c. - lc_confidence c) cs)" by (simp add: candidates_ok_def)
    then have "\<forall>a\<in>set rest. lc_confidence a \<le> lc_confidence r" using Cons \<open>cs = c # rest\<close> by auto
    moreover have "MIN_CONFIDENCE \<le> lc_confidence c" "MIN_MARGIN \<le> lc_confidence c - lc_confidence r"
      using assms(1) Cons \<open>cs = c # rest\<close> by (auto simp: decide_def split: if_splits)
    ultimately show ?thesis using \<open>cs = c # rest\<close> by fastforce
  qed
qed

section \<open>Resolutions\<close>

text \<open>What a resolution promises: a confident winner, clear of its alternatives.\<close>

definition clear_winner :: "real \<Rightarrow> link_candidate list \<Rightarrow> bool" where
  "clear_winner confidence alternatives = (6/10 \<le> confidence \<and> confidence \<le> 1
     \<and> (\<forall>a\<in>set alternatives. lc_confidence a + 1/10 \<le> confidence))"

lemma decide_clear:
  assumes "candidates_ok d is_table cs"
  shows "decide fmt cs = None \<longleftrightarrow> (\<exists>w alternatives. cs = w # alternatives \<and> clear_winner (lc_confidence w) alternatives)"
proof
  assume "decide fmt cs = None"
  from decide_confident [OF this assms] assms
  show "\<exists>w alternatives. cs = w # alternatives \<and> clear_winner (lc_confidence w) alternatives"
    by (cases cs) (auto simp: clear_winner_def candidates_ok_def MIN_CONFIDENCE_def MIN_MARGIN_def)
qed (auto simp: decide_def clear_winner_def MIN_CONFIDENCE_def MIN_MARGIN_def split: list.split)

lemma table_found:
  assumes "refers d True c"
  shows "\<exists>t. get_table (Some d) (lc_table_name c) = Inr t \<and> t \<in> set (db_tables d) \<and> tbl_name t = lc_table_name c"
proof -
  from assms obtain t where "t \<in> set (db_tables d)" "lc_table_name c = tbl_name t" by (auto simp: refers_def)
  then have "next_where (\<lambda>t. tbl_name t = lc_table_name c) (db_tables d) \<noteq> None" by auto
  then obtain t' where "next_where (\<lambda>t. tbl_name t = lc_table_name c) (db_tables d) = Some t'" by blast
  with next_where_Some [OF this] show ?thesis by (simp add: get_table_def require_metadata_def value_cache_get_def)
qed

definition schema_columns_of :: "database_metadata \<Rightarrow> column_metadata set" where
  "schema_columns_of d = (\<Union>t\<in>set (db_tables d). set (tbl_columns t))"

text \<open>A candidate names a column.\<close>

definition names_column :: "link_candidate \<Rightarrow> column_metadata \<Rightarrow> bool" where
  "names_column c col = (lc_table_name c = col_table_name col \<and> lc_column_name c = Some (col_name col))"

lemma column_found:
  assumes "schema_ok d" "refers d False c"
  shows "\<exists>col. get_column (Some d) (lc_table_name c) (the (lc_column_name c)) = Inr col
    \<and> col \<in> schema_columns_of d \<and> names_column c col"
proof -
  from assms(2) obtain t col where t: "t \<in> set (db_tables d)" "lc_table_name c = tbl_name t"
      "col \<in> set (tbl_columns t)" "lc_column_name c = Some (col_name col)" by (auto simp: refers_def)
  have "next_where (\<lambda>x. tbl_name x = tbl_name t) (db_tables d) \<noteq> None" using t(1) by auto
  then obtain t' where t': "next_where (\<lambda>x. tbl_name x = tbl_name t) (db_tables d) = Some t'" by blast
  with next_where_Some [OF t'] t(1) assms(1) have "t' = t"
    by (auto simp: schema_ok_def distinct_map dest: inj_onD)
  have "next_where (\<lambda>x. col_name x = col_name col) (tbl_columns t) \<noteq> None" using t(3) by auto
  then obtain col' where "next_where (\<lambda>x. col_name x = col_name col) (tbl_columns t) = Some col'" by blast
  with next_where_Some [OF this] t t' \<open>t' = t\<close> assms(1) show ?thesis
    by (auto simp: get_column_def get_table_def require_metadata_def value_cache_get_def schema_columns_of_def
        names_column_def schema_ok_def)
qed

text \<open>
  What answers a concept. An ambiguity reports that concept with its candidates, none of which is a
  clear winner; a resolution is the first of its candidates, clear of the others, under that concept.
\<close>

definition reports :: "(string set \<Rightarrow> string) \<Rightarrow> database_metadata \<Rightarrow> bool \<Rightarrow> concept_kind \<Rightarrow> string \<Rightarrow> ambiguity \<Rightarrow> bool" where
  "reports pick d is_table kind concept a = (am_business_concept a = concept \<and> am_concept_kind a = kind
     \<and> scanned pick d (is_table, normalize_concept concept) (am_candidates a)
     \<and> (\<nexists>w alternatives. am_candidates a = w # alternatives \<and> clear_winner (lc_confidence w) alternatives))"

definition wins :: "(string set \<Rightarrow> string) \<Rightarrow> database_metadata \<Rightarrow> bool \<Rightarrow> string \<Rightarrow> link_candidate \<Rightarrow> link_candidate list \<Rightarrow> bool" where
  "wins pick d is_table concept w alternatives = (scanned pick d (is_table, normalize_concept concept) (w # alternatives)
     \<and> clear_winner (lc_confidence w) alternatives)"

definition entity_answer ::
  "(string set \<Rightarrow> string) \<Rightarrow> database_metadata \<Rightarrow> string \<Rightarrow> ambiguity + resolved_table \<Rightarrow> bool" where
  "entity_answer pick d concept r =
     (case r of
        Inl a \<Rightarrow> reports pick d True CK_Entity concept a
      | Inr t \<Rightarrow> rt_business_concept t = concept \<and> rt_table t \<in> set (db_tables d)
          \<and> (\<exists>w. wins pick d True concept w (rt_alternatives t) \<and> lc_table_name w = tbl_name (rt_table t)
               \<and> rt_confidence t = lc_confidence w))"

text \<open>The answer for a column, with the confidence and the alternatives it reports.\<close>

definition column_answer ::
  "(string set \<Rightarrow> string) \<Rightarrow> database_metadata \<Rightarrow> string \<Rightarrow> column_metadata \<Rightarrow> real \<Rightarrow> link_candidate list \<Rightarrow> bool" where
  "column_answer pick d concept col confidence alternatives = (col \<in> schema_columns_of d
     \<and> (\<exists>w. wins pick d False concept w alternatives \<and> names_column w col \<and> confidence = lc_confidence w))"

definition dimension_answer ::
  "(string set \<Rightarrow> string) \<Rightarrow> database_metadata \<Rightarrow> string \<Rightarrow> ambiguity + resolved_column \<Rightarrow> bool" where
  "dimension_answer pick d concept r =
     (case r of
        Inl a \<Rightarrow> reports pick d False CK_Dimension concept a
      | Inr y \<Rightarrow> rc_business_concept y = concept
          \<and> column_answer pick d concept (rc_column y) (rc_confidence y) (rc_alternatives y))"

definition metric_answer ::
  "(string set \<Rightarrow> string) \<Rightarrow> database_metadata \<Rightarrow> metric_expression \<Rightarrow> ambiguity + resolved_metric \<Rightarrow> bool" where
  "metric_answer pick d m r =
     (case r of
        Inl a \<Rightarrow> reports pick d False CK_Metric (me_name m) a
      | Inr y \<Rightarrow> rm_business_concept y = me_name m \<and> rm_aggregation y = me_aggregation m \<and> rm_raw_text y = me_raw_text m
          \<and> column_answer pick d (me_name m) (rm_column y) (rm_confidence y) (rm_alternatives y))"

definition filter_answer ::
  "(string set \<Rightarrow> string) \<Rightarrow> database_metadata \<Rightarrow> filter_expression \<Rightarrow> ambiguity + resolved_filter \<Rightarrow> bool" where
  "filter_answer pick d f r =
     (case r of
        Inl a \<Rightarrow> reports pick d False CK_Filter_Field (fe_field f) a
      | Inr y \<Rightarrow> rf_business_concept y = fe_field f \<and> rf_operator y = fe_operator f \<and> rf_value y = fe_value f
          \<and> rf_raw_text y = fe_raw_text f
          \<and> column_answer pick d (fe_field f) (rf_column y) (rf_confidence y) (rf_alternatives y))"

definition sort_answer ::
  "(string set \<Rightarrow> string) \<Rightarrow> database_metadata \<Rightarrow> sort_expression \<Rightarrow> ambiguity + resolved_sort \<Rightarrow> bool" where
  "sort_answer pick d so r =
     (case r of
        Inl a \<Rightarrow> reports pick d False CK_Sort_Field (se_field so) a
      | Inr y \<Rightarrow> rs_business_concept y = se_field so \<and> rs_direction y = se_direction so \<and> rs_raw_text y = se_raw_text so
          \<and> column_answer pick d (se_field so) (rs_column y) (rs_confidence y) (rs_alternatives y))"

lemma reports_ambiguity:
  assumes "scanned pick d (is_table, normalize_concept concept) cs" "decide fmt cs = Some reason"
  shows "reports pick d is_table kind concept (ambiguity_for concept kind cs reason)"
  using decide_clear [OF scanned_ok [OF assms(1)], of fmt] assms by (auto simp: reports_def ambiguity_for_def)

lemma decided_wins:
  assumes "scanned pick d (is_table, normalize_concept concept) cs" "decide fmt cs = None"
  shows "wins pick d is_table concept (hd cs) (tl cs) \<and> refers d is_table (hd cs)"
  using decide_clear [OF scanned_ok [OF assms(1)], of fmt] scanned_ok [OF assms(1)] assms
  by (auto simp: wins_def candidates_ok_def)

lemma serves_entity: "serves (le_pick env) d (resolve_entity env concept) (entity_answer (le_pick env) d concept)"
  unfolding resolve_entity_def generate_table_candidates_def
proof (rule serves_bind [OF serves_generate])
  fix cs assume cs: "scanned (le_pick env) d (True, normalize_concept concept) cs"
  show "serves (le_pick env) d (case decide (le_fmt env) cs of
      Some reason \<Rightarrow> sreturn (Inl (ambiguity_for concept CK_Entity cs reason))
    | None \<Rightarrow> (let winner = hd cs in
        sbind (slift (\<lambda>s. case get_table (lk_registry s) (lc_table_name winner) of Inl e \<Rightarrow> Inl (L_Registry e) | Inr t \<Rightarrow> Inr t)) (\<lambda>t.
          sreturn (Inr \<lparr> rt_business_concept = concept, rt_table = t, rt_confidence = lc_confidence winner,
            rt_matching_reason = lc_matching_reason winner, rt_candidate_rank = lc_candidate_rank winner,
            rt_alternatives = tl cs \<rparr>))))
    (entity_answer (le_pick env) d concept)"
  proof (cases "decide (le_fmt env) cs")
    case (Some reason)
    with reports_ambiguity [OF cs] show ?thesis by (auto intro!: serves_return simp: entity_answer_def)
  next
    case None
    note w = decided_wins [OF cs None]
    show ?thesis unfolding None option.case Let_def
    proof (rule serves_bind [OF serves_slift
        [where Q = "\<lambda>t. t \<in> set (db_tables d) \<and> tbl_name t = lc_table_name (hd cs)"]])
      fix s :: linker_state assume "lk_registry s = Some d"
      with table_found [of d "hd cs"] w show "\<exists>x. (case get_table (lk_registry s) (lc_table_name (hd cs)) of
          Inl e \<Rightarrow> Inl (L_Registry e) | Inr t \<Rightarrow> Inr t) = Inr x \<and> x \<in> set (db_tables d) \<and> tbl_name x = lc_table_name (hd cs)"
        by auto
    qed (use w in \<open>auto intro!: serves_return simp: entity_answer_def\<close>)
  qed
qed simp

lemma serves_column:
  assumes "schema_ok d"
  shows "serves (le_pick env) d (resolve_column env concept kind) (\<lambda>r. case r of
     Inl a \<Rightarrow> reports (le_pick env) d False kind concept a
   | Inr (cs, col) \<Rightarrow> column_answer (le_pick env) d concept col (lc_confidence (hd cs)) (tl cs))"
  unfolding resolve_column_def generate_column_candidates_def
proof (rule serves_bind [OF serves_generate])
  fix cs assume cs: "scanned (le_pick env) d (False, normalize_concept concept) cs"
  show "serves (le_pick env) d (case decide (le_fmt env) cs of
      Some reason \<Rightarrow> sreturn (Inl (ambiguity_for concept kind cs reason))
    | None \<Rightarrow> sbind (slift (\<lambda>s. case get_column (lk_registry s) (lc_table_name (hd cs)) (the (lc_column_name (hd cs))) of
                  Inl e \<Rightarrow> Inl (L_Registry e) | Inr c \<Rightarrow> Inr c)) (\<lambda>col. sreturn (Inr (cs, col))))
    (\<lambda>r. case r of
     Inl a \<Rightarrow> reports (le_pick env) d False kind concept a
   | Inr (cs, col) \<Rightarrow> column_answer (le_pick env) d concept col (lc_confidence (hd cs)) (tl cs))"
  proof (cases "decide (le_fmt env) cs")
    case (Some reason)
    with reports_ambiguity [OF cs] show ?thesis by (auto intro!: serves_return)
  next
    case None
    note w = decided_wins [OF cs None]
    show ?thesis unfolding None option.case
    proof (rule serves_bind [OF serves_slift [where Q = "\<lambda>c. c \<in> schema_columns_of d \<and> names_column (hd cs) c"]])
      fix s :: linker_state assume "lk_registry s = Some d"
      with column_found [OF assms, of "hd cs"] w show "\<exists>x. (case get_column (lk_registry s) (lc_table_name (hd cs)) (the (lc_column_name (hd cs))) of
          Inl e \<Rightarrow> Inl (L_Registry e) | Inr c \<Rightarrow> Inr c) = Inr x \<and> x \<in> schema_columns_of d \<and> names_column (hd cs) x" by auto
    qed (use w in \<open>auto intro!: serves_return simp: column_answer_def\<close>)
  qed
qed simp

lemma serves_kinds:
  assumes "schema_ok d"
  shows "serves (le_pick env) d (resolve_metric env m) (metric_answer (le_pick env) d m)"
    and "serves (le_pick env) d (resolve_dimension env n) (dimension_answer (le_pick env) d n)"
    and "serves (le_pick env) d (resolve_filter env f) (filter_answer (le_pick env) d f)"
    and "serves (le_pick env) d (resolve_sort env so) (sort_answer (le_pick env) d so)"
  unfolding resolve_metric_def resolve_dimension_def resolve_filter_def resolve_sort_def
  by (rule serves_bind [OF serves_column [OF assms]], rule serves_return,
      auto simp: metric_answer_def dimension_answer_def filter_answer_def sort_answer_def split: sum.splits)+

text \<open>The loops: one answer for each item, in the resolved or in the ambiguous list.\<close>

fun resolved_of :: "('a + 'b) list \<Rightarrow> 'b list" where
  "resolved_of [] = []"
| "resolved_of (Inl a # rs) = resolved_of rs"
| "resolved_of (Inr y # rs) = y # resolved_of rs"

fun reported_of :: "('a + 'b) list \<Rightarrow> 'a list" where
  "reported_of [] = []"
| "reported_of (Inl a # rs) = a # reported_of rs"
| "reported_of (Inr y # rs) = reported_of rs"

lemma serves_each:
  assumes "\<And>x. serves pick d (f x) (R x)"
  shows "serves pick d (resolve_each f xs) (\<lambda>(rs, as). \<exists>answers. list_all2 R xs answers
    \<and> rs = resolved_of answers \<and> as = reported_of answers)"
proof (induction xs)
  case Nil
  then show ?case unfolding resolve_each.simps by (rule serves_return) simp
next
  case (Cons x xs)
  show ?case unfolding resolve_each.simps
  proof (rule serves_bind [OF assms], rule serves_bind [OF Cons])
    fix r p assume r: "R x r"
      and "case p of (rs, as) \<Rightarrow> \<exists>answers. list_all2 R xs answers \<and> rs = resolved_of answers \<and> as = reported_of answers"
    then obtain answers where "list_all2 R xs answers" "p = (resolved_of answers, reported_of answers)"
      by (cases p) auto
    with r show "serves pick d (case p of (rs, as) \<Rightarrow> sreturn (case r of Inl a \<Rightarrow> (rs, a # as) | Inr y \<Rightarrow> (y # rs, as)))
       (\<lambda>(rs, as). \<exists>answers. list_all2 R (x # xs) answers \<and> rs = resolved_of answers \<and> as = reported_of answers)"
      by (cases r) (auto intro!: serves_return exI [of _ "r # answers"])
  qed
qed

text \<open>The join paths of the resolved tables, from the first to each of the others.\<close>

definition joins_of :: "database_metadata \<Rightarrow> string list \<Rightarrow> resolved_relationship list" where
  "joins_of d names = (if length names < 2 then []
     else find_paths_from (make_graph (map tbl_name (db_tables d)) (db_relationships d)) (hd names) (tl names))"

lemma paths_resolved:
  "resolve_relationship_paths involved (Some d) = Inr (joins_of d (dedup_by id {} involved))"
  by (simp add: resolve_relationship_paths_def joins_of_def build_graph_def require_metadata_def value_cache_get_def Let_def)

abbreviation listed :: "'a option \<Rightarrow> 'a list" where
  "listed v \<equiv> (case v of None \<Rightarrow> [] | Some x \<Rightarrow> [x])"

text \<open>
  A linked question: each of its concepts has one answer, in the order of the question, which is
  among the resolutions of its kind or among the ambiguities.
\<close>

definition linked_ok :: "(string set \<Rightarrow> string) \<Rightarrow> database_metadata \<Rightarrow> query_context \<Rightarrow> linked_query_context \<Rightarrow> bool" where
  "linked_ok pick d qc lc =
     (\<exists>primary secondary metrics dimensions filters sorting.
        list_all2 (entity_answer pick d) (listed (qc_primary_entity qc)) primary
      \<and> list_all2 (entity_answer pick d) (qc_secondary_entities qc) secondary
      \<and> list_all2 (metric_answer pick d) (qc_metrics qc) metrics
      \<and> list_all2 (dimension_answer pick d) (qc_dimensions qc) dimensions
      \<and> list_all2 (filter_answer pick d) (qc_filters qc) filters
      \<and> list_all2 (sort_answer pick d) (listed (qc_sort qc)) sorting
      \<and> listed (lqc_primary_entity lc) = resolved_of primary \<and> lqc_secondary_entities lc = resolved_of secondary
      \<and> lqc_metrics lc = resolved_of metrics \<and> lqc_dimensions lc = resolved_of dimensions
      \<and> lqc_filters lc = resolved_of filters \<and> listed (lqc_sort lc) = resolved_of sorting
      \<and> lqc_ambiguities lc = reported_of primary @ reported_of secondary @ reported_of metrics
          @ reported_of dimensions @ reported_of filters @ reported_of sorting
      \<and> lqc_relationship_paths lc = joins_of d (resolved_table_names lc) \<and> lqc_query_context lc = qc)"

lemma serves_pair_bind:
  "serves pick d m (\<lambda>(x, y). P x y) \<Longrightarrow> (\<And>x y. P x y \<Longrightarrow> serves pick d (f x y) Q) \<Longrightarrow>
     serves pick d (sbind m (\<lambda>(x, y). f x y)) Q"
  by (rule serves_bind [of pick d m "\<lambda>(x, y). P x y"]) auto

lemma listed_answer:
  assumes "list_all2 R (listed v) answers"
  shows "listed (case resolved_of answers of [] \<Rightarrow> None | x # _ \<Rightarrow> Some x) = resolved_of answers"
proof (cases answers)
  case (Cons r rs)
  with assms have "rs = []" by (cases v) auto
  with Cons show ?thesis by (cases r) simp_all
qed simp

lemma linked_okI:
  assumes "list_all2 (entity_answer pick d) (listed (qc_primary_entity qc)) r1"
    and "list_all2 (entity_answer pick d) (qc_secondary_entities qc) r2"
    and "list_all2 (metric_answer pick d) (qc_metrics qc) r3"
    and "list_all2 (dimension_answer pick d) (qc_dimensions qc) r4"
    and "list_all2 (filter_answer pick d) (qc_filters qc) r5"
    and "list_all2 (sort_answer pick d) (listed (qc_sort qc)) r6"
    and paths: "paths = joins_of d (dedup_by id {} (map (\<lambda>e. tbl_name (rt_table e)) (resolved_of r1 @ resolved_of r2)
       @ map (\<lambda>m. col_table_name (rm_column m)) (resolved_of r3) @ map (\<lambda>c. col_table_name (rc_column c)) (resolved_of r4)
       @ map (\<lambda>f. col_table_name (rf_column f)) (resolved_of r5) @ map (\<lambda>so. col_table_name (rs_column so)) (resolved_of r6)))"
  shows "linked_ok pick d qc \<lparr> lqc_query_context = qc,
     lqc_primary_entity = (case resolved_of r1 of [] \<Rightarrow> None | e # _ \<Rightarrow> Some e), lqc_secondary_entities = resolved_of r2,
     lqc_metrics = resolved_of r3, lqc_dimensions = resolved_of r4, lqc_filters = resolved_of r5,
     lqc_sort = (case resolved_of r6 of [] \<Rightarrow> None | so # _ \<Rightarrow> Some so), lqc_relationship_paths = paths,
     lqc_ambiguities = reported_of r1 @ reported_of r2 @ reported_of r3 @ reported_of r4 @ reported_of r5 @ reported_of r6 \<rparr>"
    (is "linked_ok pick d qc ?lc")
proof -
  note p = listed_answer [OF assms(1)] and s = listed_answer [OF assms(6)]
  have "resolved_table_names ?lc = dedup_by id {} (map (\<lambda>e. tbl_name (rt_table e)) (resolved_of r1 @ resolved_of r2)
       @ map (\<lambda>m. col_table_name (rm_column m)) (resolved_of r3) @ map (\<lambda>c. col_table_name (rc_column c)) (resolved_of r4)
       @ map (\<lambda>f. col_table_name (rf_column f)) (resolved_of r5) @ map (\<lambda>so. col_table_name (rs_column so)) (resolved_of r6))"
    using p s by (auto simp: resolved_table_names_def split: list.splits)
  then show ?thesis unfolding linked_ok_def using assms p s
    by (intro exI [of _ r1] exI [of _ r2] exI [of _ r3] exI [of _ r4] exI [of _ r5] exI [of _ r6]) simp
qed

lemma serves_link:
  assumes "schema_ok d" "db_tables d \<noteq> []"
  shows "serves (le_pick env) d (link env qc) (linked_ok (le_pick env) d qc)"
proof -
  note kinds = serves_each [OF serves_kinds(1) [OF assms(1)]] serves_each [OF serves_kinds(2) [OF assms(1)]]
    serves_each [OF serves_kinds(3) [OF assms(1)]] serves_each [OF serves_kinds(4) [OF assms(1)]] serves_each [OF serves_entity]
  have paths: "serves (le_pick env) d (slift (\<lambda>s. case resolve_relationship_paths involved (lk_registry s) of Inl e \<Rightarrow> Inl (L_Registry e) | Inr p \<Rightarrow> Inr p))
      (\<lambda>p. p = joins_of d (dedup_by id {} involved))" for involved
    by (rule serves_slift) (simp add: paths_resolved)
  show ?thesis unfolding link_def Let_def
    by (rule serves_bind [OF serves_load], simp only: assms(2) if_False,
        (rule serves_pair_bind [OF kinds(5)] serves_pair_bind [OF kinds(1)] serves_pair_bind [OF kinds(2)]
           serves_pair_bind [OF kinds(3)] serves_pair_bind [OF kinds(4)])+,
        rule serves_bind [OF paths], rule serves_return, elim exE conjE, simp only:, rule linked_okI) auto
qed

lemma joins_contain_paths:
  assumes "t \<in> set (tl names)" "t \<noteq> hd names" "2 \<le> length names"
  shows "rel_key ` set (find_path (make_graph (map tbl_name (db_tables d)) (db_relationships d)) (hd names) t)
    \<subseteq> rel_key ` set (joins_of d names)"
proof -
  let ?g = "make_graph (map tbl_name (db_tables d)) (db_relationships d)"
  let ?all = "concat (map (\<lambda>target. if target = hd names then [] else find_path ?g (hd names) target) (tl names))"
  have "set (find_path ?g (hd names) t) \<subseteq> set ?all" using assms(1,2) by auto
  moreover have "rel_key ` set (joins_of d names) = rel_key ` set ?all"
    using assms(3) dedup_by_keys [of rel_key "{}" ?all] by (simp add: joins_of_def find_paths_from_def)
  ultimately show ?thesis by (simp only: image_mono)
qed

text \<open>
  C11. When the schema loads and is not empty, has unique table names and columns that know their
  table, linking never fails. Every entity, metric, dimension, filter and sort field of the question
  has one answer, in order: a resolution under that concept (with the aggregation, the operator and
  value or the direction of the question) to the table or column of the schema that the first of
  its candidates names, with a confidence of at least 0.6 that is at least 0.1 above every
  alternative, or an ambiguity that reports that concept with its candidates, none of them such a
  winner. The relationships connect the first resolved table to each of the others by a shortest
  join path where there is one. The caches stay sound, so this holds for every question in a run.
\<close>

theorem link_sound:
  assumes "metadata_load (ss_extracted (le_source env)) (ss_enrich (le_source env)) (lk_registry s) = (Inr d, Some d)"
    and "mem_cache.sound (scanned (le_pick env) d) (lk_cache s)" "schema_ok d" "db_tables d \<noteq> []"
  shows "\<exists>lc s'. link env qc s = (Inr lc, s') \<and> linked_ok (le_pick env) d qc lc
    \<and> (\<forall>t\<in>set (tl (resolved_table_names lc)).
        rel_key ` set (find_path (make_graph (map tbl_name (db_tables d)) (db_relationships d)) (hd (resolved_table_names lc)) t)
        \<subseteq> rel_key ` set (lqc_relationship_paths lc))
    \<and> lk_registry s' = Some d \<and> mem_cache.sound (scanned (le_pick env) d) (lk_cache s')"
proof -
  let ?s = "s \<lparr> lk_registry := Some d \<rparr>"
  have ready: "linker_ready (le_pick env) d ?s" using assms(2) by (simp add: linker_ready_def)
  have "load_schema (le_source env) s = (Inr d, ?s)" using assms(1) by (simp add: load_schema_def)
  moreover have "load_schema (le_source env) ?s = (Inr d, ?s)"
    by (simp add: load_schema_def metadata_load_def value_cache_get_def)
  ultimately have eq: "link env qc s = link env qc ?s" by (simp only: link_def sbind_def prod.case sum.case)
  from serves_link [OF assms(3,4)] ready obtain lc s' where
    l: "link env qc ?s = (Inr lc, s')" "linked_ok (le_pick env) d qc lc" "linker_ready (le_pick env) d s'" unfolding serves_def by blast
  have "rel_key ` set (find_path (make_graph (map tbl_name (db_tables d)) (db_relationships d)) (hd (resolved_table_names lc)) t)
      \<subseteq> rel_key ` set (lqc_relationship_paths lc)" if t: "t \<in> set (tl (resolved_table_names lc))" for t
  proof -
    from t resolved_table_names_distinct [of lc] have "2 \<le> length (resolved_table_names lc)" "t \<noteq> hd (resolved_table_names lc)"
      by (cases "resolved_table_names lc"; cases "tl (resolved_table_names lc)"; auto)+
    moreover have "lqc_relationship_paths lc = joins_of d (resolved_table_names lc)"
      using l(2) unfolding linked_ok_def by blast
    ultimately show ?thesis using joins_contain_paths [OF t, of d] by simp
  qed
  with l eq show ?thesis by (intro exI [of _ lc] exI [of _ s']) (simp add: linker_ready_def)
qed

definition demo_schema :: database_metadata where
  "demo_schema = \<lparr> db_tables = [demo_table], db_relationships = [], db_enums = [], db_generated_at = 0 \<rparr>"

definition demo_linker :: linker_env where
  "demo_linker = \<lparr> le_pick = Min, le_fmt = (\<lambda>_. []), le_source = \<lparr> ss_extracted = Inr demo_schema, ss_enrich = None \<rparr> \<rparr>"

theorem link_sound_witness:
  "\<exists>lc s'. link demo_linker demo_query_context \<lparr> lk_registry = None, lk_cache = Map.empty \<rparr> = (Inr lc, s')
     \<and> linked_ok Min demo_schema demo_query_context lc"
proof -
  let ?s = "\<lparr> lk_registry = None, lk_cache = Map.empty \<rparr>"
  have "metadata_load (ss_extracted (le_source demo_linker)) (ss_enrich (le_source demo_linker)) (lk_registry ?s)
      = (Inr demo_schema, Some demo_schema)"
    by (simp add: demo_linker_def metadata_load_def metadata_refresh_def value_cache_get_def value_cache_set_def)
  moreover have "mem_cache.sound (scanned (le_pick demo_linker) demo_schema) (lk_cache ?s)"
    by (simp add: mem_cache.sound_def cache_get_mem_def)
  moreover have "schema_ok demo_schema" "db_tables demo_schema \<noteq> []"
    by (simp_all add: schema_ok_def demo_schema_def demo_table_def demo_column_def)
  ultimately have "\<exists>lc s'. link demo_linker demo_query_context ?s = (Inr lc, s')
      \<and> linked_ok (le_pick demo_linker) demo_schema demo_query_context lc"
    using link_sound [of demo_linker ?s demo_schema demo_query_context] by blast
  then show ?thesis by (simp only: demo_linker_def linker_env.select_convs)
qed

end
