(* ===== verification/Metadata_Extractor.thy ===== *)
theory Metadata_Extractor
  imports Query_Library Linker_Properties "HOL-Library.Multiset"
begin

text \<open>
  Extraction of the schema from the object-relational mapping (\<open>metadata/extractor.py\<close>). The
  objects of SQLAlchemy are records of the attributes the extractor reads, in the order in which
  it iterates over them; types and expressions compiled for PostgreSQL are their texts.
\<close>

section \<open>What the extractor reads\<close>

datatype sa_name = SA_Str string | SA_Other

text \<open>A server default: an identity, or something with an \<open>arg\<close> of which only the text is used.\<close>

datatype sa_server_default = SA_Identity | SA_Default "string option"

record sa_enum_type =
  se_name :: sa_name
  se_enums :: "string list"
  se_enum_class :: "(string \<times> string) option"

text \<open>\<open>python_type\<close>: \<open>None\<close> is \<open>NotImplementedError\<close>, else the name of a class or the text of another object.\<close>

record sa_column =
  sa_column_name :: string
  sa_type_text :: string
  sa_python_type :: "string option"
  sa_nullable :: bool
  sa_primary_key :: bool
  sa_unique :: bool
  sa_identity :: bool
  sa_autoincrement :: bool
  sa_server_default :: "sa_server_default option"
  sa_scalar_default :: "string option"
  sa_enum :: "sa_enum_type option"

record sa_foreign_key =
  sa_fk_name :: sa_name
  sa_fk_columns :: "string list"
  sa_fk_referred_table :: string
  sa_fk_referred_columns :: "string list"
  sa_fk_ondelete :: "string option"

datatype sa_constraint = SA_Unique sa_name "string list" | SA_Check sa_name string | SA_Constraint

record sa_index =
  sa_ix_name :: sa_name
  sa_ix_columns :: "string list"
  sa_ix_unique :: bool
  sa_ix_where :: "string option"

record sa_table =
  sa_table_name :: string
  sa_columns :: "sa_column list"
  sa_pk_name :: sa_name
  sa_pk_columns :: "string list"
  sa_foreign_keys :: "sa_foreign_key list"
  sa_constraints :: "sa_constraint list"
  sa_indexes :: "sa_index list"

record sa_relationship =
  sa_key :: string
  sa_pairs :: "(string \<times> string) list"
  sa_target_table :: string
  sa_direction :: string
  sa_uselist :: bool
  sa_back_populates :: "string option"

record sa_mapper =
  sa_local_table :: "sa_table option"
  sa_relationships :: "sa_relationship list"

section \<open>Extraction\<close>

definition name_or :: "sa_name \<Rightarrow> string \<Rightarrow> string" where
  "name_or n fallback = (case n of SA_Str s \<Rightarrow> s | SA_Other \<Rightarrow> fallback)"

definition python_type_name :: "sa_column \<Rightarrow> string" where
  "python_type_name c = (case sa_python_type c of None \<Rightarrow> ''Any'' | Some t \<Rightarrow> t)"

definition default_repr :: "sa_column \<Rightarrow> string option" where
  "default_repr c =
     (case sa_server_default c of
        Some (SA_Default (Some arg)) \<Rightarrow> Some arg
      | _ \<Rightarrow> sa_scalar_default c)"

definition extract_enum :: "sa_table \<Rightarrow> sa_column \<Rightarrow> enum_metadata option" where
  "extract_enum t c =
     (case sa_enum c of
        None \<Rightarrow> None
      | Some e \<Rightarrow> (case se_enum_class e of
          None \<Rightarrow> None
        | Some (module_name, qualname) \<Rightarrow>
            Some \<lparr> en_name = name_or (se_name e) (sa_table_name t @ ''_'' @ sa_column_name c @ ''_valid_values''),
                   en_values = se_enums e, en_python_class = module_name @ ''.'' @ qualname,
                   en_table_name = sa_table_name t, en_column_name = sa_column_name c \<rparr>))"

definition extract_foreign_keys :: "sa_table \<Rightarrow> foreign_key_metadata list" where
  "extract_foreign_keys t = sort_key fk_name (map (\<lambda>c. \<lparr> fk_name = name_or (sa_fk_name c) [],
     fk_columns = sa_fk_columns c, fk_referred_table = sa_fk_referred_table c,
     fk_referred_columns = sa_fk_referred_columns c, fk_ondelete = sa_fk_ondelete c \<rparr>) (sa_foreign_keys t))"

text \<open>A dict comprehension: the last foreign key that uses a column wins.\<close>

definition foreign_keys_by_column :: "foreign_key_metadata list \<Rightarrow> (string, foreign_key_metadata) dict" where
  "foreign_keys_by_column fks =
     fold (\<lambda>(k, v). AList.update k v) (concat (map (\<lambda>fk. map (\<lambda>c. (c, fk)) (fk_columns fk)) fks)) []"

definition extract_column :: "sa_table \<Rightarrow> sa_column \<Rightarrow> foreign_key_metadata option \<Rightarrow> column_metadata" where
  "extract_column t c fk = \<lparr> col_table_name = sa_table_name t, col_name = sa_column_name c,
     col_sql_type = sa_type_text c, col_python_type = python_type_name c, col_nullable = sa_nullable c,
     col_primary_key = sa_primary_key c, col_unique = sa_unique c,
     col_autoincrement = (sa_primary_key c \<and> (sa_identity c \<or> sa_autoincrement c)),
     col_default = default_repr c, col_foreign_key = fk, col_enum = extract_enum t c, col_description = None,
     col_synonyms = [], col_example_value = None, col_display_name = None, col_search_keywords = [],
     col_is_sensitive = False \<rparr>"

definition extract_unique_constraints :: "sa_table \<Rightarrow> constraint_metadata list" where
  "extract_unique_constraints t = sort_key cm_name (concat (map (\<lambda>c. case c of
     SA_Unique n cols \<Rightarrow> [\<lparr> cm_name = name_or n [], cm_kind = CK_Unique, cm_columns = cols, cm_expression = None \<rparr>]
   | _ \<Rightarrow> []) (sa_constraints t)))"

definition extract_check_constraints :: "sa_table \<Rightarrow> constraint_metadata list" where
  "extract_check_constraints t = sort_key cm_name (concat (map (\<lambda>c. case c of
     SA_Check n sqltext \<Rightarrow> [\<lparr> cm_name = name_or n [], cm_kind = CK_Check, cm_columns = [], cm_expression = Some sqltext \<rparr>]
   | _ \<Rightarrow> []) (sa_constraints t)))"

definition extract_indexes :: "sa_table \<Rightarrow> index_metadata list" where
  "extract_indexes t = sort_key ix_name (map (\<lambda>i. \<lparr> ix_name = name_or (sa_ix_name i) [], ix_columns = sa_ix_columns i,
     ix_unique = sa_ix_unique i, ix_where = sa_ix_where i \<rparr>) (sa_indexes t))"

definition extract_table :: "sa_table \<Rightarrow> table_metadata" where
  "extract_table t =
     (let foreign_keys = extract_foreign_keys t;
          fk_by_column = foreign_keys_by_column foreign_keys
      in \<lparr> tbl_name = sa_table_name t,
           tbl_columns = map (\<lambda>c. extract_column t c (map_of fk_by_column (sa_column_name c))) (sa_columns t),
           tbl_primary_key = \<lparr> pk_name = name_or (sa_pk_name t) (''pk_'' @ sa_table_name t), pk_columns = sa_pk_columns t \<rparr>,
           tbl_foreign_keys = foreign_keys, tbl_unique_constraints = extract_unique_constraints t,
           tbl_check_constraints = extract_check_constraints t, tbl_indexes = extract_indexes t,
           tbl_description = None, tbl_synonyms = [] \<rparr>)"

definition relationship_direction_of :: "string \<Rightarrow> bool \<Rightarrow> relationship_direction" where
  "relationship_direction_of raw_direction uselist =
     (if raw_direction = ''MANYTOONE'' then Many_To_One
      else if raw_direction = ''MANYTOMANY'' then Many_To_Many
      else if uselist then One_To_Many else One_To_One)"

definition extract_relationship :: "sa_table \<Rightarrow> sa_relationship \<Rightarrow> relationship_metadata" where
  "extract_relationship t r = \<lparr> rel_name = sa_key r, rel_source_table = sa_table_name t,
     rel_target_table = sa_target_table r, rel_source_columns = map fst (sa_pairs r),
     rel_target_columns = map snd (sa_pairs r), rel_direction = relationship_direction_of (sa_direction r) (sa_uselist r),
     rel_back_populates = sa_back_populates r \<rparr>"

definition mapped :: "sa_mapper list \<Rightarrow> (sa_table \<times> sa_relationship list) list" where
  "mapped ms = concat (map (\<lambda>m. case sa_local_table m of None \<Rightarrow> [] | Some t \<Rightarrow> [(t, sa_relationships m)]) ms)"

definition extract_schema_tables :: "sa_mapper list \<Rightarrow> table_metadata list" where
  "extract_schema_tables ms = sort_key tbl_name (map (\<lambda>(t, _). extract_table t) (mapped ms))"

definition extract_relationships :: "sa_mapper list \<Rightarrow> relationship_metadata list" where
  "extract_relationships ms = sort_key (\<lambda>r. (rel_source_table r, rel_name r))
     (concat (map (\<lambda>(t, rs). map (extract_relationship t) rs) (mapped ms)))"

definition extract_enums :: "sa_mapper list \<Rightarrow> enum_metadata list" where
  "extract_enums ms = sort_key (\<lambda>e. (en_table_name e, en_column_name e))
     (concat (map (\<lambda>(t, _). concat (map (\<lambda>c. case extract_enum t c of None \<Rightarrow> [] | Some e \<Rightarrow> [e]) (sa_columns t))) (mapped ms)))"

definition extract_metadata :: "datetime \<Rightarrow> sa_mapper list \<Rightarrow> database_metadata" where
  "extract_metadata now ms = \<lparr> db_tables = extract_schema_tables ms, db_relationships = extract_relationships ms,
     db_enums = extract_enums ms, db_generated_at = now \<rparr>"

section \<open>Laws\<close>

text \<open>
  SQLAlchemy keeps mappers in a set, so their order is arbitrary. A mapping is well formed when
  table names, the names of the relationships of a table and its column names are distinct.
\<close>

definition mapping_ok :: "sa_mapper list \<Rightarrow> bool" where
  "mapping_ok ms = (distinct (map (sa_table_name \<circ> fst) (mapped ms))
     \<and> (\<forall>(t, rs)\<in>set (mapped ms). distinct (map sa_key rs) \<and> distinct (map sa_column_name (sa_columns t))))"

lemma sort_key_permuted:
  assumes "mset xs = mset ys" "distinct (map f xs)"
  shows "sort_key f xs = sort_key f ys"
  using assms by (intro sort_key_inj_key_eq) (simp_all add: distinct_map)

lemma mset_concat_map: "mset (concat (map f xs)) = \<Sum>\<^sub># (image_mset (mset \<circ> f) (mset xs))"
  by (induction xs) simp_all

lemma mset_concat_map_eq: "mset xs = mset ys \<Longrightarrow> mset (concat (map f xs)) = mset (concat (map f ys))"
  by (simp add: mset_concat_map)

lemma mapped_permuted: "mset ms = mset ms' \<Longrightarrow> mset (mapped ms) = mset (mapped ms')"
  unfolding mapped_def by (rule mset_concat_map_eq)

lemma distinct_pair_keys:
  assumes "distinct (map g xs)" "\<And>x. x \<in> set xs \<Longrightarrow> distinct (map h (f x))"
    and "\<And>x y. x \<in> set xs \<Longrightarrow> y \<in> set (f x) \<Longrightarrow> k y = g x"
  shows "distinct (map (\<lambda>y. (k y, h y)) (concat (map f xs)))"
  using assms
proof (induction xs)
  case (Cons x xs)
  have "distinct (map (\<lambda>y. (k y, h y)) (f x))" using Cons.prems(2) [of x] by (auto simp: distinct_map inj_on_def)
  moreover have "distinct (map (\<lambda>y. (k y, h y)) (concat (map f xs)))" using Cons by simp
  moreover have "(\<lambda>y. (k y, h y)) ` set (f x) \<inter> (\<lambda>y. (k y, h y)) ` set (concat (map f xs)) = {}"
    using Cons.prems(1,3) by fastforce
  ultimately show ?case by simp
qed simp

lemma extract_table_simps [simp]:
  "tbl_name (extract_table t) = sa_table_name t"
  "tbl_columns (extract_table t) = map (\<lambda>c. extract_column t c
     (map_of (foreign_keys_by_column (extract_foreign_keys t)) (sa_column_name c))) (sa_columns t)"
  by (simp_all add: extract_table_def Let_def)

lemma extract_column_simps [simp]: "col_table_name (extract_column t c fk) = sa_table_name t" "col_name (extract_column t c fk) = sa_column_name c"
  by (simp_all add: extract_column_def)

lemma extract_enum_simps: "extract_enum t c = Some e \<Longrightarrow> en_table_name e = sa_table_name t \<and> en_column_name e = sa_column_name c"
  by (auto simp: extract_enum_def split: option.splits)

lemma distinct_enums:
  assumes "distinct (map sa_column_name cs)"
  shows "distinct (map en_column_name (concat (map (\<lambda>c. case extract_enum t c of None \<Rightarrow> [] | Some e \<Rightarrow> [e]) cs)))"
  using assms
proof (induction cs)
  case (Cons c cs)
  let ?es = "concat (map (\<lambda>c. case extract_enum t c of None \<Rightarrow> [] | Some e \<Rightarrow> [e]) cs)"
  have sub: "en_column_name ` set ?es \<subseteq> sa_column_name ` set cs"
    by (auto split: option.splits dest!: extract_enum_simps [OF sym])
  have ih: "distinct (map en_column_name ?es)" using Cons by simp
  show ?case
  proof (cases "extract_enum t c")
    case None
    then show ?thesis using ih by simp
  next
    case (Some e)
    then have "en_column_name e \<notin> en_column_name ` set ?es"
      using sub Cons.prems extract_enum_simps [OF Some] by (metis distinct.simps(2) list.set_map list.simps(9) subsetD)
    then show ?thesis using ih Some by simp
  qed
qed simp

text \<open>
  C16. The extracted schema does not depend on the order in which the object-relational mapper
  yields the mapped classes: for a well-formed mapping every permutation gives the same tables,
  relationships and enumerations.
\<close>

theorem extraction_order_independent:
  assumes "mapping_ok ms" "mset ms = mset ms'"
  shows "extract_metadata now ms = extract_metadata now ms'"
proof -
  note m = mapped_permuted [OF assms(2)]
  have "distinct (map tbl_name (map (\<lambda>(t, _). extract_table t) (mapped ms)))"
    using assms(1) by (simp add: mapping_ok_def comp_def case_prod_beta)
  then have tables: "extract_schema_tables ms = extract_schema_tables ms'"
    unfolding extract_schema_tables_def using m by (intro sort_key_permuted) simp_all
  have d: "distinct (map (sa_table_name \<circ> fst) (mapped ms))" using assms(1) by (simp add: mapping_ok_def)
  have rels: "extract_relationships ms = extract_relationships ms'"
    unfolding extract_relationships_def
  proof (rule sort_key_permuted [OF mset_concat_map_eq [OF m]])
    show "distinct (map (\<lambda>r. (rel_source_table r, rel_name r)) (concat (map (\<lambda>(t, rs). map (extract_relationship t) rs) (mapped ms))))"
      by (rule distinct_pair_keys [OF d]) (use assms(1) in \<open>auto simp: mapping_ok_def extract_relationship_def comp_def\<close>)
  qed
  have enums: "extract_enums ms = extract_enums ms'"
    unfolding extract_enums_def
  proof (rule sort_key_permuted [OF mset_concat_map_eq [OF m]])
    show "distinct (map (\<lambda>e. (en_table_name e, en_column_name e))
       (concat (map (\<lambda>(t, _). concat (map (\<lambda>c. case extract_enum t c of None \<Rightarrow> [] | Some e \<Rightarrow> [e]) (sa_columns t))) (mapped ms))))"
    proof (rule distinct_pair_keys [OF d])
      fix x assume "x \<in> set (mapped ms)"
      then show "distinct (map en_column_name (case x of (t, _) \<Rightarrow> concat (map (\<lambda>c. case extract_enum t c of None \<Rightarrow> [] | Some e \<Rightarrow> [e]) (sa_columns t))))"
        using assms(1) by (cases x) (auto simp: mapping_ok_def intro!: distinct_enums)
    qed (auto split: option.splits dest!: extract_enum_simps [OF sym])
  qed
  show ?thesis by (simp add: extract_metadata_def tables rels enums)
qed

lemma distinct_map_sort: "distinct (map f (sort_key g xs)) \<longleftrightarrow> distinct (map f xs)"
  by (rule mset_eq_imp_distinct_iff) simp

lemma extracted_schema_ok:
  assumes "mapping_ok ms"
  shows "schema_ok (extract_metadata now ms)"
proof -
  have "map tbl_name (map (\<lambda>(t, _). extract_table t) (mapped ms)) = map (sa_table_name \<circ> fst) (mapped ms)" by auto
  then have "distinct (map tbl_name (extract_schema_tables ms))"
    using assms by (simp only: extract_schema_tables_def distinct_map_sort mapping_ok_def)
  then show ?thesis by (auto simp: schema_ok_def extract_metadata_def extract_schema_tables_def)
qed

lemma enriched_schema_ok:
  assumes "schema_ok d"
  shows "schema_ok (enrich dict d)"
proof -
  have c: "col_table_name (enrich_column dict n c) = col_table_name c" for n c
    by (simp add: enrich_column_def split: option.split)
  have t: "tbl_columns (enrich_table dict t) = map (enrich_column dict (tbl_name t)) (tbl_columns t)" "tbl_name (enrich_table dict t) = tbl_name t" for t
    by (simp_all add: enrich_table_def Let_def split: option.split)
  show ?thesis using assms by (auto simp: schema_ok_def enrich_def t c comp_def)
qed

text \<open>
  C17. Extraction, enrichment, registry and linker compose: for a well-formed mapping with at least
  one table, a linker that loads the extracted schema enriched by any dictionary links every
  question without failing, and all it resolves is in that schema.
\<close>

theorem extracted_schema_links:
  assumes "mapping_ok ms" "mapped ms \<noteq> []"
    and "le_source env = \<lparr> ss_extracted = Inr (extract_metadata now ms), ss_enrich = Some (\<lambda>d. Inr (enrich dict d)) \<rparr>"
  shows "\<exists>lc s'. link env qc \<lparr> lk_registry = None, lk_cache = Map.empty \<rparr> = (Inr lc, s')
    \<and> linked_ok (le_pick env) (enrich dict (extract_metadata now ms)) qc lc"
proof -
  let ?d = "enrich dict (extract_metadata now ms)" and ?s = "\<lparr> lk_registry = None, lk_cache = Map.empty \<rparr> :: linker_state"
  have ok: "schema_ok ?d" using enriched_schema_ok [OF extracted_schema_ok [OF assms(1)]] .
  have ne: "db_tables ?d \<noteq> []" using assms(2)
    by (simp add: enrich_def extract_metadata_def extract_schema_tables_def) (metis length_0_conv length_map length_sort)
  have "linker_ready (le_pick env) ?d (?s \<lparr> lk_registry := Some ?d \<rparr>)"
    by (simp add: linker_ready_def mem_cache.sound_def cache_get_mem_def)
  then obtain lc s' where l: "link env qc (?s \<lparr> lk_registry := Some ?d \<rparr>) = (Inr lc, s')" "linked_ok (le_pick env) ?d qc lc"
    using serves_link [OF ok ne, of env qc] unfolding serves_def by blast
  have "load_schema (le_source env) ?s = (Inr ?d, ?s \<lparr> lk_registry := Some ?d \<rparr>)"
    using assms(3) by (simp add: load_schema_def metadata_load_def metadata_refresh_def value_cache_get_def value_cache_set_def)
  moreover have "load_schema (le_source env) (?s \<lparr> lk_registry := Some ?d \<rparr>) = (Inr ?d, ?s \<lparr> lk_registry := Some ?d \<rparr>)"
    by (simp add: load_schema_def metadata_load_def value_cache_get_def)
  ultimately have "link env qc ?s = link env qc (?s \<lparr> lk_registry := Some ?d \<rparr>)"
    by (simp only: link_def sbind_def prod.case sum.case)
  with l show ?thesis by auto
qed

text \<open>A mapping of one class.\<close>

definition demo_sa_table :: sa_table where
  "demo_sa_table = \<lparr> sa_table_name = ''orders'', sa_columns = [], sa_pk_name = SA_Other, sa_pk_columns = [''id''],
     sa_foreign_keys = [], sa_constraints = [], sa_indexes = [] \<rparr>"

definition demo_mappers :: "sa_mapper list" where
  "demo_mappers = [\<lparr> sa_local_table = Some demo_sa_table, sa_relationships = [] \<rparr>, \<lparr> sa_local_table = None, sa_relationships = [] \<rparr>]"

lemma demo_mapping: "mapping_ok demo_mappers" "mapped demo_mappers \<noteq> []"
  by (simp_all add: mapping_ok_def demo_mappers_def mapped_def demo_sa_table_def)

theorem extraction_order_independent_witness:
  "extract_metadata 0 demo_mappers = extract_metadata 0 (rev demo_mappers)"
  by (rule extraction_order_independent [OF demo_mapping(1)]) simp

theorem extracted_schema_links_witness:
  "\<exists>env lc s'. link env demo_query_context \<lparr> lk_registry = None, lk_cache = Map.empty \<rparr> = (Inr lc, s')
     \<and> linked_ok Min (enrich \<lparr> cd_tables = [], cd_columns = [] \<rparr> (extract_metadata 0 demo_mappers)) demo_query_context lc"
  using extracted_schema_links [OF demo_mapping, of "\<lparr> le_pick = Min, le_fmt = (\<lambda>_. []),
      le_source = \<lparr> ss_extracted = Inr (extract_metadata 0 demo_mappers),
        ss_enrich = Some (\<lambda>d. Inr (enrich \<lparr> cd_tables = [], cd_columns = [] \<rparr> d)) \<rparr> \<rparr>"
      0 "\<lparr> cd_tables = [], cd_columns = [] \<rparr>" demo_query_context]
  by auto

end
