(* ===== verification/Api_Access.thy ===== *)
theory Api_Access
  imports Rate_Limiter Auth_Service Json
begin

text \<open>
  What stands between a client and a handler: client information (\<open>api/client_info.py\<close>), the audit
  log (\<open>security/audit.py\<close>, \<open>security/models.py\<close>, \<open>security/repository.py\<close>), the dependencies of
  \<open>api/dependencies.py\<close> that authenticate, authorise and limit a request, and the handshake of
  \<open>streaming/websocket.py\<close>. Starlette's reading of a request is the record \<open>http_request\<close>: header names
  are in lower case, \<open>hr_bearer\<close> and \<open>hr_api_key\<close> are what the two security schemes of FastAPI return,
  \<open>hr_json\<close> is what \<open>request.json()\<close> returns (\<open>None\<close> when it raises). The audit table has the column
  widths of its model; any other reason for which an insertion can fail is the parameter
  \<open>ev_audit_accepts\<close>.
\<close>

section \<open>Requests and the state of the server\<close>

record http_request =
  hr_method :: string
  hr_path :: string
  hr_headers :: "(string, string) dict"
  hr_client_host :: "string option"
  hr_json :: "json option"
  hr_bearer :: "string option"
  hr_api_key :: "string option"

record settings =
  trust_proxy_headers :: bool
  rate_limit_enabled :: bool
  rate_limit_general_per_minute :: int
  rate_limit_login_per_minute :: int
  rate_limit_register_per_hour :: int
  rate_limit_refresh_per_minute :: int
  rate_limit_query_per_minute :: int
  is_production :: bool
  api_v1_prefix :: string

datatype audit_event_type = REGISTRATION | REGISTRATION_FAILURE | LOGIN_SUCCESS | LOGIN_FAILURE
  | REFRESH_SUCCESS | REFRESH_FAILURE | LOGOUT | AUTHORIZATION_DENIED | API_KEY_CREATED
  | API_KEY_REVOKED | API_KEY_AUTH_SUCCESS | API_KEY_AUTH_FAILURE

fun audit_value :: "audit_event_type \<Rightarrow> string" where
  "audit_value REGISTRATION = ''registration''"
| "audit_value REGISTRATION_FAILURE = ''registration_failure''"
| "audit_value LOGIN_SUCCESS = ''login_success''"
| "audit_value LOGIN_FAILURE = ''login_failure''"
| "audit_value REFRESH_SUCCESS = ''refresh_success''"
| "audit_value REFRESH_FAILURE = ''refresh_failure''"
| "audit_value LOGOUT = ''logout''"
| "audit_value AUTHORIZATION_DENIED = ''authorization_denied''"
| "audit_value API_KEY_CREATED = ''api_key_created''"
| "audit_value API_KEY_REVOKED = ''api_key_revoked''"
| "audit_value API_KEY_AUTH_SUCCESS = ''api_key_auth_success''"
| "audit_value API_KEY_AUTH_FAILURE = ''api_key_auth_failure''"

record audit_log =
  al_event_type :: string
  al_success :: bool
  al_actor_user_id :: "int option"
  al_actor_username :: "string option"
  al_ip_address :: "string option"
  al_user_agent :: "string option"
  al_request_id :: "string option"
  al_correlation_id :: "string option"
  al_resource :: "string option"
  al_error_type :: "string option"

datatype log_line = Info_Line audit_log | Warning_Line audit_log | Audit_Write_Failed string
  | Error_Line string "string option"

record request_state =
  st_request_id :: "string option"
  st_correlation_id :: "string option"
  st_user :: "user_read option"

text \<open>The server: the authentication world, the limiter's buckets, the audit table, the log, the
  state of the request being served and the state of everything behind the handlers.\<close>

record 'w api_world =
  aw_auth :: world
  aw_buckets :: buckets
  aw_audit :: "audit_log list"
  aw_log :: "log_line list"
  aw_state :: request_state
  aw_app :: 'w

record api_env =
  ev_crypto :: crypto
  ev_config :: auth_config
  ev_settings :: settings
  ev_audit_accepts :: "world \<Rightarrow> audit_log \<Rightarrow> bool"
  ev_uuid4 :: "nat \<Rightarrow> string"

text \<open>One entry of \<open>RequestValidationError.errors()\<close>; only \<open>loc\<close> and \<open>input\<close> are looked at.\<close>

record request_error =
  re_loc :: "string list"
  re_input :: "json option"
  re_rest :: "(string, json) dict"

datatype 'e api_error = Auth_Error auth_error | HTTP_Exception int string "(string, string) dict" | Rate_Limited delay
  | Request_Invalid "request_error list" | App_Error 'e

type_synonym ('w, 'e, 'a) api_op = "('w api_world, 'e api_error, 'a) op"

definition on_auth :: "'a auth_op \<Rightarrow> ('w, 'e, 'a) api_op" where
  "on_auth m w = (case m (aw_auth w) of (r, a) \<Rightarrow>
     (case r of Inl e \<Rightarrow> Inl (Auth_Error e) | Inr x \<Rightarrow> Inr x, w\<lparr> aw_auth := a \<rparr>))"

definition on_app :: "('e \<Rightarrow> 'f) \<Rightarrow> ('w, 'e, 'a) op \<Rightarrow> ('w, 'f, 'a) api_op" where
  "on_app f m w = (case m (aw_app w) of (r, a) \<Rightarrow>
     (case r of Inl e \<Rightarrow> Inl (App_Error (f e)) | Inr x \<Rightarrow> Inr x, w\<lparr> aw_app := a \<rparr>))"

definition auth_result :: "auth_error + 'a \<Rightarrow> ('w, 'e, 'a) api_op" where
  "auth_result r = (case r of Inl e \<Rightarrow> sraise (Auth_Error e) | Inr x \<Rightarrow> sreturn x)"

section \<open>Client information\<close>

definition get_header :: "http_request \<Rightarrow> string \<Rightarrow> string option" where
  "get_header rq name = map_of (hr_headers rq) name"

text \<open>A header counts only when it is there and not empty.\<close>

definition truthy_header :: "http_request \<Rightarrow> string \<Rightarrow> string option" where
  "truthy_header rq name = (case get_header rq name of Some v \<Rightarrow> if v = [] then None else Some v | None \<Rightarrow> None)"

definition get_client_ip :: "bool \<Rightarrow> http_request \<Rightarrow> string option" where
  "get_client_ip trust rq =
     (if \<not> trust then hr_client_host rq
      else case truthy_header rq ''x-forwarded-for'' of
             Some forwarded_for \<Rightarrow> Some (strip (hd (split_on (CHR '','') forwarded_for)))
           | None \<Rightarrow>
               (case truthy_header rq ''x-real-ip'' of
                  Some real_ip \<Rightarrow> Some (strip real_ip)
                | None \<Rightarrow> hr_client_host rq))"

definition MAX_USER_AGENT_LENGTH :: nat where
  "MAX_USER_AGENT_LENGTH = 300"

definition get_user_agent :: "http_request \<Rightarrow> string option" where
  "get_user_agent rq = map_option (take MAX_USER_AGENT_LENGTH) (truthy_header rq ''user-agent'')"

definition get_attempted_username :: "http_request \<Rightarrow> string option" where
  "get_attempted_username rq =
     (case hr_json rq of
        Some (JObj d) \<Rightarrow> (case map_of d ''username'' of Some (JStr s) \<Rightarrow> Some s | _ \<Rightarrow> None)
      | _ \<Rightarrow> None)"

section \<open>The audit log\<close>

definition column_fits :: "nat \<Rightarrow> string option \<Rightarrow> bool" where
  "column_fits n v = (case v of None \<Rightarrow> True | Some s \<Rightarrow> length s \<le> n)"

text \<open>The widths of the string columns, and the foreign key of the actor.\<close>

definition audit_row_ok :: "world \<Rightarrow> audit_log \<Rightarrow> bool" where
  "audit_row_ok a row \<longleftrightarrow> length (al_event_type row) \<le> 50 \<and> column_fits 50 (al_actor_username row) \<and>
     column_fits 45 (al_ip_address row) \<and> column_fits 300 (al_user_agent row) \<and>
     column_fits 64 (al_request_id row) \<and> column_fits 64 (al_correlation_id row) \<and>
     column_fits 100 (al_resource row) \<and>
     (case al_actor_user_id row of None \<Rightarrow> True | Some i \<Rightarrow> i \<in> u_id ` set (db_users (w_db a)))"

definition audit_create :: "api_env \<Rightarrow> audit_log \<Rightarrow> 'w api_world \<Rightarrow> bool \<times> 'w api_world" where
  "audit_create env row w =
     (if audit_row_ok (aw_auth w) row \<and> ev_audit_accepts env (aw_auth w) row
      then (True, w\<lparr> aw_audit := aw_audit w @ [row] \<rparr>) else (False, w))"

definition audit_record :: "api_env \<Rightarrow> audit_log \<Rightarrow> 'w api_world \<Rightarrow> 'w api_world" where
  "audit_record env r w =
     (let line = (if al_success r then Info_Line else Warning_Line) (r\<lparr> al_user_agent := None, al_error_type := None \<rparr>);
          row = r\<lparr> al_user_agent := map_option (take MAX_USER_AGENT_LENGTH) (al_user_agent r) \<rparr>;
          (stored, w') = audit_create env row (w\<lparr> aw_log := aw_log w @ [line] \<rparr>)
      in if stored then w' else w'\<lparr> aw_log := aw_log w' @ [Audit_Write_Failed (al_event_type r)] \<rparr>)"

text \<open>The fields every caller takes from the request and its state.\<close>

definition audit_fields ::
  "api_env \<Rightarrow> http_request \<Rightarrow> request_state \<Rightarrow> audit_event_type \<Rightarrow> bool \<Rightarrow> (int option \<times> string option) \<Rightarrow>
   string option \<Rightarrow> audit_log" where
  "audit_fields env rq st event_type success actor error_type =
     \<lparr> al_event_type = audit_value event_type, al_success = success, al_actor_user_id = fst actor,
       al_actor_username = snd actor,
       al_ip_address = get_client_ip (trust_proxy_headers (ev_settings env)) rq,
       al_user_agent = get_user_agent rq, al_request_id = st_request_id st,
       al_correlation_id = st_correlation_id st, al_resource = Some (hr_path rq), al_error_type = error_type \<rparr>"

definition audit_event ::
  "api_env \<Rightarrow> http_request \<Rightarrow> audit_event_type \<Rightarrow> bool \<Rightarrow> (int option \<times> string option) \<Rightarrow> string option \<Rightarrow>
   ('w, 'e, unit) api_op" where
  "audit_event env rq event_type success actor error_type w =
     (Inr (), audit_record env (audit_fields env rq (aw_state w) event_type success actor error_type) w)"

definition acting :: "user_read \<Rightarrow> int option \<times> string option" where
  "acting u = (Some (ur_id u), Some (ur_username u))"

definition nobody :: "int option \<times> string option" where
  "nobody = (None, None)"

section \<open>Authentication\<close>

fun is_authentication_error :: "auth_error \<Rightarrow> bool" where
  "is_authentication_error e = (e \<in> {InvalidCredentialsError, InactiveUserError, DuplicateUserError,
     InvalidTokenError, TokenExpiredError, RefreshTokenRevokedError, InvalidApiKeyError, ApiKeyExpiredError,
     ApiKeyRevokedError, ApiKeyNotFoundError})"

fun is_authorization_error :: "auth_error \<Rightarrow> bool" where
  "is_authorization_error e = (e \<in> {ForbiddenRoleError, InsufficientPermissionsError})"

fun auth_error_name :: "auth_error \<Rightarrow> string" where
  "auth_error_name InvalidCredentialsError = ''InvalidCredentialsError''"
| "auth_error_name InactiveUserError = ''InactiveUserError''"
| "auth_error_name DuplicateUserError = ''DuplicateUserError''"
| "auth_error_name InvalidTokenError = ''InvalidTokenError''"
| "auth_error_name TokenExpiredError = ''TokenExpiredError''"
| "auth_error_name RefreshTokenRevokedError = ''RefreshTokenRevokedError''"
| "auth_error_name InvalidApiKeyError = ''InvalidApiKeyError''"
| "auth_error_name ApiKeyExpiredError = ''ApiKeyExpiredError''"
| "auth_error_name ApiKeyRevokedError = ''ApiKeyRevokedError''"
| "auth_error_name ApiKeyNotFoundError = ''ApiKeyNotFoundError''"
| "auth_error_name ForbiddenRoleError = ''ForbiddenRoleError''"
| "auth_error_name InsufficientPermissionsError = ''InsufficientPermissionsError''"
| "auth_error_name IntegrityError = ''IntegrityError''"
| "auth_error_name MultipleResultsFound = ''MultipleResultsFound''"
| "auth_error_name PyValueError = ''ValueError''"

definition get_optional_current_user :: "api_env \<Rightarrow> http_request \<Rightarrow> ('w, 'e, user_read option) api_op" where
  "get_optional_current_user env rq =
     (case hr_bearer rq of
        None \<Rightarrow> sreturn None
      | Some token \<Rightarrow> sbind (on_auth (get_current_user (ev_crypto env) (ev_config env) token)) (\<lambda>u. sreturn (Some u)))"

definition resolve_jwt_user :: "api_env \<Rightarrow> string option \<Rightarrow> ('w, 'e, user_read) api_op" where
  "resolve_jwt_user env token =
     (case token of
        None \<Rightarrow> sraise (HTTP_Exception 401 ''Not authenticated.'' [(''www-authenticate'', ''Bearer'')])
      | Some t \<Rightarrow> on_auth (get_current_user (ev_crypto env) (ev_config env) t))"

definition remember_user :: "user_read \<Rightarrow> ('w, 'e, user_read) api_op" where
  "remember_user user w = (Inr user, w\<lparr> aw_state := (aw_state w)\<lparr> st_user := Some user \<rparr> \<rparr>)"

definition get_current_user_jwt_only :: "api_env \<Rightarrow> http_request \<Rightarrow> ('w, 'e, user_read) api_op" where
  "get_current_user_jwt_only env rq = sbind (resolve_jwt_user env (hr_bearer rq)) remember_user"

text \<open>\<open>try: x = m except: handler else: k(x)\<close>.\<close>

definition try_else :: "('w, 'e, 'a) op \<Rightarrow> ('e \<Rightarrow> ('w, 'e, 'b) op) \<Rightarrow> ('a \<Rightarrow> ('w, 'e, 'b) op) \<Rightarrow> ('w, 'e, 'b) op" where
  "try_else m handler k w = (case m w of (Inl e, w') \<Rightarrow> handler e w' | (Inr x, w') \<Rightarrow> k x w')"

definition api_key_user :: "api_env \<Rightarrow> http_request \<Rightarrow> string \<Rightarrow> ('w, 'e, user_read) api_op" where
  "api_key_user env rq key =
     try_else (on_auth (authenticate_api_key (ev_crypto env) key))
       (\<lambda>exc. case exc of
          Auth_Error e \<Rightarrow>
            if is_authentication_error e
            then sbind (audit_event env rq API_KEY_AUTH_FAILURE False nobody (Some (auth_error_name e)))
                   (\<lambda>_. sraise (Auth_Error e))
            else sraise exc
        | _ \<Rightarrow> sraise exc)
       (\<lambda>user. sbind (audit_event env rq API_KEY_AUTH_SUCCESS True (acting user) None) (\<lambda>_. sreturn user))"

definition current_user :: "api_env \<Rightarrow> http_request \<Rightarrow> ('w, 'e, user_read) api_op" where
  "current_user env rq =
     sbind (case hr_api_key rq of
              Some key \<Rightarrow> api_key_user env rq key
            | None \<Rightarrow> resolve_jwt_user env (hr_bearer rq))
       remember_user"

section \<open>Authorisation\<close>

definition get_admin_user :: "user_read \<Rightarrow> ('w, 'e, user_read) api_op" where
  "get_admin_user user =
     (if \<not> ur_is_superuser user
      then sraise (HTTP_Exception 403 ''This action requires administrator privileges.'' []) else sreturn user)"

definition get_admin_required_user :: "user_read \<Rightarrow> ('w, 'e, user_read) api_op" where
  "get_admin_required_user user = sbind (auth_result (require_role user ADMIN)) (\<lambda>_. sreturn user)"

definition get_analyst_required_user :: "user_read \<Rightarrow> ('w, 'e, user_read) api_op" where
  "get_analyst_required_user user = sbind (auth_result (require_role user ANALYST)) (\<lambda>_. sreturn user)"

definition get_viewer_required_user :: "user_read \<Rightarrow> ('w, 'e, user_read) api_op" where
  "get_viewer_required_user user = sbind (auth_result (require_role user VIEWER)) (\<lambda>_. sreturn user)"

definition RequireAnyRole :: "user_role list \<Rightarrow> user_read \<Rightarrow> ('w, 'e, user_read) api_op" where
  "RequireAnyRole roles user = sbind (auth_result (require_any_role user roles)) (\<lambda>_. sreturn user)"

section \<open>Rate limits\<close>

text \<open>The container installs the token bucket, or the no-op limiter when limits are disabled.\<close>

definition limiter_check :: "api_env \<Rightarrow> string \<Rightarrow> int \<Rightarrow> real \<Rightarrow> ('w, 'e, rate_limit_decision) api_op" where
  "limiter_check env key capacity refill_per_second w =
     (if rate_limit_enabled (ev_settings env)
      then case check_bucket (w_now (aw_auth w)) (aw_buckets w) key capacity refill_per_second of
             (d, bs) \<Rightarrow> (Inr d, w\<lparr> aw_buckets := bs \<rparr>)
      else (Inr (fst (check_noop (w_now (aw_auth w)) () key capacity refill_per_second)), w))"

definition raise_if_blocked :: "rate_limit_decision \<Rightarrow> ('w, 'e, unit) api_op" where
  "raise_if_blocked decision =
     (if \<not> allowed decision then sraise (Rate_Limited (retry_after_seconds decision)) else sreturn ())"

text \<open>A missing address is printed as \<open>None\<close> in the key of a bucket.\<close>

definition ip_key :: "string \<Rightarrow> api_env \<Rightarrow> http_request \<Rightarrow> string" where
  "ip_key scope env rq = scope @ (case get_client_ip (trust_proxy_headers (ev_settings env)) rq of
     None \<Rightarrow> ''None'' | Some ip \<Rightarrow> ip)"

definition check_general_rate_limit :: "api_env \<Rightarrow> http_request \<Rightarrow> ('w, 'e, unit) api_op" where
  "check_general_rate_limit env rq =
     (let capacity = rate_limit_general_per_minute (ev_settings env) in
      sbind (limiter_check env (ip_key ''general:ip:'' env rq) capacity (real_of_int capacity / 60)) raise_if_blocked)"

definition check_login_rate_limit :: "api_env \<Rightarrow> http_request \<Rightarrow> ('w, 'e, unit) api_op" where
  "check_login_rate_limit env rq =
     (let capacity = rate_limit_login_per_minute (ev_settings env);
          refill_per_second = real_of_int capacity / 60 in
      sbind (limiter_check env (ip_key ''login:ip:'' env rq) capacity refill_per_second) (\<lambda>ip_decision.
      sbind (case get_attempted_username rq of
               Some username \<Rightarrow>
                 if username = [] then sreturn None
                 else sbind (limiter_check env (''login:username:'' @ username) capacity refill_per_second)
                        (\<lambda>d. sreturn (Some d))
             | None \<Rightarrow> sreturn None) (\<lambda>username_decision.
      case next_where (\<lambda>d. \<not> allowed d) (ip_decision # (case username_decision of None \<Rightarrow> [] | Some d \<Rightarrow> [d])) of
        Some blocked \<Rightarrow> raise_if_blocked blocked
      | None \<Rightarrow> sreturn ())))"

definition check_register_rate_limit :: "api_env \<Rightarrow> http_request \<Rightarrow> ('w, 'e, unit) api_op" where
  "check_register_rate_limit env rq =
     (let capacity = rate_limit_register_per_hour (ev_settings env) in
      sbind (limiter_check env (ip_key ''register:ip:'' env rq) capacity (real_of_int capacity / 3600)) raise_if_blocked)"

definition check_refresh_rate_limit :: "api_env \<Rightarrow> http_request \<Rightarrow> ('w, 'e, unit) api_op" where
  "check_refresh_rate_limit env rq =
     (let capacity = rate_limit_refresh_per_minute (ev_settings env) in
      sbind (limiter_check env (ip_key ''refresh:ip:'' env rq) capacity (real_of_int capacity / 60)) raise_if_blocked)"

definition query_key :: "user_read \<Rightarrow> string" where
  "query_key user = ''query:user:'' @ str_int (ur_id user)"

definition check_query_rate_limit :: "api_env \<Rightarrow> user_read \<Rightarrow> ('w, 'e, unit) api_op" where
  "check_query_rate_limit env user =
     (let capacity = rate_limit_query_per_minute (ev_settings env) in
      sbind (limiter_check env (query_key user) capacity (real_of_int capacity / 60)) raise_if_blocked)"

section \<open>The handshake of a WebSocket\<close>

record ws_request =
  ws_authorization :: "string option"
  ws_query_token :: "string option"

datatype handshake = Handshake_Closed nat string | Handshake_User user_read

definition removeprefix :: "string \<Rightarrow> string \<Rightarrow> string" where
  "removeprefix s p = (if startswith s p then drop (length p) s else s)"

definition ws_token :: "ws_request \<Rightarrow> string option" where
  "ws_token ws =
     (let authorization = (case ws_authorization ws of None \<Rightarrow> [] | Some a \<Rightarrow> a);
          token = strip (removeprefix authorization ''Bearer '')
      in if token \<noteq> [] then Some token else ws_query_token ws)"

text \<open>\<open>msg\<close> gives the text of an exception.\<close>

definition authenticate_and_authorize ::
  "(auth_error \<Rightarrow> string) \<Rightarrow> api_env \<Rightarrow> ws_request \<Rightarrow> ('w, 'e, handshake) api_op" where
  "authenticate_and_authorize msg env ws =
     (case ws_token ws of
        None \<Rightarrow> sreturn (Handshake_Closed 1008 ''Not authenticated.'')
      | Some token \<Rightarrow>
          if token = [] then sreturn (Handshake_Closed 1008 ''Not authenticated.'')
          else try_else
            (sbind (on_auth (get_current_user (ev_crypto env) (ev_config env) token)) (\<lambda>user.
             sbind (auth_result (require_role user ANALYST)) (\<lambda>_. sreturn user)))
            (\<lambda>exc. case exc of
               Auth_Error e \<Rightarrow>
                 if is_authentication_error e \<or> is_authorization_error e
                 then sreturn (Handshake_Closed 1008 (take 120 (msg e))) else sraise exc
             | _ \<Rightarrow> sraise exc)
            (\<lambda>user.
               let capacity = rate_limit_query_per_minute (ev_settings env) in
               sbind (limiter_check env (query_key user) capacity (real_of_int capacity / 60)) (\<lambda>decision.
                 if \<not> allowed decision
                 then sreturn (Handshake_Closed 1013 ''Too many requests. Please slow down and try again shortly.'')
                 else sreturn (Handshake_User user))))"

end
