(* ===== verification/Metrics.thy ===== *)
theory Metrics
  imports Prelude "HOL-Library.AList"
begin

text \<open>
  Measurements (\<open>observability/metrics.py\<close>, \<open>observability/profiler.py\<close>, \<open>observability/benchmark.py\<close>):
  the in-memory metrics collector with every recording operation and its snapshot, the profile of a
  run and the summary of a benchmark. Floats are reals; dictionaries keep their insertion order. The
  property relates every sequence of recordings to the summary of what was recorded.
\<close>

section \<open>The collector\<close>

record metrics =
  mt_pipeline_run_count :: nat
  mt_pipeline_success_count :: nat
  mt_pipeline_failure_count :: nat
  mt_pipeline_latency_total_ms :: real
  mt_stage_call_counts :: "(string, nat) dict"
  mt_stage_latency_totals :: "(string, real) dict"
  mt_stage_latency_mins :: "(string, real) dict"
  mt_stage_latency_maxs :: "(string, real) dict"
  mt_validation_failure_count :: nat
  mt_repair_attempted_count :: nat
  mt_repair_success_count :: nat
  mt_sql_execution_count :: nat
  mt_total_rows_returned :: int
  mt_llm_prompt_tokens :: int
  mt_llm_completion_tokens :: int
  mt_cache_hit_count :: nat
  mt_cache_miss_count :: nat
  mt_startup_time_ms :: "real option"

definition new_metrics :: metrics where
  "new_metrics = \<lparr> mt_pipeline_run_count = 0, mt_pipeline_success_count = 0, mt_pipeline_failure_count = 0,
     mt_pipeline_latency_total_ms = 0, mt_stage_call_counts = [], mt_stage_latency_totals = [],
     mt_stage_latency_mins = [], mt_stage_latency_maxs = [], mt_validation_failure_count = 0,
     mt_repair_attempted_count = 0, mt_repair_success_count = 0, mt_sql_execution_count = 0,
     mt_total_rows_returned = 0, mt_llm_prompt_tokens = 0, mt_llm_completion_tokens = 0,
     mt_cache_hit_count = 0, mt_cache_miss_count = 0, mt_startup_time_ms = None \<rparr>"

definition record_pipeline_run :: "bool \<Rightarrow> real \<Rightarrow> bool \<Rightarrow> bool \<Rightarrow> metrics \<Rightarrow> metrics" where
  "record_pipeline_run success latency_ms repair_attempted repair_succeeded m =
     (let m1 = m\<lparr> mt_pipeline_run_count := mt_pipeline_run_count m + 1,
                  mt_pipeline_latency_total_ms := mt_pipeline_latency_total_ms m + latency_ms \<rparr>;
          m2 = (if success then m1\<lparr> mt_pipeline_success_count := mt_pipeline_success_count m1 + 1 \<rparr>
                else m1\<lparr> mt_pipeline_failure_count := mt_pipeline_failure_count m1 + 1 \<rparr>)
      in if repair_attempted
         then let m3 = m2\<lparr> mt_repair_attempted_count := mt_repair_attempted_count m2 + 1 \<rparr>
              in if repair_succeeded then m3\<lparr> mt_repair_success_count := mt_repair_success_count m3 + 1 \<rparr> else m3
         else m2)"

text \<open>\<open>d.get(k, default)\<close>.\<close>

definition dict_get :: "('k, 'v) dict \<Rightarrow> 'k \<Rightarrow> 'v \<Rightarrow> 'v" where
  "dict_get d k v = (case map_of d k of None \<Rightarrow> v | Some x \<Rightarrow> x)"

definition record_stage_latency :: "string \<Rightarrow> real \<Rightarrow> metrics \<Rightarrow> metrics" where
  "record_stage_latency stage latency_ms m =
     m\<lparr> mt_stage_call_counts := AList.update stage (dict_get (mt_stage_call_counts m) stage 0 + 1) (mt_stage_call_counts m),
        mt_stage_latency_totals := AList.update stage (dict_get (mt_stage_latency_totals m) stage 0 + latency_ms) (mt_stage_latency_totals m),
        mt_stage_latency_mins := AList.update stage (min (dict_get (mt_stage_latency_mins m) stage latency_ms) latency_ms) (mt_stage_latency_mins m),
        mt_stage_latency_maxs := AList.update stage (max (dict_get (mt_stage_latency_maxs m) stage latency_ms) latency_ms) (mt_stage_latency_maxs m) \<rparr>"

definition record_validation_failure :: "metrics \<Rightarrow> metrics" where
  "record_validation_failure m = m\<lparr> mt_validation_failure_count := mt_validation_failure_count m + 1 \<rparr>"

definition record_sql_execution :: "int \<Rightarrow> metrics \<Rightarrow> metrics" where
  "record_sql_execution rows_returned m =
     m\<lparr> mt_sql_execution_count := mt_sql_execution_count m + 1,
        mt_total_rows_returned := mt_total_rows_returned m + rows_returned \<rparr>"

definition record_llm_token_usage :: "int \<Rightarrow> int \<Rightarrow> metrics \<Rightarrow> metrics" where
  "record_llm_token_usage prompt_tokens completion_tokens m =
     m\<lparr> mt_llm_prompt_tokens := mt_llm_prompt_tokens m + prompt_tokens,
        mt_llm_completion_tokens := mt_llm_completion_tokens m + completion_tokens \<rparr>"

definition record_cache_access :: "bool \<Rightarrow> metrics \<Rightarrow> metrics" where
  "record_cache_access hit m =
     (if hit then m\<lparr> mt_cache_hit_count := mt_cache_hit_count m + 1 \<rparr>
      else m\<lparr> mt_cache_miss_count := mt_cache_miss_count m + 1 \<rparr>)"

definition record_startup_time :: "real \<Rightarrow> metrics \<Rightarrow> metrics" where
  "record_startup_time duration_ms m = m\<lparr> mt_startup_time_ms := Some duration_ms \<rparr>"

record stage_metric =
  sm_stage :: string
  sm_call_count :: nat
  sm_total_latency_ms :: real
  sm_average_latency_ms :: real
  sm_min_latency_ms :: real
  sm_max_latency_ms :: real

record metrics_snapshot =
  ms_captured_at :: datetime
  ms_pipeline_run_count :: nat
  ms_pipeline_success_count :: nat
  ms_pipeline_failure_count :: nat
  ms_average_pipeline_latency_ms :: real
  ms_stage_metrics :: "stage_metric list"
  ms_validation_failure_count :: nat
  ms_repair_attempted_count :: nat
  ms_repair_success_count :: nat
  ms_repair_success_rate :: real
  ms_sql_execution_count :: nat
  ms_total_rows_returned :: int
  ms_llm_prompt_tokens :: int
  ms_llm_completion_tokens :: int
  ms_cache_hit_count :: nat
  ms_cache_miss_count :: nat
  ms_startup_time_ms :: "real option"

text \<open>The subscripts never fail: the four dictionaries have the same keys (\<open>stage_dicts\<close> below).\<close>

definition stage_metrics_of :: "metrics \<Rightarrow> stage_metric list" where
  "stage_metrics_of m = map (\<lambda>(stage, count).
     \<lparr> sm_stage = stage, sm_call_count = count, sm_total_latency_ms = the (map_of (mt_stage_latency_totals m) stage),
       sm_average_latency_ms = the (map_of (mt_stage_latency_totals m) stage) / real count,
       sm_min_latency_ms = the (map_of (mt_stage_latency_mins m) stage),
       sm_max_latency_ms = the (map_of (mt_stage_latency_maxs m) stage) \<rparr>) (mt_stage_call_counts m)"

definition snapshot :: "datetime \<Rightarrow> metrics \<Rightarrow> metrics_snapshot" where
  "snapshot now m =
     \<lparr> ms_captured_at = now, ms_pipeline_run_count = mt_pipeline_run_count m,
       ms_pipeline_success_count = mt_pipeline_success_count m,
       ms_pipeline_failure_count = mt_pipeline_failure_count m,
       ms_average_pipeline_latency_ms =
         (if mt_pipeline_run_count m > 0 then mt_pipeline_latency_total_ms m / real (mt_pipeline_run_count m) else 0),
       ms_stage_metrics = stage_metrics_of m,
       ms_validation_failure_count = mt_validation_failure_count m,
       ms_repair_attempted_count = mt_repair_attempted_count m,
       ms_repair_success_count = mt_repair_success_count m,
       ms_repair_success_rate =
         (if mt_repair_attempted_count m > 0
          then real (mt_repair_success_count m) / real (mt_repair_attempted_count m) else 0),
       ms_sql_execution_count = mt_sql_execution_count m, ms_total_rows_returned = mt_total_rows_returned m,
       ms_llm_prompt_tokens = mt_llm_prompt_tokens m, ms_llm_completion_tokens = mt_llm_completion_tokens m,
       ms_cache_hit_count = mt_cache_hit_count m, ms_cache_miss_count = mt_cache_miss_count m,
       ms_startup_time_ms = mt_startup_time_ms m \<rparr>"

section \<open>The profile of a run\<close>

record profiling_statistics =
  ps_stage :: string
  ps_latency_ms :: real
  ps_cumulative_latency_ms :: real
  ps_percentage_of_total :: real

record pipeline_profile =
  pp_stage_statistics :: "profiling_statistics list"
  pp_total_latency_ms :: real
  pp_dominant_stage :: string
  pp_dominant_stage_percentage :: real

datatype profiling_error = ProfilingError

fun profile_stages :: "real \<Rightarrow> real \<Rightarrow> (string \<times> real) list \<Rightarrow> profiling_statistics list" where
  "profile_stages total_ms cumulative_ms [] = []"
| "profile_stages total_ms cumulative_ms ((stage, latency_ms) # ds) =
     \<lparr> ps_stage = stage, ps_latency_ms = latency_ms, ps_cumulative_latency_ms = cumulative_ms + latency_ms,
       ps_percentage_of_total = (if total_ms > 0 then latency_ms / total_ms * 100 else 0) \<rparr>
     # profile_stages total_ms (cumulative_ms + latency_ms) ds"

text \<open>\<open>max(xs, key=f)\<close>: the first of the greatest.\<close>

fun max_by :: "('a \<Rightarrow> real) \<Rightarrow> 'a \<Rightarrow> 'a list \<Rightarrow> 'a" where
  "max_by f x [] = x"
| "max_by f x (y # ys) = max_by f (if f y > f x then y else x) ys"

definition profile :: "(string \<times> real) list \<Rightarrow> profiling_error + pipeline_profile" where
  "profile stage_durations =
     (if stage_durations = [] then Inl ProfilingError
      else let total_latency_ms = sum_list (map snd stage_durations);
               stage_statistics = profile_stages total_latency_ms 0 stage_durations;
               dominant = max_by ps_latency_ms (hd stage_statistics) (tl stage_statistics)
           in Inr \<lparr> pp_stage_statistics = stage_statistics, pp_total_latency_ms = total_latency_ms,
                    pp_dominant_stage = ps_stage dominant,
                    pp_dominant_stage_percentage = ps_percentage_of_total dominant \<rparr>)"

section \<open>Benchmarks\<close>

record benchmark_result =
  br_name :: string
  br_warmup_iterations :: int
  br_measured_iterations :: nat
  br_average_ms :: real
  br_min_ms :: real
  br_max_ms :: real
  br_median_ms :: real
  br_p95_ms :: real

text \<open>The nearest-rank percentile; \<open>int(...)\<close> of a positive float is its floor.\<close>

definition percentile :: "real list \<Rightarrow> real \<Rightarrow> real" where
  "percentile sorted_samples fraction =
     (if length sorted_samples = 1 then sorted_samples ! 0
      else let index = max 0 (min (int (length sorted_samples) - 1)
                         (\<lfloor>real (length sorted_samples) * fraction + 0.9999\<rfloor> - 1))
           in sorted_samples ! nat index)"

text \<open>\<open>statistics.median\<close> of the sorted samples.\<close>

definition median_of :: "real list \<Rightarrow> real" where
  "median_of xs = (let n = length xs in
     if odd n then xs ! (n div 2) else (xs ! (n div 2 - 1) + xs ! (n div 2)) / 2)"

datatype benchmark_error = BenchmarkError | StatisticsError

text \<open>\<open>statistics.mean\<close> raises for no samples.\<close>

definition build_benchmark_result :: "string \<Rightarrow> int \<Rightarrow> real list \<Rightarrow> benchmark_error + benchmark_result" where
  "build_benchmark_result name warmup_iterations samples_ms =
     (if samples_ms = [] then Inl StatisticsError
      else let sorted_samples = sort samples_ms in
        Inr \<lparr> br_name = name, br_warmup_iterations = warmup_iterations,
              br_measured_iterations = length samples_ms,
              br_average_ms = sum_list samples_ms / real (length samples_ms), br_min_ms = sorted_samples ! 0,
              br_max_ms = last sorted_samples, br_median_ms = median_of sorted_samples,
              br_p95_ms = percentile sorted_samples 0.95 \<rparr>)"

definition benchmark_runner :: "int \<Rightarrow> int \<Rightarrow> benchmark_error + int \<times> int" where
  "benchmark_runner warmup_iterations measured_iterations =
     (if warmup_iterations < 0 then Inl BenchmarkError
      else if measured_iterations < 1 then Inl BenchmarkError
      else Inr (warmup_iterations, measured_iterations))"

text \<open>Each call reads the clock before and after; \<open>clock\<close> and the function measured act on the world.\<close>

fun take_samples :: "('w \<Rightarrow> real \<times> 'w) \<Rightarrow> ('w \<Rightarrow> 'w) \<Rightarrow> nat \<Rightarrow> 'w \<Rightarrow> real list \<times> 'w" where
  "take_samples clock fn 0 w = ([], w)"
| "take_samples clock fn (Suc n) w =
     (let (started, w1) = clock w; (finished, w2) = clock (fn w1); (xs, w3) = take_samples clock fn n w2
      in ((finished - started) * 1000 # xs, w3))"

definition run_benchmark ::
  "('w \<Rightarrow> real \<times> 'w) \<Rightarrow> int \<times> int \<Rightarrow> string \<Rightarrow> ('w \<Rightarrow> 'w) \<Rightarrow> int option \<Rightarrow> int option \<Rightarrow>
   ('w, benchmark_error, benchmark_result) op" where
  "run_benchmark clock runner name fn warmup_iterations measured_iterations w =
     (let warmup = (case warmup_iterations of None \<Rightarrow> fst runner | Some n \<Rightarrow> n);
          measured = (case measured_iterations of None \<Rightarrow> snd runner | Some n \<Rightarrow> n);
          (samples_ms, w') = take_samples clock fn (nat measured) ((fn ^^ nat warmup) w)
      in (build_benchmark_result name warmup samples_ms, w'))"

lemma profile_stages_sums:
  "sum_list (map ps_latency_ms (profile_stages t c ds)) = sum_list (map snd ds)"
  "t > 0 \<Longrightarrow> sum_list (map ps_percentage_of_total (profile_stages t c ds)) = sum_list (map snd ds) / t * 100"
  "ds \<noteq> [] \<Longrightarrow> ps_cumulative_latency_ms (last (profile_stages t c ds)) = c + sum_list (map snd ds)"
  "map ps_stage (profile_stages t c ds) = map fst ds"
proof (induction t c ds rule: profile_stages.induct)
  case (2 t c stage l ds)
  { case 2 then show ?case using "2.IH" by (simp add: add_divide_distrib distrib_right) }
  { case 3 then show ?case using "2.IH" by (cases ds) auto }
qed simp_all

lemma profile_stages_Nil [simp]: "profile_stages t c ds = [] \<longleftrightarrow> ds = []"
  by (cases "(t, c, ds)" rule: profile_stages.cases) auto

lemma max_by_max: "max_by f x xs \<in> insert x (set xs) \<and> (\<forall>y\<in>insert x (set xs). f y \<le> f (max_by f x xs))"
proof (induction f x xs rule: max_by.induct)
  case (2 f x y ys)
  then show ?case by (cases "f y > f x") (auto intro: order_trans less_imp_le)
qed simp

text \<open>
  The profile of a run: the cumulative latency ends at the total, the percentages add up to one
  hundred, and no stage takes longer than the dominant one.
\<close>

lemma profile_partition:
  assumes "profile ds = Inr p"
  shows "ps_cumulative_latency_ms (last (pp_stage_statistics p)) = pp_total_latency_ms p"
    and "pp_total_latency_ms p > 0 \<Longrightarrow> sum_list (map ps_percentage_of_total (pp_stage_statistics p)) = 100"
    and "\<exists>d\<in>set (pp_stage_statistics p). ps_stage d = pp_dominant_stage p \<and>
           (\<forall>x\<in>set (pp_stage_statistics p). ps_latency_ms x \<le> ps_latency_ms d)"
proof -
  define st where "st = profile_stages (sum_list (map snd ds)) 0 ds"
  have ne: "ds \<noteq> []" "st \<noteq> []" and stages: "pp_stage_statistics p = st" "pp_total_latency_ms p = sum_list (map snd ds)"
    "pp_dominant_stage p = ps_stage (max_by ps_latency_ms (hd st) (tl st))"
    using assms by (auto simp: profile_def st_def Let_def split: if_splits)
  show "ps_cumulative_latency_ms (last (pp_stage_statistics p)) = pp_total_latency_ms p"
    using ne by (simp add: stages st_def profile_stages_sums)
  show "sum_list (map ps_percentage_of_total (pp_stage_statistics p)) = 100" if "pp_total_latency_ms p > 0"
    using that by (simp add: stages st_def profile_stages_sums(2))
  have "insert (hd st) (set (tl st)) = set st" using ne by (cases st) auto
  then show "\<exists>d\<in>set (pp_stage_statistics p). ps_stage d = pp_dominant_stage p \<and>
      (\<forall>x\<in>set (pp_stage_statistics p). ps_latency_ms x \<le> ps_latency_ms d)"
    using max_by_max [of ps_latency_ms "hd st" "tl st"] by (auto simp: stages)
qed

text \<open>The nearest rank: at least 95 percent of the samples are at most the reported percentile.\<close>

lemma percentile_rank:
  assumes "sorted xs" "xs \<noteq> []"
  shows "19 * length xs \<le> 20 * length (filter (\<lambda>x. x \<le> percentile xs 0.95) xs)"
    and "percentile xs 0.95 \<in> set xs"
proof -
  let ?n = "length xs"
  define z where "z = \<lfloor>real ?n * 0.95 + 0.9999\<rfloor>"
  define k where "k = (if ?n = 1 then 0 else nat (max 0 (min (int ?n - 1) (z - 1))))"
  have p: "percentile xs 0.95 = xs ! k" by (simp add: percentile_def k_def z_def Let_def)
  have n: "0 < ?n" using assms(2) by simp
  have kz: "k = 0 \<and> ?n = 1 \<or> k = nat (max 0 (min (int ?n - 1) (z - 1)))" unfolding k_def by simp
  with n have k: "k < ?n" by linarith
  have "z = \<lfloor>real ?n * 19 / 20 + 9999 / 10000\<rfloor>" by (simp add: z_def)
  then have "20 * z \<ge> 19 * int ?n" by linarith
  then have rank: "19 * ?n \<le> 20 * (k + 1)" 
    using n kz by (auto simp: max_def min_def split: if_splits)
  have "set (take (k + 1) xs) \<subseteq> {x. x \<le> xs ! k}"
    using assms(1) k by (auto simp: in_set_conv_nth intro!: sorted_nth_mono)
  then have "length (take (k + 1) xs) \<le> length (filter (\<lambda>x. x \<le> xs ! k) (take (k + 1) xs @ drop (k + 1) xs))"
    unfolding filter_append length_append by (subst filter_True) auto
  then show "19 * length xs \<le> 20 * length (filter (\<lambda>x. x \<le> percentile xs 0.95) xs)"
    unfolding p using rank k by simp
  show "percentile xs 0.95 \<in> set xs" unfolding p using k by simp
qed

text \<open>The iteration counts passed to a run are not checked as those of the runner are.\<close>

lemma zero_iterations_unchecked:
  "run_benchmark clock (1, 5) name fn (Some 0) (Some 0) w = (Inl StatisticsError, w)"
  by (simp add: run_benchmark_def build_benchmark_result_def)

section \<open>Sequences of recordings\<close>

datatype recording = R_Run bool real bool bool | R_Stage string real | R_Validation_Failure | R_Sql int
  | R_Tokens int int | R_Cache bool | R_Startup real

fun apply_recording :: "recording \<Rightarrow> metrics \<Rightarrow> metrics" where
  "apply_recording (R_Run s l a r) = record_pipeline_run s l a r"
| "apply_recording (R_Stage s l) = record_stage_latency s l"
| "apply_recording R_Validation_Failure = record_validation_failure"
| "apply_recording (R_Sql n) = record_sql_execution n"
| "apply_recording (R_Tokens p c) = record_llm_token_usage p c"
| "apply_recording (R_Cache h) = record_cache_access h"
| "apply_recording (R_Startup d) = record_startup_time d"

definition collect :: "recording list \<Rightarrow> metrics" where
  "collect rs = fold apply_recording rs new_metrics"

fun run_of :: "recording \<Rightarrow> (bool \<times> real \<times> bool \<times> bool) list" where
  "run_of (R_Run s l a r) = [(s, l, a, r)]"
| "run_of _ = []"

fun stage_of :: "recording \<Rightarrow> (string \<times> real) list" where
  "stage_of (R_Stage s l) = [(s, l)]"
| "stage_of _ = []"

fun rows_of :: "recording \<Rightarrow> int list" where
  "rows_of (R_Sql n) = [n]"
| "rows_of _ = []"

fun tokens_of :: "recording \<Rightarrow> (int \<times> int) list" where
  "tokens_of (R_Tokens p c) = [(p, c)]"
| "tokens_of _ = []"

fun access_of :: "recording \<Rightarrow> bool list" where
  "access_of (R_Cache h) = [h]"
| "access_of _ = []"

fun startup_of :: "recording \<Rightarrow> real list" where
  "startup_of (R_Startup d) = [d]"
| "startup_of _ = []"

text \<open>All that a sequence of recordings recorded with one of the operations.\<close>

abbreviation recorded :: "(recording \<Rightarrow> 'a list) \<Rightarrow> recording list \<Rightarrow> 'a list" where
  "recorded f rs \<equiv> concat (map f rs)"

abbreviation runs :: "recording list \<Rightarrow> (bool \<times> real \<times> bool \<times> bool) list" where
  "runs rs \<equiv> recorded run_of rs"

definition latencies :: "recording list \<Rightarrow> string \<Rightarrow> real list" where
  "latencies rs s = map snd (filter (\<lambda>(t, _). t = s) (concat (map stage_of rs)))"

lemmas recording_defs = record_pipeline_run_def record_stage_latency_def record_validation_failure_def
  record_sql_execution_def record_llm_token_usage_def record_cache_access_def record_startup_time_def

lemma collect_Nil [simp]: "collect [] = new_metrics"
  by (simp add: collect_def)

lemma collect_snoc [simp]: "collect (rs @ [r]) = apply_recording r (collect rs)"
  by (simp add: collect_def)

lemma latencies_simps [simp]:
  "latencies [] s = []"
  "latencies (rs @ [R_Stage t l]) s = latencies rs s @ (if t = s then [l] else [])"
  "stage_of r = [] \<Longrightarrow> latencies (rs @ [r]) s = latencies rs s"
  by (simp_all add: latencies_def)

lemma stage_fields:
  assumes "stage_of r = []"
  shows "mt_stage_call_counts (apply_recording r m) = mt_stage_call_counts m"
    and "mt_stage_latency_totals (apply_recording r m) = mt_stage_latency_totals m"
    and "mt_stage_latency_mins (apply_recording r m) = mt_stage_latency_mins m"
    and "mt_stage_latency_maxs (apply_recording r m) = mt_stage_latency_maxs m"
  using assms by (cases r; simp add: recording_defs Let_def)+

text \<open>The four dictionaries have the recorded stages as keys, and hold count, sum, minimum, maximum.\<close>

lemma stage_dicts:
  "map_of (mt_stage_call_counts (collect rs)) s = (if latencies rs s = [] then None else Some (length (latencies rs s))) \<and>
   map_of (mt_stage_latency_totals (collect rs)) s = (if latencies rs s = [] then None else Some (sum_list (latencies rs s))) \<and>
   map_of (mt_stage_latency_mins (collect rs)) s = (if latencies rs s = [] then None else Some (Min (set (latencies rs s)))) \<and>
   map_of (mt_stage_latency_maxs (collect rs)) s = (if latencies rs s = [] then None else Some (Max (set (latencies rs s))))"
proof (induction rs rule: rev_induct)
  case Nil
  then show ?case by (simp add: new_metrics_def)
next
  case (snoc r rs)
  show ?case
  proof (cases "stage_of r = []")
    case True
    then show ?thesis using snoc by (simp add: stage_fields)
  next
    case False
    then obtain t l where "r = R_Stage t l" by (cases r) auto
    then show ?thesis using snoc
      by (auto simp: record_stage_latency_def update_conv' dict_get_def min.commute max.commute)
  qed
qed

lemma stage_keys_distinct: "distinct (map fst (mt_stage_call_counts (collect rs)))"
proof (induction rs rule: rev_induct)
  case (snoc r rs)
  then show ?case
    by (cases "stage_of r = []"; cases r) (auto simp: stage_fields recording_defs distinct_update Let_def)
qed (simp add: new_metrics_def)

lemma run_counts:
  "mt_pipeline_run_count (collect rs) = length (runs rs) \<and>
   mt_pipeline_success_count (collect rs) = length (filter (\<lambda>(s, _). s) (runs rs)) \<and>
   mt_pipeline_failure_count (collect rs) = length (filter (\<lambda>(s, _). \<not> s) (runs rs)) \<and>
   mt_pipeline_latency_total_ms (collect rs) = sum_list (map (\<lambda>(_, l, _). l) (runs rs)) \<and>
   mt_repair_attempted_count (collect rs) = length (filter (\<lambda>(_, _, a, _). a) (runs rs)) \<and>
   mt_repair_success_count (collect rs) = length (filter (\<lambda>(_, _, a, r). a \<and> r) (runs rs))"
proof (induction rs rule: rev_induct)
  case Nil
  then show ?case by (simp add: new_metrics_def)
next
  case (snoc r rs)
  then show ?case by (cases r) (auto simp: recording_defs Let_def)
qed

lemma other_counts:
  "mt_validation_failure_count (collect rs) = length (filter (\<lambda>r. r = R_Validation_Failure) rs) \<and>
   mt_sql_execution_count (collect rs) = length (recorded rows_of rs) \<and>
   mt_total_rows_returned (collect rs) = sum_list (recorded rows_of rs) \<and>
   mt_llm_prompt_tokens (collect rs) = sum_list (map fst (recorded tokens_of rs)) \<and>
   mt_llm_completion_tokens (collect rs) = sum_list (map snd (recorded tokens_of rs)) \<and>
   mt_cache_hit_count (collect rs) = length (filter (\<lambda>h. h) (recorded access_of rs)) \<and>
   mt_cache_miss_count (collect rs) = length (filter Not (recorded access_of rs)) \<and>
   mt_startup_time_ms (collect rs) = (if recorded startup_of rs = [] then None else Some (last (recorded startup_of rs)))"
proof (induction rs rule: rev_induct)
  case Nil
  then show ?case by (simp add: new_metrics_def)
next
  case (snoc r rs)
  then show ?case by (cases r) (auto simp: recording_defs Let_def)
qed

lemma stage_dict_mem:
  "(s, n) \<in> set (mt_stage_call_counts (collect rs)) \<longleftrightarrow> latencies rs s \<noteq> [] \<and> n = length (latencies rs s)"
proof -
  have "(s, n) \<in> set (mt_stage_call_counts (collect rs)) \<longleftrightarrow> map_of (mt_stage_call_counts (collect rs)) s = Some n"
    by (simp add: map_of_eq_Some_iff stage_keys_distinct)
  also have "\<dots> \<longleftrightarrow> latencies rs s \<noteq> [] \<and> n = length (latencies rs s)"
    using stage_dicts [of rs s] by auto
  finally show ?thesis .
qed

lemma stage_metrics_keys:
  "sm_stage ` set (stage_metrics_of (collect rs)) = {s. latencies rs s \<noteq> []}"
proof -
  have "sm_stage ` set (stage_metrics_of (collect rs)) = fst ` set (mt_stage_call_counts (collect rs))"
    by (simp add: stage_metrics_of_def image_image case_prod_beta)
  also have "\<dots> = {s. latencies rs s \<noteq> []}"
    by (auto simp: stage_dict_mem image_iff) (metis fst_conv stage_dict_mem)
  finally show ?thesis .
qed

lemma stage_metrics_entries:
  assumes "x \<in> set (stage_metrics_of (collect rs))"
  defines "ls \<equiv> latencies rs (sm_stage x)"
  shows "sm_call_count x = length ls" "sm_total_latency_ms x = sum_list ls"
    "sm_average_latency_ms x = sum_list ls / real (length ls)"
    "sm_min_latency_ms x = Min (set ls)" "sm_max_latency_ms x = Max (set ls)"
  using assms(1) unfolding ls_def by (auto simp: stage_metrics_of_def stage_dict_mem stage_dicts)

lemma run_filters:
  "length (filter (\<lambda>(_, _, a, r). a \<and> r) xs) \<le> length (filter (\<lambda>(_, _, a, _). a) xs)"
  "length (filter (\<lambda>(s, _). s) xs) + length (filter (\<lambda>(s, _). \<not> s) xs) = length xs"
  for xs :: "(bool \<times> real \<times> bool \<times> bool) list"
  by (induction xs) auto

text \<open>
  C24. The metrics snapshot is the summary of what was recorded. After any sequence of recordings it
  counts the runs, those that succeeded, those that failed, those that attempted a repair and those
  whose repair succeeded; its average latency and repair rate are the quotients over these runs (zero
  when there are none), and the rate is in the unit interval. It counts the validation failures, the
  executions with their total of rows, the prompt and the completion tokens, the cache hits and misses,
  and has the last start-up time. There is exactly one entry per recorded stage, with the number, sum,
  average, minimum and maximum of its latencies.
\<close>

theorem snapshot_summarises:
  "let sn = snapshot now (collect rs); xs = runs rs; repairs = filter (\<lambda>(_, _, attempted, _). attempted) xs in
     ms_captured_at sn = now \<and>
     ms_pipeline_run_count sn = length xs \<and>
     ms_pipeline_success_count sn = length (filter (\<lambda>(success, _). success) xs) \<and>
     ms_pipeline_failure_count sn = length (filter (\<lambda>(success, _). \<not> success) xs) \<and>
     ms_average_pipeline_latency_ms sn =
       (if xs = [] then 0 else sum_list (map (\<lambda>(_, latency, _). latency) xs) / real (length xs)) \<and>
     ms_repair_attempted_count sn = length repairs \<and>
     ms_repair_success_count sn = length (filter (\<lambda>(_, _, _, succeeded). succeeded) repairs) \<and>
     ms_repair_success_rate sn = (if repairs = [] then 0
       else real (length (filter (\<lambda>(_, _, _, succeeded). succeeded) repairs)) / real (length repairs)) \<and>
     0 \<le> ms_repair_success_rate sn \<and> ms_repair_success_rate sn \<le> 1 \<and>
     ms_validation_failure_count sn = length (filter (\<lambda>r. r = R_Validation_Failure) rs) \<and>
     ms_sql_execution_count sn = length (recorded rows_of rs) \<and>
     ms_total_rows_returned sn = sum_list (recorded rows_of rs) \<and>
     ms_llm_prompt_tokens sn = sum_list (map fst (recorded tokens_of rs)) \<and>
     ms_llm_completion_tokens sn = sum_list (map snd (recorded tokens_of rs)) \<and>
     ms_cache_hit_count sn = length (filter (\<lambda>h. h) (recorded access_of rs)) \<and>
     ms_cache_miss_count sn = length (filter Not (recorded access_of rs)) \<and>
     ms_startup_time_ms sn = (if recorded startup_of rs = [] then None else Some (last (recorded startup_of rs))) \<and>
     distinct (map sm_stage (ms_stage_metrics sn)) \<and>
     sm_stage ` set (ms_stage_metrics sn) = {s. latencies rs s \<noteq> []} \<and>
     list_all (\<lambda>x. let ls = latencies rs (sm_stage x) in
       sm_call_count x = length ls \<and> sm_total_latency_ms x = sum_list ls \<and>
       sm_average_latency_ms x = sum_list ls / real (length ls) \<and>
       sm_min_latency_ms x = Min (set ls) \<and> sm_max_latency_ms x = Max (set ls)) (ms_stage_metrics sn)"
proof -
  define xs where "xs = runs rs"
  have stages: "map sm_stage (stage_metrics_of (collect rs)) = map fst (mt_stage_call_counts (collect rs))"
    by (simp add: stage_metrics_of_def comp_def case_prod_beta)
  have repaired: "filter (\<lambda>x. (case x of (_, _, a, _) \<Rightarrow> a) \<and> (case x of (_, _, _, r) \<Rightarrow> r)) xs = filter (\<lambda>(_, _, a, r). a \<and> r) xs"
    by (rule filter_cong) auto
  have counts: "mt_repair_success_count (collect rs) \<le> mt_repair_attempted_count (collect rs)"
    using run_counts [of rs] run_filters(1) [of xs] by (simp flip: xs_def)
  show ?thesis
    using run_counts [of rs] other_counts [of rs] stages stage_keys_distinct [of rs] stage_metrics_keys [of rs]
      stage_metrics_entries [of _ rs] counts
    by (simp add: snapshot_def Let_def list_all_iff repaired flip: xs_def)
qed

end
