(* ===== verification/Observability.thy ===== *)
theory Observability
  imports Prelude
begin

text \<open>
  Structured logging and checks (\<open>observability/logger.py\<close>, \<open>observability/health.py\<close>,
  \<open>observability/diagnostics.py\<close>). A log sink is the list of records written; the instrumentation of a
  stage is a wrapper of the operation it surrounds. The collaborators of the checks are operations
  that may fail with the text of their exception and otherwise report how many items they hold.
\<close>

section \<open>The logger\<close>

datatype log_level = L_Debug | L_Info | L_Warning | L_Error | L_Critical

datatype log_event_type = EV_Started | EV_Completed | EV_Failed

fun log_event_value :: "log_event_type \<Rightarrow> string" where
  "log_event_value EV_Started = ''started''"
| "log_event_value EV_Completed = ''completed''"
| "log_event_value EV_Failed = ''failed''"

record log_event =
  le_stage :: string
  le_event_type :: log_event_type
  le_timestamp :: datetime
  le_correlation_id :: "string option"
  le_request_id :: "string option"
  le_duration_ms :: "real option"
  le_error_type :: "string option"
  le_error_message :: "string option"

record structured_log_record =
  lr_level :: log_level
  lr_message :: string
  lr_timestamp :: datetime
  lr_stage :: "string option"
  lr_event_type :: "log_event_type option"
  lr_correlation_id :: "string option"
  lr_request_id :: "string option"
  lr_duration_ms :: "real option"
  lr_error_type :: "string option"
  lr_error_message :: "string option"

type_synonym log_sink = "structured_log_record list"

definition sink_write :: "structured_log_record \<Rightarrow> log_sink \<Rightarrow> log_sink" where
  "sink_write r records = records @ [r]"

text \<open>The model of a log event refuses a negative duration.\<close>

definition make_log_event ::
  "string \<Rightarrow> log_event_type \<Rightarrow> datetime \<Rightarrow> string option \<Rightarrow> string option \<Rightarrow> real option \<Rightarrow> (string \<times> string) option \<Rightarrow>
   log_event option" where
  "make_log_event stage ty now correlation_id request_id duration_ms failure =
     (if (case duration_ms of None \<Rightarrow> False | Some d \<Rightarrow> d < 0) then None
      else Some \<lparr> le_stage = stage, le_event_type = ty, le_timestamp = now, le_correlation_id = correlation_id,
        le_request_id = request_id, le_duration_ms = duration_ms, le_error_type = map_option fst failure,
        le_error_message = map_option snd failure \<rparr>)"

definition event_record :: "log_event \<Rightarrow> string option \<Rightarrow> structured_log_record" where
  "event_record e msg =
     \<lparr> lr_level = (if le_event_type e = EV_Failed then L_Error else L_Info),
       lr_message = (case msg of Some m \<Rightarrow> if m = [] then le_stage e @ '' '' @ log_event_value (le_event_type e) else m
                     | None \<Rightarrow> le_stage e @ '' '' @ log_event_value (le_event_type e)),
       lr_timestamp = le_timestamp e, lr_stage = Some (le_stage e), lr_event_type = Some (le_event_type e),
       lr_correlation_id = le_correlation_id e, lr_request_id = le_request_id e,
       lr_duration_ms = le_duration_ms e, lr_error_type = le_error_type e, lr_error_message = le_error_message e \<rparr>"

definition log_record ::
  "log_level \<Rightarrow> string \<Rightarrow> datetime \<Rightarrow> string option \<Rightarrow> string option \<Rightarrow> structured_log_record" where
  "log_record level msg now correlation_id request_id =
     \<lparr> lr_level = level, lr_message = msg, lr_timestamp = now, lr_stage = None, lr_event_type = None,
       lr_correlation_id = correlation_id, lr_request_id = request_id, lr_duration_ms = None,
       lr_error_type = None, lr_error_message = None \<rparr>"

section \<open>Instrumentation of a stage\<close>

text \<open>What leaves the \<open>with\<close> block: the body's exception, or pydantic's for a refused log event.\<close>

datatype 'e instrumented_error = IE_Body 'e | IE_ValidationError

record instrumentation =
  in_stage :: string
  in_correlation_id :: "string option"
  in_request_id :: "string option"

text \<open>\<open>clock\<close> reads the time from the world; \<open>descr\<close> gives the class and text of an exception.\<close>

definition instrumented ::
  "('w \<Rightarrow> datetime) \<Rightarrow> ('e \<Rightarrow> string \<times> string) \<Rightarrow> instrumentation \<Rightarrow> ('w, 'e, 'a) op \<Rightarrow>
   ('w \<times> log_sink, 'e instrumented_error, 'a) op" where
  "instrumented clock descr ins body ws =
     (let (w, s0) = ws; started_at = clock w;
          entry = make_log_event (in_stage ins) EV_Started started_at (in_correlation_id ins) (in_request_id ins) None None
      in case entry of
           None \<Rightarrow> (Inl IE_ValidationError, (w, s0))
         | Some ev0 \<Rightarrow>
           (let s1 = sink_write (event_record ev0 None) s0; (r, w') = body w; finished_at = clock w';
                duration_ms = total_seconds (finished_at - started_at) * 1000
            in case r of
                 Inl e \<Rightarrow>
                   (case make_log_event (in_stage ins) EV_Failed finished_at (in_correlation_id ins) (in_request_id ins)
                           (Some duration_ms) (Some (descr e)) of
                      None \<Rightarrow> (Inl IE_ValidationError, (w', s1))
                    | Some ev \<Rightarrow> (Inl (IE_Body e), (w', sink_write (event_record ev None) s1)))
               | Inr x \<Rightarrow>
                   (case make_log_event (in_stage ins) EV_Completed finished_at (in_correlation_id ins) (in_request_id ins)
                           (Some duration_ms) None of
                      None \<Rightarrow> (Inl IE_ValidationError, (w', s1))
                    | Some ev \<Rightarrow> (Inr x, (w', sink_write (event_record ev None) s1)))))"

section \<open>Health\<close>

datatype health_status = HEALTHY | UNHEALTHY | UNKNOWN

record health_check =
  hc_name :: string
  hc_status :: health_status
  hc_message :: "string option"

record health_report =
  hp_checks :: "health_check list"
  hp_overall_status :: health_status
  hp_generated_at :: datetime

record 'w collaborators =
  co_metadata_registry :: "('w, string, nat) op option"
  co_business_knowledge_registry :: "('w, string, nat) op option"
  co_query_library :: "('w, string, nat) op option"
  co_build_graph :: "('w, string, nat) op"
  co_prompt_compiler :: bool
  co_llm_provider_config :: "(string \<times> string \<times> string) option"
  co_sql_validation_engine :: bool
  co_sql_repair_engine :: bool
  co_connection :: "('w, string, unit) op option"
  co_package_version :: "string \<Rightarrow> string option"
  co_clock :: "'w \<Rightarrow> datetime"

definition overall_status :: "health_check list \<Rightarrow> health_status" where
  "overall_status checks =
     (let statuses = set (map hc_status checks) in
      if UNHEALTHY \<in> statuses then UNHEALTHY
      else if statuses = {HEALTHY} then HEALTHY else UNKNOWN)"

definition check_present :: "string \<Rightarrow> bool \<Rightarrow> health_check" where
  "check_present name present =
     (if \<not> present then \<lparr> hc_name = name, hc_status = UNKNOWN, hc_message = Some ''Not configured.'' \<rparr>
      else \<lparr> hc_name = name, hc_status = HEALTHY, hc_message = None \<rparr>)"

text \<open>Loading a registry and acquiring a connection are checked alike.\<close>

definition check_loaded :: "string \<Rightarrow> ('w, string, 'a) op option \<Rightarrow> 'w \<Rightarrow> health_check \<times> 'w" where
  "check_loaded name registry w =
     (case registry of
        None \<Rightarrow> (\<lparr> hc_name = name, hc_status = UNKNOWN, hc_message = Some ''Not configured.'' \<rparr>, w)
      | Some load \<Rightarrow>
          (case load w of
             (Inl exc, w') \<Rightarrow> (\<lparr> hc_name = name, hc_status = UNHEALTHY, hc_message = Some exc \<rparr>, w')
           | (Inr _, w') \<Rightarrow> (\<lparr> hc_name = name, hc_status = HEALTHY, hc_message = None \<rparr>, w')))"

definition check_database_reachable :: "('w, string, unit) op option \<Rightarrow> 'w \<Rightarrow> health_check \<times> 'w" where
  "check_database_reachable connection_provider = check_loaded ''database_reachable'' connection_provider"

definition check_health :: "'w collaborators \<Rightarrow> 'w \<Rightarrow> health_report \<times> 'w" where
  "check_health co w0 =
     (let (c1, w1) = check_database_reachable (co_connection co) w0;
          (c2, w2) = check_loaded ''metadata_loaded'' (co_metadata_registry co) w1;
          (c3, w3) = check_loaded ''business_knowledge_loaded'' (co_business_knowledge_registry co) w2;
          (c4, w4) = check_loaded ''query_examples_loaded'' (co_query_library co) w3;
          checks = [c1, c2, c3, c4, check_present ''prompt_compiler_ready'' (co_prompt_compiler co),
            check_present ''llm_configured'' (co_llm_provider_config co \<noteq> None),
            check_present ''sql_validator_ready'' (co_sql_validation_engine co),
            check_present ''repair_engine_ready'' (co_sql_repair_engine co)]
      in (\<lparr> hp_checks = checks, hp_overall_status = overall_status checks, hp_generated_at = co_clock co w4 \<rparr>, w4))"

section \<open>Diagnostics\<close>

datatype diagnostic_status = D_Pass | D_Warning | D_Error

fun status_severity :: "diagnostic_status \<Rightarrow> nat" where
  "status_severity D_Pass = 0"
| "status_severity D_Warning = 1"
| "status_severity D_Error = 2"

record diagnostic_finding =
  df_check_name :: string
  df_status :: diagnostic_status
  df_message :: string
  df_details :: "string option"

record diagnostics_report =
  dr_findings :: "diagnostic_finding list"
  dr_overall_status :: diagnostic_status
  dr_generated_at :: datetime

definition TRACKED_DEPENDENCIES :: "string list" where
  "TRACKED_DEPENDENCIES = [''pydantic'', ''sqlalchemy'', ''sqlglot'', ''httpx'', ''fastapi'']"

definition found :: "string \<Rightarrow> diagnostic_status \<Rightarrow> string \<Rightarrow> string option \<Rightarrow> diagnostic_finding" where
  "found name status msg details = \<lparr> df_check_name = name, df_status = status, df_message = msg, df_details = details \<rparr>"

definition check_metadata_registry :: "'w collaborators \<Rightarrow> 'w \<Rightarrow> diagnostic_finding \<times> 'w" where
  "check_metadata_registry co w =
     (case co_metadata_registry co of
        None \<Rightarrow> (found ''metadata_registry'' D_Warning ''No MetadataRegistry configured.'' None, w)
      | Some load \<Rightarrow>
          (case load w of
             (Inl exc, w') \<Rightarrow> (found ''metadata_registry'' D_Error ''MetadataRegistry.load() failed.'' (Some exc), w')
           | (Inr tables, w') \<Rightarrow>
               (if tables = 0
                then found ''metadata_registry'' D_Warning ''MetadataRegistry loaded but contains no tables.'' None
                else found ''metadata_registry'' D_Pass (str_nat tables @ '' table(s) loaded.'') None, w')))"

definition check_business_knowledge :: "'w collaborators \<Rightarrow> 'w \<Rightarrow> diagnostic_finding \<times> 'w" where
  "check_business_knowledge co w =
     (case co_business_knowledge_registry co of
        None \<Rightarrow> (found ''business_knowledge_registry'' D_Warning ''No BusinessKnowledgeRegistry configured.'' None, w)
      | Some load \<Rightarrow>
          (case load w of
             (Inl exc, w') \<Rightarrow> (found ''business_knowledge_registry'' D_Error ''BusinessKnowledgeRegistry.load() failed.'' (Some exc), w')
           | (Inr concepts, w') \<Rightarrow>
               (found ''business_knowledge_registry'' D_Pass (str_nat concepts @ '' business concept(s) loaded.'') None, w')))"

definition check_query_library :: "'w collaborators \<Rightarrow> 'w \<Rightarrow> diagnostic_finding \<times> 'w" where
  "check_query_library co w =
     (case co_query_library co of
        None \<Rightarrow> (found ''query_library'' D_Warning ''No QueryLibraryRegistry configured.'' None, w)
      | Some load \<Rightarrow>
          (case load w of
             (Inl exc, w') \<Rightarrow> (found ''query_library'' D_Error ''QueryLibraryRegistry.load() failed.'' (Some exc), w')
           | (Inr examples, w') \<Rightarrow> (found ''query_library'' D_Pass (str_nat examples @ '' example(s) loaded.'') None, w')))"

definition check_relationship_graph :: "'w collaborators \<Rightarrow> 'w \<Rightarrow> diagnostic_finding \<times> 'w" where
  "check_relationship_graph co w =
     (case co_metadata_registry co of
        None \<Rightarrow> (found ''relationship_graph'' D_Warning ''No MetadataRegistry configured; cannot build a RelationshipGraph.'' None, w)
      | Some _ \<Rightarrow>
          (case co_build_graph co w of
             (Inl exc, w') \<Rightarrow> (found ''relationship_graph'' D_Error ''MetadataRegistry.build_graph() failed.'' (Some exc), w')
           | (Inr nodes, w') \<Rightarrow>
               (found ''relationship_graph'' D_Pass (str_nat nodes @ '' node(s) in the relationship graph.'') None, w')))"

definition check_prompt_compiler :: "'w collaborators \<Rightarrow> diagnostic_finding" where
  "check_prompt_compiler co =
     (if \<not> co_prompt_compiler co then found ''prompt_compiler'' D_Warning ''No PromptCompiler configured.'' None
      else found ''prompt_compiler'' D_Pass ''PromptCompiler ready.'' None)"

text \<open>A provider configuration is its key, provider and model.\<close>

definition check_llm_configuration :: "'w collaborators \<Rightarrow> diagnostic_finding" where
  "check_llm_configuration co =
     (case co_llm_provider_config co of
        None \<Rightarrow> found ''llm_configuration'' D_Warning ''No LLMProviderConfig configured.'' None
      | Some (api_key, provider, model) \<Rightarrow>
          if api_key = [] then found ''llm_configuration'' D_Error ''LLMProviderConfig has an empty api_key.'' None
          else found ''llm_configuration'' D_Pass ''LLM provider configured.''
                 (Some (''provider='' @ provider @ '' model='' @ model)))"

definition check_database_connectivity :: "'w collaborators \<Rightarrow> 'w \<Rightarrow> diagnostic_finding \<times> 'w" where
  "check_database_connectivity co w =
     (case co_connection co of
        None \<Rightarrow> (found ''database_connectivity'' D_Warning ''No DatabaseConnectionProvider configured.'' None, w)
      | Some acquire \<Rightarrow>
          (case acquire w of
             (Inl exc, w') \<Rightarrow> (found ''database_connectivity'' D_Error ''Could not acquire a database connection.'' (Some exc), w')
           | (Inr _, w') \<Rightarrow> (found ''database_connectivity'' D_Pass ''Database connection acquired successfully.'' None, w')))"

definition check_dependency_versions :: "'w collaborators \<Rightarrow> diagnostic_finding" where
  "check_dependency_versions co =
     (let versions = List.map_filter (\<lambda>p. map_option (\<lambda>v. p @ ''=='' @ v) (co_package_version co p)) TRACKED_DEPENDENCIES;
          missing = filter (\<lambda>p. co_package_version co p = None) TRACKED_DEPENDENCIES;
          listing = join '', '' versions
      in if missing \<noteq> []
         then found ''dependency_versions'' D_Error (''Missing expected package(s): '' @ join '', '' missing @ ''.'')
                (if listing = [] then None else Some listing)
         else found ''dependency_versions'' D_Pass (str_nat (length versions) @ '' tracked dependency(ies) present.'') (Some listing))"

definition check_cache_configuration :: diagnostic_finding where
  "check_cache_configuration = found ''cache_configuration'' D_Warning ''No cache is actually active for any phase.''
     (Some (''Every phase from prompt_compiler onward defines a Cache Protocol and a '' @
            ''NoOp implementation; none of the real engines currently accept or call a '' @
            ''real cache instance. See docs/KNOWN_LIMITATIONS.md.''))"

text \<open>\<open>max(findings, key=...)\<close>: the first of the most severe findings.\<close>

fun most_severe :: "diagnostic_finding \<Rightarrow> diagnostic_finding list \<Rightarrow> diagnostic_finding" where
  "most_severe f [] = f"
| "most_severe f (g # gs) =
     most_severe (if status_severity (df_status g) > status_severity (df_status f) then g else f) gs"

definition run_diagnostics :: "'w collaborators \<Rightarrow> 'w \<Rightarrow> diagnostics_report \<times> 'w" where
  "run_diagnostics co w0 =
     (let (f1, w1) = check_metadata_registry co w0; (f2, w2) = check_business_knowledge co w1;
          (f3, w3) = check_query_library co w2; (f4, w4) = check_relationship_graph co w3;
          (f7, w5) = check_database_connectivity co w4;
          findings = [f1, f2, f3, f4, check_prompt_compiler co, check_llm_configuration co, f7,
            check_dependency_versions co, check_cache_configuration]
      in (\<lparr> dr_findings = findings, dr_overall_status = df_status (most_severe (hd findings) (tl findings)),
            dr_generated_at = co_clock co w5 \<rparr>, w5))"

section \<open>Properties\<close>

text \<open>
  Instrumentation is transparent while the clock does not go back: the body runs once, its outcome
  and state are unchanged and exactly two records are written.
\<close>

lemma instrumented_transparent:
  assumes "body w = (r, w')" "clock w \<le> clock w'"
  shows "\<exists>a b. instrumented clock descr ins body (w, s) = (map_sum IE_Body id r, (w', s @ [a, b])) \<and>
    lr_event_type a = Some EV_Started \<and>
    lr_event_type b = Some (case r of Inl _ \<Rightarrow> EV_Failed | Inr _ \<Rightarrow> EV_Completed) \<and>
    lr_duration_ms b = Some (total_seconds (clock w' - clock w) * 1000)"
proof -
  have "\<not> total_seconds (clock w' - clock w) * 1000 < 0"
    using assms(2) total_seconds_nonneg [of "clock w' - clock w"] by (simp add: not_less)
  then show ?thesis using assms(1)
    by (auto simp: instrumented_def make_log_event_def event_record_def sink_write_def Let_def split: sum.splits)
qed

text \<open>When the wall clock is set back during a stage, the instrumentation replaces its outcome.\<close>

lemma clock_set_back_breaks_stage:
  assumes "body w = (r, w')" "clock w' < clock w"
  shows "fst (instrumented clock descr ins body (w, s)) = Inl IE_ValidationError"
proof -
  have "total_seconds (clock w' - clock w) * 1000 < 0"
    using assms(2) by (simp add: total_seconds_def)
  then show ?thesis using assms(1)
    by (auto simp: instrumented_def make_log_event_def Let_def split: sum.splits)
qed

lemma most_severe_max:
  "most_severe f gs \<in> insert f (set gs) \<and>
   (\<forall>g\<in>insert f (set gs). status_severity (df_status g) \<le> status_severity (df_status (most_severe f gs)))"
proof (induction f gs rule: most_severe.induct)
  case (2 f g gs)
  then show ?case by (cases "status_severity (df_status g) > status_severity (df_status f)") auto
qed simp

text \<open>
  The verdicts: a health report is unhealthy exactly when a check failed, healthy exactly when all
  passed, and the diagnostics report is an error exactly when a finding is one. With the cache
  finding always a warning, the diagnostics never pass.
\<close>

lemma health_verdict:
  assumes "check_health co w = (rep, w')"
  shows "hp_overall_status rep = UNHEALTHY \<longleftrightarrow> UNHEALTHY \<in> hc_status ` set (hp_checks rep)"
    and "hp_overall_status rep = HEALTHY \<longleftrightarrow> (\<forall>c\<in>set (hp_checks rep). hc_status c = HEALTHY)"
    and "length (hp_checks rep) = 8"
proof -
  have shape: "hp_overall_status rep = overall_status (hp_checks rep) \<and> hp_checks rep \<noteq> [] \<and> length (hp_checks rep) = 8"
    using assms by (auto simp: check_health_def Let_def split: prod.splits)
  then show "length (hp_checks rep) = 8" by simp
  show "hp_overall_status rep = UNHEALTHY \<longleftrightarrow> UNHEALTHY \<in> hc_status ` set (hp_checks rep)"
    using shape by (auto simp: overall_status_def Let_def)
  show "hp_overall_status rep = HEALTHY \<longleftrightarrow> (\<forall>c\<in>set (hp_checks rep). hc_status c = HEALTHY)"
    using shape by (cases "hp_checks rep") (auto simp: overall_status_def Let_def image_iff)
qed

lemma diagnostics_verdict:
  assumes "run_diagnostics co w = (rep, w')"
  shows "dr_overall_status rep = D_Error \<longleftrightarrow> (\<exists>f\<in>set (dr_findings rep). df_status f = D_Error)"
    and "dr_overall_status rep \<noteq> D_Pass"
proof -
  obtain f fs where fs: "dr_findings rep = f # fs" "dr_overall_status rep = df_status (most_severe f fs)"
    and cache: "check_cache_configuration \<in> set (dr_findings rep)"
    using assms by (auto simp: run_diagnostics_def Let_def split: prod.splits)
  have top: "\<forall>g\<in>set (dr_findings rep). status_severity (df_status g) \<le> status_severity (dr_overall_status rep)"
    "\<exists>g\<in>set (dr_findings rep). df_status g = dr_overall_status rep"
    using most_severe_max [of f fs] by (auto simp: fs)
  have sev: "status_severity s \<le> 2" "status_severity s = 2 \<longleftrightarrow> s = D_Error" for s by (cases s; simp)+
  show "dr_overall_status rep = D_Error \<longleftrightarrow> (\<exists>f\<in>set (dr_findings rep). df_status f = D_Error)"
    using top sev by (metis le_antisym)
  show "dr_overall_status rep \<noteq> D_Pass"
    using top(1) cache by (auto simp: check_cache_configuration_def found_def)
qed

end
