(* ===== verification/Result_Formatter.thy ===== *)
theory Result_Formatter
  imports Execution_Properties
begin

text \<open>
  The result formatter (\<open>result_formatter/\<close>): rendering of values, the formatted table, the summary,
  the classification of the answer, the statistics and the engine. The texts Python gives to floats,
  decimals, dates and other objects are carried by the values; the parser of \<open>sqlglot\<close> is the
  parameter of the other theories.
\<close>

section \<open>Values (value_formatter.py)\<close>

text \<open>\<open>V_Float\<close>, \<open>V_Decimal\<close>, \<open>V_Datetime\<close> and \<open>V_Date\<close> carry \<open>str(value)\<close> or \<open>value.isoformat()\<close>; an object of
  any other type carries its text and the name of its type.\<close>

datatype py_value = V_None | V_Bool bool | V_Int int | V_Float string | V_Decimal string
  | V_Datetime string | V_Date string | V_Str string | V_Other string string

record formatted_value =
  fv_original_value :: py_value
  fv_formatted_value :: string
  fv_detected_type :: string

fun render_value :: "py_value \<Rightarrow> string \<times> string" where
  "render_value V_None = (''NULL'', ''none'')"
| "render_value (V_Bool b) = (if b then ''true'' else ''false'', ''bool'')"
| "render_value (V_Int i) = (str_int i, ''int'')"
| "render_value (V_Float s) = (s, ''float'')"
| "render_value (V_Decimal s) = (s, ''decimal'')"
| "render_value (V_Datetime s) = (s, ''datetime'')"
| "render_value (V_Date s) = (s, ''date'')"
| "render_value (V_Str s) = (s, ''str'')"
| "render_value (V_Other s t) = (s, t)"

definition format_value :: "py_value \<Rightarrow> formatted_value" where
  "format_value v = (let (formatted_value, detected_type) = render_value v in
     \<lparr> fv_original_value = v, fv_formatted_value = formatted_value, fv_detected_type = detected_type \<rparr>)"

section \<open>The table (formatter.py)\<close>

datatype formatter_error = FormattingError | F_Sqlglot sqlglot_error

record formatted_row =
  fr_values :: "formatted_value list"

record formatted_table =
  ft_columns :: "query_column list"
  ft_rows :: "formatted_row list"

fun format_rows :: "nat \<Rightarrow> py_value query_row list \<Rightarrow> formatter_error + formatted_row list" where
  "format_rows column_count [] = Inr []"
| "format_rows column_count (row # rows) =
     (if length (qrow_values row) \<noteq> column_count then Inl FormattingError
      else rbind (format_rows column_count rows) (\<lambda>rs. Inr (\<lparr> fr_values = map format_value (qrow_values row) \<rparr> # rs)))"

definition format_table :: "py_value query_result \<Rightarrow> formatter_error + formatted_table" where
  "format_table qr =
     rbind (format_rows (length (qr_columns qr)) (qr_rows qr)) (\<lambda>rows.
       Inr \<lparr> ft_columns = qr_columns qr, ft_rows = rows \<rparr>)"

section \<open>The summary (summarizer.py)\<close>

record answer_summary =
  as_title :: string
  as_description :: string
  as_row_count :: nat
  as_column_count :: nat
  as_contains_numeric :: bool
  as_contains_dates :: bool

definition NUMERIC_PYTHON_TYPES :: "string list" where
  "NUMERIC_PYTHON_TYPES = [''int'', ''float'', ''Decimal'']"

definition TEMPORAL_PYTHON_TYPES :: "string list" where
  "TEMPORAL_PYTHON_TYPES = [''date'', ''datetime'']"

definition summary_text :: "nat \<Rightarrow> nat \<Rightarrow> formatted_table \<Rightarrow> string \<times> string" where
  "summary_text row_count column_count t =
     (if row_count = 0 then (''No records found.'', ''The query returned no records.'')
      else if row_count = 1 \<and> column_count = 1
      then (''Returned one record.'',
            ''Returned a single value from column '' @ [CHR 0x27] @ qcol_name (ft_columns t ! 0) @ [CHR 0x27] @ ''.'')
      else let column_names = join '', '' (map qcol_name (ft_columns t)) in
        if row_count = 1
        then (''Returned one record.'',
              ''Returned one record with '' @ str_nat column_count @ '' columns: '' @ column_names @ ''.'')
        else (''Returned '' @ str_nat row_count @ '' rows.'',
              ''Returned '' @ str_nat row_count @ '' rows across '' @ str_nat column_count @ '' columns: '' @
                column_names @ ''.''))"

definition generate_summary :: "formatted_table \<Rightarrow> answer_summary" where
  "generate_summary t =
     (let row_count = length (ft_rows t); column_count = length (ft_columns t);
          (title, description) = summary_text row_count column_count t
      in \<lparr> as_title = title, as_description = description, as_row_count = row_count,
           as_column_count = column_count,
           as_contains_numeric = (\<exists>c\<in>set (ft_columns t). qcol_python_type c \<in> set NUMERIC_PYTHON_TYPES),
           as_contains_dates = (\<exists>c\<in>set (ft_columns t). qcol_python_type c \<in> set TEMPORAL_PYTHON_TYPES) \<rparr>)"

section \<open>The kind of answer (answer_generator.py)\<close>

datatype answer_type = SCALAR | TABLE | EMPTY_RESULT | AGGREGATION | DETAIL

definition is_aggregated :: "'n sqlglot \<Rightarrow> py_value sql_execution_result \<Rightarrow> formatter_error + bool" where
  "is_aggregated sg r =
     (case sg_parse_one sg (SQLGLOT_DIALECTS (xs_dialect (xr_statistics r))) (xr_executed_sql r) of
        Inl SG_OtherException \<Rightarrow> Inl (F_Sqlglot SG_OtherException)
      | Inl _ \<Rightarrow> Inr False
      | Inr statement \<Rightarrow> Inr (find_first sg [N_AggFunc] statement \<noteq> None \<or> find_first sg [N_Group] statement \<noteq> None))"

definition determine_answer ::
  "'n sqlglot \<Rightarrow> py_value sql_execution_result \<Rightarrow> formatted_table \<Rightarrow> formatter_error + answer_type" where
  "determine_answer sg r t =
     (let row_count = length (ft_rows t); column_count = length (ft_columns t) in
      if row_count = 0 then Inr EMPTY_RESULT
      else if row_count = 1 \<and> column_count = 1 then Inr SCALAR
      else rbind (is_aggregated sg r) (\<lambda>aggregated.
        if aggregated then Inr AGGREGATION else if row_count = 1 then Inr DETAIL else Inr TABLE))"

section \<open>The engine (engine.py, statistics.py)\<close>

record answer_statistics =
  ast_formatting_latency_ms :: real
  ast_rows_processed :: nat
  ast_columns_processed :: nat
  ast_values_formatted :: nat

definition build_answer_statistics :: "formatted_table \<Rightarrow> real \<Rightarrow> answer_statistics" where
  "build_answer_statistics t formatting_latency_ms =
     \<lparr> ast_formatting_latency_ms = formatting_latency_ms, ast_rows_processed = length (ft_rows t),
       ast_columns_processed = length (ft_columns t),
       ast_values_formatted = sum_list (map (\<lambda>r. length (fr_values r)) (ft_rows t)) \<rparr>"

record business_answer =
  ba_answer_type :: answer_type
  ba_summary :: answer_summary
  ba_formatted_table :: formatted_table
  ba_statistics :: answer_statistics
  ba_execution_result :: "py_value sql_execution_result"

definition format_answer ::
  "'n sqlglot \<Rightarrow> real \<Rightarrow> py_value sql_execution_result \<Rightarrow> formatter_error + business_answer" where
  "format_answer sg latency_ms r =
     (case (xr_status r, xr_query_result r) of
        (X_Success, Some qr) \<Rightarrow>
          rbind (format_table qr) (\<lambda>t.
          rbind (determine_answer sg r t) (\<lambda>answer_type.
            Inr \<lparr> ba_answer_type = answer_type, ba_summary = generate_summary t, ba_formatted_table = t,
                  ba_statistics = build_answer_statistics t latency_ms, ba_execution_result = r \<rparr>))
      | _ \<Rightarrow> Inl FormattingError)"

section \<open>Properties\<close>

lemma format_rows_Inr:
  "format_rows n rows = Inr rs \<longleftrightarrow>
     (\<forall>r\<in>set rows. length (qrow_values r) = n) \<and> rs = map (\<lambda>r. \<lparr> fr_values = map format_value (qrow_values r) \<rparr>) rows"
  by (induction rows arbitrary: rs) (auto simp: result_simps)

lemma format_rows_Inl:
  "format_rows n rows = Inl e \<longleftrightarrow> e = FormattingError \<and> (\<exists>r\<in>set rows. length (qrow_values r) \<noteq> n)"
  by (induction rows) (auto simp: result_simps)

lemma original_values: "map (fv_original_value \<circ> format_value) vs = vs"
  by (induction vs) (auto simp: format_value_def case_prod_beta)

lemma is_aggregated_Inl: "is_aggregated sg r = Inl e \<Longrightarrow> e = F_Sqlglot SG_OtherException"
  by (auto simp: is_aggregated_def split: sum.splits sqlglot_error.splits)

lemma determine_answer_Inl: "determine_answer sg r t = Inl e \<Longrightarrow> e = F_Sqlglot SG_OtherException"
  by (auto simp: determine_answer_def Let_def result_simps split: if_splits dest: is_aggregated_Inl)

lemma determine_answer_Inr:
  "determine_answer sg r t = Inr a \<Longrightarrow>
     (a = EMPTY_RESULT \<longleftrightarrow> ft_rows t = []) \<and> (a = SCALAR \<longleftrightarrow> length (ft_rows t) = 1 \<and> length (ft_columns t) = 1) \<and>
     (a = DETAIL \<longrightarrow> length (ft_rows t) = 1) \<and> (a = TABLE \<longrightarrow> 1 < length (ft_rows t)) \<and>
     (a = AGGREGATION \<longrightarrow> is_aggregated sg r = Inr True)"
  by (cases "ft_rows t"; cases "tl (ft_rows t)") (auto simp: determine_answer_def Let_def result_simps split: if_splits)

definition formattable :: "py_value sql_execution_result \<Rightarrow> bool" where
  "formattable r \<longleftrightarrow> xr_status r = X_Success \<and>
     (\<exists>qr. xr_query_result r = Some qr \<and> (\<forall>row\<in>set (qr_rows qr). length (qrow_values row) = length (qr_columns qr)))"

lemma format_answer_unformattable: "\<not> formattable r \<Longrightarrow> format_answer sg l r = Inl FormattingError"
  by (auto simp: format_answer_def formattable_def format_table_def result_simps format_rows_Inl
      split: execution_status.splits option.splits)

lemma format_answer_formattable:
  assumes "xr_status r = X_Success" "xr_query_result r = Some qr"
    and "\<forall>row\<in>set (qr_rows qr). length (qrow_values row) = length (qr_columns qr)"
  shows "format_answer sg l r =
    (let t = \<lparr> ft_columns = qr_columns qr,
               ft_rows = map (\<lambda>r. \<lparr> fr_values = map format_value (qrow_values r) \<rparr>) (qr_rows qr) \<rparr>
     in rbind (determine_answer sg r t) (\<lambda>a.
          Inr \<lparr> ba_answer_type = a, ba_summary = generate_summary t, ba_formatted_table = t,
                ba_statistics = build_answer_statistics t l, ba_execution_result = r \<rparr>))"
proof -
  have "format_rows (length (qr_columns qr)) (qr_rows qr) =
      Inr (map (\<lambda>r. \<lparr> fr_values = map format_value (qrow_values r) \<rparr>) (qr_rows qr))"
    using assms(3) by (simp add: format_rows_Inr)
  with assms(1,2) show ?thesis by (simp add: format_answer_def format_table_def Let_def)
qed

text \<open>
  C23. Outcomes of formatting: a result is refused with \<open>FormattingError\<close> exactly when it is not a
  success or has a row of the wrong width; otherwise the only failure is an unexpected exception of
  the SQL parser, and an answer has the query's columns and, cell by cell, its values, as many
  formatted values as rows times columns, and the kind its shape calls for.
\<close>

theorem formatting_outcomes:
  "case format_answer sg l r of
     Inl e \<Rightarrow> if formattable r then e = F_Sqlglot SG_OtherException else e = FormattingError
   | Inr a \<Rightarrow> formattable r \<and> ba_execution_result a = r \<and>
       (\<exists>qr. xr_query_result r = Some qr \<and> ft_columns (ba_formatted_table a) = qr_columns qr \<and>
         map (\<lambda>row. map fv_original_value (fr_values row)) (ft_rows (ba_formatted_table a)) = map qrow_values (qr_rows qr) \<and>
         ast_values_formatted (ba_statistics a) = length (qr_rows qr) * length (qr_columns qr) \<and>
         as_row_count (ba_summary a) = length (qr_rows qr) \<and>
         (ba_answer_type a = EMPTY_RESULT) = (qr_rows qr = []) \<and>
         (ba_answer_type a = SCALAR) = (length (qr_rows qr) = 1 \<and> length (qr_columns qr) = 1))"
proof (cases "formattable r")
  case False
  then show ?thesis by (simp add: format_answer_unformattable)
next
  case True
  then obtain qr where qr: "xr_status r = X_Success" "xr_query_result r = Some qr"
    and rect: "\<forall>row\<in>set (qr_rows qr). length (qrow_values row) = length (qr_columns qr)"
    by (auto simp: formattable_def)
  let ?t = "\<lparr> ft_columns = qr_columns qr,
              ft_rows = map (\<lambda>r. \<lparr> fr_values = map format_value (qrow_values r) \<rparr>) (qr_rows qr) \<rparr>"
  have cells: "sum_list (map (\<lambda>r. length (qrow_values r)) rows) = length rows * n"
    if "\<forall>row\<in>set rows. length (qrow_values row) = n" for rows :: "py_value query_row list" and n
    using that by (induction rows) auto
  show ?thesis
  proof (cases "determine_answer sg r ?t")
    case (Inl e)
    then show ?thesis using True by (simp add: format_answer_formattable [OF qr rect] determine_answer_Inl)
  next
    case (Inr a)
    then show ?thesis using True qr determine_answer_Inr [OF Inr]
      by (simp add: format_answer_formattable [OF qr rect] build_answer_statistics_def generate_summary_def
          Let_def case_prod_beta comp_def cells [OF rect] original_values [unfolded comp_def])
  qed
qed

text \<open>
  The text and the detected type together identify the value, whatever values share a text
  (\<open>NULL\<close> and the string \<open>''NULL''\<close>, a number and its digits).
\<close>

lemma str_int_inject: "str_int i = str_int j \<Longrightarrow> i = j"
  by (metis option.inject py_int_str_int)

lemma render_value_faithful:
  assumes "render_value u = render_value v"
    and "\<And>s t. u \<noteq> V_Other s t" "\<And>s t. v \<noteq> V_Other s t"
  shows "u = v"
  using assms by (cases u; cases v) (auto dest: str_int_inject split: if_splits)

text \<open>A successful execution of a statement with rows as wide as its columns is always formattable.\<close>

lemma execution_formattable:
  assumes "conclude db g sql l (Inr raw) = Inr x" "xr_status x = X_Success"
    and "\<forall>row\<in>set (rq_rows raw). length row = length (rq_column_names raw)"
  shows "formattable x"
  using assms by (auto simp: conclude_def formattable_def format_result_def success_result_def error_result_def Let_def
      split: sum.splits if_splits)

end
