(* ===== verification/Api_Routes.thy ===== *)
theory Api_Routes
  imports Api_Access Metrics Observability Container Result_Formatter
begin

text \<open>
  The HTTP service: exception handlers (\<open>api/exception_handlers.py\<close>), middleware
  (\<open>api/middleware.py\<close>), the order in which \<open>api/app.py\<close> puts them together, and the handlers of
  \<open>api/routers/\<close> and \<open>streaming/websocket.py\<close>. FastAPI and Starlette are third-party code; what is used of
  them is written out where they call the code: a body that is not JSON is refused before anything
  else runs, the dependencies run in their order and once per request, then the body is validated,
  then the handler runs; an exception with no handler becomes the generic 500 response outside the
  middleware. Time does not pass within a request, so the log events of the request-context middleware
  (\<open>instrumented\<close> in \<open>Observability\<close>) leave the outcome as it is and are not repeated here. What pydantic makes of a body is the parameter \<open>body_reading\<close>, the texts of exceptions
  are the parameter \<open>exception_texts\<close>.
\<close>

section \<open>Responses\<close>

datatype 'a response_body = Payload 'a | Error_Response string string | Detail string
  | Validation_Detail "request_error list"

record 'a http_response =
  rsp_status :: int
  rsp_headers :: "(string, string) dict"
  rsp_body :: "'a response_body"

type_synonym ('w, 'v, 'a) route_op = "('w, 'v pipeline_exception, 'a) api_op"

record exception_texts =
  xt_auth :: "auth_error \<Rightarrow> string"
  xt_stage :: "stage_exception \<Rightarrow> string"
  xt_stage_class :: "stage_exception \<Rightarrow> string"
  xt_configuration :: "string list \<Rightarrow> string"

section \<open>Exception handlers\<close>

fun auth_status :: "auth_error \<Rightarrow> int option" where
  "auth_status DuplicateUserError = Some 409"
| "auth_status InvalidCredentialsError = Some 401"
| "auth_status InvalidTokenError = Some 401"
| "auth_status TokenExpiredError = Some 401"
| "auth_status RefreshTokenRevokedError = Some 401"
| "auth_status InvalidApiKeyError = Some 401"
| "auth_status ApiKeyExpiredError = Some 401"
| "auth_status ApiKeyRevokedError = Some 401"
| "auth_status ApiKeyNotFoundError = Some 404"
| "auth_status InactiveUserError = Some 403"
| "auth_status ForbiddenRoleError = Some 403"
| "auth_status InsufficientPermissionsError = Some 403"
| "auth_status _ = None"

text \<open>The rows of the table for the exceptions of the engines; \<open>SE_Other\<close> carries the name of its class.\<close>

fun stage_status :: "stage_exception \<Rightarrow> int option" where
  "stage_status (SE_Other name) =
     map_of [(''EmptyQuestionError'', 400), (''FormattingError'', 422), (''PipelineConfigurationError'', 500),
       (''ObservabilityConfigurationError'', 500)] name"
| "stage_status (SE_Execution (ExecutionRejectedError _)) = Some 400"
| "stage_status (SE_Execution ExecutionTimeoutError) = Some 504"
| "stage_status (SE_Execution DatabaseConnectionError) = Some 503"
| "stage_status (SE_Execution SQLExecutionConfigurationError) = Some 500"
| "stage_status (SE_Repair SQLRepairConfigurationError) = Some 500"
| "stage_status _ = None"

definition status_for :: "stage_exception \<Rightarrow> int" where
  "status_for e = (case stage_status e of Some s \<Rightarrow> s | None \<Rightarrow> 500)"

definition log_and_respond :: "http_request \<Rightarrow> int \<Rightarrow> string \<Rightarrow> string \<Rightarrow> 'w api_world \<Rightarrow> 'a http_response \<times> 'w api_world" where
  "log_and_respond rq status msg error_type w =
     (\<lparr> rsp_status = status, rsp_headers = [], rsp_body = Error_Response msg error_type \<rparr>,
      w\<lparr> aw_log := aw_log w @ [Error_Line msg (get_header rq ''x-request-id'')] \<rparr>)"

definition path_endswith :: "string \<Rightarrow> string \<Rightarrow> bool" where
  "path_endswith s t \<longleftrightarrow> drop (length s - length t) s = t"

definition AUTH_FAILURE_EVENT_BY_PATH_SUFFIX :: "(string \<times> audit_event_type) list" where
  "AUTH_FAILURE_EVENT_BY_PATH_SUFFIX = [(''/auth/login'', LOGIN_FAILURE), (''/auth/register'', REGISTRATION_FAILURE),
     (''/auth/refresh'', REFRESH_FAILURE)]"

text \<open>Nothing in it can raise; the exception is given by whether it denies authorisation and by its class.\<close>

definition audit_failure_if_relevant ::
  "api_env \<Rightarrow> http_request \<Rightarrow> bool \<Rightarrow> string \<Rightarrow> 'w api_world \<Rightarrow> 'w api_world" where
  "audit_failure_if_relevant env rq denied class w =
     (if denied
      then audit_record env (audit_fields env rq (aw_state w) AUTHORIZATION_DENIED False
             (case st_user (aw_state w) of Some u \<Rightarrow> acting u | None \<Rightarrow> nobody) (Some class)) w
      else case next_where (\<lambda>(suffix, _). path_endswith (hr_path rq) suffix) AUTH_FAILURE_EVENT_BY_PATH_SUFFIX of
             Some (_, event_type) \<Rightarrow>
               audit_record env (audit_fields env rq (aw_state w) event_type False
                 (None, get_attempted_username rq) (Some class)) w
           | None \<Rightarrow> w)"

definition handle_mapped_exception ::
  "api_env \<Rightarrow> http_request \<Rightarrow> bool \<Rightarrow> int \<Rightarrow> string \<Rightarrow> string \<Rightarrow> 'w api_world \<Rightarrow> 'a http_response \<times> 'w api_world" where
  "handle_mapped_exception env rq denied status msg class w =
     log_and_respond rq status msg class (audit_failure_if_relevant env rq denied class w)"

definition handle_pipeline_execution_error ::
  "exception_texts \<Rightarrow> http_request \<Rightarrow> stage_exception \<Rightarrow> 'w api_world \<Rightarrow> 'a http_response \<times> 'w api_world" where
  "handle_pipeline_execution_error xt rq cause = log_and_respond rq (status_for cause) (xt_stage xt cause) (xt_stage_class xt cause)"

definition set_header :: "string \<Rightarrow> string \<Rightarrow> 'a http_response \<Rightarrow> 'a http_response" where
  "set_header name v r = r\<lparr> rsp_headers := AList.update name v (rsp_headers r) \<rparr>"

text \<open>\<open>ceil\<close> of an infinite delay raises \<open>OverflowError\<close>, which nothing handles.\<close>

definition handle_rate_limit_exceeded ::
  "http_request \<Rightarrow> delay \<Rightarrow> 'w api_world \<Rightarrow> 'a http_response option \<times> 'w api_world" where
  "handle_rate_limit_exceeded rq d w =
     (let (response, w') = log_and_respond rq 429 ''Too many requests. Please slow down and try again shortly.''
            ''RateLimitExceededError'' w
      in case d of
           Seconds s \<Rightarrow> (Some (set_header ''retry-after'' (str_int (max 1 \<lceil>s\<rceil>)) response), w')
         | Infinite \<Rightarrow> (None, w'))"

definition SENSITIVE_FIELD_NAMES :: "string list" where
  "SENSITIVE_FIELD_NAMES = [''password'', ''refresh_token'', ''access_token'', ''raw_key'', ''api_key'', ''authorization'']"

definition strip_sensitive :: "request_error \<Rightarrow> request_error" where
  "strip_sensitive e =
     (if re_loc e \<noteq> [] \<and> lower (last (re_loc e)) \<in> set SENSITIVE_FIELD_NAMES then e\<lparr> re_input := None \<rparr> else e)"

definition handle_validation_error :: "request_error list \<Rightarrow> 'a http_response" where
  "handle_validation_error errors =
     \<lparr> rsp_status = 422, rsp_headers = [], rsp_body = Validation_Detail (map strip_sensitive errors) \<rparr>"

text \<open>\<open>None\<close>: no registered handler, or a handler that raises.\<close>

definition handle_exception ::
  "api_env \<Rightarrow> exception_texts \<Rightarrow> http_request \<Rightarrow> 'v pipeline_exception api_error \<Rightarrow> 'w api_world \<Rightarrow>
   'a http_response option \<times> 'w api_world" where
  "handle_exception env xt rq e w =
     (case e of
        Auth_Error a \<Rightarrow>
          (case auth_status a of
             Some s \<Rightarrow> apfst Some (handle_mapped_exception env rq (is_authorization_error a) s (xt_auth xt a) (auth_error_name a) w)
           | None \<Rightarrow> (None, w))
      | HTTP_Exception s d hs \<Rightarrow> (Some \<lparr> rsp_status = s, rsp_headers = hs, rsp_body = Detail d \<rparr>, w)
      | Rate_Limited d \<Rightarrow> handle_rate_limit_exceeded rq d w
      | Request_Invalid errors \<Rightarrow> (Some (handle_validation_error errors), w)
      | App_Error (PipelineExecutionError f) \<Rightarrow>
          apfst Some (handle_pipeline_execution_error xt rq (pf_cause f) w)
      | App_Error (PipelineConfigurationError ms) \<Rightarrow>
          apfst Some (handle_mapped_exception env rq False 500 (xt_configuration xt ms) ''PipelineConfigurationError'' w)
      | App_Error (PE_Other x) \<Rightarrow>
          (case stage_status x of
             Some s \<Rightarrow> apfst Some (handle_mapped_exception env rq False s (xt_stage xt x) (xt_stage_class xt x) w)
           | None \<Rightarrow> (None, w)))"

section \<open>Middleware\<close>

definition BASELINE_HEADERS :: "(string, string) dict" where
  "BASELINE_HEADERS = [(''x-content-type-options'', ''nosniff''),
     (''referrer-policy'', ''strict-origin-when-cross-origin''),
     (''permissions-policy'', ''geolocation=(), camera=(), microphone=()'')]"

definition security_headers :: "api_env \<Rightarrow> http_request \<Rightarrow> 'a http_response \<Rightarrow> 'a http_response" where
  "security_headers env rq r =
     (let r1 = fold (\<lambda>(n, v). set_header n v) BASELINE_HEADERS r;
          r2 = (if is_production (ev_settings env)
                then set_header ''strict-transport-security'' ''max-age=31536000; includeSubDomains'' r1 else r1)
      in if startswith (hr_path rq) (api_v1_prefix (ev_settings env) @ ''/auth'')
         then set_header ''cache-control'' ''no-store'' r2 else r2)"

text \<open>The identifiers of a request; a fresh one is drawn whether or not it is used.\<close>

definition request_ids :: "api_env \<Rightarrow> http_request \<Rightarrow> 'w api_world \<Rightarrow> (string \<times> string) \<times> 'w api_world" where
  "request_ids env rq w =
     (let a = aw_auth w; fresh = ev_uuid4 env (w_seed a);
          request_id = (case get_header rq ''x-request-id'' of Some i \<Rightarrow> i | None \<Rightarrow> fresh);
          correlation_id = (case get_header rq ''x-correlation-id'' of Some c \<Rightarrow> c | None \<Rightarrow> request_id)
      in ((request_id, correlation_id),
          w\<lparr> aw_auth := a\<lparr> w_seed := Suc (w_seed a) \<rparr>,
             aw_state := \<lparr> st_request_id = Some request_id, st_correlation_id = Some correlation_id, st_user = None \<rparr> \<rparr>))"

definition internal_server_error :: "'a http_response" where
  "internal_server_error = \<lparr> rsp_status = 500, rsp_headers = [], rsp_body = Detail ''Internal server error'' \<rparr>"

text \<open>What FastAPI and pydantic make of the body and the path parameters of a request.\<close>

datatype 'q body_reading = Malformed "request_error list" | Rejected "request_error list" | Accepted 'q

text \<open>A route under the versioned prefix: the general limit, the route's own dependencies, the body, the handler.\<close>

definition run_route ::
  "api_env \<Rightarrow> http_request \<Rightarrow> 'q body_reading \<Rightarrow> ('w, 'v, 'd) route_op \<Rightarrow> ('d \<Rightarrow> 'q \<Rightarrow> ('w, 'v, 'a) route_op) \<Rightarrow>
   ('w, 'v, 'a) route_op" where
  "run_route env rq body dependencies handler =
     (case body of
        Malformed errors \<Rightarrow> sraise (Request_Invalid errors)
      | _ \<Rightarrow> sbind (check_general_rate_limit env rq) (\<lambda>_. sbind dependencies (\<lambda>d.
          case body of Accepted q \<Rightarrow> handler d q | Rejected errors \<Rightarrow> sraise (Request_Invalid errors)
                     | Malformed errors \<Rightarrow> sraise (Request_Invalid errors))))"

text \<open>
  One request: the identifiers, the route, the exception handlers, the request-context headers and the
  security headers. An exception that is not handled passes through the middleware.
\<close>

definition serve ::
  "api_env \<Rightarrow> exception_texts \<Rightarrow> http_request \<Rightarrow> int \<Rightarrow> ('w, 'v, 'a) route_op \<Rightarrow> 'w api_world \<Rightarrow>
   'a http_response \<times> 'w api_world" where
  "serve env xt rq status route w =
     (let ((request_id, correlation_id), w1) = request_ids env rq w in
      case (case route w1 of
              (Inr x, w2) \<Rightarrow> (Some \<lparr> rsp_status = status, rsp_headers = [], rsp_body = Payload x \<rparr>, w2)
            | (Inl e, w2) \<Rightarrow> handle_exception env xt rq e w2) of
        (None, w3) \<Rightarrow> (internal_server_error, w3)
      | (Some response, w3) \<Rightarrow>
          (security_headers env rq
             (set_header ''x-correlation-id'' correlation_id (set_header ''x-request-id'' request_id response)), w3))"

section \<open>Authentication routes (routers/auth.py)\<close>

definition register_handler ::
  "api_env \<Rightarrow> http_request \<Rightarrow> string \<times> string \<times> string \<Rightarrow> ('w, 'v, user_read) route_op" where
  "register_handler env rq q =
     (case q of (username, email, password) \<Rightarrow>
        sbind (on_auth (register_user (ev_crypto env) username email password)) (\<lambda>user.
        sbind (audit_event env rq REGISTRATION True (acting user) None) (\<lambda>_. sreturn user)))"

definition login_handler :: "api_env \<Rightarrow> http_request \<Rightarrow> string \<times> string \<Rightarrow> ('w, 'v, token_pair) route_op" where
  "login_handler env rq q =
     (case q of (username, password) \<Rightarrow>
        sbind (on_auth (authenticate (ev_crypto env) username password)) (\<lambda>user.
        sbind (on_auth (create_token_pair (ev_crypto env) (ev_config env) (ur_id user))) (\<lambda>tokens.
        sbind (audit_event env rq LOGIN_SUCCESS True (acting user) None) (\<lambda>_. sreturn tokens))))"

definition refresh_handler :: "api_env \<Rightarrow> http_request \<Rightarrow> string \<Rightarrow> ('w, 'v, token_pair) route_op" where
  "refresh_handler env rq token =
     sbind (on_auth (refresh_tokens (ev_crypto env) (ev_config env) token)) (\<lambda>tokens.
     sbind (audit_event env rq REFRESH_SUCCESS True nobody None) (\<lambda>_. sreturn tokens))"

definition logout_handler :: "api_env \<Rightarrow> http_request \<Rightarrow> string \<Rightarrow> ('w, 'v, unit) route_op" where
  "logout_handler env rq token =
     sbind (on_auth (logout (ev_crypto env) (ev_config env) token)) (\<lambda>_.
     audit_event env rq LOGOUT True nobody None)"

definition create_api_key_handler ::
  "api_env \<Rightarrow> http_request \<Rightarrow> user_read \<Rightarrow> string \<times> datetime option \<Rightarrow> ('w, 'v, api_key_created) route_op" where
  "create_api_key_handler env rq user q =
     (case q of (name, expires_at) \<Rightarrow>
        sbind (on_auth (create_api_key (ev_crypto env) (ur_id user) name expires_at)) (\<lambda>created.
        sbind (audit_event env rq API_KEY_CREATED True (acting user) None) (\<lambda>_. sreturn created)))"

definition revoke_api_key_handler ::
  "api_env \<Rightarrow> http_request \<Rightarrow> user_read \<Rightarrow> int \<Rightarrow> ('w, 'v, unit) route_op" where
  "revoke_api_key_handler env rq user key_id =
     sbind (on_auth (revoke_api_key user key_id)) (\<lambda>_.
     audit_event env rq API_KEY_REVOKED True (acting user) None)"

definition register_route ::
  "api_env \<Rightarrow> http_request \<Rightarrow> (string \<times> string \<times> string) body_reading \<Rightarrow> ('w, 'v, user_read) route_op" where
  "register_route env rq body =
     run_route env rq body (check_register_rate_limit env rq) (\<lambda>_. register_handler env rq)"

definition login_route ::
  "api_env \<Rightarrow> http_request \<Rightarrow> (string \<times> string) body_reading \<Rightarrow> ('w, 'v, token_pair) route_op" where
  "login_route env rq body = run_route env rq body (check_login_rate_limit env rq) (\<lambda>_. login_handler env rq)"

definition refresh_route :: "api_env \<Rightarrow> http_request \<Rightarrow> string body_reading \<Rightarrow> ('w, 'v, token_pair) route_op" where
  "refresh_route env rq body = run_route env rq body (check_refresh_rate_limit env rq) (\<lambda>_. refresh_handler env rq)"

definition logout_route :: "api_env \<Rightarrow> http_request \<Rightarrow> string body_reading \<Rightarrow> ('w, 'v, unit) route_op" where
  "logout_route env rq body = run_route env rq body (sreturn ()) (\<lambda>_. logout_handler env rq)"

definition me_route :: "api_env \<Rightarrow> http_request \<Rightarrow> ('w, 'v, user_read) route_op" where
  "me_route env rq = run_route env rq (Accepted ()) (current_user env rq) (\<lambda>user _. sreturn user)"

definition create_api_key_route ::
  "api_env \<Rightarrow> http_request \<Rightarrow> (string \<times> datetime option) body_reading \<Rightarrow> ('w, 'v, api_key_created) route_op" where
  "create_api_key_route env rq body =
     run_route env rq body (get_current_user_jwt_only env rq) (create_api_key_handler env rq)"

definition list_api_keys_route :: "api_env \<Rightarrow> http_request \<Rightarrow> ('w, 'v, api_key_read list) route_op" where
  "list_api_keys_route env rq =
     run_route env rq (Accepted ()) (get_current_user_jwt_only env rq) (\<lambda>user _. on_auth (list_api_keys (ur_id user)))"

definition revoke_api_key_route :: "api_env \<Rightarrow> http_request \<Rightarrow> int body_reading \<Rightarrow> ('w, 'v, unit) route_op" where
  "revoke_api_key_route env rq body =
     run_route env rq body (get_current_user_jwt_only env rq) (revoke_api_key_handler env rq)"

section \<open>Query routes (routers/query.py, sql.py, validation.py, repair.py, execution.py, formatting.py)\<close>

text \<open>The state behind these routes: that of the pipeline and the metrics collector.\<close>

record 'p app =
  ap_pipeline :: 'p
  ap_metrics :: metrics

definition on_pipeline :: "('e \<Rightarrow> 'v pipeline_exception) \<Rightarrow> ('p, 'e, 'a) op \<Rightarrow> ('p app, 'v, 'a) route_op" where
  "on_pipeline f m = on_app f (\<lambda>a. case m (ap_pipeline a) of (r, p) \<Rightarrow> (r, a\<lparr> ap_pipeline := p \<rparr>))"

definition stage_name :: "pipeline_stage \<Rightarrow> string" where
  "stage_name s = (case s of NLU \<Rightarrow> ''nlu'' | SCHEMA_LINKING \<Rightarrow> ''schema_linking'' | BUSINESS_KNOWLEDGE \<Rightarrow> ''business_knowledge''
     | RETRIEVAL \<Rightarrow> ''retrieval'' | PROMPT_COMPILATION \<Rightarrow> ''prompt_compilation'' | LLM \<Rightarrow> ''llm''
     | SQL_GENERATION \<Rightarrow> ''sql_generation'' | SQL_VALIDATION \<Rightarrow> ''sql_validation'' | SQL_REPAIR \<Rightarrow> ''sql_repair''
     | SQL_EXECUTION \<Rightarrow> ''sql_execution'' | RESULT_FORMATTING \<Rightarrow> ''result_formatting'')"

definition record_response :: "('v, 'b) query_mind_response \<Rightarrow> metrics \<Rightarrow> metrics" where
  "record_response r m =
     (let st = qm_statistics r;
          m1 = record_pipeline_run (qm_status r = P_Success) (pls_total_latency_ms st)
                 (pls_repair_attempted st) (pls_repair_performed st) m;
          m2 = fold (\<lambda>t. record_stage_latency (stage_name (tm_stage t)) (tm_latency_ms t)) (pls_stage_timings st) m1;
          m3 = (case Option.bind (qm_execution_result r) xr_query_result of
                  Some qr \<Rightarrow> record_sql_execution (int (qr_row_count qr)) m2 | None \<Rightarrow> m2);
          m4 = (case qm_generated_sql r of
                  Some g \<Rightarrow> let u = gm_token_usage (g_llm_metrics g)
                    in record_llm_token_usage (tk_prompt_tokens u) (tk_completion_tokens u) m3
                | None \<Rightarrow> m3)
      in case qm_validation_result r of
           Some v \<Rightarrow> if \<not> vr_is_valid v then record_validation_failure m4 else m4
         | None \<Rightarrow> m4)"

text \<open>The dependencies of every query route: an analyst with room left in the bucket of queries.\<close>

definition query_dependencies :: "api_env \<Rightarrow> http_request \<Rightarrow> ('w, 'v, user_read) route_op" where
  "query_dependencies env rq =
     sbind (current_user env rq) (\<lambda>user.
     sbind (get_analyst_required_user user) (\<lambda>_.
     sbind (check_query_rate_limit env user) (\<lambda>_. sreturn user)))"

definition ask_question_route ::
  "('p, 'v, 'b) pipeline_runner \<Rightarrow> api_env \<Rightarrow> http_request \<Rightarrow> string body_reading \<Rightarrow>
   ('p app, 'v, ('v, 'b) query_mind_response) route_op" where
  "ask_question_route engine env rq body =
     run_route env rq body (query_dependencies env rq) (\<lambda>_ question. on_app id (\<lambda>a.
       let (response, p) = ask engine None question (ap_pipeline a)
       in (Inr response, a\<lparr> ap_pipeline := p, ap_metrics := record_response response (ap_metrics a) \<rparr>)))"

definition generate_sql_route ::
  "('p, 'v, 'b) pipeline_runner \<Rightarrow> api_env \<Rightarrow> http_request \<Rightarrow> string body_reading \<Rightarrow>
   ('p app, 'v, generated_sql_result) route_op" where
  "generate_sql_route engine env rq body =
     run_route env rq body (query_dependencies env rq) (\<lambda>_ question. on_pipeline id (ask_for_sql engine question))"

definition wrap_as_generated_sql :: "string \<Rightarrow> sql_dialect \<Rightarrow> llm_provider \<Rightarrow> generated_sql" where
  "wrap_as_generated_sql sql dialect provider =
     \<lparr> g_sql = sql, g_statement_type = detect sql, g_raw_llm_content = sql, g_dialect = dialect,
       g_llm_metrics = \<lparr> gm_provider = provider, gm_model = ''external'', gm_latency_ms = 0,
         gm_token_usage = \<lparr> tk_prompt_tokens = 0, tk_completion_tokens = 0 \<rparr>, gm_retry_count = 0,
         gm_finish_reason = COMPLETE \<rparr>,
       g_statistics = \<lparr> gs_extraction_method = RAW_TEXT, gs_raw_sql_length = length sql,
         gs_normalized_sql_length = length sql, gs_normalization_changed_sql = False, gs_generation_latency_ms = 0 \<rparr> \<rparr>"

definition validate_sql_route ::
  "('n, 'p, 'v) container \<Rightarrow> llm_provider \<Rightarrow> api_env \<Rightarrow> http_request \<Rightarrow> (string \<times> sql_dialect) body_reading \<Rightarrow>
   ('p app, 'v, sql_validation_result) route_op" where
  "validate_sql_route ct provider env rq body =
     run_route env rq body (query_dependencies env rq) (\<lambda>_ q.
       case q of (sql, dialect) \<Rightarrow>
         on_pipeline (PE_Other \<circ> SE_Validation) (container_validate ct (wrap_as_generated_sql sql dialect provider)))"

definition repair_sql_route ::
  "('p, 'v, 'b) pipeline_runner \<Rightarrow> api_env \<Rightarrow> http_request \<Rightarrow> (string \<times> sql_validation_result) body_reading \<Rightarrow>
   ('p app, 'v, sql_repair_result) route_op" where
  "repair_sql_route engine env rq body =
     run_route env rq body (query_dependencies env rq) (\<lambda>_ q.
       case q of (question, v) \<Rightarrow> on_pipeline PE_Other (ask_repair engine question v))"

definition execute_sql_route ::
  "('n, 'p, 'v) container \<Rightarrow> api_env \<Rightarrow> http_request \<Rightarrow> sql_validation_result body_reading \<Rightarrow>
   ('p app, 'v, 'v sql_execution_result) route_op" where
  "execute_sql_route ct env rq body =
     run_route env rq body (query_dependencies env rq) (\<lambda>_ v.
       on_pipeline (PE_Other \<circ> SE_Execution)
         (execute_sql (ct_sqlglot ct) (ct_database ct) DEFAULT_EXECUTION_TIMEOUT_SECONDS (vr_generated_sql v) v))"

definition formatter_exception :: "formatter_error \<Rightarrow> 'v pipeline_exception" where
  "formatter_exception e = PE_Other (SE_Other (case e of FormattingError \<Rightarrow> ''FormattingError'' | F_Sqlglot _ \<Rightarrow> ''Exception''))"

definition format_result_route ::
  "('n, 'p, py_value) container \<Rightarrow> real \<Rightarrow> api_env \<Rightarrow> http_request \<Rightarrow> py_value sql_execution_result body_reading \<Rightarrow>
   ('p app, 'v, business_answer) route_op" where
  "format_result_route ct latency_ms env rq body =
     run_route env rq body (query_dependencies env rq) (\<lambda>_ r.
       on_pipeline formatter_exception (\<lambda>p. (format_answer (ct_sqlglot ct) latency_ms r, p)))"

section \<open>Operational routes (routers/health.py, diagnostics.py, metrics.py)\<close>

text \<open>The status of the response is chosen by the report.\<close>

definition health_route ::
  "'p collaborators \<Rightarrow> api_env \<Rightarrow> http_request \<Rightarrow> ('p app, 'v, int \<times> health_report) route_op" where
  "health_route co env rq =
     run_route env rq (Accepted ()) (current_user env rq) (\<lambda>_ _.
       on_pipeline id (\<lambda>p. case check_health co p of (report, p') \<Rightarrow>
         (Inr (if hp_overall_status report = UNHEALTHY then 503 else 200, report), p')))"

definition diagnostics_route ::
  "'p collaborators \<Rightarrow> api_env \<Rightarrow> http_request \<Rightarrow> ('p app, 'v, int \<times> diagnostics_report) route_op" where
  "diagnostics_route co env rq =
     run_route env rq (Accepted ()) (sbind (current_user env rq) get_admin_required_user) (\<lambda>_ _.
       on_pipeline id (\<lambda>p. case run_diagnostics co p of (report, p') \<Rightarrow>
         (Inr (if dr_overall_status report = D_Error then 503 else 200, report), p')))"

definition metrics_route :: "api_env \<Rightarrow> http_request \<Rightarrow> ('p app, 'v, metrics_snapshot) route_op" where
  "metrics_route env rq =
     run_route env rq (Accepted ()) (sbind (current_user env rq) get_admin_required_user) (\<lambda>_ _ w.
       (Inr (snapshot (w_now (aw_auth w)) (ap_metrics (aw_app w))), w))"

section \<open>All routes\<close>

text \<open>
  The routes by what they are given; a query route is given as the operation on the state behind it
  that its handler performs, and so covers the six routes of the previous section.
\<close>

datatype ('w, 'v, 'a) api_call = Call_Register "(string \<times> string \<times> string) body_reading"
  | Call_Login "(string \<times> string) body_reading" | Call_Refresh "string body_reading"
  | Call_Logout "string body_reading" | Call_Me
  | Call_Create_Key "(string \<times> datetime option) body_reading" | Call_List_Keys
  | Call_Revoke_Key "int body_reading"
  | Call_Query "('w, 'v pipeline_exception, 'a) op body_reading"

datatype 'a api_payload = P_User user_read | P_Tokens token_pair | P_No_Content | P_Key_Created api_key_created
  | P_Keys "api_key_read list" | P_App 'a

definition returning :: "('a \<Rightarrow> 'b) \<Rightarrow> ('w, 'e, 'a) op \<Rightarrow> ('w, 'e, 'b) op" where
  "returning f m = sbind m (\<lambda>x. sreturn (f x))"

definition query_route ::
  "api_env \<Rightarrow> http_request \<Rightarrow> ('w, 'v pipeline_exception, 'a) op body_reading \<Rightarrow> ('w, 'v, 'a) route_op" where
  "query_route env rq body = run_route env rq body (query_dependencies env rq) (\<lambda>_. on_app id)"

definition api_route ::
  "api_env \<Rightarrow> http_request \<Rightarrow> ('w, 'v, 'a) api_call \<Rightarrow> ('w, 'v, 'a api_payload) route_op" where
  "api_route env rq call =
     (case call of
        Call_Register b \<Rightarrow> returning P_User (register_route env rq b)
      | Call_Login b \<Rightarrow> returning P_Tokens (login_route env rq b)
      | Call_Refresh b \<Rightarrow> returning P_Tokens (refresh_route env rq b)
      | Call_Logout b \<Rightarrow> returning (\<lambda>_. P_No_Content) (logout_route env rq b)
      | Call_Me \<Rightarrow> returning P_User (me_route env rq)
      | Call_Create_Key b \<Rightarrow> returning P_Key_Created (create_api_key_route env rq b)
      | Call_List_Keys \<Rightarrow> returning P_Keys (list_api_keys_route env rq)
      | Call_Revoke_Key b \<Rightarrow> returning (\<lambda>_. P_No_Content) (revoke_api_key_route env rq b)
      | Call_Query b \<Rightarrow> returning P_App (query_route env rq b))"

fun success_status :: "('w, 'v, 'a) api_call \<Rightarrow> int" where
  "success_status (Call_Register _) = 201"
| "success_status (Call_Create_Key _) = 201"
| "success_status (Call_Logout _) = 204"
| "success_status (Call_Revoke_Key _) = 204"
| "success_status _ = 200"

definition serve_call ::
  "api_env \<Rightarrow> exception_texts \<Rightarrow> http_request \<Rightarrow> ('w, 'v, 'a) api_call \<Rightarrow> 'w api_world \<Rightarrow>
   'a api_payload http_response \<times> 'w api_world" where
  "serve_call env xt rq call = serve env xt rq (success_status call) (api_route env rq call)"

text \<open>Requests one after the other, each at its time: the responses and the server afterwards.\<close>

fun serve_all ::
  "api_env \<Rightarrow> exception_texts \<Rightarrow> (datetime \<times> http_request \<times> ('w, 'v, 'a) api_call) list \<Rightarrow> 'w api_world \<Rightarrow>
   'a api_payload http_response list \<times> 'w api_world" where
  "serve_all env xt [] w = ([], w)"
| "serve_all env xt ((t, rq, call) # cs) w =
     (let (response, w1) = serve_call env xt rq call (w\<lparr> aw_auth := (aw_auth w)\<lparr> w_now := t \<rparr> \<rparr>);
          (responses, w2) = serve_all env xt cs w1
      in (response # responses, w2))"

section \<open>The WebSocket endpoint (streaming/websocket.py)\<close>

datatype ws_action = Ws_Accept | Ws_Send string | Ws_Close nat string

text \<open>
  The first message, as received and read by pydantic; the events that the stream yields, as texts;
  and after how many of them the client disconnects, if it does.
\<close>

datatype ws_message = Ws_Gone | Ws_Invalid | Ws_Question string

definition stream_query_ws ::
  "(auth_error \<Rightarrow> string) \<Rightarrow> api_env \<Rightarrow> ws_request \<Rightarrow> ws_message \<Rightarrow> (string \<Rightarrow> string list) \<Rightarrow> nat option \<Rightarrow>
   ('w, 'e, ws_action list) api_op" where
  "stream_query_ws msg env ws incoming events gone_after =
     sbind (authenticate_and_authorize msg env ws) (\<lambda>h. sreturn (case h of
       Handshake_Closed code reason \<Rightarrow> [Ws_Close code reason]
     | Handshake_User _ \<Rightarrow>
         Ws_Accept #
         (case incoming of
            Ws_Gone \<Rightarrow> []
          | Ws_Invalid \<Rightarrow> [Ws_Close 1008 ''Invalid request.'']
          | Ws_Question question \<Rightarrow>
              (let texts = events question in
               case gone_after of
                 Some n \<Rightarrow> if n < length texts then map Ws_Send (take n texts) else map Ws_Send texts @ [Ws_Close 1000 []]
               | None \<Rightarrow> map Ws_Send texts @ [Ws_Close 1000 []]))))"

end
