(* ===== verification/Api_Gate.thy ===== *)
theory Api_Gate
  imports Api_Routes Auth_Accounts
begin

text \<open>
  Who gets through: what a successful authentication says about the accounts, what each step of a
  request leaves unchanged, and the property that nobody without the role reaches the pipeline, over
  HTTP or over a WebSocket.
\<close>

section \<open>What operations leave unchanged\<close>

definition preserves :: "('s \<Rightarrow> 'x) \<Rightarrow> ('s, 'e, 'a) op \<Rightarrow> bool" where
  "preserves f m \<longleftrightarrow> (\<forall>w. f (snd (m w)) = f w)"

named_theorems preserve_intros \<open>operations that leave a part of the state unchanged\<close>

lemma preservesD: "preserves f m \<Longrightarrow> m w = (r, w') \<Longrightarrow> f w' = f w"
  by (metis preserves_def snd_conv)

lemma preserves_return [preserve_intros]: "preserves f (sreturn x)"
  by (simp add: preserves_def)

lemma preserves_raise [preserve_intros]: "preserves f (sraise e)"
  by (simp add: preserves_def)

lemma preserves_bind [preserve_intros]:
  "preserves f m \<Longrightarrow> (\<And>x. preserves f (g x)) \<Longrightarrow> preserves f (sbind m g)"
  by (auto simp: preserves_def sbind_def split: prod.splits sum.splits) (metis snd_conv)+

lemma preserves_try [preserve_intros]:
  "preserves f m \<Longrightarrow> (\<And>e. preserves f (h e)) \<Longrightarrow> (\<And>x. preserves f (k x)) \<Longrightarrow> preserves f (try_else m h k)"
  by (auto simp: preserves_def try_else_def split: prod.splits sum.splits) (metis snd_conv)+

lemma preserves_cases [preserve_intros]:
  "preserves f a \<Longrightarrow> (\<And>x. preserves f (b x)) \<Longrightarrow> preserves f (case r of None \<Rightarrow> a | Some x \<Rightarrow> b x)"
  "preserves f a \<Longrightarrow> preserves f c \<Longrightarrow> preserves f (if p then a else c)"
  "(\<And>x y. preserves f (g x y)) \<Longrightarrow> preserves f (case q of (x, y) \<Rightarrow> g x y)"
  "(\<And>e. preserves f (h e)) \<Longrightarrow> (\<And>x. preserves f (k x)) \<Longrightarrow> preserves f (case s of Inl e \<Rightarrow> h e | Inr x \<Rightarrow> k x)"
  by (auto split: option.splits prod.splits sum.splits)

lemma preserves_error_cases [preserve_intros]:
  "\<lbrakk>\<And>e. preserves u (a e); \<And>s d h. preserves u (b s d h); \<And>d. preserves u (c d); \<And>r. preserves u (d r); \<And>x. preserves u (f x)\<rbrakk> \<Longrightarrow>
   preserves u (case exc of Auth_Error e \<Rightarrow> a e | HTTP_Exception s d h \<Rightarrow> b s d h | Rate_Limited d \<Rightarrow> c d | Request_Invalid r \<Rightarrow> d r | App_Error x \<Rightarrow> f x)"
  by (auto split: api_error.splits)

lemma preserves_on_auth [preserve_intros]:
  "preserves aw_app (on_auth m)" "preserves (\<lambda>w. aw_buckets w k) (on_auth m)"
  by (auto simp: preserves_def on_auth_def split: prod.splits)

lemma preserves_on_app [preserve_intros]: "preserves (\<lambda>w. aw_buckets w k) (on_app f m)"
  by (auto simp: preserves_def on_app_def split: prod.splits)

lemma audit_record_frame [simp]:
  "aw_app (audit_record env r w) = aw_app w" "aw_buckets (audit_record env r w) = aw_buckets w"
  "aw_auth (audit_record env r w) = aw_auth w" "aw_state (audit_record env r w) = aw_state w"
  by (simp_all add: audit_record_def audit_create_def Let_def split: prod.splits)

lemma preserves_audit [preserve_intros]:
  "preserves aw_app (audit_event env rq t s a e)" "preserves aw_auth (audit_event env rq t s a e)"
  "preserves (\<lambda>w. aw_buckets w k) (audit_event env rq t s a e)"
  by (simp_all add: preserves_def audit_event_def)

lemma preserves_remember [preserve_intros]:
  "preserves aw_app (remember_user u)" "preserves aw_auth (remember_user u)"
  "preserves (\<lambda>w. aw_buckets w k) (remember_user u)"
  by (simp_all add: preserves_def remember_user_def)

lemma preserves_limiter [preserve_intros]:
  "preserves aw_app (limiter_check env key c r)" "preserves aw_auth (limiter_check env key c r)"
  by (auto simp: preserves_def limiter_check_def split: prod.splits)

lemma preserves_other_bucket [preserve_intros]:
  "k \<noteq> key \<Longrightarrow> preserves (\<lambda>w. aw_buckets w k) (limiter_check env key c r)"
  by (auto simp: preserves_def limiter_check_def check_bucket_def Let_def split: prod.splits)

lemma preserves_auth_result [preserve_intros]: "preserves f (auth_result r)"
  unfolding auth_result_def by (intro preserve_intros)

lemma preserves_if_blocked [preserve_intros]: "preserves f (raise_if_blocked d)"
  unfolding raise_if_blocked_def by (intro preserve_intros)

lemma preserves_analyst [preserve_intros]: "preserves f (get_analyst_required_user u)"
  unfolding get_analyst_required_user_def by (intro preserve_intros)

lemma preserves_current_user [preserve_intros]:
  "preserves aw_app (current_user env rq)" "preserves (\<lambda>w. aw_buckets w k) (current_user env rq)"
  "preserves aw_app (get_current_user_jwt_only env rq)" "preserves (\<lambda>w. aw_buckets w k) (get_current_user_jwt_only env rq)"
  unfolding current_user_def api_key_user_def resolve_jwt_user_def get_current_user_jwt_only_def
  by (intro preserve_intros)+

lemma preserves_limits [preserve_intros]:
  "preserves aw_app (check_general_rate_limit env rq)" "preserves aw_auth (check_general_rate_limit env rq)"
  "preserves aw_app (check_query_rate_limit env u)"
  unfolding check_general_rate_limit_def check_query_rate_limit_def Let_def by (intro preserve_intros)+

lemma preserves_query_dependencies [preserve_intros]: "preserves aw_app (query_dependencies env rq)"
  unfolding query_dependencies_def by (intro preserve_intros)

section \<open>What an authenticated user is\<close>

text \<open>The credential a request presents, if any, is one of the account.\<close>

definition credential_of :: "api_env \<Rightarrow> http_request \<Rightarrow> auth_db \<Rightarrow> datetime \<Rightarrow> user \<Rightarrow> bool" where
  "credential_of env rq d now u =
     (case hr_api_key rq of
        Some key \<Rightarrow> (\<exists>k. k \<in> set (db_api_keys d) \<and> ak_key_hash k = hash_api_key (ev_crypto env) key \<and>
          ak_user_id k = u_id u \<and> ak_revoked_at k = None \<and>
          (case ak_expires_at k of None \<Rightarrow> True | Some e \<Rightarrow> now \<le> e))
      | None \<Rightarrow>
          (case hr_bearer rq of
             None \<Rightarrow> False
           | Some token \<Rightarrow> (\<exists>p. jwt_decode (ev_crypto env) now token (jwt_secret_key (ev_config env))
               (jwt_algorithm (ev_config env)) = Inr p \<and> pl_type p = Some ''access'' \<and>
               Option.bind (pl_sub p) py_int = Some (u_id u))))"

lemma get_by_id_Inr:
  "get_by_id i a = (Inr r, a') \<Longrightarrow> a' = a \<and> (\<forall>u. r = Some u \<longrightarrow> u \<in> set (db_users (w_db a)) \<and> u_id u = i)"
  by (auto simp: get_by_id_def find_Some_iff)

lemma get_current_user_Inr:
  assumes "get_current_user cr cfg token a = (Inr x, a')"
  shows "a' = a \<and> (\<exists>u p. u \<in> set (db_users (w_db a)) \<and> u_is_active u \<and> x = read_user u \<and>
    jwt_decode cr (w_now a) token (jwt_secret_key cfg) (jwt_algorithm cfg) = Inr p \<and> pl_type p = Some ''access'' \<and>
    Option.bind (pl_sub p) py_int = Some (u_id u))"
  using assms
  by (auto simp: get_current_user_def validate_token_def decode_token_def result_simps
      split: option.splits if_splits sum.splits jwt_error.splits dest!: get_by_id_Inr)

lemma get_current_user_Inl:
  "get_current_user cr cfg token a = (Inl e, a') \<Longrightarrow> e \<in> {InvalidTokenError, TokenExpiredError, InactiveUserError, PyValueError}"
  by (auto simp: get_current_user_def validate_token_def decode_token_def get_by_id_def result_simps
      split: option.splits if_splits sum.splits jwt_error.splits)

lemma scalar_Some: "scalar_one_or_none xs = Inr (Some x) \<Longrightarrow> xs = [x]"
  by (cases xs rule: scalar_one_or_none.cases) auto

lemma get_api_key_by_hash_Inr:
  assumes "get_api_key_by_hash h a = (Inr r, a')"
  shows "a' = a" "r = Some k \<Longrightarrow> k \<in> set (db_api_keys (w_db a)) \<and> ak_key_hash k = h"
proof -
  show "a' = a" using assms by (simp add: get_api_key_by_hash_def)
  assume "r = Some k"
  with assms have "filter (\<lambda>k. ak_key_hash k = h) (db_api_keys (w_db a)) = [k]"
    by (auto simp: get_api_key_by_hash_def dest!: scalar_Some)
  then have "k \<in> set (filter (\<lambda>k. ak_key_hash k = h) (db_api_keys (w_db a)))" by simp
  then show "k \<in> set (db_api_keys (w_db a)) \<and> ak_key_hash k = h" by simp
qed

lemma authenticate_api_key_Inr:
  assumes "authenticate_api_key cr raw a = (Inr x, a')"
  shows "w_now a' = w_now a \<and> (\<exists>k u. k \<in> set (db_api_keys (w_db a)) \<and> ak_key_hash k = hash_api_key cr raw \<and>
    ak_revoked_at k = None \<and> (case ak_expires_at k of None \<Rightarrow> True | Some e \<Rightarrow> w_now a \<le> e) \<and>
    u \<in> set (db_users (w_db a)) \<and> ak_user_id k = u_id u \<and> u_is_active u \<and> x = read_user u)"
proof -
  obtain k where k: "get_api_key_by_hash (hash_api_key cr raw) a = (Inr (Some k), a)" "ak_revoked_at k = None"
    and e: "\<not> (case ak_expires_at k of None \<Rightarrow> False | Some e \<Rightarrow> e < w_now a)"
    using assms get_api_key_by_hash_Inr(1)
    by (fastforce simp: authenticate_api_key_def result_simps split: if_splits option.splits)
  obtain u where u: "get_by_id (ak_user_id k) a = (Inr (Some u), a)" "u_is_active u" and x: "x = read_user u" "w_now a' = w_now a"
    using assms k e
    by (auto simp: authenticate_api_key_def result_simps sbind_apply get_by_id_def touch_api_key_last_used_def update_api_key_def
        split: if_splits option.splits)
  have "u \<in> set (db_users (w_db a)) \<and> u_id u = ak_user_id k" using get_by_id_Inr [OF u(1)] by simp
  moreover have "k \<in> set (db_api_keys (w_db a)) \<and> ak_key_hash k = hash_api_key cr raw"
    using get_api_key_by_hash_Inr(2) [OF k(1)] by simp
  moreover have "case ak_expires_at k of None \<Rightarrow> True | Some e \<Rightarrow> w_now a \<le> e"
    using e by (simp split: option.splits)
  ultimately show ?thesis using k(2) u(2) x by (intro conjI exI [of _ k] exI [of _ u]) auto
qed

lemma authenticate_api_key_Inl:
  "authenticate_api_key cr raw a = (Inl e, a') \<Longrightarrow>
     e \<in> {InvalidApiKeyError, ApiKeyRevokedError, ApiKeyExpiredError, InactiveUserError, MultipleResultsFound}"
proof -
  have s: "scalar_one_or_none xs = Inl e \<Longrightarrow> e = MultipleResultsFound" for xs :: "api_key list" and e
    by (cases xs rule: scalar_one_or_none.cases) auto
  assume "authenticate_api_key cr raw a = (Inl e, a')"
  then show ?thesis
    by (auto simp: authenticate_api_key_def sbind_apply get_by_id_def get_api_key_by_hash_def touch_api_key_last_used_def
        split: if_splits option.splits sum.splits dest: s)
qed

lemma current_user_Inr:
  assumes "current_user env rq w = (Inr x, w')"
  shows "w_now (aw_auth w') = w_now (aw_auth w) \<and>
    (\<exists>u. u \<in> set (db_users (w_db (aw_auth w))) \<and> u_is_active u \<and> x = read_user u \<and>
      credential_of env rq (w_db (aw_auth w)) (w_now (aw_auth w)) u)"
proof (cases "hr_api_key rq")
  case None
  then obtain t where t: "hr_bearer rq = Some t" and "get_current_user (ev_crypto env) (ev_config env) t (aw_auth w) = (Inr x, aw_auth w')"
    using assms by (auto simp: current_user_def resolve_jwt_user_def remember_user_def on_auth_def result_simps
        split: option.splits sum.splits prod.splits)
  from get_current_user_Inr [OF this(2)] show ?thesis using None t by (auto simp: credential_of_def)
next
  case (Some key)
  then have "authenticate_api_key (ev_crypto env) key (aw_auth w) = (Inr x, aw_auth w')"
    using assms by (auto simp: current_user_def api_key_user_def try_else_def remember_user_def on_auth_def audit_event_def result_simps
        split: option.splits sum.splits prod.splits if_splits)
  from authenticate_api_key_Inr [OF this] show ?thesis using Some by (fastforce simp: credential_of_def)
qed

lemma current_user_Inl:
  assumes "current_user env rq w = (Inl e, w')"
  shows "e = HTTP_Exception 401 ''Not authenticated.'' [(''www-authenticate'', ''Bearer'')] \<or>
    (\<exists>a. e = Auth_Error a \<and> a \<in> {InvalidTokenError, TokenExpiredError, InactiveUserError, PyValueError,
       InvalidApiKeyError, ApiKeyRevokedError, ApiKeyExpiredError, MultipleResultsFound})"
  using assms
  by (auto simp: current_user_def resolve_jwt_user_def api_key_user_def try_else_def remember_user_def on_auth_def audit_event_def result_simps
      split: option.splits sum.splits prod.splits if_splits dest!: get_current_user_Inl authenticate_api_key_Inl)

section \<open>The gate of the query routes\<close>

text \<open>There is a token for the account in the bucket of queries, or limits are off.\<close>

definition query_admitted :: "api_env \<Rightarrow> 'w api_world \<Rightarrow> user \<Rightarrow> bool" where
  "query_admitted env w u =
     (if rate_limit_enabled (ev_settings env)
      then let c = rate_limit_query_per_minute (ev_settings env) in
        allowed (fst (check_bucket (w_now (aw_auth w)) (aw_buckets w) (''query:user:'' @ str_int (u_id u)) c (real_of_int c / 60)))
      else True)"

definition admitted_analyst :: "api_env \<Rightarrow> http_request \<Rightarrow> 'w api_world \<Rightarrow> user \<Rightarrow> bool" where
  "admitted_analyst env rq w u \<longleftrightarrow> u \<in> set (db_users (w_db (aw_auth w))) \<and> u_is_active u \<and> ANALYST \<le> u_role u \<and>
     credential_of env rq (w_db (aw_auth w)) (w_now (aw_auth w)) u \<and> query_admitted env w u"

lemma require_role_Inr: "require_role (read_user u) r = Inr x \<longleftrightarrow> r \<le> u_role u"
  by (auto simp: require_role_def read_user_def less_eq_user_role_def)

lemma limiter_check_result:
  "fst (limiter_check env k c r w) = Inr (if rate_limit_enabled (ev_settings env)
     then fst (check_bucket (w_now (aw_auth w)) (aw_buckets w) k c r)
     else \<lparr>allowed = True, retry_after_seconds = Seconds 0\<rparr>)"
  by (simp add: limiter_check_def check_noop_def case_prod_beta)

lemma check_query_Inr:
  assumes "check_query_rate_limit env (read_user u) w = (Inr x :: 'e api_error + unit, w')"
  shows "query_admitted env w u"
proof -
  let ?c = "rate_limit_query_per_minute (ev_settings env)"
  let ?l = "limiter_check env (query_key (read_user u)) ?c (real_of_int ?c / 60) :: ('a, 'e, rate_limit_decision) api_op"
  have "\<exists>d w1. ?l w = (Inr d, w1) \<and> allowed d"
    using assms by (auto simp: check_query_rate_limit_def raise_if_blocked_def Let_def result_simps split: if_splits)
  then obtain d w1 where d: "?l w = (Inr d, w1)" "allowed d" by blast
  have "fst (?l w) = Inr (if rate_limit_enabled (ev_settings env)
     then fst (check_bucket (w_now (aw_auth w)) (aw_buckets w) (query_key (read_user u)) ?c (real_of_int ?c / 60))
     else \<lparr>allowed = True, retry_after_seconds = Seconds 0\<rparr>)" by (rule limiter_check_result)
  with d show ?thesis by (auto simp: query_admitted_def query_key_def read_user_def Let_def split: if_splits)
qed

lemma query_dependencies_Inr:
  assumes "query_dependencies env rq w = (Inr y :: 'v pipeline_exception api_error + user_read, w')"
  shows "\<exists>u. admitted_analyst env rq w u"
proof -
  have "\<exists>w1. current_user env rq w = (Inr y :: 'v pipeline_exception api_error + user_read, w1) \<and>
      require_role y ANALYST = Inr () \<and>
      check_query_rate_limit env y w1 = (Inr () :: 'v pipeline_exception api_error + unit, w')"
    using assms by (auto simp: query_dependencies_def get_analyst_required_user_def auth_result_def require_role_def result_simps split: if_splits sum.splits)
  then obtain w1 where cu: "current_user env rq w = (Inr y :: 'v pipeline_exception api_error + user_read, w1)"
    and ro: "require_role y ANALYST = Inr ()"
    and li: "check_query_rate_limit env y w1 = (Inr () :: 'v pipeline_exception api_error + unit, w')" by blast
  obtain u where u: "u \<in> set (db_users (w_db (aw_auth w)))" "u_is_active u" "y = read_user u"
      "credential_of env rq (w_db (aw_auth w)) (w_now (aw_auth w)) u" and now: "w_now (aw_auth w1) = w_now (aw_auth w)"
    using current_user_Inr [OF cu] by auto
  have "aw_buckets w1 k = aw_buckets w k" for k
    using preservesD [OF preserves_current_user(2) cu] .
  then have same: "query_admitted env w1 u = query_admitted env w u"
    by (simp add: query_admitted_def now)
  have "query_admitted env w1 u" using li unfolding u(3) by (rule check_query_Inr)
  with same ro u show ?thesis unfolding admitted_analyst_def u(3) require_role_Inr by blast
qed

text \<open>The errors of the gate, and the status they are given.\<close>

lemma limit_error:
  "sbind (limiter_check env k c r) raise_if_blocked w = (Inl e, w') \<Longrightarrow> \<exists>d. e = Rate_Limited d"
  by (auto simp: raise_if_blocked_def result_simps limiter_check_def split: if_splits prod.splits)

lemma query_dependencies_Inl:
  assumes "query_dependencies env rq w = (Inl e :: 'v pipeline_exception api_error + user_read, w')"
  shows "(\<exists>d. e = Rate_Limited d) \<or> e = HTTP_Exception 401 ''Not authenticated.'' [(''www-authenticate'', ''Bearer'')] \<or>
    (\<exists>a. e = Auth_Error a \<and> a \<in> {InvalidTokenError, TokenExpiredError, InactiveUserError, PyValueError,
       InvalidApiKeyError, ApiKeyRevokedError, ApiKeyExpiredError, MultipleResultsFound, ForbiddenRoleError})"
proof -
  have "current_user env rq w = (Inl e :: 'v pipeline_exception api_error + user_read, w') \<or> e = Auth_Error ForbiddenRoleError \<or>
      (\<exists>u w1. check_query_rate_limit env u w1 = (Inl e :: 'v pipeline_exception api_error + unit, w'))"
    using assms by (fastforce simp: query_dependencies_def sbind_Inl get_analyst_required_user_def auth_result_def require_role_def
        split: if_splits sum.splits)
  then show ?thesis
  proof (elim disjE exE)
    assume "current_user env rq w = (Inl e :: 'v pipeline_exception api_error + user_read, w')"
    from current_user_Inl [OF this] show ?thesis by blast
  next
    fix u w1 assume "check_query_rate_limit env u w1 = (Inl e :: 'v pipeline_exception api_error + unit, w')"
    then show ?thesis unfolding check_query_rate_limit_def Let_def by (intro disjI1 limit_error)
  qed simp
qed

definition gate_error :: "'v pipeline_exception api_error \<Rightarrow> bool" where
  "gate_error e \<longleftrightarrow> (\<exists>d. e = Rate_Limited d) \<or> (\<exists>d h. e = HTTP_Exception 401 d h) \<or> (\<exists>r. e = Request_Invalid r) \<or>
     (\<exists>a. e = Auth_Error a \<and> a \<notin> {DuplicateUserError, ApiKeyNotFoundError})"

lemma gate_error_status:
  assumes "gate_error e" "handle_exception env xt rq e w = (Some resp, w')"
  shows "rsp_status resp \<in> {401, 403, 422, 429} \<and> (\<forall>x. rsp_body resp \<noteq> Payload x)"
  using assms(1) unfolding gate_error_def
proof (elim disjE exE conjE)
  fix a assume "e = Auth_Error a" and a: "a \<notin> {DuplicateUserError, ApiKeyNotFoundError}"
  then obtain s where s: "auth_status a = Some s" and "rsp_status resp = s" "\<forall>x. rsp_body resp \<noteq> Payload x"
    using assms(2) by (auto simp: handle_exception_def handle_mapped_exception_def log_and_respond_def split: option.splits)
  moreover have "s \<in> {401, 403}" using s a by (cases a) auto
  ultimately show ?thesis by auto
qed (use assms(2) in \<open>auto simp: handle_exception_def handle_rate_limit_exceeded_def handle_validation_error_def
    log_and_respond_def set_header_def Let_def split: delay.splits\<close>)

lemma handle_exception_app: "aw_app (snd (handle_exception env xt rq e w)) = aw_app w"
  by (simp add: handle_exception_def handle_mapped_exception_def handle_pipeline_execution_error_def audit_failure_if_relevant_def
      handle_rate_limit_exceeded_def log_and_respond_def Let_def case_prod_beta split: api_error.splits option.splits pipeline_exception.splits delay.splits)

lemma handle_exception_appD: "handle_exception env xt rq e w = (h, w') \<Longrightarrow> aw_app w' = aw_app w"
  using handle_exception_app by (metis snd_conv)

text \<open>
  A query route either ends in the gate, with an error of the gate and the pipeline untouched, or the
  handler runs for an admitted analyst.
\<close>

lemma query_admitted_frame:
  assumes "w_now (aw_auth w1) = w_now (aw_auth w)" "\<And>u. aw_buckets w1 (query_key u) = aw_buckets w (query_key u)"
    and "w_db (aw_auth w1) = w_db (aw_auth w)"
  shows "admitted_analyst env rq w1 u = admitted_analyst env rq w u"
proof -
  have "aw_buckets w1 (''query:user:'' @ str_int (u_id u)) = aw_buckets w (''query:user:'' @ str_int (u_id u))"
    using assms(2) [of "read_user u"] by (simp add: query_key_def read_user_def)
  with assms(1,3) show ?thesis by (simp add: admitted_analyst_def query_admitted_def Let_def)
qed

lemma general_limit_frame: "preserves (\<lambda>w. aw_buckets w (query_key u)) (check_general_rate_limit env rq)"
proof -
  have "query_key u \<noteq> ip_key ''general:ip:'' env rq" by (simp add: query_key_def ip_key_def)
  then show ?thesis unfolding check_general_rate_limit_def Let_def by (intro preserve_intros)
qed

lemma general_limit_Inl:
  "check_general_rate_limit env rq w = (Inl e, w') \<Longrightarrow> \<exists>d. e = Rate_Limited d"
  unfolding check_general_rate_limit_def Let_def by (rule limit_error)

lemma query_route_outcome:
  fixes body :: "('w, 'v pipeline_exception, 'a) op body_reading"
  assumes "query_route env rq body w = (r, w')"
  shows "(\<exists>u. admitted_analyst env rq w u) \<or> (aw_app w' = aw_app w \<and> (\<exists>e. r = Inl e \<and> gate_error e))"
proof (cases "\<exists>errors. body = Malformed errors")
  case True
  then show ?thesis using assms by (auto simp: query_route_def run_route_def gate_error_def)
next
  case False
  let ?g = "check_general_rate_limit env rq :: ('w, 'v, unit) route_op"
  let ?d = "query_dependencies env rq :: ('w, 'v, user_read) route_op"
  let ?h = "\<lambda>_. case body of Accepted q \<Rightarrow> on_app id q | Rejected errors \<Rightarrow> sraise (Request_Invalid errors)
      | Malformed errors \<Rightarrow> sraise (Request_Invalid errors)"
  have run: "sbind ?g (\<lambda>_. sbind ?d ?h) w = (r, w')"
    using assms False by (cases body) (auto simp: query_route_def run_route_def)
  obtain g w1 where g: "?g w = (g, w1)" by (metis surj_pair)
  have app1: "aw_app w1 = aw_app w" and auth1: "aw_auth w1 = aw_auth w"
    and key1: "aw_buckets w1 (query_key u) = aw_buckets w (query_key u)" for u
    using preservesD [OF preserves_limits(1) g] preservesD [OF preserves_limits(2) g]
      preservesD [OF general_limit_frame g] by auto
  show ?thesis
  proof (cases g)
    case (Inl e)
    with g run have "r = Inl e" "w' = w1" by (auto simp: sbind_def)
    moreover have "\<exists>d. e = Rate_Limited d" using general_limit_Inl g Inl by blast
    ultimately show ?thesis using app1 by (auto simp: gate_error_def)
  next
    case (Inr x)
    obtain d w2 where d: "?d w1 = (d, w2)" by (metis surj_pair)
    have app2: "aw_app w2 = aw_app w" using preservesD [OF preserves_query_dependencies d] app1 by simp
    show ?thesis
    proof (cases d)
      case (Inl e)
      with g d Inr run have "r = Inl e" "w' = w2" by (auto simp: sbind_def)
      moreover have "gate_error e" using query_dependencies_Inl [OF d [unfolded Inl]] by (auto simp: gate_error_def)
      ultimately show ?thesis using app2 by auto
    next
      case (Inr y)
      then obtain u where "admitted_analyst env rq w1 u" using query_dependencies_Inr d by blast
      then have "admitted_analyst env rq w u"
        using query_admitted_frame [of w1 w] auth1 key1 by simp
      then show ?thesis by blast
    qed
  qed
qed

lemma header_frame [simp]:
  "rsp_status (set_header n v x) = rsp_status x" "rsp_body (set_header n v x) = rsp_body x"
  "rsp_status (security_headers env rq x) = rsp_status x" "rsp_body (security_headers env rq x) = rsp_body x"
  by (simp_all add: security_headers_def set_header_def BASELINE_HEADERS_def Let_def)

lemma serve_outcome:
  fixes route :: "('w, 'v, 'a) route_op"
  assumes "serve env xt rq s route w = (resp, w')" "route (snd (request_ids env rq w)) = (r, w2)"
  shows "case r of
      Inr x \<Rightarrow> w' = w2 \<and> rsp_status resp = s \<and> rsp_body resp = Payload x
    | Inl e \<Rightarrow>
        (case handle_exception env xt rq e w2 :: 'a http_response option \<times> 'w api_world of
           (None, w3) \<Rightarrow> resp = internal_server_error \<and> w' = w3
         | (Some h, w3) \<Rightarrow> w' = w3 \<and> rsp_status resp = rsp_status h \<and> rsp_body resp = rsp_body h)"
proof (cases "request_ids env rq w")
  case (Pair ids w1)
  with assms show ?thesis
    by (cases ids) (auto simp: serve_def split: sum.splits option.splits prod.splits)
qed

lemma request_ids_frame [simp]:
  "aw_app (snd (request_ids env rq w)) = aw_app w" "aw_buckets (snd (request_ids env rq w)) = aw_buckets w"
  "w_db (aw_auth (snd (request_ids env rq w))) = w_db (aw_auth w)"
  "w_now (aw_auth (snd (request_ids env rq w))) = w_now (aw_auth w)"
  by (simp_all add: request_ids_def Let_def)

text \<open>
  C18. Nobody reaches the pipeline without the role: for every request to a query route either an active
  account of at least the analyst role owns the credential presented (an API key that is neither revoked
  nor expired, or an access token that decodes now) and its bucket of queries has a token, or the
  client gets 401, 403, 422, 429 or 500 without a result and the pipeline's state is untouched.
\<close>

theorem query_needs_analyst:
  "case serve_call env xt rq (Call_Query body) w of (resp, w') \<Rightarrow>
     (\<exists>u. admitted_analyst env rq w u) \<or>
     (aw_app w' = aw_app w \<and> rsp_status resp \<in> {401, 403, 422, 429, 500} \<and> (\<forall>x. rsp_body resp \<noteq> Payload x))"
proof -
  let ?w1 = "snd (request_ids env rq w)"
  obtain resp w' where sv: "serve_call env xt rq (Call_Query body) w = (resp, w')" by (metis surj_pair)
  obtain r w2 where q: "query_route env rq body ?w1 = (r, w2)" by (metis surj_pair)
  then have route: "api_route env rq (Call_Query body) ?w1 = (map_sum id P_App r, w2)"
    by (simp add: api_route_def returning_def sbind_def split: sum.splits)
  note out = serve_outcome [OF sv [unfolded serve_call_def] route]
  consider u where "admitted_analyst env rq ?w1 u" | e where "aw_app w2 = aw_app w" "r = Inl e" "gate_error e"
    using query_route_outcome [OF q] by auto
  then show ?thesis
  proof cases
    case 1
    then have "admitted_analyst env rq w u" by (simp add: query_admitted_frame [of ?w1 w])
    then show ?thesis using sv by auto
  next
    case 2
    then have "aw_app w' = aw_app w"
      using out by (auto split: prod.splits option.splits dest: handle_exception_appD)
    moreover have "rsp_status resp \<in> {401, 403, 422, 429, 500} \<and> (\<forall>x. rsp_body resp \<noteq> Payload x)"
      using out 2 gate_error_status [OF 2(3)]
      by (fastforce simp: internal_server_error_def split: prod.splits option.splits)
    ultimately show ?thesis using sv by simp
  qed
qed

end
