(* ===== verification/Api_Limits.thy ===== *)
theory Api_Limits
  imports Api_Gate
begin

text \<open>
  The rate limits as the service applies them: the password guesses a sequence of requests can make
  for one login name, and the delay that a refused client is told.
\<close>

section \<open>What a bucket can still pay for\<close>

definition level :: "int \<Rightarrow> real \<Rightarrow> datetime \<Rightarrow> bucket option \<Rightarrow> real" where
  "level c r t b = (case b of None \<Rightarrow> real_of_int c | Some bk \<Rightarrow> tokens bk + r * total_seconds (t - last_refill bk))"

definition bucket_inv :: "int \<Rightarrow> datetime \<Rightarrow> bucket option \<Rightarrow> bool" where
  "bucket_inv c t b = (case b of None \<Rightarrow> True | Some bk \<Rightarrow> bucket_ok c bk \<and> last_refill bk \<le> t)"

lemma level_nonneg: "bucket_inv c t b \<Longrightarrow> 0 \<le> c \<Longrightarrow> 0 \<le> r \<Longrightarrow> 0 \<le> level c r t b"
  by (auto simp: level_def bucket_inv_def bucket_ok_def split: option.splits intro!: add_nonneg_nonneg mult_nonneg_nonneg)

lemma bucket_inv_later: "bucket_inv c t b \<Longrightarrow> t \<le> t' \<Longrightarrow> bucket_inv c t' b"
  by (auto simp: bucket_inv_def split: option.splits)

lemma level_later:
  assumes "t \<le> t'" "0 \<le> r"
  shows "level c r t' b \<le> level c r t b + r * total_seconds (t' - t)"
proof (cases b)
  case None
  with assms show ?thesis by (auto simp: level_def intro!: mult_nonneg_nonneg total_seconds_nonneg)
next
  case (Some bk)
  have "total_seconds (t' - last_refill bk) = total_seconds (t - last_refill bk) + total_seconds (t' - t)"
    by (simp flip: total_seconds_add)
  with Some show ?thesis by (simp add: level_def distrib_left)
qed

lemma check_level:
  assumes "bucket_inv c t (s k)" "0 \<le> c" "0 \<le> r"
  shows "bucket_inv c t (snd (check_bucket t s k c r) k)"
    and "(if allowed (fst (check_bucket t s k c r)) then 1 else 0) + level c r t (snd (check_bucket t s k c r) k)
      \<le> level c r t (s k)"
proof -
  define b where "b = refill t c r (s k)"
  have ok: "bucket_ok c b"
    unfolding b_def using assms by (intro refill_ok) (auto simp: bucket_inv_def)
  have last: "last_refill b = t" and gain: "tokens b \<le> level c r t (s k)"
    using assms by (cases "s k"; simp add: b_def level_def bucket_inv_def refill_new refill_gain)+
  show "bucket_inv c t (snd (check_bucket t s k c r) k)"
    using take_token_ok [OF ok] last by (simp add: bucket_inv_def take_token_spends b_def)
  show "(if allowed (fst (check_bucket t s k c r)) then 1 else 0) + level c r t (snd (check_bucket t s k c r) k)
      \<le> level c r t (s k)"
    using gain last take_token_spends(1) [of r b] by (simp add: level_def take_token_spends(2) flip: b_def)
qed

section \<open>Password guesses\<close>

definition login_key :: "string \<Rightarrow> string" where
  "login_key n = ''login:username:'' @ n"

text \<open>A login request for the name that the limits let through to the comparison of the password.\<close>

definition guess :: "api_env \<Rightarrow> string \<Rightarrow> http_request \<Rightarrow> ('w, 'v, 'a) api_call \<Rightarrow> 'w api_world \<Rightarrow> nat" where
  "guess env n rq call w =
     (case call of
        Call_Login (Accepted (name, _)) \<Rightarrow>
          (case sbind (check_general_rate_limit env rq) (\<lambda>_. check_login_rate_limit env rq) (snd (request_ids env rq w))
             :: ('v pipeline_exception api_error + unit) \<times> 'w api_world of
             (Inr _, _) \<Rightarrow> if name = n then 1 else 0
           | (Inl _, _) \<Rightarrow> 0)
      | _ \<Rightarrow> 0)"

fun guesses ::
  "api_env \<Rightarrow> exception_texts \<Rightarrow> string \<Rightarrow> (datetime \<times> http_request \<times> ('w, 'v, 'a) api_call) list \<Rightarrow> 'w api_world \<Rightarrow> nat" where
  "guesses env xt n [] w = 0"
| "guesses env xt n ((t, rq, call) # cs) w =
     (let v = w\<lparr> aw_auth := (aw_auth w)\<lparr> w_now := t \<rparr> \<rparr>
      in guess env n rq call v + guesses env xt n cs (snd (serve_call env xt rq call v)))"

text \<open>pydantic reads the login name from the same JSON body as the limiter.\<close>

definition reads_body :: "datetime \<times> http_request \<times> ('w, 'v, 'a) api_call \<Rightarrow> bool" where
  "reads_body c = (case c of (_, rq, Call_Login (Accepted (name, _))) \<Rightarrow> get_attempted_username rq = Some name | _ \<Rightarrow> True)"

text \<open>Whether the limits let a request through does not depend on the type of the other errors.\<close>

lemma limiter_check_eq:
  "limiter_check env k c r w =
     (Inr (if rate_limit_enabled (ev_settings env) then fst (check_bucket (w_now (aw_auth w)) (aw_buckets w) k c r)
           else \<lparr>allowed = True, retry_after_seconds = Seconds 0\<rparr>),
      if rate_limit_enabled (ev_settings env)
      then w\<lparr> aw_buckets := snd (check_bucket (w_now (aw_auth w)) (aw_buckets w) k c r) \<rparr> else w)"
  by (simp add: limiter_check_def check_noop_def case_prod_beta)

lemma general_limit_eq:
  "check_general_rate_limit env rq w =
     (let c = rate_limit_general_per_minute (ev_settings env); k = ip_key ''general:ip:'' env rq; r = real_of_int c / 60;
          d = fst (check_bucket (w_now (aw_auth w)) (aw_buckets w) k c r);
          w' = w\<lparr> aw_buckets := snd (check_bucket (w_now (aw_auth w)) (aw_buckets w) k c r) \<rparr>
      in if \<not> rate_limit_enabled (ev_settings env) then (Inr (), w)
         else if allowed d then (Inr (), w') else (Inl (Rate_Limited (retry_after_seconds d)), w'))"
  by (simp add: check_general_rate_limit_def sbind_def limiter_check_eq raise_if_blocked_def Let_def del: check_bucket_simps)

lemma login_keys_differ: "login_key n \<noteq> ip_key ''login:ip:'' env rq" "login_key n \<noteq> ip_key ''general:ip:'' env rq"
  "login_key n \<noteq> ip_key ''register:ip:'' env rq" "login_key n \<noteq> ip_key ''refresh:ip:'' env rq" "login_key n \<noteq> query_key u"
  by (simp_all add: login_key_def ip_key_def query_key_def)

lemma check_bucket_other: "k' \<noteq> k \<Longrightarrow> snd (check_bucket t s k c r) k' = s k'"
  by (rule bucket_rl.check_frame)

text \<open>The login limit touches the bucket of the login name once, and passes only when that bucket admits.\<close>

lemma check_login_bucket:
  fixes w :: "'w api_world"
  assumes "rate_limit_enabled (ev_settings env)" "get_attempted_username rq = Some n" "n \<noteq> []"
    and "check_login_rate_limit env rq w = (x :: 'e api_error + unit, w')"
  defines "c \<equiv> rate_limit_login_per_minute (ev_settings env)"
  shows "aw_buckets w' (login_key n) = snd (check_bucket (w_now (aw_auth w)) (aw_buckets w) (login_key n) c (real_of_int c / 60)) (login_key n)"
    and "x = Inr () \<Longrightarrow> allowed (fst (check_bucket (w_now (aw_auth w)) (aw_buckets w) (login_key n) c (real_of_int c / 60)))"
proof -
  let ?r = "real_of_int c / 60"
  define w1 where "w1 = w\<lparr> aw_buckets := snd (check_bucket (w_now (aw_auth w)) (aw_buckets w) (ip_key ''login:ip:'' env rq) c ?r) \<rparr>"
  have w1: "aw_buckets w1 (login_key n) = aw_buckets w (login_key n)" "aw_auth w1 = aw_auth w"
    by (simp_all add: w1_def check_bucket_other login_keys_differ)
  define d where "d = fst (check_bucket (w_now (aw_auth w1)) (aw_buckets w1) (login_key n) c ?r)"
  have run: "w' = w1\<lparr> aw_buckets := snd (check_bucket (w_now (aw_auth w1)) (aw_buckets w1) (login_key n) c ?r) \<rparr> \<and>
      (x = Inr () \<longrightarrow> allowed d)"
    using assms(1-4)
    by (auto simp: check_login_rate_limit_def sbind_def limiter_check_eq raise_if_blocked_def next_where_def
        w1_def d_def c_def login_key_def Let_def simp del: check_bucket_simps split: if_splits)
  show "aw_buckets w' (login_key n) = snd (check_bucket (w_now (aw_auth w)) (aw_buckets w) (login_key n) c ?r) (login_key n)"
    using run w1 by simp
  show "allowed (fst (check_bucket (w_now (aw_auth w)) (aw_buckets w) (login_key n) c ?r))" if "x = Inr ()"
    using run w1 that by (simp add: d_def)
qed

abbreviation login_bucket :: "string \<Rightarrow> 'w api_world \<Rightarrow> bucket option" where
  "login_bucket n \<equiv> \<lambda>w. aw_buckets w (login_key n)"

lemma limits_keep_login_bucket [preserve_intros]:
  "preserves (login_bucket n) (check_general_rate_limit env rq)"
  "preserves (login_bucket n) (check_register_rate_limit env rq)"
  "preserves (login_bucket n) (check_refresh_rate_limit env rq)"
  "preserves (login_bucket n) (check_query_rate_limit env u)"
  unfolding check_general_rate_limit_def check_register_rate_limit_def check_refresh_rate_limit_def
    check_query_rate_limit_def Let_def
  by (intro preserve_intros login_keys_differ)+

lemma other_login_keeps_bucket:
  assumes "get_attempted_username rq \<noteq> Some n"
  shows "preserves (login_bucket n) (check_login_rate_limit env rq)"
proof -
  have "login_key n \<noteq> ''login:username:'' @ m" if "get_attempted_username rq = Some m" for m
    using assms that by (auto simp: login_key_def)
  then show ?thesis unfolding check_login_rate_limit_def Let_def
    by (auto split: option.splits if_splits intro!: preserve_intros login_keys_differ)
qed

lemma preserves_run_route:
  fixes d :: "('w, 'v, 'd) route_op"
  assumes "preserves f (check_general_rate_limit env rq :: ('w, 'v, unit) route_op)" "preserves f d"
    and "\<And>x q. preserves f (h x q)"
  shows "preserves f (run_route env rq b d h)"
  unfolding run_route_def using assms by (cases b) (auto intro!: preserve_intros)

lemma handlers_keep_bucket [preserve_intros]:
  "preserves (login_bucket n) (register_handler env rq q1)" "preserves (login_bucket n) (login_handler env rq q2)"
  "preserves (login_bucket n) (refresh_handler env rq t)" "preserves (login_bucket n) (logout_handler env rq t)"
  "preserves (login_bucket n) (create_api_key_handler env rq u q3)"
  "preserves (login_bucket n) (revoke_api_key_handler env rq u i)"
  "preserves (login_bucket n) (query_dependencies env rq)"
  unfolding register_handler_def login_handler_def refresh_handler_def logout_handler_def
    create_api_key_handler_def revoke_api_key_handler_def query_dependencies_def
  by (intro preserve_intros)+

lemma other_calls_keep_bucket:
  assumes "\<And>b. call = Call_Login b \<Longrightarrow> get_attempted_username rq \<noteq> Some n"
  shows "preserves (login_bucket n) (api_route env rq call)"
  using assms
  unfolding api_route_def returning_def register_route_def login_route_def refresh_route_def
    logout_route_def me_route_def create_api_key_route_def list_api_keys_route_def revoke_api_key_route_def query_route_def
  by (cases call) (auto intro!: preserve_intros preserves_run_route other_login_keeps_bucket)

lemma handle_exception_buckets: "handle_exception env xt rq e w = (h, w') \<Longrightarrow> aw_buckets w' = aw_buckets w"
  by (auto simp: handle_exception_def handle_mapped_exception_def handle_pipeline_execution_error_def audit_failure_if_relevant_def
      handle_rate_limit_exceeded_def log_and_respond_def Let_def case_prod_beta
      split: api_error.splits option.splits pipeline_exception.splits delay.splits)

lemma serve_buckets:
  fixes route :: "('w, 'v, 'a) route_op"
  assumes "route (snd (request_ids env rq w)) = (r, w2)"
  shows "aw_buckets (snd (serve env xt rq s route w)) = aw_buckets w2"
proof -
  obtain resp w' where sv: "serve env xt rq s route w = (resp, w')" by (metis surj_pair)
  show ?thesis using serve_outcome [OF sv assms] sv
    by (auto split: sum.splits prod.splits option.splits dest: handle_exception_buckets)
qed

lemma login_route_bucket:
  fixes b :: "(string \<times> string) body_reading" and w :: "'w api_world"
  assumes en: "rate_limit_enabled (ev_settings env)" and n: "n \<noteq> []" and name: "get_attempted_username rq = Some n"
    and run: "login_route env rq b w = (r :: 'v pipeline_exception api_error + token_pair, w2)"
  defines "c \<equiv> rate_limit_login_per_minute (ev_settings env)"
  defines "chk \<equiv> check_bucket (w_now (aw_auth w)) (aw_buckets w) (login_key n) c (real_of_int c / 60)"
  defines "gate \<equiv> sbind (check_general_rate_limit env rq) (\<lambda>_. check_login_rate_limit env rq) w
    :: ('v pipeline_exception api_error + unit) \<times> 'w api_world"
  shows "aw_buckets w2 (login_key n) = aw_buckets w (login_key n) \<and> ((\<exists>e. b = Malformed e) \<or> (\<exists>e. fst gate = Inl e)) \<or>
    aw_buckets w2 (login_key n) = snd chk (login_key n) \<and> (fst gate = Inr () \<longrightarrow> allowed (fst chk))"
proof (cases "\<exists>e. b = Malformed e")
  case True
  then show ?thesis using run by (auto simp: login_route_def run_route_def)
next
  case False
  let ?g = "check_general_rate_limit env rq :: ('w, 'v, unit) route_op"
  let ?d = "check_login_rate_limit env rq :: ('w, 'v, unit) route_op"
  let ?h = "(\<lambda>_. case b of Accepted q \<Rightarrow> login_handler env rq q | Rejected errors \<Rightarrow> sraise (Request_Invalid errors)
      | Malformed errors \<Rightarrow> sraise (Request_Invalid errors)) :: unit \<Rightarrow> ('w, 'v, token_pair) route_op"
  have bind: "sbind ?g (\<lambda>_. sbind ?d ?h) w = (r, w2)"
    using run False by (cases b) (auto simp: login_route_def run_route_def)
  obtain g w1 where g: "?g w = (g, w1)" by (metis surj_pair)
  have w1: "aw_buckets w1 (login_key n) = aw_buckets w (login_key n)" "aw_auth w1 = aw_auth w"
    using preservesD [OF limits_keep_login_bucket(1) g] preservesD [OF preserves_limits(2) g] by auto
  show ?thesis
  proof (cases g)
    case (Inl e)
    with g bind w1 show ?thesis by (auto simp: gate_def sbind_def)
  next
    case (Inr x)
    obtain y w3 where d: "?d w1 = (y, w3)" by (metis surj_pair)
    have gate: "fst gate = y" using g Inr d by (simp add: gate_def sbind_def)
    have h: "preserves (login_bucket n) (?h z)" for z by (cases b) (auto intro!: preserve_intros)
    have "aw_buckets w2 (login_key n) = aw_buckets w3 (login_key n)"
      using bind g Inr d preservesD [OF h] by (auto simp: sbind_def split: sum.splits)
    moreover have "aw_buckets w3 (login_key n) = snd chk (login_key n)" "y = Inr () \<longrightarrow> allowed (fst chk)"
      using check_login_bucket [OF en name n d] w1 by (auto simp: chk_def c_def)
    ultimately show ?thesis using gate by simp
  qed
qed

text \<open>One request: either the bucket of the login name is untouched and there is no guess, or it is checked once.\<close>

lemma serve_login_bucket:
  fixes call :: "('w, 'v, 'a) api_call" and w :: "'w api_world" and xt :: exception_texts
  assumes en: "rate_limit_enabled (ev_settings env)" and n: "n \<noteq> []" and rd: "reads_body (t, rq, call)"
  defines "c \<equiv> rate_limit_login_per_minute (ev_settings env)"
  defines "chk \<equiv> check_bucket (w_now (aw_auth w)) (aw_buckets w) (login_key n) c (real_of_int c / 60)"
  defines "w' \<equiv> snd (serve_call env xt rq call w)"
  shows "aw_buckets w' (login_key n) = aw_buckets w (login_key n) \<and> guess env n rq call w = 0 \<or>
    aw_buckets w' (login_key n) = snd chk (login_key n) \<and> guess env n rq call w \<le> (if allowed (fst chk) then 1 else 0)"
proof -
  let ?w1 = "snd (request_ids env rq w)"
  obtain r w2 where route: "api_route env rq call ?w1 = (r, w2)" by (metis surj_pair)
  have w': "aw_buckets w' (login_key n) = aw_buckets w2 (login_key n)"
    using serve_buckets [of "api_route env rq call" env rq w r w2 xt "success_status call"] route
    by (simp add: w'_def serve_call_def)
  show ?thesis
  proof (cases "\<exists>b. call = Call_Login b \<and> get_attempted_username rq = Some n")
    case False
    then have "preserves (login_bucket n) (api_route env rq call)" by (intro other_calls_keep_bucket) auto
    from preservesD [OF this route] have "aw_buckets w' (login_key n) = aw_buckets w (login_key n)" by (simp add: w')
    moreover have "guess env n rq call w = 0"
      using False rd by (auto simp: guess_def reads_body_def split: api_call.splits body_reading.splits)
    ultimately show ?thesis by simp
  next
    case True
    then obtain b where call: "call = Call_Login b" and name: "get_attempted_username rq = Some n" by auto
    obtain r' where lr: "login_route env rq b ?w1 = (r' :: 'v pipeline_exception api_error + token_pair, w2)"
      using route by (auto simp: call api_route_def returning_def sbind_def split: prod.splits sum.splits)
    show ?thesis
      using login_route_bucket [OF en n name lr]
      by (auto simp: w' call guess_def chk_def c_def split: body_reading.splits prod.splits sum.splits)
  qed
qed

lemma at_time [simp]:
  "aw_buckets (w\<lparr> aw_auth := a \<rparr>) = aw_buckets w" "w_now (aw_auth (w\<lparr> aw_auth := (aw_auth w)\<lparr> w_now := t \<rparr> \<rparr>)) = t"
  by simp_all

lemma guesses_from:
  fixes calls :: "(datetime \<times> http_request \<times> ('w, 'v, 'a) api_call) list" and w :: "'w api_world"
  assumes "rate_limit_enabled (ev_settings env)" "n \<noteq> []" "rate_limit_login_per_minute (ev_settings env) = c" "0 \<le> c"
    and "list_all reads_body calls" "sorted (t0 # map fst calls)" "list_all (\<lambda>x. fst x \<le> T) calls" "t0 \<le> T"
    and "bucket_inv c t0 (aw_buckets w (login_key n))"
  shows "real (guesses env xt n calls w) \<le> level c (real_of_int c / 60) t0 (aw_buckets w (login_key n)) + real_of_int c / 60 * total_seconds (T - t0)"
  using assms(5-)
proof (induction calls arbitrary: t0 w)
  case Nil
  then show ?case using assms(4) by (auto intro!: add_nonneg_nonneg level_nonneg mult_nonneg_nonneg total_seconds_nonneg)
next
  case (Cons x calls)
  obtain t rq call where x: "x = (t, rq, call)" by (cases x)
  let ?k = "login_key n" and ?r = "real_of_int c / 60"
  define v where "v = w\<lparr> aw_auth := (aw_auth w)\<lparr> w_now := t \<rparr> \<rparr>"
  define w1 where "w1 = snd (serve_call env xt rq call v)"
  have v: "aw_buckets v = aw_buckets w" "w_now (aw_auth v) = t" by (simp_all add: v_def)
  have r: "0 \<le> ?r" using assms(4) by simp
  have t: "t0 \<le> t" "t \<le> T" and rd: "reads_body (t, rq, call)" using Cons.prems x by auto
  have inv: "bucket_inv c t (aw_buckets v ?k)" using Cons.prems(5) t(1) bucket_inv_later v by simp
  have step: "bucket_inv c t (aw_buckets w1 ?k) \<and>
      real (guess env n rq call v) + level c ?r t (aw_buckets w1 ?k) \<le> level c ?r t (aw_buckets v ?k)"
    using serve_login_bucket [OF assms(1,2) rd, where w = v and xt = xt] check_level [of c t "aw_buckets v" ?k ?r] inv assms(3,4) r
    unfolding v(2) w1_def by (auto split: if_splits)
  have "real (guesses env xt n calls w1) \<le> level c ?r t (aw_buckets w1 ?k) + ?r * total_seconds (T - t)"
    using Cons.prems x t(2) step by (intro Cons.IH) auto
  moreover have "guesses env xt n (x # calls) w = guess env n rq call v + guesses env xt n calls w1"
    by (simp add: x v_def w1_def Let_def)
  moreover have "level c ?r t (aw_buckets v ?k) \<le> level c ?r t0 (aw_buckets w ?k) + ?r * total_seconds (t - t0)"
    using level_later [OF t(1) r] v by simp
  moreover have "?r * total_seconds (T - t0) = ?r * total_seconds (t - t0) + ?r * total_seconds (T - t)"
    by (simp flip: distrib_left total_seconds_add)
  ultimately show ?case using step by linarith
qed

text \<open>
  C20. Password guesses are bounded: whatever else the service is asked, and from however many addresses,
  the login requests for one login name whose password is compared between \<open>t0\<close> and \<open>T\<close> number at most
  the configured limit plus one sixtieth of it per second, when limits are enabled and the clock does
  not go back.
\<close>

theorem login_guesses_bounded:
  assumes "rate_limit_enabled (ev_settings env)" "0 \<le> rate_limit_login_per_minute (ev_settings env)"
    and "n \<noteq> []" "aw_buckets w (login_key n) = None" "list_all reads_body calls"
    and "sorted (t0 # map fst calls)" "list_all (\<lambda>x. fst x \<le> T) calls" "t0 \<le> T"
  shows "real (guesses env xt n calls w) \<le>
    real_of_int (rate_limit_login_per_minute (ev_settings env)) * (1 + total_seconds (T - t0) / 60)"
proof -
  have "real (guesses env xt n calls w) \<le> level (rate_limit_login_per_minute (ev_settings env))
      (real_of_int (rate_limit_login_per_minute (ev_settings env)) / 60) t0 (aw_buckets w (login_key n)) +
      real_of_int (rate_limit_login_per_minute (ev_settings env)) / 60 * total_seconds (T - t0)"
    using assms by (intro guesses_from) (auto simp: bucket_inv_def)
  then show ?thesis by (simp add: assms(4) level_def algebra_simps)
qed

definition demo_settings :: settings where
  "demo_settings = \<lparr> trust_proxy_headers = False, rate_limit_enabled = True, rate_limit_general_per_minute = 300,
     rate_limit_login_per_minute = 1, rate_limit_register_per_hour = 3, rate_limit_refresh_per_minute = 20,
     rate_limit_query_per_minute = 30, is_production = False, api_v1_prefix = ''/api/v1'' \<rparr>"

definition demo_env :: api_env where
  "demo_env = \<lparr> ev_crypto = demo_crypto, ev_config = demo_config, ev_settings = demo_settings,
     ev_audit_accepts = (\<lambda>_ _. True), ev_uuid4 = str_nat \<rparr>"

definition demo_server :: "unit api_world" where
  "demo_server = \<lparr> aw_auth = demo_world, aw_buckets = Map.empty, aw_audit = [], aw_log = [],
     aw_state = \<lparr> st_request_id = None, st_correlation_id = None, st_user = None \<rparr>, aw_app = () \<rparr>"

definition demo_texts :: exception_texts where
  "demo_texts = \<lparr> xt_auth = auth_error_name, xt_stage = (\<lambda>_. ''error''), xt_stage_class = (\<lambda>_. ''Exception''),
     xt_configuration = (\<lambda>_. ''configuration'') \<rparr>"

definition demo_login :: "string \<Rightarrow> http_request" where
  "demo_login ip = \<lparr> hr_method = ''POST'', hr_path = ''/api/v1/auth/login'', hr_headers = [], hr_client_host = Some ip,
     hr_json = Some (JObj [(''username'', JStr ''bob''), (''password'', JStr ''pw'')]), hr_bearer = None, hr_api_key = None \<rparr>"

definition demo_guess :: "(unit, int, unit) api_call" where
  "demo_guess = Call_Login (Accepted (''bob'', ''pw''))"

lemma demo_first_guess: "guess demo_env ''bob'' (demo_login ''10.0.0.1'') demo_guess demo_server = 1"
  by (simp add: guess_def demo_guess_def general_limit_eq check_login_rate_limit_def sbind_def limiter_check_eq
      next_where_def get_attempted_username_def demo_env_def demo_settings_def demo_login_def demo_server_def
      request_ids_def get_header_def ip_key_def get_client_ip_def refill_def take_token_def check_bucket_def Let_def)

abbreviation demo_calls :: "(datetime \<times> http_request \<times> (unit, int, unit) api_call) list" where
  "demo_calls \<equiv> [(0, demo_login ''10.0.0.1'', demo_guess), (0, demo_login ''10.0.0.2'', demo_guess)]"

theorem login_guesses_bounded_witness:
  "guess demo_env ''bob'' (demo_login ''10.0.0.1'') demo_guess demo_server = 1 \<and>
   guesses demo_env demo_texts ''bob'' demo_calls demo_server \<le> 1"
proof -
  have limits: "rate_limit_enabled (ev_settings demo_env)" "rate_limit_login_per_minute (ev_settings demo_env) = 1"
    by (simp_all add: demo_env_def demo_settings_def)
  have none: "aw_buckets demo_server (login_key ''bob'') = None" by (simp add: demo_server_def)
  have body: "list_all reads_body demo_calls"
    by (simp add: reads_body_def demo_guess_def demo_login_def get_attempted_username_def)
  have "real (guesses demo_env demo_texts ''bob'' demo_calls demo_server) \<le> 1"
    using login_guesses_bounded [OF limits(1) _ _ none body, of 0 0 demo_texts] limits(2)
    by (simp add: total_seconds_def del: guesses.simps)
  then show ?thesis using demo_first_guess by (simp del: guesses.simps)
qed

section \<open>The delay a refused client is told\<close>

lemma refused_response:
  "\<exists>w2. handle_exception env xt rq (Rate_Limited (Seconds x)) w =
     (Some \<lparr> rsp_status = 429, rsp_headers = [(''retry-after'', str_int (max 1 \<lceil>x\<rceil>))],
             rsp_body = Error_Response ''Too many requests. Please slow down and try again shortly.'' ''RateLimitExceededError'' \<rparr>, w2)"
  by (simp add: handle_exception_def handle_rate_limit_exceeded_def log_and_respond_def set_header_def Let_def)

text \<open>
  The limits of the service with the buckets they check, their capacity and the period in which a
  bucket refills; the login limit checks a bucket of the address and one of the attempted name.
\<close>

datatype rate_limit = Limit_General | Limit_Login | Limit_Register | Limit_Refresh | Limit_Query user_read

fun check_limit :: "rate_limit \<Rightarrow> api_env \<Rightarrow> http_request \<Rightarrow> ('w, 'e, unit) api_op" where
  "check_limit Limit_General env rq = check_general_rate_limit env rq"
| "check_limit Limit_Login env rq = check_login_rate_limit env rq"
| "check_limit Limit_Register env rq = check_register_rate_limit env rq"
| "check_limit Limit_Refresh env rq = check_refresh_rate_limit env rq"
| "check_limit (Limit_Query u) env rq = check_query_rate_limit env u"

fun limit_capacity :: "rate_limit \<Rightarrow> settings \<Rightarrow> int" where
  "limit_capacity Limit_General st = rate_limit_general_per_minute st"
| "limit_capacity Limit_Login st = rate_limit_login_per_minute st"
| "limit_capacity Limit_Register st = rate_limit_register_per_hour st"
| "limit_capacity Limit_Refresh st = rate_limit_refresh_per_minute st"
| "limit_capacity (Limit_Query u) st = rate_limit_query_per_minute st"

fun limit_period :: "rate_limit \<Rightarrow> real" where
  "limit_period Limit_Register = 3600"
| "limit_period _ = 60"

fun limit_keys :: "rate_limit \<Rightarrow> api_env \<Rightarrow> http_request \<Rightarrow> string list" where
  "limit_keys Limit_General env rq = [ip_key ''general:ip:'' env rq]"
| "limit_keys Limit_Login env rq = ip_key ''login:ip:'' env rq #
     (case get_attempted_username rq of None \<Rightarrow> [] | Some n \<Rightarrow> if n = [] then [] else [login_key n])"
| "limit_keys Limit_Register env rq = [ip_key ''register:ip:'' env rq]"
| "limit_keys Limit_Refresh env rq = [ip_key ''refresh:ip:'' env rq]"
| "limit_keys (Limit_Query u) env rq = [query_key u]"

definition bucket_check :: "rate_limit \<Rightarrow> api_env \<Rightarrow> datetime \<Rightarrow> buckets \<Rightarrow> string \<Rightarrow> rate_limit_decision \<times> buckets" where
  "bucket_check L env now buckets k = check_bucket now buckets k (limit_capacity L (ev_settings env))
     (real_of_int (limit_capacity L (ev_settings env)) / limit_period L)"

definition admits :: "rate_limit \<Rightarrow> api_env \<Rightarrow> datetime \<Rightarrow> buckets \<Rightarrow> string \<Rightarrow> bool" where
  "admits L env now buckets k = allowed (fst (bucket_check L env now buckets k))"

lemma check_bucket_local: "s' k = s k \<Longrightarrow> fst (check_bucket t s' k c r) = fst (check_bucket t s k c r)
    \<and> snd (check_bucket t s' k c r) k = snd (check_bucket t s k c r) k"
  by (simp add: check_bucket_def Let_def split: prod.split)

text \<open>The checks of a limit: the first bucket that does not admit the request refuses it.\<close>

lemma single_limit:
  assumes "limit_keys L env rq = [k]" "rate_limit_enabled (ev_settings env)"
  shows "check_limit L env rq w = (case bucket_check L env (w_now (aw_auth w)) (aw_buckets w) k of (d, s') \<Rightarrow>
    (if allowed d then Inr () else Inl (Rate_Limited (retry_after_seconds d)), w\<lparr> aw_buckets := s' \<rparr>))"
  using assms
  by (cases L) (auto simp: check_general_rate_limit_def check_login_rate_limit_def check_register_rate_limit_def
      check_refresh_rate_limit_def check_query_rate_limit_def bucket_check_def sbind_def limiter_check_eq
      raise_if_blocked_def next_where_def case_prod_beta Let_def simp del: check_bucket_simps split: option.splits if_splits)

lemma limit_refusal:
  assumes en: "rate_limit_enabled (ev_settings env)" and run: "check_limit L env rq w = (Inl e :: 'e api_error + unit, w1)"
  defines "chk \<equiv> bucket_check L env (w_now (aw_auth w)) (aw_buckets w)"
  shows "aw_auth w1 = aw_auth w \<and> (\<exists>k. next_where (\<lambda>k. \<not> admits L env (w_now (aw_auth w)) (aw_buckets w) k) (limit_keys L env rq) = Some k \<and>
    e = Rate_Limited (retry_after_seconds (fst (chk k))) \<and> aw_buckets w1 k = snd (chk k) k)"
proof (cases "\<exists>k. limit_keys L env rq = [k]")
  case True
  then obtain k where k: "limit_keys L env rq = [k]" ..
  show ?thesis using run unfolding single_limit [OF k en] k
    by (auto simp: chk_def admits_def next_where_def split: prod.splits if_splits)
next
  case False
  then obtain n where L: "L = Limit_Login" and n: "get_attempted_username rq = Some n" "n \<noteq> []"
    by (cases L) (auto split: option.splits if_splits)
  let ?ip = "ip_key ''login:ip:'' env rq"
  have other: "fst (bucket_check L env t (snd (chk ?ip)) (login_key n)) = fst (bucket_check L env t (aw_buckets w) (login_key n))"
      "snd (bucket_check L env t (snd (chk ?ip)) (login_key n)) (login_key n) = snd (bucket_check L env t (aw_buckets w) (login_key n)) (login_key n)"
      "snd (bucket_check L env t s (login_key n)) ?ip = s ?ip" for t s
    using check_bucket_local [of "snd (chk ?ip)" "login_key n" "aw_buckets w"] login_keys_differ(1) [of n env rq]
    by (auto simp: chk_def bucket_check_def check_bucket_other simp del: check_bucket_simps)
  have run': "check_limit L env rq w = (let (d1, s1) = chk ?ip; (d2, s2) = bucket_check L env (w_now (aw_auth w)) s1 (login_key n)
      in (case next_where (\<lambda>d. \<not> allowed d) [d1, d2] of Some d \<Rightarrow> Inl (Rate_Limited (retry_after_seconds d)) | None \<Rightarrow> Inr (),
          w\<lparr> aw_buckets := s2 \<rparr>))"
    using en n by (simp add: L check_login_rate_limit_def sbind_def limiter_check_eq raise_if_blocked_def next_where_def
        chk_def bucket_check_def login_key_def case_prod_beta Let_def del: check_bucket_simps)
  show ?thesis using run n unfolding run'
    by (auto simp: L next_where_def admits_def chk_def case_prod_beta other [unfolded L chk_def] Let_def split: if_splits)
qed

text \<open>The delay of a refusing bucket, rounded up to whole seconds, is enough for that bucket.\<close>

lemma bucket_told:
  assumes "\<not> admits L env now s k" "0 < limit_capacity L (ev_settings env)"
    and before: "\<And>bk. s k = Some bk \<Longrightarrow> last_refill bk \<le> now" and s': "s' k = snd (bucket_check L env now s k) k"
  shows "\<exists>x. retry_after_seconds (fst (bucket_check L env now s k)) = Seconds x \<and> admits L env (now + max 1 \<lceil>x\<rceil> * 1000000) s' k"
proof -
  let ?c = "limit_capacity L (ev_settings env)" let ?r = "real_of_int ?c / limit_period L"
  obtain d t where chk: "check_bucket now s k ?c ?r = (d, t)" by (metis surj_pair)
  have d: "\<not> allowed d" using assms(1) chk by (simp add: admits_def bucket_check_def del: check_bucket_simps)
  have r: "0 < ?r" using assms(2) by (cases L) simp_all
  obtain x where x: "retry_after_seconds d = Seconds x"
    using chk d r by (auto simp: check_bucket_def take_token_def Let_def split: if_splits)
  have "x \<le> real_of_int \<lceil>x\<rceil>" by (rule le_of_int_ceiling)
  also have "\<dots> \<le> real_of_int (max 1 \<lceil>x\<rceil>)" by simp
  finally have wait: "x \<le> total_seconds (now + max 1 \<lceil>x\<rceil> * 1000000 - now)" by (simp add: total_seconds_def)
  have c: "1 \<le> ?c" using assms(2) by simp
  from retry_after_suffices [OF chk d x c before wait]
  have "allowed (fst (check_bucket (now + max 1 \<lceil>x\<rceil> * 1000000) t k ?c ?r))" .
  moreover have "s' k = t k" using s' chk by (simp add: bucket_check_def del: check_bucket_simps)
  ultimately have "admits L env (now + max 1 \<lceil>x\<rceil> * 1000000) s' k"
    using check_bucket_local [of s' k t] by (simp add: admits_def bucket_check_def del: check_bucket_simps)
  with x chk show ?thesis by (simp add: bucket_check_def del: check_bucket_simps)
qed

text \<open>
  C21. A client that any of the limits refuses (the general one, login, registration, refresh or
  query) is told when to come back: the response is 429 with a whole number of seconds, at least
  one, in \<open>Retry-After\<close>; it is the delay, rounded up, of the first bucket of that limit that does not
  admit the request, and that bucket admits a request after so many seconds when none came in between. Where
  the limit has one bucket, which is every case but a login with a user name, the whole check then
  passes. Limits are enabled and positive, and the clock has not gone back.
\<close>

theorem refused_client_told_delay:
  fixes w :: "'w api_world"
  assumes "rate_limit_enabled (ev_settings env)" "0 < limit_capacity L (ev_settings env)"
    and "\<And>k bk. k \<in> set (limit_keys L env rq) \<Longrightarrow> aw_buckets w k = Some bk \<Longrightarrow> last_refill bk \<le> w_now (aw_auth w)"
    and "check_limit L env rq w = (Inl e :: 'v pipeline_exception api_error + unit, w1)"
  shows "\<exists>n resp w2 k x. handle_exception env xt rq e w1 = (Some resp :: 'b http_response option, w2) \<and> rsp_status resp = 429 \<and>
    map_of (rsp_headers resp) ''retry-after'' = Some (str_int n) \<and> 1 \<le> n \<and>
    next_where (\<lambda>k. \<not> admits L env (w_now (aw_auth w)) (aw_buckets w) k) (limit_keys L env rq) = Some k \<and>
    retry_after_seconds (fst (bucket_check L env (w_now (aw_auth w)) (aw_buckets w) k)) = Seconds x \<and> n = max 1 \<lceil>x\<rceil> \<and>
    admits L env (w_now (aw_auth w) + n * 1000000) (aw_buckets w1) k \<and>
    (limit_keys L env rq = [k] \<longrightarrow> fst (check_limit L env rq
       (w1\<lparr> aw_auth := (aw_auth w1)\<lparr> w_now := w_now (aw_auth w1) + n * 1000000 \<rparr> \<rparr>)) = (Inr () :: 'v pipeline_exception api_error + unit))"
proof -
  let ?now = "w_now (aw_auth w)"
  obtain k where k: "next_where (\<lambda>k. \<not> admits L env ?now (aw_buckets w) k) (limit_keys L env rq) = Some k"
    and e: "e = Rate_Limited (retry_after_seconds (fst (bucket_check L env ?now (aw_buckets w) k)))"
    and w1: "aw_buckets w1 k = snd (bucket_check L env ?now (aw_buckets w) k) k" "aw_auth w1 = aw_auth w"
    using limit_refusal [OF assms(1,4)] by blast
  have no: "\<not> admits L env ?now (aw_buckets w) k" "k \<in> set (limit_keys L env rq)" using next_where_Some [OF k] by auto
  obtain x where x: "retry_after_seconds (fst (bucket_check L env ?now (aw_buckets w) k)) = Seconds x"
    and ok: "admits L env (?now + max 1 \<lceil>x\<rceil> * 1000000) (aw_buckets w1) k"
    using bucket_told [where L = L and env = env and now = ?now and s = "aw_buckets w" and k = k and s' = "aw_buckets w1",
        OF no(1) assms(2) _ w1(1)] assms(3) [OF no(2)] by blast
  obtain resp w2 where resp: "handle_exception env xt rq e w1 = (Some resp :: 'b http_response option, w2)"
      "rsp_status resp = 429" "map_of (rsp_headers resp) ''retry-after'' = Some (str_int (max 1 \<lceil>x\<rceil>))"
    unfolding e x using refused_response [of env xt rq x w1] by fastforce
  have "fst (check_limit L env rq (w1\<lparr> aw_auth := (aw_auth w1)\<lparr> w_now := w_now (aw_auth w1) + max 1 \<lceil>x\<rceil> * 1000000 \<rparr> \<rparr>))
      = (Inr () :: 'v pipeline_exception api_error + unit)" if "limit_keys L env rq = [k]"
    unfolding single_limit [OF that assms(1)] using ok by (simp add: admits_def w1(2) case_prod_beta)
  with resp k x ok show ?thesis by (intro exI [of _ "max 1 \<lceil>x\<rceil>"] exI [of _ resp] exI [of _ w2] exI [of _ k] exI [of _ x]) simp
qed

definition drained_server :: "unit api_world" where
  "drained_server = demo_server\<lparr> aw_buckets := Map.empty(query_key (read_user demo_user) \<mapsto> \<lparr> tokens = 0, last_refill = w_now demo_world \<rparr>) \<rparr>"

definition tired_server :: "unit api_world" where
  "tired_server = demo_server\<lparr> aw_buckets := Map.empty(login_key ''bob'' \<mapsto> \<lparr> tokens = 9/10, last_refill = w_now demo_world \<rparr>) \<rparr>"

theorem refused_client_told_delay_witness:
  "\<exists>n resp w2. handle_exception demo_env demo_texts (demo_login ''10.0.0.1'') (Rate_Limited (Seconds 2) :: int pipeline_exception api_error) drained_server
      = (Some resp :: unit http_response option, w2) \<and> rsp_status resp = 429 \<and>
    map_of (rsp_headers resp) ''retry-after'' = Some (str_int n) \<and> 1 \<le> n \<and>
    fst (check_query_rate_limit demo_env (read_user demo_user)
      (drained_server\<lparr> aw_auth := (aw_auth drained_server)\<lparr> w_now := w_now (aw_auth drained_server) + n * 1000000 \<rparr> \<rparr>))
      = (Inr () :: int pipeline_exception api_error + unit)"
proof -
  have run: "check_limit (Limit_Query (read_user demo_user)) demo_env (demo_login ''10.0.0.1'') drained_server =
      (Inl (Rate_Limited (Seconds 2)) :: int pipeline_exception api_error + unit, drained_server)"
    by (simp add: check_query_rate_limit_def sbind_def limiter_check_eq raise_if_blocked_def drained_server_def
        demo_server_def demo_env_def demo_settings_def check_bucket_def refill_def take_token_def Let_def)
  have limits: "rate_limit_enabled (ev_settings demo_env)" "0 < limit_capacity (Limit_Query (read_user demo_user)) (ev_settings demo_env)"
    by (simp_all add: demo_env_def demo_settings_def)
  have before: "last_refill bk \<le> w_now (aw_auth drained_server)"
    if "k \<in> set (limit_keys (Limit_Query (read_user demo_user)) demo_env (demo_login ''10.0.0.1''))" "aw_buckets drained_server k = Some bk" for k bk
    using that by (auto simp: drained_server_def demo_server_def)
  have "next_where P [k] = Some x \<Longrightarrow> k = x" for P and k x :: string by (auto simp: next_where_def split: if_splits)
  with refused_client_told_delay [where xt = demo_texts, OF limits before run] show ?thesis by fastforce
qed

text \<open>
  With both buckets of a login the delay told need not be enough: the refused attempt also spends the
  token of the bucket of the address, so a client that waits as told is refused once more.
\<close>

lemma login_delay_too_short:
  "\<exists>w1. check_login_rate_limit demo_env (demo_login ''10.0.0.1'') tired_server = (Inl (Rate_Limited (Seconds 6)) :: int pipeline_exception api_error + unit, w1) \<and>
     fst (check_login_rate_limit demo_env (demo_login ''10.0.0.1'')
       (w1\<lparr> aw_auth := (aw_auth w1)\<lparr> w_now := w_now (aw_auth w1) + 6 * 1000000 \<rparr> \<rparr>)) \<noteq> (Inr () :: int pipeline_exception api_error + unit)"
  by (simp add: check_login_rate_limit_def sbind_def limiter_check_eq raise_if_blocked_def next_where_def get_attempted_username_def
      tired_server_def demo_login_def demo_server_def demo_env_def demo_settings_def ip_key_def get_client_ip_def
      login_key_def query_key_def refill_def take_token_def check_bucket_def total_seconds_def Let_def)

end
