(* ===== verification/Api_Audit.thy ===== *)
theory Api_Audit
  imports Api_Routes
begin

text \<open>
  The audit trail and the service: two operations are related when they agree on everything but the
  audit table and the log; every route is related to itself under any behaviour of the audit table.
\<close>

section \<open>The audit trail does not interfere\<close>

text \<open>The server without its audit table and log.\<close>

definition core :: "'w api_world \<Rightarrow> 'w api_world" where
  "core w = w\<lparr> aw_audit := [], aw_log := [] \<rparr>"

text \<open>Two operations that agree on everything but the audit trail.\<close>

definition blind :: "('w, 'e, 'a) api_op \<Rightarrow> ('w, 'e, 'a) api_op \<Rightarrow> bool" where
  "blind m m' \<longleftrightarrow> (\<forall>w w'. core w = core w' \<longrightarrow> fst (m w) = fst (m' w') \<and> core (snd (m w)) = core (snd (m' w')))"

lemma core_fields [simp]:
  "aw_auth (core w) = aw_auth w" "aw_buckets (core w) = aw_buckets w" "aw_state (core w) = aw_state w"
  "aw_app (core w) = aw_app w"
  by (simp_all add: core_def)

lemma core_eqD:
  assumes "core w = core w'"
  shows "aw_auth w = aw_auth w'" "aw_buckets w = aw_buckets w'" "aw_state w = aw_state w'" "aw_app w = aw_app w'"
  using assms core_fields by metis+

lemma core_eqI:
  "aw_auth w = aw_auth w' \<Longrightarrow> aw_buckets w = aw_buckets w' \<Longrightarrow> aw_state w = aw_state w' \<Longrightarrow> aw_app w = aw_app w' \<Longrightarrow>
   core w = core w'"
  by (cases w; cases w') (simp add: core_def)

named_theorems blind_intros \<open>operations that do not look at the audit trail\<close>

lemma blind_return [blind_intros]: "blind (sreturn x) (sreturn x)"
  by (simp add: blind_def)

lemma blind_raise [blind_intros]: "blind (sraise e) (sraise e)"
  by (simp add: blind_def)

lemma blind_bind [blind_intros]:
  assumes "blind m m'" "\<And>x. blind (f x) (f' x)"
  shows "blind (sbind m f) (sbind m' f')"
proof (unfold blind_def, intro allI impI)
  fix w w' :: "'a api_world" assume "core w = core w'"
  then have "fst (m w) = fst (m' w')" "core (snd (m w)) = core (snd (m' w'))"
    using assms(1) by (auto simp: blind_def)
  then show "fst (sbind m f w) = fst (sbind m' f' w') \<and> core (snd (sbind m f w)) = core (snd (sbind m' f' w'))"
    using assms(2) by (cases "m w"; cases "m' w'") (auto simp: sbind_def blind_def split: sum.splits)
qed

lemma blind_cases [blind_intros]:
  "\<lbrakk>blind a a'; \<And>x. blind (b x) (b' x)\<rbrakk> \<Longrightarrow> blind (case r of None \<Rightarrow> a | Some x \<Rightarrow> b x) (case r of None \<Rightarrow> a' | Some x \<Rightarrow> b' x)"
  "\<lbrakk>blind a a'; blind c c'\<rbrakk> \<Longrightarrow> blind (if p then a else c) (if p then a' else c')"
  "(\<And>x y. blind (g x y) (g' x y)) \<Longrightarrow> blind (case q of (x, y) \<Rightarrow> g x y) (case q of (x, y) \<Rightarrow> g' x y)"
  "\<lbrakk>\<And>e. blind (h e) (h' e); \<And>x. blind (k x) (k' x)\<rbrakk> \<Longrightarrow> blind (case s of Inl e \<Rightarrow> h e | Inr x \<Rightarrow> k x) (case s of Inl e \<Rightarrow> h' e | Inr x \<Rightarrow> k' x)"
  by (auto split: option.splits prod.splits sum.splits)

lemma blind_on_auth [blind_intros]: "blind (on_auth m) (on_auth m)"
proof (unfold blind_def, intro allI impI)
  fix w w' :: "'a api_world" assume "core w = core w'"
  note same = core_eqD [OF this]
  show "fst (on_auth m w) = fst (on_auth m w') \<and> core (snd (on_auth m w)) = core (snd (on_auth m w'))"
    using same by (auto simp: on_auth_def split: prod.splits intro!: core_eqI)
qed

lemma blind_on_app [blind_intros]: "blind (on_app f m) (on_app f m)"
proof (unfold blind_def, intro allI impI)
  fix w w' :: "'a api_world" assume "core w = core w'"
  note same = core_eqD [OF this]
  show "fst (on_app f m w) = fst (on_app f m w') \<and> core (snd (on_app f m w)) = core (snd (on_app f m w'))"
    using same by (auto simp: on_app_def split: prod.splits intro!: core_eqI)
qed

lemma blind_remember [blind_intros]: "blind (remember_user u) (remember_user u)"
proof (unfold blind_def, intro allI impI)
  fix w w' :: "'a api_world" assume "core w = core w'"
  note same = core_eqD [OF this]
  show "fst (remember_user u w) = fst (remember_user u w') \<and> core (snd (remember_user u w)) = core (snd (remember_user u w'))"
    using same by (auto simp: remember_user_def split: prod.splits intro!: core_eqI)
qed

lemma audit_record_core [simp]: "core (audit_record env r w) = core w"
  by (simp add: audit_record_def audit_create_def core_def Let_def split: prod.splits)

lemma blind_audit [blind_intros]: "blind (audit_event env rq t s a e) (audit_event env' rq t s a e)"
  by (simp add: blind_def audit_event_def)

text \<open>Environments that differ in what the audit table accepts only.\<close>

definition audit_variant :: "api_env \<Rightarrow> (world \<Rightarrow> audit_log \<Rightarrow> bool) \<Rightarrow> api_env" where
  "audit_variant env accepts = env\<lparr> ev_audit_accepts := accepts \<rparr>"

lemma audit_variant_fields [simp]:
  "ev_crypto (audit_variant env a) = ev_crypto env" "ev_config (audit_variant env a) = ev_config env"
  "ev_settings (audit_variant env a) = ev_settings env" "ev_uuid4 (audit_variant env a) = ev_uuid4 env"
  by (simp_all add: audit_variant_def)

lemma blind_limiter [blind_intros]: "blind (limiter_check env k c r) (limiter_check (audit_variant env a) k c r)"
proof (unfold blind_def, intro allI impI)
  fix w w' :: "'a api_world" assume "core w = core w'"
  note same = core_eqD [OF this]
  show "fst (limiter_check env k c r w) = fst (limiter_check (audit_variant env a) k c r w') \<and> core (snd (limiter_check env k c r w)) = core (snd (limiter_check (audit_variant env a) k c r w'))"
    using same by (auto simp: limiter_check_def split: prod.splits intro!: core_eqI)
qed

lemma blind_auth_result [blind_intros]: "blind (auth_result r) (auth_result r)"
  unfolding auth_result_def by (intro blind_intros)

lemma blind_if_blocked [blind_intros]: "blind (raise_if_blocked d) (raise_if_blocked d)"
  unfolding raise_if_blocked_def by (intro blind_intros)

lemma ip_key_variant [simp]: "ip_key s (audit_variant env a) rq = ip_key s env rq"
  by (simp add: ip_key_def)

lemma blind_limits [blind_intros]:
  "blind (check_general_rate_limit env rq) (check_general_rate_limit (audit_variant env a) rq)"
  "blind (check_login_rate_limit env rq) (check_login_rate_limit (audit_variant env a) rq)"
  "blind (check_register_rate_limit env rq) (check_register_rate_limit (audit_variant env a) rq)"
  "blind (check_refresh_rate_limit env rq) (check_refresh_rate_limit (audit_variant env a) rq)"
  "blind (check_query_rate_limit env u) (check_query_rate_limit (audit_variant env a) u)"
  unfolding check_general_rate_limit_def check_login_rate_limit_def check_register_rate_limit_def
    check_refresh_rate_limit_def check_query_rate_limit_def Let_def audit_variant_fields ip_key_variant
  by (intro blind_intros)+

lemma blind_jwt [blind_intros]: "blind (resolve_jwt_user env t) (resolve_jwt_user (audit_variant env a) t)"
  unfolding resolve_jwt_user_def audit_variant_fields by (intro blind_intros)

lemma blind_try [blind_intros]:
  assumes "blind m m'" "\<And>e. blind (h e) (h' e)" "\<And>x. blind (k x) (k' x)"
  shows "blind (try_else m h k) (try_else m' h' k')"
proof (unfold blind_def, intro allI impI)
  fix w w' :: "'a api_world" assume "core w = core w'"
  then have "fst (m w) = fst (m' w')" "core (snd (m w)) = core (snd (m' w'))"
    using assms(1) by (auto simp: blind_def)
  then show "fst (try_else m h k w) = fst (try_else m' h' k' w') \<and> core (snd (try_else m h k w)) = core (snd (try_else m' h' k' w'))"
    using assms(2,3) by (cases "m w"; cases "m' w'") (auto simp: try_else_def blind_def split: sum.splits)
qed

lemma blind_error_cases [blind_intros]:
  "\<lbrakk>\<And>e. blind (a e) (a' e); \<And>s d h. blind (b s d h) (b' s d h); \<And>d. blind (c d) (c' d); \<And>r. blind (d r) (d' r);
    \<And>x. blind (f x) (f' x)\<rbrakk> \<Longrightarrow>
   blind (case exc of Auth_Error e \<Rightarrow> a e | HTTP_Exception s d h \<Rightarrow> b s d h | Rate_Limited d \<Rightarrow> c d | Request_Invalid r \<Rightarrow> d r | App_Error x \<Rightarrow> f x)
     (case exc of Auth_Error e \<Rightarrow> a' e | HTTP_Exception s d h \<Rightarrow> b' s d h | Rate_Limited d \<Rightarrow> c' d | Request_Invalid r \<Rightarrow> d' r | App_Error x \<Rightarrow> f' x)"
  by (auto split: api_error.splits)

lemma blind_api_key_user [blind_intros]: "blind (api_key_user env rq k) (api_key_user (audit_variant env a) rq k)"
  unfolding api_key_user_def audit_variant_fields by (intro blind_intros)

lemma blind_users [blind_intros]:
  "blind (get_current_user_jwt_only env rq) (get_current_user_jwt_only (audit_variant env a) rq)"
  "blind (current_user env rq) (current_user (audit_variant env a) rq)"
  unfolding get_current_user_jwt_only_def current_user_def by (intro blind_intros)+

lemma blind_query_dependencies [blind_intros]:
  "blind (query_dependencies env rq) (query_dependencies (audit_variant env a) rq)"
  unfolding query_dependencies_def get_analyst_required_user_def by (intro blind_intros)

lemma blind_run_route [blind_intros]:
  assumes "blind d d'" "\<And>x q. blind (h x q) (h' x q)"
  shows "blind (run_route env rq b d h) (run_route (audit_variant env a) rq b d' h')"
  using assms unfolding run_route_def
  by (cases b) (auto intro!: blind_intros)

lemma blind_handlers [blind_intros]:
  "blind (register_handler env rq q1) (register_handler (audit_variant env a) rq q1)"
  "blind (login_handler env rq q2) (login_handler (audit_variant env a) rq q2)"
  "blind (refresh_handler env rq t) (refresh_handler (audit_variant env a) rq t)"
  "blind (logout_handler env rq t) (logout_handler (audit_variant env a) rq t)"
  "blind (create_api_key_handler env rq u q3) (create_api_key_handler (audit_variant env a) rq u q3)"
  "blind (revoke_api_key_handler env rq u i) (revoke_api_key_handler (audit_variant env a) rq u i)"
  unfolding register_handler_def login_handler_def refresh_handler_def logout_handler_def
    create_api_key_handler_def revoke_api_key_handler_def audit_variant_fields
  by (intro blind_intros)+

lemma blind_api_route: "blind (api_route env rq call) (api_route (audit_variant env a) rq call)"
  unfolding api_route_def returning_def register_route_def login_route_def refresh_route_def
    logout_route_def me_route_def create_api_key_route_def list_api_keys_route_def revoke_api_key_route_def
    query_route_def
  by (cases call) (auto intro!: blind_intros)

lemma log_and_respond_core [simp]:
  "core (snd (log_and_respond rq s m c w)) = core w" "fst (log_and_respond rq s m c w) = fst (log_and_respond rq s m c w')"
  by (simp_all add: log_and_respond_def core_def)

lemma audit_failure_core [simp]: "core (audit_failure_if_relevant env rq d c w) = core w"
  by (simp add: audit_failure_if_relevant_def split: option.splits)

lemma handle_exception_core: "core (snd (handle_exception env xt rq e w)) = core w"
  by (simp add: handle_exception_def handle_mapped_exception_def handle_pipeline_execution_error_def
      handle_rate_limit_exceeded_def Let_def case_prod_beta split: api_error.splits option.splits pipeline_exception.splits delay.splits)

lemma handle_exception_response:
  "fst (handle_exception env xt rq e w) = fst (handle_exception env' xt rq e w')"
  by (auto simp: handle_exception_def handle_mapped_exception_def handle_pipeline_execution_error_def
      handle_rate_limit_exceeded_def log_and_respond_def Let_def case_prod_beta
      split: api_error.splits option.splits pipeline_exception.splits delay.splits)

lemma request_ids_blind:
  assumes "core w = core w'"
  shows "fst (request_ids env rq w) = fst (request_ids (audit_variant env a) rq w')"
    and "core (snd (request_ids env rq w)) = core (snd (request_ids (audit_variant env a) rq w'))"
  using core_eqD [OF assms] by (auto simp: request_ids_def Let_def intro!: core_eqI)

lemma serve_blind:
  fixes route route' :: "('w, 'v, 'a) route_op"
  assumes "blind route route'" "core w = core w'"
  shows "fst (serve env xt rq s route w) = fst (serve (audit_variant env a) xt rq s route' w') \<and>
    core (snd (serve env xt rq s route w)) = core (snd (serve (audit_variant env a) xt rq s route' w'))"
proof -
  obtain rid cid u where ids: "request_ids env rq w = ((rid, cid), u)" by (metis surj_pair)
  obtain u' where ids': "request_ids (audit_variant env a) rq w' = ((rid, cid), u')" and u: "core u = core u'"
    using request_ids_blind [OF assms(2), of env rq a] ids by (cases "request_ids (audit_variant env a) rq w'") auto
  obtain r v where step: "route u = (r, v)" by (metis surj_pair)
  have "fst (route u) = fst (route' u')" "core (snd (route u)) = core (snd (route' u'))"
    using assms(1) u unfolding blind_def by blast+
  then obtain v' where step': "route' u' = (r, v')" and v: "core v = core v'"
    using step by (cases "route' u'") auto
  have sec: "security_headers (audit_variant env a) rq x = security_headers env rq x" for x :: "'a http_response"
    by (simp add: security_headers_def)
  show ?thesis
  proof (cases r)
    case (Inr x)
    with ids ids' step step' v show ?thesis by (simp add: serve_def sec)
  next
    case (Inl e)
    let ?h = "handle_exception env xt rq e v :: 'a http_response option \<times> 'w api_world"
    let ?h' = "handle_exception (audit_variant env a) xt rq e v' :: 'a http_response option \<times> 'w api_world"
    obtain h x where h: "?h = (h, x)" by (metis surj_pair)
    have "fst ?h = fst ?h'" by (rule handle_exception_response)
    with h obtain x' where h': "?h' = (h, x')" by (cases ?h') auto
    have "core (snd ?h) = core v" "core (snd ?h') = core v'" by (rule handle_exception_core)+
    with h h' have "core x = core v" "core x' = core v'" by simp_all
    then have "core x = core x'" using v by simp
    with Inl ids ids' step step' h h' show ?thesis by (cases h) (simp_all add: serve_def sec)
  qed
qed

text \<open>
  C19. The audit trail never interferes: whatever the audit table accepts or refuses, and whatever it
  held before, every sequence of requests to the service gets the same responses and leaves the same
  accounts, tokens, keys, limiter buckets and pipeline state.
\<close>

theorem audit_never_interferes:
  "fst (serve_all (audit_variant env accepts) xt calls (w\<lparr> aw_audit := audits, aw_log := lines \<rparr>)) =
     fst (serve_all env xt calls w) \<and>
   core (snd (serve_all (audit_variant env accepts) xt calls (w\<lparr> aw_audit := audits, aw_log := lines \<rparr>))) =
     core (snd (serve_all env xt calls w))"
proof -
  have "fst (serve_all env xt calls u) = fst (serve_all (audit_variant env accepts) xt calls u') \<and>
      core (snd (serve_all env xt calls u)) = core (snd (serve_all (audit_variant env accepts) xt calls u'))"
    if "core u = core u'" for u u'
    using that
  proof (induction calls arbitrary: u u')
    case Nil
    then show ?case by simp
  next
    case (Cons c calls u u')
    obtain t rq call where c: "c = (t, rq, call)" by (cases c)
    let ?at = "\<lambda>x. x\<lparr> aw_auth := (aw_auth x)\<lparr> w_now := t \<rparr> \<rparr>"
    have "core (?at u) = core (?at u')" using core_eqD [OF Cons.prems] by (auto intro!: core_eqI)
    note one = serve_blind [OF blind_api_route [of env rq call accepts] this, where xt = xt and rq = rq and s = "success_status call" and env = env and a = accepts]
    show ?case
      using one Cons.IH [OF conjunct2 [OF one]]
      by (simp add: c serve_call_def case_prod_beta)
  qed
  moreover have "core w = core (w\<lparr> aw_audit := audits, aw_log := lines \<rparr>)" by (simp add: core_def)
  ultimately show ?thesis by metis
qed

end
