(* ===== verification/Api_Edge.thy ===== *)
theory Api_Edge
  imports Api_Limits Api_Audit
begin

text \<open>
  The edges of the service: the handshake of a WebSocket is the same gate as that of the query routes,
  and what headers, validation errors and the audit table do in the cases their code does not expect.
\<close>

section \<open>The WebSocket gate\<close>

text \<open>A request that presents an access token and no API key.\<close>

definition bearer_request :: "string \<Rightarrow> http_request" where
  "bearer_request token = \<lparr> hr_method = ''GET'', hr_path = ''/ws/query'', hr_headers = [], hr_client_host = None, hr_json = None,
     hr_bearer = Some token, hr_api_key = None \<rparr>"

lemma on_auth_current_user_Inr:
  assumes "on_auth (get_current_user (ev_crypto env) (ev_config env) token) w = (Inr x :: 'e api_error + user_read, w')"
  shows "w' = w \<and> (\<exists>u. u \<in> set (db_users (w_db (aw_auth w))) \<and> u_is_active u \<and> x = read_user u \<and>
    credential_of env (bearer_request token) (w_db (aw_auth w)) (w_now (aw_auth w)) u)"
proof -
  obtain a where "get_current_user (ev_crypto env) (ev_config env) token (aw_auth w) = (Inr x, a)" "w' = w\<lparr> aw_auth := a \<rparr>"
    using assms by (auto simp: on_auth_def split: prod.splits sum.splits)
  with get_current_user_Inr [OF this(1)] show ?thesis by (auto simp: credential_of_def bearer_request_def)
qed

lemma handshake_refused:
  assumes "authenticate_and_authorize msg env ws w = (r :: 'e api_error + handshake, w')"
    and "ws_token ws = Some token" "token \<noteq> []"
    and "sbind (on_auth (get_current_user (ev_crypto env) (ev_config env) token)) (\<lambda>user.
      sbind (auth_result (require_role user ANALYST)) (\<lambda>_. sreturn user)) w = (Inl e :: 'e api_error + user_read, w1)"
  shows "w' = w1 \<and> ((\<exists>e. r = Inl e) \<or> (\<exists>reason. r = Inr (Handshake_Closed 1008 reason) \<and> length reason \<le> 120))"
  using assms by (cases e) (auto simp: authenticate_and_authorize_def try_else_def split: if_splits)

lemma handshake_no_token:
  assumes "\<nexists>token. ws_token ws = Some token \<and> token \<noteq> []"
  shows "authenticate_and_authorize msg env ws = sreturn (Handshake_Closed 1008 ''Not authenticated.'')"
  unfolding authenticate_and_authorize_def using assms by (auto split: option.split)

lemma closed_reason:
  "length ''Not authenticated.'' \<le> 120" "length ''Too many requests. Please slow down and try again shortly.'' \<le> 120"
  by simp_all

lemma handshake_no_token_result:
  assumes "\<nexists>token. ws_token ws = Some token \<and> token \<noteq> []"
    and "authenticate_and_authorize msg env ws w = (r :: 'e api_error + handshake, w')"
  shows "w' = w \<and> (\<exists>reason. r = Inr (Handshake_Closed 1008 reason) \<and> length reason \<le> 120)"
proof -
  have "sreturn (Handshake_Closed 1008 ''Not authenticated.'') w = (r, w')"
    using assms(2) unfolding handshake_no_token [OF assms(1)] .
  then have "r = Inr (Handshake_Closed 1008 ''Not authenticated.'')" "w' = w" by (simp_all only: sreturn_apply prod.inject)
  with closed_reason(1) show ?thesis by blast
qed

lemma handshake_analyst:
  assumes "sbind (on_auth (get_current_user (ev_crypto env) (ev_config env) token)) (\<lambda>user.
      sbind (auth_result (require_role user ANALYST)) (\<lambda>_. sreturn user)) w = (Inr y :: 'e api_error + user_read, w1)"
  shows "w1 = w \<and> (\<exists>u. u \<in> set (db_users (w_db (aw_auth w))) \<and> u_is_active u \<and> y = read_user u \<and> ANALYST \<le> u_role u \<and>
    credential_of env (bearer_request token) (w_db (aw_auth w)) (w_now (aw_auth w)) u)"
proof -
  have "\<exists>x w0. on_auth (get_current_user (ev_crypto env) (ev_config env) token) w = (Inr x :: 'e api_error + user_read, w0) \<and>
      sbind (auth_result (require_role x ANALYST)) (\<lambda>_. sreturn x) w0 = (Inr y :: 'e api_error + user_read, w1)"
    using assms by (simp add: sbind_Inr)
  then obtain x w0 where au: "on_auth (get_current_user (ev_crypto env) (ev_config env) token) w = (Inr x :: 'e api_error + user_read, w0)"
    and ro: "sbind (auth_result (require_role x ANALYST)) (\<lambda>_. sreturn x) w0 = (Inr y :: 'e api_error + user_read, w1)" by blast
  have y: "y = x" "w1 = w0" "require_role x ANALYST = Inr ()"
    using ro by (auto simp: require_role_def auth_result_def sbind_def split: if_splits)
  obtain u where u: "u \<in> set (db_users (w_db (aw_auth w)))" "u_is_active u" "x = read_user u"
      "credential_of env (bearer_request token) (w_db (aw_auth w)) (w_now (aw_auth w)) u" and w0: "w0 = w"
    using on_auth_current_user_Inr [OF au] by blast
  have "ANALYST \<le> u_role u" using y(3) unfolding u(3) require_role_Inr .
  with u w0 y show ?thesis by blast
qed

lemma handshake_limited:
  assumes "authenticate_and_authorize msg env ws w = (r :: 'e api_error + handshake, w')"
    and "ws_token ws = Some token" "token \<noteq> []"
    and "sbind (on_auth (get_current_user (ev_crypto env) (ev_config env) token)) (\<lambda>user.
      sbind (auth_result (require_role user ANALYST)) (\<lambda>_. sreturn user)) w = (Inr (read_user u) :: 'e api_error + user_read, w)"
    and "\<not> query_admitted env w u"
  shows "aw_app w' = aw_app w \<and> r = Inr (Handshake_Closed 1013 ''Too many requests. Please slow down and try again shortly.'')"
proof -
  let ?c = "rate_limit_query_per_minute (ev_settings env)"
  have "rate_limit_enabled (ev_settings env)"
    "\<not> allowed (fst (check_bucket (w_now (aw_auth w)) (aw_buckets w) (query_key (read_user u)) ?c (real_of_int ?c / 60)))"
    using assms(5) by (auto simp: query_admitted_def query_key_def read_user_def Let_def split: if_splits)
  moreover have "(r, w') = sbind (limiter_check env (query_key (read_user u)) ?c (real_of_int ?c / 60)) (\<lambda>decision.
      if \<not> allowed decision then sreturn (Handshake_Closed 1013 ''Too many requests. Please slow down and try again shortly.'')
      else sreturn (Handshake_User (read_user u))) w"
    using assms(1) unfolding authenticate_and_authorize_def assms(2) option.case try_else_def
    by (simp only: assms(3,4) if_False prod.case sum.case Let_def)
  ultimately show ?thesis by (simp add: sbind_def limiter_check_eq del: check_bucket_simps)
qed

lemma handshake_keeps_app:
  "preserves aw_app (sbind (on_auth (get_current_user (ev_crypto env) (ev_config env) token)) (\<lambda>user.
      sbind (auth_result (require_role user ANALYST)) (\<lambda>_. sreturn user)))"
  by (intro preserves_bind preserves_on_auth preserves_auth_result preserves_return)

lemma handshake_outcome:
  assumes "authenticate_and_authorize msg env ws w = (r :: 'e api_error + handshake, w')"
  shows "(\<exists>token u. ws_token ws = Some token \<and> admitted_analyst env (bearer_request token) w u) \<or>
    aw_app w' = aw_app w \<and> ((\<exists>e. r = Inl e) \<or> (\<exists>code reason. r = Inr (Handshake_Closed code reason) \<and> code \<in> {1008, 1013} \<and> length reason \<le> 120))"
proof (cases "\<exists>token. ws_token ws = Some token \<and> token \<noteq> []")
  case False
  then obtain reason where "aw_app w' = aw_app w" "r = Inr (Handshake_Closed 1008 reason)" "length reason \<le> 120"
    using handshake_no_token_result [OF _ assms] by metis
  then show ?thesis by (intro disjI2 conjI exI [of _ 1008] exI [of _ reason]) simp_all
next
  case True
  then obtain token where token: "ws_token ws = Some token" "token \<noteq> []" by auto
  let ?m = "sbind (on_auth (get_current_user (ev_crypto env) (ev_config env) token)) (\<lambda>user.
      sbind (auth_result (require_role user ANALYST)) (\<lambda>_. sreturn user)) :: ('a, 'e, user_read) api_op"
  obtain x w1 where m: "?m w = (x, w1)" by (rule prod.exhaust)
  show ?thesis
  proof (cases x)
    case (Inl e)
    have "aw_app w1 = aw_app w" by (rule preservesD [OF handshake_keeps_app m])
    with handshake_refused [OF assms token m [unfolded Inl]] show ?thesis by (metis insertI1)
  next
    case (Inr y)
    obtain u where w1: "w1 = w" and u: "u \<in> set (db_users (w_db (aw_auth w)))" "u_is_active u" "y = read_user u" "ANALYST \<le> u_role u"
      "credential_of env (bearer_request token) (w_db (aw_auth w)) (w_now (aw_auth w)) u"
      using handshake_analyst [OF m [unfolded Inr]] by blast
    show ?thesis
    proof (cases "query_admitted env w u")
      case True
      then show ?thesis using u token unfolding admitted_analyst_def by blast
    next
      case False
      from handshake_limited [OF assms token m [unfolded Inr w1 u(3)] False] show ?thesis
        by (metis closed_reason(2) insertCI)
    qed
  qed
qed

text \<open>
  C22. The WebSocket is no way around the gate: either an active account of at least the analyst role owns
  the token presented and its bucket of queries, the one of the HTTP routes, has room, or nothing is
  accepted or sent: the handshake is closed with 1008 or 1013 and a reason of at most 120 characters, or
  it raises, and the pipeline's state is untouched.
\<close>

theorem websocket_needs_analyst:
  "case stream_query_ws msg env ws incoming events gone_after w :: ('e api_error + ws_action list) \<times> 'w api_world of
     (r, w') \<Rightarrow>
       (\<exists>token u. ws_token ws = Some token \<and> admitted_analyst env (bearer_request token) w u) \<or>
       aw_app w' = aw_app w \<and> ((\<exists>e. r = Inl e) \<or>
         (\<exists>code reason. r = Inr [Ws_Close code reason] \<and> code \<in> {1008, 1013} \<and> length reason \<le> 120))"
proof -
  obtain r w' where h: "authenticate_and_authorize msg env ws w = (r :: 'e api_error + handshake, w')" by (metis surj_pair)
  show ?thesis using handshake_outcome [OF h] h
    by (auto simp: stream_query_ws_def sbind_def split: sum.splits)
qed

section \<open>Headers a client controls\<close>

text \<open>
  Behind a proxy that appends to \<open>X-Forwarded-For\<close>, the address the limits are keyed on is whatever the
  client put first.
\<close>

lemma forwarded_ip_client_chosen:
  assumes "get_header rq ''x-forwarded-for'' = Some (ip @ CHR '','' # rest)" "CHR '','' \<notin> set ip"
  shows "get_client_ip True rq = Some (strip ip)"
proof -
  have "split_first (CHR '','') (ip @ CHR '','' # rest) = ip"
    using assms(2) by (induction ip) (auto simp: split_first_def)
  then show ?thesis using assms(1) by (simp add: get_client_ip_def truthy_header_def hd_split_on)
qed

text \<open>A request identifier longer than its column keeps every event of the request out of the audit table.\<close>

lemma long_request_id_unaudited:
  assumes "st_request_id (aw_state w) = Some i" "64 < length i"
  shows "aw_audit (snd (audit_event env rq event_type success actor error w)) = aw_audit w"
  using assms by (simp add: audit_event_def audit_record_def audit_create_def audit_row_ok_def audit_fields_def
      column_fits_def Let_def)

lemma request_id_from_header:
  "get_header rq ''x-request-id'' = Some i \<Longrightarrow> st_request_id (aw_state (snd (request_ids env rq w))) = Some i"
  by (simp add: request_ids_def Let_def)

text \<open>Events whose fields fit are stored, when the table accepts them, and every event is logged.\<close>

lemma audit_stored_and_logged:
  assumes "audit_row_ok (aw_auth w) (audit_fields env rq (aw_state w) event_type success actor error)"
    and "ev_audit_accepts env (aw_auth w) (audit_fields env rq (aw_state w) event_type success actor error)"
  shows "aw_audit (snd (audit_event env rq event_type success actor error w)) =
    aw_audit w @ [audit_fields env rq (aw_state w) event_type success actor error]"
proof -
  have "take 300 s = s" if "al_user_agent (audit_fields env rq (aw_state w) event_type success actor error) = Some s" for s
    using that by (auto simp: audit_fields_def get_user_agent_def MAX_USER_AGENT_LENGTH_def)
  then have "(audit_fields env rq (aw_state w) event_type success actor error)\<lparr> al_user_agent :=
      map_option (take 300) (al_user_agent (audit_fields env rq (aw_state w) event_type success actor error)) \<rparr> =
      audit_fields env rq (aw_state w) event_type success actor error"
    by (cases "al_user_agent (audit_fields env rq (aw_state w) event_type success actor error)") (auto simp: audit_fields_def)
  with assms show ?thesis
    by (simp add: audit_event_def audit_record_def audit_create_def MAX_USER_AGENT_LENGTH_def Let_def)
qed

section \<open>Validation errors\<close>

lemma sensitive_input_removed:
  "re_loc e \<noteq> [] \<Longrightarrow> lower (last (re_loc e)) \<in> set SENSITIVE_FIELD_NAMES \<Longrightarrow> re_input (strip_sensitive e) = None"
  by (simp add: strip_sensitive_def)

text \<open>
  The input of an error at another field is kept; for a missing field pydantic's input is the whole
  body, so a password sent without a user name comes back in the response.
\<close>

lemma missing_field_echoes_password:
  "re_input (strip_sensitive \<lparr> re_loc = [''body'', ''username''], re_input = Some (JObj [(''password'', JStr secret)]), re_rest = [] \<rparr>)
     = Some (JObj [(''password'', JStr secret)])"
  by (simp add: strip_sensitive_def SENSITIVE_FIELD_NAMES_def lower_def lower_char_def)

section \<open>Unhandled exceptions\<close>

text \<open>The response to an unhandled exception carries none of the security headers.\<close>

lemma unhandled_without_security_headers:
  fixes route :: "('w, 'v, 'a) route_op"
  assumes "route (snd (request_ids env rq w)) = (Inl (Auth_Error PyValueError), w2)"
  shows "rsp_headers (fst (serve env xt rq s route w)) = []"
proof -
  obtain ids w1 where "request_ids env rq w = (ids, w1)" by (metis surj_pair)
  with assms show ?thesis by (cases ids) (simp add: serve_def handle_exception_def internal_server_error_def)
qed

end
