(* ===== verification/Seed_Rules.thy ===== *)
theory Seed_Rules
  imports Calendar "HOL-Library.Stream"
begin

text \<open>
  The foundations of the demonstration data set (\<open>seeds/utils.py\<close>, \<open>calendar.py\<close>, \<open>config.py\<close>,
  \<open>scenarios.py\<close> and \<open>rules/\<close>): random draws, currency arithmetic, the business calendar,
  configurations and scenarios, and the business rules.

  All \<open>random.Random\<close> objects of a run draw from one stream of words; every call takes one word and
  reduces it to its range. The theorems quantify over the stream, so they hold for every seed and every
  generator, and for every way in which several generators interleave. Prices are exact decimals;
  floats are reals. Texts made up by Faker are a parameter, given by the method called and the number
  of calls before it.
\<close>

section \<open>Random draws\<close>

datatype seed_error = SeedValueError string | SeedIndexError | SeedIntegrityError string

record seed_state =
  ss_words :: "nat stream"
  ss_fakes :: nat

type_synonym 'a seed_draw = "(seed_state, seed_error, 'a) op"

definition next_word :: "nat seed_draw" where
  "next_word s = (Inr (shd (ss_words s)), s\<lparr> ss_words := stl (ss_words s) \<rparr>)"

definition randbelow :: "nat \<Rightarrow> nat seed_draw" where
  "randbelow n = sbind next_word (\<lambda>w. sreturn (w mod n))"

text \<open>\<open>random()\<close>: a multiple of \<open>2 ^ - 53\<close> below 1.\<close>

definition rng_random :: "real seed_draw" where
  "rng_random = sbind (randbelow (2 ^ 53)) (\<lambda>w. sreturn (real w / 2 ^ 53))"

definition rng_randint :: "int \<Rightarrow> int \<Rightarrow> int seed_draw" where
  "rng_randint a b =
     (if b < a then sraise (SeedValueError ''empty range for randrange()'')
      else sbind (randbelow (nat (b - a + 1))) (\<lambda>w. sreturn (a + int w)))"

definition rng_uniform :: "real \<Rightarrow> real \<Rightarrow> real seed_draw" where
  "rng_uniform a b = sbind rng_random (\<lambda>r. sreturn (a + (b - a) * r))"

definition rng_choice :: "'a list \<Rightarrow> 'a seed_draw" where
  "rng_choice xs = (if xs = [] then sraise SeedIndexError else sbind (randbelow (length xs)) (\<lambda>w. sreturn (xs ! w)))"

fun accumulate :: "real \<Rightarrow> real list \<Rightarrow> real list" where
  "accumulate t [] = []"
| "accumulate t (w # ws) = (t + w) # accumulate (t + w) ws"

text \<open>\<open>bisect.bisect_right\<close>.\<close>

function bisect :: "real list \<Rightarrow> real \<Rightarrow> nat \<Rightarrow> nat \<Rightarrow> nat" where
  "bisect a x lo hi =
     (if lo < hi then let mid = (lo + hi) div 2 in if x < a ! mid then bisect a x lo mid else bisect a x (mid + 1) hi
      else lo)"
  by auto
termination by (relation "measure (\<lambda>(a, x, lo, hi). hi - lo)") auto

declare bisect.simps [simp del]

definition rng_choices :: "'a list \<Rightarrow> real list \<Rightarrow> 'a seed_draw" where
  "rng_choices xs ws =
     (let cum_weights = accumulate 0 ws in
      if last cum_weights \<le> 0 then sraise (SeedValueError ''Total of weights must be greater than zero'')
      else sbind rng_random (\<lambda>r. sreturn (xs ! bisect cum_weights (r * last cum_weights) 0 (length xs - 1))))"

text \<open>\<open>shuffle\<close>: positions from the last down to 1, each exchanged with one at or below it.\<close>

fun shuffle_from :: "nat \<Rightarrow> 'a list \<Rightarrow> 'a list seed_draw" where
  "shuffle_from 0 xs = sreturn xs"
| "shuffle_from (Suc i) xs =
     sbind (randbelow (Suc (Suc i))) (\<lambda>j. shuffle_from i (xs[Suc i := xs ! j, j := xs ! Suc i]))"

definition rng_shuffle :: "'a list \<Rightarrow> 'a list seed_draw" where
  "rng_shuffle xs = shuffle_from (length xs - 1) xs"

text \<open>A \<open>for\<close> loop that collects one value per element.\<close>

fun for_each :: "('a \<Rightarrow> 'b seed_draw) \<Rightarrow> 'a list \<Rightarrow> 'b list seed_draw" where
  "for_each f [] = sreturn []"
| "for_each f (x # xs) = sbind (f x) (\<lambda>y. sbind (for_each f xs) (\<lambda>ys. sreturn (y # ys)))"

record faker =
  fk_text :: "string \<Rightarrow> nat \<Rightarrow> string"
  fk_date :: "string \<Rightarrow> nat \<Rightarrow> date"

definition fake :: "faker \<Rightarrow> string \<Rightarrow> string seed_draw" where
  "fake fk method s = (Inr (fk_text fk method (ss_fakes s)), s\<lparr> ss_fakes := Suc (ss_fakes s) \<rparr>)"

definition fake_date :: "faker \<Rightarrow> string \<Rightarrow> date seed_draw" where
  "fake_date fk method s = (Inr (fk_date fk method (ss_fakes s)), s\<lparr> ss_fakes := Suc (ss_fakes s) \<rparr>)"

section \<open>Utilities (utils.py)\<close>

definition weighted_choice :: "'a list \<Rightarrow> real list \<Rightarrow> 'a seed_draw" where
  "weighted_choice choices weights =
     (if length choices \<noteq> length weights then sraise (SeedValueError ''choices and weights must be the same length'')
      else if choices = [] then sraise (SeedValueError ''choices must not be empty'')
      else rng_choices choices weights)"

definition random_date_between :: "date \<Rightarrow> date \<Rightarrow> date seed_draw" where
  "random_date_between start finish =
     (if start > finish then sraise (SeedValueError ''start must not be after end'')
      else sbind (rng_randint 0 (finish - start)) (\<lambda>d. sreturn (start + d)))"

definition random_datetime_between :: "datetime \<Rightarrow> datetime \<Rightarrow> datetime seed_draw" where
  "random_datetime_between start finish =
     (if start > finish then sraise (SeedValueError ''start must not be after end'')
      else sbind (rng_randint 0 ((finish - start) div 1000000)) (\<lambda>d. sreturn (start + d * 1000000)))"

text \<open>\<open>ROUND_HALF_UP\<close> rounds a half away from zero; \<open>round\<close> of the language rounds a half to even.\<close>

definition round_half_up :: "real \<Rightarrow> int" where
  "round_half_up x = (if x \<ge> 0 then \<lfloor>x + 1 / 2\<rfloor> else - \<lfloor>- x + 1 / 2\<rfloor>)"

definition round_currency :: "real \<Rightarrow> real" where
  "round_currency amount = real_of_int (round_half_up (amount * 100)) / 100"

definition percentage_of :: "real \<Rightarrow> real \<Rightarrow> real" where
  "percentage_of amount percent = round_currency (amount * percent / 100)"

definition py_round :: "real \<Rightarrow> int" where
  "py_round x = (let f = \<lfloor>x\<rfloor> in
     if x - of_int f < 1 / 2 then f else if x - of_int f > 1 / 2 then f + 1 else if even f then f else f + 1)"

definition py_round_digits :: "real \<Rightarrow> nat \<Rightarrow> real" where
  "py_round_digits x n = real_of_int (py_round (x * 10 ^ n)) / 10 ^ n"

text \<open>The format \<open>{i:0wd}\<close>: a sign, zeros, digits.\<close>

definition zero_padded :: "nat \<Rightarrow> nat \<Rightarrow> string" where
  "zero_padded w n = replicate (w - length (str_nat n)) (CHR ''0'') @ str_nat n"

definition format_0d :: "nat \<Rightarrow> int \<Rightarrow> string" where
  "format_0d w i = (if i < 0 then CHR ''-'' # zero_padded (w - 1) (nat (- i)) else zero_padded w (nat i))"

section \<open>Dates\<close>

text \<open>\<open>date.year\<close> and \<open>date.month\<close> of an ordinal.\<close>

function year_from :: "int \<Rightarrow> date \<Rightarrow> int" where
  "year_from y n = (if n \<le> days_before_year (y + 1) then y else year_from (y + 1) n)"
  by auto
termination
proof (relation "measure (\<lambda>(y, n). nat (n - days_before_year (y + 1)))", simp)
  fix y :: int and n :: date
  assume "\<not> n \<le> days_before_year (y + 1)"
  then show "((y + 1, n), (y, n)) \<in> measure (\<lambda>(y, n). nat (n - days_before_year (y + 1)))"
    using days_before_year_Suc [of "y + 1"] by simp
qed

function month_from :: "int \<Rightarrow> int \<Rightarrow> int \<Rightarrow> int \<times> int" where
  "month_from y m d = (if m \<ge> 12 \<or> d \<le> days_in_month y m then (m, d) else month_from y (m + 1) (d - days_in_month y m))"
  by auto
termination by (relation "measure (\<lambda>(y, m, d). nat (12 - m))") auto

declare year_from.simps [simp del] month_from.simps [simp del]

definition civil_of :: "date \<Rightarrow> civil" where
  "civil_of n = (let y = year_from 1 n; (m, d) = month_from y 1 (n - days_before_year y)
     in \<lparr> cv_year = y, cv_month = m, cv_day = d \<rparr>)"

definition micros_per_day :: int where
  "micros_per_day = micros_of_days 1"

text \<open>\<open>datetime.combine\<close> with a time of day, in UTC, and \<open>datetime.date\<close>; 719163 is the ordinal of the epoch.\<close>

definition combine :: "date \<Rightarrow> int \<Rightarrow> datetime" where
  "combine d seconds = (d - 719163) * micros_per_day + seconds * 1000000"

definition date_of :: "datetime \<Rightarrow> date" where
  "date_of t = t div micros_per_day + 719163"

section \<open>The business calendar (calendar.py)\<close>

datatype holiday_name = NEW_YEAR | THANKSGIVING | BLACK_FRIDAY_DAY | CHRISTMAS

record holiday =
  ho_name :: holiday_name
  ho_date :: date
  ho_label :: string

record seasonal_campaign =
  cp_name :: string
  cp_start :: date
  cp_end :: date
  cp_demand_multiplier :: real

definition day_of :: "int \<Rightarrow> int \<Rightarrow> int \<Rightarrow> date" where
  "day_of y m d = ordinal_of \<lparr> cv_year = y, cv_month = m, cv_day = d \<rparr>"

definition is_weekend :: "date \<Rightarrow> bool" where
  "is_weekend day = (weekday day \<ge> 5)"

definition new_years_day :: "int \<Rightarrow> date" where
  "new_years_day year = day_of year 1 1"

definition christmas :: "int \<Rightarrow> date" where
  "christmas year = day_of year 12 25"

definition thanksgiving :: "int \<Rightarrow> date" where
  "thanksgiving year =
     (let first_of_month = day_of year 11 1;
          first_thursday_offset = (3 - weekday first_of_month) mod 7
      in first_of_month + first_thursday_offset + 21)"

definition black_friday :: "int \<Rightarrow> date" where
  "black_friday year = thanksgiving year + 1"

definition holidays_for_year :: "int \<Rightarrow> holiday list" where
  "holidays_for_year year =
     [\<lparr> ho_name = NEW_YEAR, ho_date = new_years_day year, ho_label = ''New Year'' @ [CHR 0x27] @ ''s Day'' \<rparr>,
      \<lparr> ho_name = THANKSGIVING, ho_date = thanksgiving year, ho_label = ''Thanksgiving'' \<rparr>,
      \<lparr> ho_name = BLACK_FRIDAY_DAY, ho_date = black_friday year, ho_label = ''Black Friday'' \<rparr>,
      \<lparr> ho_name = CHRISTMAS, ho_date = christmas year, ho_label = ''Christmas'' \<rparr>]"

definition is_holiday :: "date \<Rightarrow> bool" where
  "is_holiday day = list_ex (\<lambda>h. ho_date h = day) (holidays_for_year (cv_year (civil_of day)))"

definition seasonal_multiplier :: "(int, real) dict \<Rightarrow> date \<Rightarrow> real" where
  "seasonal_multiplier multipliers day =
     (case map_of multipliers (cv_month (civil_of day)) of Some x \<Rightarrow> x | None \<Rightarrow> 1)"

definition standard_campaigns :: "(int, real) dict \<Rightarrow> int \<Rightarrow> seasonal_campaign list" where
  "standard_campaigns multipliers year =
     [\<lparr> cp_name = ''Black Friday / Cyber Monday'', cp_start = black_friday year, cp_end = black_friday year + 3,
        cp_demand_multiplier = seasonal_multiplier multipliers (black_friday year) \<rparr>,
      \<lparr> cp_name = ''Holiday Season'', cp_start = day_of year 12 1, cp_end = day_of year 12 31,
        cp_demand_multiplier = seasonal_multiplier multipliers (day_of year 12 15) \<rparr>,
      \<lparr> cp_name = ''Back to School'', cp_start = day_of year 8 1, cp_end = day_of year 8 31,
        cp_demand_multiplier = seasonal_multiplier multipliers (day_of year 8 15) \<rparr>]"

section \<open>Configuration (config.py)\<close>

record dataset_size =
  dz_customers :: int
  dz_suppliers :: int
  dz_warehouses :: int
  dz_product_categories :: int
  dz_products :: int
  dz_promotions :: int
  dz_orders :: int
  dz_order_items_per_order_avg :: real
  dz_payments :: int
  dz_shipments :: int
  dz_inventory :: int
  dz_product_reviews :: int
  dz_returns :: int
  dz_customer_addresses_per_customer_avg :: real

definition order_items_target :: "dataset_size \<Rightarrow> int" where
  "order_items_target z = py_round (of_int (dz_orders z) * dz_order_items_per_order_avg z)"

definition customer_addresses_target :: "dataset_size \<Rightarrow> int" where
  "customer_addresses_target z = py_round (of_int (dz_customers z) * dz_customer_addresses_per_customer_avg z)"

record seed_config =
  sc_dataset_size :: dataset_size
  sc_seed :: int
  sc_locale :: string
  sc_currency :: string
  sc_output_verbosity :: string
  sc_business_start_date :: date
  sc_business_end_date :: date
  sc_promotion_frequency :: real
  sc_return_rate :: real
  sc_review_rate :: real
  sc_payment_failure_rate :: real
  sc_seasonal_multipliers :: "(int, real) dict"

definition default_dataset_size :: dataset_size where
  "default_dataset_size = \<lparr> dz_customers = 8000, dz_suppliers = 150, dz_warehouses = 8, dz_product_categories = 120,
     dz_products = 2000, dz_promotions = 60, dz_orders = 30000, dz_order_items_per_order_avg = 2.6, dz_payments = 31000,
     dz_shipments = 27000, dz_inventory = 16000, dz_product_reviews = 12000, dz_returns = 2200,
     dz_customer_addresses_per_customer_avg = 1.4 \<rparr>"

definition default_seed_config :: seed_config where
  "default_seed_config = \<lparr> sc_dataset_size = default_dataset_size, sc_seed = 42, sc_locale = ''en_US'', sc_currency = ''USD'',
     sc_output_verbosity = ''normal'', sc_business_start_date = day_of 2024 8 1, sc_business_end_date = day_of 2026 8 1,
     sc_promotion_frequency = 0.15, sc_return_rate = 0.05, sc_review_rate = 0.15, sc_payment_failure_rate = 0.03,
     sc_seasonal_multipliers = [(1, 1), (2, 1), (3, 1), (4, 1), (5, 1), (6, 1), (7, 1), (8, 1.3), (9, 1), (10, 1),
       (11, 1.8), (12, 2.2)] \<rparr>"

text \<open>What the field constraints and the validators of the two models accept.\<close>

definition valid_dataset_size :: "dataset_size \<Rightarrow> bool" where
  "valid_dataset_size z \<longleftrightarrow> dz_customers z > 0 \<and> dz_suppliers z > 0 \<and> dz_warehouses z > 0 \<and> dz_product_categories z > 0 \<and>
     dz_products z > 0 \<and> dz_promotions z > 0 \<and> dz_orders z > 0 \<and> dz_order_items_per_order_avg z > 0 \<and> dz_payments z > 0 \<and>
     dz_shipments z > 0 \<and> dz_inventory z > 0 \<and> dz_product_reviews z > 0 \<and> dz_returns z > 0 \<and>
     dz_customer_addresses_per_customer_avg z > 0"

definition in_unit :: "real \<Rightarrow> bool" where
  "in_unit x \<longleftrightarrow> 0 \<le> x \<and> x \<le> 1"

definition valid_seed_config :: "seed_config \<Rightarrow> bool" where
  "valid_seed_config c \<longleftrightarrow> valid_dataset_size (sc_dataset_size c) \<and> length (sc_currency c) = 3 \<and>
     sc_output_verbosity c \<in> {''quiet'', ''normal'', ''verbose''} \<and>
     in_unit (sc_promotion_frequency c) \<and> in_unit (sc_return_rate c) \<and> in_unit (sc_review_rate c) \<and>
     in_unit (sc_payment_failure_rate c) \<and> \<not> sc_business_end_date c \<le> sc_business_start_date c \<and>
     list_all (\<lambda>(m, _). 1 \<le> m \<and> m \<le> 12) (sc_seasonal_multipliers c)"

section \<open>Scenarios (scenarios.py)\<close>

record seed_config_overrides =
  ov_dataset_size :: "dataset_size option"
  ov_seed :: "int option"
  ov_locale :: "string option"
  ov_currency :: "string option"
  ov_business_start_date :: "date option"
  ov_business_end_date :: "date option"
  ov_promotion_frequency :: "real option"
  ov_return_rate :: "real option"
  ov_review_rate :: "real option"
  ov_payment_failure_rate :: "real option"
  ov_seasonal_multipliers :: "(int, real) dict option"

record scenario_profile =
  sp_name :: string
  sp_overrides :: seed_config_overrides

definition or_default :: "'a option \<Rightarrow> 'a \<Rightarrow> 'a" where
  "or_default v d = (case v of Some x \<Rightarrow> x | None \<Rightarrow> d)"

definition apply_scenario :: "scenario_profile \<Rightarrow> seed_config \<Rightarrow> seed_config" where
  "apply_scenario sp c = (let v = sp_overrides sp in
     c\<lparr> sc_dataset_size := or_default (ov_dataset_size v) (sc_dataset_size c), sc_seed := or_default (ov_seed v) (sc_seed c),
        sc_locale := or_default (ov_locale v) (sc_locale c), sc_currency := or_default (ov_currency v) (sc_currency c),
        sc_business_start_date := or_default (ov_business_start_date v) (sc_business_start_date c),
        sc_business_end_date := or_default (ov_business_end_date v) (sc_business_end_date c),
        sc_promotion_frequency := or_default (ov_promotion_frequency v) (sc_promotion_frequency c),
        sc_return_rate := or_default (ov_return_rate v) (sc_return_rate c),
        sc_review_rate := or_default (ov_review_rate v) (sc_review_rate c),
        sc_payment_failure_rate := or_default (ov_payment_failure_rate v) (sc_payment_failure_rate c),
        sc_seasonal_multipliers := or_default (ov_seasonal_multipliers v) (sc_seasonal_multipliers c) \<rparr>)"

definition no_overrides :: seed_config_overrides where
  "no_overrides = \<lparr> ov_dataset_size = None, ov_seed = None, ov_locale = None, ov_currency = None,
     ov_business_start_date = None, ov_business_end_date = None, ov_promotion_frequency = None, ov_return_rate = None,
     ov_review_rate = None, ov_payment_failure_rate = None, ov_seasonal_multipliers = None \<rparr>"

definition DEFAULT_SCENARIO :: scenario_profile where
  "DEFAULT_SCENARIO = \<lparr> sp_name = ''default'', sp_overrides = no_overrides \<rparr>"

definition HOLIDAY_SEASON :: scenario_profile where
  "HOLIDAY_SEASON = \<lparr> sp_name = ''holiday_season'', sp_overrides = no_overrides\<lparr>
     ov_business_start_date := Some (day_of 2025 11 1), ov_business_end_date := Some (day_of 2025 12 31),
     ov_promotion_frequency := Some 0.35,
     ov_seasonal_multipliers := Some [(1, 1), (2, 1), (3, 1), (4, 1), (5, 1), (6, 1), (7, 1), (8, 1), (9, 1), (10, 1.1),
       (11, 2), (12, 2.5)] \<rparr> \<rparr>"

definition BLACK_FRIDAY :: scenario_profile where
  "BLACK_FRIDAY = \<lparr> sp_name = ''black_friday'', sp_overrides = no_overrides\<lparr>
     ov_business_start_date := Some (day_of 2025 11 24), ov_business_end_date := Some (day_of 2025 11 30),
     ov_promotion_frequency := Some 0.70, ov_payment_failure_rate := Some 0.06,
     ov_seasonal_multipliers := Some [(1, 1), (2, 1), (3, 1), (4, 1), (5, 1), (6, 1), (7, 1), (8, 1), (9, 1), (10, 1),
       (11, 3), (12, 1)] \<rparr> \<rparr>"

definition INVENTORY_SHORTAGE :: scenario_profile where
  "INVENTORY_SHORTAGE = \<lparr> sp_name = ''inventory_shortage'', sp_overrides = no_overrides\<lparr>
     ov_dataset_size := Some (default_dataset_size\<lparr> dz_inventory := 6000 \<rparr>), ov_return_rate := Some 0.08 \<rparr> \<rparr>"

definition HIGH_RETURNS :: scenario_profile where
  "HIGH_RETURNS = \<lparr> sp_name = ''high_returns'', sp_overrides = no_overrides\<lparr> ov_return_rate := Some 0.20 \<rparr> \<rparr>"

definition GROWTH_YEAR :: scenario_profile where
  "GROWTH_YEAR = \<lparr> sp_name = ''growth_year'', sp_overrides = no_overrides\<lparr>
     ov_business_start_date := Some (day_of 2025 8 1), ov_business_end_date := Some (day_of 2026 8 1),
     ov_dataset_size := Some (default_dataset_size\<lparr> dz_customers := 12000, dz_products := 2600, dz_orders := 48000,
       dz_payments := 49500, dz_shipments := 43000, dz_inventory := 20000, dz_product_reviews := 19000,
       dz_returns := 2600 \<rparr>) \<rparr> \<rparr>"

definition STANDARD_SCENARIOS :: "scenario_profile list" where
  "STANDARD_SCENARIOS = [DEFAULT_SCENARIO, HOLIDAY_SEASON, BLACK_FRIDAY, INVENTORY_SHORTAGE, HIGH_RETURNS, GROWTH_YEAR]"

section \<open>Business rules (rules/)\<close>

datatype customer_segment = STANDARD | VIP | WHOLESALE
datatype order_status = OS_PENDING | OS_CONFIRMED | OS_SHIPPED | OS_DELIVERED | OS_CANCELLED | OS_RETURNED
datatype sales_channel = WEB | MOBILE_APP | MARKETPLACE | PHONE
datatype payment_method = CREDIT_CARD | DEBIT_CARD | PAYPAL | GIFT_CARD | BANK_TRANSFER
datatype payment_status = PS_PENDING | PS_AUTHORIZED | PS_CAPTURED | PS_FAILED | PS_REFUNDED | PS_PARTIALLY_REFUNDED
datatype shipment_status = SH_PENDING | SH_IN_TRANSIT | SH_DELIVERED | SH_FAILED | SH_RETURNED_TO_SENDER
datatype discount_type = PERCENTAGE | FIXED_AMOUNT
datatype return_reason = DEFECTIVE | WRONG_ITEM | NO_LONGER_NEEDED | DAMAGED_IN_SHIPPING | NOT_AS_DESCRIBED | OTHER_REASON
datatype return_status = RS_REQUESTED | RS_APPROVED | RS_REJECTED | RS_REFUNDED | RS_COMPLETED

definition weighted_pick :: "('k, real) dict \<Rightarrow> 'k seed_draw" where
  "weighted_pick distribution = weighted_choice (map fst distribution) (map snd distribution)"

subsection \<open>Customers\<close>

definition SEGMENT_WEIGHTS :: "(customer_segment, real) dict" where
  "SEGMENT_WEIGHTS = [(STANDARD, 0.80), (VIP, 0.15), (WHOLESALE, 0.05)]"

definition SIGNUP_CHANNEL_WEIGHTS :: "(string, real) dict" where
  "SIGNUP_CHANNEL_WEIGHTS = [(''web'', 0.55), (''mobile_app'', 0.30), (''marketplace'', 0.10), (''referral'', 0.05)]"

fun order_frequency_multiplier :: "customer_segment \<Rightarrow> real" where
  "order_frequency_multiplier STANDARD = 1"
| "order_frequency_multiplier VIP = 2.5"
| "order_frequency_multiplier WHOLESALE = 0.6"

definition assign_segment :: "customer_segment seed_draw" where
  "assign_segment = weighted_pick SEGMENT_WEIGHTS"

definition assign_signup_channel :: "string seed_draw" where
  "assign_signup_channel = weighted_pick SIGNUP_CHANNEL_WEIGHTS"

definition customer_is_active :: "date \<Rightarrow> date \<Rightarrow> bool seed_draw" where
  "customer_is_active signup_date as_of =
     (let tenure_days = max (as_of - signup_date) 0; churn_probability = min (of_int tenure_days / (365 * 6)) 0.35
      in sbind rng_random (\<lambda>r. sreturn (r \<ge> churn_probability)))"

subsection \<open>Inventory\<close>

definition REORDER_LEVEL_RATIO :: real where
  "REORDER_LEVEL_RATIO = 0.2"

definition warehouse_coverage_ratio :: "seed_config \<Rightarrow> nat \<Rightarrow> nat \<Rightarrow> real" where
  "warehouse_coverage_ratio cfg product_count warehouse_count =
     (let total_possible = product_count * warehouse_count in
      if total_possible \<le> 0 then 0 else min (of_int (dz_inventory (sc_dataset_size cfg)) / real total_possible) 1)"

definition should_stock :: "real \<Rightarrow> bool seed_draw" where
  "should_stock coverage_ratio = sbind rng_random (\<lambda>r. sreturn (r < coverage_ratio))"

definition quantity_on_hand_multiplier :: "bool \<Rightarrow> real" where
  "quantity_on_hand_multiplier is_high_demand = (if is_high_demand then 2.5 else 1)"

subsection \<open>Orders\<close>

definition ORDER_STATUS_WEIGHTS :: "(order_status, real) dict" where
  "ORDER_STATUS_WEIGHTS = [(OS_DELIVERED, 0.70), (OS_SHIPPED, 0.15), (OS_CONFIRMED, 0.04), (OS_PENDING, 0.04),
     (OS_CANCELLED, 0.05), (OS_RETURNED, 0.02)]"

definition SALES_CHANNEL_WEIGHTS :: "(sales_channel, real) dict" where
  "SALES_CHANNEL_WEIGHTS = [(WEB, 0.45), (MOBILE_APP, 0.35), (MARKETPLACE, 0.15), (PHONE, 0.05)]"

fun order_value_multiplier :: "customer_segment \<Rightarrow> real" where
  "order_value_multiplier STANDARD = 1"
| "order_value_multiplier VIP = 1.4"
| "order_value_multiplier WHOLESALE = 4"

definition assign_order_status :: "order_status seed_draw" where
  "assign_order_status = weighted_pick ORDER_STATUS_WEIGHTS"

definition assign_sales_channel :: "sales_channel seed_draw" where
  "assign_sales_channel = weighted_pick SALES_CHANNEL_WEIGHTS"

lemma next_month_first:
  assumes "1 \<le> m" "m \<le> 12"
  shows "(if m = 12 then day_of (y + 1) 1 1 else day_of y (m + 1) 1) = day_of y m 1 + days_in_month y m"
proof (cases "m = 12")
  case True
  then show ?thesis using days_before_year_Suc [of y] year_length [of y] days_before_month_Suc [of 12 y]
    by (simp add: day_of_def ordinal_of_def)
next
  case False
  then show ?thesis using days_before_month_Suc [of m y] assms by (simp add: day_of_def ordinal_of_def)
qed

lemma days_in_month_pos: "28 \<le> days_in_month y m" "days_in_month y m \<le> 31"
  by (auto simp: days_in_month_def)

lemma next_month_later:
  assumes "1 \<le> m" "m \<le> 12" "(ny, nm) = (if m = 12 then (y + 1, 1) else (y, m + 1))"
  shows "day_of y m 1 < day_of ny nm 1"
  using next_month_first [OF assms(1,2), of y] days_in_month_pos(1) [of y m] assms(3) by (auto split: if_splits)

text \<open>\<open>cursor\<close> is the first day of the month \<open>month\<close> of \<open>year\<close>.\<close>

function month_windows_from :: "date \<Rightarrow> date \<Rightarrow> int \<Rightarrow> int \<Rightarrow> (date \<times> date) list" where
  "month_windows_from start finish year month =
     (let cursor = day_of year month 1 in
      if \<not> (1 \<le> month \<and> month \<le> 12 \<and> cursor \<le> finish) then []
      else let (next_year, next_month) = (if month = 12 then (year + 1, 1) else (year, month + 1))
           in (max cursor start, min (day_of next_year next_month 1 - 1) finish)
              # month_windows_from start finish next_year next_month)"
  by auto
termination
  by (relation "measure (\<lambda>(start, finish, year, month). nat (finish + 1 - day_of year month 1))")
    (auto dest: next_month_later)

declare month_windows_from.simps [simp del]

definition month_windows :: "date \<Rightarrow> date \<Rightarrow> (date \<times> date) list" where
  "month_windows start finish = (let c = civil_of start in month_windows_from start finish (cv_year c) (cv_month c))"

definition sample_order_date :: "seed_config \<Rightarrow> date \<Rightarrow> date \<Rightarrow> date seed_draw" where
  "sample_order_date cfg start finish =
     (let windows = month_windows start finish;
          weights = map (\<lambda>(window_start, _). seasonal_multiplier (sc_seasonal_multipliers cfg) window_start) windows
      in sbind (weighted_choice windows weights) (\<lambda>(chosen_start, chosen_end). random_date_between chosen_start chosen_end))"

definition sample_item_count :: "seed_config \<Rightarrow> int seed_draw" where
  "sample_item_count cfg =
     (let avg = dz_order_items_per_order_avg (sc_dataset_size cfg);
          low = max 1 (py_round (avg * 0.4)); high = max low (py_round (avg * 1.8))
      in rng_randint low high)"

definition TAX_RATE :: real where
  "TAX_RATE = 0.0725"

definition FREE_SHIPPING_THRESHOLD :: real where
  "FREE_SHIPPING_THRESHOLD = 50"

definition STANDARD_SHIPPING_FEE :: real where
  "STANDARD_SHIPPING_FEE = 5.99"

definition shipping_fee :: "real \<Rightarrow> real" where
  "shipping_fee subtotal_amount =
     (if subtotal_amount \<ge> FREE_SHIPPING_THRESHOLD then round_currency 0 else round_currency STANDARD_SHIPPING_FEE)"

subsection \<open>Payments, promotions, shipments, reviews and returns\<close>

definition PAYMENT_METHOD_WEIGHTS :: "(payment_method, real) dict" where
  "PAYMENT_METHOD_WEIGHTS = [(CREDIT_CARD, 0.55), (DEBIT_CARD, 0.20), (PAYPAL, 0.18), (GIFT_CARD, 0.04), (BANK_TRANSFER, 0.03)]"

definition assign_payment_method :: "payment_method seed_draw" where
  "assign_payment_method = weighted_pick PAYMENT_METHOD_WEIGHTS"

definition payment_succeeds :: "seed_config \<Rightarrow> bool seed_draw" where
  "payment_succeeds cfg = sbind rng_random (\<lambda>r. sreturn (r \<ge> sc_payment_failure_rate cfg))"

definition retry_count_on_failure :: "int seed_draw" where
  "retry_count_on_failure = rng_randint 0 2"

definition applies_promotion :: "seed_config \<Rightarrow> bool seed_draw" where
  "applies_promotion cfg = sbind rng_random (\<lambda>r. sreturn (r < sc_promotion_frequency cfg))"

definition is_promotion_active :: "date \<Rightarrow> date \<Rightarrow> date \<Rightarrow> bool" where
  "is_promotion_active starts_at ends_at order_date \<longleftrightarrow> starts_at \<le> order_date \<and> order_date \<le> ends_at"

definition CARRIER_WEIGHTS :: "(string, real) dict" where
  "CARRIER_WEIGHTS = [(''UPS'', 0.40), (''FedEx'', 0.35), (''DHL'', 0.15), (''USPS'', 0.10)]"

definition SHIPMENT_STATUS_WEIGHTS :: "(shipment_status, real) dict" where
  "SHIPMENT_STATUS_WEIGHTS = [(SH_DELIVERED, 0.80), (SH_IN_TRANSIT, 0.12), (SH_PENDING, 0.05), (SH_FAILED, 0.02),
     (SH_RETURNED_TO_SENDER, 0.01)]"

definition FAST_CARRIERS :: "string list" where
  "FAST_CARRIERS = [''FedEx'', ''UPS'']"

definition assign_carrier :: "string seed_draw" where
  "assign_carrier = weighted_pick CARRIER_WEIGHTS"

definition assign_shipment_status :: "shipment_status seed_draw" where
  "assign_shipment_status = weighted_pick SHIPMENT_STATUS_WEIGHTS"

definition processing_delay_days :: "int seed_draw" where
  "processing_delay_days = rng_randint 0 2"

definition transit_delay_days :: "string \<Rightarrow> int seed_draw" where
  "transit_delay_days carrier = (if carrier \<in> set FAST_CARRIERS then rng_randint 1 3 else rng_randint 3 7)"

definition RATING_WEIGHTS :: "(int, real) dict" where
  "RATING_WEIGHTS = [(1, 0.03), (2, 0.05), (3, 0.12), (4, 0.30), (5, 0.50)]"

definition is_eligible_for_review :: "seed_config \<Rightarrow> bool \<Rightarrow> bool seed_draw" where
  "is_eligible_for_review cfg is_verified_purchase =
     (let rate = sc_review_rate cfg * (if is_verified_purchase then 1.2 else 0.6)
      in sbind rng_random (\<lambda>r. sreturn (r < min rate 1)))"

definition assign_rating :: "int seed_draw" where
  "assign_rating = weighted_pick RATING_WEIGHTS"

definition review_delay_days :: "int seed_draw" where
  "review_delay_days = rng_randint 1 30"

definition RETURN_WINDOW_DAYS :: int where
  "RETURN_WINDOW_DAYS = 30"

definition RETURN_REASON_WEIGHTS :: "(return_reason, real) dict" where
  "RETURN_REASON_WEIGHTS = [(NO_LONGER_NEEDED, 0.35), (DEFECTIVE, 0.25), (NOT_AS_DESCRIBED, 0.20), (WRONG_ITEM, 0.12),
     (DAMAGED_IN_SHIPPING, 0.06), (OTHER_REASON, 0.02)]"

definition RETURN_STATUS_WEIGHTS :: "(return_status, real) dict" where
  "RETURN_STATUS_WEIGHTS = [(RS_REQUESTED, 0.05), (RS_APPROVED, 0.10), (RS_REJECTED, 0.10), (RS_REFUNDED, 0.50),
     (RS_COMPLETED, 0.25)]"

definition is_return_window_open :: "int \<Rightarrow> bool" where
  "is_return_window_open delivered_days_ago \<longleftrightarrow> 0 \<le> delivered_days_ago \<and> delivered_days_ago \<le> RETURN_WINDOW_DAYS"

definition is_eligible_for_return :: "seed_config \<Rightarrow> order_status \<Rightarrow> bool seed_draw" where
  "is_eligible_for_return cfg status =
     (if status \<notin> {OS_DELIVERED, OS_RETURNED} then sreturn False
      else sbind rng_random (\<lambda>r. sreturn (r < sc_return_rate cfg)))"

definition assign_return_reason :: "return_reason seed_draw" where
  "assign_return_reason = weighted_pick RETURN_REASON_WEIGHTS"

definition assign_return_status :: "bool \<Rightarrow> bool \<Rightarrow> return_status seed_draw" where
  "assign_return_status window_open payment_captured =
     (if \<not> window_open \<or> \<not> payment_captured then sreturn RS_REJECTED else weighted_pick RETURN_STATUS_WEIGHTS)"

end
