(* ===== verification/Seed_Data.thy ===== *)
theory Seed_Data
  imports Seed_Rules
begin

text \<open>
  The generators of the demonstration data set (\<open>seeds/*.py\<close>), the tables they are written to with the
  constraints of \<open>models/*.py\<close>, and the orchestrator of \<open>seeds/generator.py\<close>. An object is named by its
  position in the list it was generated into: a relationship such as \<open>order.customer\<close> is a position,
  and so is the key a row gets. Writing a list of rows raises \<open>IntegrityError\<close> when a
  constraint fails. Widths of text columns and the range of \<open>datetime\<close> are not modelled.
\<close>

section \<open>Rows\<close>

record supplier =
  su_supplier_code :: string
  su_supplier_name :: string
  su_contact_email :: string
  su_contact_phone :: string
  su_country_code :: string
  su_lead_time_days :: int
  su_rating :: real
  su_is_active :: bool
  su_created_at :: datetime

record warehouse =
  wh_warehouse_code :: string
  wh_warehouse_name :: string
  wh_city :: string
  wh_state_province :: "string option"
  wh_country_code :: string
  wh_is_active :: bool
  wh_created_at :: datetime

record product_category =
  pc_category_name :: string
  pc_category_path :: string
  pc_is_active :: bool
  pc_created_at :: datetime
  pc_parent :: "nat option"

record product =
  pr_sku :: string
  pr_product_name :: string
  pr_description :: string
  pr_unit_price :: real
  pr_cost_price :: real
  pr_weight_kg :: real
  pr_is_active :: bool
  pr_launch_date :: date
  pr_created_at :: datetime
  pr_category :: nat
  pr_supplier :: nat

record inventory_row =
  iv_quantity_on_hand :: int
  iv_reorder_level :: int
  iv_last_restocked_at :: datetime
  iv_product :: nat
  iv_warehouse :: nat

record customer =
  cu_customer_number :: string
  cu_first_name :: string
  cu_last_name :: string
  cu_email :: string
  cu_phone :: string
  cu_date_of_birth :: date
  cu_gender :: "string option"
  cu_customer_segment :: customer_segment
  cu_signup_date :: date
  cu_signup_channel :: string
  cu_is_active :: bool

datatype address_type = BILLING | SHIPPING

record customer_address =
  ad_address_type :: address_type
  ad_is_default :: bool
  ad_line1 :: string
  ad_line2 :: "string option"
  ad_city :: string
  ad_state_province :: string
  ad_postal_code :: string
  ad_country_code :: string
  ad_customer :: nat

record promotion =
  po_promotion_code :: string
  po_promotion_name :: string
  po_discount_type :: discount_type
  po_discount_value :: real
  po_starts_at :: datetime
  po_ends_at :: datetime
  po_is_active :: bool

record shop_order =
  so_order_number :: string
  so_order_date :: datetime
  so_order_status :: order_status
  so_sales_channel :: sales_channel
  so_shipping_address_line1 :: string
  so_shipping_city :: string
  so_shipping_state_province :: string
  so_shipping_postal_code :: string
  so_shipping_country_code :: string
  so_subtotal_amount :: real
  so_discount_amount :: real
  so_tax_amount :: real
  so_shipping_amount :: real
  so_total_amount :: real
  so_currency_code :: string
  so_customer :: nat
  so_promotion :: "nat option"

record order_item =
  oi_quantity :: int
  oi_unit_price :: real
  oi_discount_amount :: real
  oi_line_total :: real
  oi_order :: nat
  oi_product :: nat

record payment =
  pa_payment_method :: payment_method
  pa_payment_status :: payment_status
  pa_amount :: real
  pa_transaction_reference :: string
  pa_paid_at :: "datetime option"
  pa_order :: nat

record shipment =
  sm_carrier :: string
  sm_tracking_number :: string
  sm_shipment_status :: shipment_status
  sm_shipped_at :: "datetime option"
  sm_delivered_at :: "datetime option"
  sm_order :: nat
  sm_warehouse :: nat

record product_review =
  rv_rating :: int
  rv_review_title :: string
  rv_review_text :: string
  rv_is_verified_purchase :: bool
  rv_review_date :: datetime
  rv_product :: nat
  rv_customer :: nat
  rv_order_item :: nat

record return_row =
  re_return_reason :: return_reason
  re_return_status :: return_status
  re_quantity_returned :: int
  re_refund_amount :: "real option"
  re_requested_at :: datetime
  re_resolved_at :: "datetime option"
  re_order_item :: nat

section \<open>Suppliers, warehouses and categories\<close>

text \<open>\<open>BaseGenerator.__init__\<close>.\<close>

definition with_count :: "int \<Rightarrow> 'a seed_draw \<Rightarrow> 'a seed_draw" where
  "with_count n k = (if n < 0 then sraise (SeedValueError ''count must be >= 0'') else k)"

definition business_start :: "seed_config \<Rightarrow> datetime" where
  "business_start cfg = combine (sc_business_start_date cfg) 0"

definition COUNTRY_WEIGHTS :: "(string, real) dict" where
  "COUNTRY_WEIGHTS = [(''CN'', 0.35), (''US'', 0.15), (''VN'', 0.10), (''IN'', 0.10), (''MX'', 0.08), (''DE'', 0.07),
     (''TR'', 0.05), (''BD'', 0.05), (''IT'', 0.05)]"

definition make_supplier :: "faker \<Rightarrow> seed_config \<Rightarrow> int \<Rightarrow> supplier seed_draw" where
  "make_supplier fk cfg index =
     (let window_end = business_start cfg; window_start = window_end - micros_of_days (365 * 10) in
      sbind (random_datetime_between window_start window_end) (\<lambda>onboarded.
      sbind (fake fk ''company'') (\<lambda>company.
      sbind (fake fk ''company_email'') (\<lambda>email.
      sbind (fake fk ''phone_number'') (\<lambda>phone.
      sbind (weighted_choice (map fst COUNTRY_WEIGHTS) (map snd COUNTRY_WEIGHTS)) (\<lambda>country_code.
      sbind (rng_randint 5 45) (\<lambda>lead_time_days.
      sbind (rng_uniform 2.5 5) (\<lambda>rating.
      sbind rng_random (\<lambda>active.
      sreturn \<lparr> su_supplier_code = ''SUP-'' @ format_0d 4 index, su_supplier_name = company, su_contact_email = email,
        su_contact_phone = phone, su_country_code = country_code, su_lead_time_days = lead_time_days,
        su_rating = py_round_digits rating 2, su_is_active = (active < 0.95), su_created_at = onboarded \<rparr>)))))))))"

definition generate_suppliers :: "faker \<Rightarrow> int \<Rightarrow> seed_config \<Rightarrow> supplier list seed_draw" where
  "generate_suppliers fk n cfg = with_count n (for_each (make_supplier fk cfg) [1..n])"

definition REGIONS :: "(string \<times> string \<times> real) list" where
  "REGIONS = [(''EAST'', ''US'', 0.30), (''WEST'', ''US'', 0.25), (''CENTRAL'', ''US'', 0.20), (''SOUTH'', ''US'', 0.15),
     (''INTL'', ''CA'', 0.10)]"

definition make_warehouse :: "faker \<Rightarrow> seed_config \<Rightarrow> string \<Rightarrow> int \<Rightarrow> warehouse seed_draw" where
  "make_warehouse fk cfg region sequence =
     (let window_end = business_start cfg; window_start = window_end - micros_of_days (365 * 15);
          country_code = (case map_of REGIONS region of Some (c, _) \<Rightarrow> c | None \<Rightarrow> []) in
      sbind (random_datetime_between window_start window_end) (\<lambda>opened.
      sbind (fake fk ''city'') (\<lambda>city1.
      sbind (fake fk ''city'') (\<lambda>city2.
      sbind (if country_code = ''US'' then sbind (fake fk ''state_abbr'') (\<lambda>st. sreturn (Some st)) else sreturn None) (\<lambda>state_province.
      sbind rng_random (\<lambda>active.
      sreturn \<lparr> wh_warehouse_code = ''WH-'' @ region @ ''-'' @ format_0d 2 sequence,
        wh_warehouse_name = city1 @ '' Distribution Center'', wh_city = city2, wh_state_province = state_province,
        wh_country_code = country_code, wh_is_active = (active < 0.97), wh_created_at = opened \<rparr>))))))"

fun warehouses_from :: "faker \<Rightarrow> seed_config \<Rightarrow> nat \<Rightarrow> (string \<Rightarrow> int) \<Rightarrow> warehouse list seed_draw" where
  "warehouses_from fk cfg 0 region_sequence = sreturn []"
| "warehouses_from fk cfg (Suc n) region_sequence =
     sbind (weighted_choice (map fst REGIONS) (map (snd \<circ> snd) REGIONS)) (\<lambda>region.
     sbind (make_warehouse fk cfg region (region_sequence region + 1)) (\<lambda>w.
     sbind (warehouses_from fk cfg n (region_sequence(region := region_sequence region + 1))) (\<lambda>ws. sreturn (w # ws))))"

definition generate_warehouses :: "faker \<Rightarrow> int \<Rightarrow> seed_config \<Rightarrow> warehouse list seed_draw" where
  "generate_warehouses fk n cfg = with_count n (warehouses_from fk cfg (nat n) (\<lambda>_. 0))"

definition TAXONOMY :: "(string \<times> string list) list" where
  "TAXONOMY =
    [(''Electronics'', [''Laptops'', ''Smartphones'', ''Tablets'', ''Televisions'', ''Cameras'', ''Headphones'', ''Wearable Tech'', ''Computer Accessories'']),
     (''Home & Kitchen'', [''Cookware'', ''Small Appliances'', ''Furniture'', ''Bedding'', ''Home Decor'', ''Storage & Organization'', ''Lighting'']),
     (''Apparel'', [''Men'' @ [CHR 0x27] @ ''s Clothing'', ''Women'' @ [CHR 0x27] @ ''s Clothing'', ''Kids'' @ [CHR 0x27] @ '' Clothing'', ''Shoes'', ''Activewear'', ''Outerwear'', ''Accessories'']),
     (''Sports & Outdoors'', [''Fitness Equipment'', ''Camping & Hiking'', ''Cycling'', ''Team Sports'', ''Water Sports'', ''Outdoor Apparel'']),
     (''Beauty & Personal Care'', [''Skincare'', ''Haircare'', ''Makeup'', ''Fragrances'', ''Personal Care Appliances'', ''Bath & Body'']),
     (''Books & Media'', [''Fiction'', ''Non-Fiction'', ''Children'' @ [CHR 0x27] @ ''s Books'', ''Music'', ''Movies & TV'', ''Audiobooks'']),
     (''Toys & Games'', [''Action Figures'', ''Board Games'', ''Building Sets'', ''Puzzles'', ''Outdoor Toys'', ''Educational Toys'']),
     (''Automotive'', [''Car Electronics'', ''Interior Accessories'', ''Exterior Accessories'', ''Tools & Equipment'', ''Tires & Wheels'']),
     (''Grocery'', [''Snacks'', ''Beverages'', ''Pantry Staples'', ''Breakfast Foods'', ''Candy & Chocolate'']),
     (''Health & Wellness'', [''Vitamins & Supplements'', ''Medical Supplies'', ''Fitness Trackers'', ''Personal Care'']),
     (''Office Supplies'', [''Writing Instruments'', ''Paper Products'', ''Desk Accessories'', ''Office Electronics'']),
     (''Pet Supplies'', [''Dog Supplies'', ''Cat Supplies'', ''Fish & Aquatics'', ''Small Animal Supplies''])]"

definition make_category :: "datetime \<Rightarrow> string \<Rightarrow> string \<Rightarrow> nat option \<Rightarrow> product_category" where
  "make_category created_at name path parent =
     \<lparr> pc_category_name = name, pc_category_path = path, pc_is_active = True, pc_created_at = created_at, pc_parent = parent \<rparr>"

text \<open>
  The children: the parents take turns; \<open>cursors\<close> and \<open>overflow\<close> are the two dictionaries of counters,
  here by position of the parent.
\<close>

fun subcategories_from ::
  "datetime \<Rightarrow> nat \<Rightarrow> nat \<Rightarrow> nat \<Rightarrow> (nat \<Rightarrow> nat) \<Rightarrow> (nat \<Rightarrow> nat) \<Rightarrow> product_category list" where
  "subcategories_from created_at k 0 top_level_index cursors overflow = []"
| "subcategories_from created_at k (Suc remaining) top_level_index cursors overflow =
     (let parent = top_level_index mod k; (name, subcategories) = TAXONOMY ! parent; cursor = cursors parent in
      if cursor < length subcategories
      then make_category created_at (subcategories ! cursor) (name @ ''/'' @ subcategories ! cursor) (Some parent)
           # subcategories_from created_at k remaining (Suc top_level_index) (cursors(parent := Suc cursor)) overflow
      else let n = Suc (overflow parent); subcategory_name = name @ '' Specialty '' @ str_nat n
           in make_category created_at subcategory_name (name @ ''/'' @ subcategory_name) (Some parent)
              # subcategories_from created_at k remaining (Suc top_level_index) cursors (overflow(parent := n)))"

definition generate_categories :: "int \<Rightarrow> seed_config \<Rightarrow> product_category list seed_draw" where
  "generate_categories n cfg = with_count n
     (let window_end = business_start cfg; window_start = window_end - micros_of_days (365 * 5);
          created_at = window_start + (window_end - window_start) div 2;
          top_levels = map (\<lambda>(name, _). make_category created_at name name None) (take (nat n) TAXONOMY)
      in sreturn (if top_levels = [] then []
           else top_levels @ subcategories_from created_at (length top_levels) (nat n - length top_levels) 0 (\<lambda>_. 0) (\<lambda>_. 0)))"

section \<open>Products and inventory\<close>

text \<open>\<open>str.title\<close>: a letter behind a letter becomes lower case, any other upper case.\<close>

fun title_from :: "bool \<Rightarrow> string \<Rightarrow> string" where
  "title_from behind_letter [] = []"
| "title_from behind_letter (c # cs) = (if behind_letter then lower_char c else upper_char c)
     # title_from (lower_char c \<noteq> c \<or> upper_char c \<noteq> c) cs"

definition make_product :: "faker \<Rightarrow> seed_config \<Rightarrow> nat \<Rightarrow> nat \<Rightarrow> int \<Rightarrow> product seed_draw" where
  "make_product fk cfg categories suppliers index =
     (let window_end = business_start cfg; window_start = window_end - micros_of_days (365 * 3) in
      sbind (rng_choice [0..<categories]) (\<lambda>category.
      sbind (rng_choice [0..<suppliers]) (\<lambda>supplier.
      sbind (rng_uniform 3 250) (\<lambda>cost.
      let cost_price = round_currency (py_round_digits cost 2) in
      sbind (rng_uniform 1.4 3.2) (\<lambda>markup.
      let unit_price = round_currency (cost_price * markup) in
      sbind (random_datetime_between window_start window_end) (\<lambda>launch_date.
      sbind (fake fk ''catch_phrase'') (\<lambda>name.
      sbind (fake fk ''paragraph'') (\<lambda>description.
      sbind (rng_uniform 0.05 15) (\<lambda>weight.
      sbind rng_random (\<lambda>active.
      sreturn \<lparr> pr_sku = ''SKU-'' @ format_0d 6 index, pr_product_name = title_from False name, pr_description = description,
        pr_unit_price = unit_price, pr_cost_price = cost_price, pr_weight_kg = py_round_digits weight 3,
        pr_is_active = (active < 0.92), pr_launch_date = date_of launch_date, pr_created_at = launch_date,
        pr_category = category, pr_supplier = supplier \<rparr>))))))))))"

definition generate_products :: "faker \<Rightarrow> int \<Rightarrow> product_category list \<Rightarrow> supplier list \<Rightarrow> seed_config \<Rightarrow> product list seed_draw" where
  "generate_products fk n categories suppliers cfg = with_count n
     (if categories = [] then sraise (SeedValueError ''ProductGenerator requires at least one category'')
      else if suppliers = [] then sraise (SeedValueError ''ProductGenerator requires at least one supplier'')
      else for_each (make_product fk cfg (length categories) (length suppliers)) [1..n])"

definition make_inventory :: "seed_config \<Rightarrow> int \<Rightarrow> nat \<times> nat \<Rightarrow> inventory_row seed_draw" where
  "make_inventory cfg high_demand_cutoff pair =
     (case pair of (product, warehouse) \<Rightarrow>
      let window_end = business_start cfg; window_start = window_end - micros_of_days 30;
          multiplier = quantity_on_hand_multiplier (int product < high_demand_cutoff) in
      sbind (rng_randint 10 100) (\<lambda>base_quantity.
      let reorder_level = max 1 (py_round (of_int base_quantity * multiplier * REORDER_LEVEL_RATIO)) in
      sbind rng_random (\<lambda>r.
      sbind (if r < 0.15 then rng_randint 0 (max (reorder_level - 1) 0)
             else sreturn (py_round (of_int base_quantity * multiplier) + reorder_level)) (\<lambda>quantity_on_hand.
      sbind (random_datetime_between window_start window_end) (\<lambda>restocked.
      sreturn \<lparr> iv_quantity_on_hand = quantity_on_hand, iv_reorder_level = reorder_level,
        iv_last_restocked_at = restocked, iv_product = product, iv_warehouse = warehouse \<rparr>)))))"

text \<open>The pairs that are stocked: those the rule accepts, topped up with rejected ones.\<close>

definition select_pairs :: "int \<Rightarrow> ((nat \<times> nat) \<times> bool) list \<Rightarrow> (nat \<times> nat) list" where
  "select_pairs n decided =
     (let accepted = map fst (filter snd decided); rejected = map fst (filter (Not \<circ> snd) decided);
          accepted' = (if int (length accepted) < n then accepted @ take (nat n - length accepted) rejected else accepted)
      in take (nat n) accepted')"

definition generate_inventory :: "int \<Rightarrow> product list \<Rightarrow> warehouse list \<Rightarrow> seed_config \<Rightarrow> inventory_row list seed_draw" where
  "generate_inventory n products warehouses cfg = with_count n
     (if products = [] \<or> warehouses = []
      then sraise (SeedValueError ''InventoryGenerator requires at least one product and one warehouse'')
      else if n > int (length products * length warehouses)
      then sraise (SeedValueError ''count exceeds the possible (product, warehouse) combinations'')
      else let coverage_ratio = warehouse_coverage_ratio cfg (length products) (length warehouses);
               high_demand_cutoff = max 1 (py_round (real (length products) * 0.2)) in
           sbind (rng_shuffle (List.product [0..<length products] [0..<length warehouses])) (\<lambda>candidates.
           sbind (for_each (\<lambda>pair. sbind (should_stock coverage_ratio) (\<lambda>b. sreturn (pair, b))) candidates) (\<lambda>decided.
           for_each (make_inventory cfg high_demand_cutoff) (select_pairs n decided))))"

section \<open>Customers, addresses and promotions\<close>

definition GENDER_WEIGHTS :: "(string option, real) dict" where
  "GENDER_WEIGHTS = [(Some ''female'', 0.42), (Some ''male'', 0.42), (Some ''non-binary'', 0.03), (None, 0.13)]"

definition make_customer :: "faker \<Rightarrow> seed_config \<Rightarrow> int \<Rightarrow> customer seed_draw" where
  "make_customer fk cfg index =
     sbind (random_date_between (sc_business_start_date cfg) (sc_business_end_date cfg)) (\<lambda>signup_date.
     sbind (fake fk ''first_name'') (\<lambda>first_name.
     sbind (fake fk ''last_name'') (\<lambda>last_name.
     sbind (fake fk ''unique.email'') (\<lambda>email.
     sbind (fake fk ''phone_number'') (\<lambda>phone.
     sbind (fake_date fk ''date_of_birth'') (\<lambda>date_of_birth.
     sbind (weighted_choice (map fst GENDER_WEIGHTS) (map snd GENDER_WEIGHTS)) (\<lambda>gender.
     sbind assign_segment (\<lambda>segment.
     sbind assign_signup_channel (\<lambda>signup_channel.
     sbind (customer_is_active signup_date (sc_business_end_date cfg)) (\<lambda>active.
     sreturn \<lparr> cu_customer_number = ''CUST-'' @ format_0d 8 index, cu_first_name = first_name, cu_last_name = last_name,
       cu_email = email, cu_phone = phone, cu_date_of_birth = date_of_birth, cu_gender = gender,
       cu_customer_segment = segment, cu_signup_date = signup_date, cu_signup_channel = signup_channel,
       cu_is_active = active \<rparr>))))))))))"

definition generate_customers :: "faker \<Rightarrow> int \<Rightarrow> seed_config \<Rightarrow> customer list seed_draw" where
  "generate_customers fk n cfg = with_count n (for_each (make_customer fk cfg) [1..n])"

definition build_address :: "faker \<Rightarrow> nat \<Rightarrow> address_type \<Rightarrow> bool \<Rightarrow> customer_address seed_draw" where
  "build_address fk customer address_type is_default =
     sbind (fake fk ''street_address'') (\<lambda>line1.
     sbind rng_random (\<lambda>r.
     sbind (if r < 0.25 then sbind (fake fk ''secondary_address'') (\<lambda>l. sreturn (Some l)) else sreturn None) (\<lambda>line2.
     sbind (fake fk ''city'') (\<lambda>city.
     sbind (fake fk ''state_abbr'') (\<lambda>state_province.
     sbind (fake fk ''postcode'') (\<lambda>postal_code.
     sreturn \<lparr> ad_address_type = address_type, ad_is_default = is_default, ad_line1 = line1, ad_line2 = line2,
       ad_city = city, ad_state_province = state_province, ad_postal_code = postal_code, ad_country_code = ''US'',
       ad_customer = customer \<rparr>))))))"

fun extra_addresses :: "faker \<Rightarrow> nat \<Rightarrow> nat \<Rightarrow> (nat \<times> address_type) set \<Rightarrow> customer_address list seed_draw" where
  "extra_addresses fk customers 0 default_seen = sreturn []"
| "extra_addresses fk customers (Suc remaining) default_seen =
     sbind (rng_choice [0..<customers]) (\<lambda>customer.
     sbind (rng_choice [BILLING, SHIPPING]) (\<lambda>address_type.
     let key = (customer, address_type); is_default = key \<notin> default_seen in
     sbind (build_address fk customer address_type is_default) (\<lambda>a.
     sbind (extra_addresses fk customers remaining (insert key default_seen)) (\<lambda>rest. sreturn (a # rest)))))"

definition generate_addresses :: "faker \<Rightarrow> int \<Rightarrow> customer list \<Rightarrow> customer_address list seed_draw" where
  "generate_addresses fk n customers = with_count n
     (if customers = [] then sraise (SeedValueError ''CustomerAddressGenerator requires at least one customer'')
      else let base_count = min (nat n) (length customers) in
           sbind (for_each (\<lambda>c. build_address fk c SHIPPING True) [0..<base_count]) (\<lambda>base.
           sbind (extra_addresses fk (length customers) (nat n - base_count) ((\<lambda>c. (c, SHIPPING)) ` {..<base_count})) (\<lambda>extra.
           sreturn (base @ extra))))"

definition GENERIC_NAMES :: "string list" where
  "GENERIC_NAMES = [''Flash Sale'', ''Clearance Event'', ''Loyalty Rewards'', ''New Customer Discount'', ''Weekend Special'',
     ''Spring Refresh'', ''Anniversary Sale'', ''Bundle Savings'']"

definition DISCOUNT_TYPE_WEIGHTS :: "(discount_type, real) dict" where
  "DISCOUNT_TYPE_WEIGHTS = [(PERCENTAGE, 0.65), (FIXED_AMOUNT, 0.35)]"

definition campaign_window :: "seed_config \<Rightarrow> seasonal_campaign \<Rightarrow> (string \<times> datetime \<times> datetime) option" where
  "campaign_window cfg campaign =
     (let clamped_start = max (combine (cp_start campaign) 0) (business_start cfg);
          clamped_end = min (combine (cp_end campaign) 86399) (combine (sc_business_end_date cfg) 86399)
      in if clamped_end \<le> clamped_start then None else Some (cp_name campaign, clamped_start, clamped_end))"

definition calendar_anchored_windows :: "seed_config \<Rightarrow> (string \<times> datetime \<times> datetime) list" where
  "calendar_anchored_windows cfg =
     List.map_filter (campaign_window cfg)
       (concat (map (standard_campaigns (sc_seasonal_multipliers cfg))
         [cv_year (civil_of (sc_business_start_date cfg))..cv_year (civil_of (sc_business_end_date cfg))]))"

definition random_window_start :: "seed_config \<Rightarrow> datetime seed_draw" where
  "random_window_start cfg =
     (let span_seconds = max ((combine (sc_business_end_date cfg) 0 - business_start cfg) div 1000000 - 21 * 86400) 0 in
      sbind (if span_seconds > 0 then rng_randint 0 span_seconds else sreturn 0) (\<lambda>offset.
      sreturn (business_start cfg + offset * 1000000)))"

definition build_promotion :: "int \<Rightarrow> string \<Rightarrow> datetime \<Rightarrow> datetime \<Rightarrow> promotion seed_draw" where
  "build_promotion sequence name starts_at ends_at =
     sbind (weighted_choice (map fst DISCOUNT_TYPE_WEIGHTS) (map snd DISCOUNT_TYPE_WEIGHTS)) (\<lambda>discount_type.
     sbind (if discount_type = PERCENTAGE then rng_uniform 10 40 else rng_uniform 5 50) (\<lambda>v.
     sreturn \<lparr> po_promotion_code = ''PROMO'' @ format_0d 4 sequence, po_promotion_name = name,
       po_discount_type = discount_type, po_discount_value = round_currency v, po_starts_at = starts_at,
       po_ends_at = ends_at, po_is_active = True \<rparr>))"

definition generic_promotion :: "seed_config \<Rightarrow> int \<Rightarrow> promotion seed_draw" where
  "generic_promotion cfg sequence =
     sbind (rng_choice GENERIC_NAMES) (\<lambda>name.
     sbind (random_window_start cfg) (\<lambda>start.
     sbind (rng_randint 3 21) (\<lambda>days. build_promotion sequence name start (start + micros_of_days days))))"

definition generate_promotions :: "int \<Rightarrow> seed_config \<Rightarrow> promotion list seed_draw" where
  "generate_promotions n cfg = with_count n
     (let windows = take (nat n) (calendar_anchored_windows cfg); k = int (length windows) in
      sbind (for_each (\<lambda>(sequence, name, start, finish). build_promotion sequence name start finish) (zip [1..k] windows)) (\<lambda>anchored.
      sbind (for_each (generic_promotion cfg) [k + 1..n]) (\<lambda>generic. sreturn (anchored @ generic))))"

section \<open>Orders and their items\<close>

type_synonym planned_item = "nat \<times> int \<times> real"

definition QUANTITY_WEIGHTS :: "(int, real) dict" where
  "QUANTITY_WEIGHTS = [(1, 0.55), (2, 0.22), (3, 0.12), (4, 0.07), (5, 0.04)]"

fun position_of :: "'a \<Rightarrow> 'a list \<Rightarrow> nat" where
  "position_of x [] = 0"
| "position_of x (y # ys) = (if y = x then 0 else Suc (position_of x ys))"

definition pop_at :: "nat \<Rightarrow> 'a list \<Rightarrow> 'a list" where
  "pop_at i xs = take i xs @ drop (Suc i) xs"

fun pick_from :: "nat \<Rightarrow> nat list \<Rightarrow> real list \<Rightarrow> nat list seed_draw" where
  "pick_from 0 pool pool_weights = sreturn []"
| "pick_from (Suc n) pool pool_weights =
     sbind (weighted_choice pool pool_weights) (\<lambda>product.
     let position = position_of product pool in
     sbind (pick_from n (pop_at position pool) (pop_at position pool_weights)) (\<lambda>chosen. sreturn (product # chosen)))"

definition pick_products :: "nat \<Rightarrow> nat \<Rightarrow> nat list seed_draw" where
  "pick_products products item_count =
     pick_from (min item_count products) [0..<products] (map (\<lambda>index. 1 / (real index + 1)) [0..<products])"

definition plan_item :: "product list \<Rightarrow> real \<Rightarrow> nat \<Rightarrow> planned_item seed_draw" where
  "plan_item products value_multiplier product =
     sbind (weighted_choice (map fst QUANTITY_WEIGHTS) (map snd QUANTITY_WEIGHTS)) (\<lambda>base_quantity.
     let quantity = max 1 (py_round (of_int base_quantity * value_multiplier)) in
     sbind (rng_uniform 0.92 1.05) (\<lambda>u.
     let drift = py_round_digits u 4; unit_price = round_currency (pr_unit_price (products ! product) * drift)
     in sreturn (product, quantity, unit_price)))"

definition plan_items :: "seed_config \<Rightarrow> product list \<Rightarrow> customer_segment \<Rightarrow> planned_item list seed_draw" where
  "plan_items cfg products segment =
     sbind (sample_item_count cfg) (\<lambda>k.
     let item_count = min (nat k) (length products) in
     sbind (pick_products (length products) item_count) (\<lambda>chosen_products.
     for_each (plan_item products (order_value_multiplier segment)) chosen_products))"

definition select_promotion :: "seed_config \<Rightarrow> promotion list \<Rightarrow> date \<Rightarrow> nat option seed_draw" where
  "select_promotion cfg promotions order_date =
     (if promotions = [] then sreturn None
      else sbind (applies_promotion cfg) (\<lambda>applies.
        if \<not> applies then sreturn None
        else let active = filter (\<lambda>i. is_promotion_active (date_of (po_starts_at (promotions ! i)))
                             (date_of (po_ends_at (promotions ! i))) order_date) [0..<length promotions]
             in if active = [] then sreturn None else sbind (rng_choice active) (\<lambda>i. sreturn (Some i))))"

definition compute_discount :: "promotion option \<Rightarrow> real \<Rightarrow> real" where
  "compute_discount promotion subtotal_amount =
     (case promotion of
        None \<Rightarrow> round_currency 0
      | Some p \<Rightarrow>
          if po_discount_type p = PERCENTAGE then percentage_of subtotal_amount (po_discount_value p)
          else round_currency (min (po_discount_value p) subtotal_amount))"

definition make_order ::
  "faker \<Rightarrow> seed_config \<Rightarrow> customer list \<Rightarrow> promotion list \<Rightarrow> product list \<Rightarrow> int \<Rightarrow> (shop_order \<times> planned_item list) seed_draw" where
  "make_order fk cfg customers promotions products index =
     sbind (weighted_choice [0..<length customers] (map (order_frequency_multiplier \<circ> cu_customer_segment) customers)) (\<lambda>customer.
     sbind (sample_order_date cfg (sc_business_start_date cfg) (sc_business_end_date cfg)) (\<lambda>order_date.
     sbind assign_order_status (\<lambda>order_status.
     sbind (plan_items cfg products (cu_customer_segment (customers ! customer))) (\<lambda>planned_items.
     let subtotal_amount = round_currency (sum_list (map (\<lambda>(_, qty, price). price * of_int qty) planned_items)) in
     sbind (select_promotion cfg promotions order_date) (\<lambda>promotion.
     let discount_amount = compute_discount (map_option ((!) promotions) promotion) subtotal_amount;
         tax_amount = round_currency ((subtotal_amount - discount_amount) * TAX_RATE);
         shipping_amount = shipping_fee subtotal_amount;
         total_amount = round_currency (subtotal_amount - discount_amount + tax_amount + shipping_amount) in
     sbind (rng_randint 6 22) (\<lambda>hour.
     sbind assign_sales_channel (\<lambda>channel.
     sbind (fake fk ''street_address'') (\<lambda>line1.
     sbind (fake fk ''city'') (\<lambda>city.
     sbind (fake fk ''state_abbr'') (\<lambda>state_province.
     sbind (fake fk ''postcode'') (\<lambda>postal_code.
     sreturn (\<lparr> so_order_number = ''ORD-'' @ str_int (cv_year (civil_of order_date)) @ ''-'' @ format_0d 6 index,
         so_order_date = combine order_date (hour * 3600), so_order_status = order_status, so_sales_channel = channel,
         so_shipping_address_line1 = line1, so_shipping_city = city, so_shipping_state_province = state_province,
         so_shipping_postal_code = postal_code, so_shipping_country_code = ''US'', so_subtotal_amount = subtotal_amount,
         so_discount_amount = discount_amount, so_tax_amount = tax_amount, so_shipping_amount = shipping_amount,
         so_total_amount = total_amount, so_currency_code = sc_currency cfg, so_customer = customer,
         so_promotion = promotion \<rparr>, planned_items))))))))))))"

definition generate_orders ::
  "faker \<Rightarrow> int \<Rightarrow> customer list \<Rightarrow> promotion list \<Rightarrow> product list \<Rightarrow> seed_config \<Rightarrow> (shop_order \<times> planned_item list) list seed_draw" where
  "generate_orders fk n customers promotions products cfg = with_count n
     (if customers = [] then sraise (SeedValueError ''OrderGenerator requires at least one customer'')
      else if products = [] then sraise (SeedValueError ''OrderGenerator requires at least one product'')
      else for_each (make_order fk cfg customers promotions products) [1..n])"

definition make_item :: "product list \<Rightarrow> nat \<times> planned_item \<Rightarrow> order_item seed_draw" where
  "make_item products planned =
     (case planned of (order, product, quantity, unit_price) \<Rightarrow>
      if product \<notin> set [0..<length products]
      then sraise (SeedValueError ''OrderGenerator planned a product that is not in the injected products list'')
      else sreturn \<lparr> oi_quantity = quantity, oi_unit_price = unit_price, oi_discount_amount = round_currency 0,
             oi_line_total = round_currency (unit_price * of_int quantity), oi_order = order, oi_product = product \<rparr>)"

definition planned_by_order :: "planned_item list list \<Rightarrow> (nat \<times> planned_item) list" where
  "planned_by_order planned = concat (map (\<lambda>(order, items). map (Pair order) items) (enumerate 0 planned))"

definition generate_order_items :: "int \<Rightarrow> planned_item list list \<Rightarrow> product list \<Rightarrow> order_item list seed_draw" where
  "generate_order_items n planned products = with_count n (for_each (make_item products) (planned_by_order planned))"

section \<open>Payments and shipments\<close>

definition build_payment ::
  "int \<Rightarrow> nat \<Rightarrow> shop_order \<Rightarrow> payment_method \<Rightarrow> payment_status \<Rightarrow> datetime option \<Rightarrow> int \<Rightarrow> payment" where
  "build_payment seed order row payment_method payment_status paid_at sequence =
     \<lparr> pa_payment_method = payment_method, pa_payment_status = payment_status, pa_amount = so_total_amount row,
       pa_transaction_reference = ''ch_'' @ format_0d 4 seed @ format_0d 8 sequence, pa_paid_at = paid_at, pa_order = order \<rparr>"

definition draw_success :: "seed_config \<Rightarrow> bool \<Rightarrow> bool seed_draw" where
  "draw_success cfg is_cancelled =
     sbind (payment_succeeds cfg) (\<lambda>succeeded.
     if is_cancelled \<and> succeeded then sbind rng_random (\<lambda>r. sreturn (r < 0.3)) else sreturn succeeded)"

text \<open>The failed attempts before the last one, whether the last one succeeded, and the last number used.\<close>

fun retry_payments ::
  "seed_config \<Rightarrow> bool \<Rightarrow> (int \<Rightarrow> payment) \<Rightarrow> nat \<Rightarrow> bool \<Rightarrow> int \<Rightarrow> (payment list \<times> bool \<times> int) seed_draw" where
  "retry_payments cfg is_cancelled failed 0 succeeded sequence = sreturn ([], succeeded, sequence)"
| "retry_payments cfg is_cancelled failed (Suc retries_remaining) succeeded sequence =
     (if succeeded then sreturn ([], succeeded, sequence)
      else sbind (draw_success cfg is_cancelled) (\<lambda>succeeded'.
           sbind (retry_payments cfg is_cancelled failed retries_remaining succeeded' (sequence + 1)) (\<lambda>(attempts, r, q).
           sreturn (failed (sequence + 1) # attempts, r, q))))"

definition payments_for_order ::
  "seed_config \<Rightarrow> int \<Rightarrow> nat \<Rightarrow> shop_order \<Rightarrow> int \<Rightarrow> (payment list \<times> int) seed_draw" where
  "payments_for_order cfg seed order row sequence =
     (if so_order_status row = OS_PENDING
      then sbind assign_payment_method (\<lambda>method.
           sreturn ([build_payment seed order row method PS_PENDING None (sequence + 1)], sequence + 1))
      else let must_succeed = so_order_status row \<in> {OS_CONFIRMED, OS_SHIPPED, OS_DELIVERED, OS_RETURNED};
               is_cancelled = so_order_status row = OS_CANCELLED in
           sbind assign_payment_method (\<lambda>method.
           sbind (draw_success cfg is_cancelled) (\<lambda>succeeded.
           sbind (if \<not> succeeded then retry_count_on_failure else sreturn 0) (\<lambda>retries_remaining.
           sbind (retry_payments cfg is_cancelled (build_payment seed order row method PS_FAILED None) (nat retries_remaining)
                    succeeded sequence) (\<lambda>(attempts, succeeded', sequence').
           if succeeded' \<or> must_succeed
           then sbind (rng_randint 1 180) (\<lambda>minutes.
                sreturn (attempts @ [build_payment seed order row method PS_CAPTURED
                  (Some (so_order_date row + micros_of_minutes minutes)) (sequence' + 1)], sequence' + 1))
           else sreturn (attempts @ [build_payment seed order row method PS_FAILED None (sequence' + 1)], sequence' + 1))))))"

fun payments_from :: "seed_config \<Rightarrow> int \<Rightarrow> (nat \<times> shop_order) list \<Rightarrow> int \<Rightarrow> payment list seed_draw" where
  "payments_from cfg seed [] sequence = sreturn []"
| "payments_from cfg seed ((order, row) # rows) sequence =
     sbind (payments_for_order cfg seed order row sequence) (\<lambda>(ps, sequence').
     sbind (payments_from cfg seed rows sequence') (\<lambda>rest. sreturn (ps @ rest)))"

definition generate_payments :: "int \<Rightarrow> shop_order list \<Rightarrow> seed_config \<Rightarrow> int \<Rightarrow> payment list seed_draw" where
  "generate_payments n orders cfg seed = with_count n (payments_from cfg seed (enumerate 0 orders) 0)"

definition SHIPPABLE_STATUSES :: "order_status list" where
  "SHIPPABLE_STATUSES = [OS_CONFIRMED, OS_SHIPPED, OS_DELIVERED, OS_RETURNED]"

definition resolve_status :: "order_status \<Rightarrow> shipment_status seed_draw" where
  "resolve_status order_status =
     (if order_status \<in> {OS_DELIVERED, OS_RETURNED} then sreturn SH_DELIVERED
      else sbind assign_shipment_status (\<lambda>drawn.
        if order_status = OS_CONFIRMED then sreturn (if drawn \<in> {SH_PENDING, SH_FAILED} then drawn else SH_PENDING)
        else sreturn (if drawn \<noteq> SH_DELIVERED then drawn else SH_IN_TRANSIT)))"

definition build_shipment :: "int \<Rightarrow> nat \<Rightarrow> nat \<times> shop_order \<Rightarrow> int \<Rightarrow> shipment seed_draw" where
  "build_shipment seed warehouses entry sequence =
     (case entry of (order, row) \<Rightarrow>
      sbind (resolve_status (so_order_status row)) (\<lambda>status.
      sbind assign_carrier (\<lambda>carrier.
      sbind (if status \<noteq> SH_PENDING
             then sbind processing_delay_days (\<lambda>d. sreturn (Some (so_order_date row + micros_of_days d)))
             else sreturn None) (\<lambda>shipped_at.
      sbind (if status = SH_DELIVERED
             then sbind (transit_delay_days carrier) (\<lambda>d.
               sreturn (Some ((case shipped_at of Some t \<Rightarrow> t | None \<Rightarrow> so_order_date row) + micros_of_days d)))
             else sreturn None) (\<lambda>delivered_at.
      sbind (rng_choice [0..<warehouses]) (\<lambda>w.
      sreturn \<lparr> sm_carrier = carrier, sm_tracking_number = ''1Z'' @ format_0d 4 seed @ format_0d 10 sequence,
        sm_shipment_status = status, sm_shipped_at = shipped_at, sm_delivered_at = delivered_at, sm_order = order,
        sm_warehouse = w \<rparr>))))))"

fun shipments_from :: "int \<Rightarrow> nat \<Rightarrow> (nat \<times> shop_order) list \<Rightarrow> int \<Rightarrow> shipment list seed_draw" where
  "shipments_from seed warehouses [] sequence = sreturn []"
| "shipments_from seed warehouses (entry # rows) sequence =
     (if so_order_status (snd entry) \<notin> set SHIPPABLE_STATUSES then shipments_from seed warehouses rows sequence
      else sbind (build_shipment seed warehouses entry (sequence + 1)) (\<lambda>s.
           sbind (shipments_from seed warehouses rows (sequence + 1)) (\<lambda>rest. sreturn (s # rest))))"

definition generate_shipments :: "int \<Rightarrow> shop_order list \<Rightarrow> warehouse list \<Rightarrow> int \<Rightarrow> shipment list seed_draw" where
  "generate_shipments n orders warehouses seed = with_count n
     (if warehouses = [] then sraise (SeedValueError ''ShipmentGenerator requires at least one warehouse'')
      else shipments_from seed (length warehouses) (enumerate 0 orders) 0)"

section \<open>Reviews and returns\<close>

text \<open>The latest delivery of each order.\<close>

definition note_delivery :: "shipment \<Rightarrow> (nat, datetime) dict \<Rightarrow> (nat, datetime) dict" where
  "note_delivery s d =
     (case sm_delivered_at s of
        None \<Rightarrow> d
      | Some t \<Rightarrow>
          (case map_of d (sm_order s) of
             None \<Rightarrow> AList.update (sm_order s) t d
           | Some existing \<Rightarrow> if t > existing then AList.update (sm_order s) t d else d))"

definition delivered_at_by_order :: "shipment list \<Rightarrow> (nat, datetime) dict" where
  "delivered_at_by_order shipments = fold note_delivery shipments []"

definition note_capture :: "payment \<Rightarrow> (nat, bool) dict \<Rightarrow> (nat, bool) dict" where
  "note_capture p d =
     (if pa_payment_status p = PS_CAPTURED then AList.update (pa_order p) True d
      else if map_of d (pa_order p) = None then AList.update (pa_order p) False d else d)"

definition captured_by_order :: "payment list \<Rightarrow> (nat, bool) dict" where
  "captured_by_order payments = fold note_capture payments []"

definition REVIEW_CONTENT :: "(int, (string \<times> string) list) dict" where
  "REVIEW_CONTENT =
    [(5, [(''Excellent!'', ''Exceeded my expectations. Works exactly as described and arrived quickly.''),
        (''Love it'', ''Best purchase I'' @ [CHR 0x27] @ ''ve made in a while. Highly recommend to anyone considering it.''),
        (''Perfect'', ''Exactly what I needed. Great quality for the price.'')]),
     (4, [(''Very good'', ''Solid product, does what it says. Minor nitpicks but overall happy.''),
        (''Great value'', ''Good quality for the price. Would buy again.''),
        (''Happy with it'', ''Works well '' @ em_dash @ '' a couple of small issues but nothing major.'')]),
     (3, [(''It'' @ [CHR 0x27] @ ''s okay'', ''Does the job but nothing special. Average quality.''),
        (''Decent'', ''Not bad, not great. Meets basic expectations.''),
        (''Mixed feelings'', ''Some things I like, some I don'' @ [CHR 0x27] @ ''t. Middle of the road.'')]),
     (2, [(''Disappointed'', ''Not what I expected. Quality feels below average.''),
        (''Below expectations'', ''Had some issues out of the box. Wouldn'' @ [CHR 0x27] @ ''t recommend.'')]),
     (1, [(''Not satisfied'', ''Arrived damaged and doesn'' @ [CHR 0x27] @ ''t work as described.''),
        (''Would not recommend'', ''Poor quality '' @ em_dash @ '' broke within days of use.'')])]"

definition review_item ::
  "seed_config \<Rightarrow> shop_order list \<Rightarrow> (nat, datetime) dict \<Rightarrow> nat \<times> order_item \<Rightarrow> product_review option seed_draw" where
  "review_item cfg orders delivered entry =
     (case entry of (k, item) \<Rightarrow> let order = orders ! oi_order item in
      if so_order_status order \<noteq> OS_DELIVERED then sreturn None
      else case map_of delivered (oi_order item) of
             None \<Rightarrow> sreturn None
           | Some delivered_at \<Rightarrow>
               sbind (is_eligible_for_review cfg True) (\<lambda>eligible.
               if \<not> eligible then sreturn None
               else sbind assign_rating (\<lambda>rating.
                    sbind (rng_choice (case map_of REVIEW_CONTENT rating of Some c \<Rightarrow> c | None \<Rightarrow> [])) (\<lambda>(title, content).
                    sbind review_delay_days (\<lambda>days.
                    sreturn (Some \<lparr> rv_rating = rating, rv_review_title = title, rv_review_text = content,
                      rv_is_verified_purchase = True, rv_review_date = delivered_at + micros_of_days days,
                      rv_product = oi_product item, rv_customer = so_customer order, rv_order_item = k \<rparr>))))))"

definition generate_reviews :: "int \<Rightarrow> shop_order list \<Rightarrow> order_item list \<Rightarrow> shipment list \<Rightarrow> seed_config \<Rightarrow> product_review list seed_draw" where
  "generate_reviews n orders items shipments cfg = with_count n
     (sbind (for_each (review_item cfg orders (delivered_at_by_order shipments)) (enumerate 0 items)) (\<lambda>rs.
      sreturn (List.map_filter id rs)))"

definition return_item ::
  "seed_config \<Rightarrow> shop_order list \<Rightarrow> (nat, datetime) dict \<Rightarrow> (nat, bool) dict \<Rightarrow> nat \<times> order_item \<Rightarrow> return_row option seed_draw" where
  "return_item cfg orders delivered captured entry =
     (case entry of (k, item) \<Rightarrow>
      case map_of delivered (oi_order item) of
        None \<Rightarrow> sreturn None
      | Some delivered_at \<Rightarrow>
          sbind (is_eligible_for_return cfg (so_order_status (orders ! oi_order item))) (\<lambda>eligible.
          if \<not> eligible then sreturn None
          else sbind (rng_randint 1 (RETURN_WINDOW_DAYS + 10)) (\<lambda>days.
               let requested_at = delivered_at + micros_of_days days;
                   window_open = is_return_window_open ((requested_at - delivered_at) div micros_per_day);
                   payment_captured = (case map_of captured (oi_order item) of Some b \<Rightarrow> b | None \<Rightarrow> False) in
               sbind (assign_return_status window_open payment_captured) (\<lambda>status.
               sbind (rng_randint 1 (oi_quantity item)) (\<lambda>quantity_returned.
               sbind (if status \<in> {RS_APPROVED, RS_REJECTED, RS_REFUNDED, RS_COMPLETED}
                      then sbind (rng_randint 1 10) (\<lambda>d. sreturn (Some (requested_at + micros_of_days d)))
                      else sreturn None) (\<lambda>resolved_at.
               let refund_amount = (if status \<in> {RS_REFUNDED, RS_COMPLETED}
                     then Some (round_currency (oi_unit_price item * of_int quantity_returned)) else None) in
               sbind assign_return_reason (\<lambda>reason.
               sreturn (Some \<lparr> re_return_reason = reason, re_return_status = status,
                 re_quantity_returned = quantity_returned, re_refund_amount = refund_amount,
                 re_requested_at = requested_at, re_resolved_at = resolved_at, re_order_item = k \<rparr>))))))))"

definition generate_returns ::
  "int \<Rightarrow> shop_order list \<Rightarrow> order_item list \<Rightarrow> shipment list \<Rightarrow> payment list \<Rightarrow> seed_config \<Rightarrow> return_row list seed_draw" where
  "generate_returns n orders items shipments payments cfg = with_count n
     (sbind (for_each (return_item cfg orders (delivered_at_by_order shipments) (captured_by_order payments))
        (enumerate 0 items)) (\<lambda>rs. sreturn (List.map_filter id rs)))"

end
