(* ===== verification/Seed_Run.thy ===== *)
theory Seed_Run
  imports Seed_Data
begin

text \<open>
  One run of the seeder: the constraints of the tables (\<open>models/*.py\<close>), the orchestrator
  (\<open>seeds/generator.py\<close>), the report and the validator (\<open>seeds/report.py\<close>) and the choice of the
  configuration (\<open>scripts/seed_database.py\<close>).
\<close>

section \<open>Constraints of the tables\<close>

definition has_row :: "nat \<Rightarrow> 'a list \<Rightarrow> bool" where
  "has_row k rows \<longleftrightarrow> k < length rows"

definition suppliers_ok :: "supplier list \<Rightarrow> bool" where
  "suppliers_ok rows \<longleftrightarrow> distinct (map su_supplier_code rows) \<and>
     list_all (\<lambda>r. su_lead_time_days r \<ge> 0 \<and> 0 \<le> su_rating r \<and> su_rating r \<le> 5) rows"

definition warehouses_ok :: "warehouse list \<Rightarrow> bool" where
  "warehouses_ok rows \<longleftrightarrow> distinct (map wh_warehouse_code rows)"

text \<open>A unique constraint does not compare rows in which one of its columns is \<open>NULL\<close>.\<close>

definition categories_ok :: "product_category list \<Rightarrow> bool" where
  "categories_ok rows \<longleftrightarrow>
     list_all (\<lambda>r. case pc_parent r of Some p \<Rightarrow> has_row p rows | None \<Rightarrow> True) rows \<and>
     distinct (map (\<lambda>r. (pc_parent r, pc_category_name r)) (filter (\<lambda>r. pc_parent r \<noteq> None) rows))"

definition products_ok :: "product_category list \<Rightarrow> supplier list \<Rightarrow> product list \<Rightarrow> bool" where
  "products_ok categories suppliers rows \<longleftrightarrow> distinct (map pr_sku rows) \<and>
     list_all (\<lambda>r. has_row (pr_category r) categories \<and> has_row (pr_supplier r) suppliers \<and>
       pr_unit_price r \<ge> 0 \<and> pr_cost_price r \<ge> 0) rows"

definition inventory_ok :: "product list \<Rightarrow> warehouse list \<Rightarrow> inventory_row list \<Rightarrow> bool" where
  "inventory_ok products warehouses rows \<longleftrightarrow> distinct (map (\<lambda>r. (iv_product r, iv_warehouse r)) rows) \<and>
     list_all (\<lambda>r. has_row (iv_product r) products \<and> has_row (iv_warehouse r) warehouses \<and>
       iv_quantity_on_hand r \<ge> 0 \<and> iv_reorder_level r \<ge> 0) rows"

definition customers_ok :: "customer list \<Rightarrow> bool" where
  "customers_ok rows \<longleftrightarrow> distinct (map cu_customer_number rows) \<and> distinct (map cu_email rows)"

definition addresses_ok :: "customer list \<Rightarrow> customer_address list \<Rightarrow> bool" where
  "addresses_ok customers rows \<longleftrightarrow> list_all (\<lambda>r. has_row (ad_customer r) customers) rows \<and>
     distinct (map (\<lambda>r. (ad_customer r, ad_address_type r)) (filter ad_is_default rows))"

definition promotions_ok :: "promotion list \<Rightarrow> bool" where
  "promotions_ok rows \<longleftrightarrow> distinct (map po_promotion_code rows) \<and>
     list_all (\<lambda>r. po_discount_value r \<ge> 0 \<and> po_ends_at r > po_starts_at r) rows"

definition orders_ok :: "customer list \<Rightarrow> promotion list \<Rightarrow> shop_order list \<Rightarrow> bool" where
  "orders_ok customers promotions rows \<longleftrightarrow> distinct (map so_order_number rows) \<and>
     list_all (\<lambda>r. has_row (so_customer r) customers \<and>
       (case so_promotion r of Some p \<Rightarrow> has_row p promotions | None \<Rightarrow> True) \<and>
       so_subtotal_amount r \<ge> 0 \<and> so_discount_amount r \<ge> 0 \<and> so_tax_amount r \<ge> 0 \<and> so_shipping_amount r \<ge> 0 \<and>
       so_total_amount r \<ge> 0) rows"

definition order_items_ok :: "shop_order list \<Rightarrow> product list \<Rightarrow> order_item list \<Rightarrow> bool" where
  "order_items_ok orders products rows \<longleftrightarrow> distinct (map (\<lambda>r. (oi_order r, oi_product r)) rows) \<and>
     list_all (\<lambda>r. has_row (oi_order r) orders \<and> has_row (oi_product r) products \<and> oi_quantity r > 0 \<and>
       oi_unit_price r \<ge> 0 \<and> oi_discount_amount r \<ge> 0 \<and> oi_line_total r \<ge> 0) rows"

definition payments_ok :: "shop_order list \<Rightarrow> payment list \<Rightarrow> bool" where
  "payments_ok orders rows \<longleftrightarrow> distinct (map pa_transaction_reference rows) \<and>
     list_all (\<lambda>r. has_row (pa_order r) orders \<and> pa_amount r \<ge> 0) rows"

definition shipments_ok :: "shop_order list \<Rightarrow> warehouse list \<Rightarrow> shipment list \<Rightarrow> bool" where
  "shipments_ok orders warehouses rows \<longleftrightarrow> distinct (map sm_tracking_number rows) \<and>
     list_all (\<lambda>r. has_row (sm_order r) orders \<and> has_row (sm_warehouse r) warehouses) rows"

definition reviews_ok :: "product list \<Rightarrow> customer list \<Rightarrow> order_item list \<Rightarrow> product_review list \<Rightarrow> bool" where
  "reviews_ok products customers items rows \<longleftrightarrow> distinct (map rv_order_item rows) \<and>
     list_all (\<lambda>r. has_row (rv_product r) products \<and> has_row (rv_customer r) customers \<and> has_row (rv_order_item r) items \<and>
       1 \<le> rv_rating r \<and> rv_rating r \<le> 5) rows"

definition returns_ok :: "order_item list \<Rightarrow> return_row list \<Rightarrow> bool" where
  "returns_ok items rows \<longleftrightarrow>
     list_all (\<lambda>r. has_row (re_order_item r) items \<and> re_quantity_returned r > 0 \<and>
       (case re_refund_amount r of Some a \<Rightarrow> a \<ge> 0 | None \<Rightarrow> True)) rows"

section \<open>The orchestrator (generator.py)\<close>

definition persist :: "string \<Rightarrow> bool \<Rightarrow> unit seed_draw" where
  "persist table ok = (if ok then sreturn () else sraise (SeedIntegrityError table))"

definition GENERATOR_SEED_OFFSETS :: "(string, int) dict" where
  "GENERATOR_SEED_OFFSETS = [(''suppliers'', 1), (''warehouses'', 2), (''categories'', 3), (''products'', 4),
     (''inventory'', 5), (''customers'', 6), (''customer_addresses'', 7), (''promotions'', 8), (''orders'', 9),
     (''order_items'', 10), (''payments'', 11), (''shipments'', 12), (''reviews'', 13), (''returns'', 14)]"

definition context_seed :: "seed_config \<Rightarrow> string \<Rightarrow> int" where
  "context_seed cfg generator = sc_seed cfg + (case map_of GENERATOR_SEED_OFFSETS generator of Some k \<Rightarrow> k | None \<Rightarrow> 0)"

record dataset =
  da_suppliers :: "supplier list"
  da_warehouses :: "warehouse list"
  da_categories :: "product_category list"
  da_products :: "product list"
  da_inventory :: "inventory_row list"
  da_customers :: "customer list"
  da_addresses :: "customer_address list"
  da_promotions :: "promotion list"
  da_orders :: "shop_order list"
  da_items :: "order_item list"
  da_payments :: "payment list"
  da_shipments :: "shipment list"
  da_reviews :: "product_review list"
  da_returns :: "return_row list"

definition seed_catalog ::
  "faker \<Rightarrow> seed_config \<Rightarrow> (supplier list \<times> warehouse list \<times> product_category list \<times> product list \<times> inventory_row list) seed_draw" where
  "seed_catalog fk cfg =
     (let sizes = sc_dataset_size cfg in
      sbind (generate_suppliers fk (dz_suppliers sizes) cfg) (\<lambda>suppliers.
      sbind (persist ''suppliers'' (suppliers_ok suppliers)) (\<lambda>_.
      sbind (generate_warehouses fk (dz_warehouses sizes) cfg) (\<lambda>warehouses.
      sbind (persist ''warehouses'' (warehouses_ok warehouses)) (\<lambda>_.
      sbind (generate_categories (dz_product_categories sizes) cfg) (\<lambda>categories.
      sbind (persist ''product_categories'' (categories_ok categories)) (\<lambda>_.
      sbind (generate_products fk (dz_products sizes) categories suppliers cfg) (\<lambda>products.
      sbind (persist ''products'' (products_ok categories suppliers products)) (\<lambda>_.
      sbind (generate_inventory (dz_inventory sizes) products warehouses cfg) (\<lambda>inventory.
      sbind (persist ''inventory'' (inventory_ok products warehouses inventory)) (\<lambda>_.
      sreturn (suppliers, warehouses, categories, products, inventory))))))))))))"

definition seed_customers ::
  "faker \<Rightarrow> seed_config \<Rightarrow> (customer list \<times> customer_address list \<times> promotion list) seed_draw" where
  "seed_customers fk cfg =
     (let sizes = sc_dataset_size cfg in
      sbind (generate_customers fk (dz_customers sizes) cfg) (\<lambda>customers.
      sbind (persist ''customers'' (customers_ok customers)) (\<lambda>_.
      sbind (generate_addresses fk (customer_addresses_target sizes) customers) (\<lambda>addresses.
      sbind (persist ''customer_addresses'' (addresses_ok customers addresses)) (\<lambda>_.
      sbind (generate_promotions (dz_promotions sizes) cfg) (\<lambda>promotions.
      sbind (persist ''promotions'' (promotions_ok promotions)) (\<lambda>_.
      sreturn (customers, addresses, promotions))))))))"

definition seed_sales ::
  "faker \<Rightarrow> seed_config \<Rightarrow> customer list \<Rightarrow> promotion list \<Rightarrow> product list \<Rightarrow> (shop_order list \<times> order_item list) seed_draw" where
  "seed_sales fk cfg customers promotions products =
     (let sizes = sc_dataset_size cfg in
      sbind (generate_orders fk (dz_orders sizes) customers promotions products cfg) (\<lambda>planned.
      sbind (persist ''orders'' (orders_ok customers promotions (map fst planned))) (\<lambda>_.
      sbind (generate_order_items (order_items_target sizes) (map snd planned) products) (\<lambda>items.
      sbind (persist ''order_items'' (order_items_ok (map fst planned) products items)) (\<lambda>_.
      sreturn (map fst planned, items))))))"

definition seed_fulfilment ::
  "seed_config \<Rightarrow> warehouse list \<Rightarrow> product list \<Rightarrow> customer list \<Rightarrow> shop_order list \<Rightarrow> order_item list \<Rightarrow>
   (payment list \<times> shipment list \<times> product_review list \<times> return_row list) seed_draw" where
  "seed_fulfilment cfg warehouses products customers orders items =
     (let sizes = sc_dataset_size cfg in
      sbind (generate_payments (dz_payments sizes) orders cfg (context_seed cfg ''payments'')) (\<lambda>payments.
      sbind (persist ''payments'' (payments_ok orders payments)) (\<lambda>_.
      sbind (generate_shipments (dz_shipments sizes) orders warehouses (context_seed cfg ''shipments'')) (\<lambda>shipments.
      sbind (persist ''shipments'' (shipments_ok orders warehouses shipments)) (\<lambda>_.
      sbind (generate_reviews (dz_product_reviews sizes) orders items shipments cfg) (\<lambda>reviews.
      sbind (persist ''product_reviews'' (reviews_ok products customers items reviews)) (\<lambda>_.
      sbind (generate_returns (dz_returns sizes) orders items shipments payments cfg) (\<lambda>returns.
      sbind (persist ''returns'' (returns_ok items returns)) (\<lambda>_.
      sreturn (payments, shipments, reviews, returns))))))))))"

definition run_orchestrator :: "faker \<Rightarrow> seed_config \<Rightarrow> scenario_profile option \<Rightarrow> dataset seed_draw" where
  "run_orchestrator fk base scenario =
     (let cfg = (case scenario of Some sp \<Rightarrow> apply_scenario sp base | None \<Rightarrow> base) in
      sbind (seed_catalog fk cfg) (\<lambda>(suppliers, warehouses, categories, products, inventory).
      sbind (seed_customers fk cfg) (\<lambda>(customers, addresses, promotions).
      sbind (seed_sales fk cfg customers promotions products) (\<lambda>(orders, items).
      sbind (seed_fulfilment cfg warehouses products customers orders items) (\<lambda>(payments, shipments, reviews, returns).
      sreturn \<lparr> da_suppliers = suppliers, da_warehouses = warehouses, da_categories = categories,
        da_products = products, da_inventory = inventory, da_customers = customers, da_addresses = addresses,
        da_promotions = promotions, da_orders = orders, da_items = items, da_payments = payments,
        da_shipments = shipments, da_reviews = reviews, da_returns = returns \<rparr>)))))"

section \<open>The report (report.py)\<close>

record generation_report =
  gr_scenario_name :: string
  gr_seed :: int
  gr_row_counts :: "nat list"
  gr_total_revenue :: real
  gr_average_order_value :: real
  gr_return_rate :: real
  gr_review_rate :: real
  gr_inventory_coverage :: real
  gr_promotion_usage_rate :: real
  gr_payment_success_rate :: real

definition ratio :: "nat \<Rightarrow> nat \<Rightarrow> real" where
  "ratio a b = (if b \<noteq> 0 then real a / real b else 0)"

definition row_counts :: "dataset \<Rightarrow> (string \<times> nat) list" where
  "row_counts d = [(''suppliers'', length (da_suppliers d)), (''warehouses'', length (da_warehouses d)),
     (''product_categories'', length (da_categories d)), (''products'', length (da_products d)),
     (''inventory'', length (da_inventory d)), (''customers'', length (da_customers d)),
     (''customer_addresses'', length (da_addresses d)), (''promotions'', length (da_promotions d)),
     (''orders'', length (da_orders d)), (''order_items'', length (da_items d)), (''payments'', length (da_payments d)),
     (''shipments'', length (da_shipments d)), (''product_reviews'', length (da_reviews d)),
     (''returns'', length (da_returns d))]"

definition from_results :: "string \<Rightarrow> int \<Rightarrow> dataset \<Rightarrow> generation_report" where
  "from_results scenario_name seed d =
     (let total_revenue = round_currency (sum_list (map so_total_amount (da_orders d)));
          delivered_item_count =
            length (filter (\<lambda>item. so_order_status (da_orders d ! oi_order item) = OS_DELIVERED) (da_items d)) in
      \<lparr> gr_scenario_name = scenario_name, gr_seed = seed, gr_row_counts = map snd (row_counts d),
        gr_total_revenue = total_revenue,
        gr_average_order_value =
          (if da_orders d \<noteq> [] then round_currency (total_revenue / real (length (da_orders d))) else 0),
        gr_return_rate = ratio (length (da_returns d)) delivered_item_count,
        gr_review_rate = ratio (length (da_reviews d)) delivered_item_count,
        gr_inventory_coverage = ratio (length (da_inventory d)) (length (da_products d) * length (da_warehouses d)),
        gr_promotion_usage_rate =
          ratio (length (filter (\<lambda>order. so_promotion order \<noteq> None) (da_orders d))) (length (da_orders d)),
        gr_payment_success_rate =
          ratio (length (filter (\<lambda>p. pa_payment_status p = PS_CAPTURED) (da_payments d))) (length (da_payments d)) \<rparr>)"

section \<open>The validator (report.py)\<close>

record validation_check =
  vc_name :: string
  vc_passed :: bool
  vc_detail :: string

text \<open>The joins of the queries: a key joins the row at its position, if there is one.\<close>

definition joined :: "nat \<Rightarrow> 'a list \<Rightarrow> 'a list" where
  "joined k rows = (if k < length rows then [rows ! k] else [])"

definition count_check :: "string \<Rightarrow> nat \<Rightarrow> string \<Rightarrow> validation_check" where
  "count_check name n what = \<lparr> vc_name = name, vc_passed = (n = 0), vc_detail = str_nat n @ '' '' @ what \<rparr>"

definition check_row_counts :: "dataset \<Rightarrow> validation_check" where
  "check_row_counts d = \<lparr> vc_name = ''Row counts (non-zero)'', vc_passed = list_all (\<lambda>(_, n). n > 0) (row_counts d),
     vc_detail = join '', '' (map (\<lambda>(name, n). name @ ''='' @ str_nat n) (row_counts d)) \<rparr>"

definition check_no_orphan_orders :: "dataset \<Rightarrow> validation_check" where
  "check_no_orphan_orders d = count_check ''No orphan orders (customer_id)''
     (length (filter (\<lambda>r. joined (so_customer r) (da_customers d) = []) (da_orders d))) ''orphaned rows''"

definition check_no_orphan_order_items :: "dataset \<Rightarrow> validation_check" where
  "check_no_orphan_order_items d = count_check ''No orphan order_items (order_id, product_id)''
     (length (filter (\<lambda>r. joined (oi_order r) (da_orders d) = [] \<or> joined (oi_product r) (da_products d) = []) (da_items d)))
     ''orphaned rows''"

definition item_total :: "order_item list \<Rightarrow> nat \<Rightarrow> real" where
  "item_total items order = sum_list (map oi_line_total (filter (\<lambda>r. oi_order r = order) items))"

definition check_order_totals :: "dataset \<Rightarrow> validation_check" where
  "check_order_totals d = count_check ''Order totals correct (subtotal=SUM(items), total=subtotal-discount+tax+shipping)''
     (length (filter (\<lambda>(k, r). so_subtotal_amount r \<noteq> item_total (da_items d) k \<or>
        so_total_amount r \<noteq> so_subtotal_amount r - so_discount_amount r + so_tax_amount r + so_shipping_amount r)
        (enumerate 0 (da_orders d)))) ''mismatched orders''"

definition check_payment_amounts :: "dataset \<Rightarrow> validation_check" where
  "check_payment_amounts d = count_check (''Payment amounts match their order'' @ [CHR 0x27] @ ''s total'')
     (length (filter (\<lambda>(p, r). pa_amount p \<noteq> so_total_amount r)
        (concat (map (\<lambda>p. map (Pair p) (joined (pa_order p) (da_orders d))) (da_payments d))))) ''mismatched payments''"

definition check_inventory_non_negative :: "dataset \<Rightarrow> validation_check" where
  "check_inventory_non_negative d = count_check ''Inventory quantities never negative''
     (length (filter (\<lambda>r. iv_quantity_on_hand r < 0) (da_inventory d))) ''negative rows''"

definition item_order :: "dataset \<Rightarrow> nat \<Rightarrow> (nat \<times> shop_order) list" where
  "item_order d k =
     concat (map (\<lambda>item. map (Pair (oi_order item)) (joined (oi_order item) (da_orders d))) (joined k (da_items d)))"

definition check_review_eligibility :: "dataset \<Rightarrow> validation_check" where
  "check_review_eligibility d =
     (let joined_reviews = concat (map (\<lambda>r. map (Pair r) (item_order d (rv_order_item r))) (da_reviews d));
          wrong_status = length (filter (\<lambda>(r, _, order). so_order_status order \<noteq> OS_DELIVERED) joined_reviews);
          before_delivery = length (filter (\<lambda>(r, t). rv_review_date r \<le> t)
            (concat (map (\<lambda>(r, k, _). List.map_filter (\<lambda>s. if sm_order s = k then map_option (Pair r) (sm_delivered_at s) else None)
              (da_shipments d)) joined_reviews)))
      in \<lparr> vc_name = ''Review eligibility (delivered orders only, dated after delivery)'',
           vc_passed = (wrong_status = 0 \<and> before_delivery = 0),
           vc_detail = str_nat wrong_status @ '' reviews on non-delivered orders, '' @ str_nat before_delivery @
             '' dated before/at delivery'' \<rparr>)"

definition check_return_eligibility :: "dataset \<Rightarrow> validation_check" where
  "check_return_eligibility d = count_check ''Return eligibility (delivered/returned orders only)''
     (length (filter (\<lambda>(_, order). so_order_status order \<notin> {OS_DELIVERED, OS_RETURNED})
        (concat (map (\<lambda>r. item_order d (re_order_item r)) (da_returns d))))) ''ineligible returns''"

definition validate_dataset :: "dataset \<Rightarrow> validation_check list" where
  "validate_dataset d = [check_row_counts d, check_no_orphan_orders d, check_no_orphan_order_items d, check_order_totals d,
     check_payment_amounts d, check_inventory_non_negative d, check_review_eligibility d, check_return_eligibility d]"

definition all_passed :: "validation_check list \<Rightarrow> bool" where
  "all_passed checks = list_all vc_passed checks"

section \<open>The command (scripts/seed_database.py)\<close>

definition DATASET_SIZE_PRESETS :: "(string, dataset_size) dict" where
  "DATASET_SIZE_PRESETS =
    [(''small'', default_dataset_size\<lparr> dz_customers := 200, dz_suppliers := 15, dz_warehouses := 3, dz_product_categories := 30,
        dz_products := 150, dz_promotions := 8, dz_orders := 600, dz_payments := 620, dz_shipments := 550, dz_inventory := 300,
        dz_product_reviews := 250, dz_returns := 45 \<rparr>),
     (''medium'', default_dataset_size\<lparr> dz_customers := 2000, dz_suppliers := 60, dz_warehouses := 6, dz_product_categories := 80,
        dz_products := 800, dz_promotions := 25, dz_orders := 6000, dz_payments := 6200, dz_shipments := 5500,
        dz_inventory := 3000, dz_product_reviews := 2500, dz_returns := 450 \<rparr>)]"

text \<open>\<open>None\<close>: the command exits with \<open>Unknown scenario\<close>.\<close>

definition resolve_scenario :: "string \<Rightarrow> scenario_profile option option" where
  "resolve_scenario name =
     (if name = ''default'' then Some None
      else map_option Some (next_where (\<lambda>sp. sp_name sp = name) STANDARD_SCENARIOS))"

record seed_args =
  sa_seed :: "int option"
  sa_locale :: "string option"
  sa_currency :: "string option"
  sa_dataset_size :: string
  sa_verbosity :: "string option"

text \<open>\<open>base\<close> is the configuration read from a file, or the default one; \<open>model_copy\<close> does not validate.\<close>

definition build_config :: "seed_args \<Rightarrow> seed_config \<Rightarrow> seed_config" where
  "build_config args base =
     base\<lparr> sc_seed := or_default (sa_seed args) (sc_seed base), sc_locale := or_default (sa_locale args) (sc_locale base),
           sc_currency := or_default (sa_currency args) (sc_currency base),
           sc_output_verbosity := or_default (sa_verbosity args) (sc_output_verbosity base),
           sc_dataset_size := or_default (map_of DATASET_SIZE_PRESETS (sa_dataset_size args)) (sc_dataset_size base) \<rparr>"

definition seed_command :: "faker \<Rightarrow> seed_args \<Rightarrow> seed_config \<Rightarrow> string \<Rightarrow> int option seed_draw" where
  "seed_command fk args base scenario_name =
     (case resolve_scenario scenario_name of
        None \<Rightarrow> sreturn None
      | Some scenario \<Rightarrow>
          sbind (run_orchestrator fk (build_config args base) scenario) (\<lambda>d.
          sreturn (Some (if all_passed (validate_dataset d) then 0 else 1))))"

end
