(* ===== verification/Seed_Laws.thy ===== *)
theory Seed_Laws
  imports Seed_Run "HOL-Library.Multiset"
begin

text \<open>
  The calculus in which the generators are verified: \<open>gives m s Q\<close> says that \<open>m\<close> started in \<open>s\<close> does not
  raise and ends with a result and a state that satisfy \<open>Q\<close>, whatever the stream of words; and the laws
  of currency rounding, padded numbers and dates.
\<close>

section \<open>Weakest preconditions of draws\<close>

definition gives :: "'a seed_draw \<Rightarrow> seed_state \<Rightarrow> ('a \<Rightarrow> seed_state \<Rightarrow> bool) \<Rightarrow> bool" where
  "gives m s Q \<longleftrightarrow> (\<exists>x s'. m s = (Inr x, s') \<and> Q x s')"

named_theorems gives_intros \<open>rules for the postconditions of draws\<close>

lemma gives_mono: "gives m s P \<Longrightarrow> (\<And>x s'. P x s' \<Longrightarrow> Q x s') \<Longrightarrow> gives m s Q"
  by (auto simp: gives_def)

lemma gives_conj: "gives m s P \<Longrightarrow> gives m s Q \<Longrightarrow> gives m s (\<lambda>x s'. P x s' \<and> Q x s')"
  by (auto simp: gives_def)

lemma gives_return [gives_intros]: "Q x s \<Longrightarrow> gives (sreturn x) s Q"
  by (simp add: gives_def)

lemma gives_bind [gives_intros]: "gives m s (\<lambda>x s'. gives (f x) s' Q) \<Longrightarrow> gives (sbind m f) s Q"
  by (auto simp: gives_def sbind_def)

lemma gives_if [gives_intros]:
  "(p \<Longrightarrow> gives a s Q) \<Longrightarrow> (\<not> p \<Longrightarrow> gives b s Q) \<Longrightarrow> gives (if p then a else b) s Q"
  by simp

lemma gives_option [gives_intros]:
  "(r = None \<Longrightarrow> gives a s Q) \<Longrightarrow> (\<And>x. r = Some x \<Longrightarrow> gives (b x) s Q) \<Longrightarrow> gives (case r of None \<Rightarrow> a | Some x \<Rightarrow> b x) s Q"
  by (simp split: option.split)

lemma gives_pair [gives_intros]: "(\<And>x y. q = (x, y) \<Longrightarrow> gives (f x y) s Q) \<Longrightarrow> gives (case q of (x, y) \<Rightarrow> f x y) s Q"
  by (simp split: prod.split)

lemma gives_let [gives_intros]: "(\<And>x. x = e \<Longrightarrow> gives (f x) s Q) \<Longrightarrow> gives (let x = e in f x) s Q"
  by simp

lemma gives_randbelow [gives_intros]:
  "0 < n \<Longrightarrow> (\<And>w s'. w < n \<Longrightarrow> ss_fakes s' = ss_fakes s \<Longrightarrow> Q w s') \<Longrightarrow> gives (randbelow n) s Q"
  by (simp add: gives_def randbelow_def next_word_def sbind_def)

lemma gives_random [gives_intros]:
  assumes "\<And>r s'. 0 \<le> r \<Longrightarrow> r < 1 \<Longrightarrow> ss_fakes s' = ss_fakes s \<Longrightarrow> Q r s'"
  shows "gives rng_random s Q"
  unfolding rng_random_def by (intro gives_intros) (auto intro!: assms)

lemma gives_randint [gives_intros]:
  assumes "a \<le> b" "\<And>x s'. a \<le> x \<Longrightarrow> x \<le> b \<Longrightarrow> ss_fakes s' = ss_fakes s \<Longrightarrow> Q x s'"
  shows "gives (rng_randint a b) s Q"
  unfolding rng_randint_def using assms(1) by (intro gives_intros) (auto intro!: assms(2))

lemma gives_uniform [gives_intros]:
  assumes "a \<le> b" "\<And>x s'. a \<le> x \<Longrightarrow> x \<le> b \<Longrightarrow> ss_fakes s' = ss_fakes s \<Longrightarrow> Q x s'"
  shows "gives (rng_uniform a b) s Q"
  unfolding rng_uniform_def
proof (intro gives_intros)
  fix r :: real and s' :: seed_state assume "0 \<le> r" "r < 1" "ss_fakes s' = ss_fakes s"
  moreover have "(b - a) * r \<le> (b - a) * 1" using assms(1) \<open>r < 1\<close> by (intro mult_left_mono) auto
  ultimately show "Q (a + (b - a) * r) s'" using assms(1) by (intro assms(2)) auto
qed

lemma gives_choice [gives_intros]:
  assumes "xs \<noteq> []" "\<And>x s'. x \<in> set xs \<Longrightarrow> ss_fakes s' = ss_fakes s \<Longrightarrow> Q x s'"
  shows "gives (rng_choice xs) s Q"
  unfolding rng_choice_def using assms(1) by (intro gives_intros) (auto intro!: assms(2))

lemma bisect_bounds: "lo \<le> hi \<Longrightarrow> bisect a x lo hi \<le> hi"
proof (induction a x lo hi rule: bisect.induct)
  case (1 a x lo hi)
  show ?case
  proof (cases "lo < hi")
    case True
    then have "(lo + hi) div 2 < hi" "lo \<le> (lo + hi) div 2" by auto
    then show ?thesis using 1 True by (subst bisect.simps) (auto simp: Let_def intro: order_trans less_imp_le)
  qed (use "1.prems" in \<open>subst bisect.simps, simp\<close>)
qed

lemma last_accumulate: "ws \<noteq> [] \<Longrightarrow> last (accumulate t ws) = t + sum_list ws"
proof (induction ws arbitrary: t)
  case (Cons w ws)
  then show ?case by (cases ws) auto
qed simp

lemma gives_weighted [gives_intros]:
  assumes "length xs = length ws" "xs \<noteq> []" "0 < sum_list ws"
    and "\<And>x s'. x \<in> set xs \<Longrightarrow> ss_fakes s' = ss_fakes s \<Longrightarrow> Q x s'"
  shows "gives (weighted_choice xs ws) s Q"
proof -
  have ws: "ws \<noteq> []" using assms(1,2) by auto
  then have "\<not> last (accumulate 0 ws) \<le> 0" using assms(3) by (simp add: last_accumulate)
  moreover have "bisect (accumulate 0 ws) y 0 (length xs - 1) < length xs" for y
    using bisect_bounds [of 0 "length xs - 1" "accumulate 0 ws" y] assms(2)
    by (metis One_nat_def Suc_pred le_imp_less_Suc length_greater_0_conv zero_le)
  ultimately show ?thesis unfolding weighted_choice_def rng_choices_def Let_def
    using assms(1,2) by (simp only: if_False not_True_eq_False) (intro gives_intros, auto intro!: assms(4))
qed

lemma gives_fake [gives_intros]:
  "(\<And>s'. ss_fakes s' = Suc (ss_fakes s) \<Longrightarrow> Q (fk_text fk method (ss_fakes s)) s') \<Longrightarrow> gives (fake fk method) s Q"
  by (simp add: gives_def fake_def)

lemma gives_fake_date [gives_intros]:
  "(\<And>x s'. ss_fakes s' = Suc (ss_fakes s) \<Longrightarrow> Q x s') \<Longrightarrow> gives (fake_date fk method) s Q"
  by (simp add: gives_def fake_date_def)

lemma gives_date_between [gives_intros]:
  assumes "a \<le> b" "\<And>x s'. a \<le> x \<Longrightarrow> x \<le> b \<Longrightarrow> ss_fakes s' = ss_fakes s \<Longrightarrow> Q x s'"
  shows "gives (random_date_between a b) s Q"
  unfolding random_date_between_def using assms(1) by (intro gives_intros) (auto intro!: assms(2))

lemma gives_datetime_between [gives_intros]:
  assumes "a \<le> b" "\<And>x s'. a \<le> x \<Longrightarrow> ss_fakes s' = ss_fakes s \<Longrightarrow> Q x s'"
  shows "gives (random_datetime_between a b) s Q"
  unfolding random_datetime_between_def using assms(1)
  by (intro gives_intros) (auto intro!: assms(2) simp: pos_imp_zdiv_nonneg_iff)

lemma gives_with_count [gives_intros]: "0 \<le> n \<Longrightarrow> gives m s Q \<Longrightarrow> gives (with_count n m) s Q"
  by (simp add: with_count_def)

lemma gives_persist [gives_intros]: "ok \<Longrightarrow> Q () s \<Longrightarrow> gives (persist table ok) s Q"
  by (simp add: persist_def gives_def)

text \<open>A loop: each value is related to its element.\<close>

lemma gives_each:
  assumes "\<And>x s. x \<in> set xs \<Longrightarrow> gives (f x) s (\<lambda>y _. R x y)"
    and "\<And>ys s'. list_all2 R xs ys \<Longrightarrow> Q ys s'"
  shows "gives (for_each f xs) s Q"
proof -
  have "gives (for_each f xs) s (\<lambda>ys _. list_all2 R xs ys)" using assms(1)
  proof (induction xs arbitrary: s)
    case (Cons x xs)
    have step: "gives (f x) s (\<lambda>y _. R x y)" using Cons.prems by simp
    have rest: "gives (for_each f xs) s' (\<lambda>ys _. list_all2 R xs ys)" for s' using Cons by simp
    show ?case unfolding for_each.simps
      by (intro gives_bind gives_mono [OF step] gives_mono [OF rest] gives_return) simp
  qed (simp add: gives_def)
  then show ?thesis by (rule gives_mono) (rule assms(2))
qed

lemma all2_keys:
  "list_all2 R xs ys \<Longrightarrow> (\<And>x y. x \<in> set xs \<Longrightarrow> R x y \<Longrightarrow> key y = f x) \<Longrightarrow> map key ys = map f xs"
  by (induction rule: list_all2_induct) auto

lemma all2_all: "list_all2 R xs ys \<Longrightarrow> (\<And>x y. x \<in> set xs \<Longrightarrow> R x y \<Longrightarrow> P y) \<Longrightarrow> list_all P ys"
  by (induction rule: list_all2_induct) auto

section \<open>Rounding\<close>

lemma round_half_up_bounds:
  "real_of_int m \<le> x \<Longrightarrow> m \<le> round_half_up x" "x \<le> real_of_int m \<Longrightarrow> round_half_up x \<le> m"
  unfolding round_half_up_def by (auto simp: le_floor_iff floor_le_iff) linarith+

lemma py_round_bounds:
  "real_of_int m \<le> x \<Longrightarrow> m \<le> py_round x" "x \<le> real_of_int m \<Longrightarrow> py_round x \<le> m"
  unfolding py_round_def Let_def by (auto simp: le_floor_iff floor_le_iff) linarith+

lemma py_round_nonneg [intro]: "0 \<le> x \<Longrightarrow> 0 \<le> py_round x"
  using py_round_bounds(1) [of 0 x] by simp

lemma py_round_digits_bounds:
  assumes "real_of_int a / 10 ^ n \<le> x" "x \<le> real_of_int b / 10 ^ n"
  shows "real_of_int a / 10 ^ n \<le> py_round_digits x n" "py_round_digits x n \<le> real_of_int b / 10 ^ n"
  unfolding py_round_digits_def using assms
  by (auto intro!: divide_right_mono py_round_bounds simp: field_simps)

lemma py_round_digits_nonneg [intro]: "0 \<le> x \<Longrightarrow> 0 \<le> py_round_digits x n"
  unfolding py_round_digits_def by (intro divide_nonneg_pos) (auto intro!: py_round_nonneg)

text \<open>Amounts in whole cents are not changed by rounding.\<close>

definition cents :: "real \<Rightarrow> bool" where
  "cents x \<longleftrightarrow> (\<exists>k. x = real_of_int k / 100)"

lemma cents_round [simp, intro]: "cents (round_currency x)"
  by (auto simp: cents_def round_currency_def)

lemma round_half_up_int: "round_half_up (real_of_int k) = k"
  by (intro order_antisym round_half_up_bounds order_refl)

lemma round_cents: "cents x \<Longrightarrow> round_currency x = x"
  unfolding cents_def round_currency_def by (auto simp: round_half_up_int)

lemma cents_arith:
  "cents 0" "cents x \<Longrightarrow> cents y \<Longrightarrow> cents (x + y)" "cents x \<Longrightarrow> cents y \<Longrightarrow> cents (x - y)"
  "cents x \<Longrightarrow> cents (x * of_int q)"
  unfolding cents_def
     apply (rule exI [of _ 0], simp)
    apply (metis add_divide_distrib of_int_add)
   apply (metis diff_divide_distrib of_int_diff)
  by (metis of_int_mult times_divide_eq_left)

lemma cents_sum: "(\<And>x. x \<in> set xs \<Longrightarrow> cents (f x)) \<Longrightarrow> cents (sum_list (map f xs))"
  by (induction xs) (auto intro: cents_arith)

lemma round_currency_mono_cents:
  assumes "cents y" shows "x \<le> y \<Longrightarrow> round_currency x \<le> y" "y \<le> x \<Longrightarrow> y \<le> round_currency x"
  using assms unfolding cents_def round_currency_def
  by (auto intro!: divide_right_mono round_half_up_bounds simp: field_simps)

lemma round_currency_nonneg [intro]: "0 \<le> x \<Longrightarrow> 0 \<le> round_currency x"
  using round_currency_mono_cents(2) [OF cents_arith(1)] by simp

section \<open>Padded numbers\<close>

lemma digits_value_zeros: "digits_value (replicate k (CHR ''0'') @ ds) = digits_value ds"
  by (induction k) (auto simp: digits_value_def)

lemma zero_padded_value: "digits_value (zero_padded w n) = n"
  by (simp add: zero_padded_def digits_value_zeros str_nat_def digits_rev_value)

lemma format_0d_inject: "0 \<le> i \<Longrightarrow> 0 \<le> j \<Longrightarrow> format_0d w i = format_0d w j \<longleftrightarrow> i = j"
  by (auto simp: format_0d_def dest: arg_cong [of _ _ digits_value] simp: zero_padded_value)

lemma format_0d_inj_on: "inj_on (\<lambda>i. p @ format_0d w i) {i. 0 \<le> i}"
  by (auto intro!: inj_onI simp: format_0d_inject)

end
