(* ===== verification/Seed_Stages.thy ===== *)
theory Seed_Stages
  imports Seed_Laws
begin

text \<open>
  What each generator promises for a configuration it can run on: it does not raise and its rows
  satisfy the constraints of their table, whatever is drawn.
\<close>

section \<open>Dates\<close>

lemma year_from_spec:
  "days_before_year y < n \<Longrightarrow> days_before_year (year_from y n) < n \<and> n \<le> days_before_year (year_from y n + 1)"
proof (induction y n rule: year_from.induct)
  case (1 y n)
  then show ?case by (subst (1 2) year_from.simps) auto
qed

lemma month_from_spec:
  assumes "1 \<le> m" "m \<le> 12" "1 \<le> d" "days_before_month y m + d \<le> days_before_month y 13" "month_from y m d = (m', d')"
  shows "1 \<le> m' \<and> m' \<le> 12 \<and> 1 \<le> d' \<and> d' \<le> days_in_month y m' \<and> days_before_month y m + d = days_before_month y m' + d'"
  using assms
proof (induction y m d rule: month_from.induct)
  case (1 y m d)
  show ?case
  proof (cases "m \<ge> 12 \<or> d \<le> days_in_month y m")
    case True
    then have "m' = m" "d' = d" using "1.prems"(5) by (subst (asm) month_from.simps, simp)+
    moreover have "d \<le> days_in_month y m"
      using True "1.prems"(2,4) days_before_month_Suc [of 12 y] by auto
    ultimately show ?thesis using "1.prems" by simp
  next
    case False
    then have "month_from y (m + 1) (d - days_in_month y m) = (m', d')"
      using "1.prems"(5) by (subst (asm) month_from.simps) simp
    with "1.IH" [OF False] "1.prems" False days_before_month_Suc [of m y] show ?thesis by simp
  qed
qed

lemma civil_of_spec:
  assumes "1 \<le> n"
  shows "1 \<le> cv_month (civil_of n)" "cv_month (civil_of n) \<le> 12" "1 \<le> cv_day (civil_of n)"
    "cv_day (civil_of n) \<le> days_in_month (cv_year (civil_of n)) (cv_month (civil_of n))" "ordinal_of (civil_of n) = n"
proof -
  define y where "y = year_from 1 n"
  obtain m d where md: "month_from y 1 (n - days_before_year y) = (m, d)" by fastforce
  have "days_before_year y < n \<and> n \<le> days_before_year (y + 1)"
    using year_from_spec [of 1 n] assms by (simp add: y_def days_before_year_def)
  then have "1 \<le> m \<and> m \<le> 12 \<and> 1 \<le> d \<and> d \<le> days_in_month y m \<and> n - days_before_year y = days_before_month y m + d"
    using month_from_spec [OF _ _ _ _ md] days_before_year_Suc [of y] year_length [of y] by simp
  moreover have "civil_of n = \<lparr> cv_year = y, cv_month = m, cv_day = d \<rparr>" by (simp add: civil_of_def y_def [symmetric] md)
  ultimately show "1 \<le> cv_month (civil_of n)" "cv_month (civil_of n) \<le> 12" "1 \<le> cv_day (civil_of n)"
    "cv_day (civil_of n) \<le> days_in_month (cv_year (civil_of n)) (cv_month (civil_of n))" "ordinal_of (civil_of n) = n"
    by (simp_all add: ordinal_of_def)
qed

lemma month_windows_from_ok:
  assumes "1 \<le> m" "m \<le> 12" "start < day_of y m 1 + days_in_month y m" "start \<le> finish"
  shows "\<forall>(a, b)\<in>set (month_windows_from start finish y m). start \<le> a \<and> a \<le> b \<and> b \<le> finish"
  using assms
proof (induction start finish y m rule: month_windows_from.induct)
  case (1 start finish y m)
  define q where "q = (if m = 12 then (y + 1, 1) else (y, m + 1))"
  obtain y' m' where q: "q = (y', m')" by fastforce
  have nf: "day_of y' m' 1 = day_of y m 1 + days_in_month y m" and m': "1 \<le> m'" "m' \<le> 12"
    using next_month_first [OF "1.prems"(1,2), of y] q "1.prems"(1,2) by (auto simp: q_def split: if_splits)
  show ?case
  proof (cases "day_of y m 1 \<le> finish")
    case True
    have ih: "\<forall>(a, b)\<in>set (month_windows_from start finish y' m'). start \<le> a \<and> a \<le> b \<and> b \<le> finish"
      using "1.IH" [OF refl _ q [symmetric, unfolded q_def]] True "1.prems" m' nf days_in_month_pos(1) [of y' m'] q
      by (auto simp: q_def)
    have "month_windows_from start finish y m = (max (day_of y m 1) start, min (day_of y' m' 1 - 1) finish)
        # month_windows_from start finish y' m'"
      using True "1.prems"(1,2) q by (subst month_windows_from.simps) (auto simp: q_def Let_def)
    then show ?thesis using ih nf True "1.prems" days_in_month_pos(1) [of y m] by auto
  qed (subst month_windows_from.simps, simp)
qed

lemma month_windows_ok:
  assumes "1 \<le> start" "start \<le> finish"
  shows "month_windows start finish \<noteq> []" "(a, b) \<in> set (month_windows start finish) \<Longrightarrow> start \<le> a \<and> a \<le> b \<and> b \<le> finish"
proof -
  let ?c = "civil_of start"
  have c: "day_of (cv_year ?c) (cv_month ?c) 1 \<le> start" "start < day_of (cv_year ?c) (cv_month ?c) 1 + days_in_month (cv_year ?c) (cv_month ?c)"
    using civil_of_spec [OF assms(1)] by (auto simp: day_of_def ordinal_of_def)
  then show "month_windows start finish \<noteq> []"
    unfolding month_windows_def Let_def using civil_of_spec [OF assms(1)] assms(2)
    by (subst month_windows_from.simps) (auto simp: Let_def split: prod.split)
  show "(a, b) \<in> set (month_windows start finish) \<Longrightarrow> start \<le> a \<and> a \<le> b \<and> b \<le> finish"
    using month_windows_from_ok [OF civil_of_spec(1,2) [OF assms(1)] c(2) assms(2)] by (auto simp: month_windows_def Let_def)
qed

section \<open>Configurations that can be run\<close>

text \<open>
  A configuration the models accept whose multipliers are positive, whose inventory fits the pairs of
  products and warehouses, and whose dates stay far enough from the ends of the calendar.
\<close>

definition seedable :: "seed_config \<Rightarrow> bool" where
  "seedable cfg \<longleftrightarrow> valid_seed_config cfg \<and> list_all (\<lambda>(_, x). 0 < x) (sc_seasonal_multipliers cfg) \<and>
     dz_inventory (sc_dataset_size cfg) \<le> dz_products (sc_dataset_size cfg) * dz_warehouses (sc_dataset_size cfg) \<and>
     5845 \<le> sc_business_start_date cfg \<and> sc_business_end_date cfg \<le> 3651694"

lemma seedable_sizes:
  assumes "seedable cfg"
  shows "0 < dz_customers (sc_dataset_size cfg)" "0 < dz_suppliers (sc_dataset_size cfg)" "0 < dz_warehouses (sc_dataset_size cfg)"
    "0 < dz_product_categories (sc_dataset_size cfg)" "0 < dz_products (sc_dataset_size cfg)" "0 < dz_promotions (sc_dataset_size cfg)"
    "0 < dz_orders (sc_dataset_size cfg)" "0 < dz_order_items_per_order_avg (sc_dataset_size cfg)" "0 < dz_payments (sc_dataset_size cfg)"
    "0 < dz_shipments (sc_dataset_size cfg)" "0 < dz_inventory (sc_dataset_size cfg)" "0 < dz_product_reviews (sc_dataset_size cfg)"
    "0 < dz_returns (sc_dataset_size cfg)" "0 < dz_customer_addresses_per_customer_avg (sc_dataset_size cfg)"
    "dz_inventory (sc_dataset_size cfg) \<le> dz_products (sc_dataset_size cfg) * dz_warehouses (sc_dataset_size cfg)"
  using assms by (auto simp: seedable_def valid_seed_config_def valid_dataset_size_def)

lemma seedable_dates:
  assumes "seedable cfg"
  shows "1 \<le> sc_business_start_date cfg" "sc_business_start_date cfg < sc_business_end_date cfg"
  using assms by (auto simp: seedable_def valid_seed_config_def)

lemma seasonal_multiplier_pos: "seedable cfg \<Longrightarrow> 0 < seasonal_multiplier (sc_seasonal_multipliers cfg) day"
  by (auto simp: seedable_def seasonal_multiplier_def list_all_iff split: option.split dest!: map_of_SomeD)

lemma micros_nonneg [simp]: "0 \<le> micros_of_days d \<longleftrightarrow> 0 \<le> d" "0 < micros_of_days d \<longleftrightarrow> 0 < d"
  by (auto simp: micros_of_days_def)

text \<open>Rows numbered by a padded counter have different numbers.\<close>

lemma numbered_distinct:
  assumes "map key rows = map (\<lambda>i. p @ format_0d w i) [a..b]" "0 \<le> a"
  shows "distinct (map key rows)"
  unfolding assms(1) distinct_map using assms(2) by (auto intro: inj_on_subset [OF format_0d_inj_on])

section \<open>Suppliers, warehouses and categories\<close>

lemma make_supplier_gives:
  "gives (make_supplier fk cfg i) s (\<lambda>r _. su_supplier_code r = ''SUP-'' @ format_0d 4 i \<and> 0 \<le> su_lead_time_days r \<and>
     0 \<le> su_rating r \<and> su_rating r \<le> 5)"
proof -
  have "0 \<le> py_round_digits x 2 \<and> py_round_digits x 2 \<le> 5" if "2.5 \<le> x" "x \<le> 5" for x :: real
    using py_round_digits_bounds [of 0 2 x 500] that by simp
  then show ?thesis unfolding make_supplier_def Let_def
    by (intro gives_intros) (simp_all add: COUNTRY_WEIGHTS_def)
qed

lemma suppliers_give:
  assumes "seedable cfg" "0 < n"
  shows "gives (generate_suppliers fk n cfg) s (\<lambda>rows _. suppliers_ok rows \<and> length rows = nat n)"
  unfolding generate_suppliers_def
proof (intro gives_with_count gives_each [OF make_supplier_gives])
  fix rows :: "supplier list" assume r: "list_all2 (\<lambda>i r. su_supplier_code r = ''SUP-'' @ format_0d 4 i \<and> 0 \<le> su_lead_time_days r \<and>
     0 \<le> su_rating r \<and> su_rating r \<le> 5) [1..n] rows"
  have "map su_supplier_code rows = map (\<lambda>i. ''SUP-'' @ format_0d 4 i) [1..n]" by (rule all2_keys [OF r]) simp
  then have "distinct (map su_supplier_code rows)" by (rule numbered_distinct) simp
  moreover have "list_all (\<lambda>r. su_lead_time_days r \<ge> 0 \<and> 0 \<le> su_rating r \<and> su_rating r \<le> 5) rows"
    by (rule all2_all [OF r]) simp
  ultimately show "suppliers_ok rows \<and> length rows = nat n"
    using list_all2_lengthD [OF r] by (simp add: suppliers_ok_def)
qed (use assms in simp)

definition warehouse_code :: "string \<Rightarrow> int \<Rightarrow> string" where
  "warehouse_code region sequence = ''WH-'' @ region @ ''-'' @ format_0d 2 sequence"

lemma warehouse_code_inject:
  assumes "r \<in> fst ` set REGIONS" "r' \<in> fst ` set REGIONS" "0 \<le> k" "0 \<le> k'" "warehouse_code r k = warehouse_code r' k'"
  shows "r = r' \<and> k = k'"
  using assms by (auto simp: REGIONS_def warehouse_code_def format_0d_inject)

lemma make_warehouse_gives: "gives (make_warehouse fk cfg region k) s (\<lambda>w _. wh_warehouse_code w = warehouse_code region k)"
  unfolding make_warehouse_def Let_def by (intro gives_intros) (simp_all add: warehouse_code_def)

lemma warehouses_from_gives:
  "(\<And>r. 0 \<le> seq r) \<Longrightarrow>
   gives (warehouses_from fk cfg n seq) s (\<lambda>ws _. length ws = n \<and> distinct (map wh_warehouse_code ws) \<and>
     (\<forall>w\<in>set ws. \<exists>r k. r \<in> fst ` set REGIONS \<and> seq r < k \<and> wh_warehouse_code w = warehouse_code r k))"
proof (induction n arbitrary: seq s)
  case (Suc n)
  have rest: "gives (warehouses_from fk cfg n (seq(region := seq region + 1))) s' (\<lambda>ws _. length ws = n \<and>
      distinct (map wh_warehouse_code ws) \<and> (\<forall>w\<in>set ws. \<exists>r k. r \<in> fst ` set REGIONS \<and>
        (seq(region := seq region + 1)) r < k \<and> wh_warehouse_code w = warehouse_code r k))" for region s'
    by (rule Suc.IH) (use Suc.prems in \<open>auto simp: le_less_trans\<close>)
  show ?case unfolding warehouses_from.simps
  proof (intro gives_bind gives_weighted gives_mono [OF make_warehouse_gives] gives_mono [OF rest] gives_return; (elim conjE)?)
    fix region and w :: warehouse and ws :: "warehouse list"
    assume region: "region \<in> set (map fst REGIONS)" and w: "wh_warehouse_code w = warehouse_code region (seq region + 1)"
      and ws: "distinct (map wh_warehouse_code ws)" "\<forall>w\<in>set ws. \<exists>r k. r \<in> fst ` set REGIONS \<and>
        (seq(region := seq region + 1)) r < k \<and> wh_warehouse_code w = warehouse_code r k" and len: "length ws = n"
    have "wh_warehouse_code w \<noteq> wh_warehouse_code v" if "v \<in> set ws" for v
    proof
      assume eq: "wh_warehouse_code w = wh_warehouse_code v"
      from ws(2) that obtain r k where v: "r \<in> fst ` set REGIONS" "(seq(region := seq region + 1)) r < k"
        "wh_warehouse_code v = warehouse_code r k" by blast
      have "seq r < k" using v(2) by (cases "r = region") auto
      then have "region = r \<and> seq region + 1 = k"
        using eq v w region Suc.prems [of region] Suc.prems [of r]
        by (intro warehouse_code_inject) auto
      then show False using v(2) by auto
    qed
    then have "wh_warehouse_code w \<notin> set (map wh_warehouse_code ws)" by auto
    moreover have "\<exists>r k. r \<in> fst ` set REGIONS \<and> seq r < k \<and> wh_warehouse_code v = warehouse_code r k" if "v \<in> set ws" for v
    proof -
      from ws(2) that obtain r k where v: "r \<in> fst ` set REGIONS" "(seq(region := seq region + 1)) r < k"
        "wh_warehouse_code v = warehouse_code r k" by blast
      then have "seq r < k" by (cases "r = region") auto
      with v show ?thesis by blast
    qed
    moreover have "\<exists>r k. r \<in> fst ` set REGIONS \<and> seq r < k \<and> wh_warehouse_code w = warehouse_code r k"
      using w region by (intro exI [of _ region] exI [of _ "seq region + 1"]) simp
    ultimately show "length (w # ws) = Suc n \<and> distinct (map wh_warehouse_code (w # ws)) \<and>
      (\<forall>w\<in>set (w # ws). \<exists>r k. r \<in> fst ` set REGIONS \<and> seq r < k \<and> wh_warehouse_code w = warehouse_code r k)"
      using ws(1) len by auto
  qed (simp_all add: REGIONS_def)
qed (simp add: gives_def)

lemma warehouses_give:
  assumes "0 < n"
  shows "gives (generate_warehouses fk n cfg) s (\<lambda>rows _. warehouses_ok rows \<and> length rows = nat n)"
  unfolding generate_warehouses_def
  by (intro gives_with_count gives_mono [OF warehouses_from_gives]) (use assms in \<open>auto simp: warehouses_ok_def\<close>)

lemma taxonomy_laws:
  "list_all (\<lambda>(name, subs). distinct subs \<and> list_all (\<lambda>x. \<not> prefix (name @ '' Specialty '') x) subs) TAXONOMY"
  "length TAXONOMY = 12"
  by (simp_all add: TAXONOMY_def)

lemma taxonomy_at:
  assumes "p < 12"
  shows "distinct (snd (TAXONOMY ! p))" "j < length (snd (TAXONOMY ! p)) \<Longrightarrow> snd (TAXONOMY ! p) ! j \<noteq> fst (TAXONOMY ! p) @ '' Specialty '' @ m"
proof -
  have t: "distinct (snd (TAXONOMY ! p))" "list_all (\<lambda>x. \<not> prefix (fst (TAXONOMY ! p) @ '' Specialty '') x) (snd (TAXONOMY ! p))"
    using taxonomy_laws assms by (auto simp: list_all_length case_prod_beta)
  show "distinct (snd (TAXONOMY ! p))" by (rule t(1))
  assume j: "j < length (snd (TAXONOMY ! p))"
  show "snd (TAXONOMY ! p) ! j \<noteq> fst (TAXONOMY ! p) @ '' Specialty '' @ m"
  proof
    assume "snd (TAXONOMY ! p) ! j = fst (TAXONOMY ! p) @ '' Specialty '' @ m"
    then have "prefix (fst (TAXONOMY ! p) @ '' Specialty '') (snd (TAXONOMY ! p) ! j)" by (metis append.assoc prefixI)
    with t(2) j show False by (simp add: list_all_length)
  qed
qed

text \<open>A name that a parent has still to give away, for its two counters.\<close>

definition unused_name :: "nat \<Rightarrow> nat \<Rightarrow> nat \<Rightarrow> string \<Rightarrow> bool" where
  "unused_name p cursor overflow x \<longleftrightarrow>
     (\<exists>j. cursor \<le> j \<and> j < length (snd (TAXONOMY ! p)) \<and> x = snd (TAXONOMY ! p) ! j) \<or>
     (\<exists>m. overflow < m \<and> x = fst (TAXONOMY ! p) @ '' Specialty '' @ str_nat m)"

lemma unused_name_subcategory:
  assumes "p < 12" "c < length (snd (TAXONOMY ! p))"
  shows "unused_name p c v (snd (TAXONOMY ! p) ! c)" "\<not> unused_name p (Suc c) v (snd (TAXONOMY ! p) ! c)"
  using assms taxonomy_at [OF assms(1)] by (auto simp: unused_name_def nth_eq_iff_index_eq)

lemma str_nat_inject [simp]: "str_nat a = str_nat b \<longleftrightarrow> a = b"
  by (metis digits_rev_value str_nat_def)

lemma unused_name_overflow:
  assumes "p < 12" "\<not> c < length (snd (TAXONOMY ! p))"
  shows "unused_name p c v (fst (TAXONOMY ! p) @ '' Specialty '' @ str_nat (Suc v))"
    "\<not> unused_name p c (Suc v) (fst (TAXONOMY ! p) @ '' Specialty '' @ str_nat (Suc v))"
  using assms by (auto simp: unused_name_def)

lemma unused_name_mono: "unused_name p c v x \<Longrightarrow> c' \<le> c \<Longrightarrow> v' \<le> v \<Longrightarrow> unused_name p c' v' x"
  unfolding unused_name_def by (blast intro: order_trans le_less_trans)

lemma subcategories_ok:
  assumes "0 < k" "k \<le> 12"
  shows "length (subcategories_from created k n t cur ov) = n \<and>
    (\<forall>r\<in>set (subcategories_from created k n t cur ov). \<exists>p<k. pc_parent r = Some p \<and> unused_name p (cur p) (ov p) (pc_category_name r)) \<and>
    distinct (map (\<lambda>r. (pc_parent r, pc_category_name r)) (subcategories_from created k n t cur ov))"
proof (induction n arbitrary: t cur ov)
  case (Suc n)
  define p where "p = t mod k"
  have p: "p < k" "p < 12" using assms by (auto simp: p_def intro: less_le_trans [OF mod_less_divisor])
  obtain name subs where tx: "TAXONOMY ! p = (name, subs)" by fastforce
  have "\<exists>x cur' ov'. subcategories_from created k (Suc n) t cur ov =
      make_category created x (name @ ''/'' @ x) (Some p) # subcategories_from created k n (Suc t) cur' ov' \<and>
      unused_name p (cur p) (ov p) x \<and> \<not> unused_name p (cur' p) (ov' p) x \<and> cur \<le> cur' \<and> ov \<le> ov'"
  proof (cases "cur p < length subs")
    case True
    show ?thesis
      using True unused_name_subcategory [OF p(2), of "cur p"] tx
      by (intro exI [of _ "subs ! cur p"] exI [of _ "cur(p := Suc (cur p))"] exI [of _ ov])
        (auto simp: p_def [symmetric] Let_def le_fun_def)
  next
    case False
    show ?thesis
      using False unused_name_overflow [OF p(2), of "cur p" "ov p"] tx
      by (intro exI [of _ "name @ '' Specialty '' @ str_nat (Suc (ov p))"] exI [of _ cur] exI [of _ "ov(p := Suc (ov p))"])
        (auto simp: p_def [symmetric] Let_def le_fun_def)
  qed
  then obtain x cur' ov' where step: "subcategories_from created k (Suc n) t cur ov =
      make_category created x (name @ ''/'' @ x) (Some p) # subcategories_from created k n (Suc t) cur' ov'"
    and x: "unused_name p (cur p) (ov p) x" "\<not> unused_name p (cur' p) (ov' p) x" and le: "\<And>q. cur q \<le> cur' q" "\<And>q. ov q \<le> ov' q"
    by (auto simp: le_fun_def)
  have ih: "\<forall>r\<in>set (subcategories_from created k n (Suc t) cur' ov'). \<exists>q<k. pc_parent r = Some q \<and> unused_name q (cur' q) (ov' q) (pc_category_name r)"
    "length (subcategories_from created k n (Suc t) cur' ov') = n"
    "distinct (map (\<lambda>r. (pc_parent r, pc_category_name r)) (subcategories_from created k n (Suc t) cur' ov'))"
    using Suc.IH by blast+
  have later: "\<exists>q<k. pc_parent r = Some q \<and> unused_name q (cur q) (ov q) (pc_category_name r)"
    if "r \<in> set (subcategories_from created k n (Suc t) cur' ov')" for r
    using ih(1) that unused_name_mono [OF _ le] by blast
  have "(Some p, x) \<noteq> (pc_parent r, pc_category_name r)" if "r \<in> set (subcategories_from created k n (Suc t) cur' ov')" for r
    using ih(1) that x(2) by fastforce
  then show ?case using ih(2,3) later x(1) p(1) unfolding step by (auto simp: make_category_def)
qed simp

lemma categories_built:
  fixes created :: datetime
  assumes "0 < n"
  defines "tops \<equiv> map (\<lambda>(name, _). make_category created name name None) (take n TAXONOMY)"
  defines "rows \<equiv> tops @ subcategories_from created (length tops) (n - length tops) 0 (\<lambda>_. 0) (\<lambda>_. 0)"
  shows "tops \<noteq> []" "categories_ok rows" "length rows = n"
proof -
  have k: "length tops = min n 12" using taxonomy_laws(2) by (simp add: tops_def min.commute)
  then show "tops \<noteq> []" using assms(1) by auto
  have t: "0 < length tops" "length tops \<le> 12" using k assms(1) by auto
  define sub where "sub = subcategories_from created (length tops) (n - length tops) 0 (\<lambda>_. 0) (\<lambda>_. 0)"
  have s: "length sub = n - length tops" "\<forall>r\<in>set sub. \<exists>p<length tops. pc_parent r = Some p"
      "distinct (map (\<lambda>r. (pc_parent r, pc_category_name r)) sub)"
    using subcategories_ok [OF t, of created "n - length tops" 0 "\<lambda>_. 0" "\<lambda>_. 0"] unfolding sub_def by blast+
  have parent: "\<forall>r\<in>set tops. pc_parent r = None" by (auto simp: tops_def make_category_def)
  have rows: "rows = tops @ sub" by (simp add: rows_def sub_def)
  show "length rows = n" using s(1) k by (simp add: rows)
  have "filter (\<lambda>r. pc_parent r \<noteq> None) tops = []" using parent by (simp add: filter_empty_conv)
  moreover have "filter (\<lambda>r. pc_parent r \<noteq> None) sub = sub" using s(2) by (fastforce simp: filter_id_conv)
  ultimately have "filter (\<lambda>r. pc_parent r \<noteq> None) rows = sub" by (simp add: rows)
  moreover have "list_all (\<lambda>r. case pc_parent r of Some p \<Rightarrow> has_row p rows | None \<Rightarrow> True) rows"
    using s(2) parent by (fastforce simp: rows list_all_iff has_row_def)
  ultimately show "categories_ok rows" using s(3) by (simp add: categories_ok_def)
qed

lemma categories_give:
  assumes "0 < n"
  shows "gives (generate_categories n cfg) s (\<lambda>rows _. categories_ok rows \<and> length rows = nat n)"
proof -
  have n: "0 < nat n" using assms by simp
  show ?thesis unfolding generate_categories_def Let_def using assms categories_built [OF n]
    by (intro gives_with_count gives_return) simp_all
qed

end
