(* ===== verification/Seed_Catalog.thy ===== *)
theory Seed_Catalog
  imports Seed_Stages
begin

text \<open>
  The products and the inventory: every product has a category and a supplier, and the stocked pairs of
  a product and a warehouse are as many as configured and all different, since shuffling only permutes
  the candidates. Together: the first five stages of a run.
\<close>

section \<open>Products and inventory\<close>

lemma make_product_gives:
  assumes "0 < c" "0 < k"
  shows "gives (make_product fk cfg c k i) s (\<lambda>r _. pr_sku r = ''SKU-'' @ format_0d 6 i \<and> pr_category r < c \<and>
     pr_supplier r < k \<and> 0 \<le> pr_unit_price r \<and> 0 \<le> pr_cost_price r)"
  unfolding make_product_def Let_def using assms
  by (intro gives_intros) (auto intro!: round_currency_nonneg py_round_digits_nonneg mult_nonneg_nonneg)

lemma products_give:
  assumes "0 < n" "categories \<noteq> []" "suppliers \<noteq> []"
  shows "gives (generate_products fk n categories suppliers cfg) s
    (\<lambda>rows _. products_ok categories suppliers rows \<and> length rows = nat n)"
proof -
  let ?c = "length categories" let ?k = "length suppliers"
  have ck: "0 < ?c" "0 < ?k" using assms by auto
  show ?thesis unfolding generate_products_def
  proof (intro gives_with_count gives_if gives_each [OF make_product_gives [OF ck]])
    fix rows :: "product list" assume r: "list_all2 (\<lambda>i r. pr_sku r = ''SKU-'' @ format_0d 6 i \<and> pr_category r < ?c \<and>
       pr_supplier r < ?k \<and> 0 \<le> pr_unit_price r \<and> 0 \<le> pr_cost_price r) [1..n] rows"
    have "map pr_sku rows = map (\<lambda>i. ''SKU-'' @ format_0d 6 i) [1..n]" by (rule all2_keys [OF r]) simp
    then have "distinct (map pr_sku rows)" by (rule numbered_distinct) simp
    moreover have "list_all (\<lambda>r. has_row (pr_category r) categories \<and> has_row (pr_supplier r) suppliers \<and>
        pr_unit_price r \<ge> 0 \<and> pr_cost_price r \<ge> 0) rows"
      by (rule all2_all [OF r]) (simp add: has_row_def)
    ultimately show "products_ok categories suppliers rows \<and> length rows = nat n"
      using list_all2_lengthD [OF r] by (simp add: products_ok_def)
  qed (use assms in auto)
qed

lemma shuffle_from_gives:
  fixes xs :: "'a list"
  shows "i < length xs \<or> i = 0 \<Longrightarrow> gives (shuffle_from i xs) s (\<lambda>ys _. mset ys = mset xs)"
proof (induction i arbitrary: xs s)
  case (Suc i)
  have rest: "gives (shuffle_from i ys) s' (\<lambda>zs _. mset zs = mset ys)" if "length ys = length xs" for ys :: "'a list" and s'
    by (rule Suc.IH) (use Suc.prems that in auto)
  show ?case unfolding shuffle_from.simps
    by (intro gives_bind gives_randbelow gives_mono [OF rest]) (use Suc.prems in \<open>auto simp: mset_swap\<close>)
qed (simp add: gives_def)

lemma shuffle_gives [gives_intros]:
  assumes "\<And>ys s'. mset ys = mset xs \<Longrightarrow> Q ys s'"
  shows "gives (rng_shuffle xs) s Q"
  unfolding rng_shuffle_def by (rule gives_mono [OF shuffle_from_gives]) (use assms in auto)

lemma select_pairs_ok:
  assumes "distinct (map fst decided)" "0 \<le> n" "nat n \<le> length decided"
  shows "distinct (select_pairs n decided)" "set (select_pairs n decided) \<subseteq> set (map fst decided)"
    "length (select_pairs n decided) = nat n"
proof -
  let ?yes = "map fst (filter snd decided)" and ?no = "map fst (filter (Not \<circ> snd) decided)"
  have "distinct ?yes" "distinct ?no" using assms(1) by (simp_all add: distinct_map_filter)
  moreover have "set ?yes \<inter> set ?no = {}" using eq_key_imp_eq_value [OF assms(1)] by force
  ultimately have "distinct (?yes @ take k ?no)" for k using set_take_subset [of k ?no] by (simp only: distinct_append distinct_take) blast
  then show "distinct (select_pairs n decided)" by (auto simp: select_pairs_def Let_def)
  show "set (select_pairs n decided) \<subseteq> set (map fst decided)"
    by (auto simp: select_pairs_def Let_def dest!: in_set_takeD split: if_splits)
  have "length ?yes + length ?no = length decided" by (simp add: sum_length_filter_compl o_def)
  then show "length (select_pairs n decided) = nat n" using assms(2,3) by (auto simp: select_pairs_def Let_def)
qed

lemma make_inventory_gives:
  "gives (make_inventory cfg cutoff pair) s (\<lambda>r _. (iv_product r, iv_warehouse r) = pair \<and> 0 \<le> iv_quantity_on_hand r \<and>
     0 \<le> iv_reorder_level r)"
proof -
  have "0 \<le> py_round (of_int b * quantity_on_hand_multiplier d)" if "10 \<le> b" for b d
    using that by (intro py_round_nonneg mult_nonneg_nonneg) (auto simp: quantity_on_hand_multiplier_def)
  then show ?thesis unfolding make_inventory_def Let_def by (intro gives_intros) (auto simp: max_def)
qed

lemma inventory_gives:
  assumes "0 < n" "n \<le> int (length products * length warehouses)" "products \<noteq> []" "warehouses \<noteq> []"
  shows "gives (generate_inventory n products warehouses cfg) s
    (\<lambda>rows _. inventory_ok products warehouses rows \<and> length rows = nat n)"
proof -
  let ?pairs = "List.product [0..<length products] [0..<length warehouses]"
  have step: "gives (sbind (should_stock q) (\<lambda>b. sreturn (pair, b))) s' (\<lambda>r _. fst r = pair)" for q pair s'
    unfolding should_stock_def by (intro gives_intros) simp
  have "inventory_ok products warehouses rows \<and> length rows = nat n"
    if c: "mset candidates = mset ?pairs" and d: "list_all2 (\<lambda>pair r. fst r = pair) candidates decided"
      and r: "list_all2 (\<lambda>pair r. (iv_product r, iv_warehouse r) = pair \<and> 0 \<le> iv_quantity_on_hand r \<and>
        0 \<le> iv_reorder_level r) (select_pairs n decided) rows" for candidates decided rows
  proof -
    have fst: "map fst decided = candidates" using all2_keys [OF d, of fst "\<lambda>x. x"] by simp
    have "distinct ?pairs" by (simp add: distinct_product)
    then have "distinct candidates" using mset_eq_imp_distinct_iff [OF c] by blast
    moreover have "length decided = length products * length warehouses"
      using fst mset_eq_length [OF c] by (metis length_map length_product length_upt minus_nat.diff_0)
    ultimately have sp: "distinct (select_pairs n decided)" "set (select_pairs n decided) \<subseteq> set candidates"
        "length (select_pairs n decided) = nat n"
      using select_pairs_ok [of decided n] assms(1,2) by (simp_all add: fst nat_le_iff)
    have "map (\<lambda>r. (iv_product r, iv_warehouse r)) rows = map (\<lambda>x. x) (select_pairs n decided)" by (rule all2_keys [OF r]) simp
    then have "distinct (map (\<lambda>r. (iv_product r, iv_warehouse r)) rows)" using sp(1) by simp
    moreover have "list_all (\<lambda>r. has_row (iv_product r) products \<and> has_row (iv_warehouse r) warehouses \<and>
        iv_quantity_on_hand r \<ge> 0 \<and> iv_reorder_level r \<ge> 0) rows"
      using sp(2) mset_eq_setD [OF c] by (intro all2_all [OF r]) (auto simp: has_row_def)
    ultimately show ?thesis using sp(3) list_all2_lengthD [OF r] by (simp add: inventory_ok_def)
  qed
  then show ?thesis unfolding generate_inventory_def Let_def
    by (intro gives_with_count gives_if gives_bind shuffle_gives gives_each [OF step] gives_each [OF make_inventory_gives])
      (use assms in auto)
qed

lemma catalog_gives:
  assumes "seedable cfg"
  shows "gives (seed_catalog fk cfg) s (\<lambda>(suppliers, warehouses, categories, products, inventory) _.
    suppliers \<noteq> [] \<and> warehouses \<noteq> [] \<and> categories \<noteq> [] \<and> products \<noteq> [] \<and> inventory \<noteq> [] \<and>
    suppliers_ok suppliers \<and> warehouses_ok warehouses \<and> categories_ok categories \<and>
    products_ok categories suppliers products \<and> inventory_ok products warehouses inventory)"
  unfolding seed_catalog_def Let_def
  by (intro gives_bind gives_persist gives_return gives_mono [OF suppliers_give [OF assms]] gives_mono [OF warehouses_give]
       gives_mono [OF categories_give] gives_mono [OF products_give] gives_mono [OF inventory_gives])
    (use seedable_sizes [OF assms] in \<open>auto simp: length_greater_0_conv [symmetric] simp del: length_greater_0_conv\<close>)

end
