(* ===== verification/Seed_People.thy ===== *)
theory Seed_People
  imports Seed_Catalog
begin

text \<open>
  Customers, addresses and promotions: numbers and e-mail addresses are unique, a customer has at most
  one default address of a type, and a promotion ends after it starts and discounts at most everything.
\<close>

section \<open>Customers\<close>

text \<open>A loop whose every turn reads a new text: the texts read are at increasing positions.\<close>

lemma gives_each_fresh:
  assumes "\<And>x s. x \<in> set xs \<Longrightarrow>
      gives (f x) s (\<lambda>y s'. R x y \<and> (\<exists>k. ss_fakes s \<le> k \<and> k < ss_fakes s' \<and> key y = g k))"
  shows "gives (for_each f xs) s (\<lambda>ys _. list_all2 R xs ys \<and>
      (\<exists>ks. sorted_wrt (<) ks \<and> (\<forall>k\<in>set ks. ss_fakes s \<le> k) \<and> map key ys = map g ks))"
  using assms
proof (induction xs arbitrary: s)
  case (Cons x xs)
  have rest: "gives (for_each f xs) s' (\<lambda>ys _. list_all2 R xs ys \<and>
      (\<exists>ks. sorted_wrt (<) ks \<and> (\<forall>k\<in>set ks. ss_fakes s' \<le> k) \<and> map key ys = map g ks))" for s'
    by (rule Cons.IH) (rule Cons.prems, simp)
  have step: "gives (f x) s (\<lambda>y s'. R x y \<and> (\<exists>k. ss_fakes s \<le> k \<and> k < ss_fakes s' \<and> key y = g k))"
    using Cons.prems by simp
  show ?case unfolding for_each.simps
  proof (intro gives_bind gives_mono [OF step] gives_mono [OF rest] gives_return; elim conjE exE)
    fix y :: 'b and s' k ys ks
    assume "R x y" "list_all2 R xs ys" "ss_fakes s \<le> k" "k < ss_fakes s'" "key y = g k" "sorted_wrt (<) ks"
      "\<forall>k\<in>set ks. ss_fakes s' \<le> k" "map key ys = map g ks"
    then show "list_all2 R (x # xs) (y # ys) \<and>
      (\<exists>ks. sorted_wrt (<) ks \<and> (\<forall>k\<in>set ks. ss_fakes s \<le> k) \<and> map key (y # ys) = map g ks)"
      by (intro conjI exI [of _ "k # ks"]) force+
  qed
qed (simp add: gives_def)

lemma make_customer_reads:
  assumes "seedable cfg"
  shows "gives (make_customer fk cfg i) s (\<lambda>r s'. cu_customer_number r = ''CUST-'' @ format_0d 8 i \<and>
    cu_email r = fk_text fk ''unique.email'' (ss_fakes s + 2) \<and> ss_fakes s' = ss_fakes s + 5)"
  unfolding make_customer_def assign_segment_def assign_signup_channel_def customer_is_active_def weighted_pick_def Let_def
  using seedable_dates [OF assms]
  by (intro gives_intros) (simp_all add: GENDER_WEIGHTS_def SEGMENT_WEIGHTS_def SIGNUP_CHANNEL_WEIGHTS_def)

lemma make_customer_gives:
  assumes "seedable cfg"
  shows "gives (make_customer fk cfg i) s (\<lambda>r s'. cu_customer_number r = ''CUST-'' @ format_0d 8 i \<and>
    (\<exists>k. ss_fakes s \<le> k \<and> k < ss_fakes s' \<and> cu_email r = fk_text fk ''unique.email'' k))"
  by (rule gives_mono [OF make_customer_reads [OF assms]]) (auto intro!: exI [of _ "ss_fakes s + 2"])

lemma customers_give:
  assumes "seedable cfg" "inj (fk_text fk ''unique.email'')" "0 < n"
  shows "gives (generate_customers fk n cfg) s (\<lambda>rows _. customers_ok rows \<and> length rows = nat n)"
  unfolding generate_customers_def
proof (intro gives_with_count gives_mono [OF gives_each_fresh [OF make_customer_gives [OF assms(1)]]]; (elim conjE exE)?)
  fix rows ks assume r: "list_all2 (\<lambda>i r. cu_customer_number r = ''CUST-'' @ format_0d 8 i) [1..n] (rows :: customer list)"
    and k: "sorted_wrt (<) ks" "map cu_email rows = map (fk_text fk ''unique.email'') ks"
  have "map cu_customer_number rows = map (\<lambda>i. ''CUST-'' @ format_0d 8 i) [1..n]" by (rule all2_keys [OF r]) simp
  then have "distinct (map cu_customer_number rows)" by (rule numbered_distinct) simp
  moreover have "distinct (map cu_email rows)"
    unfolding k(2) distinct_map using k(1) assms(2) by (auto simp: strict_sorted_iff intro: inj_on_subset)
  ultimately show "customers_ok rows \<and> length rows = nat n"
    using list_all2_lengthD [OF r] by (simp add: customers_ok_def)
qed (use assms in simp)

section \<open>Addresses\<close>

lemma build_address_gives:
  "gives (build_address fk c t d) s (\<lambda>r _. ad_customer r = c \<and> ad_address_type r = t \<and> ad_is_default r = d)"
  unfolding build_address_def by (intro gives_intros) simp_all

abbreviation address_key :: "customer_address \<Rightarrow> nat \<times> address_type" where
  "address_key r \<equiv> (ad_customer r, ad_address_type r)"

lemma extra_addresses_gives:
  assumes "0 < c"
  shows "gives (extra_addresses fk c n seen) s (\<lambda>rows _. length rows = n \<and> (\<forall>r\<in>set rows. ad_customer r < c) \<and>
    distinct (map address_key (filter ad_is_default rows)) \<and> (\<forall>r\<in>set rows. ad_is_default r \<longrightarrow> address_key r \<notin> seen))"
proof (induction n arbitrary: seen s)
  case (Suc n)
  show ?case unfolding extra_addresses.simps Let_def
    by (intro gives_bind gives_choice gives_mono [OF build_address_gives] gives_mono [OF Suc.IH] gives_return)
      (use assms in auto)
qed (simp add: gives_def)

lemma addresses_give:
  assumes "0 \<le> n" "customers \<noteq> []"
  shows "gives (generate_addresses fk n customers) s (\<lambda>rows _. addresses_ok customers rows \<and> length rows = nat n)"
proof -
  let ?b = "min (nat n) (length customers)"
  have c: "0 < length customers" using assms(2) by simp
  have "addresses_ok customers (base @ extra)"
    if b: "list_all2 (\<lambda>c r. ad_customer r = c \<and> ad_address_type r = SHIPPING \<and> ad_is_default r) [0..<?b] base"
      and e: "\<forall>r\<in>set extra. ad_customer r < length customers" "distinct (map address_key (filter ad_is_default extra))"
      "\<forall>r\<in>set extra. ad_is_default r \<longrightarrow> address_key r \<notin> (\<lambda>c. (c, SHIPPING)) ` {..<?b}" for base extra
  proof -
    have keys: "map address_key base = map (\<lambda>c. (c, SHIPPING)) [0..<?b]" by (rule all2_keys [OF b]) simp
    have base: "list_all (\<lambda>r. ad_customer r < ?b \<and> ad_is_default r) base" by (rule all2_all [OF b]) auto
    then have f: "filter ad_is_default base = base" by (auto simp: list_all_iff filter_id_conv)
    have "distinct (map address_key base)" unfolding keys by (simp add: distinct_map inj_on_def)
    moreover have "set (map address_key base) \<inter> set (map address_key (filter ad_is_default extra)) = {}"
      unfolding keys using e(3) by auto
    ultimately show ?thesis using base e(1,2)
      by (auto simp: addresses_ok_def has_row_def list_all_iff f)
  qed
  then show ?thesis unfolding generate_addresses_def Let_def
    by (intro gives_with_count gives_if gives_bind gives_each [OF build_address_gives]
          gives_mono [OF extra_addresses_gives [OF c]] gives_return)
      (use assms in \<open>auto dest!: list_all2_lengthD\<close>)
qed

section \<open>Promotions\<close>

lemma campaign_window_later: "campaign_window cfg c = Some (name, start, finish) \<Longrightarrow> start < finish"
  by (auto simp: campaign_window_def Let_def split: if_splits)

lemma build_promotion_gives:
  "gives (build_promotion i name start finish) s (\<lambda>r _. po_promotion_code r = ''PROMO'' @ format_0d 4 i \<and>
     po_starts_at r = start \<and> po_ends_at r = finish \<and> 0 \<le> po_discount_value r \<and> po_discount_value r \<le> 100)"
proof -
  have "cents 100" unfolding cents_def by (intro exI [of _ 10000]) simp
  then have "0 \<le> round_currency v \<and> round_currency v \<le> 100" if "5 \<le> v" "v \<le> 50" for v
    using that by (auto intro: round_currency_mono_cents)
  then show ?thesis unfolding build_promotion_def by (intro gives_intros) (auto simp: DISCOUNT_TYPE_WEIGHTS_def)
qed

abbreviation promotion_row :: "int \<Rightarrow> promotion \<Rightarrow> bool" where
  "promotion_row i r \<equiv> po_promotion_code r = ''PROMO'' @ format_0d 4 i \<and> po_starts_at r < po_ends_at r \<and>
     0 \<le> po_discount_value r \<and> po_discount_value r \<le> 100"

lemma generic_promotion_gives: "gives (generic_promotion cfg i) s (\<lambda>r _. promotion_row i r)"
  unfolding generic_promotion_def random_window_start_def Let_def
  by (intro gives_bind gives_choice gives_if gives_randint gives_return gives_mono [OF build_promotion_gives])
    (auto simp: GENERIC_NAMES_def)

abbreviation promotion_fields :: "promotion \<Rightarrow> bool" where
  "promotion_fields r \<equiv> po_starts_at r < po_ends_at r \<and> 0 \<le> po_discount_value r \<and> po_discount_value r \<le> 100"

lemma anchored_promotions_give:
  assumes "\<And>name start finish. (name, start, finish) \<in> set w \<Longrightarrow> start < finish"
  shows "gives (for_each (\<lambda>(sequence, name, start, finish). build_promotion sequence name start finish) (zip [1..int (length w)] w)) s
    (\<lambda>rows _. map po_promotion_code rows = map (\<lambda>i. ''PROMO'' @ format_0d 4 i) [1..int (length w)] \<and> list_all promotion_fields rows)"
    (is "gives (for_each ?f ?z) s _")
proof (rule gives_each [where R = "\<lambda>x r. promotion_row (fst x) r"])
  fix x s' assume "x \<in> set ?z"
  moreover obtain i name start finish where x: "x = (i, name, start, finish)" by (cases x) auto
  ultimately have "start < finish" using assms by (auto dest: set_zip_rightD)
  then show "gives (?f x) s' (\<lambda>r _. promotion_row (fst x) r)"
    by (simp add: x) (rule gives_mono [OF build_promotion_gives], simp)
next
  fix rows :: "promotion list" assume r: "list_all2 (\<lambda>x r. promotion_row (fst x) r) ?z rows"
  have "map po_promotion_code rows = map (\<lambda>x. ''PROMO'' @ format_0d 4 (fst x)) ?z" by (rule all2_keys [OF r]) simp
  also have "\<dots> = map (\<lambda>i. ''PROMO'' @ format_0d 4 i) (map fst ?z)" by (simp only: map_map o_def)
  also have "map fst ?z = [1..int (length w)]" by (rule map_fst_zip) simp
  finally show "map po_promotion_code rows = map (\<lambda>i. ''PROMO'' @ format_0d 4 i) [1..int (length w)] \<and> list_all promotion_fields rows"
    using all2_all [OF r, of promotion_fields] by simp
qed

lemma generic_promotions_give:
  "gives (for_each (generic_promotion cfg) [k..n]) s
    (\<lambda>rows _. map po_promotion_code rows = map (\<lambda>i. ''PROMO'' @ format_0d 4 i) [k..n] \<and> list_all promotion_fields rows)"
  by (rule gives_each [OF generic_promotion_gives]) (auto intro: all2_keys all2_all)

lemma promotions_give:
  assumes "0 < n"
  shows "gives (generate_promotions n cfg) s (\<lambda>rows _. promotions_ok rows \<and> length rows = nat n \<and> list_all promotion_fields rows)"
proof -
  define w where "w = take (nat n) (calendar_anchored_windows cfg)"
  have later: "start < finish" if "(name, start, finish) \<in> set w" for name start finish
    using in_set_takeD [OF that [unfolded w_def]]
    by (auto simp: calendar_anchored_windows_def map_filter_def dest: campaign_window_later)
  have k: "int (length w) \<le> n" using assms by (simp add: w_def)
  have "promotions_ok (a @ g) \<and> length (a @ g) = nat n \<and> list_all promotion_fields (a @ g)"
    if a: "map po_promotion_code a = map (\<lambda>i. ''PROMO'' @ format_0d 4 i) [1..int (length w)]" "list_all promotion_fields a"
      and g: "map po_promotion_code g = map (\<lambda>i. ''PROMO'' @ format_0d 4 i) [int (length w) + 1..n]" "list_all promotion_fields g" for a g
  proof -
    have "distinct (map (\<lambda>i. ''PROMO'' @ format_0d 4 i) ([1..int (length w)] @ [int (length w) + 1..n]))"
      unfolding distinct_map by (intro conjI inj_on_subset [OF format_0d_inj_on]) auto
    moreover have "length (a @ g) = nat n"
      using arg_cong [OF a(1), of length] arg_cong [OF g(1), of length] k by simp
    ultimately show ?thesis using a(2) g(2) unfolding promotions_ok_def list_all_append map_append a(1) g(1)
      by (auto simp: list_all_iff)
  qed
  then show ?thesis unfolding generate_promotions_def Let_def w_def [symmetric] using assms
    by (intro gives_with_count gives_bind gives_mono [OF anchored_promotions_give] gives_mono [OF generic_promotions_give]
          gives_return later) (blast | simp)+
qed

lemma customers_stage_gives:
  assumes "seedable cfg" "inj (fk_text fk ''unique.email'')"
  shows "gives (seed_customers fk cfg) s (\<lambda>(customers, addresses, promotions) _.
    customers \<noteq> [] \<and> promotions \<noteq> [] \<and> customers_ok customers \<and> addresses_ok customers addresses \<and> promotions_ok promotions \<and>
    length addresses = nat (customer_addresses_target (sc_dataset_size cfg)) \<and>
    list_all promotion_fields promotions)"
proof -
  have "0 \<le> customer_addresses_target (sc_dataset_size cfg)"
    unfolding customer_addresses_target_def using seedable_sizes [OF assms(1)]
    by (intro py_round_nonneg mult_nonneg_nonneg) auto
  then show ?thesis unfolding seed_customers_def Let_def
    by (intro gives_bind gives_persist gives_return gives_mono [OF customers_give [OF assms]] gives_mono [OF addresses_give]
          gives_mono [OF promotions_give])
      (use seedable_sizes [OF assms(1)] in \<open>auto simp: length_greater_0_conv [symmetric] simp del: length_greater_0_conv\<close>)
qed

end
