(* ===== verification/Seed_Sales.thy ===== *)
theory Seed_Sales
  imports Seed_People
begin

text \<open>
  Orders and their items: the products of an order are all different, the amounts are whole cents, so
  that rounding loses nothing, the subtotal is the sum of the items, and the discount never exceeds it.
\<close>

section \<open>Products of an order\<close>

lemma sum_list_positive: "ws \<noteq> [] \<Longrightarrow> (\<And>w. w \<in> set ws \<Longrightarrow> (0::real) < w) \<Longrightarrow> 0 < sum_list ws"
proof (induction ws)
  case (Cons w ws)
  then show ?case by (cases ws) (auto intro: add_pos_pos)
qed simp

lemma position_of_less: "x \<in> set xs \<Longrightarrow> position_of x xs < length xs"
  by (induction xs) auto

lemma position_of_nth: "x \<in> set xs \<Longrightarrow> xs ! position_of x xs = x"
  by (induction xs) auto

lemma pop_at_laws:
  assumes "i < length xs"
  shows "length (pop_at i xs) = length xs - 1" "set (pop_at i xs) \<subseteq> set xs"
    "distinct xs \<Longrightarrow> distinct (pop_at i xs) \<and> xs ! i \<notin> set (pop_at i xs)"
proof -
  show "length (pop_at i xs) = length xs - 1" using assms by (simp add: pop_at_def)
  show "set (pop_at i xs) \<subseteq> set xs" by (auto simp: pop_at_def dest: in_set_takeD in_set_dropD)
  assume "distinct xs"
  then have "distinct (take i xs @ xs ! i # drop (Suc i) xs)" using id_take_nth_drop [OF assms] by simp
  then show "distinct (pop_at i xs) \<and> xs ! i \<notin> set (pop_at i xs)" by (auto simp: pop_at_def)
qed

lemma pick_from_gives:
  "n \<le> length pool \<Longrightarrow> length ws = length pool \<Longrightarrow> distinct pool \<Longrightarrow> (\<And>w. w \<in> set ws \<Longrightarrow> 0 < w) \<Longrightarrow>
   gives (pick_from n pool ws) s (\<lambda>xs _. length xs = n \<and> distinct xs \<and> set xs \<subseteq> set pool)"
proof (induction n arbitrary: pool ws s)
  case (Suc n)
  have ne: "pool \<noteq> []" "ws \<noteq> []" using Suc.prems(1,2) by auto
  have rest: "gives (pick_from n (pop_at (position_of x pool) pool) (pop_at (position_of x pool) ws)) s'
      (\<lambda>xs _. length xs = n \<and> distinct xs \<and> set xs \<subseteq> set (pop_at (position_of x pool) pool))" if "x \<in> set pool" for x s'
  proof (rule Suc.IH)
    have i: "position_of x pool < length pool" "position_of x pool < length ws" using position_of_less [OF that] Suc.prems(2) by auto
    show "n \<le> length (pop_at (position_of x pool) pool)"
      "length (pop_at (position_of x pool) ws) = length (pop_at (position_of x pool) pool)"
      using Suc.prems(1,2) by (simp_all add: pop_at_laws(1) i)
    show "distinct (pop_at (position_of x pool) pool)" using pop_at_laws(3) [OF i(1)] Suc.prems(3) by blast
    show "0 < w" if "w \<in> set (pop_at (position_of x pool) ws)" for w
      using that pop_at_laws(2) [OF i(2)] Suc.prems(4) by blast
  qed
  have pop: "x \<notin> set (pop_at (position_of x pool) pool)" "set (pop_at (position_of x pool) pool) \<subseteq> set pool" if "x \<in> set pool" for x
    using pop_at_laws(2,3) [OF position_of_less [OF that]] position_of_nth [OF that] Suc.prems(3) by auto
  show ?case unfolding pick_from.simps Let_def
    by (intro gives_bind gives_weighted gives_mono [OF rest] gives_return sum_list_positive)
      (use Suc.prems ne pop in \<open>auto, blast\<close>)
qed (simp add: gives_def)

abbreviation planned_row :: "product list \<Rightarrow> planned_item \<Rightarrow> bool" where
  "planned_row products x \<equiv> fst x < length products \<and> 1 \<le> fst (snd x) \<and> cents (snd (snd x)) \<and> 0 \<le> snd (snd x)"

lemma plan_item_gives:
  assumes "0 \<le> pr_unit_price (products ! p)" "p < length products"
  shows "gives (plan_item products m p) s (\<lambda>x _. fst x = p \<and> planned_row products x)"
  unfolding plan_item_def Let_def using assms
  by (intro gives_intros)
    (auto simp: QUANTITY_WEIGHTS_def intro!: round_currency_nonneg mult_nonneg_nonneg py_round_digits_nonneg)

lemma plan_items_gives:
  assumes "products \<noteq> []" "\<And>p. p \<in> set products \<Longrightarrow> 0 \<le> pr_unit_price p"
  shows "gives (plan_items cfg products segment) s (\<lambda>xs _. xs \<noteq> [] \<and> distinct (map fst xs) \<and> list_all (planned_row products) xs)"
proof -
  let ?n = "length products"
  have pick: "gives (pick_products ?n k) s' (\<lambda>ps _. length ps = min k ?n \<and> distinct ps \<and> set ps \<subseteq> {..<?n})" for k s'
    unfolding pick_products_def
    by (rule gives_mono [OF pick_from_gives]) (auto simp: lessThan_atLeast0)
  have each: "gives (for_each (plan_item products m) ps) s' (\<lambda>xs _. xs \<noteq> [] \<and> distinct (map fst xs) \<and> list_all (planned_row products) xs)"
    if "ps \<noteq> []" "distinct ps" "set ps \<subseteq> {..<?n}" for m ps s'
  proof (rule gives_each [OF plan_item_gives])
    fix xs assume r: "list_all2 (\<lambda>p x. fst x = p \<and> planned_row products x) ps xs"
    have "map fst xs = map (\<lambda>x. x) ps" by (rule all2_keys [OF r]) simp
    moreover have "list_all (planned_row products) xs" by (rule all2_all [OF r]) simp
    ultimately show "xs \<noteq> [] \<and> distinct (map fst xs) \<and> list_all (planned_row products) xs" using that by auto
  qed (use that assms in auto)
  show ?thesis unfolding plan_items_def sample_item_count_def Let_def
    by (intro gives_bind gives_randint gives_mono [OF pick] each) (use assms(1) in \<open>auto simp: min_def split: if_splits\<close>)
qed

section \<open>Amounts\<close>

lemma compute_discount_bounds:
  assumes "cents sub" "0 \<le> sub" "\<And>p. promotion = Some p \<Longrightarrow> 0 \<le> po_discount_value p \<and> po_discount_value p \<le> 100"
  shows "0 \<le> compute_discount promotion sub" "compute_discount promotion sub \<le> sub" "cents (compute_discount promotion sub)"
proof -
  have "0 \<le> sub * po_discount_value p / 100 \<and> sub * po_discount_value p / 100 \<le> sub" if "promotion = Some p" for p
    using mult_left_mono [of "po_discount_value p" 100 sub] assms(2) assms(3) [OF that] by simp
  then show "0 \<le> compute_discount promotion sub" "compute_discount promotion sub \<le> sub" "cents (compute_discount promotion sub)"
    using assms round_currency_mono_cents(1) [OF assms(1)]
    by (auto simp: compute_discount_def percentage_of_def split: option.splits intro!: round_currency_nonneg)
qed

lemma shipping_fee_laws: "0 \<le> shipping_fee x" "cents (shipping_fee x)"
  by (auto simp: shipping_fee_def STANDARD_SHIPPING_FEE_def intro!: round_currency_nonneg)

lemma planned_total_cents:
  assumes "list_all (planned_row products) items"
  shows "cents (sum_list (map (\<lambda>(_, qty, price). price * of_int qty) items))" "0 \<le> sum_list (map (\<lambda>(_, qty, price). price * of_int qty) items)"
proof -
  show "cents (sum_list (map (\<lambda>(_, qty, price). price * of_int qty) items))"
    using assms by (intro cents_sum) (auto simp: list_all_iff case_prod_beta intro!: cents_arith)
  show "0 \<le> sum_list (map (\<lambda>(_, qty, price). price * of_int qty) items)"
    using assms by (intro sum_list_nonneg) (auto simp: list_all_iff case_prod_beta intro!: mult_nonneg_nonneg)
qed

section \<open>Orders\<close>

lemma order_date_gives:
  assumes "seedable cfg"
  shows "gives (sample_order_date cfg (sc_business_start_date cfg) (sc_business_end_date cfg)) s (\<lambda>d _.
    sc_business_start_date cfg \<le> d \<and> d \<le> sc_business_end_date cfg)"
proof -
  let ?a = "sc_business_start_date cfg" and ?b = "sc_business_end_date cfg"
  have d: "1 \<le> ?a" "?a \<le> ?b" using seedable_dates [OF assms] by auto
  have ok: "?a \<le> x \<and> x \<le> y \<and> y \<le> ?b" if "(x, y) \<in> set (month_windows ?a ?b)" for x y by (rule month_windows_ok(2) [OF d that])
  show ?thesis unfolding sample_order_date_def Let_def
    by (intro gives_bind gives_weighted gives_pair gives_date_between sum_list_positive)
      (use month_windows_ok(1) [OF d] seasonal_multiplier_pos [OF assms] ok in \<open>force+\<close>)
qed

lemma select_promotion_gives:
  "gives (select_promotion cfg promotions d) s (\<lambda>p _. case p of Some i \<Rightarrow> i < length promotions | None \<Rightarrow> True)"
  unfolding select_promotion_def applies_promotion_def Let_def by (intro gives_intros) auto

text \<open>What an order and its planned items have in common.\<close>

definition order_sound :: "customer list \<Rightarrow> promotion list \<Rightarrow> product list \<Rightarrow> shop_order \<times> planned_item list \<Rightarrow> bool" where
  "order_sound customers promotions products x \<longleftrightarrow> (case x of (r, items) \<Rightarrow>
     items \<noteq> [] \<and> distinct (map fst items) \<and> list_all (planned_row products) items \<and>
     so_customer r < length customers \<and> (case so_promotion r of Some p \<Rightarrow> p < length promotions | None \<Rightarrow> True) \<and>
     so_subtotal_amount r = sum_list (map (\<lambda>(_, qty, price). price * of_int qty) items) \<and>
     0 \<le> so_subtotal_amount r \<and> 0 \<le> so_discount_amount r \<and> so_discount_amount r \<le> so_subtotal_amount r \<and>
     0 \<le> so_tax_amount r \<and> 0 \<le> so_shipping_amount r \<and>
     so_total_amount r = so_subtotal_amount r - so_discount_amount r + so_tax_amount r + so_shipping_amount r)"

lemma order_soundI:
  assumes items: "items \<noteq> []" "distinct (map fst items)" "list_all (planned_row products) items"
    and refs: "so_customer r < length customers" "case so_promotion r of Some p \<Rightarrow> p < length promotions | None \<Rightarrow> True"
    and "list_all promotion_fields promotions"
    and sub: "so_subtotal_amount r = round_currency (sum_list (map (\<lambda>(_, qty, price). price * of_int qty) items))"
    and disc: "so_discount_amount r = compute_discount (map_option ((!) promotions) (so_promotion r)) (so_subtotal_amount r)"
    and tax: "so_tax_amount r = round_currency ((so_subtotal_amount r - so_discount_amount r) * TAX_RATE)"
    and ship: "so_shipping_amount r = shipping_fee (so_subtotal_amount r)"
    and due: "so_total_amount r = round_currency (so_subtotal_amount r - so_discount_amount r + so_tax_amount r + so_shipping_amount r)"
  shows "order_sound customers promotions products (r, items)"
proof -
  have exact: "so_subtotal_amount r = sum_list (map (\<lambda>(_, qty, price). price * of_int qty) items)"
    using planned_total_cents(1) [OF items(3)] sub by (simp add: round_cents)
  then have s: "cents (so_subtotal_amount r)" "0 \<le> so_subtotal_amount r" using planned_total_cents [OF items(3)] by simp_all
  have d: "0 \<le> so_discount_amount r" "so_discount_amount r \<le> so_subtotal_amount r" "cents (so_discount_amount r)"
    unfolding disc using s refs(2) assms(6)
    by (intro compute_discount_bounds; auto simp: list_all_length split: option.splits)+
  have t: "0 \<le> so_tax_amount r" unfolding tax using d(2)
    by (intro round_currency_nonneg mult_nonneg_nonneg) (auto simp: TAX_RATE_def)
  have "so_total_amount r = so_subtotal_amount r - so_discount_amount r + so_tax_amount r + so_shipping_amount r"
    unfolding due by (intro round_cents cents_arith) (use s d tax ship shipping_fee_laws in auto)
  then show ?thesis using items refs exact s d t ship shipping_fee_laws by (simp add: order_sound_def)
qed

lemma make_order_gives:
  assumes "seedable cfg" "customers \<noteq> []" "products \<noteq> []" "\<And>p. p \<in> set products \<Longrightarrow> 0 \<le> pr_unit_price p"
    "list_all promotion_fields promotions"
  shows "gives (make_order fk cfg customers promotions products i) s (\<lambda>x _. order_sound customers promotions products x \<and>
    (\<exists>y. so_order_number (fst x) = ''ORD-'' @ str_int y @ ''-'' @ format_0d 6 i))"
proof -
  have customer: "0 < sum_list (map (order_frequency_multiplier \<circ> cu_customer_segment) customers)"
  proof (rule sum_list_positive)
    fix w assume "w \<in> set (map (order_frequency_multiplier \<circ> cu_customer_segment) customers)"
    then obtain g where "w = order_frequency_multiplier g" by auto
    then show "0 < w" by (cases g) auto
  qed (use assms(2) in simp)
  show ?thesis unfolding make_order_def Let_def assign_order_status_def assign_sales_channel_def weighted_pick_def
    by (intro gives_bind gives_mono [OF order_date_gives [OF assms(1)]] gives_mono [OF plan_items_gives [OF assms(3,4)]]
       gives_mono [OF select_promotion_gives] gives_weighted gives_randint gives_fake gives_return conjI order_soundI)
      (use assms customer in \<open>auto simp: ORDER_STATUS_WEIGHTS_def SALES_CHANNEL_WEIGHTS_def\<close>)
qed

text \<open>The number after the last hyphen of an order number tells the orders apart.\<close>

definition order_index :: "string \<Rightarrow> string" where
  "order_index x = rev (takeWhile (\<lambda>c. c \<noteq> CHR ''-'') (rev x))"

lemma format_0d_no_hyphen: "0 \<le> i \<Longrightarrow> CHR ''-'' \<notin> set (format_0d w i)"
  using str_nat_digits(1) [of "CHR ''-''"] by (auto simp: format_0d_def zero_padded_def is_digit_def)

lemma order_index_number:
  assumes "0 \<le> i"
  shows "order_index (''ORD-'' @ str_int y @ ''-'' @ format_0d 6 i) = format_0d 6 i"
proof -
  have "takeWhile (\<lambda>c. c \<noteq> CHR ''-'') (rev (format_0d 6 i) @ CHR ''-'' # rest) = rev (format_0d 6 i)" for rest
    using format_0d_no_hyphen [OF assms, of 6] by (subst takeWhile_append2) auto
  then show ?thesis by (simp add: order_index_def)
qed

lemma orders_give:
  assumes "seedable cfg" "customers \<noteq> []" "products \<noteq> []" "\<And>p. p \<in> set products \<Longrightarrow> 0 \<le> pr_unit_price p"
    "list_all promotion_fields promotions" "0 < n"
  shows "gives (generate_orders fk n customers promotions products cfg) s (\<lambda>xs _. orders_ok customers promotions (map fst xs) \<and>
    list_all (order_sound customers promotions products) xs \<and> length xs = nat n)"
  unfolding generate_orders_def
proof (intro gives_with_count gives_if gives_each [OF make_order_gives [OF assms(1-5)]])
  fix xs :: "(shop_order \<times> planned_item list) list"
  assume r: "list_all2 (\<lambda>i x. order_sound customers promotions products x \<and>
    (\<exists>y. so_order_number (fst x) = ''ORD-'' @ str_int y @ ''-'' @ format_0d 6 i)) [1..n] xs"
  have "map (order_index \<circ> so_order_number \<circ> fst) xs = map (\<lambda>i. '''' @ format_0d 6 i) [1..n]"
    by (rule all2_keys [OF r]) (use order_index_number in fastforce)
  then have "distinct (map (order_index \<circ> so_order_number \<circ> fst) xs)" by (rule numbered_distinct) simp
  then have "distinct (map order_index (map so_order_number (map fst xs)))" by (simp add: o_def)
  then have "distinct (map so_order_number (map fst xs))" unfolding distinct_map by blast
  moreover have s: "list_all (order_sound customers promotions products) xs" by (rule all2_all [OF r]) simp
  ultimately show "orders_ok customers promotions (map fst xs) \<and> list_all (order_sound customers promotions products) xs \<and> length xs = nat n"
    using list_all2_lengthD [OF r]
    by (auto simp: orders_ok_def has_row_def list_all_iff order_sound_def case_prod_beta split: option.splits)
qed (use assms(2,3,6) in auto)

section \<open>Order items\<close>

lemma make_item_gives:
  assumes "planned_row products (snd x)"
  shows "gives (make_item products x) s (\<lambda>r _. oi_order r = fst x \<and> oi_product r = fst (snd x) \<and> oi_quantity r = fst (snd (snd x)) \<and>
    oi_unit_price r = snd (snd (snd x)) \<and> oi_line_total r = oi_unit_price r * of_int (oi_quantity r) \<and> oi_discount_amount r = 0)"
proof -
  have "round_currency 0 = 0" by (rule round_cents [OF cents_arith(1)])
  then show ?thesis unfolding make_item_def using assms
    by (intro gives_pair gives_if gives_return) (auto intro!: round_cents cents_arith simp: gives_def)
qed

text \<open>The planned items in the order of their orders, numbered from \<open>j\<close>.\<close>

abbreviation planned_rows :: "nat \<Rightarrow> planned_item list list \<Rightarrow> (nat \<times> planned_item) list" where
  "planned_rows j ps \<equiv> concat (map (\<lambda>(order, items). map (Pair order) items) (enumerate j ps))"

lemma planned_rows_set: "x \<in> set (planned_rows j ps) \<longleftrightarrow> j \<le> fst x \<and> fst x < j + length ps \<and> snd x \<in> set (ps ! (fst x - j))"
  by (cases x) (auto simp: in_set_enumerate_eq intro!: bexI)

lemma planned_rows_distinct:
  "(\<And>p. p \<in> set ps \<Longrightarrow> distinct (map fst p)) \<Longrightarrow> distinct (map (\<lambda>x. (fst x, fst (snd x))) (planned_rows j ps))"
proof (induction ps arbitrary: j)
  case (Cons p ps)
  define rest where "rest = planned_rows (Suc j) ps"
  have "distinct (map (\<lambda>x. (j, fst x)) p)" using Cons.prems [of p] by (simp add: distinct_map inj_on_def)
  moreover have "distinct (map (\<lambda>x. (fst x, fst (snd x))) rest)" using Cons by (simp add: rest_def)
  moreover have "fst x \<noteq> j" if "x \<in> set rest" for x using that [unfolded rest_def planned_rows_set] by simp
  moreover have "planned_rows j (p # ps) = map (Pair j) p @ rest" by (simp add: rest_def)
  ultimately show ?case by (auto simp: o_def)
qed simp

lemma planned_rows_filter:
  "k < length ps \<Longrightarrow> filter (\<lambda>x. fst x = j + k) (planned_rows j ps) = map (Pair (j + k)) (ps ! k)"
proof (induction ps arbitrary: j k)
  case (Cons p ps)
  show ?case
  proof (cases k)
    case 0
    have "filter (\<lambda>x. fst x = j) (planned_rows (Suc j) ps) = []" by (auto simp: filter_empty_conv planned_rows_set simp del: set_concat)
    then show ?thesis by (simp add: 0 filter_id_conv)
  next
    case (Suc m)
    then show ?thesis using Cons.IH [of m "Suc j"] Cons.prems by (simp add: filter_empty_conv)
  qed
qed simp

lemma all2_filter:
  "list_all2 R xs ys \<Longrightarrow> (\<And>x y. R x y \<Longrightarrow> P x = Q y) \<Longrightarrow> list_all2 R (filter P xs) (filter Q ys)"
  by (induction rule: list_all2_induct) auto

abbreviation item_of :: "nat \<times> planned_item \<Rightarrow> order_item \<Rightarrow> bool" where
  "item_of x r \<equiv> oi_order r = fst x \<and> oi_product r = fst (snd x) \<and> oi_quantity r = fst (snd (snd x)) \<and>
    oi_unit_price r = snd (snd (snd x)) \<and> oi_line_total r = oi_unit_price r * of_int (oi_quantity r) \<and> oi_discount_amount r = 0"

lemma item_total_planned:
  assumes "list_all2 item_of (planned_by_order ps) items" "k < length ps"
  shows "item_total items k = sum_list (map (\<lambda>(_, qty, price). price * of_int qty) (ps ! k))"
proof -
  have "filter (\<lambda>x. fst x = k) (planned_by_order ps) = map (Pair k) (ps ! k)"
    using planned_rows_filter [OF assms(2), of 0] by (simp add: planned_by_order_def)
  then have "list_all2 item_of (map (Pair k) (ps ! k)) (filter (\<lambda>r. oi_order r = k) items)"
    using all2_filter [OF assms(1), of "\<lambda>x. fst x = k" "\<lambda>r. oi_order r = k"] by simp
  then have "map oi_line_total (filter (\<lambda>r. oi_order r = k) items) =
      map (\<lambda>x. snd (snd (snd x)) * of_int (fst (snd (snd x)))) (map (Pair k) (ps ! k))"
    by (rule all2_keys) simp
  then show ?thesis by (simp add: item_total_def o_def split_def)
qed

lemma order_items_give:
  assumes "list_all (order_sound customers promotions products) planned" "planned \<noteq> []" "0 \<le> n"
  shows "gives (generate_order_items n (map snd planned) products) s (\<lambda>items _. items \<noteq> [] \<and>
    order_items_ok (map fst planned) products items \<and>
    (\<forall>k<length planned. so_subtotal_amount (map fst planned ! k) = item_total items k))"
proof -
  let ?ps = "map snd planned"
  have sound: "order_sound customers promotions products (planned ! k)" if "k < length planned" for k
    using assms(1) that by (simp add: list_all_length)
  have rows: "fst x < length planned \<and> planned_row products (snd x)" if "x \<in> set (planned_by_order ?ps)" for x
    using that sound [of "fst x"] unfolding planned_by_order_def planned_rows_set
    by (auto simp: order_sound_def case_prod_beta list_all_iff)
  have keys: "distinct (map (\<lambda>x. (fst x, fst (snd x))) (planned_by_order ?ps))"
    unfolding planned_by_order_def
    by (rule planned_rows_distinct) (use assms(1) in \<open>auto simp: list_all_iff order_sound_def\<close>)
  have ne: "planned_by_order ?ps \<noteq> []"
    using assms(1,2) by (cases planned) (auto simp: planned_by_order_def order_sound_def)
  have "items \<noteq> [] \<and> order_items_ok (map fst planned) products items \<and>
      (\<forall>k<length planned. so_subtotal_amount (map fst planned ! k) = item_total items k)"
    if r: "list_all2 item_of (planned_by_order ?ps) items" for items
  proof (intro conjI allI impI)
    show "items \<noteq> []" using list_all2_lengthD [OF r] ne by auto
    have "map (\<lambda>r. (oi_order r, oi_product r)) items = map (\<lambda>x. (fst x, fst (snd x))) (planned_by_order ?ps)"
      by (rule all2_keys [OF r]) simp
    moreover have "list_all (\<lambda>r. has_row (oi_order r) (map fst planned) \<and> has_row (oi_product r) products \<and> oi_quantity r > 0 \<and>
       oi_unit_price r \<ge> 0 \<and> oi_discount_amount r \<ge> 0 \<and> oi_line_total r \<ge> 0) items"
      by (rule all2_all [OF r]) (use rows in \<open>fastforce simp: has_row_def\<close>)
    ultimately show "order_items_ok (map fst planned) products items" using keys by (simp add: order_items_ok_def)
    fix k assume "k < length planned"
    then show "so_subtotal_amount (map fst planned ! k) = item_total items k"
      using item_total_planned [OF r, of k] sound [of k] by (simp add: order_sound_def case_prod_beta)
  qed
  then show ?thesis unfolding generate_order_items_def
    by (intro gives_with_count gives_each [OF make_item_gives]) (use assms(3) rows in auto)
qed

text \<open>What the later stages and the validator use of the orders.\<close>

definition sales_sound :: "customer list \<Rightarrow> promotion list \<Rightarrow> product list \<Rightarrow> shop_order list \<Rightarrow> order_item list \<Rightarrow> bool" where
  "sales_sound customers promotions products orders items \<longleftrightarrow> orders \<noteq> [] \<and> items \<noteq> [] \<and>
     orders_ok customers promotions orders \<and> order_items_ok orders products items \<and>
     (\<forall>k<length orders. so_subtotal_amount (orders ! k) = item_total items k \<and>
       so_discount_amount (orders ! k) \<le> so_subtotal_amount (orders ! k) \<and>
       so_total_amount (orders ! k) = so_subtotal_amount (orders ! k) - so_discount_amount (orders ! k) +
         so_tax_amount (orders ! k) + so_shipping_amount (orders ! k))"

lemma sales_stage_gives:
  assumes "seedable cfg" "customers \<noteq> []" "products \<noteq> []" "products_ok categories suppliers products"
    "list_all promotion_fields promotions"
  shows "gives (seed_sales fk cfg customers promotions products) s
    (\<lambda>(orders, items) _. sales_sound customers promotions products orders items)"
proof -
  have price: "0 \<le> pr_unit_price p" if "p \<in> set products" for p using assms(4) that by (auto simp: products_ok_def list_all_iff)
  have target: "0 \<le> order_items_target (sc_dataset_size cfg)"
    unfolding order_items_target_def using seedable_sizes [OF assms(1)] by (intro py_round_nonneg mult_nonneg_nonneg) auto
  have orders: "gives (generate_orders fk (dz_orders (sc_dataset_size cfg)) customers promotions products cfg) s (\<lambda>xs _.
      orders_ok customers promotions (map fst xs) \<and> list_all (order_sound customers promotions products) xs \<and> xs \<noteq> [])"
    by (rule gives_mono [OF orders_give [OF assms(1-3) price assms(5)]]) (use seedable_sizes [OF assms(1)] in auto)
  show ?thesis unfolding seed_sales_def Let_def
    by (intro gives_bind gives_persist gives_return gives_mono [OF orders] gives_mono [OF order_items_give])
      (use target in \<open>auto simp: sales_sound_def order_sound_def list_all_length case_prod_beta\<close>)
qed

end
