(* ===== verification/Seed_Fulfilment.thy ===== *)
theory Seed_Fulfilment
  imports Seed_Sales
begin

text \<open>
  Payments, shipments, reviews and returns: references are unique across the retries of all orders,
  every payment is of the total of its order, a review is dated after every delivery of its order, and
  reviews and returns belong to items of orders that were delivered.
\<close>

section \<open>Payments\<close>

text \<open>A loop that numbers its rows from a running counter.\<close>

lemma upto_join: "a \<le> b \<Longrightarrow> b \<le> c \<Longrightarrow> [a + 1..b] @ [b + 1..c] = [a + 1..c :: int]"
  using upto_split1 [of "a + 1" "b + 1" c] by (cases "b = c") auto

lemma draw_success_gives: "(\<And>b s'. Q b s') \<Longrightarrow> gives (draw_success cfg c) s Q"
  unfolding draw_success_def payment_succeeds_def by (intro gives_intros) auto

lemma retry_payments_gives:
  "gives (retry_payments cfg c failed n ok q) s (\<lambda>(attempts, _, q') _. q \<le> q' \<and> attempts = map failed [q + 1..q'])"
proof (induction n arbitrary: ok q s)
  case (Suc n)
  show ?case unfolding retry_payments.simps
    by (intro gives_if gives_return gives_bind draw_success_gives gives_mono [OF Suc.IH] gives_pair)
      (auto simp: upto_rec1 [of "q + 1"])
qed (simp add: gives_def)

text \<open>The rows of the order \<open>k\<close>, numbered after \<open>q\<close> up to \<open>q'\<close>.\<close>

definition numbered_payments :: "int \<Rightarrow> int \<Rightarrow> int \<Rightarrow> payment list \<Rightarrow> bool" where
  "numbered_payments seed q q' ps \<longleftrightarrow> q \<le> q' \<and>
     map pa_transaction_reference ps = map (\<lambda>i. (''ch_'' @ format_0d 4 seed) @ format_0d 8 i) [q + 1..q']"

definition order_payments :: "nat \<Rightarrow> shop_order \<Rightarrow> payment list \<Rightarrow> bool" where
  "order_payments k row ps \<longleftrightarrow> list_all (\<lambda>p. pa_order p = k \<and> pa_amount p = so_total_amount row) ps"

lemma numbered_payments_append:
  "numbered_payments seed q q' a \<Longrightarrow> numbered_payments seed q' q'' b \<Longrightarrow> numbered_payments seed q q'' (a @ b)"
  by (auto simp: numbered_payments_def simp flip: upto_join [of q q' q''])

lemma built_payments:
  "q \<le> q' \<Longrightarrow> numbered_payments seed q q' (map (build_payment seed k row m st paid) [q + 1..q'])"
  "numbered_payments seed q (q + 1) [build_payment seed k row m st paid (q + 1)]"
  "order_payments k row (map (build_payment seed k row m st paid) is)"
  "order_payments k row (ps @ ps') \<longleftrightarrow> order_payments k row ps \<and> order_payments k row ps'"
  "order_payments k row [build_payment seed k row m st paid i]"
  by (auto simp: numbered_payments_def order_payments_def build_payment_def list_all_iff)

lemma payments_for_order_gives:
  "gives (payments_for_order cfg seed k row q) s (\<lambda>x _. fst x \<noteq> [] \<and> numbered_payments seed q (snd x) (fst x) \<and> order_payments k row (fst x))"
proof -
  have last: "numbered_payments seed q (q' + 1) (map (build_payment seed k row m PS_FAILED None) [q + 1..q'] @
      [build_payment seed k row m st paid (q' + 1)])" if "q \<le> q'" for q' m st paid
    using numbered_payments_append built_payments(1) [OF that] built_payments(2) by blast
  show ?thesis unfolding payments_for_order_def assign_payment_method_def weighted_pick_def retry_count_on_failure_def Let_def
    by (intro gives_if gives_bind gives_weighted draw_success_gives gives_randint gives_mono [OF retry_payments_gives]
          gives_pair gives_return)
      (simp_all add: PAYMENT_METHOD_WEIGHTS_def last built_payments)
qed

lemma payments_from_gives:
  "gives (payments_from cfg seed rows q) s (\<lambda>ps _. (rows \<noteq> [] \<longrightarrow> ps \<noteq> []) \<and> (\<exists>q'. numbered_payments seed q q' ps) \<and>
     (\<forall>p\<in>set ps. \<exists>row. (pa_order p, row) \<in> set rows \<and> pa_amount p = so_total_amount row))"
proof (induction rows arbitrary: q s)
  case (Cons e rows)
  obtain k row where e: "e = (k, row)" by fastforce
  show ?case unfolding e payments_from.simps
  proof (intro gives_bind gives_mono [OF payments_for_order_gives] gives_pair gives_mono [OF Cons.IH] gives_return)
    fix x ps q' rest assume x: "fst x \<noteq> [] \<and> numbered_payments seed q (snd x) (fst x) \<and> order_payments k row (fst x)" "x = (ps, q')"
      and rest: "(rows \<noteq> [] \<longrightarrow> rest \<noteq> []) \<and> (\<exists>q''. numbered_payments seed q' q'' rest) \<and>
        (\<forall>p\<in>set rest. \<exists>row. (pa_order p, row) \<in> set rows \<and> pa_amount p = so_total_amount row)"
    have "\<exists>q''. numbered_payments seed q q'' (ps @ rest)" using x rest numbered_payments_append by (metis fst_conv snd_conv)
    then show "((k, row) # rows \<noteq> [] \<longrightarrow> ps @ rest \<noteq> []) \<and> (\<exists>q'. numbered_payments seed q q' (ps @ rest)) \<and>
        (\<forall>p\<in>set (ps @ rest). \<exists>r. (pa_order p, r) \<in> set ((k, row) # rows) \<and> pa_amount p = so_total_amount r)"
      using x rest by (auto simp: order_payments_def list_all_iff)
  qed
qed (auto simp: gives_def numbered_payments_def)

lemma numbered_payments_distinct: "numbered_payments seed 0 q ps \<Longrightarrow> distinct (map pa_transaction_reference ps)"
  unfolding numbered_payments_def
  using numbered_distinct [of pa_transaction_reference ps "''ch_'' @ format_0d 4 seed" 8 "0 + 1" q] by simp

lemma enumerate_entries: "(k, x) \<in> set (enumerate 0 xs) \<longleftrightarrow> k < length xs \<and> x = xs ! k"
  by (auto simp: in_set_enumerate_eq)

lemma payments_give:
  assumes "0 \<le> n" "orders \<noteq> []" "list_all (\<lambda>r. 0 \<le> so_total_amount r) orders"
  shows "gives (generate_payments n orders cfg seed) s (\<lambda>ps _. ps \<noteq> [] \<and> payments_ok orders ps \<and>
    (\<forall>p\<in>set ps. pa_amount p = so_total_amount (orders ! pa_order p)))"
  unfolding generate_payments_def
proof (intro gives_with_count gives_mono [OF payments_from_gives]; (elim conjE exE)?)
  fix ps q assume "enumerate 0 orders \<noteq> [] \<longrightarrow> ps \<noteq> []" and num: "numbered_payments seed 0 q ps"
    and rows: "\<forall>p\<in>set ps. \<exists>row. (pa_order p, row) \<in> set (enumerate 0 orders) \<and> pa_amount p = so_total_amount row"
  moreover have "enumerate 0 orders \<noteq> []" using assms(2) by (metis length_enumerate length_0_conv)
  moreover have "pa_order p < length orders \<and> pa_amount p = so_total_amount (orders ! pa_order p)" if "p \<in> set ps" for p
    using rows that by (auto simp: enumerate_entries)
  ultimately show "ps \<noteq> [] \<and> payments_ok orders ps \<and> (\<forall>p\<in>set ps. pa_amount p = so_total_amount (orders ! pa_order p))"
    using assms(3) numbered_payments_distinct [OF num]
    by (auto simp: payments_ok_def has_row_def list_all_iff)
qed (use assms(1) in simp)

section \<open>Shipments\<close>

lemma build_shipment_gives:
  assumes "0 < w"
  shows "gives (build_shipment seed w entry i) s (\<lambda>r _. sm_tracking_number r = (''1Z'' @ format_0d 4 seed) @ format_0d 10 i \<and>
    sm_order r = fst entry \<and> sm_warehouse r < w)"
  unfolding build_shipment_def resolve_status_def assign_shipment_status_def assign_carrier_def processing_delay_days_def
    transit_delay_days_def weighted_pick_def Let_def
  by (intro gives_pair gives_intros) (use assms in \<open>auto simp: SHIPMENT_STATUS_WEIGHTS_def CARRIER_WEIGHTS_def\<close>)

definition numbered_shipments :: "int \<Rightarrow> int \<Rightarrow> int \<Rightarrow> shipment list \<Rightarrow> bool" where
  "numbered_shipments seed q q' ss \<longleftrightarrow> q \<le> q' \<and>
     map sm_tracking_number ss = map (\<lambda>i. (''1Z'' @ format_0d 4 seed) @ format_0d 10 i) [q + 1..q']"

lemma numbered_shipments_Cons:
  "sm_tracking_number r = (''1Z'' @ format_0d 4 seed) @ format_0d 10 (q + 1) \<Longrightarrow> numbered_shipments seed (q + 1) q' ss \<Longrightarrow>
   numbered_shipments seed q q' (r # ss)"
  by (auto simp: numbered_shipments_def upto_rec1 [of "q + 1"])

lemma shipments_from_gives:
  assumes "0 < w"
  shows "gives (shipments_from seed w rows q) s (\<lambda>ss _. (\<exists>q'. numbered_shipments seed q q' ss) \<and>
    (\<forall>r\<in>set ss. sm_order r \<in> fst ` set rows \<and> sm_warehouse r < w))"
proof (induction rows arbitrary: q s)
  case (Cons e rows)
  show ?case unfolding shipments_from.simps
    by (intro gives_if gives_bind gives_mono [OF build_shipment_gives [OF assms]] gives_mono [OF Cons.IH] gives_return)
      (auto intro: numbered_shipments_Cons simp del: append.simps append_assoc)
qed (auto simp: gives_def numbered_shipments_def)

lemma shipments_give:
  assumes "0 \<le> n" "warehouses \<noteq> []"
  shows "gives (generate_shipments n orders warehouses seed) s (\<lambda>ss _. shipments_ok orders warehouses ss)"
proof -
  have w: "0 < length warehouses" using assms(2) by simp
  have "shipments_ok orders warehouses ss" if "numbered_shipments seed 0 q ss"
      "\<forall>r\<in>set ss. sm_order r \<in> fst ` set (enumerate 0 orders) \<and> sm_warehouse r < length warehouses" for ss q
    using that numbered_distinct [of sm_tracking_number ss "''1Z'' @ format_0d 4 seed" 10 "0 + 1" q]
    by (auto simp: numbered_shipments_def shipments_ok_def has_row_def list_all_iff enumerate_entries)
  then show ?thesis unfolding generate_shipments_def
    by (intro gives_with_count gives_if gives_mono [OF shipments_from_gives [OF w]]) (use assms in auto)
qed

section \<open>Reviews and returns\<close>

lemma note_delivery_keeps:
  "map_of d k = Some t \<Longrightarrow> \<exists>t'\<ge>t. map_of (note_delivery s d) k = Some t'"
  by (auto simp: note_delivery_def update_conv' split: option.splits)

lemma fold_note_delivery_keeps: "map_of d k = Some t \<Longrightarrow> \<exists>t'\<ge>t. map_of (fold note_delivery ss d) k = Some t'"
proof (induction ss arbitrary: d t)
  case (Cons s ss)
  then obtain t' where "t \<le> t'" "map_of (note_delivery s d) k = Some t'" using note_delivery_keeps by blast
  with Cons.IH [of "note_delivery s d" t'] show ?case by (auto intro: order_trans)
qed auto

lemma note_delivery_notes: "sm_delivered_at s = Some t \<Longrightarrow> \<exists>t'\<ge>t. map_of (note_delivery s d) (sm_order s) = Some t'"
  by (auto simp: note_delivery_def update_conv' split: option.splits)

text \<open>No delivery of an order is later than the one on record.\<close>

lemma delivered_at_latest:
  assumes "s \<in> set ss" "sm_delivered_at s = Some t"
  shows "\<exists>t'\<ge>t. map_of (delivered_at_by_order ss) (sm_order s) = Some t'"
proof -
  obtain a b where ss: "ss = a @ s # b" using split_list [OF assms(1)] by blast
  obtain t' where "t \<le> t'" "map_of (note_delivery s (fold note_delivery a [])) (sm_order s) = Some t'"
    using note_delivery_notes [OF assms(2)] by blast
  with fold_note_delivery_keeps [of "note_delivery s (fold note_delivery a [])" "sm_order s" t' b] show ?thesis
    by (auto simp: delivered_at_by_order_def ss intro: order_trans)
qed

text \<open>The rows a loop over the items keeps: each belongs to the item at its position.\<close>

lemma kept_rows:
  assumes "list_all2 (\<lambda>x y. \<forall>r. y = Some r \<longrightarrow> key r = fst x \<and> P (snd x) r) (enumerate j items) ys"
  shows "distinct (map key (List.map_filter id ys)) \<and>
    (\<forall>r\<in>set (List.map_filter id ys). j \<le> key r \<and> key r < j + length items \<and> P (items ! (key r - j)) r)"
  using assms
proof (induction items arbitrary: j ys)
  case (Cons x items)
  then obtain y ys' where ys: "ys = y # ys'" and y: "\<And>r. y = Some r \<Longrightarrow> key r = j \<and> P x r"
    and "list_all2 (\<lambda>x y. \<forall>r. y = Some r \<longrightarrow> key r = fst x \<and> P (snd x) r) (enumerate (Suc j) items) ys'"
    by (auto simp: list_all2_Cons1)
  from Cons.IH [OF this(3)] have ih: "distinct (map key (List.map_filter id ys'))"
    "\<And>r. r \<in> set (List.map_filter id ys') \<Longrightarrow> Suc j \<le> key r \<and> key r < Suc j + length items \<and> P (items ! (key r - Suc j)) r" by blast+
  have "j \<le> key r \<and> key r < j + length (x # items) \<and> P ((x # items) ! (key r - j)) r" if "r \<in> set (List.map_filter id ys')" for r
    using ih(2) [OF that] by (auto simp: nth_Cons' Suc_le_eq)
  moreover have "j \<notin> key ` set (List.map_filter id ys')" using ih(2) by fastforce
  ultimately show ?case using ih(1) y by (cases y) (auto simp: ys map_filter_simps id_def)
qed (auto simp: map_filter_simps)

lemma review_item_gives:
  "gives (review_item cfg orders delivered (k, item)) s (\<lambda>y _. \<forall>r. y = Some r \<longrightarrow> rv_order_item r = k \<and>
     rv_product r = oi_product item \<and> rv_customer r = so_customer (orders ! oi_order item) \<and> 1 \<le> rv_rating r \<and> rv_rating r \<le> 5 \<and>
     so_order_status (orders ! oi_order item) = OS_DELIVERED \<and>
     (\<exists>t. map_of delivered (oi_order item) = Some t \<and> t < rv_review_date r))"
proof -
  have content: "(case map_of REVIEW_CONTENT x of Some c \<Rightarrow> c | None \<Rightarrow> []) \<noteq> []" if "x \<in> set (map fst RATING_WEIGHTS)" for x
    using that by (auto simp: RATING_WEIGHTS_def REVIEW_CONTENT_def)
  have rating: "1 \<le> x \<and> x \<le> 5" if "x \<in> set (map fst RATING_WEIGHTS)" for x using that by (auto simp: RATING_WEIGHTS_def)
  show ?thesis unfolding review_item_def is_eligible_for_review_def assign_rating_def review_delay_days_def weighted_pick_def Let_def prod.case
    by (intro gives_if gives_bind gives_option gives_random gives_weighted gives_choice gives_pair gives_randint gives_return)
      (use content rating in \<open>auto simp: RATING_WEIGHTS_def\<close>)
qed

abbreviation review_of :: "shop_order list \<Rightarrow> shipment list \<Rightarrow> order_item \<Rightarrow> product_review \<Rightarrow> bool" where
  "review_of orders shipments item r \<equiv> rv_product r = oi_product item \<and> rv_customer r = so_customer (orders ! oi_order item) \<and>
     1 \<le> rv_rating r \<and> rv_rating r \<le> 5 \<and> so_order_status (orders ! oi_order item) = OS_DELIVERED \<and>
     (\<exists>t. map_of (delivered_at_by_order shipments) (oi_order item) = Some t \<and> t < rv_review_date r)"

lemma reviews_give:
  assumes "0 \<le> n" "order_items_ok orders products items" "list_all (\<lambda>r. has_row (so_customer r) customers) orders"
  shows "gives (generate_reviews n orders items shipments cfg) s (\<lambda>rs _. reviews_ok products customers items rs \<and>
    (\<forall>r\<in>set rs. review_of orders shipments (items ! rv_order_item r) r))"
proof -
  let ?R = "\<lambda>x y. \<forall>r. y = Some r \<longrightarrow> rv_order_item r = fst x \<and> review_of orders shipments (snd x) r"
  have step: "gives (review_item cfg orders (delivered_at_by_order shipments) x) s' (\<lambda>y _. ?R x y)" for x s'
    by (cases x) (simp only: fst_conv snd_conv, rule review_item_gives)
  have kept: "reviews_ok products customers items (List.map_filter id ys) \<and>
      (\<forall>r\<in>set (List.map_filter id ys). review_of orders shipments (items ! rv_order_item r) r)"
    if ys: "list_all2 ?R (enumerate 0 items) ys" for ys
  proof -
    have rows: "rv_order_item r < length items \<and> review_of orders shipments (items ! rv_order_item r) r"
      if "r \<in> set (List.map_filter id ys)" for r
      using kept_rows [OF ys] that by force
    have "has_row (oi_order i) orders \<and> has_row (oi_product i) products" if "i \<in> set items" for i
      using assms(2) that by (auto simp: order_items_ok_def list_all_iff)
    then have "has_row (rv_product r) products \<and> has_row (rv_customer r) customers" if "r \<in> set (List.map_filter id ys)" for r
      using rows [OF that] assms(3) nth_mem [of "rv_order_item r" items] by (auto simp: list_all_length has_row_def)
    moreover have "distinct (map rv_order_item (List.map_filter id ys))" using kept_rows [OF ys] by blast
    ultimately show ?thesis unfolding reviews_ok_def list_all_iff has_row_def [of _ items] using rows by blast
  qed
  show ?thesis unfolding generate_reviews_def
    by (intro gives_with_count gives_bind gives_each [OF step] gives_return kept assms(1))
qed

lemma return_item_gives:
  assumes "1 \<le> oi_quantity item" "0 \<le> oi_unit_price item"
  shows "gives (return_item cfg orders delivered captured (k, item)) s (\<lambda>y _. \<forall>r. y = Some r \<longrightarrow> re_order_item r = k \<and>
     0 < re_quantity_returned r \<and> (case re_refund_amount r of Some a \<Rightarrow> 0 \<le> a | None \<Rightarrow> True) \<and>
     so_order_status (orders ! oi_order item) \<in> {OS_DELIVERED, OS_RETURNED})"
proof -
  have refund: "0 \<le> round_currency (oi_unit_price item * of_int q)" if "1 \<le> q" for q
    using assms(2) that by (intro round_currency_nonneg mult_nonneg_nonneg) auto
  have status: "gives (is_eligible_for_return cfg st) s' (\<lambda>b _. b \<longrightarrow> st \<in> {OS_DELIVERED, OS_RETURNED})" for st s'
    unfolding is_eligible_for_return_def by (intro gives_intros) auto
  show ?thesis unfolding return_item_def assign_return_reason_def assign_return_status_def weighted_pick_def Let_def prod.case
    by (intro gives_if gives_bind gives_option gives_mono [OF status] gives_weighted gives_randint gives_return)
      (use assms refund in \<open>auto simp: RETURN_WINDOW_DAYS_def RETURN_STATUS_WEIGHTS_def RETURN_REASON_WEIGHTS_def\<close>)
qed

abbreviation return_of :: "shop_order list \<Rightarrow> order_item \<Rightarrow> return_row \<Rightarrow> bool" where
  "return_of orders item r \<equiv> 0 < re_quantity_returned r \<and> (case re_refund_amount r of Some a \<Rightarrow> 0 \<le> a | None \<Rightarrow> True) \<and>
     so_order_status (orders ! oi_order item) \<in> {OS_DELIVERED, OS_RETURNED}"

lemma returns_give:
  assumes "0 \<le> n" "order_items_ok orders products items"
  shows "gives (generate_returns n orders items shipments payments cfg) s (\<lambda>rs _. returns_ok items rs \<and>
    (\<forall>r\<in>set rs. return_of orders (items ! re_order_item r) r))"
proof -
  let ?R = "\<lambda>x y. \<forall>r. y = Some r \<longrightarrow> re_order_item r = fst x \<and> return_of orders (snd x) r"
  have step: "gives (return_item cfg orders (delivered_at_by_order shipments) (captured_by_order payments) x) s' (\<lambda>y _. ?R x y)"
    if "x \<in> set (enumerate 0 items)" for x s'
  proof -
    obtain k item where x: "x = (k, item)" by fastforce
    then have "item \<in> set items" using that by (auto simp: enumerate_entries)
    then have "1 \<le> oi_quantity item" "0 \<le> oi_unit_price item"
      using assms(2) by (auto simp: order_items_ok_def list_all_iff int_one_le_iff_zero_less)
    then show ?thesis unfolding x fst_conv snd_conv by (rule return_item_gives)
  qed
  have kept: "returns_ok items (List.map_filter id ys) \<and>
      (\<forall>r\<in>set (List.map_filter id ys). return_of orders (items ! re_order_item r) r)"
    if ys: "list_all2 ?R (enumerate 0 items) ys" for ys
  proof -
    have "re_order_item r < length items \<and> return_of orders (items ! re_order_item r) r"
      if "r \<in> set (List.map_filter id ys)" for r
      using kept_rows [OF ys] that by force
    then show ?thesis unfolding returns_ok_def list_all_iff has_row_def by blast
  qed
  show ?thesis unfolding generate_returns_def
    by (intro gives_with_count gives_bind gives_each [OF step] gives_return kept assms(1))
qed

text \<open>What the validator uses of the rows written after the sales.\<close>

definition fulfilment_sound ::
  "warehouse list \<Rightarrow> product list \<Rightarrow> customer list \<Rightarrow> shop_order list \<Rightarrow> order_item list \<Rightarrow>
   payment list \<Rightarrow> shipment list \<Rightarrow> product_review list \<Rightarrow> return_row list \<Rightarrow> bool" where
  "fulfilment_sound warehouses products customers orders items payments shipments reviews returns \<longleftrightarrow>
     payments \<noteq> [] \<and> payments_ok orders payments \<and> shipments_ok orders warehouses shipments \<and>
     reviews_ok products customers items reviews \<and> returns_ok items returns \<and>
     (\<forall>p\<in>set payments. pa_amount p = so_total_amount (orders ! pa_order p)) \<and>
     (\<forall>r\<in>set reviews. review_of orders shipments (items ! rv_order_item r) r) \<and>
     (\<forall>r\<in>set returns. return_of orders (items ! re_order_item r) r)"

lemma fulfilment_stage_gives:
  assumes "seedable cfg" "warehouses \<noteq> []" "sales_sound customers promotions products orders items"
  shows "gives (seed_fulfilment cfg warehouses products customers orders items) s (\<lambda>(payments, shipments, reviews, returns) _.
    fulfilment_sound warehouses products customers orders items payments shipments reviews returns)"
proof -
  have sales: "orders \<noteq> []" "order_items_ok orders products items" "list_all (\<lambda>r. 0 \<le> so_total_amount r) orders"
    "list_all (\<lambda>r. has_row (so_customer r) customers) orders"
    using assms(3) by (auto simp: sales_sound_def orders_ok_def list_all_iff)
  show ?thesis unfolding seed_fulfilment_def Let_def
    by (intro gives_bind gives_persist gives_return gives_mono [OF payments_give] gives_mono [OF shipments_give]
         gives_mono [OF reviews_give] gives_mono [OF returns_give])
      (use seedable_sizes [OF assms(1)] assms(2) sales in \<open>auto simp: fulfilment_sound_def\<close>)
qed

end
