(* ===== verification/Seed_Properties.thy ===== *)
theory Seed_Properties
  imports Seed_Fulfilment
begin

text \<open>
  The property of the seeder: a run on a configuration it can run on does not raise, whatever is drawn,
  and leaves a data set that satisfies the constraints of the tables and the checks of the validator.
\<close>

section \<open>The validator on a sound data set\<close>

definition constraints_hold :: "dataset \<Rightarrow> bool" where
  "constraints_hold d \<longleftrightarrow> suppliers_ok (da_suppliers d) \<and> warehouses_ok (da_warehouses d) \<and> categories_ok (da_categories d) \<and>
     products_ok (da_categories d) (da_suppliers d) (da_products d) \<and>
     inventory_ok (da_products d) (da_warehouses d) (da_inventory d) \<and> customers_ok (da_customers d) \<and>
     addresses_ok (da_customers d) (da_addresses d) \<and> promotions_ok (da_promotions d) \<and>
     orders_ok (da_customers d) (da_promotions d) (da_orders d) \<and>
     order_items_ok (da_orders d) (da_products d) (da_items d) \<and> payments_ok (da_orders d) (da_payments d) \<and>
     shipments_ok (da_orders d) (da_warehouses d) (da_shipments d) \<and>
     reviews_ok (da_products d) (da_customers d) (da_items d) (da_reviews d) \<and> returns_ok (da_items d) (da_returns d)"

definition dataset_sound :: "dataset \<Rightarrow> bool" where
  "dataset_sound d \<longleftrightarrow> constraints_hold d \<and>
     sales_sound (da_customers d) (da_promotions d) (da_products d) (da_orders d) (da_items d) \<and>
     fulfilment_sound (da_warehouses d) (da_products d) (da_customers d) (da_orders d) (da_items d)
       (da_payments d) (da_shipments d) (da_reviews d) (da_returns d) \<and>
     da_suppliers d \<noteq> [] \<and> da_warehouses d \<noteq> [] \<and> da_categories d \<noteq> [] \<and> da_products d \<noteq> [] \<and> da_inventory d \<noteq> [] \<and>
     da_customers d \<noteq> [] \<and> da_promotions d \<noteq> []"

lemma joined_row: "has_row k rows \<Longrightarrow> joined k rows = [rows ! k]"
  by (simp add: has_row_def joined_def)

lemma count_check_passed: "vc_passed (count_check name n what) \<longleftrightarrow> n = 0"
  by (simp add: count_check_def)

lemma item_order_row:
  assumes "order_items_ok (da_orders d) (da_products d) (da_items d)" "has_row k (da_items d)"
  shows "item_order d k = [(oi_order (da_items d ! k), da_orders d ! oi_order (da_items d ! k))]"
proof -
  have "has_row (oi_order (da_items d ! k)) (da_orders d)"
    using assms by (auto simp: order_items_ok_def list_all_length has_row_def)
  then show ?thesis using assms(2) by (simp add: item_order_def joined_row)
qed

lemma orphans_pass:
  assumes "constraints_hold d"
  shows "vc_passed (check_no_orphan_orders d)" "vc_passed (check_no_orphan_order_items d)" "vc_passed (check_inventory_non_negative d)"
  using assms
  by (auto simp: check_no_orphan_orders_def check_no_orphan_order_items_def check_inventory_non_negative_def count_check_passed
      constraints_hold_def orders_ok_def order_items_ok_def inventory_ok_def list_all_iff filter_empty_conv joined_row)

lemma amounts_pass:
  assumes "dataset_sound d"
  shows "vc_passed (check_order_totals d)" "vc_passed (check_payment_amounts d)"
proof -
  show "vc_passed (check_order_totals d)"
    using assms by (auto simp: check_order_totals_def count_check_passed filter_empty_conv enumerate_entries dataset_sound_def sales_sound_def)
  show "vc_passed (check_payment_amounts d)"
    using assms by (auto simp: check_payment_amounts_def count_check_passed filter_empty_conv dataset_sound_def fulfilment_sound_def
        joined_def split: if_splits)
qed

lemma review_rows:
  assumes "dataset_sound d" "r \<in> set (da_reviews d)"
  shows "item_order d (rv_order_item r) =
      [(oi_order (da_items d ! rv_order_item r), da_orders d ! oi_order (da_items d ! rv_order_item r))]"
    "so_order_status (da_orders d ! oi_order (da_items d ! rv_order_item r)) = OS_DELIVERED"
    "s \<in> set (da_shipments d) \<Longrightarrow> sm_order s = oi_order (da_items d ! rv_order_item r) \<Longrightarrow> sm_delivered_at s = Some t \<Longrightarrow>
      t < rv_review_date r"
proof -
  have "has_row (rv_order_item r) (da_items d)" "order_items_ok (da_orders d) (da_products d) (da_items d)"
    using assms by (auto simp: dataset_sound_def constraints_hold_def reviews_ok_def list_all_iff)
  then show "item_order d (rv_order_item r) =
      [(oi_order (da_items d ! rv_order_item r), da_orders d ! oi_order (da_items d ! rv_order_item r))]"
    by (intro item_order_row)
  have r: "review_of (da_orders d) (da_shipments d) (da_items d ! rv_order_item r) r"
    using assms by (simp add: dataset_sound_def fulfilment_sound_def)
  then show "so_order_status (da_orders d ! oi_order (da_items d ! rv_order_item r)) = OS_DELIVERED" by blast
  assume "s \<in> set (da_shipments d)" "sm_order s = oi_order (da_items d ! rv_order_item r)" "sm_delivered_at s = Some t"
  with delivered_at_latest r show "t < rv_review_date r" by fastforce
qed

lemma eligibility_passes:
  assumes "dataset_sound d"
  shows "vc_passed (check_review_eligibility d)" "vc_passed (check_return_eligibility d)"
proof -
  have rows: "concat (map (\<lambda>r. map (Pair r) (item_order d (rv_order_item r))) (da_reviews d)) =
      map (\<lambda>r. (r, oi_order (da_items d ! rv_order_item r), da_orders d ! oi_order (da_items d ! rv_order_item r))) (da_reviews d)"
    using review_rows(1) [OF assms] by (induction "da_reviews d") (auto cong: map_cong)
  show "vc_passed (check_review_eligibility d)"
    unfolding check_review_eligibility_def Let_def rows
    using review_rows(2,3) [OF assms]
    by (fastforce simp: filter_empty_conv map_filter_def split: if_splits)
  have "has_row (re_order_item r) (da_items d) \<and> return_of (da_orders d) (da_items d ! re_order_item r) r"
    if "r \<in> set (da_returns d)" for r
    using assms that by (auto simp: dataset_sound_def fulfilment_sound_def constraints_hold_def returns_ok_def list_all_iff)
  then show "vc_passed (check_return_eligibility d)"
    using assms item_order_row [of d]
    by (auto simp: check_return_eligibility_def count_check_passed filter_empty_conv dataset_sound_def constraints_hold_def)
qed

lemma sound_validation:
  assumes "dataset_sound d"
  shows "list_all vc_passed (tl (validate_dataset d))"
    "all_passed (validate_dataset d) \<longleftrightarrow>
      da_addresses d \<noteq> [] \<and> da_shipments d \<noteq> [] \<and> da_reviews d \<noteq> [] \<and> da_returns d \<noteq> []"
proof -
  show passed: "list_all vc_passed (tl (validate_dataset d))"
    using orphans_pass amounts_pass eligibility_passes assms by (simp add: validate_dataset_def dataset_sound_def)
  have "vc_passed (check_row_counts d) \<longleftrightarrow>
      da_addresses d \<noteq> [] \<and> da_shipments d \<noteq> [] \<and> da_reviews d \<noteq> [] \<and> da_returns d \<noteq> []"
    using assms by (simp add: check_row_counts_def row_counts_def dataset_sound_def sales_sound_def fulfilment_sound_def)
  with passed show "all_passed (validate_dataset d) \<longleftrightarrow>
      da_addresses d \<noteq> [] \<and> da_shipments d \<noteq> [] \<and> da_reviews d \<noteq> [] \<and> da_returns d \<noteq> []"
    by (simp add: all_passed_def validate_dataset_def)
qed

section \<open>A run\<close>

definition effective_config :: "seed_config \<Rightarrow> scenario_profile option \<Rightarrow> seed_config" where
  "effective_config base scenario = (case scenario of Some sp \<Rightarrow> apply_scenario sp base | None \<Rightarrow> base)"

lemma run_gives_sound:
  assumes "inj (fk_text fk ''unique.email'')" "seedable (effective_config base scenario)"
  shows "gives (run_orchestrator fk base scenario) s (\<lambda>d _. dataset_sound d)"
  unfolding run_orchestrator_def effective_config_def [symmetric] Let_def
  by (intro gives_bind gives_pair gives_return gives_mono [OF catalog_gives [OF assms(2)]]
       gives_mono [OF customers_stage_gives [OF assms(2,1)]] gives_mono [OF sales_stage_gives [OF assms(2)]]
       gives_mono [OF fulfilment_stage_gives [OF assms(2)]])
    (auto simp: dataset_sound_def constraints_hold_def sales_sound_def fulfilment_sound_def)

text \<open>Every scenario of the catalogue can be run on every preset.\<close>

lemma standard_runs_seedable:
  "list_all (\<lambda>sp. list_all (\<lambda>z. seedable (apply_scenario sp (default_seed_config\<lparr> sc_dataset_size := z \<rparr>)))
     (default_dataset_size # map snd DATASET_SIZE_PRESETS)) STANDARD_SCENARIOS"
  by (simp add: STANDARD_SCENARIOS_def DATASET_SIZE_PRESETS_def DEFAULT_SCENARIO_def HOLIDAY_SEASON_def BLACK_FRIDAY_def
      INVENTORY_SHORTAGE_def HIGH_RETURNS_def GROWTH_YEAR_def apply_scenario_def no_overrides_def or_default_def
      default_seed_config_def default_dataset_size_def seedable_def valid_seed_config_def valid_dataset_size_def in_unit_def
      day_of_def ordinal_of_def days_before_year_def days_before_month_def days_in_month_def is_leap_def upto.simps Let_def)

text \<open>A scenario with sizes of its own replaces the preset chosen on the command line.\<close>

lemma scenario_discards_preset:
  "dz_orders (sc_dataset_size (effective_config (build_config args base) (Some GROWTH_YEAR))) = 48000"
  "dz_orders (sc_dataset_size (effective_config (build_config args base) (Some INVENTORY_SHORTAGE))) = 30000"
  by (simp_all add: effective_config_def apply_scenario_def GROWTH_YEAR_def INVENTORY_SHORTAGE_def or_default_def
      default_dataset_size_def Let_def)

section \<open>Seeding is sound\<close>

text \<open>
  C25. For a configuration that can be run, and unique e-mail addresses, the orchestrator does not raise
  whatever is drawn: no generator refuses its input, no \<open>randint\<close> is called on an empty range and no
  write violates a constraint of its table. The data set it returns satisfies every unique, foreign key
  and check constraint, no discount exceeds its subtotal, and every check of the validator passes except
  perhaps the first, which counts rows: that one passes exactly when an address, a shipment, a review and
  a return were generated.
\<close>
theorem seeding_sound:
  assumes "inj (fk_text fk ''unique.email'')" "seedable (effective_config base scenario)"
  shows "\<exists>d s'. run_orchestrator fk base scenario s = (Inr d, s') \<and> constraints_hold d \<and>
    list_all (\<lambda>r. so_discount_amount r \<le> so_subtotal_amount r) (da_orders d) \<and>
    list_all vc_passed (tl (validate_dataset d)) \<and>
    (all_passed (validate_dataset d) \<longleftrightarrow>
      da_addresses d \<noteq> [] \<and> da_shipments d \<noteq> [] \<and> da_reviews d \<noteq> [] \<and> da_returns d \<noteq> [])"
proof -
  obtain d s' where d: "run_orchestrator fk base scenario s = (Inr d, s')" "dataset_sound d"
    using run_gives_sound [OF assms, of s] by (auto simp: gives_def)
  then have "list_all (\<lambda>r. so_discount_amount r \<le> so_subtotal_amount r) (da_orders d)"
    unfolding dataset_sound_def sales_sound_def list_all_length by blast
  with d sound_validation [OF d(2)] show ?thesis by (auto simp: dataset_sound_def)
qed

lemma holiday_season_seedable: "seedable (effective_config default_seed_config (Some HOLIDAY_SEASON))"
  using standard_runs_seedable
  by (simp add: effective_config_def STANDARD_SCENARIOS_def default_seed_config_def)

theorem seeding_sound_witness:
  "\<exists>d s'. run_orchestrator \<lparr> fk_text = (\<lambda>_ k. replicate k (CHR ''x'')), fk_date = (\<lambda>_ _. 1) \<rparr> default_seed_config (Some HOLIDAY_SEASON)
      \<lparr> ss_words = sconst 7, ss_fakes = 0 \<rparr> = (Inr d, s') \<and> constraints_hold d \<and> list_all vc_passed (tl (validate_dataset d))"
proof -
  have "inj (\<lambda>k. replicate k (CHR ''x''))" by (auto intro!: injI dest: arg_cong [of _ _ length])
  then show ?thesis
    using seeding_sound [OF _ holiday_season_seedable, of "\<lparr> fk_text = (\<lambda>_ k. replicate k (CHR ''x'')), fk_date = (\<lambda>_ _. 1) \<rparr>"
        "\<lparr> ss_words = sconst 7, ss_fakes = 0 \<rparr>"] by auto
qed

end
