(* ===== verification/Spec2Isabelle.thy ===== *)
theory Spec2Isabelle
  imports Rate_Limiter Auth_Accounts Llm_Properties Container_Properties Streaming_Properties Retrieval_Properties Nlu_Properties Metadata_Extractor Api_Edge Seed_Properties
begin

text \<open>
  Verification of the QueryMind backend (\<open>src/src/querymind\<close>), which answers business questions in
  natural language: a question is parsed (\<open>nlu\<close>), its concepts are linked to the schema
  (\<open>schema_linker\<close>, \<open>metadata\<close>), examples are retrieved (\<open>retrieval\<close>, \<open>query_library\<close>,
  \<open>business_knowledge\<close>), a prompt is compiled within a budget (\<open>prompt_compiler\<close>), a language model is
  asked (\<open>llm\<close>), SQL is extracted (\<open>sql_generation\<close>), validated (\<open>sql_validation\<close>), repaired
  (\<open>sql_repair\<close>), executed read-only (\<open>sql_execution\<close>) and its result formatted
  (\<open>result_formatter\<close>). \<open>orchestrator\<close> runs the stages, \<open>api/container.py\<close> wires them, \<open>streaming\<close>
  reports progress, and \<open>api\<close> with \<open>auth\<close>, \<open>security\<close> and \<open>observability\<close> is the HTTP service around
  them.

  \<^bold>\<open>Conventions.\<close> An operation that may raise returns a sum with the exception on the left; one that
  also changes state is of type \<open>op\<close> (\<open>Prelude\<close>): it takes the state and returns the sum and the new
  state. Strings are lists of characters with code points below 256, floats are reals, Python's
  integers are \<open>int\<close> or, where they count, \<open>nat\<close>, dictionaries are association lists in insertion
  order. Times are arguments or part of the state; within one HTTP request no time passes. The texts
  of exceptions and log messages are dropped or are parameters. No definition uses fuel: loops are
  structural or have a termination proof. The repair loop is bounded by its number of attempts, the
  breadth-first search by the tables not visited, the matcher of regular expressions by the
  characters left. Third-party code is an argument: \<open>crypto\<close> (PyJWT, argon2, bcrypt, SHA-256, uuid4,
  secrets), \<open>sqlglot\<close>, the database driver, httpx, the YAML and file readers, SQLAlchemy's mapped
  classes, the order of set iteration and the printing of floats. FastAPI's and Starlette's order of
  calls is written out in \<open>Api_Routes\<close>; what pydantic makes of a body is an argument.

  \<^bold>\<open>Theories, by component.\<close>
  \<^item> \<open>Prelude\<close>, \<open>Regex\<close>, \<open>Calendar\<close>, \<open>Difflib\<close>, \<open>Json\<close>: what the source uses of Python and its
    library: results and operations, string methods, the regular expressions of \<open>re\<close>, \<open>datetime\<close>,
    \<open>difflib.SequenceMatcher\<close> and \<open>json\<close>.
  \<^item> \<open>Rate_Limiter\<close> (\<open>security/rate_limiter.py\<close>): the token bucket; a bound on what any interval of
    time admits.
  \<^item> \<open>Auth_Model\<close>, \<open>Auth_Service\<close> (\<open>auth/\<close>): tables with their constraints, tokens, passwords, API
    keys and every operation of the service. \<open>Auth_Sessions\<close>, \<open>Auth_Properties\<close>, \<open>Auth_Accounts\<close>:
    runs of arbitrary operations keep the constraints, spent refresh tokens and revoked keys are dead
    for ever, a key is revoked only by its owner or an administrator, tokens and keys make round
    trips, and the races of the code. A locale of state orders carries the proofs over all operations.
  \<^item> \<open>Data_Model\<close>, \<open>Cache\<close>: the shared records and the contract of the caches (a locale, interpreted
    on the in-memory and the no-op cache).
  \<^item> \<open>Knowledge\<close>, \<open>Query_Library\<close>, \<open>Metadata_Extractor\<close>: registries, loaders, catalogues, search,
    validation and the extraction of the schema from mapped classes; extraction does not depend on
    the order of classes.
  \<^item> \<open>Nlu\<close>, \<open>Nlu_Properties\<close>: normaliser, extractors and parser; which questions are refused, which
    row limit the others have, that vocabulary matches are disjoint and that calendar periods tile the calendar.
  \<^item> \<open>Schema_Linker\<close>, \<open>Join_Path\<close>, \<open>Linker_Properties\<close>: matching, confidence, ambiguity and join
    paths; every concept of a question has one answer, links are sound and paths shortest.
  \<^item> \<open>Retrieval\<close>, \<open>Retrieval_Properties\<close>: the signals, scores and ranking; the best examples are
    returned and the cache cannot be observed.
  \<^item> \<open>Prompt_Compiler\<close>, \<open>Prompt_Budget\<close>, \<open>Prompt_Properties\<close>: sections, budget and cache; required
    text survives and the budget's contract holds.
  \<^item> \<open>Llm_Adapter\<close>, \<open>Llm_Properties\<close>: transport, providers and retries; exactly the retryable errors
    are retried, finitely often.
  \<^item> \<open>Sql_Generation\<close>, \<open>Sql_Validation\<close>, \<open>Validation_Properties\<close>, \<open>Sql_Repair\<close>,
    \<open>Repair_Properties\<close>, \<open>Sql_Execution\<close>, \<open>Execution_Properties\<close>: SQL from the model's answer to
    the rows; valid SQL respects the schema, the repair loop ends within its attempts, only
    reads reach the database, and the result names what the observed driver did.
  \<^item> \<open>Result_Formatter\<close> (\<open>result_formatter/\<close>): values, tables, summaries and the type of an answer.
  \<^item> \<open>Pipeline\<close>, \<open>Pipeline_Properties\<close> (\<open>orchestrator/\<close>), \<open>Container\<close>, \<open>Container_Properties\<close>
    (\<open>api/container.py\<close>): the stages as one run; listening does not change a run, every exception
    becomes a response, and the composed application executes validated reads only.
  \<^item> \<open>Event_Bus\<close>, \<open>Streaming\<close>, \<open>Streaming_Properties\<close> (\<open>streaming/\<close>): the bus refines one log of
    publications, and a step relation for producer, consumer and heartbeats delivers every run.
  \<^item> \<open>Metrics\<close>, \<open>Observability\<close> (\<open>observability/\<close>): metrics, profiler, benchmark, logging, health and
    diagnostics; a snapshot is the summary of the history of recordings.
  \<^item> \<open>Api_Access\<close>, \<open>Api_Routes\<close> (\<open>api/\<close>, \<open>security/audit.py\<close>): client information, audit log,
    dependencies, exception handlers, middleware and routes. \<open>Api_Audit\<close>: the audit table cannot be
    observed by clients. \<open>Api_Gate\<close>: only analysts reach the pipeline. \<open>Api_Limits\<close>: password
    guesses are bounded and refused clients are told when to return. \<open>Api_Edge\<close>: the WebSocket gate
    and the cases the headers and the audit table do not cover.
  \<^item> \<open>Seed_Rules\<close>, \<open>Seed_Data\<close>, \<open>Seed_Run\<close> (\<open>seeds/\<close>, \<open>models/\<close>, \<open>scripts/seed_database.py\<close>): the
    generator of the demonstration data, the constraints of its tables, the report and the validator.
    Draws read a stream of words over which the theorems quantify; Faker is a parameter. \<open>Seed_Laws\<close>:
    the calculus for draws that may raise, and the laws of rounding. \<open>Seed_Stages\<close>, \<open>Seed_Catalog\<close>,
    \<open>Seed_People\<close>, \<open>Seed_Sales\<close>, \<open>Seed_Fulfilment\<close>: what each of the fourteen generators promises.
    \<open>Seed_Properties\<close>: a run does not raise and its data satisfy the constraints and the validator.

  \<^bold>\<open>Not modelled.\<close> Entry points, configuration and logging set-up, database engine and sessions
  (configuration of third-party code); the serialisers (calls of pydantic and yaml); the
  migrations (generated DDL); the settings
  page and the liveness endpoint (they echo configuration); the web client (not Python). Widths of the columns of the authentication
  tables, Unicode beyond the first 256 code points and rounding of floats are not modelled either.
\<close>

end
